(* ===== verification/Go_Prelude.thy ===== *)
theory Go_Prelude
  imports Main "HOL-Library.Sublist" "HOL-Library.Char_ord" "HOL-Library.List_Lexorder"
begin

text \<open>
  The vocabulary every component shares: Go strings and the functions of the standard
  library's package strings that the code calls, with their laws.

  A Go string is a sequence of bytes; here it is a \<open>string\<close>, a list of
  8-bit characters holding the UTF-8 encoding. White space is Unicode's, recognised by
  its encoded bytes, as TrimSpace and Fields recognise it. Lower casing and case folding
  are exact on ASCII and on the code points whose lower case or fold is an ASCII letter
  (Kelvin sign, long s, dotted capital I); other letters keep their bytes, which
  no comparison with an ASCII constant can observe.
\<close>

section \<open>Hints\<close>

named_theorems go_str \<open>laws of the string functions\<close>
named_theorems go_ptr \<open>laws of pointers and of updates through them\<close>

section \<open>Pointers\<close>

text \<open>
  A pointer that may be nil is an option. A method that returns early on a nil receiver and
  otherwise updates the value in place is \<open>through_ptr f\<close>.
\<close>

abbreviation through_ptr :: "('a \<Rightarrow> 'a) \<Rightarrow> 'a option \<Rightarrow> 'a option" where
  "through_ptr \<equiv> map_option"

abbreviation ptr_query :: "'b \<Rightarrow> ('a \<Rightarrow> 'b) \<Rightarrow> 'a option \<Rightarrow> 'b" where
  "ptr_query \<equiv> case_option"

section \<open>White space\<close>

definition white_space :: "string list" where
  "white_space =
     [[CHR 0x09], [CHR 0x0A], [CHR 0x0B], [CHR 0x0C], [CHR 0x0D], [CHR 0x20],
      [CHR 0xC2, CHR 0x85], [CHR 0xC2, CHR 0xA0], [CHR 0xE1, CHR 0x9A, CHR 0x80],
      [CHR 0xE2, CHR 0x80, CHR 0x80], [CHR 0xE2, CHR 0x80, CHR 0x81],
      [CHR 0xE2, CHR 0x80, CHR 0x82], [CHR 0xE2, CHR 0x80, CHR 0x83],
      [CHR 0xE2, CHR 0x80, CHR 0x84], [CHR 0xE2, CHR 0x80, CHR 0x85],
      [CHR 0xE2, CHR 0x80, CHR 0x86], [CHR 0xE2, CHR 0x80, CHR 0x87],
      [CHR 0xE2, CHR 0x80, CHR 0x88], [CHR 0xE2, CHR 0x80, CHR 0x89],
      [CHR 0xE2, CHR 0x80, CHR 0x8A], [CHR 0xE2, CHR 0x80, CHR 0xA8],
      [CHR 0xE2, CHR 0x80, CHR 0xA9], [CHR 0xE2, CHR 0x80, CHR 0xAF],
      [CHR 0xE2, CHR 0x81, CHR 0x9F], [CHR 0xE3, CHR 0x80, CHR 0x80]]"

definition leading :: "string list \<Rightarrow> string \<Rightarrow> string option" where
  "leading W s = find (\<lambda>w. w \<noteq> [] \<and> prefix w s) W"

lemma leading_Some:
  "leading W s = Some w \<Longrightarrow> w \<noteq> [] \<and> w \<in> set W \<and> prefix w s"
  by (auto simp: leading_def find_Some_iff)

lemma leading_None:
  "leading W s = None \<longleftrightarrow> (\<forall>w\<in>set W. w \<noteq> [] \<longrightarrow> \<not> prefix w s)"
  by (auto simp: leading_def find_None_iff)

lemma leading_Nil [simp]: "leading W [] = None"
  by (auto simp: leading_None)

lemma leading_shrinks: "leading W s = Some w \<Longrightarrow> length (drop (length w) s) < length s"
  by (drule leading_Some) (auto elim: prefixE)

function strip_with :: "string list \<Rightarrow> string \<Rightarrow> string" where
  "strip_with W s =
     (case leading W s of None \<Rightarrow> s | Some w \<Rightarrow> strip_with W (drop (length w) s))"
  by pat_completeness auto
termination
  by (relation "measure (\<lambda>(W, s). length s)") (auto dest: leading_shrinks)

declare strip_with.simps [simp del]

lemma strip_with_Nil [simp]: "strip_with W [] = []"
  by (subst strip_with.simps) simp

lemma strip_with_fix: "leading W s = None \<Longrightarrow> strip_with W s = s"
  by (subst strip_with.simps) simp

lemma strip_with_done: "leading W (strip_with W s) = None"
proof (induction W s rule: strip_with.induct)
  case (1 W s)
  then show ?case
    by (cases "leading W s") (simp_all add: strip_with.simps [of W s])
qed

lemma strip_with_suffix: "suffix (strip_with W s) s"
proof (induction W s rule: strip_with.induct)
  case (1 W s)
  show ?case
  proof (cases "leading W s")
    case None
    then show ?thesis by (simp add: strip_with_fix)
  next
    case (Some w)
    with 1 have "suffix (strip_with W (drop (length w) s)) (drop (length w) s)" by simp
    then have "suffix (strip_with W (drop (length w) s)) s"
      using suffix_drop suffix_order.trans by blast
    with Some show ?thesis by (simp add: strip_with.simps [of W s])
  qed
qed

definition trim_left :: "string \<Rightarrow> string" where
  "trim_left s = strip_with white_space s"

definition trim_right :: "string \<Rightarrow> string" where
  "trim_right s = rev (strip_with (map rev white_space) (rev s))"

definition trim :: "string \<Rightarrow> string" where
  "trim s = trim_right (trim_left s)"

lemma trim_right_prefix: "prefix (trim_right s) s"
  unfolding trim_right_def
  by (metis rev_rev_ident strip_with_suffix suffix_to_prefix)

lemma leading_prefix_None:
  "leading W t = None \<Longrightarrow> prefix s t \<Longrightarrow> leading W s = None"
  unfolding leading_None by (meson prefix_order.trans)

lemma trim_right_idem: "trim_right (trim_right s) = trim_right s"
  by (simp add: trim_right_def strip_with_fix strip_with_done)

lemma trim_left_trim: "trim_left (trim s) = trim s"
proof -
  have "leading white_space (trim_left s) = None"
    by (simp add: trim_left_def strip_with_done)
  then have "leading white_space (trim s) = None"
    unfolding trim_def using trim_right_prefix by (rule leading_prefix_None)
  then show ?thesis by (simp add: trim_left_def strip_with_fix)
qed

lemma trim_trim [simp, go_str]: "trim (trim s) = trim s"
proof -
  have "trim (trim s) = trim_right (trim s)"
    by (simp add: trim_def [of "trim s"] trim_left_trim)
  also have "\<dots> = trim s"
    unfolding trim_def by (rule trim_right_idem)
  finally show ?thesis .
qed

lemma trim_Nil [simp, go_str]: "trim [] = []"
  by (simp add: trim_def trim_left_def trim_right_def)

text \<open>A string whose first and last bytes begin and end no white space is its own trim.\<close>

definition space_heads :: "char set" where
  "space_heads = set (map hd white_space)"

definition space_lasts :: "char set" where
  "space_lasts = set (map last white_space)"

lemma leading_hd: "leading W s = Some w \<Longrightarrow> hd s \<in> set (map hd W)"
  by (drule leading_Some) (metis hd_append2 image_eqI image_set prefixE)

lemma leading_last:
  assumes "leading (map rev W) (rev s) = Some w"
  shows "last s \<in> set (map last W)"
proof -
  from assms have "hd (rev s) \<in> set (map hd (map rev W))" by (rule leading_hd)
  then show ?thesis by (auto simp: hd_rev)
qed

lemma trim_id:
  assumes "hd s \<notin> space_heads" "last s \<notin> space_lasts"
  shows "trim s = s"
proof -
  have l: "leading white_space s = None"
    using assms(1) leading_hd unfolding space_heads_def by fastforce
  then have "trim_left s = s" by (simp add: trim_left_def strip_with_fix)
  moreover have "leading (map rev white_space) (rev s) = None"
    using assms(2) leading_last unfolding space_lasts_def by fastforce
  ultimately show ?thesis by (simp add: trim_def trim_right_def strip_with_fix)
qed

lemmas trim_literal = trim_id space_heads_def space_lasts_def white_space_def

text \<open>Gluing text in front of a trimmed tail keeps it trimmed when the seam is not white space.\<close>

definition space_bytes :: "char set" where
  "space_bytes = \<Union> (set ` set white_space)"

lemma leading_rev_seam:
  assumes "leading (map rev W) (rev t) = None" "\<forall>w\<in>set W. c \<notin> set w"
  shows "leading (map rev W) (rev (p @ c # t)) = None"
proof (rule ccontr)
  assume "leading (map rev W) (rev (p @ c # t)) \<noteq> None"
  then obtain w where w: "w \<in> set W" "w \<noteq> []" "prefix (rev w) (rev t @ c # rev p)"
    unfolding leading_None by auto
  have "\<not> length t < length w"
  proof
    assume "length t < length w"
    moreover from w(3) obtain z where "rev t @ c # rev p = rev w @ z" by (auto elim: prefixE)
    ultimately have "c = rev w ! length t"
      by (metis length_rev nth_append nth_append_length)
    with \<open>length t < length w\<close> have "c \<in> set w"
      by (metis length_rev nth_mem set_rev)
    with assms(2) w(1) show False by blast
  qed
  with w(3) have "prefix (rev w) (rev t)"
    using prefix_length_prefix [of "rev w" "rev t @ c # rev p" "rev t"] by simp
  with assms(1) w(1,2) show False unfolding leading_None by force
qed

lemma trim_fixD: "trim t = t \<Longrightarrow> leading (map rev white_space) (rev t) = None"
  by (metis rev_rev_ident strip_with_done trim_def trim_right_def)

lemma trim_glue:
  assumes t: "trim t = t" and p: "p \<noteq> []" "hd p \<notin> space_heads" "last p \<notin> space_bytes"
  shows "trim (p @ t) = p @ t"
proof -
  have "leading white_space (p @ t) = None"
    using leading_hd [of white_space "p @ t"] p(1,2) unfolding space_heads_def
    by (cases "leading white_space (p @ t)") auto
  then have "trim_left (p @ t) = p @ t" by (simp add: trim_left_def strip_with_fix)
  moreover obtain q c where q: "p = q @ [c]" using p(1) by (metis rev_exhaust)
  have "\<forall>w\<in>set white_space. c \<notin> set w"
    using p(3) by (auto simp: space_bytes_def q)
  then have "leading (map rev white_space) (rev (q @ c # t)) = None"
    using trim_fixD [OF t] by (intro leading_rev_seam)
  then have "trim_right (p @ t) = p @ t" by (simp add: trim_right_def q strip_with_fix)
  ultimately show ?thesis by (simp add: trim_def)
qed

lemma trim_set: "set (trim s) \<subseteq> set s"
proof -
  have "set (trim s) \<subseteq> set (trim_left s)"
    unfolding trim_def using trim_right_prefix by (rule set_mono_prefix)
  also have "\<dots> \<subseteq> set s"
    unfolding trim_left_def using strip_with_suffix by (rule set_mono_suffix)
  finally show ?thesis .
qed

lemma trim_length: "length (trim s) \<le> length s"
proof -
  have "length (trim s) \<le> length (trim_left s)"
    unfolding trim_def using trim_right_prefix by (rule prefix_length_le)
  also have "\<dots> \<le> length s"
    unfolding trim_left_def using strip_with_suffix by (rule suffix_length_le)
  finally show ?thesis .
qed

abbreviation blank :: "string \<Rightarrow> bool" where
  "blank s \<equiv> trim s = []"

section \<open>Lower case and case folding\<close>

definition ascii_lower :: "char \<Rightarrow> char" where
  "ascii_lower c =
     (if CHR ''A'' \<le> c \<and> c \<le> CHR ''Z'' then char_of (of_char c + 32 :: nat) else c)"

definition kelvin_sign :: string where "kelvin_sign = [CHR 0xE2, CHR 0x84, CHR 0xAA]"
definition dotted_capital_i :: string where "dotted_capital_i = [CHR 0xC4, CHR 0xB0]"
definition long_s :: string where "long_s = [CHR 0xC5, CHR 0xBF]"

text \<open>
  The standard library's ToLower, on text whose capitals are ASCII or have an ASCII lower case
  (the Kelvin sign and the dotted I). Other letters are left as they are: the code lowers only
  chat types, backend names and keywords, which are ASCII.
\<close>

fun to_lower :: "string \<Rightarrow> string" where
  "to_lower (a # b # c # s) =
     (if [a, b, c] = kelvin_sign then CHR ''k'' # to_lower s
      else if [a, b] = dotted_capital_i then CHR ''i'' # to_lower (c # s)
      else ascii_lower a # to_lower (b # c # s))"
| "to_lower [a, b] =
     (if [a, b] = dotted_capital_i then [CHR ''i''] else [ascii_lower a, ascii_lower b])"
| "to_lower [a] = [ascii_lower a]"
| "to_lower [] = []"

text \<open>EqualFold: equality of the folded strings.\<close>

fun fold_case :: "string \<Rightarrow> string" where
  "fold_case (a # b # c # s) =
     (if [a, b, c] = kelvin_sign then CHR ''k'' # fold_case s
      else if [a, b] = long_s then CHR ''s'' # fold_case (c # s)
      else ascii_lower a # fold_case (b # c # s))"
| "fold_case [a, b] =
     (if [a, b] = long_s then [CHR ''s''] else [ascii_lower a, ascii_lower b])"
| "fold_case [a] = [ascii_lower a]"
| "fold_case [] = []"

definition equal_fold :: "string \<Rightarrow> string \<Rightarrow> bool" where
  "equal_fold s t \<longleftrightarrow> fold_case s = fold_case t"

lemma equal_fold_refl [simp]: "equal_fold s s"
  by (simp add: equal_fold_def)

lemma equal_fold_sym: "equal_fold s t \<longleftrightarrow> equal_fold t s"
  by (auto simp: equal_fold_def)

lemma to_lower_Nil_iff [simp]: "to_lower s = [] \<longleftrightarrow> s = []"
  by (cases s rule: to_lower.cases) auto

text \<open>Lowering neither creates nor uncovers white space.\<close>

definition lower_letters :: "char set" where
  "lower_letters = {c. CHR ''a'' \<le> c \<and> c \<le> CHR ''z''}"

lemma to_lower_Cons:
  "to_lower (a # t) =
     (if prefix kelvin_sign (a # t) then CHR ''k'' # to_lower (drop 2 t)
      else if prefix dotted_capital_i (a # t) then CHR ''i'' # to_lower (drop 1 t)
      else ascii_lower a # to_lower t)"
  by (cases "a # t" rule: to_lower.cases) (auto simp: kelvin_sign_def dotted_capital_i_def)

lemma char_le_nat: "c \<le> d \<longleftrightarrow> (of_char c :: nat) \<le> of_char d" for c d :: char
  by (simp add: less_eq_char_def)

lemma ascii_lower_cases: "ascii_lower c = c \<or> ascii_lower c \<in> lower_letters"
proof (cases "CHR ''A'' \<le> c \<and> c \<le> CHR ''Z''")
  case True
  then have "65 \<le> (of_char c :: nat)" "(of_char c :: nat) \<le> 90" by (simp_all add: char_le_nat)
  then have "(of_char (ascii_lower c) :: nat) = of_char c + 32"
    using True by (simp add: ascii_lower_def)
  with \<open>65 \<le> (of_char c :: nat)\<close> \<open>(of_char c :: nat) \<le> 90\<close> show ?thesis
    by (simp add: lower_letters_def char_le_nat)
qed (auto simp: ascii_lower_def)

lemma ascii_lower_idem [simp]: "ascii_lower (ascii_lower c) = ascii_lower c"
proof -
  have "\<not> (CHR ''A'' \<le> d \<and> d \<le> CHR ''Z'')" if "d \<in> lower_letters" for d
    using that by (auto simp: lower_letters_def char_le_nat)
  then have "ascii_lower d = d" if "d \<in> lower_letters" for d
    using that unfolding ascii_lower_def by auto
  then show ?thesis using ascii_lower_cases [of c] by metis
qed

lemma to_lower_seen:
  assumes "prefix w (to_lower t)" "set w \<inter> lower_letters = {}"
  shows "prefix w t"
  using assms
proof (induction w arbitrary: t)
  case (Cons x w)
  have nl: "CHR ''k'' \<in> lower_letters" "CHR ''i'' \<in> lower_letters"
    by (simp_all add: lower_letters_def char_le_nat)
  obtain a t' where t: "t = a # t'" using Cons.prems(1) by (cases t) auto
  from Cons.prems nl have "to_lower t = ascii_lower a # to_lower t'"
    unfolding t to_lower_Cons by (auto split: if_splits)
  with Cons.prems have "x = ascii_lower a" "prefix w (to_lower t')" "set w \<inter> lower_letters = {}"
    "x \<notin> lower_letters" by auto
  with Cons.IH [of t'] ascii_lower_cases [of a] show ?case by (simp add: t)
qed simp

lemma marks_high:
  "set kelvin_sign \<inter> lower_letters = {}" "set dotted_capital_i \<inter> lower_letters = {}"
  "space_bytes \<inter> lower_letters = {}"
  by (auto simp: kelvin_sign_def dotted_capital_i_def space_bytes_def white_space_def lower_letters_def char_le_nat)

lemma to_lower_to_lower [simp, go_str]: "to_lower (to_lower s) = to_lower s"
proof (induction s rule: length_induct)
  case (1 s)
  show ?case
  proof (cases s)
    case (Cons a t)
    have drops: "to_lower (to_lower (drop k t)) = to_lower (drop k t)" for k
      using 1 by (simp add: Cons)
    have keep: "\<not> prefix kelvin_sign (c # u)" "\<not> prefix dotted_capital_i (c # u)" if "c \<in> lower_letters" for c u
      using that marks_high by (auto simp: kelvin_sign_def dotted_capital_i_def)
    consider "prefix kelvin_sign s" | "\<not> prefix kelvin_sign s" "prefix dotted_capital_i s"
      | "\<not> prefix kelvin_sign s" "\<not> prefix dotted_capital_i s" by blast
    then show ?thesis
    proof cases
      case 3
      then have s: "to_lower s = ascii_lower a # to_lower t" by (simp add: Cons to_lower_Cons)
      have "\<not> prefix kelvin_sign (to_lower s)" "\<not> prefix dotted_capital_i (to_lower s)"
        using 3 to_lower_seen marks_high by blast+
      then show ?thesis unfolding s to_lower_Cons [of "ascii_lower a"] using drops [of 0] by simp
    qed (use keep drops in \<open>simp_all add: Cons to_lower_Cons lower_letters_def char_le_nat ascii_lower_def\<close>)
  qed simp
qed

lemma to_lower_all_seen:
  assumes "set (to_lower t) \<inter> lower_letters = {}" shows "to_lower t = t"
  using assms
proof (induction t rule: length_induct)
  case (1 t)
  have nl: "CHR ''k'' \<in> lower_letters" "CHR ''i'' \<in> lower_letters"
    by (simp_all add: lower_letters_def char_le_nat)
  show ?case
  proof (cases t)
    case (Cons a u)
    with 1 nl have "to_lower t = ascii_lower a # to_lower u" "set (to_lower u) \<inter> lower_letters = {}"
      "ascii_lower a \<notin> lower_letters"
      by (auto simp: to_lower_Cons split: if_splits)
    with 1 ascii_lower_cases [of a] show ?thesis by (simp add: Cons)
  qed simp
qed

lemma to_lower_seen_last:
  assumes "suffix w (to_lower t)" "set w \<inter> lower_letters = {}"
  shows "suffix w t"
  using assms
proof (induction t rule: length_induct)
  case (1 t)
  show ?case
  proof (cases "w = to_lower t")
    case True
    then show ?thesis using 1 to_lower_all_seen [of t] by simp
  next
    case whole: False
    show ?thesis
    proof (cases t)
      case (Cons a u)
      from whole 1 have "suffix w (to_lower (drop 2 u)) \<or> suffix w (to_lower (drop 1 u)) \<or> suffix w (to_lower u)"
        by (auto simp: Cons to_lower_Cons suffix_Cons split: if_splits)
      then have "suffix w (drop 2 u) \<or> suffix w (drop 1 u) \<or> suffix w u"
        using 1 by (auto simp: Cons)
      then have "suffix w u" using suffix_drop suffix_order.trans by blast
      then show ?thesis by (simp add: Cons suffix_Cons)
    qed (use 1 in simp)
  qed
qed

lemma trim_fixed_iff:
  "trim s = s \<longleftrightarrow> (\<forall>w\<in>set white_space. \<not> prefix w s \<and> \<not> suffix w s)" (is "?l = ?r")
proof -
  have ne: "w \<noteq> []" if "w \<in> set white_space" for w using that by (auto simp: white_space_def)
  have l: "leading white_space s = None \<longleftrightarrow> (\<forall>w\<in>set white_space. \<not> prefix w s)"
    using ne by (auto simp: leading_None)
  have r: "leading (map rev white_space) (rev s) = None \<longleftrightarrow> (\<forall>w\<in>set white_space. \<not> suffix w s)"
    using ne by (auto simp: leading_None suffix_to_prefix)
  show ?thesis
  proof
    assume ?l
    then have "leading white_space s = None"
      by (metis strip_with_done trim_left_def trim_left_trim)
    with l r trim_fixD [OF \<open>?l\<close>] show ?r by blast
  next
    assume ?r
    with l r show ?l by (simp add: trim_def trim_left_def trim_right_def strip_with_fix)
  qed
qed

lemma trim_to_lower [simp, go_str]: "trim (to_lower (trim s)) = to_lower (trim s)"
proof -
  have "set w \<inter> lower_letters = {}" if "w \<in> set white_space" for w
    using that marks_high(3) by (auto simp: space_bytes_def)
  moreover have "\<forall>w\<in>set white_space. \<not> prefix w (trim s) \<and> \<not> suffix w (trim s)"
    using trim_fixed_iff [of "trim s"] by simp
  ultimately show ?thesis
    unfolding trim_fixed_iff [of "to_lower (trim s)"] using to_lower_seen to_lower_seen_last by blast
qed

section \<open>Splitting and joining\<close>

fun split_on :: "char \<Rightarrow> string \<Rightarrow> string list" where
  "split_on d [] = [[]]"
| "split_on d (c # s) =
     (if c = d then [] # split_on d s
      else (case split_on d s of p # ps \<Rightarrow> (c # p) # ps | [] \<Rightarrow> [[c]]))"

lemma split_on_not_Nil [simp]: "split_on d s \<noteq> []"
  by (cases s) (auto split: list.splits)

lemma split_on_clean: "d \<notin> set s \<Longrightarrow> split_on d s = [s]"
  by (induction s) auto

lemma split_on_append:
  "d \<notin> set s \<Longrightarrow> split_on d (s @ d # t) = s # split_on d t"
  by (induction s) auto

lemma split_on_parts: "p \<in> set (split_on d s) \<Longrightarrow> d \<notin> set p"
proof (induction s arbitrary: p)
  case Nil
  then show ?case by simp
next
  case (Cons c s)
  obtain q qs where q: "split_on d s = q # qs" by (cases "split_on d s") auto
  from Cons show ?case by (auto simp: q split: if_splits)
qed

text \<open>Fields: the maximal runs of bytes between white space.\<close>

function words_from :: "string \<Rightarrow> string \<Rightarrow> string list" where
  "words_from acc s =
     (case leading white_space s of
        Some w \<Rightarrow> (if acc = [] then [] else [acc]) @ words_from [] (drop (length w) s)
      | None \<Rightarrow> (case s of
            [] \<Rightarrow> (if acc = [] then [] else [acc])
          | c # s' \<Rightarrow> words_from (acc @ [c]) s'))"
  by pat_completeness auto
termination
  by (relation "measure (\<lambda>(acc, s). length s)") (auto dest: leading_shrinks)

declare words_from.simps [simp del]

definition words :: "string \<Rightarrow> string list" where
  "words s = words_from [] s"

lemma words_from_nonempty: "f \<in> set (words_from acc s) \<Longrightarrow> f \<noteq> []"
proof (induction acc s rule: words_from.induct)
  case (1 acc s)
  then show ?case
    by (auto simp: words_from.simps [of acc s] split: option.splits list.splits if_splits)
qed

section \<open>First non-empty value\<close>

text \<open>textutil.FirstNonEmpty: the first value that is not blank, trimmed.\<close>

fun FirstNonEmpty :: "string list \<Rightarrow> string" where
  "FirstNonEmpty [] = []"
| "FirstNonEmpty (v # vs) =
     (let trimmed = trim v in if trimmed \<noteq> [] then trimmed else FirstNonEmpty vs)"

declare FirstNonEmpty.simps(2) [simp del]

lemma FirstNonEmpty_Cons:
  "FirstNonEmpty (v # vs) = (if blank v then FirstNonEmpty vs else trim v)"
  by (simp add: FirstNonEmpty.simps(2) Let_def)

lemma trim_FirstNonEmpty [simp, go_str]: "trim (FirstNonEmpty vs) = FirstNonEmpty vs"
  by (induction vs) (auto simp: FirstNonEmpty_Cons)

lemma FirstNonEmpty_Nil_iff: "FirstNonEmpty vs = [] \<longleftrightarrow> (\<forall>v\<in>set vs. blank v)"
  by (induction vs) (auto simp: FirstNonEmpty_Cons)

lemma FirstNonEmpty_find:
  "FirstNonEmpty vs = (case find (\<lambda>v. \<not> blank v) vs of None \<Rightarrow> [] | Some v \<Rightarrow> trim v)"
  by (induction vs) (auto simp: FirstNonEmpty_Cons)

lemma FirstNonEmpty_append:
  "FirstNonEmpty (us @ vs) = (if FirstNonEmpty us = [] then FirstNonEmpty vs else FirstNonEmpty us)"
  by (induction us) (auto simp: FirstNonEmpty_Cons)

lemma FirstNonEmpty_map_trim [simp]: "FirstNonEmpty (map trim vs) = FirstNonEmpty vs"
  by (induction vs) (auto simp: FirstNonEmpty_Cons)

lemma FirstNonEmpty_singleton [simp]: "FirstNonEmpty [v] = trim v"
  by (simp add: FirstNonEmpty_Cons)

lemma FirstNonEmpty_pair:
  "FirstNonEmpty [FirstNonEmpty us, FirstNonEmpty vs] =
     (if FirstNonEmpty us = [] then FirstNonEmpty vs else FirstNonEmpty us)"
  by (simp add: FirstNonEmpty_Cons)

section \<open>Decimal numerals\<close>

fun dec :: "nat \<Rightarrow> string" where
  "dec n = (if n < 10 then [char_of (48 + n)] else dec (n div 10) @ [char_of (48 + n mod 10)])"

declare dec.simps [simp del]

definition dec_value :: "string \<Rightarrow> nat" where
  "dec_value s = foldl (\<lambda>v c. 10 * v + (of_char c - 48)) 0 s"

lemma of_char_digit: "d < 10 \<Longrightarrow> of_char (char_of (48 + d) :: char) = (48 + d :: nat)"
  by (simp add: of_char_of)

lemma dec_value_dec [simp]: "dec_value (dec n) = n"
proof (induction n rule: dec.induct)
  case (1 n)
  show ?case
  proof (cases "n < 10")
    case True
    then show ?thesis by (simp add: dec.simps [of n] dec_value_def of_char_digit)
  next
    case False
    with 1 have "foldl (\<lambda>v c. 10 * v + (of_char c - 48)) 0 (dec (n div 10)) = n div 10"
      by (simp add: dec_value_def)
    with False show ?thesis
      by (simp add: dec.simps [of n] dec_value_def of_char_digit)
  qed
qed

text \<open>\<open>%06d\<close> on a counter: padded with zeros to six digits.\<close>

definition pad6 :: "nat \<Rightarrow> string" where
  "pad6 n = replicate (6 - length (dec n)) CHR ''0'' @ dec n"

lemma foldl_zeros:
  "foldl (\<lambda>v c. 10 * v + (of_char c - 48)) (0::nat) (replicate k CHR ''0'') = 0"
  by (induction k) (simp_all add: replicate_app_Cons_same)

lemma dec_value_pad6 [simp]: "dec_value (pad6 n) = n"
proof -
  have "dec_value (pad6 n) = dec_value (dec n)"
    by (simp add: pad6_def dec_value_def foldl_zeros)
  then show ?thesis by simp
qed

lemma pad6_inject [simp]: "pad6 m = pad6 n \<longleftrightarrow> m = n"
  by (metis dec_value_pad6)

section \<open>Runes\<close>

text \<open>
  Ranging over a string decodes UTF-8; an invalid byte counts as one rune of its own.
  \<open>runes\<close> lists the encoded runes.
\<close>

definition byte :: "string \<Rightarrow> nat \<Rightarrow> nat" where
  "byte s i = (if i < length s then of_char (s ! i) else 0)"

definition continues :: "string \<Rightarrow> nat \<Rightarrow> bool" where
  "continues s i \<longleftrightarrow> 0x80 \<le> byte s i \<and> byte s i \<le> 0xBF"

definition rune_width :: "string \<Rightarrow> nat" where
  "rune_width s =
     (let a = byte s 0; b = byte s 1 in
      if 0xC2 \<le> a \<and> a \<le> 0xDF \<and> continues s 1 then 2
      else if a = 0xE0 \<and> 0xA0 \<le> b \<and> b \<le> 0xBF \<and> continues s 2 then 3
      else if a = 0xED \<and> 0x80 \<le> b \<and> b \<le> 0x9F \<and> continues s 2 then 3
      else if 0xE1 \<le> a \<and> a \<le> 0xEF \<and> a \<noteq> 0xED \<and> continues s 1 \<and> continues s 2 then 3
      else if a = 0xF0 \<and> 0x90 \<le> b \<and> b \<le> 0xBF \<and> continues s 2 \<and> continues s 3 then 4
      else if 0xF1 \<le> a \<and> a \<le> 0xF3 \<and> continues s 1 \<and> continues s 2 \<and> continues s 3 then 4
      else if a = 0xF4 \<and> 0x80 \<le> b \<and> b \<le> 0x8F \<and> continues s 2 \<and> continues s 3 then 4
      else 1)"

lemma rune_width_pos [simp]: "0 < rune_width s"
  by (simp add: rune_width_def Let_def)

function runes :: "string \<Rightarrow> string list" where
  "runes [] = []"
| "runes (c # s) = take (rune_width (c # s)) (c # s) # runes (drop (rune_width (c # s)) (c # s))"
  by pat_completeness auto
termination
  by (relation "measure length") simp_all

declare runes.simps(2) [simp del]

lemma concat_runes [simp]: "concat (runes s) = s"
  by (induction s rule: runes.induct) (simp_all add: runes.simps(2))

abbreviation between :: "char \<Rightarrow> char \<Rightarrow> char \<Rightarrow> bool" where
  "between low high c \<equiv> low \<le> c \<and> c \<le> high"

definition ascii_alnum :: "char \<Rightarrow> bool" where
  "ascii_alnum c \<longleftrightarrow>
     between CHR ''a'' CHR ''z'' c \<or> between CHR ''A'' CHR ''Z'' c \<or> between CHR ''0'' CHR ''9'' c"

text \<open>A part of a storage id: every rune outside the safe alphabet becomes one filler.\<close>

definition replace_unsafe :: "(char \<Rightarrow> bool) \<Rightarrow> char \<Rightarrow> string \<Rightarrow> string" where
  "replace_unsafe safe filler s =
     concat (map (\<lambda>r. case r of [c] \<Rightarrow> if safe c then [c] else [filler] | _ \<Rightarrow> [filler]) (runes s))"

lemma replace_unsafe_alphabet:
  "set (replace_unsafe safe filler s) \<subseteq> insert filler {c. safe c}"
  by (auto simp: replace_unsafe_def split: list.splits if_splits)

end
