(* ===== verification/Model_Config.thy ===== *)
theory Model_Config
  imports Go_Prelude
begin

text \<open>
  Model configuration: \<open>internal/domain/modelconfig/config.go\<close>. A setting has a value in
  several tiers (session, binding, profile, global); the resolver takes the first that is not
  blank and reports which tier it came from.
\<close>

abbreviation BackendCodex :: string where "BackendCodex \<equiv> ''codex''"
abbreviation BackendClaude :: string where "BackendClaude \<equiv> ''claude''"

section \<open>Data\<close>

record Snapshot =
  snap_Valid :: bool
  snap_Backend :: string
  snap_Model :: string
  snap_Effort :: string
  snap_PlanModel :: string
  snap_PlanEffort :: string
  snap_ReviewModel :: string
  snap_SubagentModel :: string
  snap_SubagentEffort :: string
  snap_SmallModel :: string
  snap_CollaborationMode :: string

definition empty_Snapshot :: Snapshot where
  "empty_Snapshot =
     \<lparr>snap_Valid = False, snap_Backend = [], snap_Model = [], snap_Effort = [], snap_PlanModel = [],
      snap_PlanEffort = [], snap_ReviewModel = [], snap_SubagentModel = [],
      snap_SubagentEffort = [], snap_SmallModel = [], snap_CollaborationMode = []\<rparr>"

record SessionValues =
  sv_Model :: string
  sv_PlanModel :: string
  sv_PlanEffort :: string
  sv_ReviewModel :: string
  sv_SubagentModel :: string
  sv_SubagentEffort :: string
  sv_SmallModel :: string

record ScopeValues =
  sc_Model :: string
  sc_Effort :: string
  sc_PlanModel :: string
  sc_PlanEffort :: string
  sc_ReviewModel :: string
  sc_SubagentModel :: string
  sc_SubagentEffort :: string
  sc_SmallModel :: string

record ProfileValues =
  pv_Model :: string
  pv_ClaudeModel :: string
  pv_Effort :: string
  pv_PlanModel :: string
  pv_PlanEffort :: string
  pv_ReviewModel :: string
  pv_SubagentModel :: string
  pv_SubagentEffort :: string
  pv_ClaudeSubagent :: string
  pv_SmallModel :: string
  pv_ClaudeSmallModel :: string

record GlobalValues =
  gv_Model :: string
  gv_Effort :: string
  gv_PlanModel :: string
  gv_PlanEffort :: string
  gv_ReviewModel :: string
  gv_SubagentModel :: string
  gv_SubagentEffort :: string
  gv_ClaudeModel :: string
  gv_ClaudeEffort :: string
  gv_ClaudeSmallModel :: string
  gv_ClaudeSubagent :: string
  gv_SmallModel :: string

record ActiveCollaboration =
  ac_Mode :: string
  ac_Model :: string
  ac_PresetEffort :: string

record Sources =
  src_Session :: SessionValues
  src_Binding :: ScopeValues
  src_Profile :: ProfileValues
  src_Global :: GlobalValues
  src_Active :: "ActiveCollaboration option"

text \<open>The constructors stand in the order of precedence.\<close>

datatype Origin =
  OriginSession | OriginBinding | OriginProfile | OriginGlobal | OriginDerived | OriginNone

record Origins =
  or_Model :: Origin
  or_Effort :: Origin
  or_PlanModel :: Origin
  or_PlanEffort :: Origin
  or_ReviewModel :: Origin
  or_SubagentModel :: Origin
  or_SubagentEffort :: Origin
  or_SmallModel :: Origin

fun origin_rank :: "Origin \<Rightarrow> nat" where
  "origin_rank OriginSession = 0"
| "origin_rank OriginBinding = 1"
| "origin_rank OriginProfile = 2"
| "origin_rank OriginGlobal = 3"
| "origin_rank OriginDerived = 4"
| "origin_rank OriginNone = 5"

lemma origin_rank_inject [simp]: "origin_rank a = origin_rank b \<longleftrightarrow> a = b"
  by (cases a; cases b) simp_all

instantiation Origin :: linorder
begin

definition less_eq_Origin :: "Origin \<Rightarrow> Origin \<Rightarrow> bool" where
  "less_eq_Origin a b \<longleftrightarrow> origin_rank a \<le> origin_rank b"

definition less_Origin :: "Origin \<Rightarrow> Origin \<Rightarrow> bool" where
  "less_Origin a b \<longleftrightarrow> origin_rank a < origin_rank b"

instance
  by standard (auto simp: less_eq_Origin_def less_Origin_def)

end

section \<open>Resolution\<close>

type_synonym tiered = "Origin \<times> string"

fun firstTiered :: "tiered list \<Rightarrow> string \<times> Origin" where
  "firstTiered [] = ([], OriginNone)"
| "firstTiered ((origin, v) # rest) =
     (let value = trim v in if value \<noteq> [] then (value, origin) else firstTiered rest)"

text \<open>The value synthesised from another resolved value where the first is still empty.\<close>

definition derive_from :: "string \<times> Origin \<Rightarrow> string \<Rightarrow> string \<times> Origin" where
  "derive_from x v = (if fst x = [] \<and> v \<noteq> [] then (v, OriginDerived) else x)"

definition no_value :: "string \<times> Origin" where
  "no_value = ([], OriginNone)"

definition traced_snapshot ::
  "string \<Rightarrow> string \<times> Origin \<Rightarrow> string \<times> Origin \<Rightarrow> string \<times> Origin \<Rightarrow> string \<times> Origin \<Rightarrow>
   string \<times> Origin \<Rightarrow> string \<times> Origin \<Rightarrow> string \<times> Origin \<Rightarrow> string \<times> Origin \<Rightarrow> string \<Rightarrow>
   Snapshot \<times> Origins" where
  "traced_snapshot backend model effort plan planEffort review sub subEffort small mode =
     (\<lparr>snap_Valid = True, snap_Backend = backend, snap_Model = fst model, snap_Effort = fst effort,
       snap_PlanModel = fst plan, snap_PlanEffort = fst planEffort, snap_ReviewModel = fst review,
       snap_SubagentModel = fst sub, snap_SubagentEffort = fst subEffort,
       snap_SmallModel = fst small, snap_CollaborationMode = mode\<rparr>,
      \<lparr>or_Model = snd model, or_Effort = snd effort, or_PlanModel = snd plan,
       or_PlanEffort = snd planEffort, or_ReviewModel = snd review, or_SubagentModel = snd sub,
       or_SubagentEffort = snd subEffort, or_SmallModel = snd small\<rparr>)"

definition ResolveTraced_claude :: "Sources \<Rightarrow> Snapshot \<times> Origins" where
  "ResolveTraced_claude s =
     (let S = src_Session s; B = src_Binding s; P = src_Profile s; G = src_Global s;
          model = firstTiered [(OriginSession, sv_Model S), (OriginBinding, sc_Model B),
                    (OriginProfile, pv_ClaudeModel P), (OriginGlobal, gv_ClaudeModel G)];
          effort = firstTiered [(OriginBinding, sc_Effort B), (OriginProfile, pv_Effort P),
                    (OriginGlobal, gv_ClaudeEffort G)];
          small = firstTiered [(OriginSession, sv_SmallModel S), (OriginBinding, sc_SmallModel B),
                    (OriginProfile, pv_ClaudeSmallModel P), (OriginGlobal, gv_ClaudeSmallModel G)];
          sub = firstTiered [(OriginSession, sv_SubagentModel S), (OriginBinding, sc_SubagentModel B),
                    (OriginProfile, pv_ClaudeSubagent P), (OriginGlobal, gv_ClaudeSubagent G)]
      in traced_snapshot BackendClaude model effort no_value no_value no_value
           (derive_from sub (fst model)) no_value small [])"

definition ResolveTraced_codex :: "string \<Rightarrow> Sources \<Rightarrow> Snapshot \<times> Origins" where
  "ResolveTraced_codex backend s =
     (let S = src_Session s; B = src_Binding s; P = src_Profile s; G = src_Global s;
          model = firstTiered [(OriginSession, sv_Model S), (OriginBinding, sc_Model B),
                    (OriginProfile, pv_Model P), (OriginGlobal, gv_Model G)];
          effort = firstTiered [(OriginBinding, sc_Effort B), (OriginProfile, pv_Effort P),
                    (OriginGlobal, gv_Effort G)];
          plan = firstTiered [(OriginSession, sv_PlanModel S), (OriginBinding, sc_PlanModel B),
                    (OriginProfile, pv_PlanModel P), (OriginGlobal, gv_PlanModel G)];
          planEffort = firstTiered [(OriginSession, sv_PlanEffort S), (OriginBinding, sc_PlanEffort B),
                    (OriginProfile, pv_PlanEffort P), (OriginGlobal, gv_PlanEffort G)];
          review = firstTiered [(OriginSession, sv_ReviewModel S), (OriginBinding, sc_ReviewModel B),
                    (OriginProfile, pv_ReviewModel P), (OriginGlobal, gv_ReviewModel G)];
          sub = firstTiered [(OriginSession, sv_SubagentModel S), (OriginBinding, sc_SubagentModel B),
                    (OriginProfile, pv_SubagentModel P), (OriginGlobal, gv_SubagentModel G)];
          subEffort = firstTiered [(OriginSession, sv_SubagentEffort S),
                    (OriginBinding, sc_SubagentEffort B), (OriginProfile, pv_SubagentEffort P),
                    (OriginGlobal, gv_SubagentEffort G)];
          plan = derive_from plan (fst model);
          review = derive_from review (fst model);
          sub = derive_from sub (fst model);
          subEffort = derive_from subEffort (fst effort)
      in case src_Active s of
           None \<Rightarrow>
             traced_snapshot backend model effort plan planEffort review sub subEffort no_value []
         | Some active \<Rightarrow>
             (let planEffort = derive_from planEffort (trim (ac_PresetEffort active));
                  model = derive_from model (trim (ac_Model active));
                  plan = derive_from plan (fst model)
              in traced_snapshot backend model effort plan planEffort review sub subEffort no_value
                   (trim (ac_Mode active))))"

definition ResolveTraced :: "string \<Rightarrow> Sources \<Rightarrow> Snapshot \<times> Origins" where
  "ResolveTraced backend0 s =
     (let backend = trim backend0
      in if backend = BackendClaude then ResolveTraced_claude s else ResolveTraced_codex backend s)"

definition Resolve :: "string \<Rightarrow> Sources \<Rightarrow> Snapshot" where
  "Resolve backend s = fst (ResolveTraced backend s)"

text \<open>The helper first of this package is FirstNonEmpty again.\<close>

fun first_value :: "string list \<Rightarrow> string" where
  "first_value [] = []"
| "first_value (v # vs) = (let value = trim v in if value \<noteq> [] then value else first_value vs)"

definition TurnSettings :: "Snapshot \<Rightarrow> string \<times> string" where
  "TurnSettings snapshot =
     (if snap_Backend snapshot = BackendCodex \<and> snap_CollaborationMode snapshot = ''plan''
      then (first_value [snap_PlanModel snapshot, snap_Model snapshot], trim (snap_PlanEffort snapshot))
      else (trim (snap_Model snapshot), trim (snap_Effort snapshot)))"

definition ResolveAuxiliary :: "Sources \<Rightarrow> GlobalValues" where
  "ResolveAuxiliary s =
     (let S = src_Session s; B = src_Binding s; P = src_Profile s; G = src_Global s in
      \<lparr>gv_Model = [], gv_Effort = [],
       gv_PlanModel = first_value [sv_PlanModel S, sc_PlanModel B, pv_PlanModel P, gv_PlanModel G],
       gv_PlanEffort = first_value [sv_PlanEffort S, sc_PlanEffort B, pv_PlanEffort P, gv_PlanEffort G],
       gv_ReviewModel = first_value [sv_ReviewModel S, sc_ReviewModel B, pv_ReviewModel P, gv_ReviewModel G],
       gv_SubagentModel = first_value [sv_SubagentModel S, sc_SubagentModel B, pv_SubagentModel P, gv_SubagentModel G],
       gv_SubagentEffort = first_value [sv_SubagentEffort S, sc_SubagentEffort B, pv_SubagentEffort P, gv_SubagentEffort G],
       gv_ClaudeModel = [], gv_ClaudeEffort = [],
       gv_ClaudeSmallModel = first_value [sv_SmallModel S, sc_SmallModel B, pv_ClaudeSmallModel P, gv_ClaudeSmallModel G],
       gv_ClaudeSubagent = first_value [sv_SubagentModel S, sc_SubagentModel B, pv_ClaudeSubagent P, gv_ClaudeSubagent G],
       gv_SmallModel = []\<rparr>)"

section \<open>Laws\<close>

lemma first_value_eq: "first_value vs = FirstNonEmpty vs"
  by (induction vs) (simp_all add: Let_def FirstNonEmpty_Cons)

lemma firstTiered_value: "fst (firstTiered ts) = FirstNonEmpty (map snd ts)"
  by (induction ts rule: firstTiered.induct) (simp_all add: Let_def FirstNonEmpty_Cons)

lemma firstTiered_origin:
  "firstTiered ts = (v, org) \<Longrightarrow> v \<noteq> [] \<Longrightarrow>
   \<exists>us x ws. ts = us @ (org, x) # ws \<and> trim x = v \<and> (\<forall>(o', y) \<in> set us. blank y)"
proof (induction ts rule: firstTiered.induct)
  case 1
  then show ?case by simp
next
  case (2 org' y rest)
  show ?case
  proof (cases "blank y")
    case True
    with 2 obtain us x ws where
      "rest = us @ (org, x) # ws" "trim x = v" "\<forall>(o', y) \<in> set us. blank y"
      by (auto simp: Let_def)
    with True show ?thesis by (intro exI [of _ "(org', y) # us"]) auto
  next
    case False
    with 2 have "(org', y) # rest = [] @ (org, y) # rest" "trim y = v"
      by (simp_all add: Let_def)
    then show ?thesis by fastforce
  qed
qed

declare first_value.simps [simp del] firstTiered.simps [simp del]

lemma derive_from_value [simp]:
  "fst (derive_from x v) = (if fst x = [] then v else fst x)"
  by (auto simp: derive_from_def)

section \<open>What the tiers hold, and the contract of resolution\<close>

text \<open>
  The reference: the eight resolved fields, and the raw value each tier holds for a field under
  a backend. A tier that does not carry the field holds the empty string.
\<close>

datatype Field =
  F_Model | F_Effort | F_PlanModel | F_PlanEffort | F_ReviewModel | F_SubagentModel
  | F_SubagentEffort | F_SmallModel

fun snap_field :: "Field \<Rightarrow> Snapshot \<Rightarrow> string" where
  "snap_field F_Model x = snap_Model x"
| "snap_field F_Effort x = snap_Effort x"
| "snap_field F_PlanModel x = snap_PlanModel x"
| "snap_field F_PlanEffort x = snap_PlanEffort x"
| "snap_field F_ReviewModel x = snap_ReviewModel x"
| "snap_field F_SubagentModel x = snap_SubagentModel x"
| "snap_field F_SubagentEffort x = snap_SubagentEffort x"
| "snap_field F_SmallModel x = snap_SmallModel x"

fun origin_field :: "Field \<Rightarrow> Origins \<Rightarrow> Origin" where
  "origin_field F_Model x = or_Model x"
| "origin_field F_Effort x = or_Effort x"
| "origin_field F_PlanModel x = or_PlanModel x"
| "origin_field F_PlanEffort x = or_PlanEffort x"
| "origin_field F_ReviewModel x = or_ReviewModel x"
| "origin_field F_SubagentModel x = or_SubagentModel x"
| "origin_field F_SubagentEffort x = or_SubagentEffort x"
| "origin_field F_SmallModel x = or_SmallModel x"

fun session_value :: "Field \<Rightarrow> SessionValues \<Rightarrow> string" where
  "session_value F_Model v = sv_Model v"
| "session_value F_Effort v = []"
| "session_value F_PlanModel v = sv_PlanModel v"
| "session_value F_PlanEffort v = sv_PlanEffort v"
| "session_value F_ReviewModel v = sv_ReviewModel v"
| "session_value F_SubagentModel v = sv_SubagentModel v"
| "session_value F_SubagentEffort v = sv_SubagentEffort v"
| "session_value F_SmallModel v = sv_SmallModel v"

fun scope_value :: "Field \<Rightarrow> ScopeValues \<Rightarrow> string" where
  "scope_value F_Model v = sc_Model v"
| "scope_value F_Effort v = sc_Effort v"
| "scope_value F_PlanModel v = sc_PlanModel v"
| "scope_value F_PlanEffort v = sc_PlanEffort v"
| "scope_value F_ReviewModel v = sc_ReviewModel v"
| "scope_value F_SubagentModel v = sc_SubagentModel v"
| "scope_value F_SubagentEffort v = sc_SubagentEffort v"
| "scope_value F_SmallModel v = sc_SmallModel v"

fun profile_value :: "bool \<Rightarrow> Field \<Rightarrow> ProfileValues \<Rightarrow> string" where
  "profile_value claude F_Model v = (if claude then pv_ClaudeModel v else pv_Model v)"
| "profile_value claude F_Effort v = pv_Effort v"
| "profile_value claude F_PlanModel v = pv_PlanModel v"
| "profile_value claude F_PlanEffort v = pv_PlanEffort v"
| "profile_value claude F_ReviewModel v = pv_ReviewModel v"
| "profile_value claude F_SubagentModel v = (if claude then pv_ClaudeSubagent v else pv_SubagentModel v)"
| "profile_value claude F_SubagentEffort v = pv_SubagentEffort v"
| "profile_value claude F_SmallModel v = (if claude then pv_ClaudeSmallModel v else [])"

fun global_value :: "bool \<Rightarrow> Field \<Rightarrow> GlobalValues \<Rightarrow> string" where
  "global_value claude F_Model v = (if claude then gv_ClaudeModel v else gv_Model v)"
| "global_value claude F_Effort v = (if claude then gv_ClaudeEffort v else gv_Effort v)"
| "global_value claude F_PlanModel v = gv_PlanModel v"
| "global_value claude F_PlanEffort v = gv_PlanEffort v"
| "global_value claude F_ReviewModel v = gv_ReviewModel v"
| "global_value claude F_SubagentModel v = (if claude then gv_ClaudeSubagent v else gv_SubagentModel v)"
| "global_value claude F_SubagentEffort v = gv_SubagentEffort v"
| "global_value claude F_SmallModel v = (if claude then gv_ClaudeSmallModel v else [])"

fun tier_value :: "bool \<Rightarrow> Field \<Rightarrow> Sources \<Rightarrow> Origin \<Rightarrow> string" where
  "tier_value claude f s OriginSession = session_value f (src_Session s)"
| "tier_value claude f s OriginBinding = scope_value f (src_Binding s)"
| "tier_value claude f s OriginProfile = profile_value claude f (src_Profile s)"
| "tier_value claude f s OriginGlobal = global_value claude f (src_Global s)"
| "tier_value claude f s OriginDerived = []"
| "tier_value claude f s OriginNone = []"

text \<open>A traced value is sound for a tier assignment \<open>val\<close>.\<close>

definition traced_ok :: "(Origin \<Rightarrow> string) \<Rightarrow> string \<times> Origin \<Rightarrow> bool" where
  "traced_ok val x \<longleftrightarrow>
     (snd x = OriginNone \<longleftrightarrow> fst x = []) \<and>
     (snd x < OriginDerived \<longrightarrow>
        fst x = trim (val (snd x)) \<and> (\<forall>h < snd x. blank (val h)))"

lemma less_Origin_simps [simp]:
  "(a :: Origin) < OriginSession \<longleftrightarrow> False"
  "a < OriginBinding \<longleftrightarrow> a = OriginSession"
  "a < OriginProfile \<longleftrightarrow> a = OriginSession \<or> a = OriginBinding"
  "a < OriginGlobal \<longleftrightarrow> a = OriginSession \<or> a = OriginBinding \<or> a = OriginProfile"
  "a < OriginDerived \<longleftrightarrow> a \<noteq> OriginDerived \<and> a \<noteq> OriginNone"
  by (cases a; simp add: less_Origin_def)+

lemma traced_ok_tiers:
  "traced_ok val (firstTiered [(OriginSession, val OriginSession), (OriginBinding, val OriginBinding),
     (OriginProfile, val OriginProfile), (OriginGlobal, val OriginGlobal)])"
  by (auto simp: traced_ok_def firstTiered.simps Let_def)

lemma traced_ok_tiers_no_session:
  "val OriginSession = [] \<Longrightarrow>
   traced_ok val (firstTiered [(OriginBinding, val OriginBinding), (OriginProfile, val OriginProfile),
     (OriginGlobal, val OriginGlobal)])"
  by (auto simp: traced_ok_def firstTiered.simps Let_def)

lemma traced_ok_derive: "traced_ok val x \<Longrightarrow> traced_ok val (derive_from x v)"
proof (cases "fst x = [] \<and> v \<noteq> []")
  case True
  then have "derive_from x v = (v, OriginDerived)" by (simp add: derive_from_def)
  with True show ?thesis by (simp add: traced_ok_def)
next
  case False
  then have "derive_from x v = x" unfolding derive_from_def by (rule if_not_P)
  moreover assume "traced_ok val x"
  ultimately show ?thesis by simp
qed

lemma traced_ok_no_value: "traced_ok val no_value"
  by (simp add: traced_ok_def no_value_def)

lemma ResolveTraced_codex_ok:
  "traced_ok (tier_value False f s)
     (snap_field f (fst (ResolveTraced_codex b s)), origin_field f (snd (ResolveTraced_codex b s)))"
proof -
  note tiers = traced_ok_tiers [of "tier_value False f s"]
    traced_ok_tiers_no_session [of "tier_value False f s"]
  show ?thesis
    by (cases f; cases "src_Active s"; insert tiers;
        simp add: ResolveTraced_codex_def traced_snapshot_def Let_def traced_ok_derive
          traced_ok_no_value del: derive_from_value)
qed

lemma ResolveTraced_claude_ok:
  "traced_ok (tier_value True f s)
     (snap_field f (fst (ResolveTraced_claude s)), origin_field f (snd (ResolveTraced_claude s)))"
proof -
  note tiers = traced_ok_tiers [of "tier_value True f s"]
    traced_ok_tiers_no_session [of "tier_value True f s"]
  show ?thesis
    by (cases f; insert tiers;
        simp add: ResolveTraced_claude_def traced_snapshot_def Let_def traced_ok_derive
          traced_ok_no_value del: derive_from_value)
qed

lemma ResolveTraced_ok:
  "traced_ok (tier_value (trim backend = BackendClaude) f s)
     (snap_field f (fst (ResolveTraced backend s)), origin_field f (snd (ResolveTraced backend s)))"
proof (cases "trim backend = BackendClaude")
  case True
  then show ?thesis
    unfolding ResolveTraced_def Let_def using ResolveTraced_claude_ok by simp
next
  case False
  then show ?thesis
    unfolding ResolveTraced_def Let_def using ResolveTraced_codex_ok by simp
qed

lemma traced_ok_tierD:
  assumes "traced_ok val (v, org)" "org \<in> {OriginSession, OriginBinding, OriginProfile, OriginGlobal}"
  shows "v = trim (val org) \<and> v \<noteq> [] \<and> (\<forall>higher < org. blank (val higher))"
proof -
  have "org < OriginDerived" "org \<noteq> OriginNone" using assms(2) by auto
  with assms(1) show ?thesis unfolding traced_ok_def fst_conv snd_conv by blast
qed

text \<open>
  C2. Source annotations never lie: when the resolver attributes a field to a configured
  tier, the field's value is that tier's value (trimmed, not blank), and every tier of higher
  precedence is blank for the field; a field without origin has no value.
\<close>

theorem ResolveTraced_origin_sound:
  assumes "origin_field f (snd (ResolveTraced backend s)) = org"
    and "org \<in> {OriginSession, OriginBinding, OriginProfile, OriginGlobal}"
  shows "snap_field f (Resolve backend s) = trim (tier_value (trim backend = BackendClaude) f s org)
    \<and> snap_field f (Resolve backend s) \<noteq> []
    \<and> (\<forall>higher < org. blank (tier_value (trim backend = BackendClaude) f s higher))"
proof -
  have "traced_ok (tier_value (trim backend = BackendClaude) f s) (snap_field f (Resolve backend s), org)"
    using ResolveTraced_ok [of backend f s] assms(1) by (simp only: Resolve_def)
  from traced_ok_tierD [OF this assms(2)] show ?thesis .
qed

theorem ResolveTraced_origin_sound_witness:
  "\<exists>s. origin_field F_Model (snd (ResolveTraced ''claude'' s)) = OriginProfile \<and>
     snap_field F_Model (Resolve ''claude'' s) = ''opus''"
proof -
  let ?s = "\<lparr>src_Session = SessionValues.make '' '' [] [] [] [] [] [],
    src_Binding = ScopeValues.make [] [] [] [] [] [] [] [],
    src_Profile = ProfileValues.make [] '' opus'' [] [] [] [] [] [] [] [] [],
    src_Global = GlobalValues.make [] [] [] [] [] [] [] ''sonnet'' [] [] [] [], src_Active = None\<rparr>"
  have o: "origin_field F_Model (snd (ResolveTraced ''claude'' ?s)) = OriginProfile" by code_simp
  note sound = ResolveTraced_origin_sound [OF o]
  have "trim (tier_value (trim ''claude'' = BackendClaude) F_Model ?s OriginProfile) = ''opus''"
    by code_simp
  with sound have "snap_field F_Model (Resolve ''claude'' ?s) = ''opus''" by simp
  with o show ?thesis by blast
qed

lemma Resolve_codex:
  "trim backend \<noteq> BackendClaude \<Longrightarrow> Resolve backend s = fst (ResolveTraced_codex (trim backend) s)"
  by (simp add: Resolve_def ResolveTraced_def)

lemma Resolve_claude:
  "trim backend = BackendClaude \<Longrightarrow> Resolve backend s = fst (ResolveTraced_claude s)"
  by (simp add: Resolve_def ResolveTraced_def)

lemmas resolve_values = Resolve_codex Resolve_claude ResolveTraced_codex_def ResolveTraced_claude_def
  traced_snapshot_def firstTiered_value first_value_eq ResolveAuxiliary_def Let_def



text \<open>
  A Codex turn never starts without a model while some tier configures one: whatever the
  collaboration mode, a snapshot whose main model resolved gives the turn a model, and
  outside plan mode it is that main model.
\<close>

theorem TurnSettings_model:
  assumes "trim backend = BackendCodex"
  shows "(snap_Model (Resolve backend s) \<noteq> [] \<longrightarrow> fst (TurnSettings (Resolve backend s)) \<noteq> []) \<and>
    (snap_CollaborationMode (Resolve backend s) \<noteq> ''plan'' \<longrightarrow>
       TurnSettings (Resolve backend s)
         = (snap_Model (Resolve backend s), snap_Effort (Resolve backend s)))"
  using assms
  by (cases "src_Active s") (auto simp: TurnSettings_def resolve_values FirstNonEmpty_Nil_iff)

theorem TurnSettings_model_witness:
  "\<exists>s. snap_CollaborationMode (Resolve ''codex'' s) = ''plan'' \<and>
     fst (TurnSettings (Resolve ''codex'' s)) \<noteq> []"
proof -
  let ?s = "\<lparr>src_Session = SessionValues.make [] [] [] [] [] [] [],
    src_Binding = ScopeValues.make [] [] [] [] [] [] [] [],
    src_Profile = ProfileValues.make [] [] [] [] [] [] [] [] [] [] [],
    src_Global = GlobalValues.make ''gpt'' [] [] [] [] [] [] [] [] [] [] [],
    src_Active = Some \<lparr>ac_Mode = ''plan'', ac_Model = [], ac_PresetEffort = []\<rparr>\<rparr>"
  have "trim ''codex'' = BackendCodex" by (simp add: trim_literal)
  note eq = TurnSettings_model [OF this, of ?s]
  have "snap_Model (Resolve ''codex'' ?s) = ''gpt''"
    "snap_CollaborationMode (Resolve ''codex'' ?s) = ''plan''" by code_simp+
  with eq show ?thesis by (intro exI [of _ ?s]) simp
qed

end
