(* ===== verification/Routing_Settings.thy ===== *)
theory Routing_Settings
  imports Model_Config
begin

text \<open>
  The setting vocabulary and the stored configuration tiers:
  \<open>internal/domain/routing/settings.go\<close> and \<open>binding.go\<close>. A function of the code that
  returns a pointer to the field of a setting is here a function to the field's reader and
  writer; the locale \<open>field_table\<close> is the contract every such table satisfies.
\<close>

section \<open>Settings\<close>

text \<open>The type is a string in the code; a value that is no constant is an unknown setting.\<close>

datatype Setting =
  Model | Effort | PlanModel | PlanEffort | ReviewModel | SubagentModel | SubagentEffort
  | SmallModel | ServiceTier | Workspace | Sandbox | ApprovalPolicy | MultiAgent | Permissions
  | UnknownSetting string

definition ClearableValue :: "string \<Rightarrow> string" where
  "ClearableValue value0 =
     (let value = trim value0 in
      if to_lower value \<in> {'''', ''default'', ''inherit'', ''follow'', ''clear'', ''unset''}
      then [] else value)"

definition Auxiliary :: "Setting \<Rightarrow> bool" where
  "Auxiliary s \<longleftrightarrow>
     (case s of
        PlanModel \<Rightarrow> True | PlanEffort \<Rightarrow> True | ReviewModel \<Rightarrow> True | SubagentModel \<Rightarrow> True
      | SubagentEffort \<Rightarrow> True | SmallModel \<Rightarrow> True | _ \<Rightarrow> False)"

definition OverrideSettings :: "Setting list" where
  "OverrideSettings =
     [Model, Effort, PlanModel, PlanEffort, ReviewModel, SubagentModel, SubagentEffort,
      SmallModel, ServiceTier, Workspace, Sandbox, ApprovalPolicy, MultiAgent, Permissions]"

lemma ClearableValue_idem [simp]: "ClearableValue (ClearableValue v) = ClearableValue v"
  by (simp add: ClearableValue_def Let_def)

lemma trim_ClearableValue [simp]: "trim (ClearableValue v) = ClearableValue v"
  by (simp add: ClearableValue_def Let_def)

lemma OverrideSettings_known: "s \<in> set OverrideSettings \<longleftrightarrow> (\<forall>t. s \<noteq> UnknownSetting t)"
  by (cases s) (simp_all add: OverrideSettings_def)

section \<open>Bindings and profiles (binding.go)\<close>

record AgentBindingPendingAttachment =
  pa_Kind :: string
  pa_ResourceKey :: string
  pa_SourceMessageID :: string

record AgentBindingPendingMessage =
  pm_SessionKey :: string
  pm_MessageID :: string
  pm_ChatID :: string
  pm_ChatType :: string
  pm_UserID :: string
  pm_UserName :: string
  pm_ChatName :: string
  pm_Text :: string
  pm_RootMessageID :: string
  pm_ParentMessageID :: string
  pm_ThreadID :: string
  pm_Attachments :: "AgentBindingPendingAttachment list"
  pm_MergeForwardMessageIDs :: "string list"
  pm_ExpandedMergeForward :: bool
  pm_MentionedOpenIDs :: "string list"
  pm_MentionedAny :: bool
  pm_MentionedSelf :: bool
  pm_CreatedAt :: int
  pm_StoredAt :: int

text \<open>A pending message in the queue is a pointer, so a nil entry is possible.\<close>

record AgentBinding =
  ab_ID :: string
  ab_FrontendID :: string
  ab_ChatID :: string
  ab_ChatType :: string
  ab_WorkspaceID :: string
  ab_ModelOverride :: string
  ab_ReasoningEffortOverride :: string
  ab_PlanModelOverride :: string
  ab_PlanReasoningEffortOverride :: string
  ab_ReviewModelOverride :: string
  ab_SubagentModelOverride :: string
  ab_SubagentReasoningEffortOverride :: string
  ab_SmallModelOverride :: string
  ab_ServiceTierOverride :: string
  ab_SandboxModeOverride :: string
  ab_ApprovalPolicyOverride :: string
  ab_MultiAgentModeOverride :: string
  ab_ClaudePermissionMode :: string
  ab_PendingMessage :: "AgentBindingPendingMessage option"
  ab_PendingMessages :: "AgentBindingPendingMessage option list"
  ab_Status :: string
  ab_CreatedAt :: int
  ab_UpdatedAt :: int

record BotProfile =
  bp_ID :: string
  bp_FrontendID :: string
  bp_WorkspaceID :: string
  bp_Model :: string
  bp_ReasoningEffort :: string
  bp_PlanModel :: string
  bp_PlanReasoningEffort :: string
  bp_ReviewModel :: string
  bp_SubagentModel :: string
  bp_SubagentReasoningEffort :: string
  bp_ServiceTier :: string
  bp_SandboxMode :: string
  bp_ApprovalPolicy :: string
  bp_MultiAgentMode :: string
  bp_ClaudeModel :: string
  bp_ClaudeSmallModel :: string
  bp_ClaudeSubagentModel :: string
  bp_ClaudePermissionMode :: string
  bp_CreatedAt :: int
  bp_UpdatedAt :: int

text \<open>The zero values of the two structs, as \<open>&AgentBinding{}\<close> and \<open>&BotProfile{}\<close> build them.\<close>

definition zero_AgentBinding :: AgentBinding where
  "zero_AgentBinding =
     \<lparr>ab_ID = [], ab_FrontendID = [], ab_ChatID = [], ab_ChatType = [], ab_WorkspaceID = [],
      ab_ModelOverride = [], ab_ReasoningEffortOverride = [], ab_PlanModelOverride = [],
      ab_PlanReasoningEffortOverride = [], ab_ReviewModelOverride = [],
      ab_SubagentModelOverride = [], ab_SubagentReasoningEffortOverride = [],
      ab_SmallModelOverride = [], ab_ServiceTierOverride = [], ab_SandboxModeOverride = [],
      ab_ApprovalPolicyOverride = [], ab_MultiAgentModeOverride = [],
      ab_ClaudePermissionMode = [], ab_PendingMessage = None, ab_PendingMessages = [],
      ab_Status = [], ab_CreatedAt = 0, ab_UpdatedAt = 0\<rparr>"

definition zero_BotProfile :: BotProfile where
  "zero_BotProfile =
     \<lparr>bp_ID = [], bp_FrontendID = [], bp_WorkspaceID = [], bp_Model = [], bp_ReasoningEffort = [],
      bp_PlanModel = [], bp_PlanReasoningEffort = [], bp_ReviewModel = [], bp_SubagentModel = [],
      bp_SubagentReasoningEffort = [], bp_ServiceTier = [], bp_SandboxMode = [],
      bp_ApprovalPolicy = [], bp_MultiAgentMode = [], bp_ClaudeModel = [],
      bp_ClaudeSmallModel = [], bp_ClaudeSubagentModel = [], bp_ClaudePermissionMode = [],
      bp_CreatedAt = 0, bp_UpdatedAt = 0\<rparr>"


section \<open>Field tables\<close>

type_synonym 'a field = "('a \<Rightarrow> string) \<times> (string \<Rightarrow> 'a \<Rightarrow> 'a)"

fun BindingField :: "Setting \<Rightarrow> AgentBinding field option" where
  "BindingField Model = Some (ab_ModelOverride, \<lambda>v b. b\<lparr>ab_ModelOverride := v\<rparr>)"
| "BindingField Effort = Some (ab_ReasoningEffortOverride, \<lambda>v b. b\<lparr>ab_ReasoningEffortOverride := v\<rparr>)"
| "BindingField PlanModel = Some (ab_PlanModelOverride, \<lambda>v b. b\<lparr>ab_PlanModelOverride := v\<rparr>)"
| "BindingField PlanEffort = Some (ab_PlanReasoningEffortOverride, \<lambda>v b. b\<lparr>ab_PlanReasoningEffortOverride := v\<rparr>)"
| "BindingField ReviewModel = Some (ab_ReviewModelOverride, \<lambda>v b. b\<lparr>ab_ReviewModelOverride := v\<rparr>)"
| "BindingField SubagentModel = Some (ab_SubagentModelOverride, \<lambda>v b. b\<lparr>ab_SubagentModelOverride := v\<rparr>)"
| "BindingField SubagentEffort = Some (ab_SubagentReasoningEffortOverride, \<lambda>v b. b\<lparr>ab_SubagentReasoningEffortOverride := v\<rparr>)"
| "BindingField SmallModel = Some (ab_SmallModelOverride, \<lambda>v b. b\<lparr>ab_SmallModelOverride := v\<rparr>)"
| "BindingField ServiceTier = Some (ab_ServiceTierOverride, \<lambda>v b. b\<lparr>ab_ServiceTierOverride := v\<rparr>)"
| "BindingField Workspace = Some (ab_WorkspaceID, \<lambda>v b. b\<lparr>ab_WorkspaceID := v\<rparr>)"
| "BindingField Sandbox = Some (ab_SandboxModeOverride, \<lambda>v b. b\<lparr>ab_SandboxModeOverride := v\<rparr>)"
| "BindingField ApprovalPolicy = Some (ab_ApprovalPolicyOverride, \<lambda>v b. b\<lparr>ab_ApprovalPolicyOverride := v\<rparr>)"
| "BindingField MultiAgent = Some (ab_MultiAgentModeOverride, \<lambda>v b. b\<lparr>ab_MultiAgentModeOverride := v\<rparr>)"
| "BindingField Permissions = Some (ab_ClaudePermissionMode, \<lambda>v b. b\<lparr>ab_ClaudePermissionMode := v\<rparr>)"
| "BindingField (UnknownSetting t) = None"

fun ProfileField :: "string \<Rightarrow> Setting \<Rightarrow> BotProfile field option" where
  "ProfileField backend Model = 
     (if backend = BackendClaude then Some (bp_ClaudeModel, \<lambda>v b. b\<lparr>bp_ClaudeModel := v\<rparr>)
      else Some (bp_Model, \<lambda>v b. b\<lparr>bp_Model := v\<rparr>))"
| "ProfileField backend Effort = Some (bp_ReasoningEffort, \<lambda>v b. b\<lparr>bp_ReasoningEffort := v\<rparr>)"
| "ProfileField backend PlanModel = 
     (if backend = BackendClaude then None
      else Some (bp_PlanModel, \<lambda>v b. b\<lparr>bp_PlanModel := v\<rparr>))"
| "ProfileField backend PlanEffort = 
     (if backend = BackendClaude then None
      else Some (bp_PlanReasoningEffort, \<lambda>v b. b\<lparr>bp_PlanReasoningEffort := v\<rparr>))"
| "ProfileField backend ReviewModel = 
     (if backend = BackendClaude then None
      else Some (bp_ReviewModel, \<lambda>v b. b\<lparr>bp_ReviewModel := v\<rparr>))"
| "ProfileField backend SubagentModel = 
     (if backend = BackendClaude then Some (bp_ClaudeSubagentModel, \<lambda>v b. b\<lparr>bp_ClaudeSubagentModel := v\<rparr>)
      else Some (bp_SubagentModel, \<lambda>v b. b\<lparr>bp_SubagentModel := v\<rparr>))"
| "ProfileField backend SubagentEffort = 
     (if backend = BackendClaude then None
      else Some (bp_SubagentReasoningEffort, \<lambda>v b. b\<lparr>bp_SubagentReasoningEffort := v\<rparr>))"
| "ProfileField backend SmallModel = 
     (if backend = BackendClaude then Some (bp_ClaudeSmallModel, \<lambda>v b. b\<lparr>bp_ClaudeSmallModel := v\<rparr>)
      else None)"
| "ProfileField backend ServiceTier = Some (bp_ServiceTier, \<lambda>v b. b\<lparr>bp_ServiceTier := v\<rparr>)"
| "ProfileField backend Workspace = Some (bp_WorkspaceID, \<lambda>v b. b\<lparr>bp_WorkspaceID := v\<rparr>)"
| "ProfileField backend Sandbox = Some (bp_SandboxMode, \<lambda>v b. b\<lparr>bp_SandboxMode := v\<rparr>)"
| "ProfileField backend ApprovalPolicy = Some (bp_ApprovalPolicy, \<lambda>v b. b\<lparr>bp_ApprovalPolicy := v\<rparr>)"
| "ProfileField backend MultiAgent = Some (bp_MultiAgentMode, \<lambda>v b. b\<lparr>bp_MultiAgentMode := v\<rparr>)"
| "ProfileField backend Permissions = Some (bp_ClaudePermissionMode, \<lambda>v b. b\<lparr>bp_ClaudePermissionMode := v\<rparr>)"
| "ProfileField backend (UnknownSetting t) = None"

fun GlobalField :: "string \<Rightarrow> Setting \<Rightarrow> GlobalValues field option" where
  "GlobalField backend Model = 
     (if backend = BackendClaude then Some (gv_ClaudeModel, \<lambda>v b. b\<lparr>gv_ClaudeModel := v\<rparr>)
      else Some (gv_Model, \<lambda>v b. b\<lparr>gv_Model := v\<rparr>))"
| "GlobalField backend Effort = 
     (if backend = BackendClaude then Some (gv_ClaudeEffort, \<lambda>v b. b\<lparr>gv_ClaudeEffort := v\<rparr>)
      else Some (gv_Effort, \<lambda>v b. b\<lparr>gv_Effort := v\<rparr>))"
| "GlobalField backend PlanModel = 
     (if backend = BackendClaude then None
      else Some (gv_PlanModel, \<lambda>v b. b\<lparr>gv_PlanModel := v\<rparr>))"
| "GlobalField backend PlanEffort = 
     (if backend = BackendClaude then None
      else Some (gv_PlanEffort, \<lambda>v b. b\<lparr>gv_PlanEffort := v\<rparr>))"
| "GlobalField backend ReviewModel = 
     (if backend = BackendClaude then None
      else Some (gv_ReviewModel, \<lambda>v b. b\<lparr>gv_ReviewModel := v\<rparr>))"
| "GlobalField backend SubagentModel = 
     (if backend = BackendClaude then Some (gv_ClaudeSubagent, \<lambda>v b. b\<lparr>gv_ClaudeSubagent := v\<rparr>)
      else Some (gv_SubagentModel, \<lambda>v b. b\<lparr>gv_SubagentModel := v\<rparr>))"
| "GlobalField backend SubagentEffort = 
     (if backend = BackendClaude then None
      else Some (gv_SubagentEffort, \<lambda>v b. b\<lparr>gv_SubagentEffort := v\<rparr>))"
| "GlobalField backend SmallModel = 
     (if backend = BackendClaude then Some (gv_ClaudeSmallModel, \<lambda>v b. b\<lparr>gv_ClaudeSmallModel := v\<rparr>)
      else None)"
| "GlobalField backend ServiceTier = None"
| "GlobalField backend Workspace = None"
| "GlobalField backend Sandbox = None"
| "GlobalField backend ApprovalPolicy = None"
| "GlobalField backend MultiAgent = None"
| "GlobalField backend Permissions = None"
| "GlobalField backend (UnknownSetting t) = None"

text \<open>The reading and the writing functions; a nil object has no field.\<close>

definition BindingValue :: "AgentBinding option \<Rightarrow> Setting \<Rightarrow> string" where
  "BindingValue binding setting =
     (case (binding, BindingField setting) of (Some b, Some (get, put)) \<Rightarrow> get b | _ \<Rightarrow> [])"

definition ProfileValue :: "BotProfile option \<Rightarrow> string \<Rightarrow> Setting \<Rightarrow> string" where
  "ProfileValue profile backend setting =
     (case (profile, ProfileField backend setting) of (Some p, Some (get, put)) \<Rightarrow> get p | _ \<Rightarrow> [])"

datatype setting_error =
  UnknownBindingSetting Setting | UnsupportedProfileSetting string Setting

definition SetBinding :: "AgentBinding option \<Rightarrow> Setting \<Rightarrow> string \<Rightarrow> setting_error + AgentBinding" where
  "SetBinding binding setting value =
     (case (binding, BindingField setting) of
        (Some b, Some (get, put)) \<Rightarrow> Inr (put value b)
      | _ \<Rightarrow> Inl (UnknownBindingSetting setting))"

definition SetProfile :: "BotProfile option \<Rightarrow> string \<Rightarrow> Setting \<Rightarrow> string \<Rightarrow> setting_error + BotProfile" where
  "SetProfile profile backend setting value =
     (case (profile, ProfileField backend setting) of
        (Some p, Some (get, put)) \<Rightarrow> Inr (put value p)
      | _ \<Rightarrow> Inl (UnsupportedProfileSetting backend setting))"

section \<open>The contract of a field table\<close>

text \<open>
  Each key has its own field: a write is read back, writes to one field absorb each other, and
  fields of different keys do not overlap.
\<close>

locale field_table =
  fixes table :: "'k \<Rightarrow> 'a field option"
  assumes get_put: "table k = Some (get, put) \<Longrightarrow> get (put v a) = v"
    and put_get: "table k = Some (get, put) \<Longrightarrow> put (get a) a = a"
    and put_put: "table k = Some (get, put) \<Longrightarrow> put v (put w a) = put v a"
    and get_other: "\<lbrakk>table k = Some (get, put); table k' = Some (get', put'); k \<noteq> k'\<rbrakk>
      \<Longrightarrow> get' (put v a) = get' a"
    and put_other: "\<lbrakk>table k = Some (get, put); table k' = Some (get', put'); k \<noteq> k'\<rbrakk>
      \<Longrightarrow> put' w (put v a) = put v (put' w a)"
begin

text \<open>Reading and writing through the table; a key without a field is skipped.\<close>

definition rd :: "'k \<Rightarrow> 'a \<Rightarrow> string" where
  "rd k a = (case table k of Some (get, put) \<Rightarrow> get a | None \<Rightarrow> [])"

definition wr :: "'k \<times> string \<Rightarrow> 'a \<Rightarrow> 'a" where
  "wr kv a = (case table (fst kv) of Some (get, put) \<Rightarrow> put (snd kv) a | None \<Rightarrow> a)"

lemma rd_wr:
  "rd k (wr (j, v) a) = (if k = j \<and> table k \<noteq> None then v else rd k a)"
  by (cases "table j"; cases "table k")
     (auto simp: rd_def wr_def get_put get_other split: option.splits)

lemma wr_commute: "fst p \<noteq> fst q \<Longrightarrow> wr p (wr q a) = wr q (wr p a)"
  by (auto simp: wr_def put_other split: option.splits)

lemma wr_absorb: "fst p = fst q \<Longrightarrow> wr p (wr q a) = wr p a"
  by (auto simp: wr_def put_put split: option.splits)

lemma wr_same: "wr (k, rd k a) a = a"
  by (auto simp: wr_def rd_def put_get split: option.splits)

text \<open>After a sequence of writes each supported key holds the last value written to it.\<close>

lemma rd_fold:
  "table k \<noteq> None \<Longrightarrow>
   rd k (fold wr ws a) = (case map_of (rev ws) k of Some v \<Rightarrow> v | None \<Rightarrow> rd k a)"
proof (induction ws arbitrary: a)
  case Nil
  then show ?case by simp
next
  case (Cons w ws)
  then show ?case
    by (cases w) (auto simp: rd_wr map_add_def split: option.splits)
qed

end


section \<open>The tables satisfy the contract\<close>

interpretation binding: field_table BindingField
proof
  fix k get put v a
  assume "BindingField k = Some (get, put)"
  then show "get (put v a) = v"
    by (cases k) (auto)
next
  fix k get put v a
  assume "BindingField k = Some (get, put)"
  then show "put (get a) a = a"
    by (cases k) (auto)
next
  fix k get put v w a
  assume "BindingField k = Some (get, put)"
  then show "put v (put w a) = put v a"
    by (cases k) (auto)
next
  fix k get put k' get' put' v a
  assume "BindingField k = Some (get, put)" "BindingField k' = Some (get', put')" "k \<noteq> k'"
  then show "get' (put v a) = get' a"
    by (cases k; cases k') (auto)
next
  fix k get put k' get' put' v w a
  assume "BindingField k = Some (get, put)" "BindingField k' = Some (get', put')" "k \<noteq> k'"
  then show "put' w (put v a) = put v (put' w a)"
    by (cases k; cases k') (auto)
qed

interpretation profile: field_table "ProfileField backend" for backend
proof
  fix k get put v a
  assume "ProfileField backend k = Some (get, put)"
  then show "get (put v a) = v"
    by (cases k) (auto split: if_splits)
next
  fix k get put v a
  assume "ProfileField backend k = Some (get, put)"
  then show "put (get a) a = a"
    by (cases k) (auto split: if_splits)
next
  fix k get put v w a
  assume "ProfileField backend k = Some (get, put)"
  then show "put v (put w a) = put v a"
    by (cases k) (auto split: if_splits)
next
  fix k get put k' get' put' v a
  assume "ProfileField backend k = Some (get, put)" "ProfileField backend k' = Some (get', put')" "k \<noteq> k'"
  then show "get' (put v a) = get' a"
    by (cases k; cases k') (auto split: if_splits)
next
  fix k get put k' get' put' v w a
  assume "ProfileField backend k = Some (get, put)" "ProfileField backend k' = Some (get', put')" "k \<noteq> k'"
  then show "put' w (put v a) = put v (put' w a)"
    by (cases k; cases k') (auto split: if_splits)
qed

interpretation global: field_table "GlobalField backend" for backend
proof
  fix k get put v a
  assume "GlobalField backend k = Some (get, put)"
  then show "get (put v a) = v"
    by (cases k) (auto split: if_splits)
next
  fix k get put v a
  assume "GlobalField backend k = Some (get, put)"
  then show "put (get a) a = a"
    by (cases k) (auto split: if_splits)
next
  fix k get put v w a
  assume "GlobalField backend k = Some (get, put)"
  then show "put v (put w a) = put v a"
    by (cases k) (auto split: if_splits)
next
  fix k get put k' get' put' v a
  assume "GlobalField backend k = Some (get, put)" "GlobalField backend k' = Some (get', put')" "k \<noteq> k'"
  then show "get' (put v a) = get' a"
    by (cases k; cases k') (auto split: if_splits)
next
  fix k get put k' get' put' v w a
  assume "GlobalField backend k = Some (get, put)" "GlobalField backend k' = Some (get', put')" "k \<noteq> k'"
  then show "put' w (put v a) = put v (put' w a)"
    by (cases k; cases k') (auto split: if_splits)
qed


section \<open>The two writers\<close>

lemma BindingValue_rd: "BindingValue (Some b) k = binding.rd k b"
  by (auto simp: BindingValue_def binding.rd_def split: option.splits)

lemma ProfileValue_rd: "ProfileValue (Some p) be k = profile.rd be k p"
  by (auto simp: ProfileValue_def profile.rd_def split: option.splits)

lemma BindingField_None_iff: "BindingField k = None \<longleftrightarrow> k \<notin> set OverrideSettings"
  by (cases k) (simp_all add: OverrideSettings_def)

text \<open>Writing a setting and discarding the error, as the update closures of the services do.\<close>

definition write_binding :: "Setting \<times> string \<Rightarrow> AgentBinding \<Rightarrow> AgentBinding" where
  "write_binding kv b =
     (case SetBinding (Some b) (fst kv) (snd kv) of Inr b' \<Rightarrow> b' | Inl e \<Rightarrow> b)"

lemma write_binding_wr: "write_binding = binding.wr"
  by (auto simp: fun_eq_iff write_binding_def SetBinding_def binding.wr_def split: option.splits)

text \<open>
  Whatever sequence of binding settings is written, each setting then reads the last value
  written to it and its old value when it was not written: no write touches the field of
  another setting.
\<close>

theorem BindingValue_last_write:
  assumes "k \<in> set OverrideSettings"
  shows "BindingValue (Some (fold write_binding ws b)) k =
    (case map_of (rev ws) k of Some v \<Rightarrow> v | None \<Rightarrow> BindingValue (Some b) k)"
  unfolding BindingValue_rd write_binding_wr
  using assms by (intro binding.rd_fold) (simp add: BindingField_None_iff del: not_None_eq)

theorem BindingValue_last_write_witness:
  "BindingValue (Some (fold write_binding
      [(Model, ''a''), (Effort, ''high''), (Model, ''b'')] zero_AgentBinding)) Model = ''b''"
proof -
  have "Model \<in> set OverrideSettings" by (simp add: OverrideSettings_def)
  from BindingValue_last_write [OF this,
      of "[(Model, ''a''), (Effort, ''high''), (Model, ''b'')]" zero_AgentBinding]
  show ?thesis by simp
qed

text \<open>Which settings a backend's profile has.\<close>

definition profile_supports :: "string \<Rightarrow> Setting \<Rightarrow> bool" where
  "profile_supports backend k \<longleftrightarrow>
     (case k of
        UnknownSetting t \<Rightarrow> False
      | SmallModel \<Rightarrow> backend = BackendClaude
      | PlanModel \<Rightarrow> backend \<noteq> BackendClaude
      | PlanEffort \<Rightarrow> backend \<noteq> BackendClaude
      | ReviewModel \<Rightarrow> backend \<noteq> BackendClaude
      | SubagentEffort \<Rightarrow> backend \<noteq> BackendClaude
      | _ \<Rightarrow> True)"

lemma ProfileField_None_iff: "ProfileField be k = None \<longleftrightarrow> \<not> profile_supports be k"
  by (cases k) (auto simp: profile_supports_def)

text \<open>The profile keeps the models of the two backends apart.\<close>

lemma profile_models_apart:
  assumes "SetProfile (Some p) be k v = Inr p'" "k \<in> {Model, SubagentModel}"
    "(be = BackendClaude) \<noteq> (be' = BackendClaude)"
  shows "ProfileValue (Some p') be' k = ProfileValue (Some p) be' k"
  using assms by (auto simp: SetProfile_def ProfileValue_def split: if_splits)

text \<open>
  A profile write is rejected exactly when the backend does not have the setting, so no
  value is dropped silently; an accepted write is read back and changes no other setting
  that backend has.
\<close>

theorem SetProfile_total:
  "case SetProfile (Some p) backend k v of
     Inl e \<Rightarrow> \<not> profile_supports backend k \<and> e = UnsupportedProfileSetting backend k
   | Inr p' \<Rightarrow> profile_supports backend k \<and>
       (\<forall>j. ProfileValue (Some p') backend j = (if j = k then v else ProfileValue (Some p) backend j))"
proof (cases "ProfileField backend k")
  case None
  then show ?thesis by (simp add: SetProfile_def flip: ProfileField_None_iff)
next
  case (Some f)
  then have s: "SetProfile (Some p) backend k v = Inr (profile.wr backend (k, v) p)"
    by (cases f) (simp add: SetProfile_def profile.wr_def)
  have "profile_supports backend k"
    using Some ProfileField_None_iff [of backend k] by simp
  moreover have "profile.rd backend j (profile.wr backend (k, v) p) =
      (if j = k then v else profile.rd backend j p)" for j
    using Some by (simp add: profile.rd_wr)
  ultimately show ?thesis by (simp add: s ProfileValue_rd)
qed

end
