(* ===== verification/Conversation_Data.thy ===== *)
theory Conversation_Data
  imports Routing_Settings "HOL-Library.AList" "HOL-Library.Product_Lexorder"
begin

text \<open>
  The data of a conversation and its settings: \<open>internal/domain/conversation\<close>
  (\<open>session.go\<close>, \<open>status.go\<close>, \<open>collaboration.go\<close>, \<open>thread.go\<close>,
  \<open>settings.go\<close>, \<open>goal.go\<close>, \<open>message_link.go\<close>). A Go map is an
  association list; a deep copy of a value is the value itself.
\<close>

section \<open>Sessions (session.go)\<close>

record SessionCollaborationMode =
  cm_PresetReasoningEffort :: string
  cm_Mode :: string
  cm_Model :: string
  cm_ReasoningEffort :: string
  cm_DeveloperInstructions :: "string option"

record SessionBackendThread =
  bt_ThreadID :: string
  bt_WorkspaceID :: string
  bt_ApprovalPolicy :: string
  bt_SandboxMode :: string
  bt_MultiAgentMode :: string
  bt_ClaudePermissionMode :: string
  bt_ServiceTier :: string
  bt_CollaborationMode :: "SessionCollaborationMode option"
  bt_Name :: string
  bt_Preview :: string

definition zero_SessionBackendThread :: SessionBackendThread where
  "zero_SessionBackendThread =
     \<lparr>bt_ThreadID = [], bt_WorkspaceID = [], bt_ApprovalPolicy = [], bt_SandboxMode = [],
      bt_MultiAgentMode = [], bt_ClaudePermissionMode = [], bt_ServiceTier = [],
      bt_CollaborationMode = None, bt_Name = [], bt_Preview = []\<rparr>"

record SessionActiveOperation =
  op_Kind :: string
  op_SubmissionID :: string
  op_ThreadID :: string
  op_TurnID :: string
  op_StartedAt :: int

record SessionStagedImage =
  img_SourceMessageID :: string
  img_RootMessageID :: string
  img_Name :: string
  img_LocalPath :: string
  img_CreatedAt :: int

record Session =
  ss_AppliedModelConfig :: Snapshot
  ss_ModelConfigError :: string
  ss_Key :: string
  ss_BindingID :: string
  ss_WorkspaceID :: string
  ss_ActiveThreadID :: string
  ss_ActiveThreadWorkspaceID :: string
  ss_ActiveThreadApprovalPolicy :: string
  ss_ActiveThreadSandboxMode :: string
  ss_ActiveThreadMultiAgentMode :: string
  ss_ActiveClaudePermissionMode :: string
  ss_ActiveThreadServiceTier :: string
  ss_ActiveThreadCollaborationMode :: "SessionCollaborationMode option"
  ss_ActiveThreadName :: string
  ss_ActiveThreadPreview :: string
  ss_BackendThreads :: "(string \<times> SessionBackendThread) list"
  ss_ActiveTurnID :: string
  ss_ActiveSubmissionID :: string
  ss_OwnerUserID :: string
  ss_ChatID :: string
  ss_ChatType :: string
  ss_RootMessageID :: string
  ss_ModelOverride :: string
  ss_PlanModelOverride :: string
  ss_PlanReasoningEffortOverride :: string
  ss_ReviewModelOverride :: string
  ss_SubagentModelOverride :: string
  ss_SubagentReasoningEffortOverride :: string
  ss_SmallModelOverride :: string
  ss_Status :: string
  ss_Queue :: "string list"
  ss_ActiveOperations :: "SessionActiveOperation list"
  ss_StagedImages :: "SessionStagedImage list"
  ss_RecentWorkspaceIDs :: "string list"
  ss_UpdatedAt :: int

definition zero_Session :: Session where
  "zero_Session =
     \<lparr>ss_AppliedModelConfig = empty_Snapshot, ss_ModelConfigError = [], ss_Key =
      [], ss_BindingID = [], ss_WorkspaceID = [], ss_ActiveThreadID = [],
      ss_ActiveThreadWorkspaceID = [], ss_ActiveThreadApprovalPolicy = [],
      ss_ActiveThreadSandboxMode = [], ss_ActiveThreadMultiAgentMode = [],
      ss_ActiveClaudePermissionMode = [], ss_ActiveThreadServiceTier = [],
      ss_ActiveThreadCollaborationMode = None, ss_ActiveThreadName = [],
      ss_ActiveThreadPreview = [], ss_BackendThreads = [], ss_ActiveTurnID = [],
      ss_ActiveSubmissionID = [], ss_OwnerUserID = [], ss_ChatID = [], ss_ChatType = [],
      ss_RootMessageID = [], ss_ModelOverride = [], ss_PlanModelOverride = [],
      ss_PlanReasoningEffortOverride = [], ss_ReviewModelOverride = [],
      ss_SubagentModelOverride = [], ss_SubagentReasoningEffortOverride = [],
      ss_SmallModelOverride = [], ss_Status = [], ss_Queue = [], ss_ActiveOperations =
      [], ss_StagedImages = [], ss_RecentWorkspaceIDs = [], ss_UpdatedAt = 0\<rparr>"

section \<open>Links and goals (message\_link.go, goal.go)\<close>

record MessageLink =
  ml_FrontendID :: string
  ml_Backend :: string
  ml_MessageID :: string
  ml_SessionKey :: string
  ml_SubmissionID :: string
  ml_ThreadID :: string
  ml_TurnID :: string

abbreviation ThreadGoalStatusActive :: string where "ThreadGoalStatusActive \<equiv> ''active''"
abbreviation ThreadGoalStatusPaused :: string where "ThreadGoalStatusPaused \<equiv> ''paused''"
abbreviation ThreadGoalStatusBlocked :: string where "ThreadGoalStatusBlocked \<equiv> ''blocked''"
abbreviation ThreadGoalStatusUsageLimited :: string where
  "ThreadGoalStatusUsageLimited \<equiv> ''usageLimited''"
abbreviation ThreadGoalStatusBudgetLimited :: string where
  "ThreadGoalStatusBudgetLimited \<equiv> ''budgetLimited''"
abbreviation ThreadGoalStatusComplete :: string where "ThreadGoalStatusComplete \<equiv> ''complete''"

record ThreadGoal =
  tg_ThreadID :: string
  tg_Objective :: string
  tg_Status :: string
  tg_TokenBudget :: "int option"
  tg_TokensUsed :: int
  tg_TimeUsedSeconds :: int
  tg_CreatedAt :: int
  tg_UpdatedAt :: int

section \<open>Status (status.go)\<close>

abbreviation SessionStatusIdle :: string where "SessionStatusIdle \<equiv> ''idle''"
abbreviation SessionStatusQueued :: string where "SessionStatusQueued \<equiv> ''queued''"
abbreviation SessionStatusTurnStarting :: string where "SessionStatusTurnStarting \<equiv> ''turn_starting''"
abbreviation SessionStatusTurnInProgress :: string where
  "SessionStatusTurnInProgress \<equiv> ''turn_in_progress''"
abbreviation SessionStatusCompacting :: string where "SessionStatusCompacting \<equiv> ''compacting''"

definition NormalizeSessionStatus :: "string \<Rightarrow> string" where
  "NormalizeSessionStatus value =
     (let trimmed = trim value in
      if trimmed = '''' then SessionStatusIdle
      else if trimmed = SessionStatusIdle then SessionStatusIdle
      else if trimmed = SessionStatusQueued then SessionStatusQueued
      else if trimmed = SessionStatusTurnStarting then SessionStatusTurnStarting
      else if trimmed = SessionStatusTurnInProgress then SessionStatusTurnInProgress
      else if trimmed = SessionStatusCompacting then SessionStatusCompacting
      else trimmed)"

definition NormalizeCollaborationMode ::
  "SessionCollaborationMode option \<Rightarrow> SessionCollaborationMode option" where
  "NormalizeCollaborationMode mode =
     (case mode of
        None \<Rightarrow> None
      | Some m \<Rightarrow>
          let cp = m\<lparr>cm_Mode := trim (cm_Mode m), cm_Model := trim (cm_Model m),
                     cm_ReasoningEffort := trim (cm_ReasoningEffort m)\<rparr> in
          if cm_Mode cp = [] \<or> cm_Model cp = [] then None else Some cp)"

section \<open>Threads of a backend (thread.go)\<close>

record ThreadEntry =
  te_ID :: string
  te_Name :: string
  te_Preview :: string
  te_CreatedAt :: int
  te_UpdatedAt :: int
  te_Source :: string
  te_Cwd :: string

record ThreadBinding =
  tb_ThreadID :: string
  tb_Name :: string
  tb_Preview :: string
  tb_Resumed :: bool

record ThreadSelection =
  ts_ThreadID :: string
  ts_Name :: string
  ts_Preview :: string
  ts_Cwd :: string

text \<open>SliceStable is the stable sort; its order is newest update first, then newest creation.\<close>

definition SortThreadsByUpdated :: "ThreadEntry list \<Rightarrow> ThreadEntry list" where
  "SortThreadsByUpdated items = sort_key (\<lambda>i. (- te_UpdatedAt i, - te_CreatedAt i)) items"

section \<open>Settings (settings.go)\<close>

record WorkspaceConfig =
  wk_ID :: string
  wk_Name :: string
  wk_Cwd :: string
  wk_ApprovalPolicy :: string
  wk_SandboxMode :: string
  wk_MultiAgentMode :: string
  wk_ClaudePermissionMode :: string

record Settings =
  set_ApprovalPolicy :: string
  set_SandboxMode :: string
  set_ServiceTier :: string
  set_MultiAgentMode :: string
  set_ClaudePermissionMode :: string

definition zero_Settings :: Settings where
  "zero_Settings =
     \<lparr>set_ApprovalPolicy = [], set_SandboxMode = [], set_ServiceTier = [],
      set_MultiAgentMode = [], set_ClaudePermissionMode = []\<rparr>"

definition NormalizeServiceTier :: "string \<Rightarrow> string" where
  "NormalizeServiceTier value = (if equal_fold (trim value) ''fast'' then ''fast'' else [])"

definition EffectiveServiceTier :: "Session option \<Rightarrow> string" where
  "EffectiveServiceTier sess =
     (case sess of Some s \<Rightarrow> NormalizeServiceTier (ss_ActiveThreadServiceTier s) | None \<Rightarrow> [])"

definition EffectiveApprovalPolicy :: "Session option \<Rightarrow> string \<Rightarrow> string" where
  "EffectiveApprovalPolicy sess workspacePolicy =
     (case sess of
        Some s \<Rightarrow> if trim (ss_ActiveThreadApprovalPolicy s) \<noteq> []
                  then trim (ss_ActiveThreadApprovalPolicy s) else trim workspacePolicy
      | None \<Rightarrow> trim workspacePolicy)"

definition EffectiveSandboxMode :: "Session option \<Rightarrow> string \<Rightarrow> string" where
  "EffectiveSandboxMode sess workspaceMode =
     (case sess of
        Some s \<Rightarrow> if trim (ss_ActiveThreadSandboxMode s) \<noteq> []
                  then trim (ss_ActiveThreadSandboxMode s) else trim workspaceMode
      | None \<Rightarrow> trim workspaceMode)"

definition EffectiveMultiAgentMode :: "Session option \<Rightarrow> string \<Rightarrow> string" where
  "EffectiveMultiAgentMode sess workspaceMode =
     (let inherited = (if trim workspaceMode \<noteq> [] then trim workspaceMode
                       else ''explicitRequestOnly'') in
      case sess of
        Some s \<Rightarrow> if trim (ss_ActiveThreadMultiAgentMode s) \<noteq> []
                  then trim (ss_ActiveThreadMultiAgentMode s) else inherited
      | None \<Rightarrow> inherited)"

definition NormalizeClaudePermissionMode :: "string \<Rightarrow> string" where
  "NormalizeClaudePermissionMode value = (if trim value = [] then ''default'' else trim value)"

definition ResolveSettings ::
  "Session option \<Rightarrow> AgentBinding option \<Rightarrow> BotProfile option \<Rightarrow> WorkspaceConfig option \<Rightarrow> string
     \<Rightarrow> Settings" where
  "ResolveSettings sess binding profile ws claudePermission =
     (let active = (case sess of None \<Rightarrow> zero_Settings | Some s \<Rightarrow>
            \<lparr>set_ApprovalPolicy = ss_ActiveThreadApprovalPolicy s,
             set_SandboxMode = ss_ActiveThreadSandboxMode s,
             set_ServiceTier = EffectiveServiceTier sess,
             set_MultiAgentMode = ss_ActiveThreadMultiAgentMode s,
             set_ClaudePermissionMode = ss_ActiveClaudePermissionMode s\<rparr>);
          bound = (case binding of None \<Rightarrow> zero_Settings | Some b \<Rightarrow>
            \<lparr>set_ApprovalPolicy = ab_ApprovalPolicyOverride b,
             set_SandboxMode = ab_SandboxModeOverride b,
             set_ServiceTier = ab_ServiceTierOverride b,
             set_MultiAgentMode = ab_MultiAgentModeOverride b,
             set_ClaudePermissionMode = ab_ClaudePermissionMode b\<rparr>);
          defaults = (case profile of None \<Rightarrow> zero_Settings | Some p \<Rightarrow>
            \<lparr>set_ApprovalPolicy = bp_ApprovalPolicy p,
             set_SandboxMode = bp_SandboxMode p,
             set_ServiceTier = bp_ServiceTier p,
             set_MultiAgentMode = bp_MultiAgentMode p,
             set_ClaudePermissionMode = bp_ClaudePermissionMode p\<rparr>);
          work = (case ws of None \<Rightarrow> zero_Settings | Some w \<Rightarrow>
            \<lparr>set_ApprovalPolicy = wk_ApprovalPolicy w,
             set_SandboxMode = wk_SandboxMode w,
             set_ServiceTier = [],
             set_MultiAgentMode = wk_MultiAgentMode w,
             set_ClaudePermissionMode = wk_ClaudePermissionMode w\<rparr>) in
      \<lparr>set_ApprovalPolicy = FirstNonEmpty
         [set_ApprovalPolicy active, set_ApprovalPolicy bound, set_ApprovalPolicy defaults,
          EffectiveApprovalPolicy sess (set_ApprovalPolicy work)],
       set_SandboxMode = FirstNonEmpty
         [set_SandboxMode active, set_SandboxMode bound, set_SandboxMode defaults,
          EffectiveSandboxMode sess (set_SandboxMode work)],
       set_ServiceTier = FirstNonEmpty
         [set_ServiceTier active, set_ServiceTier bound, set_ServiceTier defaults],
       set_MultiAgentMode = FirstNonEmpty
         [set_MultiAgentMode active, set_MultiAgentMode bound, set_MultiAgentMode defaults,
          EffectiveMultiAgentMode sess (set_MultiAgentMode work)],
       set_ClaudePermissionMode = NormalizeClaudePermissionMode (FirstNonEmpty
         [set_ClaudePermissionMode active, set_ClaudePermissionMode bound,
          set_ClaudePermissionMode defaults, set_ClaudePermissionMode work, claudePermission])\<rparr>)"

fun SessionField :: "Setting \<Rightarrow> Session field option" where
  "SessionField Model = Some (ss_ModelOverride, \<lambda>v s. s\<lparr>ss_ModelOverride := v\<rparr>)"
| "SessionField PlanModel = Some (ss_PlanModelOverride, \<lambda>v s. s\<lparr>ss_PlanModelOverride := v\<rparr>)"
| "SessionField PlanEffort =
     Some (ss_PlanReasoningEffortOverride, \<lambda>v s. s\<lparr>ss_PlanReasoningEffortOverride := v\<rparr>)"
| "SessionField ReviewModel = Some (ss_ReviewModelOverride, \<lambda>v s. s\<lparr>ss_ReviewModelOverride := v\<rparr>)"
| "SessionField SubagentModel =
     Some (ss_SubagentModelOverride, \<lambda>v s. s\<lparr>ss_SubagentModelOverride := v\<rparr>)"
| "SessionField SubagentEffort =
     Some (ss_SubagentReasoningEffortOverride, \<lambda>v s. s\<lparr>ss_SubagentReasoningEffortOverride := v\<rparr>)"
| "SessionField SmallModel = Some (ss_SmallModelOverride, \<lambda>v s. s\<lparr>ss_SmallModelOverride := v\<rparr>)"
| "SessionField _ = None"

interpretation session_field: field_table SessionField
proof
  fix k get put v a
  assume "SessionField k = Some (get, put)"
  then show "get (put v a) = v" by (cases k) auto
next
  fix k get put v a
  assume "SessionField k = Some (get, put)"
  then show "put (get a) a = a" by (cases k) auto
next
  fix k get put v w a
  assume "SessionField k = Some (get, put)"
  then show "put v (put w a) = put v a" by (cases k) auto
next
  fix k get put k' get' put' v a
  assume "SessionField k = Some (get, put)" "SessionField k' = Some (get', put')" "k \<noteq> k'"
  then show "get' (put v a) = get' a" by (cases k; cases k') auto
next
  fix k get put k' get' put' v w a
  assume "SessionField k = Some (get, put)" "SessionField k' = Some (get', put')" "k \<noteq> k'"
  then show "put' w (put v a) = put v (put' w a)" by (cases k; cases k') auto
qed

section \<open>Precedence of the settings\<close>

abbreviation ptr_field :: "('a \<Rightarrow> string) \<Rightarrow> 'a option \<Rightarrow> string" where
  "ptr_field f p \<equiv> (case p of None \<Rightarrow> [] | Some x \<Rightarrow> f x)"

lemma FirstNonEmpty_blank_tail:
  "blank v \<Longrightarrow> FirstNonEmpty (vs @ [v]) = FirstNonEmpty vs"
  by (simp add: FirstNonEmpty_append)

text \<open>A value of the thread that the last tier repeats is never reached there.\<close>

lemma FirstNonEmpty_repeat:
  "FirstNonEmpty [a, b, c, if trim a \<noteq> [] then trim a else w] = FirstNonEmpty [a, b, c, w]"
  by (simp add: FirstNonEmpty_Cons)

lemma FirstNonEmpty_default:
  "trim d = d \<Longrightarrow> d \<noteq> [] \<Longrightarrow>
   FirstNonEmpty [a, b, c, if trim a \<noteq> [] then trim a else if trim w \<noteq> [] then trim w else d]
   = FirstNonEmpty [a, b, c, w, d]"
  by (simp add: FirstNonEmpty_Cons)

text \<open>
  The settings of a turn follow one order of precedence: the running thread, the group's
  binding, the bot's profile, the workspace, and then the default of a setting that has
  one. The approval policy and sandbox can stay empty, the multi-agent mode and the Claude
  permission mode never are.
\<close>

theorem ResolveSettings_precedence:
  "ResolveSettings sess binding profile ws claude =
     \<lparr>set_ApprovalPolicy = FirstNonEmpty
        [ptr_field ss_ActiveThreadApprovalPolicy sess, ptr_field ab_ApprovalPolicyOverride binding,
         ptr_field bp_ApprovalPolicy profile, ptr_field wk_ApprovalPolicy ws],
      set_SandboxMode = FirstNonEmpty
        [ptr_field ss_ActiveThreadSandboxMode sess, ptr_field ab_SandboxModeOverride binding,
         ptr_field bp_SandboxMode profile, ptr_field wk_SandboxMode ws],
      set_ServiceTier = FirstNonEmpty
        [EffectiveServiceTier sess, ptr_field ab_ServiceTierOverride binding,
         ptr_field bp_ServiceTier profile],
      set_MultiAgentMode = FirstNonEmpty
        [ptr_field ss_ActiveThreadMultiAgentMode sess, ptr_field ab_MultiAgentModeOverride binding,
         ptr_field bp_MultiAgentMode profile, ptr_field wk_MultiAgentMode ws, ''explicitRequestOnly''],
      set_ClaudePermissionMode = FirstNonEmpty
        [ptr_field ss_ActiveClaudePermissionMode sess, ptr_field ab_ClaudePermissionMode binding,
         ptr_field bp_ClaudePermissionMode profile, ptr_field wk_ClaudePermissionMode ws, claude,
         ''default'']\<rparr>"
proof -
  let ?ad = "''explicitRequestOnly''"
  have lit: "trim ''explicitRequestOnly'' = ''explicitRequestOnly''" "trim ''default'' = ''default''"
    by (simp_all add: trim_literal)
  have ap: "FirstNonEmpty [[], b, c, EffectiveApprovalPolicy None w] = FirstNonEmpty [[], b, c, w]"
    "FirstNonEmpty [ss_ActiveThreadApprovalPolicy s, b, c, EffectiveApprovalPolicy (Some s) w] = FirstNonEmpty [ss_ActiveThreadApprovalPolicy s, b, c, w]" for b c w s
    by (simp_all add: EffectiveApprovalPolicy_def FirstNonEmpty_Cons lit)
  have sb: "FirstNonEmpty [[], b, c, EffectiveSandboxMode None w] = FirstNonEmpty [[], b, c, w]"
    "FirstNonEmpty [ss_ActiveThreadSandboxMode s, b, c, EffectiveSandboxMode (Some s) w] = FirstNonEmpty [ss_ActiveThreadSandboxMode s, b, c, w]" for b c w s
    by (simp_all add: EffectiveSandboxMode_def FirstNonEmpty_Cons lit)
  have ma: "FirstNonEmpty [[], b, c, EffectiveMultiAgentMode None w] = FirstNonEmpty [[], b, c, w, ?ad]"
    "FirstNonEmpty [ss_ActiveThreadMultiAgentMode s, b, c, EffectiveMultiAgentMode (Some s) w] = FirstNonEmpty [ss_ActiveThreadMultiAgentMode s, b, c, w, ?ad]" for b c w s
    by (simp_all add: EffectiveMultiAgentMode_def FirstNonEmpty_Cons lit)
  have cl: "NormalizeClaudePermissionMode (FirstNonEmpty vs) = FirstNonEmpty (vs @ [''default''])" for vs
    by (simp add: NormalizeClaudePermissionMode_def FirstNonEmpty_append lit)
  have st: "EffectiveServiceTier None = []" by (simp add: EffectiveServiceTier_def)
  show ?thesis
    by (cases sess; cases binding; cases profile; cases ws)
       (simp_all add: ResolveSettings_def zero_Settings_def Let_def cl
          ap sb ma st split del: if_split)
qed

end
