(* ===== verification/Queue_Contract.thy ===== *)
theory Queue_Contract
  imports Main
begin

text \<open>
  The contract of a queue without duplicates: what an arrival order becomes once it has passed
  through it. A session's own queue and the store's queue of a session both satisfy it.
\<close>

section \<open>First arrivals\<close>

definition first_arrivals :: "'a list \<Rightarrow> 'a list" where
  "first_arrivals xs = rev (remdups (rev xs))"

lemma first_arrivals_Nil [simp]: "first_arrivals [] = []"
  by (simp add: first_arrivals_def)

lemma first_arrivals_snoc:
  "first_arrivals (xs @ [x]) = (if x \<in> set xs then first_arrivals xs else first_arrivals xs @ [x])"
  by (simp add: first_arrivals_def)

lemma set_first_arrivals [simp]: "set (first_arrivals xs) = set xs"
  by (simp add: first_arrivals_def)

lemma distinct_first_arrivals [simp]: "distinct (first_arrivals xs)"
  by (simp add: first_arrivals_def)

lemma first_arrivals_distinct: "distinct xs \<Longrightarrow> first_arrivals xs = xs"
  by (simp add: first_arrivals_def distinct_remdups_id)

section \<open>The contract\<close>

locale dedup_queue =
  fixes contents :: "'s \<Rightarrow> 'a list"
    and ok :: "'s \<Rightarrow> bool"
    and enq :: "'a \<Rightarrow> 's \<Rightarrow> 's"
    and deq :: "'s \<Rightarrow> 's \<times> 'a"
  assumes ok_enq: "ok s \<Longrightarrow> ok (enq x s)"
    and ok_deq: "ok s \<Longrightarrow> ok (fst (deq s))"
    and contents_enq: "ok s \<Longrightarrow> contents (enq x s) =
      (if x \<in> set (contents s) then contents s else contents s @ [x])"
    and contents_deq: "ok s \<Longrightarrow> contents s = x # xs \<Longrightarrow>
      contents (fst (deq s)) = xs \<and> snd (deq s) = x"
begin

text \<open>What \<open>n\<close> removals return.\<close>

fun drain :: "nat \<Rightarrow> 's \<Rightarrow> 'a list" where
  "drain 0 s = []"
| "drain (Suc n) s = (let (s', x) = deq s in x # drain n s')"

lemma ok_arrivals: "ok s \<Longrightarrow> ok (fold enq xs s)"
  by (induction xs arbitrary: s) (simp_all add: ok_enq)

lemma contents_arrivals:
  "ok s \<Longrightarrow> contents s = [] \<Longrightarrow> contents (fold enq xs s) = first_arrivals xs"
  by (induction xs rule: rev_induct) (simp_all add: first_arrivals_snoc contents_enq ok_arrivals)

lemma distinct_enq: "ok s \<Longrightarrow> distinct (contents s) \<Longrightarrow> distinct (contents (enq x s))"
  by (simp add: contents_enq)

lemma drain_contents: "ok s \<Longrightarrow> drain (length (contents s)) s = contents s"
proof (induction "contents s" arbitrary: s)
  case Nil
  then show ?case by (metis drain.simps(1) list.size(3))
next
  case (Cons x xs)
  have c: "contents (fst (deq s)) = xs" "snd (deq s) = x"
    using contents_deq [OF \<open>ok s\<close> Cons.hyps(2) [symmetric]] by simp_all
  with Cons.hyps(1) [of "fst (deq s)"] ok_deq [OF \<open>ok s\<close>]
  have "drain (length xs) (fst (deq s)) = xs" by simp
  with c show ?case by (simp flip: Cons.hyps(2) add: case_prod_beta)
qed

lemma first_in_first_out:
  "ok s \<Longrightarrow> contents s = [] \<Longrightarrow>
   drain (length (first_arrivals xs)) (fold enq xs s) = first_arrivals xs"
  using drain_contents [OF ok_arrivals, of s xs] by (simp add: contents_arrivals)

end

end
