(* ===== verification/Conversation.thy ===== *)
theory Conversation
  imports Conversation_Data Queue_Contract
begin

text \<open>
  The transitions of a session: \<open>internal/domain/conversation/transitions.go\<close> and
  \<open>queue.go\<close>. Every function of the code returns at once on a nil session and updates
  the session in place otherwise; here it maps the session to its next value, and a nil
  session is the \<open>None\<close> of \<open>through_ptr\<close>. A query that first adds the operation
  of the legacy fields leaves \<open>EnsureActiveOperations\<close> of its session behind, which the
  functions below carry on with. The clock is the parameter \<open>now\<close>.
\<close>

section \<open>Thread context\<close>

abbreviation OpKindSubmission :: string where "OpKindSubmission \<equiv> ''submission''"
abbreviation OpKindTurn :: string where "OpKindTurn \<equiv> ''turn''"

definition ClearThreadContext :: "Session \<Rightarrow> Session" where
  "ClearThreadContext sess =
     sess\<lparr>ss_AppliedModelConfig := empty_Snapshot,
          ss_ModelConfigError := [],
          ss_ActiveThreadID := [],
          ss_ActiveThreadWorkspaceID := [],
          ss_ActiveThreadApprovalPolicy := [],
          ss_ActiveThreadSandboxMode := [],
          ss_ActiveThreadMultiAgentMode := [],
          ss_ActiveClaudePermissionMode := [],
          ss_ActiveThreadServiceTier := [],
          ss_ActiveThreadCollaborationMode := None,
          ss_ActiveThreadName := [],
          ss_ActiveThreadPreview := []\<rparr>"

definition SetThreadContext :: "Session \<Rightarrow> string \<Rightarrow> string \<Rightarrow> string \<Rightarrow> string \<Rightarrow> Session" where
  "SetThreadContext sess workspaceID threadID name preview =
     sess\<lparr>ss_WorkspaceID := trim workspaceID,
          ss_ActiveThreadID := trim threadID,
          ss_ActiveThreadWorkspaceID := trim workspaceID,
          ss_ActiveThreadName := trim name,
          ss_ActiveThreadPreview := trim preview\<rparr>"

definition SetThreadDefaults :: "Session \<Rightarrow> string \<Rightarrow> string \<Rightarrow> Session" where
  "SetThreadDefaults sess approvalPolicy sandboxMode =
     sess\<lparr>ss_ActiveThreadApprovalPolicy := trim approvalPolicy,
          ss_ActiveThreadSandboxMode := trim sandboxMode\<rparr>"

definition BackendThreadSnapshot :: "Session option \<Rightarrow> SessionBackendThread" where
  "BackendThreadSnapshot session =
     (case session of
        None \<Rightarrow> zero_SessionBackendThread
      | Some sess \<Rightarrow>
          \<lparr>bt_ThreadID = trim (ss_ActiveThreadID sess),
           bt_WorkspaceID = trim (ss_ActiveThreadWorkspaceID sess),
           bt_ApprovalPolicy = trim (ss_ActiveThreadApprovalPolicy sess),
           bt_SandboxMode = trim (ss_ActiveThreadSandboxMode sess),
           bt_MultiAgentMode = trim (ss_ActiveThreadMultiAgentMode sess),
           bt_ClaudePermissionMode = trim (ss_ActiveClaudePermissionMode sess),
           bt_ServiceTier = trim (ss_ActiveThreadServiceTier sess),
           bt_CollaborationMode = ss_ActiveThreadCollaborationMode sess,
           bt_Name = trim (ss_ActiveThreadName sess),
           bt_Preview = trim (ss_ActiveThreadPreview sess)\<rparr>)"

definition normalizeBackend :: "string \<Rightarrow> string" where
  "normalizeBackend value =
     (let b = to_lower (trim value) in if b = ''codex'' \<or> b = ''claude'' then b else [])"

definition StoreBackendThread :: "Session \<Rightarrow> string \<Rightarrow> Session" where
  "StoreBackendThread sess backend0 =
     (let backend = normalizeBackend backend0 in
      if backend = [] then sess
      else
        let snapshot = BackendThreadSnapshot (Some sess) in
        if snapshot = zero_SessionBackendThread
        then sess\<lparr>ss_BackendThreads := AList.delete backend (ss_BackendThreads sess)\<rparr>
        else sess\<lparr>ss_BackendThreads := AList.update backend snapshot (ss_BackendThreads sess)\<rparr>)"

definition ClearBackendThread :: "Session \<Rightarrow> string \<Rightarrow> Session" where
  "ClearBackendThread sess backend0 =
     (let backend = normalizeBackend backend0 in
      if backend = [] \<or> ss_BackendThreads sess = [] then sess
      else sess\<lparr>ss_BackendThreads := AList.delete backend (ss_BackendThreads sess)\<rparr>)"

definition RestoreBackendThread :: "Session \<Rightarrow> string \<Rightarrow> Session \<times> bool" where
  "RestoreBackendThread sess backend0 =
     (let backend = normalizeBackend backend0 in
      if backend = [] \<or> ss_BackendThreads sess = [] then (ClearThreadContext sess, False)
      else
        (case map_of (ss_BackendThreads sess) backend of
           None \<Rightarrow> (ClearThreadContext sess, False)
         | Some snapshot \<Rightarrow>
             let sess1 = (if trim (bt_WorkspaceID snapshot) \<noteq> []
                          then sess\<lparr>ss_WorkspaceID := trim (bt_WorkspaceID snapshot)\<rparr> else sess);
                 sess2 = SetThreadContext sess1 (bt_WorkspaceID snapshot) (bt_ThreadID snapshot)
                           (bt_Name snapshot) (bt_Preview snapshot) in
             (sess2\<lparr>ss_ActiveThreadApprovalPolicy := trim (bt_ApprovalPolicy snapshot),
                    ss_ActiveThreadSandboxMode := trim (bt_SandboxMode snapshot),
                    ss_ActiveThreadMultiAgentMode := trim (bt_MultiAgentMode snapshot),
                    ss_ActiveClaudePermissionMode := trim (bt_ClaudePermissionMode snapshot),
                    ss_ActiveThreadServiceTier := NormalizeServiceTier (bt_ServiceTier snapshot),
                    ss_ActiveThreadCollaborationMode := bt_CollaborationMode snapshot\<rparr>, True)))"

definition ClearBackendThreads :: "Session \<Rightarrow> Session" where
  "ClearBackendThreads sess = sess\<lparr>ss_BackendThreads := []\<rparr>"

definition CanResumeThreadForWorkspace :: "Session option \<Rightarrow> string \<Rightarrow> bool" where
  "CanResumeThreadForWorkspace session workspaceID =
     (case session of
        None \<Rightarrow> False
      | Some sess \<Rightarrow>
          if trim (ss_ActiveThreadID sess) = [] then False
          else trim (ss_ActiveThreadWorkspaceID sess) \<noteq> [] \<and>
               trim (ss_ActiveThreadWorkspaceID sess) = trim workspaceID)"

section \<open>Active operations\<close>

definition EnsureActiveOperations :: "Session \<Rightarrow> Session" where
  "EnsureActiveOperations sess =
     (if ss_ActiveOperations sess \<noteq> [] then sess
      else if trim (ss_ActiveTurnID sess) = [] \<and> trim (ss_ActiveSubmissionID sess) = [] then sess
      else sess\<lparr>ss_ActiveOperations :=
        [\<lparr>op_Kind = (if trim (ss_ActiveSubmissionID sess) \<noteq> [] then OpKindSubmission else OpKindTurn),
          op_SubmissionID = trim (ss_ActiveSubmissionID sess),
          op_ThreadID = trim (ss_ActiveThreadID sess),
          op_TurnID = trim (ss_ActiveTurnID sess),
          op_StartedAt = 0\<rparr>]\<rparr>)"

definition SyncLegacyActiveFields :: "Session \<Rightarrow> Session" where
  "SyncLegacyActiveFields sess =
     (if ss_ActiveOperations sess = [] then
        sess\<lparr>ss_ActiveTurnID := [], ss_ActiveSubmissionID := []\<rparr>
      else
        let foreground = last (ss_ActiveOperations sess);
            sess1 = sess\<lparr>ss_ActiveTurnID := trim (op_TurnID foreground),
                         ss_ActiveSubmissionID := trim (op_SubmissionID foreground)\<rparr> in
        if trim (op_ThreadID foreground) \<noteq> []
        then sess1\<lparr>ss_ActiveThreadID := trim (op_ThreadID foreground)\<rparr> else sess1)"

definition ResetActiveOperations :: "Session \<Rightarrow> Session" where
  "ResetActiveOperations sess = SyncLegacyActiveFields (sess\<lparr>ss_ActiveOperations := []\<rparr>)"

definition ForegroundOperation :: "Session option \<Rightarrow> SessionActiveOperation option" where
  "ForegroundOperation session =
     (case session of
        None \<Rightarrow> None
      | Some sess0 \<Rightarrow>
          let sess = EnsureActiveOperations sess0 in
          if ss_ActiveOperations sess = [] then None else Some (last (ss_ActiveOperations sess)))"

definition HasActiveOperations :: "Session option \<Rightarrow> bool" where
  "HasActiveOperations session =
     (case session of
        None \<Rightarrow> False
      | Some sess \<Rightarrow> ss_ActiveOperations (EnsureActiveOperations sess) \<noteq> [])"

definition HasInFlightSubmission :: "Session option \<Rightarrow> bool" where
  "HasInFlightSubmission session =
     (case session of
        None \<Rightarrow> False
      | Some sess0 \<Rightarrow>
          if HasActiveOperations session then True
          else
            let sess = EnsureActiveOperations sess0 in
            trim (ss_ActiveTurnID sess) \<noteq> [] \<or> trim (ss_ActiveSubmissionID sess) \<noteq> [])"

definition HasActiveWork :: "Session option \<Rightarrow> bool" where
  "HasActiveWork session =
     (case session of
        None \<Rightarrow> False
      | Some sess \<Rightarrow>
          if HasActiveOperations session then True
          else
            let status = NormalizeSessionStatus (ss_Status sess) in
            status = SessionStatusCompacting \<or> status = SessionStatusTurnStarting)"

definition activeOperationMatches :: "SessionActiveOperation \<Rightarrow> string \<Rightarrow> string \<Rightarrow> bool" where
  "activeOperationMatches op submissionID0 turnID0 =
     (let submissionID = trim submissionID0; turnID = trim turnID0 in
      if submissionID \<noteq> [] \<and> trim (op_SubmissionID op) = submissionID then True
      else if turnID \<noteq> [] \<and> trim (op_TurnID op) = turnID then True
      else False)"

text \<open>The normalisation both insertions start with.\<close>

definition normalize_operation :: "SessionActiveOperation \<Rightarrow> SessionActiveOperation" where
  "normalize_operation op0 =
     (let op = op0\<lparr>op_Kind := trim (op_Kind op0), op_SubmissionID := trim (op_SubmissionID op0),
                   op_ThreadID := trim (op_ThreadID op0), op_TurnID := trim (op_TurnID op0)\<rparr> in
      if op_Kind op = [] then
        op\<lparr>op_Kind := (if op_SubmissionID op \<noteq> [] then OpKindSubmission else OpKindTurn)\<rparr>
      else op)"

text \<open>\<open>a\<close> filled with the values of \<open>b\<close> where it has none.\<close>

definition merge_operation ::
  "SessionActiveOperation \<Rightarrow> SessionActiveOperation \<Rightarrow> int \<Rightarrow> SessionActiveOperation" where
  "merge_operation a b startedAt =
     \<lparr>op_Kind = FirstNonEmpty [op_Kind a, trim (op_Kind b)],
      op_SubmissionID = FirstNonEmpty [op_SubmissionID a, trim (op_SubmissionID b)],
      op_ThreadID = FirstNonEmpty [op_ThreadID a, trim (op_ThreadID b)],
      op_TurnID = FirstNonEmpty [op_TurnID a, trim (op_TurnID b)],
      op_StartedAt = startedAt\<rparr>"

definition UpsertActiveOperation :: "int \<Rightarrow> Session \<Rightarrow> SessionActiveOperation \<Rightarrow> Session" where
  "UpsertActiveOperation now sess0 op0 =
     (let sess = EnsureActiveOperations sess0;
          op = normalize_operation op0;
          hit = (\<lambda>c. activeOperationMatches c (op_SubmissionID op) (op_TurnID op));
          next = map (\<lambda>c. if hit c
                   then merge_operation op c
                          (if op_StartedAt op \<noteq> 0 then op_StartedAt op else op_StartedAt c)
                   else c) (ss_ActiveOperations sess);
          updated = (\<exists>c\<in>set (ss_ActiveOperations sess). hit c);
          next' = (if \<not> updated
                   then next @ [if op_StartedAt op = 0 then op\<lparr>op_StartedAt := now\<rparr> else op]
                   else next) in
      SyncLegacyActiveFields (sess\<lparr>ss_ActiveOperations := next'\<rparr>))"

text \<open>The loop of PrependActiveOperation: its head absorbs the matching candidates.\<close>

fun prepend_operations ::
  "string \<Rightarrow> string \<Rightarrow> SessionActiveOperation \<Rightarrow> SessionActiveOperation list
     \<Rightarrow> SessionActiveOperation list \<Rightarrow> SessionActiveOperation list" where
  "prepend_operations submissionID turnID head kept [] = head # kept"
| "prepend_operations submissionID turnID head kept (candidate # cs) =
     (if activeOperationMatches candidate submissionID turnID then
        prepend_operations submissionID turnID
          (merge_operation head candidate
             (if op_StartedAt head = 0 then op_StartedAt candidate else op_StartedAt head)) kept cs
      else prepend_operations submissionID turnID head (kept @ [candidate]) cs)"

definition PrependActiveOperation :: "int \<Rightarrow> Session \<Rightarrow> SessionActiveOperation \<Rightarrow> Session" where
  "PrependActiveOperation now sess0 op0 =
     (let sess = EnsureActiveOperations sess0;
          op1 = normalize_operation op0;
          op = (if op_StartedAt op1 = 0 then op1\<lparr>op_StartedAt := now\<rparr> else op1) in
      SyncLegacyActiveFields (sess\<lparr>ss_ActiveOperations :=
        prepend_operations (op_SubmissionID op) (op_TurnID op) op [] (ss_ActiveOperations sess)\<rparr>))"

definition RemoveActiveOperation :: "Session \<Rightarrow> string \<Rightarrow> string \<Rightarrow> Session \<times> bool" where
  "RemoveActiveOperation sess0 submissionID0 turnID0 =
     (let sess = EnsureActiveOperations sess0;
          submissionID = trim submissionID0; turnID = trim turnID0 in
      if ss_ActiveOperations sess = [] then (sess, False)
      else if submissionID = [] \<and> turnID = [] then (sess, False)
      else
        let hit = (\<lambda>op. activeOperationMatches op submissionID turnID);
            next = filter (\<lambda>op. \<not> hit op) (ss_ActiveOperations sess) in
        if \<not> (\<exists>op\<in>set (ss_ActiveOperations sess). hit op) then (sess, False)
        else (SyncLegacyActiveFields (sess\<lparr>ss_ActiveOperations := next\<rparr>), True))"

definition FindActiveOperationByTurn :: "Session option \<Rightarrow> string \<Rightarrow> SessionActiveOperation option" where
  "FindActiveOperationByTurn session turnID =
     (case session of
        None \<Rightarrow> None
      | Some sess \<Rightarrow>
          if trim turnID = [] then None
          else find (\<lambda>op. trim (op_TurnID op) = trim turnID)
                 (rev (ss_ActiveOperations (EnsureActiveOperations sess))))"

definition FindActiveOperationByThread :: "Session option \<Rightarrow> string \<Rightarrow> SessionActiveOperation option" where
  "FindActiveOperationByThread session threadID =
     (case session of
        None \<Rightarrow> None
      | Some sess \<Rightarrow>
          if trim threadID = [] then None
          else find (\<lambda>op. trim (op_ThreadID op) = trim threadID)
                 (rev (ss_ActiveOperations (EnsureActiveOperations sess))))"

definition FindPendingSubmissionOperationByThread ::
  "Session option \<Rightarrow> string \<Rightarrow> SessionActiveOperation option" where
  "FindPendingSubmissionOperationByThread session threadID =
     (case session of
        None \<Rightarrow> None
      | Some sess \<Rightarrow>
          if trim threadID = [] then None
          else find (\<lambda>op. trim (op_Kind op) = OpKindSubmission \<and> trim (op_ThreadID op) = trim threadID
                          \<and> trim (op_TurnID op) = [])
                 (ss_ActiveOperations (EnsureActiveOperations sess)))"

section \<open>Workspace switch\<close>

definition trackRecentWorkspace :: "Session \<Rightarrow> string \<Rightarrow> Session" where
  "trackRecentWorkspace sess workspaceID =
     (let ws = trim workspaceID in
      if ws = [] then sess
      else sess\<lparr>ss_RecentWorkspaceIDs := ws # filter (\<lambda>i. i \<noteq> ws) (ss_RecentWorkspaceIDs sess)\<rparr>)"

definition SwitchSessionWorkspace :: "Session \<Rightarrow> string \<Rightarrow> Session" where
  "SwitchSessionWorkspace sess0 workspaceID =
     (let previousWorkspaceID = trim (ss_WorkspaceID sess0);
          sess1 = sess0\<lparr>ss_WorkspaceID := trim workspaceID\<rparr>;
          sess2 = trackRecentWorkspace sess1 (ss_WorkspaceID sess1);
          sess3 = EnsureActiveOperations sess2 in
      if \<not> HasInFlightSubmission (Some sess2) then ClearThreadContext (ClearBackendThreads sess3)
      else if ss_ActiveThreadID sess3 \<noteq> [] \<and> trim (ss_ActiveThreadWorkspaceID sess3) = [] then
        sess3\<lparr>ss_ActiveThreadWorkspaceID := previousWorkspaceID\<rparr>
      else sess3)"

section \<open>The queue (queue.go)\<close>

definition Enqueue :: "Session \<Rightarrow> string \<Rightarrow> Session" where
  "Enqueue sess submissionID =
     (if submissionID \<in> set (ss_Queue sess) then sess
      else sess\<lparr>ss_Queue := ss_Queue sess @ [submissionID]\<rparr>)"

definition Dequeue :: "Session \<Rightarrow> Session \<times> string" where
  "Dequeue sess =
     (case ss_Queue sess of
        [] \<Rightarrow> (sess, [])
      | next # rest \<Rightarrow> (sess\<lparr>ss_Queue := rest\<rparr>, next))"

definition ShouldStartNextSubmission :: "Session option \<Rightarrow> bool" where
  "ShouldStartNextSubmission session =
     (case session of
        None \<Rightarrow> False
      | Some sess \<Rightarrow> \<not> HasInFlightSubmission session \<and> ss_Queue sess \<noteq> [])"

definition RefreshPendingStatus :: "Session \<Rightarrow> Session" where
  "RefreshPendingStatus sess0 =
     (let sess = EnsureActiveOperations sess0 in
      if HasInFlightSubmission (Some sess0) then sess
      else if ss_Queue sess \<noteq> [] \<or> ss_StagedImages sess \<noteq> []
      then sess\<lparr>ss_Status := SessionStatusQueued\<rparr>
      else sess\<lparr>ss_Status := SessionStatusIdle\<rparr>)"

definition RefreshActiveStatus :: "Session \<Rightarrow> Session" where
  "RefreshActiveStatus sess0 =
     (let sess = EnsureActiveOperations sess0 in
      if HasActiveOperations (Some sess0) then
        (if \<exists>op\<in>set (ss_ActiveOperations sess). op_TurnID op \<noteq> []
         then sess\<lparr>ss_Status := SessionStatusTurnInProgress\<rparr>
         else sess\<lparr>ss_Status := SessionStatusTurnStarting\<rparr>)
      else RefreshPendingStatus sess)"


section \<open>Active operations: basic facts\<close>

lemma HasActiveOperations_iff:
  "HasActiveOperations (Some s) \<longleftrightarrow>
     ss_ActiveOperations s \<noteq> [] \<or> \<not> blank (ss_ActiveTurnID s) \<or> \<not> blank (ss_ActiveSubmissionID s)"
  by (simp add: HasActiveOperations_def EnsureActiveOperations_def)

lemma EnsureActiveOperations_idem [simp]:
  "EnsureActiveOperations (EnsureActiveOperations s) = EnsureActiveOperations s"
  by (simp add: EnsureActiveOperations_def)

lemma EnsureActiveOperations_keeps:
  "ss_ActiveOperations s \<noteq> [] \<Longrightarrow> EnsureActiveOperations s = s"
  "blank (ss_ActiveTurnID s) \<Longrightarrow> blank (ss_ActiveSubmissionID s) \<Longrightarrow> EnsureActiveOperations s = s"
  by (simp_all add: EnsureActiveOperations_def)

lemma EnsureActiveOperations_Nil:
  assumes "ss_ActiveOperations (EnsureActiveOperations s) = []"
  shows "EnsureActiveOperations s = s"
proof -
  have "\<not> HasActiveOperations (Some s)" by (simp add: HasActiveOperations_def assms)
  then show ?thesis
    unfolding HasActiveOperations_iff by (intro EnsureActiveOperations_keeps(2)) blast+
qed

lemma EnsureActiveOperations_legacy [simp]:
  "ss_ActiveTurnID (EnsureActiveOperations s) = ss_ActiveTurnID s"
  "ss_ActiveSubmissionID (EnsureActiveOperations s) = ss_ActiveSubmissionID s"
  by (simp_all add: EnsureActiveOperations_def)

lemma HasInFlightSubmission_iff: "HasInFlightSubmission m = HasActiveOperations m"
  by (cases m)
     (auto simp: HasInFlightSubmission_def HasActiveOperations_def EnsureActiveOperations_def)

lemma SyncLegacy_ops [simp]:
  "ss_ActiveOperations (SyncLegacyActiveFields s) = ss_ActiveOperations s"
  by (simp add: SyncLegacyActiveFields_def Let_def)

section \<open>The legacy fields follow the foreground operation\<close>

definition legacy_synced :: "Session \<Rightarrow> bool" where
  "legacy_synced s \<longleftrightarrow>
     (if ss_ActiveOperations s = [] then ss_ActiveTurnID s = [] \<and> ss_ActiveSubmissionID s = []
      else ss_ActiveTurnID s = trim (op_TurnID (last (ss_ActiveOperations s))) \<and>
           ss_ActiveSubmissionID s = trim (op_SubmissionID (last (ss_ActiveOperations s))))"

lemma legacy_synced_Sync: "legacy_synced (SyncLegacyActiveFields s)"
  by (simp add: legacy_synced_def SyncLegacyActiveFields_def Let_def)

lemma legacy_synced_Ensure: "legacy_synced s \<Longrightarrow> EnsureActiveOperations s = s"
  by (cases "ss_ActiveOperations s = []") (simp_all add: legacy_synced_def EnsureActiveOperations_keeps)

lemma legacy_synced_fields:
  assumes "legacy_synced s" "ss_ActiveOperations t = ss_ActiveOperations s"
    "ss_ActiveTurnID t = ss_ActiveTurnID s" "ss_ActiveSubmissionID t = ss_ActiveSubmissionID s"
  shows "legacy_synced t"
  using assms by (simp add: legacy_synced_def)

text \<open>Every way a session moves.\<close>

inductive session_step :: "Session \<Rightarrow> Session \<Rightarrow> bool" where
  clear: "session_step s (ClearThreadContext s)"
| set_context: "session_step s (SetThreadContext s w t n p)"
| set_defaults: "session_step s (SetThreadDefaults s a m)"
| store: "session_step s (StoreBackendThread s b)"
| restore: "session_step s (fst (RestoreBackendThread s b))"
| clear_backend: "session_step s (ClearBackendThread s b)"
| clear_backends: "session_step s (ClearBackendThreads s)"
| ensure: "session_step s (EnsureActiveOperations s)"
| reset: "session_step s (ResetActiveOperations s)"
| sync: "session_step s (SyncLegacyActiveFields s)"
| upsert: "session_step s (UpsertActiveOperation now s op)"
| prepend: "session_step s (PrependActiveOperation now s op)"
| remove: "session_step s (fst (RemoveActiveOperation s sub turn))"
| switch: "session_step s (SwitchSessionWorkspace s w)"
| enqueue: "session_step s (Enqueue s i)"
| dequeue: "session_step s (fst (Dequeue s))"
| refresh_pending: "session_step s (RefreshPendingStatus s)"
| refresh_active: "session_step s (RefreshActiveStatus s)"

lemma legacy_synced_Remove:
  "legacy_synced s \<Longrightarrow> legacy_synced (fst (RemoveActiveOperation s a b))"
  by (simp add: RemoveActiveOperation_def legacy_synced_Ensure legacy_synced_Sync Let_def)

lemma legacy_synced_Restore:
  "legacy_synced s \<Longrightarrow> legacy_synced (fst (RestoreBackendThread s b))"
  by (erule legacy_synced_fields)
     (simp_all add: RestoreBackendThread_def ClearThreadContext_def SetThreadContext_def Let_def
       split: option.splits)

lemma legacy_synced_Switch:
  assumes "legacy_synced s"
  shows "legacy_synced (SwitchSessionWorkspace s w)"
proof -
  let ?t = "trackRecentWorkspace (s\<lparr>ss_WorkspaceID := trim w\<rparr>) (trim w)"
  have "legacy_synced ?t"
    using assms by (rule legacy_synced_fields) (simp_all add: trackRecentWorkspace_def Let_def)
  then have "legacy_synced (EnsureActiveOperations ?t)" by (simp add: legacy_synced_Ensure)
  then show ?thesis
    by (rule legacy_synced_fields)
       (simp_all add: SwitchSessionWorkspace_def ClearThreadContext_def ClearBackendThreads_def Let_def)
qed

lemma legacy_synced_refresh:
  "legacy_synced s \<Longrightarrow> legacy_synced (RefreshPendingStatus s)"
  "legacy_synced s \<Longrightarrow> legacy_synced (RefreshActiveStatus s)"
  using legacy_synced_Ensure [of s]
  by (auto simp: RefreshActiveStatus_def RefreshPendingStatus_def Let_def
      elim!: legacy_synced_fields)

lemma session_step_synced: "session_step s t \<Longrightarrow> legacy_synced s \<Longrightarrow> legacy_synced t"
proof (induction rule: session_step.induct)
  case (upsert s now op)
  then show ?case by (simp add: UpsertActiveOperation_def Let_def legacy_synced_Sync)
next
  case (prepend s now op)
  then show ?case by (simp add: PrependActiveOperation_def Let_def legacy_synced_Sync)
next
  case (dequeue s)
  then show ?case
    by (rule legacy_synced_fields) (simp_all add: Dequeue_def split: list.splits)
next
  case (store s b)
  then show ?case
    by (rule legacy_synced_fields) (simp_all add: StoreBackendThread_def Let_def)
next
  case (ensure s)
  then show ?case by (simp add: legacy_synced_Ensure)
qed (auto simp: legacy_synced_Remove legacy_synced_Restore legacy_synced_Switch legacy_synced_refresh
       ResetActiveOperations_def legacy_synced_Sync
       elim: legacy_synced_fields
       simp: ClearThreadContext_def SetThreadContext_def SetThreadDefaults_def ClearBackendThread_def
         ClearBackendThreads_def Enqueue_def Let_def)

text \<open>
  C5. From any session whose legacy fields agree with its operations (a session just loaded has
  neither), every sequence of the domain's transitions keeps them in agreement: the active
  turn and submission a caller reads are those of the foreground operation, and they are empty
  exactly when nothing runs.
\<close>

theorem reachable_legacy_synced:
  assumes "session_step\<^sup>*\<^sup>* s0 s" "legacy_synced s0"
  shows "case ForegroundOperation (Some s) of
      None \<Rightarrow> ss_ActiveTurnID s = [] \<and> ss_ActiveSubmissionID s = []
    | Some op \<Rightarrow> ss_ActiveTurnID s = trim (op_TurnID op) \<and>
                 ss_ActiveSubmissionID s = trim (op_SubmissionID op)"
proof -
  have "legacy_synced s"
    using assms by (induction rule: rtranclp_induct) (blast intro: session_step_synced)+
  then show ?thesis
    by (simp add: ForegroundOperation_def legacy_synced_Ensure Let_def) (simp add: legacy_synced_def)
qed

definition sample_op :: "string \<Rightarrow> string \<Rightarrow> string \<Rightarrow> SessionActiveOperation" where
  "sample_op sub th tu =
     \<lparr>op_Kind = [], op_SubmissionID = sub, op_ThreadID = th, op_TurnID = tu, op_StartedAt = 0\<rparr>"

theorem reachable_legacy_synced_witness:
  "let s = fst (RemoveActiveOperation (UpsertActiveOperation 7 (UpsertActiveOperation 5 zero_Session
             (sample_op ''s1'' ''th'' ''t1'')) (sample_op ''s2'' ''th'' ''t2'')) '''' ''t2'')
   in map_option op_TurnID (ForegroundOperation (Some s)) = Some ''t1'' \<and> ss_ActiveTurnID s = ''t1''"
proof -
  let ?a = "UpsertActiveOperation 5 zero_Session (sample_op ''s1'' ''th'' ''t1'')"
  let ?b = "UpsertActiveOperation 7 ?a (sample_op ''s2'' ''th'' ''t2'')"
  let ?s = "fst (RemoveActiveOperation ?b '''' ''t2'')"
  have "session_step\<^sup>*\<^sup>* zero_Session ?s"
    by (meson rtranclp.rtrancl_into_rtrancl rtranclp.rtrancl_refl session_step.intros)
  moreover have "legacy_synced zero_Session" by (simp add: legacy_synced_def zero_Session_def)
  ultimately have p: "case ForegroundOperation (Some ?s) of
      None \<Rightarrow> ss_ActiveTurnID ?s = [] \<and> ss_ActiveSubmissionID ?s = []
    | Some op \<Rightarrow> ss_ActiveTurnID ?s = trim (op_TurnID op) \<and>
                 ss_ActiveSubmissionID ?s = trim (op_SubmissionID op)"
    by (rule reachable_legacy_synced)
  have "map_option op_TurnID (ForegroundOperation (Some ?s)) = Some ''t1''" by code_simp
  with p show ?thesis by (cases "ForegroundOperation (Some ?s)") (simp_all add: Let_def trim_literal)
qed

section \<open>Inserting and removing operations\<close>

text \<open>
  Removing an operation drops exactly the operations with that submission or turn and keeps
  the others in order; afterwards the session is in flight only if some operation is left, so
  no stale legacy field blocks the next submission.
\<close>

theorem RemoveActiveOperation_effect:
  "let ops = ss_ActiveOperations (EnsureActiveOperations s);
       left = filter (\<lambda>op. \<not> activeOperationMatches op a b) ops;
       (s', removed) = RemoveActiveOperation s a b
   in ss_ActiveOperations s' = left \<and> removed = (left \<noteq> ops) \<and>
      HasInFlightSubmission (Some s') = (left \<noteq> [])"
proof -
  let ?e = "EnsureActiveOperations s"
  let ?ops = "ss_ActiveOperations ?e"
  let ?hit = "\<lambda>op. activeOperationMatches op a b"
  have m: "activeOperationMatches op (trim a) (trim b) = ?hit op" for op
    by (simp add: activeOperationMatches_def)
  have none: "filter (\<lambda>op. \<not> ?hit op) ?ops = ?ops" if "\<not> (\<exists>op\<in>set ?ops. ?hit op)"
    using that by (auto simp: filter_id_conv)
  have blank: "\<not> ?hit op" if "trim a = []" "trim b = []" for op
    using that by (simp add: activeOperationMatches_def)
  have flight: "HasInFlightSubmission (Some ?e) = (?ops \<noteq> [])"
    by (simp add: HasInFlightSubmission_iff HasActiveOperations_def)
  have after: "HasInFlightSubmission (Some (SyncLegacyActiveFields t)) = (ss_ActiveOperations t \<noteq> [])" for t
    unfolding HasInFlightSubmission_iff HasActiveOperations_iff
    by (cases "ss_ActiveOperations t = []") (simp add: SyncLegacyActiveFields_def, simp)
  show ?thesis
  proof (cases "\<exists>op\<in>set ?ops. ?hit op")
    case True
    then have "?ops \<noteq> []" "\<not> (trim a = [] \<and> trim b = [])" using blank by auto
    then have r: "RemoveActiveOperation s a b =
        (SyncLegacyActiveFields (?e\<lparr>ss_ActiveOperations := filter (\<lambda>op. \<not> ?hit op) ?ops\<rparr>), True)"
      using True unfolding RemoveActiveOperation_def Let_def m by simp
    have "filter (\<lambda>op. \<not> ?hit op) ?ops \<noteq> ?ops" using True by (metis filter_id_conv)
    then show ?thesis by (simp add: r after Let_def)
  next
    case False
    then have r: "RemoveActiveOperation s a b = (?e, False)"
      unfolding RemoveActiveOperation_def Let_def m by simp
    show ?thesis by (simp add: r none [OF False] flight Let_def)
  qed
qed

lemma trim_normalize_operation [simp]:
  "op_SubmissionID (normalize_operation op) = trim (op_SubmissionID op)"
  "op_TurnID (normalize_operation op) = trim (op_TurnID op)"
  "op_ThreadID (normalize_operation op) = trim (op_ThreadID op)"
  by (simp_all add: normalize_operation_def Let_def)

lemma merge_operation_matches:
  assumes "activeOperationMatches c (op_SubmissionID op) (op_TurnID op)"
  shows "activeOperationMatches (merge_operation op c t) (op_SubmissionID op) (op_TurnID op)"
proof -
  have "op_SubmissionID (merge_operation op c t) = trim (op_SubmissionID op)"
    if "\<not> blank (op_SubmissionID op)"
    using that by (simp add: merge_operation_def FirstNonEmpty_Cons)
  moreover have "op_TurnID (merge_operation op c t) = trim (op_TurnID op)" if "\<not> blank (op_TurnID op)"
    using that by (simp add: merge_operation_def FirstNonEmpty_Cons)
  moreover have "\<not> blank (op_SubmissionID op) \<or> \<not> blank (op_TurnID op)"
    using assms unfolding activeOperationMatches_def Let_def by presburger
  ultimately show ?thesis unfolding activeOperationMatches_def Let_def by (metis trim_trim)
qed

lemma matches_normalized:
  "activeOperationMatches c (op_SubmissionID (normalize_operation op)) (op_TurnID (normalize_operation op))
     = activeOperationMatches c (op_SubmissionID op) (op_TurnID op)"
  by (simp add: activeOperationMatches_def)

lemma matches_self:
  assumes "\<not> blank (op_SubmissionID op) \<or> \<not> blank (op_TurnID op)"
  shows "activeOperationMatches ((normalize_operation op)\<lparr>op_StartedAt := t\<rparr>) (op_SubmissionID op) (op_TurnID op)"
    "activeOperationMatches (normalize_operation op) (op_SubmissionID op) (op_TurnID op)"
  using assms unfolding activeOperationMatches_def Let_def by (simp_all)

lemma merge_normalized_matches:
  assumes "activeOperationMatches c (op_SubmissionID op) (op_TurnID op)"
  shows "activeOperationMatches (merge_operation (normalize_operation op) c t)
    (op_SubmissionID op) (op_TurnID op)"
  using merge_operation_matches [of c "normalize_operation op" t] assms
  by (simp only: matches_normalized)

lemma filter_map_hits:
  "(\<And>c. m c \<Longrightarrow> m (f c)) \<Longrightarrow>
   filter (\<lambda>c. \<not> m c) (map (\<lambda>c. if m c then f c else c) cs) = filter (\<lambda>c. \<not> m c) cs \<and>
   filter m (map (\<lambda>c. if m c then f c else c) cs) = map f (filter m cs)"
  by (induction cs) auto

lemma upsert_list:
  assumes "\<And>c. m c \<Longrightarrow> m (f c)" "m new"
    "cs' = map (\<lambda>c. if m c then f c else c) cs @ (if filter m cs = [] then [new] else [])"
  shows "filter (\<lambda>c. \<not> m c) cs' = filter (\<lambda>c. \<not> m c) cs \<and>
    length (filter m cs') = max 1 (length (filter m cs)) \<and> (filter m cs = [] \<longrightarrow> m (last cs'))"
proof -
  have k: "filter (\<lambda>c. \<not> m c) (map (\<lambda>c. if m c then f c else c) cs) = filter (\<lambda>c. \<not> m c) cs"
    "filter m (map (\<lambda>c. if m c then f c else c) cs) = map f (filter m cs)"
    using filter_map_hits [of m f cs, OF assms(1)] by blast+
  show ?thesis
  proof (cases "filter m cs")
    case Nil
    then show ?thesis unfolding assms(3) filter_append k using assms(2) by simp
  next
    case (Cons x xs)
    then show ?thesis unfolding assms(3) filter_append k by simp
  qed
qed

lemma UpsertActiveOperation_ops:
  "ss_ActiveOperations (UpsertActiveOperation now s op) =
    (let ops = ss_ActiveOperations (EnsureActiveOperations s);
         o' = normalize_operation op;
         m = (\<lambda>c. activeOperationMatches c (op_SubmissionID op) (op_TurnID op));
         f = (\<lambda>c. merge_operation o' c (if op_StartedAt o' \<noteq> 0 then op_StartedAt o' else op_StartedAt c))
     in map (\<lambda>c. if m c then f c else c) ops @
        (if filter m ops = [] then [if op_StartedAt o' = 0 then o'\<lparr>op_StartedAt := now\<rparr> else o'] else []))"
  by (simp add: UpsertActiveOperation_def matches_normalized Let_def filter_empty_conv
      del: trim_normalize_operation)

text \<open>
  Recording an operation never disturbs the operations of other submissions and turns, and
  afterwards the session holds an operation with its submission or turn: one new one at the
  foreground when there was none, the same ones updated otherwise.
\<close>

theorem UpsertActiveOperation_effect:
  assumes "\<not> blank (op_SubmissionID op) \<or> \<not> blank (op_TurnID op)"
  shows "let m = (\<lambda>c. activeOperationMatches c (op_SubmissionID op) (op_TurnID op));
             ops = ss_ActiveOperations (EnsureActiveOperations s);
             ops' = ss_ActiveOperations (UpsertActiveOperation now s op)
         in filter (\<lambda>c. \<not> m c) ops' = filter (\<lambda>c. \<not> m c) ops \<and>
            length (filter m ops') = max 1 (length (filter m ops)) \<and>
            (filter m ops = [] \<longrightarrow> m (last ops'))"
proof -
  let ?m = "\<lambda>c. activeOperationMatches c (op_SubmissionID op) (op_TurnID op)"
  let ?o = "normalize_operation op"
  let ?ops = "ss_ActiveOperations (EnsureActiveOperations s)"
  let ?new = "if op_StartedAt ?o = 0 then ?o\<lparr>op_StartedAt := now\<rparr> else ?o"
  let ?f = "\<lambda>c. merge_operation ?o c (if op_StartedAt ?o \<noteq> 0 then op_StartedAt ?o else op_StartedAt c)"
  have new: "?m ?new" using matches_self [OF assms] by simp
  have f: "?m (?f c)" if "?m c" for c using that by (rule merge_normalized_matches)
  show ?thesis
    using upsert_list [of ?m ?f ?new "ss_ActiveOperations (UpsertActiveOperation now s op)" ?ops, OF f new]
    unfolding UpsertActiveOperation_ops Let_def by blast
qed

theorem UpsertActiveOperation_effect_witness:
  "length (filter (\<lambda>c. activeOperationMatches c ''s1'' ''t1'')
     (ss_ActiveOperations (UpsertActiveOperation 5 (UpsertActiveOperation 3 zero_Session
        (sample_op ''s1'' '''' '''')) (sample_op ''s1'' ''th'' ''t1'')))) = 1"
proof -
  have h: "\<not> blank (op_SubmissionID (sample_op ''s1'' ''th'' ''t1'')) \<or>
      \<not> blank (op_TurnID (sample_op ''s1'' ''th'' ''t1''))"
    by (simp add: sample_op_def trim_literal)
  have c: "length (filter (\<lambda>c. activeOperationMatches c ''s1'' ''t1'')
     (ss_ActiveOperations (EnsureActiveOperations (UpsertActiveOperation 3 zero_Session
        (sample_op ''s1'' '''' ''''))))) = 1"
    by code_simp
  have o: "op_SubmissionID (sample_op ''s1'' ''th'' ''t1'') = ''s1''"
    "op_TurnID (sample_op ''s1'' ''th'' ''t1'') = ''t1''" by (simp_all add: sample_op_def)
  show ?thesis
    using UpsertActiveOperation_effect [OF h,
      of "UpsertActiveOperation 3 zero_Session (sample_op ''s1'' '''' '''')" 5] c
    unfolding Let_def o by simp
qed

lemma prepend_operations_eq:
  assumes "\<And>c. m c = activeOperationMatches c (op_SubmissionID op) (op_TurnID op)"
    and "m h" "trim (op_SubmissionID h) = trim (op_SubmissionID op) \<or> blank (op_SubmissionID op)"
      "trim (op_TurnID h) = trim (op_TurnID op) \<or> blank (op_TurnID op)"
  shows "\<exists>h'. prepend_operations (op_SubmissionID op) (op_TurnID op) h kept cs =
      h' # kept @ filter (\<lambda>c. \<not> m c) cs \<and> m h'"
  using assms(2,3,4)
proof (induction cs arbitrary: h kept)
  case Nil
  then show ?case by simp
next
  case (Cons c cs)
  show ?case
  proof (cases "m c")
    case False
    then show ?thesis
      using Cons.IH [OF Cons.prems, of "kept @ [c]"] assms(1) by simp
  next
    case True
    let ?h = "merge_operation h c (if op_StartedAt h = 0 then op_StartedAt c else op_StartedAt h)"
    have s: "trim (op_SubmissionID ?h) = trim (op_SubmissionID op) \<or> blank (op_SubmissionID op)"
      and t: "trim (op_TurnID ?h) = trim (op_TurnID op) \<or> blank (op_TurnID op)"
      using Cons.prems(2,3) unfolding merge_operation_def
      by (simp_all add: FirstNonEmpty_Cons) argo+
    have "\<not> blank (op_SubmissionID op) \<or> \<not> blank (op_TurnID op)"
      using True unfolding assms(1) activeOperationMatches_def Let_def by presburger
    with s t have "m ?h"
      unfolding assms(1) activeOperationMatches_def Let_def by argo
    from Cons.IH [OF this s t, of kept] True assms(1) show ?thesis by simp
  qed
qed

text \<open>
  An operation put in front merges every operation of the same submission or turn into one
  entry at the head, and never takes the foreground from another running operation.
\<close>

theorem PrependActiveOperation_effect:
  assumes "\<not> blank (op_SubmissionID op) \<or> \<not> blank (op_TurnID op)"
  shows "let m = (\<lambda>c. activeOperationMatches c (op_SubmissionID op) (op_TurnID op));
             others = filter (\<lambda>c. \<not> m c) (ss_ActiveOperations (EnsureActiveOperations s));
             s' = PrependActiveOperation now s op
         in m (hd (ss_ActiveOperations s')) \<and> tl (ss_ActiveOperations s') = others \<and>
            (others \<noteq> [] \<longrightarrow> ForegroundOperation (Some s') = Some (last others))"
proof -
  let ?m = "\<lambda>c. activeOperationMatches c (op_SubmissionID op) (op_TurnID op)"
  let ?o = "normalize_operation op"
  let ?ops = "ss_ActiveOperations (EnsureActiveOperations s)"
  let ?h = "if op_StartedAt ?o = 0 then ?o\<lparr>op_StartedAt := now\<rparr> else ?o"
  have ids: "op_SubmissionID ?h = op_SubmissionID ?o" "op_TurnID ?h = op_TurnID ?o" by simp_all
  have mh: "?m ?h" using matches_self [OF assms] by simp
  have mo: "?m c = activeOperationMatches c (op_SubmissionID ?o) (op_TurnID ?o)" for c
    by (simp only: matches_normalized)
  obtain h' where h: "prepend_operations (op_SubmissionID ?o) (op_TurnID ?o) ?h [] ?ops =
      h' # filter (\<lambda>c. \<not> ?m c) ?ops" "?m h'"
    using prepend_operations_eq [of ?m ?o ?h "[]" ?ops, OF mo mh] unfolding ids by auto
  have p: "ss_ActiveOperations (PrependActiveOperation now s op) = h' # filter (\<lambda>c. \<not> ?m c) ?ops"
    unfolding PrependActiveOperation_def Let_def ids using h(1) by simp
  then have "EnsureActiveOperations (PrependActiveOperation now s op) = PrependActiveOperation now s op"
    by (intro EnsureActiveOperations_keeps) simp
  then show ?thesis using p h(2) by (simp add: ForegroundOperation_def Let_def)
qed

theorem PrependActiveOperation_effect_witness:
  "ForegroundOperation (Some (PrependActiveOperation 5
     (UpsertActiveOperation 3 zero_Session (sample_op ''s1'' '''' ''t1'')) (sample_op ''s2'' '''' '''')))
   = Some \<lparr>op_Kind = ''submission'', op_SubmissionID = ''s1'', op_ThreadID = [], op_TurnID = ''t1'',
           op_StartedAt = 3\<rparr>"
proof -
  let ?s = "UpsertActiveOperation 3 zero_Session (sample_op ''s1'' '''' ''t1'')"
  have h: "\<not> blank (op_SubmissionID (sample_op ''s2'' '''' '''')) \<or>
      \<not> blank (op_TurnID (sample_op ''s2'' '''' ''''))"
    by (simp add: sample_op_def trim_literal)
  have o: "filter (\<lambda>c. \<not> activeOperationMatches c (op_SubmissionID (sample_op ''s2'' '''' ''''))
        (op_TurnID (sample_op ''s2'' '''' ''''))) (ss_ActiveOperations (EnsureActiveOperations ?s))
      = [\<lparr>op_Kind = ''submission'', op_SubmissionID = ''s1'', op_ThreadID = [], op_TurnID = ''t1'',
          op_StartedAt = 3\<rparr>]"
    by code_simp
  show ?thesis
    using PrependActiveOperation_effect [OF h, of ?s 5] unfolding Let_def o by simp
qed

section \<open>Switching the workspace\<close>

lemma trackRecentWorkspace_fields [simp]:
  "ss_ActiveOperations (trackRecentWorkspace s w) = ss_ActiveOperations s"
  "ss_ActiveTurnID (trackRecentWorkspace s w) = ss_ActiveTurnID s"
  "ss_ActiveSubmissionID (trackRecentWorkspace s w) = ss_ActiveSubmissionID s"
  "ss_ActiveThreadID (trackRecentWorkspace s w) = ss_ActiveThreadID s"
  "ss_ActiveThreadWorkspaceID (trackRecentWorkspace s w) = ss_ActiveThreadWorkspaceID s"
  by (simp_all add: trackRecentWorkspace_def Let_def)

lemma EnsureActiveOperations_thread [simp]:
  "ss_ActiveThreadID (EnsureActiveOperations s) = ss_ActiveThreadID s"
  "ss_ActiveThreadWorkspaceID (EnsureActiveOperations s) = ss_ActiveThreadWorkspaceID s"
  "ss_WorkspaceID (EnsureActiveOperations s) = ss_WorkspaceID s"
  "ss_BackendThreads (EnsureActiveOperations s) = ss_BackendThreads s"
  by (simp_all add: EnsureActiveOperations_def)

text \<open>The workspace the running thread belongs to.\<close>

definition thread_workspace :: "Session \<Rightarrow> string" where
  "thread_workspace s =
     (if blank (ss_ActiveThreadWorkspaceID s) then trim (ss_WorkspaceID s)
      else trim (ss_ActiveThreadWorkspaceID s))"

text \<open>
  After a switch of workspace the only thread that may still be resumed is one that was
  running at the switch, and only for the workspace it was started in: an idle session loses
  its thread, and no thread is ever resumed inside the new workspace by accident.
\<close>

theorem SwitchSessionWorkspace_resume:
  "CanResumeThreadForWorkspace (Some (SwitchSessionWorkspace s w)) v \<longrightarrow>
     HasInFlightSubmission (Some s) \<and> trim v = thread_workspace s"
proof -
  let ?t = "trackRecentWorkspace (s\<lparr>ss_WorkspaceID := trim w\<rparr>) (trim w)"
  have f: "HasInFlightSubmission (Some ?t) = HasInFlightSubmission (Some s)"
    by (simp add: HasInFlightSubmission_iff HasActiveOperations_iff)
  show ?thesis
  proof (cases "HasInFlightSubmission (Some s)")
    case False
    then have "SwitchSessionWorkspace s w = ClearThreadContext (ClearBackendThreads (EnsureActiveOperations ?t))"
      using f by (simp add: SwitchSessionWorkspace_def)
    then show ?thesis by (simp add: CanResumeThreadForWorkspace_def ClearThreadContext_def)
  next
    case True
    then have "SwitchSessionWorkspace s w =
        (if ss_ActiveThreadID s \<noteq> [] \<and> blank (ss_ActiveThreadWorkspaceID s)
         then (EnsureActiveOperations ?t)\<lparr>ss_ActiveThreadWorkspaceID := trim (ss_WorkspaceID s)\<rparr>
         else EnsureActiveOperations ?t)"
      using f by (simp add: SwitchSessionWorkspace_def)
    then show ?thesis
      using True by (cases "blank (ss_ActiveThreadWorkspaceID s)"; cases "ss_ActiveThreadID s = []")
        (simp_all add: CanResumeThreadForWorkspace_def thread_workspace_def)
  qed
qed

theorem SwitchSessionWorkspace_resume_witness:
  "thread_workspace (UpsertActiveOperation 3 (SetThreadContext zero_Session ''w1'' ''th'' '''' '''')
      (sample_op ''s1'' ''th'' ''t1'')) = ''w1''"
proof -
  let ?s = "UpsertActiveOperation 3 (SetThreadContext zero_Session ''w1'' ''th'' '''' '''')
      (sample_op ''s1'' ''th'' ''t1'')"
  have "CanResumeThreadForWorkspace (Some (SwitchSessionWorkspace ?s ''w2'')) ''w1''" by code_simp
  with SwitchSessionWorkspace_resume [of ?s "''w2''" "''w1''"] show ?thesis
    by (simp add: trim_literal)
qed

section \<open>One thread per backend\<close>

definition restored_tier :: "SessionBackendThread \<Rightarrow> SessionBackendThread" where
  "restored_tier t = t\<lparr>bt_ServiceTier := NormalizeServiceTier (bt_ServiceTier t)\<rparr>"

lemma NormalizeServiceTier_trim [simp]:
  "trim (NormalizeServiceTier v) = NormalizeServiceTier v"
  by (simp add: NormalizeServiceTier_def trim_literal)

lemma normalizeBackend_cases: "normalizeBackend b \<in> {[], ''codex'', ''claude''}"
  by (simp add: normalizeBackend_def Let_def)

lemma Snapshot_Clear: "BackendThreadSnapshot (Some (ClearThreadContext s)) = zero_SessionBackendThread"
  by (simp add: BackendThreadSnapshot_def ClearThreadContext_def zero_SessionBackendThread_def)

lemma Snapshot_trim:
  assumes "t = BackendThreadSnapshot (Some s)"
  shows "trim (bt_ThreadID t) = bt_ThreadID t" "trim (bt_WorkspaceID t) = bt_WorkspaceID t"
    "trim (bt_ApprovalPolicy t) = bt_ApprovalPolicy t" "trim (bt_SandboxMode t) = bt_SandboxMode t"
    "trim (bt_MultiAgentMode t) = bt_MultiAgentMode t"
    "trim (bt_ClaudePermissionMode t) = bt_ClaudePermissionMode t"
    "trim (bt_Name t) = bt_Name t" "trim (bt_Preview t) = bt_Preview t"
  by (simp_all add: assms BackendThreadSnapshot_def)

lemma Restore_stored:
  assumes "map_of (ss_BackendThreads s) (normalizeBackend b) = Some t"
    "t = BackendThreadSnapshot (Some r)" "normalizeBackend b \<noteq> []"
  shows "BackendThreadSnapshot (Some (fst (RestoreBackendThread s b))) = restored_tier t"
proof -
  have "ss_BackendThreads s \<noteq> []" using assms(1) by auto
  with assms(1,3) show ?thesis
    by (simp add: RestoreBackendThread_def Let_def BackendThreadSnapshot_def SetThreadContext_def
        restored_tier_def Snapshot_trim [OF assms(2)])
qed

lemma Restore_missing:
  assumes "map_of (ss_BackendThreads s) (normalizeBackend b) = None"
  shows "BackendThreadSnapshot (Some (fst (RestoreBackendThread s b))) = zero_SessionBackendThread"
  using assms by (simp add: RestoreBackendThread_def Let_def Snapshot_Clear)

lemma Restore_keeps_threads [simp]:
  "ss_BackendThreads (fst (RestoreBackendThread s b)) = ss_BackendThreads s"
  by (simp add: RestoreBackendThread_def ClearThreadContext_def SetThreadContext_def Let_def
      split: option.splits)

lemma Store_lookup:
  assumes "normalizeBackend b \<noteq> []"
  shows "map_of (ss_BackendThreads (StoreBackendThread s b)) k =
    (if k = normalizeBackend b
     then (if BackendThreadSnapshot (Some s) = zero_SessionBackendThread then None
           else Some (BackendThreadSnapshot (Some s)))
     else map_of (ss_BackendThreads s) k)"
  using assms by (simp add: StoreBackendThread_def Let_def update_conv' delete_conv')



text \<open>
  The guard of RestoreBackendThread keeps the session's workspace when the stored thread names
  none, but the call that follows overwrites it: the workspace is lost.
\<close>

lemma RestoreBackendThread_forgets_workspace:
  assumes "map_of (ss_BackendThreads s) (normalizeBackend b) = Some t" "normalizeBackend b \<noteq> []"
    "blank (bt_WorkspaceID t)"
  shows "ss_WorkspaceID (fst (RestoreBackendThread s b)) = []"
proof -
  have "ss_BackendThreads s \<noteq> []" using assms(1) by auto
  with assms show ?thesis
    by (simp add: RestoreBackendThread_def SetThreadContext_def Let_def)
qed

section \<open>The queue\<close>

interpretation session_queue:
  dedup_queue ss_Queue "\<lambda>s. True" "\<lambda>i s. Enqueue s i" Dequeue
  by unfold_locales (auto simp: Enqueue_def Dequeue_def)

text \<open>Taking \<open>n\<close> inputs off a session's queue.\<close>

fun dequeue_many :: "nat \<Rightarrow> Session \<Rightarrow> string list" where
  "dequeue_many 0 s = []"
| "dequeue_many (Suc n) s = (let (s', x) = Dequeue s in x # dequeue_many n s')"

lemma dequeue_many_drain: "dequeue_many n s = session_queue.drain n s"
  by (induction n arbitrary: s) (simp_all add: case_prod_beta)

text \<open>
  C7. Inputs leave a session's queue in the order of their first arrival, each once however
  often it was offered.
\<close>

theorem queue_first_in_first_out:
  assumes "ss_Queue s = []"
  shows "dequeue_many (length (first_arrivals ids)) (fold (\<lambda>i s. Enqueue s i) ids s) = first_arrivals ids"
  unfolding dequeue_many_drain using assms by (intro session_queue.first_in_first_out) simp_all

theorem queue_first_in_first_out_witness:
  "dequeue_many 3 (fold (\<lambda>i s. Enqueue s i) [''b'', ''a'', ''b'', ''c'', ''a''] zero_Session)
     = [''b'', ''a'', ''c'']"
proof -
  have "ss_Queue zero_Session = []" by (simp add: zero_Session_def)
  from queue_first_in_first_out [OF this, of "[''b'', ''a'', ''b'', ''c'', ''a'']"]
  show ?thesis by (simp add: first_arrivals_def eval_nat_numeral)
qed

section \<open>Status\<close>

lemma RefreshActiveStatus_keeps_ops [simp]:
  "ss_ActiveOperations (RefreshActiveStatus s) = ss_ActiveOperations (EnsureActiveOperations s)"
  "ss_ActiveOperations (RefreshPendingStatus s) = ss_ActiveOperations (EnsureActiveOperations s)"
  by (simp_all add: RefreshActiveStatus_def RefreshPendingStatus_def Let_def)

text \<open>The status a session should show.\<close>

definition derived_status :: "Session \<Rightarrow> string" where
  "derived_status s =
     (if HasInFlightSubmission (Some s) then
        (if \<exists>op\<in>set (ss_ActiveOperations (EnsureActiveOperations s)). op_TurnID op \<noteq> []
         then SessionStatusTurnInProgress else SessionStatusTurnStarting)
      else if ss_Queue s \<noteq> [] \<or> ss_StagedImages s \<noteq> [] then SessionStatusQueued
      else SessionStatusIdle)"

lemma EnsureActiveOperations_pending [simp]:
  "ss_Queue (EnsureActiveOperations s) = ss_Queue s"
  "ss_StagedImages (EnsureActiveOperations s) = ss_StagedImages s"
  "ss_Status (EnsureActiveOperations s) = ss_Status s"
  by (simp_all add: EnsureActiveOperations_def)

lemma HasInFlight_Ensure [simp]:
  "HasInFlightSubmission (Some (EnsureActiveOperations s)) = HasInFlightSubmission (Some s)"
  by (simp add: HasInFlightSubmission_iff HasActiveOperations_def)

lemma RefreshActiveStatus_derives: "ss_Status (RefreshActiveStatus s) = derived_status s"
  by (simp add: RefreshActiveStatus_def RefreshPendingStatus_def derived_status_def Let_def
      flip: HasInFlightSubmission_iff)

end
