(* ===== verification/Submission.thy ===== *)
theory Submission
  imports Conversation
begin

text \<open>
  Submissions and the turns they run as: \<open>internal/domain/submission\<close>,
  \<open>internal/domain/turn/lifecycle.go\<close> and \<open>internal/domain/backend\<close>
  (\<open>backend.go\<close>, \<open>failure.go\<close>).
\<close>

section \<open>Submissions (submission.go, status.go)\<close>

record SubmissionAttachment =
  sa_Kind :: string
  sa_Name :: string
  sa_LocalPath :: string

record SubmissionSkill =
  sk_Name :: string
  sk_Path :: string

record Submission =
  sub_ModelConfig :: Snapshot
  sub_ID :: string
  sub_SessionKey :: string
  sub_BindingID :: string
  sub_WorkspaceID :: string
  sub_ThreadID :: string
  sub_TurnID :: string
  sub_UserID :: string
  sub_ChatID :: string
  sub_TriggerMessageID :: string
  sub_SourceMessageIDs :: "string list"
  sub_SourceRootMessageIDs :: "string list"
  sub_InputText :: string
  sub_Skills :: "SubmissionSkill list"
  sub_Attachments :: "SubmissionAttachment list"
  sub_Kind :: string
  sub_ReviewTargetType :: string
  sub_ReviewBranch :: string
  sub_ReviewCommitSHA :: string
  sub_ReviewCommitTitle :: string
  sub_ReviewInstructions :: string
  sub_Status :: string
  sub_WaitedInQueue :: bool
  sub_StartNoticeSent :: bool
  sub_Finalized :: bool
  sub_CreatedAt :: int
  sub_UpdatedAt :: int

definition zero_Submission :: Submission where
  "zero_Submission =
     \<lparr>sub_ModelConfig = empty_Snapshot, sub_ID = [], sub_SessionKey = [], sub_BindingID = [],
      sub_WorkspaceID = [], sub_ThreadID = [], sub_TurnID = [], sub_UserID = [], sub_ChatID = [],
      sub_TriggerMessageID = [], sub_SourceMessageIDs = [], sub_SourceRootMessageIDs = [],
      sub_InputText = [], sub_Skills = [], sub_Attachments = [], sub_Kind = [],
      sub_ReviewTargetType = [], sub_ReviewBranch = [], sub_ReviewCommitSHA = [],
      sub_ReviewCommitTitle = [], sub_ReviewInstructions = [], sub_Status = [],
      sub_WaitedInQueue = False, sub_StartNoticeSent = False, sub_Finalized = False,
      sub_CreatedAt = 0, sub_UpdatedAt = 0\<rparr>"

abbreviation SubmissionStatusQueued :: string where "SubmissionStatusQueued \<equiv> ''queued''"
abbreviation SubmissionStatusRunning :: string where "SubmissionStatusRunning \<equiv> ''running''"
abbreviation SubmissionStatusWaitingApproval :: string where
  "SubmissionStatusWaitingApproval \<equiv> ''waiting_approval''"
abbreviation SubmissionStatusWaitingUserInput :: string where
  "SubmissionStatusWaitingUserInput \<equiv> ''waiting_user_input''"
abbreviation SubmissionStatusCompleted :: string where "SubmissionStatusCompleted \<equiv> ''completed''"
abbreviation SubmissionStatusInterrupted :: string where
  "SubmissionStatusInterrupted \<equiv> ''interrupted''"
abbreviation SubmissionStatusFailed :: string where "SubmissionStatusFailed \<equiv> ''failed''"
abbreviation SubmissionStatusDiscarded :: string where "SubmissionStatusDiscarded \<equiv> ''discarded''"

definition NormalizeSubmissionStatus :: "string \<Rightarrow> string" where
  "NormalizeSubmissionStatus value =
     (let trimmed = trim value in
      if trimmed = '''' then ''''
      else if trimmed = SubmissionStatusQueued then SubmissionStatusQueued
      else if trimmed = SubmissionStatusRunning then SubmissionStatusRunning
      else if trimmed = SubmissionStatusWaitingApproval then SubmissionStatusWaitingApproval
      else if trimmed = SubmissionStatusWaitingUserInput then SubmissionStatusWaitingUserInput
      else if trimmed = SubmissionStatusCompleted then SubmissionStatusCompleted
      else if trimmed = SubmissionStatusInterrupted then SubmissionStatusInterrupted
      else if trimmed = SubmissionStatusFailed then SubmissionStatusFailed
      else if trimmed = SubmissionStatusDiscarded then SubmissionStatusDiscarded
      else trimmed)"

lemma NormalizeSubmissionStatus_trim: "NormalizeSubmissionStatus v = trim v"
  unfolding NormalizeSubmissionStatus_def Let_def by simp

section \<open>Transitions (transitions.go)\<close>

definition SetStatus :: "Submission \<Rightarrow> string \<Rightarrow> Submission" where
  "SetStatus s status = s\<lparr>sub_Status := NormalizeSubmissionStatus status\<rparr>"

definition MarkRunning :: "Submission \<Rightarrow> string \<Rightarrow> string \<Rightarrow> Submission" where
  "MarkRunning s threadID turnID =
     (let s1 = s\<lparr>sub_ThreadID := trim threadID\<rparr>;
          s2 = (if trim turnID \<noteq> [] then s1\<lparr>sub_TurnID := trim turnID\<rparr> else s1) in
      s2\<lparr>sub_Status := SubmissionStatusRunning\<rparr>)"

definition Finalize :: "Submission \<Rightarrow> string \<Rightarrow> Submission" where
  "Finalize s status = (SetStatus s status)\<lparr>sub_Finalized := True\<rparr>"

definition HasSourceRootMessages :: "Submission option \<Rightarrow> bool" where
  "HasSourceRootMessages submission =
     (case submission of
        None \<Rightarrow> False
      | Some s \<Rightarrow> \<exists>i\<in>set (sub_SourceRootMessageIDs s). trim i \<noteq> [])"

section \<open>Coalesced starts (start.go)\<close>

record StartState =
  start_Running :: bool
  start_Pending :: bool

definition zero_StartState :: StartState where
  "zero_StartState = \<lparr>start_Running = False, start_Pending = False\<rparr>"

definition Begin :: "StartState \<Rightarrow> StartState \<times> bool" where
  "Begin s =
     (if start_Running s then (s\<lparr>start_Pending := True\<rparr>, False)
      else (\<lparr>start_Running = True, start_Pending = False\<rparr>, True))"

definition Finish :: "StartState \<Rightarrow> StartState \<times> bool" where
  "Finish s = (zero_StartState, start_Pending s)"

section \<open>Backends (backend.go, failure.go)\<close>

definition NormalizeBackend :: "string \<Rightarrow> string" where
  "NormalizeBackend value =
     (let b = to_lower (trim value) in
      if b = '''' then '''' else if b = BackendClaude then BackendClaude
      else if b = BackendCodex then BackendCodex else '''')"

datatype SessionInflightMode = SessionInflightSingle | SessionInflightSerialized | SessionInflightParallel

definition SessionInflightModeForBackend :: "string \<Rightarrow> SessionInflightMode" where
  "SessionInflightModeForBackend backend = SessionInflightSingle"

definition SessionInflightAllowsAdditional :: "SessionInflightMode \<Rightarrow> bool" where
  "SessionInflightAllowsAdditional mode \<longleftrightarrow>
     mode = SessionInflightSerialized \<or> mode = SessionInflightParallel"

definition DropCodexLineageAfterFailure :: "bool \<Rightarrow> string \<Rightarrow> bool" where
  "DropCodexLineageAfterFailure recovering failure \<longleftrightarrow>
     (if recovering then True
      else \<exists>terminal\<in>set [''codex client not initialized'', ''codex app-server read failed'',
              ''codex app-server stdin write failed'', ''codex app-server process exited''].
             sublist terminal (to_lower failure))"

section \<open>Turns (turn/lifecycle.go)\<close>

text \<open>The zero time is None.\<close>

record Binding =
  bnd_SessionKey :: string
  bnd_SubmissionID :: string
  bnd_ThreadID :: string
  bnd_StartedAt :: "int option"

definition NewBinding :: "string \<Rightarrow> string \<Rightarrow> string \<Rightarrow> Binding" where
  "NewBinding threadID sessionKey submissionID =
     \<lparr>bnd_SessionKey = trim sessionKey, bnd_SubmissionID = trim submissionID,
      bnd_ThreadID = trim threadID, bnd_StartedAt = None\<rparr>"

definition MarkStarted :: "Binding \<Rightarrow> int \<Rightarrow> Binding" where
  "MarkStarted b t = (if bnd_StartedAt b = None then b\<lparr>bnd_StartedAt := Some t\<rparr> else b)"

definition CanBindPending :: "string \<Rightarrow> string \<Rightarrow> Submission option \<Rightarrow> bool \<Rightarrow> bool" where
  "CanBindPending threadID turnID submission allowReview \<longleftrightarrow>
     trim threadID \<noteq> [] \<and> trim turnID \<noteq> [] \<and>
     (case submission of None \<Rightarrow> False | Some sub \<Rightarrow> allowReview \<or> trim (sub_Kind sub) \<noteq> ''review'')"

definition CanBindCompletion :: "Session option \<Rightarrow> Submission option \<Rightarrow> string \<Rightarrow> string \<Rightarrow> bool" where
  "CanBindCompletion session submission threadID turnID =
     (case (session, submission) of
        (Some sess, Some sub) \<Rightarrow>
          if sub_Finalized sub \<or> trim threadID = [] \<or> trim turnID = [] \<or> trim (sub_TurnID sub) \<noteq> []
          then False
          else (case FindPendingSubmissionOperationByThread session threadID of
                  None \<Rightarrow> False
                | Some op \<Rightarrow> trim (op_SubmissionID op) = sub_ID sub \<and> trim (op_TurnID op) = [])
      | _ \<Rightarrow> False)"

definition BindSession :: "int \<Rightarrow> Session \<Rightarrow> Submission \<Rightarrow> string \<Rightarrow> string \<Rightarrow> Session" where
  "BindSession now sess0 sub threadID turnID =
     (let sess1 = UpsertActiveOperation now sess0
            \<lparr>op_Kind = OpKindSubmission, op_SubmissionID = sub_ID sub, op_ThreadID = threadID,
             op_TurnID = turnID, op_StartedAt = 0\<rparr>;
          sess2 = sess1\<lparr>ss_Status := SessionStatusTurnInProgress\<rparr> in
      SetThreadContext sess2 (sub_WorkspaceID sub) threadID (ss_ActiveThreadName sess2)
        (ss_ActiveThreadPreview sess2))"

definition CompletionStatus :: "string \<Rightarrow> string" where
  "CompletionStatus status =
     (if status = ''completed'' then SubmissionStatusCompleted
      else if status = ''interrupted'' then SubmissionStatusInterrupted
      else SubmissionStatusFailed)"

section \<open>No start request is lost\<close>

lemma Begin_running: "start_Running s \<Longrightarrow> start_Running (fst (Begin s)) \<and> start_Pending (fst (Begin s))
    \<and> \<not> snd (Begin s)"
  by (simp add: Begin_def)

text \<open>
  While a start is in progress every further request is turned away, but none is lost: the
  start that finishes asks for another one exactly when a request came in meanwhile, and then
  the next request is admitted again.
\<close>

theorem no_start_request_lost:
  "let (s, admitted) = Begin zero_StartState;
       s' = ((\<lambda>s. fst (Begin s)) ^^ n) s
   in admitted \<and> (n > 0 \<longrightarrow> \<not> snd (Begin s')) \<and> snd (Finish s') = (n > 0) \<and>
      snd (Begin (fst (Finish s')))"
proof -
  let ?s = "fst (Begin zero_StartState)"
  have r: "start_Running (((\<lambda>s. fst (Begin s)) ^^ n) ?s) \<and>
      start_Pending (((\<lambda>s. fst (Begin s)) ^^ n) ?s) = (n > 0)" for n
    by (induction n) (auto simp: Begin_running, simp_all add: Begin_def zero_StartState_def)
  then show ?thesis
    by (simp add: case_prod_beta Let_def Finish_def Begin_running)
       (simp add: Begin_def zero_StartState_def)
qed

theorem no_start_request_lost_witness:
  "let s = fst (Begin (fst (Begin zero_StartState))) in snd (Finish s) \<and> \<not> snd (Begin s)"
  using no_start_request_lost [of 1] by (simp add: case_prod_beta Let_def)

section \<open>A bound submission takes no other turn\<close>

lemma FindPending_sound:
  assumes "FindPendingSubmissionOperationByThread (Some s) th = Some op"
  shows "op \<in> set (ss_ActiveOperations (EnsureActiveOperations s)) \<and>
    trim (op_Kind op) = OpKindSubmission \<and> trim (op_ThreadID op) = trim th \<and> blank (op_TurnID op)"
  using assms by (auto simp: FindPendingSubmissionOperationByThread_def find_Some_iff split: if_splits)

lemma Upsert_binds_turn:
  assumes c: "c \<in> set (ss_ActiveOperations (UpsertActiveOperation now s op))"
    and m: "trim (op_SubmissionID c) = trim (op_SubmissionID op)" "\<not> blank (op_SubmissionID op)"
      "\<not> blank (op_TurnID op)"
  shows "\<not> blank (op_TurnID c)"
proof -
  let ?m = "\<lambda>c. activeOperationMatches c (op_SubmissionID op) (op_TurnID op)"
  let ?o = "normalize_operation op"
  have mc: "?m c" using m(1,2) by (simp add: activeOperationMatches_def)
  have merged: "op_TurnID (merge_operation ?o d t) = trim (op_TurnID op)" for d t
    using m(3) by (simp add: merge_operation_def FirstNonEmpty_Cons)
  have "c = merge_operation ?o d t \<or> c = ?o \<or> c = ?o\<lparr>op_StartedAt := now\<rparr> \<or> \<not> ?m c" if
    "c = (if ?m d then merge_operation ?o d t else d) \<or> c = ?o \<or> c = ?o\<lparr>op_StartedAt := now\<rparr>" for d t
    using that by (auto split: if_splits)
  then obtain d t where "c = merge_operation ?o d t \<or> c = ?o \<or> c = ?o\<lparr>op_StartedAt := now\<rparr>"
    using c mc unfolding UpsertActiveOperation_ops Let_def by (auto split: if_splits)
  then show ?thesis using merged m(3) by auto
qed

lemma SetThreadContext_ops [simp]:
  "ss_ActiveOperations (SetThreadContext s w t n p) = ss_ActiveOperations s"
  by (simp add: SetThreadContext_def)

lemma UpsertActiveOperation_nonempty: "ss_ActiveOperations (UpsertActiveOperation now s op) \<noteq> []"
  by (simp add: UpsertActiveOperation_ops Let_def)

text \<open>
  Once a submission is bound to a turn, the completion of no turn, on whatever thread, can
  be attributed to it through the missing-start fallback again: an old completed turn cannot
  steal a submission that already runs.
\<close>

theorem BindSession_excludes_completion:
  assumes "\<not> blank (sub_ID sub)" "\<not> blank turn"
  shows "\<not> CanBindCompletion (Some (BindSession now sess sub thread turn)) (Some sub) thread' turn'"
proof
  let ?op = "\<lparr>op_Kind = OpKindSubmission, op_SubmissionID = sub_ID sub, op_ThreadID = thread,
      op_TurnID = turn, op_StartedAt = 0\<rparr>"
  let ?s = "BindSession now sess sub thread turn"
  assume a: "CanBindCompletion (Some ?s) (Some sub) thread' turn'"
  then obtain op where op: "FindPendingSubmissionOperationByThread (Some ?s) thread' = Some op"
    "trim (op_SubmissionID op) = sub_ID sub"
    by (auto simp: CanBindCompletion_def split: if_splits option.splits)
  have ops: "ss_ActiveOperations ?s = ss_ActiveOperations (UpsertActiveOperation now sess ?op)"
    by (simp add: BindSession_def Let_def)
  then have "EnsureActiveOperations ?s = ?s"
    by (intro EnsureActiveOperations_keeps) (simp add: UpsertActiveOperation_nonempty)
  then have "op \<in> set (ss_ActiveOperations (UpsertActiveOperation now sess ?op))" "blank (op_TurnID op)"
    using FindPending_sound [OF op(1)] ops by auto
  moreover have "trim (op_SubmissionID op) = trim (sub_ID sub)"
    using op(2) by (metis trim_trim)
  ultimately show False
    using Upsert_binds_turn [of op now sess ?op] assms by simp
qed

theorem BindSession_excludes_completion_witness:
  "\<not> CanBindCompletion (Some (BindSession 3 zero_Session (zero_Submission\<lparr>sub_ID := ''s1''\<rparr>) ''th'' ''t1''))
      (Some (zero_Submission\<lparr>sub_ID := ''s1''\<rparr>)) ''th'' ''t0''"
  by (rule BindSession_excludes_completion) (simp_all add: trim_literal)

text \<open>The fallback itself works for a submission whose start is still pending.\<close>

lemma CanBindCompletion_pending_example:
  "CanBindCompletion (Some (UpsertActiveOperation 3 zero_Session (sample_op ''s1'' ''th'' '''')))
     (Some (zero_Submission\<lparr>sub_ID := ''s1''\<rparr>)) ''th'' ''t1''"
  by code_simp

end
