(* ===== verification/Interaction.thy ===== *)
theory Interaction
  imports Go_Prelude
begin

text \<open>
  Human interactions: the request records and their lifecycle policy,
  \<open>internal/domain/interaction\<close> (\<open>pending.go\<close>, \<open>policy.go\<close>,
  \<open>request.go\<close>, \<open>forms.go\<close>). A request that the backend resolves stays open when
  its answer is sent; only the backend's own notification closes it.
\<close>

section \<open>Data\<close>

record PendingRequest =
  pr_FrontendID :: string
  pr_ID :: string
  pr_RequestIDRaw :: string
  pr_Backend :: string
  pr_Kind :: string
  pr_SessionKey :: string
  pr_ThreadID :: string
  pr_TurnID :: string
  pr_ItemID :: string
  pr_OwnerUserID :: string
  pr_FeishuMsgID :: string
  pr_PayloadJSON :: string
  pr_Status :: string
  pr_CreatedAt :: int
  pr_ExpiresAt :: int

definition zero_PendingRequest :: PendingRequest where
  "zero_PendingRequest =
     \<lparr>pr_FrontendID = [], pr_ID = [], pr_RequestIDRaw = [], pr_Backend = [], pr_Kind = [],
      pr_SessionKey = [], pr_ThreadID = [], pr_TurnID = [], pr_ItemID = [], pr_OwnerUserID = [],
      pr_FeishuMsgID = [], pr_PayloadJSON = [], pr_Status = [], pr_CreatedAt = 0, pr_ExpiresAt = 0\<rparr>"

record ToolUserInputOption =
  tuo_Label :: string
  tuo_Description :: string

record ToolUserInputQuestion =
  tuq_Header :: string
  tuq_ID :: string
  tuq_Question :: string
  tuq_IsOther :: bool
  tuq_IsSecret :: bool
  tuq_MultiSelect :: bool
  tuq_Options :: "ToolUserInputOption list"

record ToolUserInputPayload =
  tup_ThreadID :: string
  tup_TurnID :: string
  tup_ItemID :: string
  tup_Questions :: "ToolUserInputQuestion list"

record Request =
  rq_ID :: string
  rq_Backend :: string
  rq_Kind :: string
  rq_Status :: string
  rq_SessionKey :: string
  rq_ThreadID :: string
  rq_TurnID :: string

section \<open>Policy\<close>

abbreviation AsyncUserInputPendingKind :: string where
  "AsyncUserInputPendingKind \<equiv> ''async_user_input''"

definition IsServerResolvedPendingKind :: "string \<Rightarrow> bool" where
  "IsServerResolvedPendingKind kind \<longleftrightarrow>
     trim kind \<in> {''command'', ''file'', ''permissions'', ''tool_request_user_input'',
       ''tool_request_user_input_form'', ''mcp_elicitation_url'', ''mcp_elicitation_form''}"

definition IsPendingRequestOpen :: "string \<Rightarrow> bool" where
  "IsPendingRequestOpen status \<longleftrightarrow> trim status \<in> {''pending'', ''replied''}"

definition IsClaudeInteractiveKind :: "string \<Rightarrow> bool" where
  "IsClaudeInteractiveKind kind \<longleftrightarrow>
     trim kind \<in> {''command'', ''file'', ''permissions'', ''tool_request_user_input'',
       ''tool_request_user_input_form'', ''claude_exit_plan_mode''}"

definition OutlivesTurn :: "string \<Rightarrow> string \<Rightarrow> string \<Rightarrow> bool" where
  "OutlivesTurn backend kind status \<longleftrightarrow>
     (if \<not> IsPendingRequestOpen status then False
      else if equal_fold (trim backend) ''claude'' then IsClaudeInteractiveKind kind
      else trim kind = ''async_user_input'')"

section \<open>Transitions\<close>

definition ReplyAccepted :: "Request \<Rightarrow> Request" where
  "ReplyAccepted r =
     (if \<not> IsPendingRequestOpen (rq_Status r) then r
      else
        let r1 = r\<lparr>rq_Status := ''resolved''\<rparr> in
        if IsServerResolvedPendingKind (rq_Kind r1) then r1\<lparr>rq_Status := ''replied''\<rparr> else r1)"

definition Resolved :: "Request \<Rightarrow> Request \<times> bool" where
  "Resolved r =
     (if trim (rq_Status r) = ''resolved'' \<or> trim (rq_Status r) = ''expired'' then (r, False)
      else (r\<lparr>rq_Status := ''resolved''\<rparr>, True))"

definition BlocksResume :: "Request \<Rightarrow> string \<Rightarrow> string \<Rightarrow> string \<Rightarrow> bool" where
  "BlocksResume r threadID0 turnID0 excludeID0 =
     (if \<not> IsServerResolvedPendingKind (rq_Kind r) \<or> \<not> IsPendingRequestOpen (rq_Status r) then False
      else
        let excludeID = trim excludeID0; threadID = trim threadID0; turnID = trim turnID0 in
        if excludeID \<noteq> [] \<and> trim (rq_ID r) = excludeID then False
        else (turnID \<noteq> [] \<and> trim (rq_TurnID r) = turnID) \<or>
             (threadID \<noteq> [] \<and> trim (rq_ThreadID r) = threadID))"

section \<open>The life of a request\<close>

text \<open>The events a request sees: an accepted reply, its resolution, its expiry.\<close>

datatype request_event = Reply | Resolve_event | Expire_event

text \<open>Expiry is what the lifecycle service writes: only an open request expires.\<close>

fun request_step :: "request_event \<Rightarrow> Request \<Rightarrow> Request \<times> bool" where
  "request_step Reply r = (ReplyAccepted r, False)"
| "request_step Resolve_event r = Resolved r"
| "request_step Expire_event r =
     (if IsPendingRequestOpen (rq_Status r) then (r\<lparr>rq_Status := ''expired''\<rparr>, False) else (r, False))"

fun request_run :: "request_event list \<Rightarrow> Request \<Rightarrow> Request \<times> bool list" where
  "request_run [] r = (r, [])"
| "request_run (e # es) r =
     (let (r', c) = request_step e r; (r'', cs) = request_run es r' in (r'', c # cs))"

definition closed_status :: "string \<Rightarrow> bool" where
  "closed_status s \<longleftrightarrow> trim s = ''resolved'' \<or> trim s = ''expired''"

lemma closed_not_open: "closed_status s \<Longrightarrow> \<not> IsPendingRequestOpen s"
  by (auto simp: closed_status_def IsPendingRequestOpen_def)

lemma literal_status [simp]:
  "closed_status ''resolved''" "closed_status ''expired''" "IsPendingRequestOpen ''replied''"
  "\<not> IsPendingRequestOpen ''resolved''" "\<not> IsPendingRequestOpen ''expired''"
  "\<not> closed_status ''replied''"
  by (simp_all add: closed_status_def IsPendingRequestOpen_def trim_literal)

lemma request_step_closed: "closed_status (rq_Status r) \<Longrightarrow> request_step e r = (r, False)"
  by (cases e) (auto simp: ReplyAccepted_def Resolved_def closed_not_open closed_status_def)

lemma request_run_closed:
  "closed_status (rq_Status r) \<Longrightarrow> request_run es r = (r, replicate (length es) False)"
  by (induction es) (simp_all add: request_step_closed)

lemma request_step_resolves: "snd (request_step e r) \<Longrightarrow> closed_status (rq_Status (fst (request_step e r)))"
  by (cases e) (auto simp: Resolved_def split: if_splits)


text \<open>
  C9. An accepted reply never closes a request the backend resolves: it stays open, and it keeps
  blocking the resumption of its turn until the backend's own resolution.
\<close>

theorem reply_keeps_server_request_open:
  assumes "IsServerResolvedPendingKind (rq_Kind r)"
  shows "BlocksResume (ReplyAccepted r) th tu ex = BlocksResume r th tu ex \<and>
    IsPendingRequestOpen (rq_Status (ReplyAccepted r)) = IsPendingRequestOpen (rq_Status r)"
  using assms by (simp add: ReplyAccepted_def BlocksResume_def Let_def)

definition sample_request :: "string \<Rightarrow> Request" where
  "sample_request kind =
     \<lparr>rq_ID = ''r1'', rq_Backend = ''codex'', rq_Kind = kind, rq_Status = ''pending'',
      rq_SessionKey = [], rq_ThreadID = ''th'', rq_TurnID = ''t1''\<rparr>"

theorem reply_keeps_server_request_open_witness:
  "BlocksResume (ReplyAccepted (sample_request ''command'')) '''' ''t1'' ''r2''
   \<and> rq_Status (ReplyAccepted (sample_request ''command'')) = ''replied''"
proof -
  have "IsServerResolvedPendingKind (rq_Kind (sample_request ''command''))" by code_simp
  from reply_keeps_server_request_open [OF this, of "''''" "''t1''" "''r2''"]
  have "BlocksResume (ReplyAccepted (sample_request ''command'')) '''' ''t1'' ''r2''
      = BlocksResume (sample_request ''command'') '''' ''t1'' ''r2''" by simp
  moreover have "BlocksResume (sample_request ''command'') '''' ''t1'' ''r2''"
    "rq_Status (ReplyAccepted (sample_request ''command'')) = ''replied''"
    by code_simp+
  ultimately show ?thesis by simp
qed

end
