(* ===== verification/Identity.thy ===== *)
theory Identity
  imports Go_Prelude
begin

text \<open>
  Chat and session identity: \<open>internal/domain/identity\<close>.
  A session key is the text \<open>feishu:frontend:F:chat:C\<close>; older shapes with typed
  chats, roots and users are still parsed and are rewritten to that shape.
\<close>

section \<open>Chat references (identity.go)\<close>

abbreviation ChatTypeP2P :: string where "ChatTypeP2P \<equiv> ''p2p''"
abbreviation ChatTypeGroup :: string where "ChatTypeGroup \<equiv> ''group''"

record ChatRef =
  chat_Type :: string
  chat_ID :: string

definition FrontendID_Normalize :: "string \<Rightarrow> string" where
  "FrontendID_Normalize frontend = trim frontend"

definition ChatRef_Normalize :: "ChatRef \<Rightarrow> ChatRef" where
  "ChatRef_Normalize chat =
     chat\<lparr>chat_Type := to_lower (trim (chat_Type chat)), chat_ID := trim (chat_ID chat)\<rparr>"

definition ChatRef_Valid :: "ChatRef \<Rightarrow> bool" where
  "ChatRef_Valid chat0 =
     (let chat = ChatRef_Normalize chat0
      in chat_ID chat \<noteq> [] \<and> (chat_Type chat = ChatTypeP2P \<or> chat_Type chat = ChatTypeGroup))"

section \<open>Session keys (session_key.go)\<close>

text \<open>The result is (frontendID, chatType, chatID, rootMessageID, userID).\<close>

type_synonym session_key_parts = "string \<times> string \<times> string \<times> string \<times> string"

definition ParseSessionKey :: "string \<Rightarrow> session_key_parts" where
  "ParseSessionKey sessionKey =
     (let parts = split_on CHR '':'' (trim sessionKey) in
      if length parts < 2 \<or> parts ! 0 \<noteq> ''feishu'' then ([], [], [], [], [])
      else if length parts = 2 then ([], [], trim (parts ! 1), [], [])
      else if parts ! 1 = ''chat'' then
        (if length parts > 2 then ([], [], trim (parts ! 2), [], []) else ([], [], [], [], []))
      else if length parts \<ge> 3 \<and> parts ! 1 \<noteq> ''frontend'' \<and> parts ! 1 \<noteq> ''group''
              \<and> parts ! 1 \<noteq> ''p2p'' then
        (trim (parts ! 1), [], trim (parts ! 2), [], [])
      else
        let (frontendID, offset) =
              (if length parts > 3 \<and> parts ! 1 = ''frontend''
               then (trim (parts ! 2), 3) else ([], 1 :: nat)) in
        if offset \<ge> length parts then (frontendID, [], [], [], [])
        else if parts ! offset = ''chat'' \<and> length parts > offset + 1 then
          (frontendID, [], trim (parts ! (offset + 1)), [], [])
        else if parts ! offset = ''group'' then
          (if length parts \<le> offset + 1 \<or> blank (parts ! (offset + 1)) then
             (frontendID, [], [], [], [])
           else if length parts > offset + 3 \<and> parts ! (offset + 2) = ''root'' then
             (frontendID, ''group'', trim (parts ! (offset + 1)), trim (parts ! (offset + 3)), [])
           else (frontendID, ''group'', trim (parts ! (offset + 1)), [], []))
        else if parts ! offset = ''p2p'' \<and> length parts > offset + 2 then
          (frontendID, ''p2p'', trim (parts ! (offset + 1)), [], trim (parts ! (offset + 2)))
        else (frontendID, [], [], [], []))"

definition CanonicalSessionKey :: "string \<Rightarrow> string \<Rightarrow> string" where
  "CanonicalSessionKey frontendID0 sessionKey0 =
     (let sessionKey = trim sessionKey0 in
      if sessionKey = [] then []
      else
        let (parsedFrontendID, chatType, chatID, root, user) = ParseSessionKey sessionKey;
            frontendID = trim (FirstNonEmpty [parsedFrontendID, frontendID0]) in
        if chatID = [] then sessionKey
        else if frontendID \<noteq> [] then ''feishu:frontend:'' @ frontendID @ '':chat:'' @ chatID
        else ''feishu:chat:'' @ chatID)"

section \<open>Properties of parsing\<close>

definition key_part :: "string \<Rightarrow> bool" where
  "key_part p \<longleftrightarrow> trim p = p \<and> CHR '':'' \<notin> set p"

lemma key_part_Nil [simp]: "key_part []"
  by (simp add: key_part_def)

lemma key_part_trim: "CHR '':'' \<notin> set p \<Longrightarrow> key_part (trim p)"
  using trim_set by (auto simp: key_part_def)

lemma key_part_nth:
  "i < length (split_on CHR '':'' s) \<Longrightarrow> key_part (trim (split_on CHR '':'' s ! i))"
  by (rule key_part_trim) (meson nth_mem split_on_parts)

lemma ParseSessionKey_parts:
  "ParseSessionKey k = (f, t, c, r, u) \<Longrightarrow> key_part f \<and> key_part c \<and> key_part r \<and> key_part u"
  by (auto simp: ParseSessionKey_def Let_def key_part_nth split: if_splits)

text \<open>The text of the current canonical shape.\<close>

definition canonical_text :: "string \<Rightarrow> string \<Rightarrow> string" where
  "canonical_text f c =
     (if f \<noteq> [] then ''feishu:frontend:'' @ f @ '':chat:'' @ c else ''feishu:chat:'' @ c)"

lemma trim_canonical_text:
  assumes "key_part f" "key_part c"
  shows "trim (canonical_text f c) = canonical_text f c"
proof -
  have "trim ((''feishu:frontend:'' @ f @ '':chat:'') @ c) = (''feishu:frontend:'' @ f @ '':chat:'') @ c"
    using assms by (intro trim_glue) (simp_all add: key_part_def space_heads_def space_bytes_def white_space_def)
  moreover have "trim (''feishu:chat:'' @ c) = ''feishu:chat:'' @ c"
    using assms by (intro trim_glue) (simp_all add: key_part_def space_heads_def space_bytes_def white_space_def)
  ultimately show ?thesis by (simp add: canonical_text_def)
qed

lemma split_canonical_text:
  assumes "key_part f" "key_part c"
  shows "split_on CHR '':'' (canonical_text f c) =
    (if f \<noteq> [] then [''feishu'', ''frontend'', f, ''chat'', c] else [''feishu'', ''chat'', c])"
proof -
  have "split_on CHR '':'' (''feishu:'' @ ''frontend:'' @ f @ '':'' @ ''chat:'' @ c)
      = [''feishu'', ''frontend'', f, ''chat'', c]"
    using assms by (simp add: key_part_def split_on_append split_on_clean)
  moreover have "split_on CHR '':'' (''feishu:'' @ ''chat:'' @ c) = [''feishu'', ''chat'', c]"
    using assms by (simp add: key_part_def split_on_clean)
  ultimately show ?thesis by (simp add: canonical_text_def)
qed

lemma ParseSessionKey_canonical_text:
  assumes "key_part f" "key_part c"
  shows "ParseSessionKey (canonical_text f c) = (f, [], c, [], [])"
  using assms
  by (simp add: ParseSessionKey_def trim_canonical_text split_canonical_text key_part_def)

lemma CanonicalSessionKey_eq:
  assumes "ParseSessionKey (trim k) = (pf, t, c, r, u)"
  shows "CanonicalSessionKey g k =
    (if c = [] \<or> trim k = [] then trim k else canonical_text (FirstNonEmpty [pf, g]) c)"
  using assms
  by (simp add: CanonicalSessionKey_def canonical_text_def Let_def)

lemma CanonicalSessionKey_cases:
  assumes "CHR '':'' \<notin> set (trim frontend)"
  obtains (unparsed) "CanonicalSessionKey frontend k = trim k"
    | (parsed) f c where "key_part f" "key_part c" "c \<noteq> []"
      "CanonicalSessionKey frontend k = canonical_text f c" "f = [] \<Longrightarrow> blank frontend"
proof -
  obtain pf t c r u where p: "ParseSessionKey (trim k) = (pf, t, c, r, u)"
    by (metis prod.exhaust)
  show ?thesis
  proof (cases "c = [] \<or> trim k = []")
    case True
    then show ?thesis
      using p by (intro unparsed) (simp add: CanonicalSessionKey_eq)
  next
    case False
    from ParseSessionKey_parts [OF p] have "key_part pf" "key_part c" by simp_all
    moreover from \<open>key_part pf\<close> have "key_part (FirstNonEmpty [pf, frontend])"
      using assms by (auto simp: key_part_def FirstNonEmpty_Cons)
    ultimately show ?thesis
      using False p CanonicalSessionKey_eq [OF p, of frontend]
      by (intro parsed [of "FirstNonEmpty [pf, frontend]" c]) (auto simp: FirstNonEmpty_Nil_iff split: if_splits)
  qed
qed

lemma CanonicalSessionKey_canonical_text:
  assumes "key_part f" "key_part c" "c \<noteq> []"
  shows "CanonicalSessionKey g (canonical_text f c) =
    canonical_text (if f = [] then trim g else f) c"
proof -
  have "canonical_text f c \<noteq> []" by (simp add: canonical_text_def)
  moreover have "FirstNonEmpty [f, g] = (if f = [] then trim g else f)"
    using assms(1) by (auto simp: key_part_def FirstNonEmpty_Cons)
  moreover have "ParseSessionKey (trim (canonical_text f c)) = (f, [], c, [], [])"
    using assms by (simp add: trim_canonical_text ParseSessionKey_canonical_text)
  ultimately show ?thesis
    using assms by (simp add: CanonicalSessionKey_eq trim_canonical_text)
qed

text \<open>
  Canonicalisation is idempotent: rewriting an already rewritten session key, by the same
  frontend, changes nothing, whatever legacy shape the first key had.
\<close>

theorem CanonicalSessionKey_idempotent:
  assumes "CHR '':'' \<notin> set (trim frontend)"
  shows "CanonicalSessionKey frontend (CanonicalSessionKey frontend k) = CanonicalSessionKey frontend k"
  using assms
proof (cases rule: CanonicalSessionKey_cases [of frontend k])
  case unparsed
  have "CanonicalSessionKey frontend (trim k) = CanonicalSessionKey frontend k"
    by (simp add: CanonicalSessionKey_def)
  with unparsed show ?thesis by simp
next
  case (parsed f c)
  then have "(if f = [] then trim frontend else f) = f" by simp
  with parsed show ?thesis by (simp add: CanonicalSessionKey_canonical_text)
qed

theorem CanonicalSessionKey_idempotent_witness:
  "CanonicalSessionKey ''main'' (CanonicalSessionKey ''main'' ''feishu:group:oc_1:root:om_2'')
     = CanonicalSessionKey ''main'' ''feishu:group:oc_1:root:om_2''
   \<and> CanonicalSessionKey ''main'' ''feishu:group:oc_1:root:om_2'' = ''feishu:frontend:main:chat:oc_1''"
proof -
  have h: "CHR '':'' \<notin> set (trim ''main'')" by (simp add: trim_literal)
  show ?thesis using CanonicalSessionKey_idempotent [OF h] by (simp, code_simp)
qed

lemma CanonicalSessionKey_chat:
  assumes "key_part f" "key_part c" "c \<noteq> []"
  shows "CanonicalSessionKey f (''feishu:chat:'' @ c) = canonical_text f c"
proof -
  have "CanonicalSessionKey f (canonical_text [] c) = canonical_text (trim f) c"
    using assms CanonicalSessionKey_canonical_text [of "[]" c f] by simp
  then show ?thesis
    using assms(1) by (simp add: canonical_text_def key_part_def)
qed

text \<open>
  C1. Parsing a canonical key gives back the frontend and the chat it was built from, so two
  conversations of different frontends or chats never share a session.
\<close>

theorem ParseSessionKey_roundtrip:
  assumes "key_part f" "key_part c" "c \<noteq> []"
  shows "ParseSessionKey (CanonicalSessionKey f (''feishu:chat:'' @ c)) = (f, [], c, [], [])"
  unfolding CanonicalSessionKey_chat [OF assms] by (rule ParseSessionKey_canonical_text [OF assms(1,2)])

theorem ParseSessionKey_roundtrip_witness:
  "ParseSessionKey (CanonicalSessionKey ''main'' (''feishu:chat:'' @ ''oc_1''))
     = (''main'', [], ''oc_1'', [], [])"
  by (rule ParseSessionKey_roundtrip) (simp_all add: key_part_def trim_literal)

end
