(* ===== verification/Messages.thy ===== *)
theory Messages
  imports Go_Prelude
begin

text \<open>
  Inbound messages and the precedence of their routes:
  \<open>internal/application/message.go\<close> and \<open>message_routing.go\<close>.
\<close>

record Attachment =
  att_Kind :: string
  att_ResourceKey :: string
  att_SourceMessageID :: string

record InboundMessage =
  im_SessionKey :: string
  im_MessageID :: string
  im_ChatID :: string
  im_ChatType :: string
  im_UserID :: string
  im_UserName :: string
  im_ChatName :: string
  im_Text :: string
  im_RootMessageID :: string
  im_ParentMessageID :: string
  im_ThreadID :: string
  im_Attachments :: "Attachment list"
  im_MergeForwardMessageIDs :: "string list"
  im_ExpandedMergeForward :: bool
  im_MentionedOpenIDs :: "string list"
  im_MentionedAny :: bool
  im_MentionedSelf :: bool
  im_MentionAll :: bool
  im_CreatedAt :: int

definition zero_InboundMessage :: InboundMessage where
  "zero_InboundMessage =
     \<lparr>im_SessionKey = [], im_MessageID = [], im_ChatID = [], im_ChatType = [], im_UserID = [],
      im_UserName = [], im_ChatName = [], im_Text = [], im_RootMessageID = [],
      im_ParentMessageID = [], im_ThreadID = [], im_Attachments = [],
      im_MergeForwardMessageIDs = [], im_ExpandedMergeForward = False,
      im_MentionedOpenIDs = [], im_MentionedAny = False, im_MentionedSelf = False,
      im_MentionAll = False, im_CreatedAt = 0\<rparr>"

record MessageRouteInput =
  mr_ExpandedMergeForward :: bool
  mr_TextEmpty :: bool
  mr_HasAttachments :: bool
  mr_StartsCommand :: bool
  mr_LocalCommand :: bool
  mr_PendingServerText :: bool
  mr_PendingRootText :: bool
  mr_StageImages :: bool
  mr_ReplyLink :: bool

datatype MessageRoute =
  MessageRouteNoop | MessageRoutePendingServerText | MessageRoutePendingRootText
  | MessageRouteLocalCommand | MessageRouteStageImages | MessageRouteSteerOrQueue

definition ClassifyMessageRoute :: "MessageRouteInput \<Rightarrow> MessageRoute" where
  "ClassifyMessageRoute input =
     (let pending =
            (if \<not> mr_ExpandedMergeForward input \<and> \<not> mr_StartsCommand input
                \<and> \<not> mr_HasAttachments input then
               (if mr_PendingServerText input then Some MessageRoutePendingServerText
                else if mr_PendingRootText input then Some MessageRoutePendingRootText
                else None)
             else None) in
      case pending of
        Some route \<Rightarrow> route
      | None \<Rightarrow>
          if \<not> mr_ExpandedMergeForward input \<and> mr_StartsCommand input \<and> mr_LocalCommand input
          then MessageRouteLocalCommand
          else if mr_StageImages input then MessageRouteStageImages
          else if mr_TextEmpty input \<and> \<not> mr_HasAttachments input then MessageRouteNoop
          else MessageRouteSteerOrQueue)"

definition GroupPolicyRootMessageID :: "string \<Rightarrow> string \<Rightarrow> string \<Rightarrow> string" where
  "GroupPolicyRootMessageID messageID rootMessageID0 parentMessageID =
     (let rootMessageID = trim rootMessageID0 in
      if rootMessageID = [] then []
      else if trim parentMessageID = [] \<and> rootMessageID = trim messageID then []
      else rootMessageID)"

lemma GroupPolicyRootMessageID_blank:
  "GroupPolicyRootMessageID m r p = [] \<longleftrightarrow> blank r \<or> blank p \<and> trim r = trim m"
  by (simp add: GroupPolicyRootMessageID_def Let_def)

end
