(* ===== verification/Group_Primary.thy ===== *)
theory Group_Primary
  imports Identity Messages
begin

text \<open>
  Which bot of a group answers: the pure routing policy of
  \<open>internal/domain/routing/primary.go\<close> and \<open>group_message.go\<close>, and the use cases over the
  primary repository of \<open>internal/application/routing/primary.go\<close> and
  \<open>group_messages.go\<close>. Every frontend keeps its own record of whether it is the primary
  bot of a group; the assignments they all see must make them agree.
\<close>

section \<open>Assignments (primary.go)\<close>

record GroupPrimaryAssignment =
  gpa_TargetBotOpenID :: string

record GroupPrimaryState =
  gps_FrontendID :: string
  gps_ChatID :: string
  gps_ChatType :: string
  gps_Enabled :: bool
  gps_LastAssignmentMessageID :: string
  gps_LastAssignmentCreatedAt :: int

record AssignmentStamp =
  as_MessageID :: string
  as_CreatedAt :: int

definition StaleAssignment :: "string \<Rightarrow> int \<Rightarrow> string \<Rightarrow> int \<Rightarrow> bool" where
  "StaleAssignment lastMessageID lastCreatedAt messageID createdAt \<longleftrightarrow>
     (if trim messageID \<noteq> [] \<and> trim messageID = trim lastMessageID then True
      else if createdAt = 0 \<or> lastCreatedAt = 0 then False
      else createdAt < lastCreatedAt)"

definition WithPrimary ::
  "GroupPrimaryState \<Rightarrow> bool \<Rightarrow> AssignmentStamp option \<Rightarrow> GroupPrimaryState \<times> bool" where
  "WithPrimary s enabled assignment =
     (case assignment of
        Some a \<Rightarrow>
          if StaleAssignment (gps_LastAssignmentMessageID s) (gps_LastAssignmentCreatedAt s)
               (as_MessageID a) (as_CreatedAt a) then (s, False)
          else (s\<lparr>gps_LastAssignmentMessageID := trim (as_MessageID a),
                  gps_LastAssignmentCreatedAt := as_CreatedAt a,
                  gps_Enabled := enabled\<rparr>, True)
      | None \<Rightarrow> (s\<lparr>gps_Enabled := enabled\<rparr>, True))"

definition mention_fields :: "string list \<Rightarrow> bool" where
  "mention_fields fs \<longleftrightarrow> (\<forall>f\<in>set fs. prefix ''@'' (trim f))"

definition ParsePrimaryOnCommand :: "string \<Rightarrow> bool" where
  "ParsePrimaryOnCommand text \<longleftrightarrow>
     (let fs = words (trim text) in
      if length fs < 2 \<or> \<not> equal_fold (trim (fs ! (length fs - 1))) ''on'' then False
      else
        let pre = take (length fs - 2) fs; word = trim (fs ! (length fs - 2)) in
        if word = ''/primary'' then mention_fields pre
        else if word = ''primary'' then
          (if pre = [] \<or> trim (last pre) \<noteq> ''/workspace'' then False
           else mention_fields (butlast pre))
        else False)"

definition ParseEmptyBotMention :: "string \<Rightarrow> bool" where
  "ParseEmptyBotMention text \<longleftrightarrow>
     (let fs = words (trim text) in if fs = [] then False else mention_fields fs)"

fun count_mentions :: "nat \<Rightarrow> string list \<Rightarrow> nat" where
  "count_mentions count [] = count"
| "count_mentions count (openID # ids) =
     count_mentions (if trim openID \<noteq> [] then count + 1 else count) ids"

definition CountMentionedOpenIDs :: "string list \<Rightarrow> nat" where
  "CountMentionedOpenIDs mentionedOpenIDs = count_mentions 0 mentionedOpenIDs"

fun single_mention :: "string \<Rightarrow> string list \<Rightarrow> string" where
  "single_mention target [] = target"
| "single_mention target (openID # ids) =
     (if trim openID = [] then single_mention target ids
      else if target \<noteq> [] then []
      else single_mention (trim openID) ids)"

definition SingleMentionedOpenID :: "string list \<Rightarrow> string" where
  "SingleMentionedOpenID mentionedOpenIDs = single_mention [] mentionedOpenIDs"

definition ParseGroupPrimaryAssignment :: "string \<Rightarrow> string list \<Rightarrow> GroupPrimaryAssignment option" where
  "ParseGroupPrimaryAssignment text mentionedOpenIDs =
     (let target = SingleMentionedOpenID mentionedOpenIDs in
      if target = [] \<or> CountMentionedOpenIDs mentionedOpenIDs \<noteq> 1 then None
      else if ParsePrimaryOnCommand text \<or> ParseEmptyBotMention text then
        Some \<lparr>gpa_TargetBotOpenID = target\<rparr>
      else None)"

section \<open>Delivery (group\_message.go)\<close>

record GroupMessageInput =
  gm_MentionAll :: bool
  gm_MentionedSelf :: bool
  gm_MentionedAny :: bool
  gm_InReplyChain :: bool
  gm_HasLocalLink :: bool
  gm_IsPrimary :: bool
  gm_HasPrimaryState :: bool

text \<open>The delivery input embeds the message input, so it extends the record.\<close>

record GroupDeliveryInput = GroupMessageInput +
  gd_Text :: string
  gd_MentionedOpenIDs :: "string list"

definition AcceptGroupMessage :: "'a GroupMessageInput_scheme \<Rightarrow> bool" where
  "AcceptGroupMessage input =
     (if gm_MentionAll input then True
      else if gm_MentionedSelf input then True
      else if gm_MentionedAny input then False
      else if gm_InReplyChain input then gm_HasLocalLink input
      else gm_IsPrimary input)"

definition ProbeGroupPrimary :: "'a GroupMessageInput_scheme \<Rightarrow> bool" where
  "ProbeGroupPrimary input =
     (if gm_HasPrimaryState input then False
      else if gm_MentionedSelf input then True
      else if gm_MentionedAny input then False
      else \<not> gm_InReplyChain input)"

definition DeliverGroupMessage :: "GroupDeliveryInput \<Rightarrow> bool" where
  "DeliverGroupMessage input =
     (let assignment = (ParseGroupPrimaryAssignment (gd_Text input) (gd_MentionedOpenIDs input) \<noteq> None) in
      if \<not> gm_MentionAll input \<and>
         (ParsePrimaryOnCommand (gd_Text input) \<or> ParseEmptyBotMention (gd_Text input))
      then assignment
      else AcceptGroupMessage input \<or> assignment \<or> ProbeGroupPrimary input)"

definition MentionsSelf :: "string \<Rightarrow> string list \<Rightarrow> bool \<Rightarrow> bool" where
  "MentionsSelf self0 mentioned fallback =
     (let self = trim self0 in
      if self = [] \<or> mentioned = [] then fallback
      else \<exists>i\<in>set mentioned. trim i = self)"


section \<open>The primary service (application/routing/primary.go)\<close>

text \<open>
  A repository is a value of functions over a storage state \<open>'r\<close>; a method that may fail
  returns a sum, and a save returns the storage it leaves with the error, since a failed
  save may already have changed the storage. \<open>repo_Ensure\<close> is the optional
  PrimaryInitializer interface.
\<close>

datatype 'e primary_error =
  PrimaryScopeIncomplete
  | PrimaryRepositoryNil
  | InitializationUnavailable
  | BotCountFailed string
  | OpenIDProviderUnavailable
  | OpenIDRequired
  | RepositoryFailed 'e
  | PrimaryNotFoundAfterUpdate

record ('r, 'e) PrimaryRepository =
  repo_Get :: "'r \<Rightarrow> string \<Rightarrow> string \<Rightarrow> string \<Rightarrow> 'e + GroupPrimaryState option"
  repo_Save :: "'r \<Rightarrow> GroupPrimaryState \<Rightarrow> 'r \<times> 'e option"
  repo_Ensure :: "('r \<Rightarrow> string \<Rightarrow> string \<Rightarrow> string \<Rightarrow> bool
                    \<Rightarrow> 'r \<times> ('e + GroupPrimaryState option)) option"

record ChangePrimary =
  cp_Frontend :: string
  cp_Chat :: ChatRef
  cp_Enabled :: bool
  cp_Assignment :: "AssignmentStamp option"

definition Lookup ::
  "('r, 'e) PrimaryRepository option \<Rightarrow> 'r \<Rightarrow> string \<Rightarrow> string \<Rightarrow> string
     \<Rightarrow> 'e primary_error + GroupPrimaryState option" where
  "Lookup repository r frontendID chatType chatID =
     (let chat = ChatRef_Normalize \<lparr>chat_Type = chatType, chat_ID = chatID\<rparr>;
          frontend = FrontendID_Normalize frontendID in
      if chat_Type chat \<noteq> ''group'' \<or> chat_ID chat = [] then Inl PrimaryScopeIncomplete
      else (case repository of
              None \<Rightarrow> Inl PrimaryRepositoryNil
            | Some repo \<Rightarrow>
                (case repo_Get repo r frontend (chat_Type chat) (chat_ID chat) of
                   Inl e \<Rightarrow> Inl (RepositoryFailed e)
                 | Inr st \<Rightarrow> Inr st)))"

definition IsPrimary ::
  "('r, 'e) PrimaryRepository option \<Rightarrow> 'r \<Rightarrow> string \<Rightarrow> string \<Rightarrow> string \<Rightarrow> 'e primary_error + bool" where
  "IsPrimary repository r frontendID chatType chatID =
     (case Lookup repository r frontendID chatType chatID of
        Inl e \<Rightarrow> Inl e
      | Inr None \<Rightarrow> Inr False
      | Inr (Some st) \<Rightarrow> Inr (gps_Enabled st))"

definition HasState ::
  "('r, 'e) PrimaryRepository option \<Rightarrow> 'r \<Rightarrow> string \<Rightarrow> string \<Rightarrow> string \<Rightarrow> 'e primary_error + bool" where
  "HasState repository r frontendID chatType chatID =
     (case Lookup repository r frontendID chatType chatID of
        Inl e \<Rightarrow> Inl e
      | Inr st \<Rightarrow> Inr (st \<noteq> None))"

definition IsStaleAssignment ::
  "('r, 'e) PrimaryRepository option \<Rightarrow> 'r \<Rightarrow> string \<Rightarrow> string \<Rightarrow> string \<Rightarrow> AssignmentStamp
     \<Rightarrow> 'e primary_error + bool" where
  "IsStaleAssignment repository r frontendID chatType chatID assignment =
     (case Lookup repository r frontendID chatType chatID of
        Inl e \<Rightarrow> Inl e
      | Inr None \<Rightarrow> Inr False
      | Inr (Some st) \<Rightarrow>
          Inr (StaleAssignment (gps_LastAssignmentMessageID st) (gps_LastAssignmentCreatedAt st)
                 (as_MessageID assignment) (as_CreatedAt assignment)))"

definition SetPrimary ::
  "('r, 'e) PrimaryRepository option \<Rightarrow> 'r \<Rightarrow> ChangePrimary
     \<Rightarrow> 'r \<times> ('e primary_error + GroupPrimaryState)" where
  "SetPrimary repository r input =
     (let frontendID = FrontendID_Normalize (cp_Frontend input);
          chat = ChatRef_Normalize (cp_Chat input) in
      if chat_Type chat \<noteq> ''group'' \<or> chat_ID chat = [] then (r, Inl PrimaryScopeIncomplete)
      else (case repository of
              None \<Rightarrow> (r, Inl PrimaryRepositoryNil)
            | Some repo \<Rightarrow>
                (case repo_Get repo r frontendID (chat_Type chat) (chat_ID chat) of
                   Inl e \<Rightarrow> (r, Inl (RepositoryFailed e))
                 | Inr stored \<Rightarrow>
                     let current = (case stored of
                           Some st \<Rightarrow> st
                         | None \<Rightarrow> \<lparr>gps_FrontendID = frontendID, gps_ChatID = chat_ID chat,
                                   gps_ChatType = chat_Type chat, gps_Enabled = False,
                                   gps_LastAssignmentMessageID = [],
                                   gps_LastAssignmentCreatedAt = 0\<rparr>);
                         (next, changed) =
                           WithPrimary current (cp_Enabled input) (cp_Assignment input) in
                     if \<not> changed then (r, Inr current)
                     else (case repo_Save repo r next of
                             (r', Some e) \<Rightarrow> (r', Inl (RepositoryFailed e))
                           | (r', None) \<Rightarrow> (r', Inr next)))))"

definition EnsurePrimary ::
  "('r, 'e) PrimaryRepository option \<Rightarrow> 'r \<Rightarrow> string \<Rightarrow> string \<Rightarrow> string \<Rightarrow> bool
     \<Rightarrow> 'r \<times> ('e primary_error + GroupPrimaryState option)" where
  "EnsurePrimary repository r frontendID chatType chatID enabled =
     (case Option.bind repository repo_Ensure of
        Some ensure \<Rightarrow>
          (case ensure r frontendID chatType chatID enabled of
             (r', Inl e) \<Rightarrow> (r', Inl (RepositoryFailed e))
           | (r', Inr st) \<Rightarrow> (r', Inr st))
      | None \<Rightarrow>
          (case SetPrimary repository r
                  \<lparr>cp_Frontend = frontendID, cp_Chat = \<lparr>chat_Type = chatType, chat_ID = chatID\<rparr>,
                   cp_Enabled = enabled, cp_Assignment = None\<rparr> of
             (r', Inl e) \<Rightarrow> (r', Inl e)
           | (r', Inr st) \<Rightarrow> (r', Inr (Some st))))"

text \<open>
  Automatic initialisation. The number of bots in the chat and the bot's own open id come from
  the platform: \<open>botCount\<close> is what the membership query returned (None when the port is
  missing) and \<open>liveBotOpenID\<close> what the client reports.
\<close>

definition Ensure ::
  "('r, 'e) PrimaryRepository option \<Rightarrow> 'r \<Rightarrow> (string \<Rightarrow> string + int) option \<Rightarrow> string option
     \<Rightarrow> string \<Rightarrow> string \<Rightarrow> string \<Rightarrow> 'r \<times> ('e primary_error + GroupPrimaryState option)" where
  "Ensure repository r botCount liveBotOpenID frontendID chatType chatID =
     (if trim chatType \<noteq> ''group'' \<or> trim chatID = [] then (r, Inr None)
      else (case (repository, botCount) of
              (Some repo, Some count) \<Rightarrow>
                (case repo_Get repo r frontendID chatType chatID of
                   Inl e \<Rightarrow> (r, Inl (RepositoryFailed e))
                 | Inr (Some existing) \<Rightarrow> (r, Inr (Some existing))
                 | Inr None \<Rightarrow>
                     (case count chatID of
                        Inl e \<Rightarrow> (r, Inl (BotCountFailed e))
                      | Inr n \<Rightarrow>
                          if n = 1 then
                            (case liveBotOpenID of
                               None \<Rightarrow> (r, Inl OpenIDProviderUnavailable)
                             | Some openID \<Rightarrow>
                                 if trim openID = [] then (r, Inl OpenIDRequired)
                                 else EnsurePrimary repository r frontendID chatType chatID True)
                          else EnsurePrimary repository r frontendID chatType chatID False))
            | _ \<Rightarrow> (r, Inl InitializationUnavailable)))"


section \<open>Facts about a group message (application/routing/group\_messages.go)\<close>

record GroupMessage =
  gmsg_ChatID :: string
  gmsg_RootMessageID :: string
  gmsg_ParentMessageID :: string
  gmsg_Text :: string
  gmsg_MentionedOpenIDs :: "string list"
  gmsg_MentionAll :: bool
  gmsg_MentionedSelf :: bool
  gmsg_MentionedAny :: bool

text \<open>\<open>hasLink\<close> says whether the frontend has a message link for an id.\<close>

definition Facts ::
  "('r, 'e) PrimaryRepository option \<Rightarrow> 'r \<Rightarrow> string \<Rightarrow> (string \<Rightarrow> bool) \<Rightarrow> string \<Rightarrow> GroupMessage
     \<Rightarrow> GroupMessageInput" where
  "Facts repository r frontend hasLink selfOpenID input =
     (let primary = (case Lookup repository r frontend ''group'' (gmsg_ChatID input) of
                       Inl e \<Rightarrow> None | Inr st \<Rightarrow> st);
          linked = fold (\<lambda>i linked. if trim i \<noteq> [] \<and> hasLink i then True else linked)
                     [gmsg_RootMessageID input, gmsg_ParentMessageID input] False in
      \<lparr>gm_MentionAll = gmsg_MentionAll input,
       gm_MentionedSelf =
         MentionsSelf selfOpenID (gmsg_MentionedOpenIDs input) (gmsg_MentionedSelf input),
       gm_MentionedAny = gmsg_MentionedAny input \<or> gmsg_MentionedOpenIDs input \<noteq> [],
       gm_InReplyChain =
         trim (gmsg_RootMessageID input) \<noteq> [] \<or> trim (gmsg_ParentMessageID input) \<noteq> [],
       gm_HasLocalLink = linked,
       gm_IsPrimary = (case primary of None \<Rightarrow> False | Some st \<Rightarrow> gps_Enabled st),
       gm_HasPrimaryState = primary \<noteq> None\<rparr>)"

definition Deliver ::
  "('r, 'e) PrimaryRepository option \<Rightarrow> 'r \<Rightarrow> string \<Rightarrow> (string \<Rightarrow> bool) \<Rightarrow> string \<Rightarrow> GroupMessage \<Rightarrow> bool" where
  "Deliver repository r frontend hasLink selfOpenID input =
     DeliverGroupMessage
       (GroupMessageInput.extend (Facts repository r frontend hasLink selfOpenID input)
          (GroupDeliveryInput.fields (gmsg_Text input) (gmsg_MentionedOpenIDs input)))"

definition Accept ::
  "('r, 'e) PrimaryRepository option \<Rightarrow> 'r \<Rightarrow> string \<Rightarrow> (string \<Rightarrow> bool) \<Rightarrow> string \<Rightarrow> GroupMessage \<Rightarrow> bool" where
  "Accept repository r frontend hasLink selfOpenID input =
     AcceptGroupMessage (Facts repository r frontend hasLink selfOpenID input)"

definition Probe ::
  "('r, 'e) PrimaryRepository option \<Rightarrow> 'r \<Rightarrow> string \<Rightarrow> (string \<Rightarrow> bool) \<Rightarrow> string \<Rightarrow> GroupMessage \<Rightarrow> bool" where
  "Probe repository r frontend hasLink selfOpenID input =
     ProbeGroupPrimary (Facts repository r frontend hasLink selfOpenID input)"

section \<open>Following an assignment (feishuapp/group\_primary.go)\<close>

definition isGroupPrimaryControlMessage :: "InboundMessage option \<Rightarrow> bool" where
  "isGroupPrimaryControlMessage message =
     (case message of
        None \<Rightarrow> False
      | Some msg \<Rightarrow>
          if trim (im_ChatType msg) \<noteq> ''group'' then False
          else ParsePrimaryOnCommand (im_Text msg) \<or> ParseEmptyBotMention (im_Text msg))"

definition groupPrimaryAssignmentFromMessage ::
  "InboundMessage option \<Rightarrow> GroupPrimaryAssignment option" where
  "groupPrimaryAssignmentFromMessage message =
     (case message of
        None \<Rightarrow> None
      | Some msg \<Rightarrow>
          if trim (im_ChatType msg) \<noteq> ''group'' then None
          else ParseGroupPrimaryAssignment (im_Text msg) (im_MentionedOpenIDs msg))"

text \<open>The result says whether the message is finished, with its error.\<close>

definition syncGroupPrimaryAssignment ::
  "('r, 'e) PrimaryRepository option \<Rightarrow> 'r \<Rightarrow> string \<Rightarrow> string \<Rightarrow> InboundMessage option
     \<Rightarrow> 'r \<times> bool \<times> 'e primary_error option" where
  "syncGroupPrimaryAssignment repository r frontendID liveBotOpenID message =
     (case (groupPrimaryAssignmentFromMessage message, message) of
        (Some assignment, Some msg) \<Rightarrow>
          let selfOpenID = trim liveBotOpenID;
              stamp = \<lparr>as_MessageID = im_MessageID msg, as_CreatedAt = im_CreatedAt msg\<rparr> in
          if selfOpenID = [] then (r, True, None)
          else (case IsStaleAssignment repository r frontendID (im_ChatType msg) (im_ChatID msg) stamp of
                  Inl e \<Rightarrow> (r, True, Some e)
                | Inr stale \<Rightarrow>
                    if stale then (r, True, None)
                    else if selfOpenID = gpa_TargetBotOpenID assignment then (r, False, None)
                    else
                      (case SetPrimary repository r
                              \<lparr>cp_Frontend = frontendID,
                               cp_Chat = \<lparr>chat_Type = im_ChatType msg, chat_ID = im_ChatID msg\<rparr>,
                               cp_Enabled = False, cp_Assignment = Some stamp\<rparr> of
                         (r', Inl e) \<Rightarrow> (r', True, Some e)
                       | (r', Inr _) \<Rightarrow>
                           (case Lookup repository r' frontendID (im_ChatType msg) (im_ChatID msg) of
                              Inr (Some st) \<Rightarrow> (r', True, None)
                            | _ \<Rightarrow> (r', True, Some PrimaryNotFoundAfterUpdate))))
      | _ \<Rightarrow> (r, False, None))"

text \<open>The command handler of the frontend that was named writes its own record.\<close>

definition writeGroupPrimaryState ::
  "('r, 'e) PrimaryRepository option \<Rightarrow> 'r \<Rightarrow> string \<Rightarrow> string \<Rightarrow> string \<Rightarrow> bool \<Rightarrow> InboundMessage option
     \<Rightarrow> 'r \<times> ('e primary_error + GroupPrimaryState)" where
  "writeGroupPrimaryState repository r frontendID chatType0 chatID0 enabled assignment =
     (let chatType = to_lower (trim chatType0); chatID = trim chatID0 in
      if chatType \<noteq> ''group'' \<or> chatID = [] then (r, Inl PrimaryScopeIncomplete)
      else
        (case SetPrimary repository r
                \<lparr>cp_Frontend = frontendID, cp_Chat = \<lparr>chat_Type = chatType, chat_ID = chatID\<rparr>,
                 cp_Enabled = enabled,
                 cp_Assignment = map_option
                   (\<lambda>a. \<lparr>as_MessageID = im_MessageID a, as_CreatedAt = im_CreatedAt a\<rparr>) assignment\<rparr> of
           (r', Inl e) \<Rightarrow> (r', Inl e)
         | (r', Inr _) \<Rightarrow>
             (case Lookup repository r' frontendID chatType chatID of
                Inr (Some updated) \<Rightarrow> (r', Inr updated)
              | _ \<Rightarrow> (r', Inl PrimaryNotFoundAfterUpdate))))"


section \<open>Mentions\<close>

abbreviation mentions :: "string list \<Rightarrow> string list" where
  "mentions ids \<equiv> filter (\<lambda>i. i \<noteq> []) (map trim ids)"

lemma count_mentions_eq: "count_mentions n ids = n + length (mentions ids)"
  by (induction n ids rule: count_mentions.induct) auto

lemma CountMentionedOpenIDs_eq: "CountMentionedOpenIDs ids = length (mentions ids)"
  by (simp add: CountMentionedOpenIDs_def count_mentions_eq)

lemma single_mention_target:
  "t \<noteq> [] \<Longrightarrow> single_mention t ids = (if mentions ids = [] then t else [])"
  by (induction t ids rule: single_mention.induct) auto

lemma SingleMentionedOpenID_eq:
  "SingleMentionedOpenID ids = (case mentions ids of [t] \<Rightarrow> t | _ \<Rightarrow> [])"
proof -
  have "single_mention [] ids = (case mentions ids of [t] \<Rightarrow> t | _ \<Rightarrow> [])"
  proof (induction ids)
    case (Cons i ids)
    then show ?case by (simp add: single_mention_target split: list.splits)
  qed simp
  then show ?thesis by (simp add: SingleMentionedOpenID_def)
qed

lemma ParseGroupPrimaryAssignment_Some:
  "ParseGroupPrimaryAssignment text ids = Some a \<longleftrightarrow>
     mentions ids = [gpa_TargetBotOpenID a] \<and> (ParsePrimaryOnCommand text \<or> ParseEmptyBotMention text)"
proof (cases "mentions ids")
  case Nil
  then show ?thesis
    by (simp add: ParseGroupPrimaryAssignment_def SingleMentionedOpenID_eq)
next
  case (Cons t ts)
  then have "t \<in> set (mentions ids)" by (simp only: list.set_intros)
  then have "t \<noteq> []" by simp
  with Cons show ?thesis
    by (cases a; cases ts)
       (auto simp: ParseGroupPrimaryAssignment_def SingleMentionedOpenID_eq CountMentionedOpenIDs_eq)
qed

section \<open>Agreement on the primary\<close>

text \<open>
  What a frontend with open id \<open>self\<close> does with an assignment that names \<open>fst a\<close>:
  it records whether it is the one named.
\<close>

definition follow :: "string \<Rightarrow> string \<times> AssignmentStamp \<Rightarrow> GroupPrimaryState \<Rightarrow> GroupPrimaryState" where
  "follow self a s = fst (WithPrimary s (self = fst a) (Some (snd a)))"

abbreviation stamp_time :: "string \<times> AssignmentStamp \<Rightarrow> int" where
  "stamp_time a \<equiv> as_CreatedAt (snd a)"

abbreviation stamp_message :: "string \<times> AssignmentStamp \<Rightarrow> string" where
  "stamp_message a \<equiv> trim (as_MessageID (snd a))"

definition fresh_state :: "GroupPrimaryState \<Rightarrow> bool" where
  "fresh_state s \<longleftrightarrow> gps_LastAssignmentMessageID s = [] \<and> gps_LastAssignmentCreatedAt s = 0"

definition newest :: "(string \<times> AssignmentStamp) set \<Rightarrow> string \<times> AssignmentStamp \<Rightarrow> bool" where
  "newest M m \<longleftrightarrow> m \<in> M \<and> (\<forall>a\<in>M. 0 < stamp_time a) \<and>
     (\<forall>a\<in>M. a \<noteq> m \<longrightarrow> stamp_time a < stamp_time m \<and> stamp_message a \<noteq> stamp_message m)"

text \<open>The state records an assignment: it holds its stamp and what it says about \<open>self\<close>.\<close>

definition records :: "string \<Rightarrow> string \<times> AssignmentStamp \<Rightarrow> GroupPrimaryState \<Rightarrow> bool" where
  "records self a s \<longleftrightarrow>
     gps_LastAssignmentMessageID s = stamp_message a \<and>
     gps_LastAssignmentCreatedAt s = stamp_time a \<and>
     gps_Enabled s = (self = fst a)"

lemma follow_fresh: "fresh_state s \<Longrightarrow> records self a (follow self a s)"
  by (auto simp: fresh_state_def records_def follow_def WithPrimary_def StaleAssignment_def)

lemma follow_older:
  assumes "records self b s" "stamp_time b < stamp_time a" "0 < stamp_time b"
    "stamp_message b \<noteq> stamp_message a"
  shows "records self a (follow self a s)"
  using assms by (auto simp: records_def follow_def WithPrimary_def StaleAssignment_def)

lemma follow_keeps:
  assumes "records self m s" "0 < stamp_time a" "a = m \<or> stamp_time a < stamp_time m"
  shows "records self m (follow self a s)"
  using assms by (auto simp: records_def follow_def WithPrimary_def StaleAssignment_def)

lemma follow_some:
  assumes "records self b s"
  shows "records self b (follow self a s) \<or> records self a (follow self a s)"
  using assms by (auto simp: records_def follow_def WithPrimary_def StaleAssignment_def)

lemma follow_all:
  assumes "newest M m" "fresh_state s" "set ws \<subseteq> M"
  shows "(if m \<in> set ws then records self m (fold (follow self) ws s)
          else ws = [] \<or> (\<exists>b\<in>set ws. records self b (fold (follow self) ws s)))"
  using assms(3)
proof (induction ws rule: rev_induct)
  case Nil
  then show ?case by simp
next
  case (snoc a ws)
  let ?s = "fold (follow self) ws s"
  have a: "a \<in> M" and ws: "set ws \<subseteq> M" using snoc.prems by auto
  have pos: "0 < stamp_time b" if "b \<in> M" for b using that assms(1) by (auto simp: newest_def)
  have less: "stamp_time b < stamp_time m \<and> stamp_message b \<noteq> stamp_message m"
    if "b \<in> M" "b \<noteq> m" for b
    using that assms(1) by (auto simp: newest_def)
  show ?case
  proof (cases "m \<in> set ws")
    case True
    with snoc.IH [OF ws] have "records self m ?s" by simp
    then have "records self m (follow self a ?s)"
      using pos [OF a] less [OF a] by (intro follow_keeps) auto
    with True show ?thesis by simp
  next
    case False
    from snoc.IH [OF ws] False consider "ws = []" | b where "b \<in> set ws" "records self b ?s"
      by auto
    then show ?thesis
    proof cases
      case 1
      then show ?thesis using follow_fresh [OF assms(2)] by simp
    next
      case 2
      show ?thesis
      proof (cases "a = m")
        case True
        have "b \<in> M" "b \<noteq> m" using 2(1) ws False by auto
        then have "records self a (follow self a ?s)"
          unfolding True
          using less [OF \<open>b \<in> M\<close> \<open>b \<noteq> m\<close>] pos [OF \<open>b \<in> M\<close>]
          by (intro follow_older [OF 2(2)]) simp_all
        with True show ?thesis by simp
      next
        case False
        with \<open>m \<notin> set ws\<close> follow_some [OF 2(2), of a] 2(1) show ?thesis by auto
      qed
    qed
  qed
qed

lemma distinct_filter_one:
  "distinct xs \<Longrightarrow> filter (\<lambda>i. i = x) xs = (if x \<in> set xs then [x] else [])"
  by (induction xs) (auto simp: filter_empty_conv)

text \<open>
  C4. When every frontend of a group follows the same assignments, in whatever order and with
  whatever repetitions the platform delivers them to it, exactly the bot named by the newest
  assignment ends up primary: two bots never both answer, and a late or replayed assignment
  changes nothing.
\<close>

theorem one_primary_after_assignments:
  assumes "newest M m" "fresh_state s0"
    and "distinct (map fst frontends)"
    and "\<forall>f\<in>set frontends. set (snd f) = M"
  shows "map fst (filter (\<lambda>(self, ws). gps_Enabled (fold (follow self) ws s0)) frontends) =
    (if fst m \<in> set (map fst frontends) then [fst m] else [])"
proof -
  have e: "gps_Enabled (fold (follow (fst f)) (snd f) s0) \<longleftrightarrow> fst f = fst m"
    if "f \<in> set frontends" for f
  proof -
    have "set (snd f) = M" "m \<in> M" using that assms(1,4) by (auto simp: newest_def)
    then have "records (fst f) m (fold (follow (fst f)) (snd f) s0)"
      using follow_all [OF assms(1,2), of "snd f" "fst f"] by simp
    then show ?thesis by (simp add: records_def)
  qed
  have "map fst (filter (\<lambda>(self, ws). gps_Enabled (fold (follow self) ws s0)) frontends)
      = filter (\<lambda>i. i = fst m) (map fst frontends)"
    using e by (auto simp: filter_map case_prod_beta intro!: arg_cong [of _ _ "map fst"] filter_cong)
  also have "\<dots> = (if fst m \<in> set (map fst frontends) then [fst m] else [])"
    using assms(3) by (simp add: distinct_filter_one)
  finally show ?thesis .
qed

theorem one_primary_after_assignments_witness:
  "let s0 = \<lparr>gps_FrontendID = ''f'', gps_ChatID = ''oc'', gps_ChatType = ''group'', gps_Enabled = True,
             gps_LastAssignmentMessageID = [], gps_LastAssignmentCreatedAt = 0\<rparr>;
       a = (''ou_a'', \<lparr>as_MessageID = ''m1'', as_CreatedAt = 1\<rparr>);
       b = (''ou_b'', \<lparr>as_MessageID = ''m2'', as_CreatedAt = 2\<rparr>)
   in map fst (filter (\<lambda>(self, ws). gps_Enabled (fold (follow self) ws s0))
        [(''ou_a'', [a, b]), (''ou_b'', [b, a, b]), (''ou_c'', [b, a])]) = [''ou_b'']"
proof -
  let ?s0 = "\<lparr>gps_FrontendID = ''f'', gps_ChatID = ''oc'', gps_ChatType = ''group'', gps_Enabled = True,
             gps_LastAssignmentMessageID = [], gps_LastAssignmentCreatedAt = 0\<rparr>"
  let ?a = "(''ou_a'', \<lparr>as_MessageID = ''m1'', as_CreatedAt = 1\<rparr>)"
  let ?b = "(''ou_b'', \<lparr>as_MessageID = ''m2'', as_CreatedAt = 2\<rparr>)"
  have "newest {?a, ?b} ?b" by (simp add: newest_def trim_literal)
  moreover have "fresh_state ?s0" by (simp add: fresh_state_def)
  ultimately show ?thesis
    unfolding Let_def
    by (subst one_primary_after_assignments [of "{?a, ?b}" ?b]) auto
qed

section \<open>Who receives a message\<close>

lemma MentionsSelf_ids:
  "trim self \<noteq> [] \<Longrightarrow> ids \<noteq> [] \<Longrightarrow> MentionsSelf self ids b \<longleftrightarrow> trim self \<in> trim ` set ids"
  unfolding MentionsSelf_def Let_def image_iff by (metis (no_types))

lemma ParseGroupPrimaryAssignment_None:
  "\<not> ParsePrimaryOnCommand text \<Longrightarrow> \<not> ParseEmptyBotMention text \<Longrightarrow>
   ParseGroupPrimaryAssignment text ids = None"
  by (simp add: ParseGroupPrimaryAssignment_def Let_def)

text \<open>
  A message that mentions somebody and is no primary command is delivered by exactly the
  bots it mentions: being the primary of the group, or not knowing yet who is, gives a bot no
  claim to a message addressed to another.
\<close>

theorem Deliver_mentioned:
  assumes "\<not> gmsg_MentionAll msg" "gmsg_MentionedOpenIDs msg \<noteq> []" "trim self \<noteq> []"
    and "\<not> ParsePrimaryOnCommand (gmsg_Text msg)" "\<not> ParseEmptyBotMention (gmsg_Text msg)"
  shows "Deliver repository r frontend hasLink self msg \<longleftrightarrow>
    trim self \<in> trim ` set (gmsg_MentionedOpenIDs msg)"
  using assms
  by (simp add: Deliver_def DeliverGroupMessage_def Facts_def AcceptGroupMessage_def
      ProbeGroupPrimary_def ParseGroupPrimaryAssignment_None MentionsSelf_ids
      GroupMessageInput.defs GroupDeliveryInput.defs Let_def)

definition list_repository :: "(GroupPrimaryState list, string) PrimaryRepository" where
  "list_repository =
     \<lparr>repo_Get = (\<lambda>r f t c. Inr (find (\<lambda>st. gps_FrontendID st = f \<and> gps_ChatID st = c) r)),
      repo_Save = (\<lambda>r st. (st # r, None)), repo_Ensure = None\<rparr>"

definition sample_state :: "string \<Rightarrow> bool \<Rightarrow> GroupPrimaryState" where
  "sample_state f b =
     \<lparr>gps_FrontendID = f, gps_ChatID = ''oc'', gps_ChatType = ''group'', gps_Enabled = b,
      gps_LastAssignmentMessageID = ''m1'', gps_LastAssignmentCreatedAt = 1\<rparr>"

definition sample_message :: "string \<Rightarrow> string list \<Rightarrow> GroupMessage" where
  "sample_message text ids =
     \<lparr>gmsg_ChatID = ''oc'', gmsg_RootMessageID = [], gmsg_ParentMessageID = [], gmsg_Text = text,
      gmsg_MentionedOpenIDs = ids, gmsg_MentionAll = False, gmsg_MentionedSelf = False,
      gmsg_MentionedAny = False\<rparr>"

theorem Deliver_mentioned_witness:
  "\<not> Deliver (Some list_repository) [sample_state ''f'' True] ''f'' (\<lambda>_. False) ''ou_a''
       (sample_message ''@b hello'' [''ou_b''])"
proof -
  have "\<not> gmsg_MentionAll (sample_message ''@b hello'' [''ou_b''])"
    "gmsg_MentionedOpenIDs (sample_message ''@b hello'' [''ou_b'']) \<noteq> []" "trim ''ou_a'' \<noteq> []"
    "\<not> ParsePrimaryOnCommand (gmsg_Text (sample_message ''@b hello'' [''ou_b'']))"
    "\<not> ParseEmptyBotMention (gmsg_Text (sample_message ''@b hello'' [''ou_b'']))"
    by code_simp+
  from Deliver_mentioned [OF this, of "Some list_repository" "[sample_state ''f'' True]" "''f''" "\<lambda>_. False"]
  show ?thesis by (simp add: sample_message_def trim_literal)
qed

text \<open>
  In a group whose primary is known, a message that addresses nobody and replies to
  nothing is delivered by a bot exactly when that bot is the primary.
\<close>

theorem Deliver_unaddressed:
  assumes "\<not> gmsg_MentionAll msg" "gmsg_MentionedOpenIDs msg = []"
    and "\<not> gmsg_MentionedSelf msg" "\<not> gmsg_MentionedAny msg"
    and "blank (gmsg_RootMessageID msg)" "blank (gmsg_ParentMessageID msg)"
    and "\<not> ParsePrimaryOnCommand (gmsg_Text msg)" "\<not> ParseEmptyBotMention (gmsg_Text msg)"
    and "HasState repository r frontend ''group'' (gmsg_ChatID msg) = Inr True"
  shows "Deliver repository r frontend hasLink self msg \<longleftrightarrow>
    IsPrimary repository r frontend ''group'' (gmsg_ChatID msg) = Inr True"
proof -
  obtain st where "Lookup repository r frontend ''group'' (gmsg_ChatID msg) = Inr (Some st)"
    using assms(9) by (auto simp: HasState_def split: sum.splits)
  with assms show ?thesis
    by (simp add: Deliver_def DeliverGroupMessage_def Facts_def AcceptGroupMessage_def
        ProbeGroupPrimary_def ParseGroupPrimaryAssignment_None MentionsSelf_def IsPrimary_def
        GroupMessageInput.defs GroupDeliveryInput.defs Let_def)
qed

theorem Deliver_unaddressed_witness:
  "Deliver (Some list_repository) [sample_state ''f'' True] ''f'' (\<lambda>_. False) ''ou_a''
     (sample_message ''hello'' [])"
proof -
  let ?m = "sample_message ''hello'' []"
  have "\<not> gmsg_MentionAll ?m" "gmsg_MentionedOpenIDs ?m = []"
    "\<not> gmsg_MentionedSelf ?m" "\<not> gmsg_MentionedAny ?m"
    "blank (gmsg_RootMessageID ?m)" "blank (gmsg_ParentMessageID ?m)"
    by (simp_all add: sample_message_def)
  moreover have "\<not> ParsePrimaryOnCommand (gmsg_Text ?m)" "\<not> ParseEmptyBotMention (gmsg_Text ?m)"
    "HasState (Some list_repository) [sample_state ''f'' True] ''f'' ''group'' (gmsg_ChatID ?m) = Inr True"
    by code_simp+
  ultimately have "Deliver (Some list_repository) [sample_state ''f'' True] ''f'' (\<lambda>_. False) ''ou_a'' ?m
      \<longleftrightarrow> IsPrimary (Some list_repository) [sample_state ''f'' True] ''f'' ''group'' (gmsg_ChatID ?m) = Inr True"
    by (rule Deliver_unaddressed)
  then show ?thesis by code_simp
qed

text \<open>A primary command with one mention reaches every bot of the group.\<close>

lemma Deliver_assignment:
  assumes "ParseGroupPrimaryAssignment (gmsg_Text msg) (gmsg_MentionedOpenIDs msg) \<noteq> None"
  shows "Deliver repository r frontend hasLink self msg"
  using assms
  by (simp add: Deliver_def DeliverGroupMessage_def Facts_def
      GroupMessageInput.defs GroupDeliveryInput.defs Let_def)

section \<open>The contract of a primary repository\<close>

text \<open>
  What the service relies on: under the storage invariant a loaded record carries the key it
  was asked for, and a saved record is what the next load of its key returns, while the other
  keys keep theirs.
\<close>

definition normal_state :: "GroupPrimaryState \<Rightarrow> bool" where
  "normal_state st \<longleftrightarrow>
     trim (gps_FrontendID st) = gps_FrontendID st \<and> trim (gps_ChatID st) = gps_ChatID st \<and>
     gps_ChatType st = ''group'' \<and>
     trim (gps_LastAssignmentMessageID st) = gps_LastAssignmentMessageID st"

locale primary_repository =
  fixes repo :: "('r, 'e) PrimaryRepository"
    and ok :: "'r \<Rightarrow> bool"
    and key :: "string \<Rightarrow> string \<Rightarrow> string \<Rightarrow> 'k"
  assumes get_normal: "\<lbrakk>ok r; repo_Get repo r f ''group'' c = Inr (Some st)\<rbrakk>
      \<Longrightarrow> normal_state st \<and> key (gps_FrontendID st) (gps_ChatType st) (gps_ChatID st) = key f ''group'' c"
    and save_ok: "\<lbrakk>ok r; normal_state st; repo_Save repo r st = (r', e)\<rbrakk> \<Longrightarrow> ok r'"
    and get_save: "\<lbrakk>ok r; normal_state st; repo_Save repo r st = (r', None);
        repo_Get repo r f ''group'' c = Inr old;
        key f ''group'' c = key (gps_FrontendID st) (gps_ChatType st) (gps_ChatID st)\<rbrakk>
      \<Longrightarrow> repo_Get repo r' f ''group'' c = Inr (Some st)"
    and get_save_other: "\<lbrakk>ok r; normal_state st; repo_Save repo r st = (r', None);
        key f ''group'' c \<noteq> key (gps_FrontendID st) (gps_ChatType st) (gps_ChatID st)\<rbrakk>
      \<Longrightarrow> repo_Get repo r' f ''group'' c = repo_Get repo r f ''group'' c"
begin

text \<open>The record a change starts from.\<close>

definition current_state :: "'r \<Rightarrow> string \<Rightarrow> string \<Rightarrow> GroupPrimaryState option" where
  "current_state r f c =
     (case repo_Get repo r f ''group'' c of
        Inl e \<Rightarrow> None
      | Inr (Some st) \<Rightarrow> Some st
      | Inr None \<Rightarrow> Some \<lparr>gps_FrontendID = f, gps_ChatID = c, gps_ChatType = ''group'',
          gps_Enabled = False, gps_LastAssignmentMessageID = [], gps_LastAssignmentCreatedAt = 0\<rparr>)"

lemma WithPrimary_normal: "normal_state st \<Longrightarrow> normal_state (fst (WithPrimary st b a))"
  by (auto simp: normal_state_def WithPrimary_def split: option.splits)

lemma WithPrimary_scope:
  "gps_FrontendID (fst (WithPrimary st b a)) = gps_FrontendID st"
  "gps_ChatType (fst (WithPrimary st b a)) = gps_ChatType st"
  "gps_ChatID (fst (WithPrimary st b a)) = gps_ChatID st"
  by (auto simp: WithPrimary_def split: option.splits)

lemma current_state_normal:
  assumes "ok r" "trim f = f" "trim c = c" "current_state r f c = Some st"
  shows "normal_state st \<and> key (gps_FrontendID st) (gps_ChatType st) (gps_ChatID st) = key f ''group'' c"
  using assms get_normal [of r f c]
  by (auto simp: current_state_def normal_state_def split: sum.splits option.splits)

text \<open>
  A change that succeeds leaves the storage in the state WithPrimary computes from the stored
  record, or from a new one.
\<close>

lemma SetPrimary_stores:
  assumes r: "ok r" and g: "ChatRef_Normalize (cp_Chat input) = \<lparr>chat_Type = ''group'', chat_ID = c\<rparr>"
    and f: "trim (cp_Frontend input) = f"
    and s: "SetPrimary (Some repo) r input = (r', Inr st)"
  shows "ok r' \<and> (\<exists>cur. current_state r f c = Some cur \<and>
    st = fst (WithPrimary cur (cp_Enabled input) (cp_Assignment input)) \<and> current_state r' f c = Some st)"
proof -
  have "chat_ID (ChatRef_Normalize (cp_Chat input)) = c" using g by simp
  then have c: "trim c = c" "trim f = f" using f by (auto simp: ChatRef_Normalize_def)
  obtain cur where cur: "current_state r f c = Some cur"
    using s g f by (auto simp: SetPrimary_def FrontendID_Normalize_def current_state_def Let_def
        split: sum.splits option.splits if_splits)
  let ?n = "WithPrimary cur (cp_Enabled input) (cp_Assignment input)"
  have s': "(if \<not> snd ?n then (r, Inr cur)
     else (case repo_Save repo r (fst ?n) of (r', Some e) \<Rightarrow> (r', Inl (RepositoryFailed e))
        | (r', None) \<Rightarrow> (r', Inr (fst ?n)))) = (r', Inr st)"
    using s g f cur
    by (auto simp: SetPrimary_def FrontendID_Normalize_def current_state_def Let_def case_prod_beta
        split: sum.splits option.splits if_splits)
  show ?thesis
  proof (cases "snd ?n")
    case False
    then have "fst ?n = cur" by (auto simp: WithPrimary_def split: option.splits if_splits)
    with False s' cur r show ?thesis by auto
  next
    case True
    have n: "normal_state (fst ?n)"
      using current_state_normal [OF r c(2,1) cur] WithPrimary_normal by blast
    from s' True have sv: "repo_Save repo r (fst ?n) = (r', None)" "st = fst ?n"
      by (auto split: prod.splits option.splits)
    obtain old where old: "repo_Get repo r f ''group'' c = Inr old"
      using cur by (auto simp: current_state_def split: sum.splits)
    have "key f ''group'' c = key (gps_FrontendID (fst ?n)) (gps_ChatType (fst ?n)) (gps_ChatID (fst ?n))"
      using current_state_normal [OF r c(2,1) cur] by (simp add: WithPrimary_scope)
    then have "repo_Get repo r' f ''group'' c = Inr (Some (fst ?n))"
      using get_save [OF r n sv(1) old] by simp
    then have "current_state r' f c = Some st"
      by (simp add: current_state_def sv(2))
    with cur sv(2) save_ok [OF r n sv(1)] show ?thesis by blast
  qed
qed

end

end
