(* ===== verification/Store_Data.thy ===== *)
theory Store_Data
  imports Submission Interaction Group_Primary
begin

text \<open>
  The records of the state store and their normal forms: \<open>internal/state/store.go\<close>
  (types, clone and normalize functions), \<open>types.go\<close>,
  \<open>group_announcement_block.go\<close>. A map is an association list without nil
  entries; a deep copy is the value, so a clone function is the normalisation it applies.
\<close>

section \<open>Records\<close>

record GroupPrimary =
  gp_ID :: string
  gp_FrontendID :: string
  gp_ChatID :: string
  gp_ChatType :: string
  gp_Enabled :: bool
  gp_LastAssignmentMessageID :: string
  gp_LastAssignmentCreatedAt :: int
  gp_CreatedAt :: int
  gp_UpdatedAt :: int

record GroupAnnouncementBlock =
  gb_ID :: string
  gb_FrontendID :: string
  gb_ChatID :: string
  gb_ChatType :: string
  gb_BotOpenID :: string
  gb_BlockID :: string
  gb_Marker :: string
  gb_LastContentHash :: string
  gb_LastUpdatedAt :: int
  gb_CreatedAt :: int
  gb_UpdatedAt :: int
  gb_BotAbsent :: bool

record FrontendCardNotification =
  fcn_Kind :: string
  fcn_CollapseKey :: string
  fcn_Title :: string
  fcn_Color :: string
  fcn_Body :: string
  fcn_CreatedAt :: int

record storedSession =
  sd_Key :: string
  sd_BindingID :: string
  sd_WorkspaceID :: string
  sd_ChatID :: string
  sd_ChatType :: string
  sd_RootMessageID :: string
  sd_ActiveThreadID :: string
  sd_ActiveThreadWorkspaceID :: string
  sd_ActiveThreadApprovalPolicy :: string
  sd_ActiveThreadSandboxMode :: string
  sd_ActiveThreadMultiAgentMode :: string
  sd_ActiveClaudePermissionMode :: string
  sd_ActiveThreadServiceTier :: string
  sd_ActiveThreadCollaborationMode :: "SessionCollaborationMode option"
  sd_ActiveThreadName :: string
  sd_ActiveThreadPreview :: string
  sd_BackendThreads :: "(string \<times> SessionBackendThread) list"
  sd_OwnerUserID :: string
  sd_ModelOverride :: string
  sd_PlanModelOverride :: string
  sd_PlanReasoningEffortOverride :: string
  sd_ReviewModelOverride :: string
  sd_SubagentModelOverride :: string
  sd_SubagentReasoningEffortOverride :: string
  sd_SmallModelOverride :: string
  sd_RecentWorkspaceIDs :: "string list"
  sd_UpdatedAt :: int

type_synonym 'v table = "(string \<times> 'v) list"

section \<open>Status values (types.go)\<close>

abbreviation AgentBindingStatusPending :: string where "AgentBindingStatusPending \<equiv> ''pending''"
abbreviation AgentBindingStatusActive :: string where "AgentBindingStatusActive \<equiv> ''active''"

definition NormalizeAgentBindingStatus :: "string \<Rightarrow> string" where
  "NormalizeAgentBindingStatus value =
     (let trimmed = trim value in
      if trimmed = '''' then AgentBindingStatusPending
      else if trimmed = AgentBindingStatusPending then AgentBindingStatusPending
      else if trimmed = AgentBindingStatusActive then AgentBindingStatusActive
      else trimmed)"

definition NormalizePendingRequestStatus :: "string \<Rightarrow> string" where
  "NormalizePendingRequestStatus value =
     (let trimmed = trim value in
      if trimmed = '''' then ''''
      else if trimmed = ''pending'' then ''pending''
      else if trimmed = ''replied'' then ''replied''
      else if trimmed = ''resolved'' then ''resolved''
      else if trimmed = ''expired'' then ''expired''
      else if trimmed = ''processing'' then ''processing''
      else if trimmed = ''cancelling'' then ''cancelling''
      else if trimmed = ''upgrading'' then ''upgrading''
      else if trimmed = ''launching'' then ''launching''
      else trimmed)"

section \<open>Bindings\<close>

definition normalizeStringSlice :: "string list \<Rightarrow> string list" where
  "normalizeStringSlice values = filter (\<lambda>v. v \<noteq> []) (map trim values)"

definition normalizeAgentBindingPendingMessage ::
  "AgentBindingPendingMessage option \<Rightarrow> AgentBindingPendingMessage option" where
  "normalizeAgentBindingPendingMessage message =
     (case message of
        None \<Rightarrow> None
      | Some msg \<Rightarrow>
          let cp = msg\<lparr>pm_SessionKey := trim (pm_SessionKey msg),
                pm_MessageID := trim (pm_MessageID msg),
                pm_ChatID := trim (pm_ChatID msg),
                pm_ChatType := to_lower (trim (pm_ChatType msg)),
                pm_UserID := trim (pm_UserID msg),
                pm_UserName := trim (pm_UserName msg),
                pm_ChatName := trim (pm_ChatName msg),
                pm_RootMessageID := trim (pm_RootMessageID msg),
                pm_ParentMessageID := trim (pm_ParentMessageID msg),
                pm_ThreadID := trim (pm_ThreadID msg),
                pm_MergeForwardMessageIDs := normalizeStringSlice (pm_MergeForwardMessageIDs msg),
                pm_MentionedOpenIDs := normalizeStringSlice (pm_MentionedOpenIDs msg),
                pm_Attachments :=
                  filter (\<lambda>a. \<not> (pa_Kind a = [] \<and> pa_ResourceKey a = [] \<and> pa_SourceMessageID a = []))
                    (map (\<lambda>a. a\<lparr>pa_Kind := trim (pa_Kind a),
                                pa_ResourceKey := trim (pa_ResourceKey a),
                                pa_SourceMessageID := trim (pa_SourceMessageID a)\<rparr>)
                      (pm_Attachments msg))\<rparr> in
          if pm_MessageID cp = [] \<and> trim (pm_Text cp) = [] \<and> pm_Attachments cp = []
             \<and> pm_MergeForwardMessageIDs cp = []
          then None else Some cp)"

definition trim_settings :: "AgentBinding \<Rightarrow> AgentBinding" where
  "trim_settings binding =
     fold (\<lambda>setting b. case BindingField setting of
             Some (get, put) \<Rightarrow> put (trim (get b)) b | None \<Rightarrow> b) OverrideSettings binding"

definition normalizeAgentBindingValues :: "AgentBinding \<Rightarrow> AgentBinding" where
  "normalizeAgentBindingValues binding0 =
     (let binding1 = binding0\<lparr>ab_ID := trim (ab_ID binding0),
            ab_FrontendID := trim (ab_FrontendID binding0),
            ab_ChatID := trim (ab_ChatID binding0),
            ab_ChatType := to_lower (trim (ab_ChatType binding0))\<rparr>;
          binding2 = trim_settings binding1;
          binding = binding2\<lparr>ab_ServiceTierOverride := NormalizeServiceTier (ab_ServiceTierOverride binding2)\<rparr>;
          single = normalizeAgentBindingPendingMessage (ab_PendingMessage binding);
          queue0 = filter (\<lambda>m. m \<noteq> None)
                     (map normalizeAgentBindingPendingMessage (ab_PendingMessages binding));
          queue = (if queue0 = [] \<and> single \<noteq> None then [single] else queue0) in
      binding\<lparr>ab_PendingMessages := queue,
              ab_PendingMessage := (case queue of m # ms \<Rightarrow> m | [] \<Rightarrow> None),
              ab_Status := NormalizeAgentBindingStatus (ab_Status binding),
              ab_UpdatedAt := (if ab_UpdatedAt binding = 0 \<and> ab_CreatedAt binding \<noteq> 0
                               then ab_CreatedAt binding else ab_UpdatedAt binding)\<rparr>)"

definition cloneAgentBinding :: "AgentBinding \<Rightarrow> AgentBinding" where
  "cloneAgentBinding binding =
     normalizeAgentBindingValues
       (binding\<lparr>ab_PendingMessages := filter (\<lambda>m. m \<noteq> None) (ab_PendingMessages binding)\<rparr>)"

definition cloneAgentBindingsMatching ::
  "AgentBinding table \<Rightarrow> (AgentBinding \<Rightarrow> bool) \<Rightarrow> AgentBinding list" where
  "cloneAgentBindingsMatching src match =
     sort_key ab_ID (map cloneAgentBinding (filter match (map snd src)))"

section \<open>Profiles\<close>

definition normalizeBotProfileValues :: "BotProfile \<Rightarrow> BotProfile" where
  "normalizeBotProfileValues profile =
     profile\<lparr>
            bp_ID := trim (bp_ID profile),
            bp_FrontendID := trim (bp_FrontendID profile),
            bp_WorkspaceID := trim (bp_WorkspaceID profile),
            bp_Model := trim (bp_Model profile),
            bp_ReasoningEffort := trim (bp_ReasoningEffort profile),
            bp_PlanModel := trim (bp_PlanModel profile),
            bp_PlanReasoningEffort := trim (bp_PlanReasoningEffort profile),
            bp_ReviewModel := trim (bp_ReviewModel profile),
            bp_SubagentModel := trim (bp_SubagentModel profile),
            bp_SubagentReasoningEffort := trim (bp_SubagentReasoningEffort profile),
            bp_ServiceTier := NormalizeServiceTier (bp_ServiceTier profile),
            bp_SandboxMode := trim (bp_SandboxMode profile),
            bp_ApprovalPolicy := trim (bp_ApprovalPolicy profile),
            bp_MultiAgentMode := trim (bp_MultiAgentMode profile),
            bp_ClaudeModel := trim (bp_ClaudeModel profile),
            bp_ClaudeSmallModel := trim (bp_ClaudeSmallModel profile),
            bp_ClaudeSubagentModel := trim (bp_ClaudeSubagentModel profile),
            bp_ClaudePermissionMode := trim (bp_ClaudePermissionMode profile),
            bp_UpdatedAt := (if bp_UpdatedAt profile = 0 \<and> bp_CreatedAt profile \<noteq> 0
                             then bp_CreatedAt profile else bp_UpdatedAt profile)\<rparr>"

definition cloneBotProfile :: "BotProfile \<Rightarrow> BotProfile" where
  "cloneBotProfile profile = normalizeBotProfileValues profile"

definition cloneBotProfiles :: "BotProfile table \<Rightarrow> BotProfile list" where
  "cloneBotProfiles src = sort_key bp_ID (map cloneBotProfile (map snd src))"

section \<open>Group primaries\<close>

definition normalizeGroupPrimaryValues :: "GroupPrimary \<Rightarrow> GroupPrimary" where
  "normalizeGroupPrimaryValues primary =
     primary\<lparr>gp_ID := trim (gp_ID primary),
             gp_ChatID := trim (gp_ChatID primary),
             gp_ChatType := to_lower (trim (gp_ChatType primary)),
             gp_FrontendID := trim (gp_FrontendID primary),
             gp_LastAssignmentMessageID := trim (gp_LastAssignmentMessageID primary),
             gp_UpdatedAt := (if gp_UpdatedAt primary = 0 \<and> gp_CreatedAt primary \<noteq> 0
                              then gp_CreatedAt primary else gp_UpdatedAt primary)\<rparr>"

definition cloneGroupPrimary :: "GroupPrimary \<Rightarrow> GroupPrimary" where
  "cloneGroupPrimary primary = normalizeGroupPrimaryValues primary"

definition cloneGroupPrimariesMatching ::
  "GroupPrimary table \<Rightarrow> (GroupPrimary \<Rightarrow> bool) \<Rightarrow> GroupPrimary list" where
  "cloneGroupPrimariesMatching src match =
     sort_key gp_ID (map cloneGroupPrimary (filter match (map snd src)))"

section \<open>Announcement blocks\<close>

definition normalizeGroupAnnouncementBlockValues :: "GroupAnnouncementBlock \<Rightarrow> GroupAnnouncementBlock" where
  "normalizeGroupAnnouncementBlockValues record =
     record\<lparr>gb_ID := trim (gb_ID record),
            gb_FrontendID := trim (gb_FrontendID record),
            gb_ChatID := trim (gb_ChatID record),
            gb_ChatType := to_lower (trim (gb_ChatType record)),
            gb_BotOpenID := trim (gb_BotOpenID record),
            gb_BlockID := trim (gb_BlockID record),
            gb_Marker := trim (gb_Marker record),
            gb_LastContentHash := trim (gb_LastContentHash record),
            gb_UpdatedAt := (if gb_UpdatedAt record = 0 \<and> gb_CreatedAt record \<noteq> 0
                             then gb_CreatedAt record else gb_UpdatedAt record)\<rparr>"

definition cloneGroupAnnouncementBlocksMatching ::
  "GroupAnnouncementBlock table \<Rightarrow> (GroupAnnouncementBlock \<Rightarrow> bool) \<Rightarrow> GroupAnnouncementBlock list" where
  "cloneGroupAnnouncementBlocksMatching src match =
     sort_key gb_ID (map normalizeGroupAnnouncementBlockValues (filter match (map snd src)))"

section \<open>Notifications\<close>

definition normalizeFrontendCardNotification ::
  "FrontendCardNotification \<Rightarrow> FrontendCardNotification option" where
  "normalizeFrontendCardNotification note0 =
     (let note = note0\<lparr>fcn_Kind := trim (fcn_Kind note0),
            fcn_CollapseKey := trim (fcn_CollapseKey note0),
            fcn_Title := trim (fcn_Title note0),
            fcn_Color := trim (fcn_Color note0),
            fcn_Body := trim (fcn_Body note0)\<rparr> in
      if fcn_Title note = [] \<or> fcn_Body note = [] then None else Some note)"

fun join_bar :: "string list \<Rightarrow> string" where
  "join_bar [] = []"
| "join_bar [s] = s"
| "join_bar (s # t # ts) = s @ ''|'' @ join_bar (t # ts)"

definition frontendCardNotificationKey :: "FrontendCardNotification \<Rightarrow> string" where
  "frontendCardNotificationKey note0 =
     (case normalizeFrontendCardNotification note0 of
        None \<Rightarrow> []
      | Some note \<Rightarrow>
          if fcn_CollapseKey note \<noteq> [] then join_bar [''collapse'', fcn_CollapseKey note]
          else join_bar [fcn_Kind note, fcn_Title note, fcn_Color note, fcn_Body note])"

definition cloneFrontendCardNotifications ::
  "FrontendCardNotification list \<Rightarrow> FrontendCardNotification list" where
  "cloneFrontendCardNotifications src = List.map_filter normalizeFrontendCardNotification src"

section \<open>Sessions\<close>

definition normalizeSessionCollaborationMode ::
  "SessionCollaborationMode option \<Rightarrow> SessionCollaborationMode option" where
  "normalizeSessionCollaborationMode mode =
     (case mode of
        None \<Rightarrow> None
      | Some m \<Rightarrow>
          let cp = m\<lparr>cm_Mode := trim (cm_Mode m), cm_Model := trim (cm_Model m),
                     cm_ReasoningEffort := trim (cm_ReasoningEffort m),
                     cm_DeveloperInstructions := map_option trim (cm_DeveloperInstructions m)\<rparr> in
          if cm_Mode cp = [] \<or> cm_Model cp = [] then None else Some cp)"

definition normalizeSessionBackendThread :: "SessionBackendThread \<Rightarrow> SessionBackendThread" where
  "normalizeSessionBackendThread thread =
     \<lparr>bt_ThreadID = trim (bt_ThreadID thread),
      bt_WorkspaceID = trim (bt_WorkspaceID thread),
      bt_ApprovalPolicy = trim (bt_ApprovalPolicy thread),
      bt_SandboxMode = trim (bt_SandboxMode thread),
      bt_MultiAgentMode = trim (bt_MultiAgentMode thread),
      bt_ClaudePermissionMode = trim (bt_ClaudePermissionMode thread),
      bt_ServiceTier = NormalizeServiceTier (bt_ServiceTier thread),
      bt_CollaborationMode = normalizeSessionCollaborationMode (bt_CollaborationMode thread),
      bt_Name = trim (bt_Name thread),
      bt_Preview = trim (bt_Preview thread)\<rparr>"

definition normalizeSessionBackendThreads :: "SessionBackendThread table \<Rightarrow> SessionBackendThread table" where
  "normalizeSessionBackendThreads src =
     fold (\<lambda>(key0, value) dst.
             let key = to_lower (trim key0); normalized = normalizeSessionBackendThread value in
             if key = [] then dst
             else if normalized = zero_SessionBackendThread then dst
             else AList.update key normalized dst) src []"

text \<open>The result is (chatType, chatID, rootMessageID).\<close>

definition sessionContextFromKey :: "string \<Rightarrow> (string \<times> string \<times> string) option" where
  "sessionContextFromKey key0 =
     (let parts = split_on CHR '':'' (trim key0);
          bare = (\<lambda>i. if trim (parts ! i) \<noteq> [] then Some ([], trim (parts ! i), []) else None) in
      if length parts < 2 \<or> parts ! 0 \<noteq> ''feishu'' then None
      else if length parts = 2 then bare 1
      else if parts ! 1 = ''chat'' then (if length parts > 2 then bare 2 else None)
      else if length parts \<ge> 3 \<and> parts ! 1 \<noteq> ''frontend'' \<and> parts ! 1 \<noteq> ''group''
              \<and> parts ! 1 \<noteq> ''p2p'' then bare 2
      else
        let offset = (if length parts > 3 \<and> parts ! 1 = ''frontend'' then 3 else 1) in
        if offset \<ge> length parts then None
        else if parts ! offset = ''chat'' then
          (if length parts \<le> offset + 1 \<or> trim (parts ! (offset + 1)) = [] then None
           else Some ([], trim (parts ! (offset + 1)), []))
        else if parts ! offset = ''group'' then
          (if length parts \<le> offset + 1 \<or> trim (parts ! (offset + 1)) = [] then None
           else if length parts > offset + 3 \<and> parts ! (offset + 2) = ''root'' then
             Some (''group'', trim (parts ! (offset + 1)), trim (parts ! (offset + 3)))
           else Some (''group'', trim (parts ! (offset + 1)), []))
        else if parts ! offset = ''p2p'' then
          (if length parts \<le> offset + 2 \<or> trim (parts ! (offset + 1)) = [] then None
           else Some (''p2p'', trim (parts ! (offset + 1)), []))
        else None)"

definition fill_context :: "Session \<Rightarrow> Session" where
  "fill_context sess =
     (case sessionContextFromKey (ss_Key sess) of
        None \<Rightarrow> sess
      | Some (chatType, chatID, rootMessageID) \<Rightarrow>
          sess\<lparr>ss_ChatType := (if trim (ss_ChatType sess) = [] then chatType else ss_ChatType sess),
               ss_ChatID := (if trim (ss_ChatID sess) = [] then chatID else ss_ChatID sess),
               ss_RootMessageID :=
                 (if trim (ss_RootMessageID sess) = [] then rootMessageID else ss_RootMessageID sess)\<rparr>)"

definition normalizeSessionValues :: "Session \<Rightarrow> Session" where
  "normalizeSessionValues sess0 =
     (let sess1 = sess0\<lparr>ss_ActiveThreadServiceTier := NormalizeServiceTier (ss_ActiveThreadServiceTier sess0)\<rparr>;
          sess = fill_context sess1 in
      sess\<lparr>ss_Status := NormalizeSessionStatus (ss_Status sess),
           ss_BackendThreads := normalizeSessionBackendThreads (ss_BackendThreads sess),
           ss_ActiveThreadCollaborationMode :=
             normalizeSessionCollaborationMode (ss_ActiveThreadCollaborationMode sess)\<rparr>)"

text \<open>
  The store's copy of a session: normalised, except that the collaboration mode and the keys of
  the backend threads are those of the original.
\<close>

definition cloneSession :: "Session \<Rightarrow> Session" where
  "cloneSession sess =
     (normalizeSessionValues sess)
       \<lparr>ss_ActiveThreadCollaborationMode := ss_ActiveThreadCollaborationMode sess,
        ss_BackendThreads := map (map_prod id normalizeSessionBackendThread) (ss_BackendThreads sess)\<rparr>"

definition storedSessionFromSession :: "Session \<Rightarrow> storedSession" where
  "storedSessionFromSession sess =
     (let cp = normalizeSessionValues (cloneSession sess) in
      \<lparr>       sd_Key = ss_Key cp,
       sd_BindingID = ss_BindingID cp,
       sd_WorkspaceID = ss_WorkspaceID cp,
       sd_ChatID = ss_ChatID cp,
       sd_ChatType = ss_ChatType cp,
       sd_RootMessageID = ss_RootMessageID cp,
       sd_ActiveThreadID = ss_ActiveThreadID cp,
       sd_ActiveThreadWorkspaceID = ss_ActiveThreadWorkspaceID cp,
       sd_ActiveThreadApprovalPolicy = ss_ActiveThreadApprovalPolicy cp,
       sd_ActiveThreadSandboxMode = ss_ActiveThreadSandboxMode cp,
       sd_ActiveThreadMultiAgentMode = ss_ActiveThreadMultiAgentMode cp,
       sd_ActiveClaudePermissionMode = ss_ActiveClaudePermissionMode cp,
       sd_ActiveThreadServiceTier = ss_ActiveThreadServiceTier cp,
       sd_ActiveThreadCollaborationMode = ss_ActiveThreadCollaborationMode cp,
       sd_ActiveThreadName = ss_ActiveThreadName cp,
       sd_ActiveThreadPreview = ss_ActiveThreadPreview cp,
       sd_BackendThreads = map (map_prod id normalizeSessionBackendThread) (ss_BackendThreads cp),
       sd_OwnerUserID = ss_OwnerUserID cp,
       sd_ModelOverride = ss_ModelOverride cp,
       sd_PlanModelOverride = ss_PlanModelOverride cp,
       sd_PlanReasoningEffortOverride = ss_PlanReasoningEffortOverride cp,
       sd_ReviewModelOverride = ss_ReviewModelOverride cp,
       sd_SubagentModelOverride = ss_SubagentModelOverride cp,
       sd_SubagentReasoningEffortOverride = ss_SubagentReasoningEffortOverride cp,
       sd_SmallModelOverride = ss_SmallModelOverride cp,
       sd_RecentWorkspaceIDs = ss_RecentWorkspaceIDs cp,
       sd_UpdatedAt = ss_UpdatedAt cp\<rparr>)"

definition sessionFromStored :: "storedSession \<Rightarrow> Session" where
  "sessionFromStored sess =
     normalizeSessionValues (fill_context
       (zero_Session\<lparr>
             ss_Key := sd_Key sess,
             ss_BindingID := trim (sd_BindingID sess),
             ss_WorkspaceID := sd_WorkspaceID sess,
             ss_ChatID := trim (sd_ChatID sess),
             ss_ChatType := to_lower (trim (sd_ChatType sess)),
             ss_RootMessageID := trim (sd_RootMessageID sess),
             ss_ActiveThreadID := sd_ActiveThreadID sess,
             ss_ActiveThreadWorkspaceID := sd_ActiveThreadWorkspaceID sess,
             ss_ActiveThreadApprovalPolicy := sd_ActiveThreadApprovalPolicy sess,
             ss_ActiveThreadSandboxMode := sd_ActiveThreadSandboxMode sess,
             ss_ActiveThreadMultiAgentMode := sd_ActiveThreadMultiAgentMode sess,
             ss_ActiveClaudePermissionMode := sd_ActiveClaudePermissionMode sess,
             ss_ActiveThreadServiceTier := sd_ActiveThreadServiceTier sess,
             ss_ActiveThreadCollaborationMode := sd_ActiveThreadCollaborationMode sess,
             ss_ActiveThreadName := sd_ActiveThreadName sess,
             ss_ActiveThreadPreview := sd_ActiveThreadPreview sess,
             ss_BackendThreads := map (map_prod id normalizeSessionBackendThread) (sd_BackendThreads sess),
             ss_OwnerUserID := sd_OwnerUserID sess,
             ss_ModelOverride := sd_ModelOverride sess,
             ss_PlanModelOverride := sd_PlanModelOverride sess,
             ss_PlanReasoningEffortOverride := sd_PlanReasoningEffortOverride sess,
             ss_ReviewModelOverride := sd_ReviewModelOverride sess,
             ss_SubagentModelOverride := sd_SubagentModelOverride sess,
             ss_SubagentReasoningEffortOverride := sd_SubagentReasoningEffortOverride sess,
             ss_SmallModelOverride := sd_SmallModelOverride sess,
             ss_RecentWorkspaceIDs := sd_RecentWorkspaceIDs sess,
             ss_Status := SessionStatusIdle,
             ss_UpdatedAt := sd_UpdatedAt sess\<rparr>))"

definition normalizeStoredSession :: "storedSession \<Rightarrow> storedSession" where
  "normalizeStoredSession sess =
     sess\<lparr>sd_BindingID := trim (sd_BindingID sess),
          sd_ChatID := trim (sd_ChatID sess),
          sd_ChatType := to_lower (trim (sd_ChatType sess)),
          sd_RootMessageID := trim (sd_RootMessageID sess),
          sd_ActiveClaudePermissionMode := trim (sd_ActiveClaudePermissionMode sess),
          sd_ModelOverride := trim (sd_ModelOverride sess),
          sd_PlanModelOverride := trim (sd_PlanModelOverride sess),
          sd_PlanReasoningEffortOverride := trim (sd_PlanReasoningEffortOverride sess),
          sd_ReviewModelOverride := trim (sd_ReviewModelOverride sess),
          sd_SubagentModelOverride := trim (sd_SubagentModelOverride sess),
          sd_SubagentReasoningEffortOverride := trim (sd_SubagentReasoningEffortOverride sess),
          sd_SmallModelOverride := trim (sd_SmallModelOverride sess),
          sd_ActiveThreadServiceTier := NormalizeServiceTier (sd_ActiveThreadServiceTier sess),
          sd_ActiveThreadCollaborationMode :=
            normalizeSessionCollaborationMode (sd_ActiveThreadCollaborationMode sess),
          sd_BackendThreads := normalizeSessionBackendThreads (sd_BackendThreads sess)\<rparr>"

section \<open>Submissions and requests\<close>

definition normalizeSubmissionValues :: "Submission \<Rightarrow> Submission" where
  "normalizeSubmissionValues sub = sub\<lparr>sub_Status := NormalizeSubmissionStatus (sub_Status sub)\<rparr>"

definition normalizePendingRequestValues :: "PendingRequest \<Rightarrow> PendingRequest" where
  "normalizePendingRequestValues req = req\<lparr>pr_Status := NormalizePendingRequestStatus (pr_Status req)\<rparr>"

section \<open>Storage keys\<close>

definition sanitizeIDPart :: "string \<Rightarrow> string" where
  "sanitizeIDPart value0 =
     (let value = trim value0 in
      if value = [] then ''default''
      else
        let b = replace_unsafe (\<lambda>c. ascii_alnum c \<or> c = CHR ''-'' \<or> c = CHR ''_'' \<or> c = CHR ''.'')
                  CHR ''_'' value in
        if length b = 0 then ''default'' else b)"

text \<open>Sanitised text is made of safe characters, so it is its own trim.\<close>

definition safe_id :: "string \<Rightarrow> bool" where
  "safe_id s \<longleftrightarrow> (\<forall>c\<in>set s. ascii_alnum c \<or> c = CHR ''-'' \<or> c = CHR ''_'' \<or> c = CHR ''.'')"

lemma safe_id_simps [simp]:
  "safe_id []"
  "safe_id (c # s) \<longleftrightarrow> (ascii_alnum c \<or> c = CHR ''-'' \<or> c = CHR ''_'' \<or> c = CHR ''.'') \<and> safe_id s"
  "safe_id (s @ t) \<longleftrightarrow> safe_id s \<and> safe_id t"
  by (auto simp: safe_id_def)

lemma trim_safe_id: "safe_id s \<Longrightarrow> trim s = s"
proof (cases "s = []")
  case False
  have out: "c \<notin> space_heads" "c \<notin> space_lasts"
    if "ascii_alnum c \<or> c = CHR ''-'' \<or> c = CHR ''_'' \<or> c = CHR ''.''" for c
    using that by (auto simp: space_heads_def space_lasts_def white_space_def ascii_alnum_def char_le_nat)
  assume "safe_id s"
  with False out show ?thesis unfolding safe_id_def by (intro trim_id) auto
qed simp

lemma sanitizeIDPart_safe [simp]: "safe_id (sanitizeIDPart v)"
proof -
  have "safe_id (replace_unsafe (\<lambda>c. ascii_alnum c \<or> c = CHR ''-'' \<or> c = CHR ''_'' \<or> c = CHR ''.'')
     CHR ''_'' w)" for w
    using replace_unsafe_alphabet unfolding safe_id_def by blast
  then show ?thesis by (simp add: sanitizeIDPart_def Let_def ascii_alnum_def char_le_nat)
qed

lemma sanitizeIDPart_nonempty [simp]: "sanitizeIDPart v \<noteq> []"
  by (simp add: sanitizeIDPart_def Let_def)

definition GroupPrimaryID :: "string \<Rightarrow> string \<Rightarrow> string \<Rightarrow> string" where
  "GroupPrimaryID frontendID chatType chatID =
     ''primary_'' @ sanitizeIDPart frontendID @ ''_'' @ sanitizeIDPart chatType @ ''_'' @
     sanitizeIDPart chatID"

definition pendingStoreKey :: "string \<Rightarrow> string \<Rightarrow> string" where
  "pendingStoreKey frontendID0 id0 =
     (let i = trim id0; frontendID = trim frontendID0 in
      if i = [] then []
      else if frontendID = [] then i
      else ''frontend:'' @ frontendID @ '':pending:'' @ i)"

definition messageLinkStoreKey :: "string \<Rightarrow> string \<Rightarrow> string" where
  "messageLinkStoreKey frontendID0 messageID0 =
     (let messageID = trim messageID0; frontendID = trim frontendID0 in
      if messageID = [] then []
      else if frontendID = [] then messageID
      else ''frontend:'' @ frontendID @ '':message:'' @ messageID)"

lemma GroupPrimaryID_clean [simp]:
  "GroupPrimaryID f t c \<noteq> []" "trim (GroupPrimaryID f t c) = GroupPrimaryID f t c"
  by (simp add: GroupPrimaryID_def)
     (rule trim_safe_id, simp add: GroupPrimaryID_def ascii_alnum_def char_le_nat)

end
