(* ===== verification/Store.thy ===== *)
theory Store
  imports Store_Data
begin

text \<open>
  The state store: \<open>internal/state/store.go\<close>, \<open>group_announcement_block.go\<close>.
  Every operation runs under one lock, so it is one function on the store. The clock is the
  parameter \<open>now\<close>; what the file system answers to a save is the parameter
  \<open>io\<close> (None when the snapshot was written). \<open>st_disk\<close> is the snapshot last
  written. Where the code ranges over a map, its order is the order of the association list.
\<close>

section \<open>State\<close>

record StateSnapshot =
  db_Version :: int
  db_Sessions :: "storedSession table"
  db_AgentBindings :: "AgentBinding table"
  db_BotProfiles :: "BotProfile table"
  db_GroupPrimaries :: "GroupPrimary table"
  db_GroupAnnouncementBlocks :: "GroupAnnouncementBlock table"
  db_FrontendCardNotifications :: "FrontendCardNotification list table"

record Counters =
  ctr_NextSubmission :: nat
  ctr_NextLocalID :: nat

record runtimeState =
  rt_Sessions :: "Session table"
  rt_Submissions :: "Submission table"
  rt_PendingRequests :: "PendingRequest table"
  rt_MessageLinks :: "MessageLink table"
  rt_Counters :: Counters

record Store =
  st_data :: StateSnapshot
  st_runtime :: runtimeState
  st_disk :: "StateSnapshot option"

definition currentSnapshotVersion :: int where
  "currentSnapshotVersion = 12"

datatype store_error =
  ErrNotExist
  | SaveFailed string
  | BindingExists string string
  | PrimaryExists string string
  | AnnouncementExists string string
  | FrontendMismatch string string
  | FrontendRequired
  | TransitionIncomplete
  | IdentityChanged
  | OwnerChanged
  | InteractionChanged
  | InteractionAdded
  | ForeignInteraction
  | BackendSessionsChanged
  | WorkspaceStateChanged
  | ConfigFailed string
  | RollbackFailed string string
  | ForeignSession
  | RepositoryMissing

definition saveLocked :: "string option \<Rightarrow> Store \<Rightarrow> Store \<times> store_error option" where
  "saveLocked io s0 =
     (let s = s0\<lparr>st_data := (st_data s0)\<lparr>db_Version := currentSnapshotVersion\<rparr>\<rparr> in
      case io of
        None \<Rightarrow> (s\<lparr>st_disk := Some (st_data s)\<rparr>, None)
      | Some e \<Rightarrow> (s, Some (SaveFailed e)))"

text \<open>The empty snapshot and runtime that Open starts from.\<close>

definition empty_StateSnapshot :: StateSnapshot where
  "empty_StateSnapshot =
     \<lparr>db_Version = currentSnapshotVersion, db_Sessions = [], db_AgentBindings = [],
      db_BotProfiles = [], db_GroupPrimaries = [], db_GroupAnnouncementBlocks = [],
      db_FrontendCardNotifications = []\<rparr>"

definition empty_runtimeState :: runtimeState where
  "empty_runtimeState =
     \<lparr>rt_Sessions = [], rt_Submissions = [], rt_PendingRequests = [], rt_MessageLinks = [],
      rt_Counters = \<lparr>ctr_NextSubmission = 1, ctr_NextLocalID = 1\<rparr>\<rparr>"

definition empty_Store :: Store where
  "empty_Store = \<lparr>st_data = empty_StateSnapshot, st_runtime = empty_runtimeState, st_disk = None\<rparr>"

section \<open>Opening a snapshot\<close>

text \<open>Each table is rebuilt under the ids its normalised records carry.\<close>

definition normalize_table :: "('v \<Rightarrow> 'v) \<Rightarrow> ('v \<Rightarrow> string) \<Rightarrow> (string \<Rightarrow> 'v \<Rightarrow> 'v)
    \<Rightarrow> ('v \<Rightarrow> bool) \<Rightarrow> 'v table \<Rightarrow> 'v table" where
  "normalize_table clone ident set_ident keep src =
     fold (\<lambda>(key, value) dst.
             let cp0 = clone value;
                 cp = (if ident cp0 = [] then set_ident (trim key) cp0 else cp0) in
             if ident cp = [] \<or> \<not> keep cp then dst else AList.update (ident cp) cp dst) src []"

definition normalizeAgentBindings :: "AgentBinding table \<Rightarrow> AgentBinding table" where
  "normalizeAgentBindings = normalize_table cloneAgentBinding ab_ID (\<lambda>i b. b\<lparr>ab_ID := i\<rparr>) (\<lambda>_. True)"

definition normalizeBotProfiles :: "BotProfile table \<Rightarrow> BotProfile table" where
  "normalizeBotProfiles =
     normalize_table cloneBotProfile bp_ID (\<lambda>i p. p\<lparr>bp_ID := i\<rparr>) (\<lambda>p. bp_FrontendID p \<noteq> [])"

definition normalizeGroupPrimaries :: "GroupPrimary table \<Rightarrow> GroupPrimary table" where
  "normalizeGroupPrimaries = normalize_table cloneGroupPrimary gp_ID (\<lambda>i p. p\<lparr>gp_ID := i\<rparr>) (\<lambda>_. True)"

definition normalizeGroupAnnouncementBlocks ::
  "GroupAnnouncementBlock table \<Rightarrow> GroupAnnouncementBlock table" where
  "normalizeGroupAnnouncementBlocks =
     normalize_table normalizeGroupAnnouncementBlockValues gb_ID (\<lambda>i b. b\<lparr>gb_ID := i\<rparr>) (\<lambda>_. True)"

text \<open>
  Opening the file: \<open>loaded\<close> is None when there is no file or it is empty, and otherwise
  the decoded snapshot. The tables are normalised and written back when that changed something.
  A table without entries is left out of the file, so it is loaded as nil and
  compares unequal to the empty map that replaces it.
\<close>

definition open_data :: "StateSnapshot \<Rightarrow> StateSnapshot" where
  "open_data loaded =
     loaded\<lparr>db_Version := currentSnapshotVersion,
            db_AgentBindings := normalizeAgentBindings (db_AgentBindings loaded),
            db_BotProfiles := normalizeBotProfiles (db_BotProfiles loaded),
            db_GroupPrimaries := normalizeGroupPrimaries (db_GroupPrimaries loaded),
            db_GroupAnnouncementBlocks :=
              normalizeGroupAnnouncementBlocks (db_GroupAnnouncementBlocks loaded),
            db_Sessions := map (map_prod id normalizeStoredSession) (db_Sessions loaded)\<rparr>"

definition Open :: "string option \<Rightarrow> StateSnapshot option \<Rightarrow> Store \<times> store_error option" where
  "Open io snapshot =
     (case snapshot of
        None \<Rightarrow> saveLocked io empty_Store
      | Some loaded \<Rightarrow>
          let data = open_data loaded;
              s = \<lparr>st_data = data,
                   st_runtime = empty_runtimeState
                     \<lparr>rt_Sessions := map (map_prod id sessionFromStored) (db_Sessions data)\<rparr>,
                   st_disk = Some loaded\<rparr> in
          if data \<noteq> loaded \<or> db_AgentBindings loaded = [] \<or> db_BotProfiles loaded = []
             \<or> db_GroupPrimaries loaded = [] \<or> db_GroupAnnouncementBlocks loaded = []
          then saveLocked io s else (s, None))"

section \<open>Time stamps of a record\<close>

text \<open>A record keeps the creation time it brings or had, and is updated now.\<close>

definition stamp_binding :: "int \<Rightarrow> AgentBinding option \<Rightarrow> AgentBinding \<Rightarrow> AgentBinding" where
  "stamp_binding now previous cp0 =
     (let cp1 = (case previous of
                   Some p \<Rightarrow> if ab_CreatedAt cp0 = 0 then cp0\<lparr>ab_CreatedAt := ab_CreatedAt p\<rparr> else cp0
                 | None \<Rightarrow> cp0);
          cp2 = (if ab_CreatedAt cp1 = 0 then cp1\<lparr>ab_CreatedAt := now\<rparr> else cp1) in
      cp2\<lparr>ab_UpdatedAt := now\<rparr>)"

definition stamp_profile :: "int \<Rightarrow> BotProfile option \<Rightarrow> BotProfile \<Rightarrow> BotProfile" where
  "stamp_profile now previous cp0 =
     (let cp1 = (case previous of
                   Some p \<Rightarrow> if bp_CreatedAt cp0 = 0 then cp0\<lparr>bp_CreatedAt := bp_CreatedAt p\<rparr> else cp0
                 | None \<Rightarrow> cp0);
          cp2 = (if bp_CreatedAt cp1 = 0 then cp1\<lparr>bp_CreatedAt := now\<rparr> else cp1) in
      cp2\<lparr>bp_UpdatedAt := now\<rparr>)"

definition stamp_primary :: "int \<Rightarrow> GroupPrimary option \<Rightarrow> GroupPrimary \<Rightarrow> GroupPrimary" where
  "stamp_primary now previous cp0 =
     (let cp1 = (case previous of
                   Some p \<Rightarrow> if gp_CreatedAt cp0 = 0 then cp0\<lparr>gp_CreatedAt := gp_CreatedAt p\<rparr> else cp0
                 | None \<Rightarrow> cp0);
          cp2 = (if gp_CreatedAt cp1 = 0 then cp1\<lparr>gp_CreatedAt := now\<rparr> else cp1) in
      cp2\<lparr>gp_UpdatedAt := now\<rparr>)"

definition stamp_block :: "int \<Rightarrow> GroupAnnouncementBlock option \<Rightarrow> GroupAnnouncementBlock \<Rightarrow> GroupAnnouncementBlock" where
  "stamp_block now previous cp0 =
     (let cp1 = (case previous of
                   Some p \<Rightarrow> if gb_CreatedAt cp0 = 0 then cp0\<lparr>gb_CreatedAt := gb_CreatedAt p\<rparr> else cp0
                 | None \<Rightarrow> cp0);
          cp2 = (if gb_CreatedAt cp1 = 0 then cp1\<lparr>gb_CreatedAt := now\<rparr> else cp1) in
      cp2\<lparr>gb_UpdatedAt := now\<rparr>)"

lemma stamp_binding_fields [simp]:
  "ab_ID (stamp_binding now prev cp) = ab_ID cp"
  "ab_FrontendID (stamp_binding now prev cp) = ab_FrontendID cp"
  "ab_ChatType (stamp_binding now prev cp) = ab_ChatType cp"
  "ab_ChatID (stamp_binding now prev cp) = ab_ChatID cp"
  by (simp_all add: stamp_binding_def Let_def split: option.splits)

lemma stamp_profile_fields [simp]:
  "bp_ID (stamp_profile now prev cp) = bp_ID cp"
  "bp_FrontendID (stamp_profile now prev cp) = bp_FrontendID cp"
  by (simp_all add: stamp_profile_def Let_def split: option.splits)

lemma stamp_primary_fields [simp]:
  "gp_ID (stamp_primary now prev cp) = gp_ID cp"
  "gp_FrontendID (stamp_primary now prev cp) = gp_FrontendID cp"
  "gp_ChatType (stamp_primary now prev cp) = gp_ChatType cp"
  "gp_ChatID (stamp_primary now prev cp) = gp_ChatID cp"
  by (simp_all add: stamp_primary_def Let_def split: option.splits)

lemma stamp_block_fields [simp]:
  "gb_ID (stamp_block now prev cp) = gb_ID cp"
  "gb_FrontendID (stamp_block now prev cp) = gb_FrontendID cp"
  "gb_ChatType (stamp_block now prev cp) = gb_ChatType cp"
  "gb_ChatID (stamp_block now prev cp) = gb_ChatID cp"
  by (simp_all add: stamp_block_def Let_def split: option.splits)

section \<open>Bindings\<close>

definition GetScopedAgentBinding :: "Store \<Rightarrow> string \<Rightarrow> string \<Rightarrow> AgentBinding option" where
  "GetScopedAgentBinding s frontendID0 id0 =
     (let frontendID = trim frontendID0; i = trim id0 in
      if i = [] then None
      else
        (case map_of (db_AgentBindings (st_data s)) i of
           None \<Rightarrow> None
         | Some binding \<Rightarrow>
             if frontendID \<noteq> [] \<and> ab_FrontendID binding \<noteq> frontendID then None
             else Some (cloneAgentBinding binding)))"

definition AllAgentBindings :: "Store \<Rightarrow> AgentBinding list" where
  "AllAgentBindings s = cloneAgentBindingsMatching (db_AgentBindings (st_data s)) (\<lambda>_. True)"

definition AgentBindingsByFrontend :: "Store \<Rightarrow> string \<Rightarrow> AgentBinding list" where
  "AgentBindingsByFrontend s frontendID =
     cloneAgentBindingsMatching (db_AgentBindings (st_data s)) (\<lambda>b. ab_FrontendID b = trim frontendID)"

definition AgentBindingsByChat :: "Store \<Rightarrow> string \<Rightarrow> string \<Rightarrow> string \<Rightarrow> AgentBinding list" where
  "AgentBindingsByChat s frontendID0 chatType0 chatID0 =
     (let frontendID = trim frontendID0; chatType = to_lower (trim chatType0); chatID = trim chatID0 in
      if chatID = [] then []
      else cloneAgentBindingsMatching (db_AgentBindings (st_data s))
        (\<lambda>b. if ab_FrontendID b \<noteq> frontendID \<or> ab_ChatID b \<noteq> chatID then False
             else chatType = [] \<or> ab_ChatType b = chatType))"

definition same_binding_chat :: "AgentBinding \<Rightarrow> AgentBinding \<Rightarrow> bool" where
  "same_binding_chat a b \<longleftrightarrow>
     ab_FrontendID a = ab_FrontendID b \<and> ab_ChatType a = ab_ChatType b \<and> ab_ChatID a = ab_ChatID b"

definition UpsertAgentBinding ::
  "int \<Rightarrow> string option \<Rightarrow> Store \<Rightarrow> AgentBinding option \<Rightarrow> Store \<times> store_error option" where
  "UpsertAgentBinding now io s binding0 =
     (case binding0 of
        None \<Rightarrow> (s, None)
      | Some binding \<Rightarrow>
          let cp0 = cloneAgentBinding binding in
          if ab_ID cp0 = [] then (s, None)
          else
            let bindings = db_AgentBindings (st_data s);
                cp1 = normalizeAgentBindingValues cp0;
                cp = stamp_binding now (map_of bindings (ab_ID cp1)) cp1 in
            if \<exists>(i, previous)\<in>set bindings. i \<noteq> ab_ID cp \<and> same_binding_chat previous cp
            then (s, Some (BindingExists (ab_FrontendID cp) (ab_ChatID cp)))
            else
              saveLocked io (st_data_update (db_AgentBindings_update (AList.update (ab_ID cp) cp)) s))"

definition UpsertScopedAgentBinding ::
  "int \<Rightarrow> string option \<Rightarrow> Store \<Rightarrow> string \<Rightarrow> AgentBinding option \<Rightarrow> Store \<times> store_error option" where
  "UpsertScopedAgentBinding now io s frontendID0 binding0 =
     (case binding0 of
        None \<Rightarrow> (s, None)
      | Some binding \<Rightarrow>
          let frontendID = trim frontendID0;
              cp0 = cloneAgentBinding binding;
              cp = (if trim (ab_FrontendID cp0) = [] then cp0\<lparr>ab_FrontendID := frontendID\<rparr> else cp0) in
          if frontendID \<noteq> [] \<and> trim (ab_FrontendID cp) \<noteq> frontendID
          then (s, Some (FrontendMismatch (ab_FrontendID cp) frontendID))
          else UpsertAgentBinding now io s (Some cp))"

definition DeleteScopedAgentBinding ::
  "string option \<Rightarrow> Store \<Rightarrow> string \<Rightarrow> string \<Rightarrow> Store \<times> store_error option" where
  "DeleteScopedAgentBinding io s frontendID0 id0 =
     (let frontendID = trim frontendID0; i = trim id0 in
      if i = [] then (s, None)
      else
        (case map_of (db_AgentBindings (st_data s)) i of
           None \<Rightarrow> (s, None)
         | Some binding \<Rightarrow>
             if frontendID \<noteq> [] \<and> ab_FrontendID binding \<noteq> frontendID then (s, None)
             else saveLocked io (st_data_update (db_AgentBindings_update (AList.delete i)) s)))"

section \<open>Profiles\<close>

definition GetBotProfile :: "Store \<Rightarrow> string \<Rightarrow> BotProfile option" where
  "GetBotProfile s frontendID0 =
     (let frontendID = trim frontendID0 in
      if frontendID = [] then None
      else map_option cloneBotProfile
        (find (\<lambda>p. bp_FrontendID p = frontendID) (map snd (db_BotProfiles (st_data s)))))"

definition AllBotProfiles :: "Store \<Rightarrow> BotProfile list" where
  "AllBotProfiles s = cloneBotProfiles (db_BotProfiles (st_data s))"

definition sanitizeStateIDPart :: "string \<Rightarrow> string" where
  "sanitizeStateIDPart value = sanitizeIDPart value"

definition UpsertBotProfile ::
  "int \<Rightarrow> string option \<Rightarrow> Store \<Rightarrow> BotProfile option \<Rightarrow> Store \<times> store_error option" where
  "UpsertBotProfile now io s profile0 =
     (case profile0 of
        None \<Rightarrow> (s, None)
      | Some profile \<Rightarrow>
          let cp0 = normalizeBotProfileValues (cloneBotProfile profile) in
          if bp_FrontendID cp0 = [] then (s, Some FrontendRequired)
          else
            let cp1 = (if bp_ID cp0 = []
                       then cp0\<lparr>bp_ID := ''bot-profile-'' @ sanitizeStateIDPart (bp_FrontendID cp0)\<rparr>
                       else cp0);
                profiles = db_BotProfiles (st_data s);
                cp = stamp_profile now (map_of profiles (bp_ID cp1)) cp1;
                kept = filter (\<lambda>(i, previous).
                         \<not> (i \<noteq> bp_ID cp \<and> bp_FrontendID previous = bp_FrontendID cp)) profiles in
            saveLocked io (st_data_update (db_BotProfiles_update (\<lambda>_. AList.update (bp_ID cp) cp kept)) s))"

definition DeleteBotProfile :: "string option \<Rightarrow> Store \<Rightarrow> string \<Rightarrow> Store \<times> store_error option" where
  "DeleteBotProfile io s frontendID0 =
     (let frontendID = trim frontendID0; profiles = db_BotProfiles (st_data s) in
      if \<not> (\<exists>(i, p)\<in>set profiles. bp_FrontendID p = frontendID) then (s, None)
      else saveLocked io (st_data_update
        (db_BotProfiles_update (filter (\<lambda>(i, p). bp_FrontendID p \<noteq> frontendID))) s))"

section \<open>Group primaries\<close>

definition GetScopedGroupPrimary :: "Store \<Rightarrow> string \<Rightarrow> string \<Rightarrow> GroupPrimary option" where
  "GetScopedGroupPrimary s frontendID0 id0 =
     (let frontendID = trim frontendID0; i = trim id0 in
      if i = [] then None
      else
        (case map_of (db_GroupPrimaries (st_data s)) i of
           None \<Rightarrow> None
         | Some primary \<Rightarrow>
             if frontendID \<noteq> [] \<and> trim (gp_FrontendID primary) \<noteq> frontendID then None
             else Some (cloneGroupPrimary primary)))"

definition AllGroupPrimaries :: "Store \<Rightarrow> GroupPrimary list" where
  "AllGroupPrimaries s = cloneGroupPrimariesMatching (db_GroupPrimaries (st_data s)) (\<lambda>_. True)"

definition GroupPrimariesByChat :: "Store \<Rightarrow> string \<Rightarrow> string \<Rightarrow> string \<Rightarrow> GroupPrimary list" where
  "GroupPrimariesByChat s frontendID0 chatType0 chatID0 =
     (let frontendID = trim frontendID0; chatType = to_lower (trim chatType0); chatID = trim chatID0 in
      if chatID = [] then []
      else cloneGroupPrimariesMatching (db_GroupPrimaries (st_data s))
        (\<lambda>p. if gp_ChatID p \<noteq> chatID then False
             else if frontendID \<noteq> [] \<and> trim (gp_FrontendID p) \<noteq> frontendID then False
             else chatType = [] \<or> gp_ChatType p = chatType))"

definition upsertGroupPrimaryLocked ::
  "int \<Rightarrow> string option \<Rightarrow> Store \<Rightarrow> GroupPrimary \<Rightarrow> Store \<times> store_error option" where
  "upsertGroupPrimaryLocked now io s primary =
     (let cp0 = cloneGroupPrimary primary in
      if gp_ID cp0 = [] then (s, None)
      else
        let primaries = db_GroupPrimaries (st_data s);
            cp1 = normalizeGroupPrimaryValues cp0;
            cp = stamp_primary now (map_of primaries (gp_ID cp1)) cp1 in
        if \<exists>(i, previous)\<in>set primaries. i \<noteq> gp_ID cp \<and>
             gp_FrontendID previous = gp_FrontendID cp \<and>
             gp_ChatType previous = gp_ChatType cp \<and> gp_ChatID previous = gp_ChatID cp
        then (s, Some (PrimaryExists (gp_FrontendID cp) (gp_ChatID cp)))
        else
          saveLocked io (st_data_update (db_GroupPrimaries_update (AList.update (gp_ID cp) cp)) s))"

definition UpsertGroupPrimary ::
  "int \<Rightarrow> string option \<Rightarrow> Store \<Rightarrow> GroupPrimary option \<Rightarrow> Store \<times> store_error option" where
  "UpsertGroupPrimary now io s primary =
     (case primary of None \<Rightarrow> (s, None) | Some p \<Rightarrow> upsertGroupPrimaryLocked now io s p)"

definition EnsureGroupPrimary ::
  "int \<Rightarrow> string option \<Rightarrow> Store \<Rightarrow> GroupPrimary option
     \<Rightarrow> Store \<times> (store_error + GroupPrimary option)" where
  "EnsureGroupPrimary now io s primary =
     (case primary of
        None \<Rightarrow> (s, Inr None)
      | Some p \<Rightarrow>
          let cp = cloneGroupPrimary p in
          if gp_ID cp = [] then (s, Inr None)
          else
            (case map_of (db_GroupPrimaries (st_data s)) (gp_ID cp) of
               Some previous \<Rightarrow> (s, Inr (Some (cloneGroupPrimary previous)))
             | None \<Rightarrow>
                 (case upsertGroupPrimaryLocked now io s cp of
                    (s', Some e) \<Rightarrow> (s', Inl e)
                  | (s', None) \<Rightarrow>
                      (s', Inr (map_option cloneGroupPrimary
                         (map_of (db_GroupPrimaries (st_data s')) (gp_ID cp)))))))"

definition UpsertScopedGroupPrimary ::
  "int \<Rightarrow> string option \<Rightarrow> Store \<Rightarrow> string \<Rightarrow> GroupPrimary option \<Rightarrow> Store \<times> store_error option" where
  "UpsertScopedGroupPrimary now io s frontendID primary =
     (case primary of
        None \<Rightarrow> (s, None)
      | Some p \<Rightarrow>
          let cp0 = cloneGroupPrimary p;
              cp = (if trim (gp_FrontendID cp0) = [] then cp0\<lparr>gp_FrontendID := trim frontendID\<rparr> else cp0) in
          if trim frontendID \<noteq> [] \<and> trim (gp_FrontendID cp) \<noteq> trim frontendID
          then (s, Some (FrontendMismatch (gp_FrontendID cp) frontendID))
          else UpsertGroupPrimary now io s (Some cp))"

section \<open>Announcement blocks (group\_announcement\_block.go)\<close>

definition GetScopedGroupAnnouncementBlock ::
  "Store option \<Rightarrow> string \<Rightarrow> string \<Rightarrow> GroupAnnouncementBlock option" where
  "GetScopedGroupAnnouncementBlock store frontendID0 id0 =
     (case store of
        None \<Rightarrow> None
      | Some s \<Rightarrow>
          let frontendID = trim frontendID0; i = trim id0 in
          if i = [] then None
          else
            (case map_of (db_GroupAnnouncementBlocks (st_data s)) i of
               None \<Rightarrow> None
             | Some record \<Rightarrow>
                 if frontendID \<noteq> [] \<and> trim (gb_FrontendID record) \<noteq> frontendID then None
                 else Some (normalizeGroupAnnouncementBlockValues record)))"

definition GroupAnnouncementBlocksByChat ::
  "Store option \<Rightarrow> string \<Rightarrow> string \<Rightarrow> string \<Rightarrow> GroupAnnouncementBlock list" where
  "GroupAnnouncementBlocksByChat store frontendID0 chatType0 chatID0 =
     (let frontendID = trim frontendID0; chatType = to_lower (trim chatType0); chatID = trim chatID0 in
      case store of
        None \<Rightarrow> []
      | Some s \<Rightarrow>
          if chatID = [] then []
          else cloneGroupAnnouncementBlocksMatching (db_GroupAnnouncementBlocks (st_data s))
            (\<lambda>r. if trim (gb_FrontendID r) \<noteq> frontendID \<or> trim (gb_ChatID r) \<noteq> chatID then False
                 else chatType = [] \<or> to_lower (trim (gb_ChatType r)) = chatType))"

definition UpsertGroupAnnouncementBlock ::
  "int \<Rightarrow> string option \<Rightarrow> Store \<Rightarrow> GroupAnnouncementBlock option \<Rightarrow> Store \<times> store_error option" where
  "UpsertGroupAnnouncementBlock now io s record0 =
     (case record0 of
        None \<Rightarrow> (s, None)
      | Some record \<Rightarrow>
          let cp0 = normalizeGroupAnnouncementBlockValues record in
          if trim (gb_ID cp0) = [] then (s, None)
          else
            let blocks = db_GroupAnnouncementBlocks (st_data s);
                cp1 = normalizeGroupAnnouncementBlockValues cp0;
                cp = stamp_block now (map_of blocks (gb_ID cp1)) cp1 in
            if \<exists>(i, previous)\<in>set blocks. i \<noteq> gb_ID cp \<and>
                 gb_FrontendID previous = gb_FrontendID cp \<and>
                 gb_ChatType previous = gb_ChatType cp \<and> gb_ChatID previous = gb_ChatID cp
            then (s, Some (AnnouncementExists (gb_FrontendID cp) (gb_ChatID cp)))
            else
              saveLocked io (st_data_update
                (db_GroupAnnouncementBlocks_update (AList.update (gb_ID cp) cp)) s))"

definition AllGroupAnnouncementBlocks :: "Store option \<Rightarrow> GroupAnnouncementBlock list" where
  "AllGroupAnnouncementBlocks store =
     (case store of
        None \<Rightarrow> []
      | Some s \<Rightarrow> cloneGroupAnnouncementBlocksMatching (db_GroupAnnouncementBlocks (st_data s)) (\<lambda>_. True))"

definition UpsertScopedGroupAnnouncementBlock ::
  "int \<Rightarrow> string option \<Rightarrow> Store \<Rightarrow> string \<Rightarrow> GroupAnnouncementBlock option \<Rightarrow> Store \<times> store_error option" where
  "UpsertScopedGroupAnnouncementBlock now io s frontendID0 record =
     (case record of
        None \<Rightarrow> (s, None)
      | Some r \<Rightarrow>
          let frontendID = trim frontendID0;
              cp0 = normalizeGroupAnnouncementBlockValues r;
              cp = (if trim (gb_FrontendID cp0) = [] then cp0\<lparr>gb_FrontendID := frontendID\<rparr> else cp0) in
          if frontendID \<noteq> [] \<and> trim (gb_FrontendID cp) \<noteq> frontendID
          then (s, Some (FrontendMismatch (gb_FrontendID cp) frontendID))
          else UpsertGroupAnnouncementBlock now io s (Some cp))"

section \<open>Sessions and the queue\<close>

definition GetSession :: "Store \<Rightarrow> string \<Rightarrow> Session option" where
  "GetSession s key = map_option cloneSession (map_of (rt_Sessions (st_runtime s)) key)"

definition AllSessions :: "Store \<Rightarrow> Session list" where
  "AllSessions s = map cloneSession (map snd (rt_Sessions (st_runtime s)))"

definition put_session :: "string \<Rightarrow> Session \<Rightarrow> Store \<Rightarrow> Store" where
  "put_session key sess s = st_runtime_update (rt_Sessions_update (AList.update key sess)) s"

definition syncPersistentSessionLocked :: "Session \<Rightarrow> Store \<Rightarrow> Store" where
  "syncPersistentSessionLocked sess s =
     (if trim (ss_Key sess) = [] then s
      else st_data_update (db_Sessions_update
        (AList.update (ss_Key sess) (storedSessionFromSession sess))) s)"

definition ensureSessionLocked :: "int \<Rightarrow> Store \<Rightarrow> string \<Rightarrow> Store \<times> Session" where
  "ensureSessionLocked now s key =
     (case map_of (rt_Sessions (st_runtime s)) key of
        Some sess \<Rightarrow> (s, sess)
      | None \<Rightarrow>
          (case map_of (db_Sessions (st_data s)) key of
             Some persisted \<Rightarrow>
               let sess = sessionFromStored persisted in (put_session key sess s, sess)
           | None \<Rightarrow>
               let sess = zero_Session\<lparr>ss_Key := key, ss_Status := SessionStatusIdle, ss_UpdatedAt := now\<rparr> in
               (syncPersistentSessionLocked sess (put_session key sess s), sess)))"

definition UpsertSession ::
  "int \<Rightarrow> string option \<Rightarrow> Store \<Rightarrow> Session option \<Rightarrow> Store \<times> store_error option" where
  "UpsertSession now io s session =
     (case session of
        None \<Rightarrow> (s, None)
      | Some sess \<Rightarrow>
          let cp = (normalizeSessionValues (cloneSession sess))\<lparr>ss_UpdatedAt := now\<rparr> in
          saveLocked io (syncPersistentSessionLocked cp (put_session (ss_Key cp) cp s)))"

definition UpdateSession ::
  "int \<Rightarrow> string option \<Rightarrow> Store \<Rightarrow> string \<Rightarrow> (Session \<Rightarrow> Session) option
     \<Rightarrow> Store \<times> (store_error + Session)" where
  "UpdateSession now io s key0 mutate =
     (let key = trim key0 in
      if key = [] then (s, Inl ErrNotExist)
      else
        (case map_of (rt_Sessions (st_runtime s)) key of
           None \<Rightarrow> (s, Inl ErrNotExist)
         | Some previous \<Rightarrow>
             let sess0 = cloneSession previous;
                 sess1 = (case mutate of None \<Rightarrow> sess0 | Some f \<Rightarrow> f sess0);
                 sess = (normalizeSessionValues sess1)\<lparr>ss_UpdatedAt := now\<rparr> in
             (case saveLocked io (syncPersistentSessionLocked sess (put_session key sess s)) of
                (s', Some e) \<Rightarrow> (syncPersistentSessionLocked previous (put_session key previous s'), Inl e)
              | (s', None) \<Rightarrow> (s', Inr (cloneSession sess)))))"

definition QueueSubmission ::
  "int \<Rightarrow> string option \<Rightarrow> Store \<Rightarrow> string \<Rightarrow> string \<Rightarrow> Store \<times> store_error option" where
  "QueueSubmission now io s sessionKey submissionID =
     (let (s1, sess0) = ensureSessionLocked now s sessionKey;
          sess = (Enqueue sess0 submissionID)\<lparr>ss_UpdatedAt := now\<rparr> in
      saveLocked io (syncPersistentSessionLocked sess (put_session sessionKey sess s1)))"

definition DequeueSubmission ::
  "int \<Rightarrow> string option \<Rightarrow> Store \<Rightarrow> string \<Rightarrow> Store \<times> string \<times> store_error option" where
  "DequeueSubmission now io s sessionKey =
     (let (s1, sess0) = ensureSessionLocked now s sessionKey in
      if ss_Queue sess0 = [] then (s1, [], None)
      else
        let (sess1, next) = Dequeue sess0;
            sess = sess1\<lparr>ss_UpdatedAt := now\<rparr>;
            (s2, e) = saveLocked io (syncPersistentSessionLocked sess (put_session sessionKey sess s1)) in
        (s2, next, e))"

section \<open>Submissions\<close>

text \<open>\<open>stamp\<close> is the clock's text, as formatID prints it.\<close>

definition formatID :: "string \<Rightarrow> nat \<Rightarrow> string" where
  "formatID stamp v = stamp @ ''-'' @ pad6 v"

definition CreateSubmission ::
  "int \<Rightarrow> string \<Rightarrow> Store \<Rightarrow> Submission \<Rightarrow> Store \<times> string" where
  "CreateSubmission now stamp s sub =
     (let counters = rt_Counters (st_runtime s);
          (i, counters') =
            (if trim (sub_ID sub) = []
             then (''sub-'' @ formatID stamp (ctr_NextSubmission counters),
                   counters\<lparr>ctr_NextSubmission := ctr_NextSubmission counters + 1\<rparr>)
             else (trim (sub_ID sub), counters));
          cp = normalizeSubmissionValues
                 (sub\<lparr>sub_ID := i, sub_CreatedAt := now, sub_UpdatedAt := now\<rparr>) in
      (st_runtime_update (rt_Submissions_update (AList.update i cp) \<circ>
         rt_Counters_update (\<lambda>_. counters')) s, i))"

definition GetSubmission :: "Store \<Rightarrow> string \<Rightarrow> Submission option" where
  "GetSubmission s i = map_of (rt_Submissions (st_runtime s)) i"

definition UpdateSubmission ::
  "int \<Rightarrow> Store \<Rightarrow> string \<Rightarrow> (Submission \<Rightarrow> Submission) \<Rightarrow> Store \<times> store_error option" where
  "UpdateSubmission now s i mutate =
     (case map_of (rt_Submissions (st_runtime s)) i of
        None \<Rightarrow> (s, Some ErrNotExist)
      | Some sub0 \<Rightarrow>
          let sub = (normalizeSubmissionValues (mutate sub0))\<lparr>sub_UpdatedAt := now\<rparr> in
          (st_runtime_update (rt_Submissions_update (AList.update i sub)) s, None))"

definition DeleteSubmission :: "Store \<Rightarrow> string \<Rightarrow> Store" where
  "DeleteSubmission s i = st_runtime_update (rt_Submissions_update (AList.delete (trim i))) s"

definition NextLocalID :: "string \<Rightarrow> Store \<Rightarrow> string \<Rightarrow> Store \<times> string" where
  "NextLocalID stamp s prefix0 =
     (let i = (if trim prefix0 = [] then ''local'' else trim prefix0);
          counters = rt_Counters (st_runtime s) in
      (st_runtime_update (rt_Counters_update
         (\<lambda>_. counters\<lparr>ctr_NextLocalID := ctr_NextLocalID counters + 1\<rparr>)) s,
       i @ ''-'' @ formatID stamp (ctr_NextLocalID counters)))"

section \<open>Pending requests\<close>

definition PendingByScopedID :: "Store \<Rightarrow> string \<Rightarrow> string \<Rightarrow> PendingRequest option" where
  "PendingByScopedID s frontendID i = map_of (rt_PendingRequests (st_runtime s)) (pendingStoreKey frontendID i)"

definition UpsertPending :: "Store \<Rightarrow> PendingRequest option \<Rightarrow> Store" where
  "UpsertPending s request =
     (case request of
        None \<Rightarrow> s
      | Some req \<Rightarrow>
          if trim (pr_ID req) = [] then s
          else
            let cp = normalizePendingRequestValues req in
            st_runtime_update (rt_PendingRequests_update
              (AList.update (pendingStoreKey (pr_FrontendID cp) (pr_ID cp)) cp)) s)"

definition UpdateScopedPending ::
  "Store \<Rightarrow> string \<Rightarrow> string \<Rightarrow> (PendingRequest \<Rightarrow> PendingRequest) \<Rightarrow> Store \<times> store_error option" where
  "UpdateScopedPending s frontendID i mutate =
     (let key = pendingStoreKey frontendID i in
      case map_of (rt_PendingRequests (st_runtime s)) key of
        None \<Rightarrow> (s, Some ErrNotExist)
      | Some req \<Rightarrow>
          (st_runtime_update (rt_PendingRequests_update
             (AList.update key (normalizePendingRequestValues (mutate req)))) s, None))"

definition DeleteScopedPending :: "Store \<Rightarrow> string \<Rightarrow> string \<Rightarrow> Store" where
  "DeleteScopedPending s frontendID i =
     st_runtime_update (rt_PendingRequests_update (AList.delete (pendingStoreKey frontendID i))) s"

definition DeletePendingRequests :: "Store \<Rightarrow> (PendingRequest \<Rightarrow> bool) option \<Rightarrow> Store" where
  "DeletePendingRequests s match =
     (case match of
        None \<Rightarrow> s
      | Some m \<Rightarrow> st_runtime_update (rt_PendingRequests_update (filter (\<lambda>(i, req). \<not> m req))) s)"

definition AllPendingRequests :: "Store \<Rightarrow> PendingRequest list" where
  "AllPendingRequests s = map snd (rt_PendingRequests (st_runtime s))"

section \<open>Message links\<close>

definition UpsertMessageLink :: "Store \<Rightarrow> MessageLink option \<Rightarrow> Store" where
  "UpsertMessageLink s link0 =
     (case link0 of
        None \<Rightarrow> s
      | Some link \<Rightarrow>
          if trim (ml_MessageID link) = [] then s
          else st_runtime_update (rt_MessageLinks_update
            (AList.update (messageLinkStoreKey (ml_FrontendID link) (ml_MessageID link)) link)) s)"

definition GetScopedMessageLink :: "Store \<Rightarrow> string \<Rightarrow> string \<Rightarrow> MessageLink option" where
  "GetScopedMessageLink s frontendID messageID0 =
     (let messageID = trim messageID0 in
      if messageID = [] then None
      else map_of (rt_MessageLinks (st_runtime s)) (messageLinkStoreKey frontendID messageID))"

definition DeleteMessageLinks :: "Store \<Rightarrow> (MessageLink \<Rightarrow> bool) option \<Rightarrow> Store" where
  "DeleteMessageLinks s match =
     (case match of
        None \<Rightarrow> s
      | Some m \<Rightarrow> st_runtime_update (rt_MessageLinks_update (filter (\<lambda>(i, link). \<not> m link))) s)"

section \<open>Notifications\<close>

definition notes_of :: "Store \<Rightarrow> string \<Rightarrow> FrontendCardNotification list" where
  "notes_of s frontendID =
     (case map_of (db_FrontendCardNotifications (st_data s)) frontendID of None \<Rightarrow> [] | Some ns \<Rightarrow> ns)"

definition FrontendCardNotifications :: "Store \<Rightarrow> string \<Rightarrow> FrontendCardNotification list" where
  "FrontendCardNotifications s frontendID = cloneFrontendCardNotifications (notes_of s (trim frontendID))"

definition put_notes :: "string \<Rightarrow> FrontendCardNotification list \<Rightarrow> Store \<Rightarrow> Store" where
  "put_notes frontendID notes =
     st_data_update (db_FrontendCardNotifications_update (AList.update frontendID notes))"

definition same_notification :: "FrontendCardNotification \<Rightarrow> FrontendCardNotification \<Rightarrow> bool" where
  "same_notification a b \<longleftrightarrow>
     fcn_Kind a = fcn_Kind b \<and> fcn_CollapseKey a = fcn_CollapseKey b \<and> fcn_Title a = fcn_Title b \<and>
     fcn_Color a = fcn_Color b \<and> fcn_Body a = fcn_Body b"

text \<open>The index of the first queued notification with a key.\<close>

fun find_note :: "string \<Rightarrow> FrontendCardNotification list \<Rightarrow> nat option" where
  "find_note key [] = None"
| "find_note key (n # ns) =
     (if frontendCardNotificationKey n = key then Some 0 else map_option Suc (find_note key ns))"

definition zero_Notification :: FrontendCardNotification where
  "zero_Notification =
     \<lparr>fcn_Kind = [], fcn_CollapseKey = [], fcn_Title = [], fcn_Color = [], fcn_Body = [],
      fcn_CreatedAt = 0\<rparr>"

definition AppendFrontendCardNotification ::
  "int \<Rightarrow> string option \<Rightarrow> Store \<Rightarrow> string \<Rightarrow> FrontendCardNotification \<Rightarrow> Store \<times> store_error option" where
  "AppendFrontendCardNotification now io s frontendID0 note0 =
     (let frontendID = trim frontendID0 in
      case normalizeFrontendCardNotification note0 of
        None \<Rightarrow> (s, None)
      | Some note \<Rightarrow>
          let existing = notes_of s frontendID;
              note' = (if fcn_CreatedAt note = 0 then note\<lparr>fcn_CreatedAt := now\<rparr> else note) in
          (case find_note (frontendCardNotificationKey note) existing of
             Some i \<Rightarrow>
               let candidate = (case normalizeFrontendCardNotification (existing ! i) of
                                  Some c \<Rightarrow> c | None \<Rightarrow> zero_Notification) in
               if same_notification candidate note then (s, None)
               else saveLocked io (put_notes frontendID (existing[i := note']) s)
           | None \<Rightarrow> saveLocked io (put_notes frontendID (existing @ [note']) s)))"

definition DeleteFrontendCardNotificationsByCollapseKey ::
  "string option \<Rightarrow> Store \<Rightarrow> string \<Rightarrow> string \<Rightarrow> Store \<times> store_error option" where
  "DeleteFrontendCardNotificationsByCollapseKey io s frontendID0 collapseKey0 =
     (let collapseKey = trim collapseKey0; frontendID = trim frontendID0 in
      if collapseKey = [] then (s, None)
      else
        let existing = notes_of s frontendID;
            target = ''collapse|'' @ collapseKey;
            next = filter (\<lambda>n. frontendCardNotificationKey n \<noteq> target) existing in
        if existing = [] then (s, None)
        else if next = existing then (s, None)
        else if next = [] then
          saveLocked io (st_data_update (db_FrontendCardNotifications_update (AList.delete frontendID)) s)
        else saveLocked io (put_notes frontendID next s))"

definition DrainFrontendCardNotifications ::
  "string option \<Rightarrow> Store \<Rightarrow> string \<Rightarrow> Store \<times> FrontendCardNotification list \<times> store_error option" where
  "DrainFrontendCardNotifications io s frontendID0 =
     (let frontendID = trim frontendID0;
          notes = cloneFrontendCardNotifications (notes_of s frontendID) in
      if notes = [] then (s, [], None)
      else
        let (s', e) = saveLocked io
              (st_data_update (db_FrontendCardNotifications_update (AList.delete frontendID)) s) in
        (s', notes, e))"

section \<open>Association lists as maps\<close>

lemma update_same: "map_of m k = Some v \<Longrightarrow> AList.update k v m = m"
  by (induction m) auto

lemma update_update_same [simp]: "AList.update k v (AList.update k w m) = AList.update k v m"
  by (induction m) auto

lemma map_of_update [simp]: "map_of (AList.update k v m) j = (if j = k then Some v else map_of m j)"
  by (simp add: update_conv')

lemma map_of_delete [simp]: "map_of (AList.delete k m) j = (if j = k then None else map_of m j)"
  by (simp add: delete_conv')

lemma map_of_map_prod: "map_of (map (map_prod id f) m) k = map_option f (map_of m k)"
  by (induction m) auto

lemma set_update:
  "distinct (map fst m) \<Longrightarrow> (j, w) \<in> set (AList.update k v m) \<longleftrightarrow>
     (if j = k then w = v else (j, w) \<in> set m)"
  by (induction m) (auto simp: image_iff)

lemma distinct_filter_fst: "distinct (map fst m) \<Longrightarrow> distinct (map fst (filter P m))"
  by (induction m) auto

section \<open>One record per scope\<close>

text \<open>
  A table is keyed by the ids of its records, its records are \<open>good\<close>, and no two have the
  same scope (\<open>scope\<close> maps a record to the frontend and chat it is for).
\<close>

definition keyed_table :: "('v \<Rightarrow> bool) \<Rightarrow> ('v \<Rightarrow> string) \<Rightarrow> ('v \<Rightarrow> 'k) \<Rightarrow> 'v table \<Rightarrow> bool" where
  "keyed_table good ident scope t \<longleftrightarrow>
     distinct (map fst t) \<and> (\<forall>(i, v)\<in>set t. ident v = i \<and> good v) \<and>
     (\<forall>(i, v)\<in>set t. \<forall>(j, w)\<in>set t. scope v = scope w \<longrightarrow> i = j)"

lemma keyed_table_Nil [simp]: "keyed_table good ident scope []"
  by (simp add: keyed_table_def)

lemma keyed_tableD:
  assumes "keyed_table good ident scope t"
  shows "distinct (map fst t)" "(i, v) \<in> set t \<Longrightarrow> ident v = i" "(i, v) \<in> set t \<Longrightarrow> good v"
    "(i, v) \<in> set t \<Longrightarrow> (j, w) \<in> set t \<Longrightarrow> scope v = scope w \<Longrightarrow> i = j"
  using assms unfolding keyed_table_def by blast+

lemma keyed_tableI:
  assumes "distinct (map fst t)" "\<And>i v. (i, v) \<in> set t \<Longrightarrow> ident v = i \<and> good v"
    "\<And>i v j w. (i, v) \<in> set t \<Longrightarrow> (j, w) \<in> set t \<Longrightarrow> scope v = scope w \<Longrightarrow> i = j"
  shows "keyed_table good ident scope t"
  using assms unfolding keyed_table_def by blast

lemma keyed_table_insert:
  assumes "keyed_table good ident scope t" "ident v = i" "good v"
    "\<not> (\<exists>(j, w)\<in>set t. j \<noteq> i \<and> scope w = scope v)"
  shows "keyed_table good ident scope (AList.update i v t)"
proof -
  have n: "\<And>j w. (j, w) \<in> set t \<Longrightarrow> j \<noteq> i \<Longrightarrow> scope w \<noteq> scope v" using assms(4) by auto
  note t = keyed_tableD [OF assms(1)]
  have e: "(j, w) \<in> set (AList.update i v t) \<longleftrightarrow> (if j = i then w = v else (j, w) \<in> set t)" for j w
    by (rule set_update [OF t(1)])
  show ?thesis
  proof (rule keyed_tableI)
    show "distinct (map fst (AList.update i v t))" using t(1) by (rule distinct_update)
    show "ident w = j \<and> good w" if "(j, w) \<in> set (AList.update i v t)" for j w
      using that assms(2,3) t(2,3) unfolding e by (cases "j = i") auto
    show "j = j'" if "(j, w) \<in> set (AList.update i v t)" "(j', w') \<in> set (AList.update i v t)"
      "scope w = scope w'" for j w j' w'
      using that n t(4) unfolding e by metis
  qed
qed

lemma keyed_table_filter: "keyed_table good ident scope t \<Longrightarrow> keyed_table good ident scope (filter P t)"
  unfolding keyed_table_def by (auto simp: distinct_filter_fst)

lemma keyed_table_delete: "keyed_table good ident scope t \<Longrightarrow> keyed_table good ident scope (AList.delete i t)"
  unfolding AList.delete_eq by (rule keyed_table_filter)

text \<open>At most one record of a table matches a predicate that pins the scope.\<close>

lemma keyed_table_unique:
  assumes "keyed_table good ident scope t" "\<And>v. good v \<Longrightarrow> P v \<Longrightarrow> scope v = k"
  shows "length (filter P (map snd t)) \<le> 1"
proof (rule ccontr)
  let ?m = "filter (P \<circ> snd) t"
  assume "\<not> length (filter P (map snd t)) \<le> 1"
  then have "1 < length ?m" by (simp add: filter_map)
  then have "0 < length ?m" by linarith
  with \<open>1 < length ?m\<close> have "?m ! 0 \<in> set ?m" "?m ! 1 \<in> set ?m" by (blast intro: nth_mem)+
  then have in_t: "?m ! 0 \<in> set t" "?m ! 1 \<in> set t" "P (snd (?m ! 0))" "P (snd (?m ! 1))"
    unfolding set_filter by simp_all
  then have "scope (snd (?m ! 0)) = scope (snd (?m ! 1))"
    using assms(2) keyed_tableD(3) [OF assms(1)] by (metis prod.collapse)
  then have "fst (?m ! 0) = fst (?m ! 1)"
    using in_t(1,2) keyed_tableD(4) [OF assms(1)] by (metis prod.collapse)
  then have "map fst ?m ! 0 = map fst ?m ! 1" using \<open>0 < length ?m\<close> \<open>1 < length ?m\<close> by simp
  moreover have "distinct (map fst ?m)" using assms(1) by (simp add: keyed_table_def distinct_filter_fst)
  ultimately show False using \<open>1 < length ?m\<close> by (metis length_map nth_eq_iff_index_eq zero_less_one
        less_trans zero_neq_one)
qed

abbreviation binding_scope :: "AgentBinding \<Rightarrow> string \<times> string \<times> string" where
  "binding_scope b \<equiv> (ab_FrontendID b, ab_ChatType b, ab_ChatID b)"

abbreviation primary_scope :: "GroupPrimary \<Rightarrow> string \<times> string \<times> string" where
  "primary_scope p \<equiv> (gp_FrontendID p, gp_ChatType p, gp_ChatID p)"

abbreviation block_scope :: "GroupAnnouncementBlock \<Rightarrow> string \<times> string \<times> string" where
  "block_scope b \<equiv> (gb_FrontendID b, gb_ChatType b, gb_ChatID b)"

text \<open>Identities as the store writes them: no surrounding white space, chat types in lower case.\<close>

abbreviation clean_id :: "string \<Rightarrow> bool" where
  "clean_id i \<equiv> i \<noteq> [] \<and> trim i = i"

abbreviation clean_scope :: "string \<times> string \<times> string \<Rightarrow> bool" where
  "clean_scope sc \<equiv>
     trim (fst sc) = fst sc \<and> to_lower (trim (fst (snd sc))) = fst (snd sc) \<and> trim (snd (snd sc)) = snd (snd sc)"

abbreviation good_binding :: "AgentBinding \<Rightarrow> bool" where
  "good_binding b \<equiv> clean_id (ab_ID b) \<and> clean_scope (binding_scope b)"

abbreviation good_profile :: "BotProfile \<Rightarrow> bool" where
  "good_profile p \<equiv> clean_id (bp_ID p) \<and> clean_id (bp_FrontendID p)"

abbreviation good_primary :: "GroupPrimary \<Rightarrow> bool" where
  "good_primary p \<equiv> clean_id (gp_ID p) \<and> clean_scope (primary_scope p)"

abbreviation good_block :: "GroupAnnouncementBlock \<Rightarrow> bool" where
  "good_block b \<equiv> clean_id (gb_ID b) \<and> clean_scope (block_scope b)"

definition scoped_data :: "StateSnapshot \<Rightarrow> bool" where
  "scoped_data d \<longleftrightarrow>
     keyed_table good_binding ab_ID binding_scope (db_AgentBindings d) \<and>
     keyed_table good_profile bp_ID bp_FrontendID (db_BotProfiles d) \<and>
     keyed_table good_primary gp_ID primary_scope (db_GroupPrimaries d) \<and>
     keyed_table good_block gb_ID block_scope (db_GroupAnnouncementBlocks d)"

lemma scoped_data_empty [simp]: "scoped_data empty_StateSnapshot"
  by (simp add: scoped_data_def empty_StateSnapshot_def)

text \<open>The identity fields of copied and stamped records.\<close>

lemma trim_settings_fields [simp]:
  "ab_ID (trim_settings b) = ab_ID b"
  "ab_FrontendID (trim_settings b) = ab_FrontendID b"
  "ab_ChatType (trim_settings b) = ab_ChatType b"
  "ab_ChatID (trim_settings b) = ab_ChatID b"
  by (simp_all add: trim_settings_def OverrideSettings_def)

lemma cloneAgentBinding_fields [simp]:
  "ab_ID (normalizeAgentBindingValues b) = trim (ab_ID b)"
  "ab_FrontendID (normalizeAgentBindingValues b) = trim (ab_FrontendID b)"
  "ab_ChatType (normalizeAgentBindingValues b) = to_lower (trim (ab_ChatType b))"
  "ab_ChatID (normalizeAgentBindingValues b) = trim (ab_ChatID b)"
  "ab_ID (cloneAgentBinding b) = trim (ab_ID b)"
  "ab_FrontendID (cloneAgentBinding b) = trim (ab_FrontendID b)"
  "ab_ChatType (cloneAgentBinding b) = to_lower (trim (ab_ChatType b))"
  "ab_ChatID (cloneAgentBinding b) = trim (ab_ChatID b)"
  by (simp_all add: cloneAgentBinding_def normalizeAgentBindingValues_def Let_def)

lemma cloneBotProfile_fields [simp]:
  "bp_ID (normalizeBotProfileValues p) = trim (bp_ID p)"
  "bp_FrontendID (normalizeBotProfileValues p) = trim (bp_FrontendID p)"
  "bp_ID (cloneBotProfile p) = trim (bp_ID p)"
  "bp_FrontendID (cloneBotProfile p) = trim (bp_FrontendID p)"
  by (simp_all add: cloneBotProfile_def normalizeBotProfileValues_def)

lemma cloneGroupPrimary_fields [simp]:
  "gp_ID (normalizeGroupPrimaryValues p) = trim (gp_ID p)"
  "gp_FrontendID (normalizeGroupPrimaryValues p) = trim (gp_FrontendID p)"
  "gp_ChatType (normalizeGroupPrimaryValues p) = to_lower (trim (gp_ChatType p))"
  "gp_ChatID (normalizeGroupPrimaryValues p) = trim (gp_ChatID p)"
  "gp_ID (cloneGroupPrimary p) = trim (gp_ID p)"
  "gp_FrontendID (cloneGroupPrimary p) = trim (gp_FrontendID p)"
  "gp_ChatType (cloneGroupPrimary p) = to_lower (trim (gp_ChatType p))"
  "gp_ChatID (cloneGroupPrimary p) = trim (gp_ChatID p)"
  by (simp_all add: cloneGroupPrimary_def normalizeGroupPrimaryValues_def)

lemma block_values_fields [simp]:
  "gb_ID (normalizeGroupAnnouncementBlockValues p) = trim (gb_ID p)"
  "gb_FrontendID (normalizeGroupAnnouncementBlockValues p) = trim (gb_FrontendID p)"
  "gb_ChatType (normalizeGroupAnnouncementBlockValues p) = to_lower (trim (gb_ChatType p))"
  "gb_ChatID (normalizeGroupAnnouncementBlockValues p) = trim (gb_ChatID p)"
  by (simp_all add: normalizeGroupAnnouncementBlockValues_def)

lemma saveLocked_data:
  "st_data (fst (saveLocked io s)) = (st_data s)\<lparr>db_Version := currentSnapshotVersion\<rparr>"
  by (simp add: saveLocked_def Let_def split: option.splits)

lemma saveLocked_runtime [simp]: "st_runtime (fst (saveLocked io s)) = st_runtime s"
  by (simp add: saveLocked_def Let_def split: option.splits)

lemma saveLocked_scoped: "scoped_data (st_data (fst (saveLocked io s))) = scoped_data (st_data s)"
  by (simp add: saveLocked_data scoped_data_def)

lemma scoped_data_saved [simp]:
  "scoped_data (st_data (fst (saveLocked io (st_data_update f s)))) = scoped_data (f (st_data s))"
  by (simp add: saveLocked_scoped)

lemma scoped_data_updates:
  "scoped_data d \<Longrightarrow> keyed_table good_binding ab_ID binding_scope (f (db_AgentBindings d)) \<Longrightarrow>
   scoped_data (db_AgentBindings_update f d)"
  "scoped_data d \<Longrightarrow> keyed_table good_profile bp_ID bp_FrontendID (g (db_BotProfiles d)) \<Longrightarrow>
   scoped_data (db_BotProfiles_update g d)"
  "scoped_data d \<Longrightarrow> keyed_table good_primary gp_ID primary_scope (h (db_GroupPrimaries d)) \<Longrightarrow>
   scoped_data (db_GroupPrimaries_update h d)"
  "scoped_data d \<Longrightarrow> keyed_table good_block gb_ID block_scope (k (db_GroupAnnouncementBlocks d)) \<Longrightarrow>
   scoped_data (db_GroupAnnouncementBlocks_update k d)"
  by (simp_all add: scoped_data_def)

lemma scoped_dataD:
  assumes "scoped_data d"
  shows "keyed_table good_binding ab_ID binding_scope (db_AgentBindings d)"
    "keyed_table good_profile bp_ID bp_FrontendID (db_BotProfiles d)"
    "keyed_table good_primary gp_ID primary_scope (db_GroupPrimaries d)"
    "keyed_table good_block gb_ID block_scope (db_GroupAnnouncementBlocks d)"
  using assms by (simp_all add: scoped_data_def)

lemmas scoped_insert = scoped_data_updates keyed_table_insert scoped_dataD keyed_table_filter

lemma UpsertAgentBinding_scoped:
  assumes "scoped_data (st_data s)"
  shows "scoped_data (st_data (fst (UpsertAgentBinding now io s b)))"
  unfolding UpsertAgentBinding_def Let_def same_binding_chat_def
  by (auto intro!: scoped_insert assms split: option.split if_split)

lemma upsertGroupPrimaryLocked_scoped:
  assumes "scoped_data (st_data s)"
  shows "scoped_data (st_data (fst (upsertGroupPrimaryLocked now io s p)))"
  unfolding upsertGroupPrimaryLocked_def Let_def
  by (auto intro!: scoped_insert assms split: if_split)

lemma UpsertGroupAnnouncementBlock_scoped:
  assumes "scoped_data (st_data s)"
  shows "scoped_data (st_data (fst (UpsertGroupAnnouncementBlock now io s b)))"
  unfolding UpsertGroupAnnouncementBlock_def Let_def
  by (auto intro!: scoped_insert assms split: option.split if_split)

lemma bot_profile_id [simp]: "trim (''bot-profile-'' @ sanitizeIDPart v) = ''bot-profile-'' @ sanitizeIDPart v"
  by (rule trim_safe_id) (simp add: ascii_alnum_def char_le_nat)

lemma UpsertBotProfile_scoped:
  assumes "scoped_data (st_data s)"
  shows "scoped_data (st_data (fst (UpsertBotProfile now io s p)))"
  unfolding UpsertBotProfile_def Let_def sanitizeStateIDPart_def
  using bot_profile_id
  by (auto intro!: scoped_insert assms split: option.split if_split)

end
