(* ===== verification/Store_Sessions.thy ===== *)
theory Store_Sessions
  imports Store
begin

text \<open>
  Sessions in the state store: normalising is done once, and what a stored session gives back.
\<close>

section \<open>Normalising is done once\<close>

lemma NormalizeServiceTier_idem [simp]:
  "NormalizeServiceTier (NormalizeServiceTier v) = NormalizeServiceTier v"
proof -
  have "\<not> equal_fold [] ''fast''" by (simp add: equal_fold_def)
  then show ?thesis by (simp add: NormalizeServiceTier_def trim_literal)
qed

lemma normalizeSessionCollaborationMode_idem [simp]:
  "normalizeSessionCollaborationMode (normalizeSessionCollaborationMode m) = normalizeSessionCollaborationMode m"
  by (cases m) (auto simp: normalizeSessionCollaborationMode_def Let_def option.map_comp o_def)

lemma normalizeSessionBackendThread_idem [simp]:
  "normalizeSessionBackendThread (normalizeSessionBackendThread t) = normalizeSessionBackendThread t"
  by (simp add: normalizeSessionBackendThread_def)

definition settled_threads :: "SessionBackendThread table \<Rightarrow> bool" where
  "settled_threads t \<longleftrightarrow> distinct (map fst t) \<and>
     (\<forall>(k, v)\<in>set t. to_lower (trim k) = k \<and> k \<noteq> [] \<and> normalizeSessionBackendThread v = v \<and>
        v \<noteq> zero_SessionBackendThread)"

lemma settled_threads_update:
  assumes "settled_threads t" "to_lower (trim k) = k" "k \<noteq> []" "normalizeSessionBackendThread v = v"
    "v \<noteq> zero_SessionBackendThread"
  shows "settled_threads (AList.update k v t)"
proof -
  have d: "distinct (map fst t)" using assms(1) by (simp add: settled_threads_def)
  have e: "(j, w) \<in> set (AList.update k v t) \<Longrightarrow> (j, w) = (k, v) \<or> (j, w) \<in> set t" for j w
    by (simp add: set_update [OF d] split: if_splits)
  show ?thesis
    unfolding settled_threads_def using assms d by (auto simp: distinct_update settled_threads_def dest!: e)
qed

lemma settled_threads_normalize: "settled_threads (normalizeSessionBackendThreads src)"
proof -
  have "settled_threads (fold (\<lambda>(key0, value) dst.
             let key = to_lower (trim key0); normalized = normalizeSessionBackendThread value in
             if key = [] then dst
             else if normalized = zero_SessionBackendThread then dst
             else AList.update key normalized dst) src acc)" if "settled_threads acc" for acc
    using that by (induction src arbitrary: acc) (auto simp: Let_def settled_threads_update)
  moreover have "settled_threads []" by (simp add: settled_threads_def)
  ultimately show ?thesis unfolding normalizeSessionBackendThreads_def by blast
qed

lemma update_new: "k \<notin> fst ` set t \<Longrightarrow> AList.update k v t = t @ [(k, v)]"
  by (induction t) auto

lemma normalizeSessionBackendThreads_settled:
  "settled_threads t \<Longrightarrow> normalizeSessionBackendThreads t = t"
proof -
  have "fold (\<lambda>(key0, value) dst.
             let key = to_lower (trim key0); normalized = normalizeSessionBackendThread value in
             if key = [] then dst
             else if normalized = zero_SessionBackendThread then dst
             else AList.update key normalized dst) t acc = acc @ t" if "settled_threads (acc @ t)" for acc
    using that
  proof (induction t arbitrary: acc)
    case (Cons e t)
    then have "settled_threads ((acc @ [e]) @ t)" by simp
    with Cons.IH [OF this] Cons.prems show ?case
      by (cases e) (auto simp: settled_threads_def update_new Let_def)
  qed simp
  then show "settled_threads t \<Longrightarrow> normalizeSessionBackendThreads t = t"
    by (simp add: normalizeSessionBackendThreads_def)
qed

lemma normalizeSessionBackendThreads_idem [simp]:
  "normalizeSessionBackendThreads (normalizeSessionBackendThreads t) = normalizeSessionBackendThreads t"
  by (rule normalizeSessionBackendThreads_settled [OF settled_threads_normalize])

lemma settled_threads_map: "settled_threads t \<Longrightarrow> map (map_prod id normalizeSessionBackendThread) t = t"
  by (auto simp: settled_threads_def intro!: map_idI)

lemma normalizeSessionBackendThreads_map [simp]:
  "map (map_prod id normalizeSessionBackendThread) (normalizeSessionBackendThreads t) =
     normalizeSessionBackendThreads t"
  by (rule settled_threads_map [OF settled_threads_normalize])

lemma normalizeSessionBackendThreads_premap [simp]:
  "normalizeSessionBackendThreads (map (map_prod id normalizeSessionBackendThread) t) =
     normalizeSessionBackendThreads t"
proof -
  have "(\<lambda>(key0, value) dst.
             let key = to_lower (trim key0); normalized = normalizeSessionBackendThread value in
             if key = [] then dst
             else if normalized = zero_SessionBackendThread then dst
             else AList.update key normalized dst) \<circ> map_prod id normalizeSessionBackendThread =
        (\<lambda>(key0, value) dst.
             let key = to_lower (trim key0); normalized = normalizeSessionBackendThread value in
             if key = [] then dst
             else if normalized = zero_SessionBackendThread then dst
             else AList.update key normalized dst)"
    by (auto simp: Let_def fun_eq_iff)
  then show ?thesis by (simp add: normalizeSessionBackendThreads_def fold_map)
qed

lemma NormalizeSessionStatus_idem [simp]:
  "NormalizeSessionStatus (NormalizeSessionStatus v) = NormalizeSessionStatus v"
  unfolding NormalizeSessionStatus_def Let_def by (simp add: trim_literal)

section \<open>The chat a key names\<close>

definition trimmed_context :: "(string \<times> string \<times> string) option \<Rightarrow> bool" where
  "trimmed_context r \<longleftrightarrow>
     (case r of None \<Rightarrow> True | Some (t, c, root) \<Rightarrow> to_lower (trim t) = t \<and> trim c = c \<and> trim root = root)"

lemma trimmed_context_if: "trimmed_context a \<Longrightarrow> trimmed_context b \<Longrightarrow> trimmed_context (if c then a else b)"
  by simp

lemma trimmed_context_results:
  "trimmed_context None"
  "to_lower (trim t) = t \<Longrightarrow> trim c = c \<Longrightarrow> trim root = root \<Longrightarrow> trimmed_context (Some (t, c, root))"
  by (simp_all add: trimmed_context_def)

lemma sessionContextFromKey_trimmed: "trimmed_context (sessionContextFromKey k)"
  unfolding sessionContextFromKey_def Let_def
  by (intro trimmed_context_if trimmed_context_results)
     (simp_all add: trim_literal kelvin_sign_def dotted_capital_i_def ascii_lower_def)

lemma fill_context_fields [simp]: "ss_Key (fill_context s) = ss_Key s"
  unfolding fill_context_def by (cases "sessionContextFromKey (ss_Key s)") auto

definition fill_blank :: "string \<Rightarrow> string \<Rightarrow> string" where
  "fill_blank k v = (if trim v = [] then k else v)"

lemma fill_blank_again [simp]: "fill_blank k (fill_blank k v) = fill_blank k v"
  by (simp add: fill_blank_def)

lemma fill_blank_clean [simp]:
  "trim k = k \<Longrightarrow> fill_blank k (trim (fill_blank k v)) = trim (fill_blank k v)"
  "to_lower (trim k) = k \<Longrightarrow> fill_blank k (to_lower (trim (fill_blank k v))) = to_lower (trim (fill_blank k v))"
  by (auto simp: fill_blank_def)

text \<open>What filling does to one of the chat fields.\<close>

definition filled :: "string \<Rightarrow> (string \<times> string \<times> string \<Rightarrow> string) \<Rightarrow> string \<Rightarrow> string" where
  "filled key sel v = (case sessionContextFromKey key of None \<Rightarrow> v | Some c \<Rightarrow> fill_blank (sel c) v)"

lemma filled_again [simp]: "filled key sel (filled key sel v) = filled key sel v"
  by (simp add: filled_def split: option.split)

lemma filled_clean [simp]:
  "filled key fst (to_lower (trim (filled key fst v))) = to_lower (trim (filled key fst v))"
  "filled key (fst \<circ> snd) (trim (filled key (fst \<circ> snd) v)) = trim (filled key (fst \<circ> snd) v)"
  "filled key (snd \<circ> snd) (trim (filled key (snd \<circ> snd) v)) = trim (filled key (snd \<circ> snd) v)"
  using sessionContextFromKey_trimmed [of key]
  by (auto simp: filled_def trimmed_context_def split: option.split)

lemma fill_context_eq:
  "fill_context s =
     s\<lparr>ss_ChatType := filled (ss_Key s) fst (ss_ChatType s),
       ss_ChatID := filled (ss_Key s) (fst \<circ> snd) (ss_ChatID s),
       ss_RootMessageID := filled (ss_Key s) (snd \<circ> snd) (ss_RootMessageID s)\<rparr>"
  by (simp add: fill_context_def filled_def fill_blank_def split: option.split)

text \<open>The fields of a normalised, a copied, a stored and a restored session.\<close>

lemma normalizeSessionValues_fields [simp]:
  "ss_AppliedModelConfig (normalizeSessionValues s) = ss_AppliedModelConfig s"
  "ss_ModelConfigError (normalizeSessionValues s) = ss_ModelConfigError s"
  "ss_Key (normalizeSessionValues s) = ss_Key s"
  "ss_BindingID (normalizeSessionValues s) = ss_BindingID s"
  "ss_WorkspaceID (normalizeSessionValues s) = ss_WorkspaceID s"
  "ss_ActiveThreadID (normalizeSessionValues s) = ss_ActiveThreadID s"
  "ss_ActiveThreadWorkspaceID (normalizeSessionValues s) = ss_ActiveThreadWorkspaceID s"
  "ss_ActiveThreadApprovalPolicy (normalizeSessionValues s) = ss_ActiveThreadApprovalPolicy s"
  "ss_ActiveThreadSandboxMode (normalizeSessionValues s) = ss_ActiveThreadSandboxMode s"
  "ss_ActiveThreadMultiAgentMode (normalizeSessionValues s) = ss_ActiveThreadMultiAgentMode s"
  "ss_ActiveClaudePermissionMode (normalizeSessionValues s) = ss_ActiveClaudePermissionMode s"
  "ss_ActiveThreadServiceTier (normalizeSessionValues s) = NormalizeServiceTier (ss_ActiveThreadServiceTier s)"
  "ss_ActiveThreadCollaborationMode (normalizeSessionValues s) = normalizeSessionCollaborationMode (ss_ActiveThreadCollaborationMode s)"
  "ss_ActiveThreadName (normalizeSessionValues s) = ss_ActiveThreadName s"
  "ss_ActiveThreadPreview (normalizeSessionValues s) = ss_ActiveThreadPreview s"
  "ss_BackendThreads (normalizeSessionValues s) = normalizeSessionBackendThreads (ss_BackendThreads s)"
  "ss_ActiveTurnID (normalizeSessionValues s) = ss_ActiveTurnID s"
  "ss_ActiveSubmissionID (normalizeSessionValues s) = ss_ActiveSubmissionID s"
  "ss_OwnerUserID (normalizeSessionValues s) = ss_OwnerUserID s"
  "ss_ChatID (normalizeSessionValues s) = filled (ss_Key s) (fst \<circ> snd) (ss_ChatID s)"
  "ss_ChatType (normalizeSessionValues s) = filled (ss_Key s) fst (ss_ChatType s)"
  "ss_RootMessageID (normalizeSessionValues s) = filled (ss_Key s) (snd \<circ> snd) (ss_RootMessageID s)"
  "ss_ModelOverride (normalizeSessionValues s) = ss_ModelOverride s"
  "ss_PlanModelOverride (normalizeSessionValues s) = ss_PlanModelOverride s"
  "ss_PlanReasoningEffortOverride (normalizeSessionValues s) = ss_PlanReasoningEffortOverride s"
  "ss_ReviewModelOverride (normalizeSessionValues s) = ss_ReviewModelOverride s"
  "ss_SubagentModelOverride (normalizeSessionValues s) = ss_SubagentModelOverride s"
  "ss_SubagentReasoningEffortOverride (normalizeSessionValues s) = ss_SubagentReasoningEffortOverride s"
  "ss_SmallModelOverride (normalizeSessionValues s) = ss_SmallModelOverride s"
  "ss_Status (normalizeSessionValues s) = NormalizeSessionStatus (ss_Status s)"
  "ss_Queue (normalizeSessionValues s) = ss_Queue s"
  "ss_ActiveOperations (normalizeSessionValues s) = ss_ActiveOperations s"
  "ss_StagedImages (normalizeSessionValues s) = ss_StagedImages s"
  "ss_RecentWorkspaceIDs (normalizeSessionValues s) = ss_RecentWorkspaceIDs s"
  "ss_UpdatedAt (normalizeSessionValues s) = ss_UpdatedAt s"
  by (simp_all add: normalizeSessionValues_def fill_context_eq)

lemma cloneSession_fields [simp]:
  "ss_AppliedModelConfig (cloneSession s) = ss_AppliedModelConfig s"
  "ss_ModelConfigError (cloneSession s) = ss_ModelConfigError s"
  "ss_Key (cloneSession s) = ss_Key s"
  "ss_BindingID (cloneSession s) = ss_BindingID s"
  "ss_WorkspaceID (cloneSession s) = ss_WorkspaceID s"
  "ss_ActiveThreadID (cloneSession s) = ss_ActiveThreadID s"
  "ss_ActiveThreadWorkspaceID (cloneSession s) = ss_ActiveThreadWorkspaceID s"
  "ss_ActiveThreadApprovalPolicy (cloneSession s) = ss_ActiveThreadApprovalPolicy s"
  "ss_ActiveThreadSandboxMode (cloneSession s) = ss_ActiveThreadSandboxMode s"
  "ss_ActiveThreadMultiAgentMode (cloneSession s) = ss_ActiveThreadMultiAgentMode s"
  "ss_ActiveClaudePermissionMode (cloneSession s) = ss_ActiveClaudePermissionMode s"
  "ss_ActiveThreadServiceTier (cloneSession s) = NormalizeServiceTier (ss_ActiveThreadServiceTier s)"
  "ss_ActiveThreadCollaborationMode (cloneSession s) = ss_ActiveThreadCollaborationMode s"
  "ss_ActiveThreadName (cloneSession s) = ss_ActiveThreadName s"
  "ss_ActiveThreadPreview (cloneSession s) = ss_ActiveThreadPreview s"
  "ss_BackendThreads (cloneSession s) = map (map_prod id normalizeSessionBackendThread) (ss_BackendThreads s)"
  "ss_ActiveTurnID (cloneSession s) = ss_ActiveTurnID s"
  "ss_ActiveSubmissionID (cloneSession s) = ss_ActiveSubmissionID s"
  "ss_OwnerUserID (cloneSession s) = ss_OwnerUserID s"
  "ss_ChatID (cloneSession s) = filled (ss_Key s) (fst \<circ> snd) (ss_ChatID s)"
  "ss_ChatType (cloneSession s) = filled (ss_Key s) fst (ss_ChatType s)"
  "ss_RootMessageID (cloneSession s) = filled (ss_Key s) (snd \<circ> snd) (ss_RootMessageID s)"
  "ss_ModelOverride (cloneSession s) = ss_ModelOverride s"
  "ss_PlanModelOverride (cloneSession s) = ss_PlanModelOverride s"
  "ss_PlanReasoningEffortOverride (cloneSession s) = ss_PlanReasoningEffortOverride s"
  "ss_ReviewModelOverride (cloneSession s) = ss_ReviewModelOverride s"
  "ss_SubagentModelOverride (cloneSession s) = ss_SubagentModelOverride s"
  "ss_SubagentReasoningEffortOverride (cloneSession s) = ss_SubagentReasoningEffortOverride s"
  "ss_SmallModelOverride (cloneSession s) = ss_SmallModelOverride s"
  "ss_Status (cloneSession s) = NormalizeSessionStatus (ss_Status s)"
  "ss_Queue (cloneSession s) = ss_Queue s"
  "ss_ActiveOperations (cloneSession s) = ss_ActiveOperations s"
  "ss_StagedImages (cloneSession s) = ss_StagedImages s"
  "ss_RecentWorkspaceIDs (cloneSession s) = ss_RecentWorkspaceIDs s"
  "ss_UpdatedAt (cloneSession s) = ss_UpdatedAt s"
  by (simp_all add: cloneSession_def)

lemma storedSessionFromSession_fields [simp]:
  "sd_Key (storedSessionFromSession s) = ss_Key s"
  "sd_BindingID (storedSessionFromSession s) = ss_BindingID s"
  "sd_WorkspaceID (storedSessionFromSession s) = ss_WorkspaceID s"
  "sd_ChatID (storedSessionFromSession s) = filled (ss_Key s) (fst \<circ> snd) (ss_ChatID s)"
  "sd_ChatType (storedSessionFromSession s) = filled (ss_Key s) fst (ss_ChatType s)"
  "sd_RootMessageID (storedSessionFromSession s) = filled (ss_Key s) (snd \<circ> snd) (ss_RootMessageID s)"
  "sd_ActiveThreadID (storedSessionFromSession s) = ss_ActiveThreadID s"
  "sd_ActiveThreadWorkspaceID (storedSessionFromSession s) = ss_ActiveThreadWorkspaceID s"
  "sd_ActiveThreadApprovalPolicy (storedSessionFromSession s) = ss_ActiveThreadApprovalPolicy s"
  "sd_ActiveThreadSandboxMode (storedSessionFromSession s) = ss_ActiveThreadSandboxMode s"
  "sd_ActiveThreadMultiAgentMode (storedSessionFromSession s) = ss_ActiveThreadMultiAgentMode s"
  "sd_ActiveClaudePermissionMode (storedSessionFromSession s) = ss_ActiveClaudePermissionMode s"
  "sd_ActiveThreadServiceTier (storedSessionFromSession s) = NormalizeServiceTier (ss_ActiveThreadServiceTier s)"
  "sd_ActiveThreadCollaborationMode (storedSessionFromSession s) = normalizeSessionCollaborationMode (ss_ActiveThreadCollaborationMode s)"
  "sd_ActiveThreadName (storedSessionFromSession s) = ss_ActiveThreadName s"
  "sd_ActiveThreadPreview (storedSessionFromSession s) = ss_ActiveThreadPreview s"
  "sd_BackendThreads (storedSessionFromSession s) = normalizeSessionBackendThreads (ss_BackendThreads s)"
  "sd_OwnerUserID (storedSessionFromSession s) = ss_OwnerUserID s"
  "sd_ModelOverride (storedSessionFromSession s) = ss_ModelOverride s"
  "sd_PlanModelOverride (storedSessionFromSession s) = ss_PlanModelOverride s"
  "sd_PlanReasoningEffortOverride (storedSessionFromSession s) = ss_PlanReasoningEffortOverride s"
  "sd_ReviewModelOverride (storedSessionFromSession s) = ss_ReviewModelOverride s"
  "sd_SubagentModelOverride (storedSessionFromSession s) = ss_SubagentModelOverride s"
  "sd_SubagentReasoningEffortOverride (storedSessionFromSession s) = ss_SubagentReasoningEffortOverride s"
  "sd_SmallModelOverride (storedSessionFromSession s) = ss_SmallModelOverride s"
  "sd_RecentWorkspaceIDs (storedSessionFromSession s) = ss_RecentWorkspaceIDs s"
  "sd_UpdatedAt (storedSessionFromSession s) = ss_UpdatedAt s"
  by (simp_all add: storedSessionFromSession_def)

lemma sessionFromStored_fields [simp]:
  "ss_AppliedModelConfig (sessionFromStored d) = ss_AppliedModelConfig zero_Session"
  "ss_ModelConfigError (sessionFromStored d) = ss_ModelConfigError zero_Session"
  "ss_Key (sessionFromStored d) = sd_Key d"
  "ss_BindingID (sessionFromStored d) = trim (sd_BindingID d)"
  "ss_WorkspaceID (sessionFromStored d) = sd_WorkspaceID d"
  "ss_ActiveThreadID (sessionFromStored d) = sd_ActiveThreadID d"
  "ss_ActiveThreadWorkspaceID (sessionFromStored d) = sd_ActiveThreadWorkspaceID d"
  "ss_ActiveThreadApprovalPolicy (sessionFromStored d) = sd_ActiveThreadApprovalPolicy d"
  "ss_ActiveThreadSandboxMode (sessionFromStored d) = sd_ActiveThreadSandboxMode d"
  "ss_ActiveThreadMultiAgentMode (sessionFromStored d) = sd_ActiveThreadMultiAgentMode d"
  "ss_ActiveClaudePermissionMode (sessionFromStored d) = sd_ActiveClaudePermissionMode d"
  "ss_ActiveThreadServiceTier (sessionFromStored d) = NormalizeServiceTier (sd_ActiveThreadServiceTier d)"
  "ss_ActiveThreadCollaborationMode (sessionFromStored d) = normalizeSessionCollaborationMode (sd_ActiveThreadCollaborationMode d)"
  "ss_ActiveThreadName (sessionFromStored d) = sd_ActiveThreadName d"
  "ss_ActiveThreadPreview (sessionFromStored d) = sd_ActiveThreadPreview d"
  "ss_BackendThreads (sessionFromStored d) = normalizeSessionBackendThreads (sd_BackendThreads d)"
  "ss_ActiveTurnID (sessionFromStored d) = ss_ActiveTurnID zero_Session"
  "ss_ActiveSubmissionID (sessionFromStored d) = ss_ActiveSubmissionID zero_Session"
  "ss_OwnerUserID (sessionFromStored d) = sd_OwnerUserID d"
  "ss_ChatID (sessionFromStored d) = filled (sd_Key d) (fst \<circ> snd) (trim (sd_ChatID d))"
  "ss_ChatType (sessionFromStored d) = filled (sd_Key d) fst (to_lower (trim (sd_ChatType d)))"
  "ss_RootMessageID (sessionFromStored d) = filled (sd_Key d) (snd \<circ> snd) (trim (sd_RootMessageID d))"
  "ss_ModelOverride (sessionFromStored d) = sd_ModelOverride d"
  "ss_PlanModelOverride (sessionFromStored d) = sd_PlanModelOverride d"
  "ss_PlanReasoningEffortOverride (sessionFromStored d) = sd_PlanReasoningEffortOverride d"
  "ss_ReviewModelOverride (sessionFromStored d) = sd_ReviewModelOverride d"
  "ss_SubagentModelOverride (sessionFromStored d) = sd_SubagentModelOverride d"
  "ss_SubagentReasoningEffortOverride (sessionFromStored d) = sd_SubagentReasoningEffortOverride d"
  "ss_SmallModelOverride (sessionFromStored d) = sd_SmallModelOverride d"
  "ss_Status (sessionFromStored d) = SessionStatusIdle"
  "ss_Queue (sessionFromStored d) = ss_Queue zero_Session"
  "ss_ActiveOperations (sessionFromStored d) = ss_ActiveOperations zero_Session"
  "ss_StagedImages (sessionFromStored d) = ss_StagedImages zero_Session"
  "ss_RecentWorkspaceIDs (sessionFromStored d) = sd_RecentWorkspaceIDs d"
  "ss_UpdatedAt (sessionFromStored d) = sd_UpdatedAt d"
  by (simp_all add: sessionFromStored_def fill_context_eq NormalizeSessionStatus_def trim_literal)

lemma normalizeStoredSession_fields [simp]:
  "sd_Key (normalizeStoredSession d) = sd_Key d"
  "sd_BindingID (normalizeStoredSession d) = trim (sd_BindingID d)"
  "sd_WorkspaceID (normalizeStoredSession d) = sd_WorkspaceID d"
  "sd_ChatID (normalizeStoredSession d) = trim (sd_ChatID d)"
  "sd_ChatType (normalizeStoredSession d) = to_lower (trim (sd_ChatType d))"
  "sd_RootMessageID (normalizeStoredSession d) = trim (sd_RootMessageID d)"
  "sd_ActiveThreadID (normalizeStoredSession d) = sd_ActiveThreadID d"
  "sd_ActiveThreadWorkspaceID (normalizeStoredSession d) = sd_ActiveThreadWorkspaceID d"
  "sd_ActiveThreadApprovalPolicy (normalizeStoredSession d) = sd_ActiveThreadApprovalPolicy d"
  "sd_ActiveThreadSandboxMode (normalizeStoredSession d) = sd_ActiveThreadSandboxMode d"
  "sd_ActiveThreadMultiAgentMode (normalizeStoredSession d) = sd_ActiveThreadMultiAgentMode d"
  "sd_ActiveClaudePermissionMode (normalizeStoredSession d) = trim (sd_ActiveClaudePermissionMode d)"
  "sd_ActiveThreadServiceTier (normalizeStoredSession d) = NormalizeServiceTier (sd_ActiveThreadServiceTier d)"
  "sd_ActiveThreadCollaborationMode (normalizeStoredSession d) = normalizeSessionCollaborationMode (sd_ActiveThreadCollaborationMode d)"
  "sd_ActiveThreadName (normalizeStoredSession d) = sd_ActiveThreadName d"
  "sd_ActiveThreadPreview (normalizeStoredSession d) = sd_ActiveThreadPreview d"
  "sd_BackendThreads (normalizeStoredSession d) = normalizeSessionBackendThreads (sd_BackendThreads d)"
  "sd_OwnerUserID (normalizeStoredSession d) = sd_OwnerUserID d"
  "sd_ModelOverride (normalizeStoredSession d) = trim (sd_ModelOverride d)"
  "sd_PlanModelOverride (normalizeStoredSession d) = trim (sd_PlanModelOverride d)"
  "sd_PlanReasoningEffortOverride (normalizeStoredSession d) = trim (sd_PlanReasoningEffortOverride d)"
  "sd_ReviewModelOverride (normalizeStoredSession d) = trim (sd_ReviewModelOverride d)"
  "sd_SubagentModelOverride (normalizeStoredSession d) = trim (sd_SubagentModelOverride d)"
  "sd_SubagentReasoningEffortOverride (normalizeStoredSession d) = trim (sd_SubagentReasoningEffortOverride d)"
  "sd_SmallModelOverride (normalizeStoredSession d) = trim (sd_SmallModelOverride d)"
  "sd_RecentWorkspaceIDs (normalizeStoredSession d) = sd_RecentWorkspaceIDs d"
  "sd_UpdatedAt (normalizeStoredSession d) = sd_UpdatedAt d"
  by (simp_all add: normalizeStoredSession_def)

lemmas session_eqI = Session.equality
lemmas stored_eqI = storedSession.equality

lemma normalizeSessionValues_idem [simp]:
  "normalizeSessionValues (normalizeSessionValues s) = normalizeSessionValues s"
  by (rule session_eqI) simp_all

lemma normalizeSessionValues_clone [simp]:
  "normalizeSessionValues (cloneSession s) = normalizeSessionValues s"
  by (rule session_eqI) simp_all

lemma cloneSession_normal [simp]:
  "cloneSession (normalizeSessionValues s) = normalizeSessionValues s"
  by (rule session_eqI) simp_all

lemma storedSession_normal [simp]:
  "storedSessionFromSession (normalizeSessionValues s) = storedSessionFromSession s"
  "storedSessionFromSession (cloneSession s) = storedSessionFromSession s"
  by (rule stored_eqI; simp)+

lemma normalizeStoredSession_idem [simp]:
  "normalizeStoredSession (normalizeStoredSession d) = normalizeStoredSession d"
  by (rule stored_eqI) simp_all

definition settled_record :: "storedSession \<Rightarrow> bool" where
  "settled_record d \<longleftrightarrow> storedSessionFromSession (sessionFromStored d) = d"

lemma settled_record_normal:
  "settled_record (normalizeStoredSession (storedSessionFromSession s))"
  unfolding settled_record_def by (rule stored_eqI) simp_all

end
