(* ===== verification/Store_Commit.thy ===== *)
theory Store_Commit
  imports Store_Sessions
begin

text \<open>
  The commits that replace several records at once: \<open>terminal_transition.go\<close>,
  \<open>backend_lifecycle.go\<close>, \<open>workspace_lifecycle.go\<close>. Each compares the records
  its caller read with those in memory, replaces them together, saves, and on an error puts the
  old tables back. A hook that writes the configuration file is the parameter \<open>cfg\<close>, its
  answer (None when it succeeded); \<open>io\<close> and \<open>io2\<close> answer the save and the save
  that rolls back.
\<close>

section \<open>Deep equality\<close>

text \<open>Maps are compared as maps: the order of an association list does not matter.\<close>

definition same_map :: "('v \<Rightarrow> 'v \<Rightarrow> bool) \<Rightarrow> 'v table \<Rightarrow> 'v table \<Rightarrow> bool" where
  "same_map eq m n \<longleftrightarrow>
     (\<forall>k\<in>set (map fst m) \<union> set (map fst n).
        case (map_of m k, map_of n k) of (Some v, Some w) \<Rightarrow> eq v w | _ \<Rightarrow> False)"

definition deep_equal_session :: "Session \<Rightarrow> Session \<Rightarrow> bool" where
  "deep_equal_session a b \<longleftrightarrow>
     a\<lparr>ss_BackendThreads := []\<rparr> = b\<lparr>ss_BackendThreads := []\<rparr> \<and>
     same_map (=) (ss_BackendThreads a) (ss_BackendThreads b)"

definition holds_session :: "Store \<Rightarrow> Session \<Rightarrow> bool" where
  "holds_session s sess \<longleftrightarrow>
     (case map_of (rt_Sessions (st_runtime s)) (ss_Key sess) of
        None \<Rightarrow> False | Some held \<Rightarrow> deep_equal_session held sess)"

text \<open>A session as a commit writes it.\<close>

definition put_normalized :: "int \<Rightarrow> Session \<Rightarrow> Store \<Rightarrow> Store" where
  "put_normalized now sess s =
     (let cp = (normalizeSessionValues (cloneSession sess))\<lparr>ss_UpdatedAt := now\<rparr> in
      syncPersistentSessionLocked cp (put_session (ss_Key cp) cp s))"

section \<open>Ending a submission\<close>

definition put_request :: "PendingRequest \<Rightarrow> PendingRequest table \<Rightarrow> PendingRequest table" where
  "put_request req = AList.update (pendingStoreKey (pr_FrontendID req) (pr_ID req))
     (normalizePendingRequestValues req)"

abbreviation request_key :: "PendingRequest \<Rightarrow> string" where
  "request_key req \<equiv> pendingStoreKey (pr_FrontendID req) (pr_ID req)"

text \<open>The checks of a commit, in their order: the error of the first that fails.\<close>

definition terminal_conflict ::
  "Store \<Rightarrow> Session \<Rightarrow> Session \<Rightarrow> Submission \<Rightarrow> Submission \<Rightarrow> PendingRequest option list
     \<Rightarrow> PendingRequest option list \<Rightarrow> store_error option" where
  "terminal_conflict s eSess nSess eSub nSub expectedRequests nextRequests =
     (let rt = st_runtime s;
          readSet = List.map_filter (map_option request_key) expectedRequests in
      if ss_Key nSess \<noteq> ss_Key eSess \<or> sub_ID nSub \<noteq> sub_ID eSub
         \<or> sub_SessionKey nSub \<noteq> sub_SessionKey eSub then Some IdentityChanged
      else if \<not> holds_session s eSess \<or> map_of (rt_Submissions rt) (sub_ID eSub) \<noteq> Some eSub
      then Some OwnerChanged
      else if \<exists>r\<in>set expectedRequests. case r of
                None \<Rightarrow> True
              | Some req \<Rightarrow> map_of (rt_PendingRequests rt) (request_key req) \<noteq> Some req
      then Some InteractionChanged
      else if \<exists>(key, req)\<in>set (rt_PendingRequests rt).
                pr_SessionKey req = ss_Key eSess \<and> key \<notin> set readSet
      then Some InteractionAdded
      else if \<exists>r\<in>set nextRequests. case r of
                None \<Rightarrow> True
              | Some req \<Rightarrow> pr_SessionKey req \<noteq> ss_Key eSess \<or> request_key req \<notin> set readSet
      then Some ForeignInteraction
      else None)"

definition terminal_replace ::
  "int \<Rightarrow> Session \<Rightarrow> Submission \<Rightarrow> PendingRequest option list \<Rightarrow> Store \<Rightarrow> Store" where
  "terminal_replace now nSess nSub nextRequests s =
     (let sub = (normalizeSubmissionValues nSub)\<lparr>sub_UpdatedAt := now\<rparr> in
      st_runtime_update (rt_Submissions_update (AList.update (sub_ID sub) sub) \<circ>
        rt_PendingRequests_update (fold put_request (List.map_filter id nextRequests)))
        (put_normalized now nSess s))"

definition restore_terminal :: "Store \<Rightarrow> Store \<Rightarrow> Store" where
  "restore_terminal old s =
     s\<lparr>st_data := (st_data s)\<lparr>db_Sessions := db_Sessions (st_data old)\<rparr>,
       st_runtime := (st_runtime s)
         \<lparr>rt_Sessions := rt_Sessions (st_runtime old), rt_Submissions := rt_Submissions (st_runtime old),
          rt_PendingRequests := rt_PendingRequests (st_runtime old)\<rparr>\<rparr>"

definition CommitTerminal ::
  "int \<Rightarrow> string option \<Rightarrow> Store \<Rightarrow> Session option \<Rightarrow> Session option \<Rightarrow> Submission option \<Rightarrow> Submission option
     \<Rightarrow> PendingRequest option list \<Rightarrow> PendingRequest option list \<Rightarrow> Store \<times> store_error option" where
  "CommitTerminal now io s expectedSession nextSession expectedSubmission nextSubmission
     expectedRequests nextRequests =
     (case (expectedSession, expectedSubmission, nextSession, nextSubmission) of
        (Some eSess, Some eSub, Some nSess, Some nSub) \<Rightarrow>
          (case terminal_conflict s eSess nSess eSub nSub expectedRequests nextRequests of
             Some e \<Rightarrow> (s, Some e)
           | None \<Rightarrow>
               (case saveLocked io (terminal_replace now nSess nSub nextRequests s) of
                  (s', None) \<Rightarrow> (s', None)
                | (s', Some e) \<Rightarrow> (restore_terminal s s', Some e)))
      | _ \<Rightarrow> (s, Some TransitionIncomplete))"

section \<open>Changing the backend\<close>

definition restore_sessions :: "Store \<Rightarrow> Store \<Rightarrow> Store" where
  "restore_sessions old s =
     s\<lparr>st_data := (st_data s)\<lparr>db_Sessions := db_Sessions (st_data old)\<rparr>,
       st_runtime := (st_runtime s)\<lparr>rt_Sessions := rt_Sessions (st_runtime old)\<rparr>\<rparr>"

definition CommitBackendSessions ::
  "int \<Rightarrow> string option \<Rightarrow> string option \<Rightarrow> string option \<Rightarrow> Store \<Rightarrow> Session option list \<Rightarrow> Session list
     \<Rightarrow> Store \<times> store_error option" where
  "CommitBackendSessions now io cfg io2 s expected next_sessions =
     (if \<exists>e\<in>set expected. case e of None \<Rightarrow> True | Some sess \<Rightarrow> \<not> holds_session s sess
      then (s, Some BackendSessionsChanged)
      else
        (case saveLocked io (fold (put_normalized now) next_sessions s) of
           (s1, Some e) \<Rightarrow> (restore_sessions s s1, Some e)
         | (s1, None) \<Rightarrow>
             (case cfg of
                None \<Rightarrow> (s1, None)
              | Some err \<Rightarrow>
                  (case saveLocked io2 (restore_sessions s s1) of
                     (s2, None) \<Rightarrow> (s2, Some (ConfigFailed err))
                   | (s2, Some _) \<Rightarrow> (s2, Some (RollbackFailed err (case io2 of Some e \<Rightarrow> e | None \<Rightarrow> [])))))))"

section \<open>Changing the workspaces\<close>

record WorkspaceState =
  wst_Sessions :: "Session table"
  wst_Bindings :: "AgentBinding table"
  wst_Profiles :: "BotProfile table"

record WorkspaceMutation =
  wm_Expected :: WorkspaceState
  wm_Sessions :: "Session list"
  wm_Binding :: "AgentBinding option"
  wm_Profiles :: "BotProfile list"

definition workspaceStateLocked :: "Store \<Rightarrow> WorkspaceState" where
  "workspaceStateLocked s =
     \<lparr>wst_Sessions = map (map_prod id cloneSession) (rt_Sessions (st_runtime s)),
      wst_Bindings = map (map_prod id cloneAgentBinding) (db_AgentBindings (st_data s)),
      wst_Profiles = map (map_prod id cloneBotProfile) (db_BotProfiles (st_data s))\<rparr>"

definition deep_equal_state :: "WorkspaceState \<Rightarrow> WorkspaceState \<Rightarrow> bool" where
  "deep_equal_state a b \<longleftrightarrow>
     same_map deep_equal_session (wst_Sessions a) (wst_Sessions b) \<and>
     same_map (=) (wst_Bindings a) (wst_Bindings b) \<and>
     same_map (=) (wst_Profiles a) (wst_Profiles b)"

definition put_binding :: "int \<Rightarrow> AgentBinding option \<Rightarrow> Store \<Rightarrow> Store" where
  "put_binding now binding s =
     (case binding of
        None \<Rightarrow> s
      | Some b0 \<Rightarrow>
          let b = (cloneAgentBinding b0)\<lparr>ab_UpdatedAt := now\<rparr> in
          st_data_update (db_AgentBindings_update (AList.update (ab_ID b) b)) s)"

definition put_profile :: "int \<Rightarrow> BotProfile \<Rightarrow> Store \<Rightarrow> Store" where
  "put_profile now profile s =
     (let cp0 = cloneBotProfile profile;
          cp1 = (if bp_CreatedAt cp0 = 0 then cp0\<lparr>bp_CreatedAt := now\<rparr> else cp0);
          cp = cp1\<lparr>bp_UpdatedAt := now\<rparr> in
      st_data_update (db_BotProfiles_update (AList.update (bp_ID cp) cp)) s)"

definition restore_workspaces :: "Store \<Rightarrow> Store \<Rightarrow> Store" where
  "restore_workspaces old s =
     s\<lparr>st_data := (st_data s)
         \<lparr>db_Sessions := db_Sessions (st_data old), db_AgentBindings := db_AgentBindings (st_data old),
          db_BotProfiles := db_BotProfiles (st_data old)\<rparr>,
       st_runtime := (st_runtime s)\<lparr>rt_Sessions := rt_Sessions (st_runtime old)\<rparr>\<rparr>"

text \<open>\<open>cfg\<close> is None when there is no hook, and otherwise the hook's answer.\<close>

definition CommitWorkspace ::
  "int \<Rightarrow> string option \<Rightarrow> string option option \<Rightarrow> string option \<Rightarrow> Store \<Rightarrow> WorkspaceMutation
     \<Rightarrow> Store \<times> store_error option" where
  "CommitWorkspace now io cfg io2 s change =
     (if \<not> deep_equal_state (workspaceStateLocked s) (wm_Expected change)
      then (s, Some WorkspaceStateChanged)
      else
        let s0 = fold (put_profile now) (wm_Profiles change)
                   (put_binding now (wm_Binding change)
                      (fold (put_normalized now) (wm_Sessions change) s)) in
        (case saveLocked io s0 of
           (s1, Some e) \<Rightarrow> (restore_workspaces s s1, Some e)
         | (s1, None) \<Rightarrow>
             (case cfg of
                Some (Some err) \<Rightarrow>
                  (case saveLocked io2 (restore_workspaces s s1) of
                     (s2, None) \<Rightarrow> (s2, Some (ConfigFailed err))
                   | (s2, Some _) \<Rightarrow> (s2, Some (RollbackFailed err (case io2 of Some e \<Rightarrow> e | None \<Rightarrow> []))))
              | _ \<Rightarrow> (s1, None))))"

section \<open>Nothing of a failed commit stays\<close>

abbreviation current :: "Store \<Rightarrow> bool" where
  "current s \<equiv> db_Version (st_data s) = currentSnapshotVersion"

lemma saveLocked_current:
  "current s \<Longrightarrow>
   saveLocked io s = (case io of None \<Rightarrow> (s\<lparr>st_disk := Some (st_data s)\<rparr>, None)
                               | Some e \<Rightarrow> (s, Some (SaveFailed e)))"
  by (simp add: saveLocked_def split: option.split)

text \<open>Writing sessions changes the two session tables only.\<close>

lemma put_normalized_frame:
  "\<exists>d r. put_normalized now sess s =
     s\<lparr>st_data := (st_data s)\<lparr>db_Sessions := d\<rparr>, st_runtime := (st_runtime s)\<lparr>rt_Sessions := r\<rparr>\<rparr>"
proof -
  have "put_normalized now sess s =
     s\<lparr>st_data := (st_data s)\<lparr>db_Sessions := db_Sessions (st_data (put_normalized now sess s))\<rparr>,
       st_runtime := (st_runtime s)\<lparr>rt_Sessions := rt_Sessions (st_runtime (put_normalized now sess s))\<rparr>\<rparr>"
    by (simp add: put_normalized_def syncPersistentSessionLocked_def put_session_def Let_def)
  then show ?thesis by blast
qed

lemma put_all_frame:
  "\<exists>d r. fold (put_normalized now) xs s =
     s\<lparr>st_data := (st_data s)\<lparr>db_Sessions := d\<rparr>, st_runtime := (st_runtime s)\<lparr>rt_Sessions := r\<rparr>\<rparr>"
proof (induction xs arbitrary: s)
  case Nil
  have "s = s\<lparr>st_data := (st_data s)\<lparr>db_Sessions := db_Sessions (st_data s)\<rparr>,
      st_runtime := (st_runtime s)\<lparr>rt_Sessions := rt_Sessions (st_runtime s)\<rparr>\<rparr>" by simp
  then show ?case unfolding fold_simps id_apply by blast
next
  case (Cons x xs)
  obtain d r where a: "put_normalized now x s =
      s\<lparr>st_data := (st_data s)\<lparr>db_Sessions := d\<rparr>, st_runtime := (st_runtime s)\<lparr>rt_Sessions := r\<rparr>\<rparr>"
    using put_normalized_frame by blast
  obtain d' r' where "fold (put_normalized now) xs (put_normalized now x s) = (put_normalized now x s)
      \<lparr>st_data := (st_data (put_normalized now x s))\<lparr>db_Sessions := d'\<rparr>,
       st_runtime := (st_runtime (put_normalized now x s))\<lparr>rt_Sessions := r'\<rparr>\<rparr>"
    using Cons.IH by blast
  then have "fold (put_normalized now) (x # xs) s =
      s\<lparr>st_data := (st_data s)\<lparr>db_Sessions := d'\<rparr>, st_runtime := (st_runtime s)\<lparr>rt_Sessions := r'\<rparr>\<rparr>"
    by (simp add: a)
  then show ?case by blast
qed

lemma restore_sessions_undoes:
  assumes "s' = s\<lparr>st_data := (st_data s)\<lparr>db_Sessions := d\<rparr>, st_runtime := (st_runtime s)\<lparr>rt_Sessions := r\<rparr>\<rparr>"
  shows "restore_sessions s s' = s" "restore_sessions s (s'\<lparr>st_disk := w\<rparr>) = s\<lparr>st_disk := w\<rparr>"
    "current s' = current s"
  unfolding assms restore_sessions_def by simp_all



lemma terminal_replace_frame:
  "restore_terminal s (terminal_replace now nSess nSub reqs s) = s"
  "current (terminal_replace now nSess nSub reqs s) = current s"
proof -
  obtain d r where f: "put_normalized now nSess s =
      s\<lparr>st_data := (st_data s)\<lparr>db_Sessions := d\<rparr>, st_runtime := (st_runtime s)\<lparr>rt_Sessions := r\<rparr>\<rparr>"
    using put_normalized_frame by blast
  show "restore_terminal s (terminal_replace now nSess nSub reqs s) = s"
    "current (terminal_replace now nSess nSub reqs s) = current s"
    by (simp_all add: restore_terminal_def terminal_replace_def Let_def f)
qed

lemma set_map_filter: "set (List.map_filter f xs) = {y. \<exists>x\<in>set xs. f x = Some y}"
  by (force simp: List.map_filter_def)

lemma guard_None: "(if b then Some e else r) = None \<longleftrightarrow> \<not> b \<and> r = None"
  by simp

lemma terminal_conflict_None:
  assumes "terminal_conflict s es ns eu nu expected_requests next_requests = None"
  shows "ss_Key ns = ss_Key es" "sub_ID nu = sub_ID eu" "holds_session s es"
    "GetSubmission s (sub_ID eu) = Some eu"
    "\<forall>r\<in>set expected_requests. \<exists>req. r = Some req \<and>
       map_of (rt_PendingRequests (st_runtime s)) (request_key req) = Some req"
    "\<forall>(key, req)\<in>set (rt_PendingRequests (st_runtime s)). pr_SessionKey req = ss_Key es \<longrightarrow>
       (\<exists>r\<in>set expected_requests. map_option request_key r = Some key)"
proof -
  note c = assms [unfolded terminal_conflict_def Let_def set_map_filter guard_None, THEN conjunct1]
    assms [unfolded terminal_conflict_def Let_def set_map_filter guard_None, THEN conjunct2]
  show "ss_Key ns = ss_Key es" "sub_ID nu = sub_ID eu" "holds_session s es"
    "GetSubmission s (sub_ID eu) = Some eu"
  proof -
    have n: "\<not> (ss_Key ns \<noteq> ss_Key es \<or> sub_ID nu \<noteq> sub_ID eu \<or> sub_SessionKey nu \<noteq> sub_SessionKey eu)"
      by (rule c(1))
    have o: "\<not> (\<not> holds_session s es \<or> map_of (rt_Submissions (st_runtime s)) (sub_ID eu) \<noteq> Some eu)"
      by (rule c(2) [THEN conjunct1])
    show "ss_Key ns = ss_Key es" using n by argo
    show "sub_ID nu = sub_ID eu" using n by argo
    show "holds_session s es" using o by argo
    show "GetSubmission s (sub_ID eu) = Some eu" using o unfolding GetSubmission_def by argo
  qed
  have "\<not> (\<exists>r\<in>set expected_requests. case r of None \<Rightarrow> True
      | Some req \<Rightarrow> map_of (rt_PendingRequests (st_runtime s)) (request_key req) \<noteq> Some req)"
    by (rule c(2) [THEN conjunct2, THEN conjunct1])
  then have each: "\<not> (case r of None \<Rightarrow> True
      | Some req \<Rightarrow> map_of (rt_PendingRequests (st_runtime s)) (request_key req) \<noteq> Some req)"
    if "r \<in> set expected_requests" for r using that by blast
  show "\<forall>r\<in>set expected_requests. \<exists>req. r = Some req \<and>
       map_of (rt_PendingRequests (st_runtime s)) (request_key req) = Some req"
  proof
    fix r assume "r \<in> set expected_requests"
    from each [OF this] show "\<exists>req. r = Some req \<and>
       map_of (rt_PendingRequests (st_runtime s)) (request_key req) = Some req"
      by (cases r) simp_all
  qed
  have "\<not> (\<exists>(key, req)\<in>set (rt_PendingRequests (st_runtime s)). pr_SessionKey req = ss_Key es \<and>
      key \<notin> {y. \<exists>x\<in>set expected_requests. map_option request_key x = Some y})"
    by (rule c(2) [THEN conjunct2, THEN conjunct2, THEN conjunct1])
  then show "\<forall>(key, req)\<in>set (rt_PendingRequests (st_runtime s)). pr_SessionKey req = ss_Key es \<longrightarrow>
       (\<exists>r\<in>set expected_requests. map_option request_key r = Some key)"
    by blast
qed


text \<open>A store with one session that runs one submission.\<close>

definition demo_session :: Session where
  "demo_session = zero_Session\<lparr>ss_Key := ''k'', ss_ActiveSubmissionID := ''u''\<rparr>"

definition demo_submission :: Submission where
  "demo_submission = zero_Submission\<lparr>sub_ID := ''u'', sub_SessionKey := ''k''\<rparr>"

definition demo_store :: Store where
  "demo_store = empty_Store\<lparr>st_runtime := empty_runtimeState
     \<lparr>rt_Sessions := [(''k'', demo_session)], rt_Submissions := [(''u'', demo_submission)]\<rparr>\<rparr>"


text \<open>Changing the workspaces also writes a binding and profiles.\<close>

lemma put_profiles_frame:
  "\<exists>t. fold (put_profile now) ps s = st_data_update (db_BotProfiles_update (\<lambda>_. t)) s"
proof (induction ps arbitrary: s)
  case Nil
  have "s = st_data_update (db_BotProfiles_update (\<lambda>_. db_BotProfiles (st_data s))) s" by simp
  then show ?case unfolding fold_simps id_apply by blast
next
  case (Cons p ps)
  obtain t where "fold (put_profile now) ps (put_profile now p s) =
      st_data_update (db_BotProfiles_update (\<lambda>_. t)) (put_profile now p s)" using Cons.IH by blast
  then have "fold (put_profile now) (p # ps) s = st_data_update (db_BotProfiles_update (\<lambda>_. t)) s"
    by (simp add: put_profile_def Let_def)
  then show ?case by blast
qed

lemma put_binding_frame: "\<exists>t. put_binding now b s = st_data_update (db_AgentBindings_update (\<lambda>_. t)) s"
proof -
  have "put_binding now b s =
      st_data_update (db_AgentBindings_update (\<lambda>_. db_AgentBindings (st_data (put_binding now b s)))) s"
    by (cases b) (simp_all add: put_binding_def Let_def)
  then show ?thesis by blast
qed

abbreviation workspace_change :: "int \<Rightarrow> WorkspaceMutation \<Rightarrow> Store \<Rightarrow> Store" where
  "workspace_change now change s \<equiv>
     fold (put_profile now) (wm_Profiles change)
       (put_binding now (wm_Binding change) (fold (put_normalized now) (wm_Sessions change) s))"

lemma workspace_change_frame:
  "restore_workspaces s (workspace_change now change s) = s"
  "restore_workspaces s ((workspace_change now change s)\<lparr>st_disk := w\<rparr>) = s\<lparr>st_disk := w\<rparr>"
  "current (workspace_change now change s) = current s"
proof -
  let ?a = "fold (put_normalized now) (wm_Sessions change) s"
  obtain d r where a: "?a =
      s\<lparr>st_data := (st_data s)\<lparr>db_Sessions := d\<rparr>, st_runtime := (st_runtime s)\<lparr>rt_Sessions := r\<rparr>\<rparr>"
    using put_all_frame by blast
  obtain t where b: "put_binding now (wm_Binding change) ?a = st_data_update (db_AgentBindings_update (\<lambda>_. t)) ?a"
    using put_binding_frame by blast
  obtain u where p: "workspace_change now change s =
      st_data_update (db_BotProfiles_update (\<lambda>_. u)) (put_binding now (wm_Binding change) ?a)"
    using put_profiles_frame by blast
  have "st_data_update (db_BotProfiles_update (\<lambda>_. u)) (put_binding now (wm_Binding change) ?a) =
      s\<lparr>st_data := (st_data s)\<lparr>db_Sessions := d, db_AgentBindings := t, db_BotProfiles := u\<rparr>,
        st_runtime := (st_runtime s)\<lparr>rt_Sessions := r\<rparr>\<rparr>"
    by (subst b) (simp add: a)
  note e = trans [OF p this]
  show "restore_workspaces s (workspace_change now change s) = s"
    "restore_workspaces s ((workspace_change now change s)\<lparr>st_disk := w\<rparr>) = s\<lparr>st_disk := w\<rparr>"
    "current (workspace_change now change s) = current s"
    unfolding e restore_workspaces_def by simp_all
qed



end
