(* ===== verification/Store_Migration.thy ===== *)
theory Store_Migration
  imports Store_Commit
begin

text \<open>
  Rewriting the keys of stored sessions: \<open>CanonicalizeSessionKeys\<close> and the merge of
  sessions that meet under one key, of \<open>internal/state/store.go\<close>.
\<close>

section \<open>Merging two sessions\<close>

definition appendUniqueStrings :: "string list \<Rightarrow> string list \<Rightarrow> string list" where
  "appendUniqueStrings values extra =
     fst (fold (\<lambda>value0 (out, seen).
            let value = trim value0 in
            if value = [] then (out, seen)
            else if value \<in> set seen then (out, seen)
            else (out @ [value], value # seen))
          extra (values, filter (\<lambda>v. v \<noteq> []) (map trim values)))"

definition mergeSessionBackendThreadMaps ::
  "SessionBackendThread table \<Rightarrow> SessionBackendThread table \<Rightarrow> SessionBackendThread table" where
  "mergeSessionBackendThreadMaps base overlay =
     fold (\<lambda>(key, value). AList.update key value) overlay
       (map (map_prod id normalizeSessionBackendThread) base)"

definition or_src :: "string \<Rightarrow> string \<Rightarrow> string" where
  "or_src dst src = (if trim dst = [] then src else dst)"

definition fillSessionBlanks :: "Session \<Rightarrow> Session \<Rightarrow> Session" where
  "fillSessionBlanks dst src =
     dst\<lparr>ss_BindingID := or_src (ss_BindingID dst) (ss_BindingID src),
         ss_WorkspaceID := or_src (ss_WorkspaceID dst) (ss_WorkspaceID src),
         ss_ChatID := or_src (ss_ChatID dst) (ss_ChatID src),
         ss_ChatType := or_src (ss_ChatType dst) (ss_ChatType src),
         ss_RootMessageID := or_src (ss_RootMessageID dst) (ss_RootMessageID src),
         ss_ActiveThreadID := or_src (ss_ActiveThreadID dst) (ss_ActiveThreadID src),
         ss_ActiveThreadWorkspaceID := or_src (ss_ActiveThreadWorkspaceID dst) (ss_ActiveThreadWorkspaceID src),
         ss_ActiveThreadApprovalPolicy := or_src (ss_ActiveThreadApprovalPolicy dst) (ss_ActiveThreadApprovalPolicy src),
         ss_ActiveThreadSandboxMode := or_src (ss_ActiveThreadSandboxMode dst) (ss_ActiveThreadSandboxMode src),
         ss_ActiveThreadMultiAgentMode := or_src (ss_ActiveThreadMultiAgentMode dst) (ss_ActiveThreadMultiAgentMode src),
         ss_ActiveClaudePermissionMode := or_src (ss_ActiveClaudePermissionMode dst) (ss_ActiveClaudePermissionMode src),
         ss_ActiveThreadServiceTier := or_src (ss_ActiveThreadServiceTier dst) (ss_ActiveThreadServiceTier src),
         ss_ActiveThreadCollaborationMode :=
           (case ss_ActiveThreadCollaborationMode dst of
              None \<Rightarrow> ss_ActiveThreadCollaborationMode src | Some m \<Rightarrow> Some m),
         ss_ActiveThreadName := or_src (ss_ActiveThreadName dst) (ss_ActiveThreadName src),
         ss_ActiveThreadPreview := or_src (ss_ActiveThreadPreview dst) (ss_ActiveThreadPreview src),
         ss_ActiveTurnID := or_src (ss_ActiveTurnID dst) (ss_ActiveTurnID src),
         ss_ActiveSubmissionID := or_src (ss_ActiveSubmissionID dst) (ss_ActiveSubmissionID src),
         ss_OwnerUserID := or_src (ss_OwnerUserID dst) (ss_OwnerUserID src),
         ss_ModelOverride := or_src (ss_ModelOverride dst) (ss_ModelOverride src),
         ss_Status :=
           (if trim (ss_Status dst) = [] \<or>
               trim (ss_Status dst) = SessionStatusIdle \<and> trim (ss_Status src) \<noteq> []
            then ss_Status src else ss_Status dst)\<rparr>"

text \<open>The more recent session is the primary one; a tie keeps the first.\<close>

definition mergeSessions :: "Session \<Rightarrow> Session \<Rightarrow> Session" where
  "mergeSessions a b =
     (let (primary, secondary) =
            (if ss_UpdatedAt b > ss_UpdatedAt a then (cloneSession b, cloneSession a)
             else (cloneSession a, cloneSession b));
          p = fillSessionBlanks primary secondary in
      p\<lparr>ss_Queue := appendUniqueStrings (ss_Queue p) (ss_Queue secondary),
        ss_ActiveOperations := ss_ActiveOperations p @ ss_ActiveOperations secondary,
        ss_StagedImages := ss_StagedImages p @ ss_StagedImages secondary,
        ss_RecentWorkspaceIDs := appendUniqueStrings (ss_RecentWorkspaceIDs p) (ss_RecentWorkspaceIDs secondary),
        ss_BackendThreads := mergeSessionBackendThreadMaps (ss_BackendThreads secondary) (ss_BackendThreads p)\<rparr>)"

section \<open>Canonical keys\<close>

text \<open>\<open>canonical\<close> maps (key, chatType, chatID, frontendID) to the current key.\<close>

type_synonym canonical_key = "string \<Rightarrow> string \<Rightarrow> string \<Rightarrow> string \<Rightarrow> string"

definition rekey_session :: "canonical_key \<Rightarrow> string \<Rightarrow> Session \<Rightarrow> bool \<times> Session" where
  "rekey_session canonical key sess =
     (let cp = cloneSession sess;
          oldKey = trim (FirstNonEmpty [ss_Key cp, key]);
          chatType0 = trim (ss_ChatType cp);
          chatID0 = trim (ss_ChatID cp);
          (chatType, chatID) =
            (if chatType0 = [] \<or> chatID0 = [] then
               (case sessionContextFromKey oldKey of
                  Some (keyChatType, keyChatID, _) \<Rightarrow>
                    (FirstNonEmpty [chatType0, keyChatType], FirstNonEmpty [chatID0, keyChatID])
                | None \<Rightarrow> (chatType0, chatID0))
             else (chatType0, chatID0));
          newKey0 = trim (canonical oldKey chatType chatID []);
          newKey = (if newKey0 = [] then oldKey else newKey0) in
      (newKey \<noteq> oldKey,
       normalizeSessionValues
         (cp\<lparr>ss_Key := newKey,
             ss_ChatType := (if chatType \<noteq> [] then chatType else ss_ChatType cp),
             ss_ChatID := (if chatID \<noteq> [] then chatID else ss_ChatID cp)\<rparr>)))"

definition add_session :: "canonical_key \<Rightarrow> string \<times> Session \<Rightarrow> bool \<times> Session table \<Rightarrow> bool \<times> Session table" where
  "add_session canonical = (\<lambda>(key, sess) (changed, next_runtime).
     let (moved, cp) = rekey_session canonical key sess in
     case map_of next_runtime (ss_Key cp) of
       Some existing \<Rightarrow> (True, AList.update (ss_Key cp) (mergeSessions existing cp) next_runtime)
     | None \<Rightarrow> (changed \<or> moved, AList.update (ss_Key cp) cp next_runtime))"

definition rekey_pending ::
  "canonical_key \<Rightarrow> string \<Rightarrow> AgentBindingPendingMessage option \<Rightarrow> AgentBindingPendingMessage option" where
  "rekey_pending canonical frontendID pending =
     (case pending of
        None \<Rightarrow> None
      | Some p \<Rightarrow>
          let oldKey = trim (pm_SessionKey p);
              newKey = trim (canonical oldKey (pm_ChatType p) (pm_ChatID p) frontendID) in
          if newKey \<noteq> [] \<and> newKey \<noteq> oldKey then Some (p\<lparr>pm_SessionKey := newKey\<rparr>) else Some p)"

text \<open>
  A stored binding's PendingMessage is the first message of its queue (the same pointer), so
  rewriting the queue rewrites it too; a binding that only has the old single message keeps it.
\<close>

definition rekey_binding :: "canonical_key \<Rightarrow> AgentBinding \<Rightarrow> AgentBinding" where
  "rekey_binding canonical b =
     (if ab_PendingMessages b = [] then
        b\<lparr>ab_PendingMessage := rekey_pending canonical (ab_FrontendID b) (ab_PendingMessage b)\<rparr>
      else
        let queue = map (rekey_pending canonical (ab_FrontendID b)) (ab_PendingMessages b) in
        b\<lparr>ab_PendingMessages := queue,
          ab_PendingMessage := (if ab_PendingMessage b = hd (ab_PendingMessages b) then hd queue
                                else ab_PendingMessage b)\<rparr>)"

definition CanonicalizeSessionKeys ::
  "string option \<Rightarrow> Store \<Rightarrow> canonical_key option \<Rightarrow> Store \<times> store_error option" where
  "CanonicalizeSessionKeys io s canonical0 =
     (case canonical0 of
        None \<Rightarrow> (s, None)
      | Some canonical \<Rightarrow>
          let (moved, next_runtime) = fold (add_session canonical) (rt_Sessions (st_runtime s)) (False, []);
              bindings = db_AgentBindings (st_data s);
              bindings' = map (map_prod id (rekey_binding canonical)) bindings;
              s1 = s\<lparr>st_data := (st_data s)\<lparr>db_AgentBindings := bindings'\<rparr>\<rparr> in
          if \<not> moved \<and> bindings' = bindings then (s1, None)
          else
            let sessions = map (\<lambda>(key, sess). (key, sess\<lparr>ss_Key := key\<rparr>)) next_runtime;
                s2 = s1\<lparr>st_data := (st_data s1)\<lparr>db_Sessions := []\<rparr>,
                        st_runtime := (st_runtime s1)\<lparr>rt_Sessions := sessions\<rparr>\<rparr> in
            saveLocked io (fold (\<lambda>(key, sess). syncPersistentSessionLocked sess) sessions s2))"

section \<open>No work is lost\<close>

definition clean_strings :: "string list \<Rightarrow> string set" where
  "clean_strings xs = {x. x \<in> trim ` set xs \<and> x \<noteq> []}"

lemma clean_strings_append: "clean_strings (xs @ ys) = clean_strings xs \<union> clean_strings ys"
  by (auto simp: clean_strings_def)

lemma appendUniqueStrings_steps:
  assumes "set seen = clean_strings out"
  shows "clean_strings (fst (fold (\<lambda>value0 (out, seen).
            let value = trim value0 in
            if value = [] then (out, seen)
            else if value \<in> set seen then (out, seen)
            else (out @ [value], value # seen)) extra (out, seen))) = clean_strings (out @ extra)"
  using assms
proof (induction extra arbitrary: out seen)
  case (Cons v extra)
  show ?case
  proof (cases "trim v = [] \<or> trim v \<in> set seen")
    case True
    have "clean_strings (out @ v # extra) = clean_strings (out @ extra)"
      using True Cons.prems by (auto simp: clean_strings_def)
    with True Cons.IH [OF Cons.prems] show ?thesis by (auto simp: Let_def)
  next
    case False
    have s: "set (trim v # seen) = clean_strings (out @ [trim v])"
      using False Cons.prems by (auto simp: clean_strings_def)
    have "clean_strings ((out @ [trim v]) @ extra) = clean_strings (out @ v # extra)"
      by (auto simp: clean_strings_def)
    with False Cons.IH [OF s] show ?thesis by (simp add: Let_def)
  qed
qed simp

lemma appendUniqueStrings_set:
  "clean_strings (appendUniqueStrings xs ys) = clean_strings xs \<union> clean_strings ys"
  unfolding appendUniqueStrings_def
  by (subst appendUniqueStrings_steps) (auto simp: clean_strings_append clean_strings_def)

lemma fillSessionBlanks_work [simp]:
  "ss_Queue (fillSessionBlanks a b) = ss_Queue a"
  "ss_ActiveOperations (fillSessionBlanks a b) = ss_ActiveOperations a"
  "ss_StagedImages (fillSessionBlanks a b) = ss_StagedImages a"
  "ss_Key (fillSessionBlanks a b) = ss_Key a"
  "ss_RecentWorkspaceIDs (fillSessionBlanks a b) = ss_RecentWorkspaceIDs a"
  by (simp_all add: fillSessionBlanks_def)

lemma mergeSessions_work:
  "clean_strings (ss_Queue (mergeSessions a b)) = clean_strings (ss_Queue a) \<union> clean_strings (ss_Queue b)"
  "set (ss_ActiveOperations (mergeSessions a b)) = set (ss_ActiveOperations a) \<union> set (ss_ActiveOperations b)"
  "set (ss_StagedImages (mergeSessions a b)) = set (ss_StagedImages a) \<union> set (ss_StagedImages b)"
  "ss_Key a = ss_Key b \<Longrightarrow> ss_Key (mergeSessions a b) = ss_Key b"
  by (auto simp: mergeSessions_def Let_def appendUniqueStrings_set)

lemma rekey_session_work [simp]:
  "ss_Queue (snd (rekey_session c k s)) = ss_Queue s"
  "ss_ActiveOperations (snd (rekey_session c k s)) = ss_ActiveOperations s"
  "ss_StagedImages (snd (rekey_session c k s)) = ss_StagedImages s"
  by (simp_all add: rekey_session_def Let_def case_prod_beta)

text \<open>Work of a session: what merging unites and rekeying leaves alone.\<close>

locale session_work =
  fixes work :: "Session \<Rightarrow> 'a set"
  assumes work_merge: "work (mergeSessions a b) = work a \<union> work b"
    and work_rekey: "work (snd (rekey_session c k s)) = work s"
    and work_key: "work (s\<lparr>ss_Key := k\<rparr>) = work s"
begin

definition all_work :: "Session table \<Rightarrow> 'a set" where
  "all_work t = (\<Union>(k, s)\<in>set t. work s)"

lemma in_all_work: "x \<in> all_work t \<longleftrightarrow> (\<exists>k s. (k, s) \<in> set t \<and> x \<in> work s)"
  by (auto simp: all_work_def)

lemma all_work_Nil [simp]: "all_work [] = {}"
  by (simp add: all_work_def)

lemma all_work_Cons [simp]: "all_work (e # es) = work (snd e) \<union> all_work es"
  by (simp add: all_work_def case_prod_beta)

lemma all_work_update_new: "k \<notin> fst ` set t \<Longrightarrow> all_work (AList.update k s t) = all_work t \<union> work s"
  by (auto simp: all_work_def update_new)

lemma all_work_update_merge:
  assumes d: "distinct (map fst t)" and k: "map_of t k = Some old"
  shows "all_work (AList.update k (mergeSessions old s) t) = all_work t \<union> work s"
proof (rule set_eqI)
  fix x
  have one: "(k, w) \<in> set t \<longleftrightarrow> w = old" for w
    using d k by (metis map_of_SomeD map_of_is_SomeI option.inject)
  have "x \<in> all_work (AList.update k (mergeSessions old s) t) \<longleftrightarrow>
      x \<in> work (mergeSessions old s) \<or> (\<exists>j w. j \<noteq> k \<and> (j, w) \<in> set t \<and> x \<in> work w)"
    unfolding in_all_work set_update [OF d] by (metis (full_types))
  moreover have "x \<in> all_work t \<longleftrightarrow> x \<in> work old \<or> (\<exists>j w. j \<noteq> k \<and> (j, w) \<in> set t \<and> x \<in> work w)"
    unfolding in_all_work using one by metis
  ultimately show "x \<in> all_work (AList.update k (mergeSessions old s) t) \<longleftrightarrow> x \<in> all_work t \<union> work s"
    by (auto simp: work_merge)
qed

lemma all_work_add:
  assumes "distinct (map fst t)" "add_session c e (b, t) = (b', t')"
  shows "distinct (map fst t') \<and> all_work t' = all_work t \<union> work (snd e)"
proof -
  obtain k s where e: "e = (k, s)" by fastforce
  obtain m cp where r: "rekey_session c k s = (m, cp)" by fastforce
  then have w: "work cp = work s" using work_rekey [of c k s] by simp
  show ?thesis
  proof (cases "map_of t (ss_Key cp)")
    case None
    then have "ss_Key cp \<notin> fst ` set t" by (simp add: map_of_eq_None_iff)
    with None assms w show ?thesis by (auto simp: add_session_def e r all_work_update_new distinct_update)
  next
    case (Some old)
    with assms w show ?thesis by (auto simp: add_session_def e r all_work_update_merge distinct_update)
  qed
qed

lemma all_work_fold:
  "distinct (map fst t) \<Longrightarrow>
   all_work (snd (fold (add_session c) es (b, t))) = all_work t \<union> all_work es"
proof (induction es arbitrary: b t)
  case (Cons e es)
  obtain b' t' where a: "add_session c e (b, t) = (b', t')" by fastforce
  from all_work_add [OF Cons.prems a] Cons.IH [of t' b'] show ?case
    by (auto simp: a)
qed simp

end

interpretation queued: session_work "\<lambda>s. clean_strings (ss_Queue s)"
  by unfold_locales (simp_all add: mergeSessions_work)

interpretation running: session_work "\<lambda>s. set (ss_ActiveOperations s)"
  by unfold_locales (simp_all add: mergeSessions_work)

interpretation staged: session_work "\<lambda>s. set (ss_StagedImages s)"
  by unfold_locales (simp_all add: mergeSessions_work)


lemma all_work_renamed:
  assumes "\<And>s k. work (s\<lparr>ss_Key := k\<rparr>) = work s"
  shows "(\<Union>(k, s)\<in>set (map (\<lambda>(key, sess). (key, sess\<lparr>ss_Key := key\<rparr>)) t). work s) = (\<Union>(k, s)\<in>set t. work s)"
  by (auto simp: assms)

lemma sync_runtime [simp]: "st_runtime (syncPersistentSessionLocked x s) = st_runtime s"
  by (simp add: syncPersistentSessionLocked_def)

lemma sync_all_runtime [simp]:
  "st_runtime (fold (\<lambda>(key, sess). syncPersistentSessionLocked sess) t s) = st_runtime s"
  by (induction t arbitrary: s) (auto simp: case_prod_beta)

text \<open>The sessions after a migration: the ones before it, or all of them added under their new keys.\<close>

lemma Canonicalize_sessions:
  "rt_Sessions (st_runtime (fst (CanonicalizeSessionKeys io s c))) = rt_Sessions (st_runtime s) \<or>
   (\<exists>can. c = Some can \<and> rt_Sessions (st_runtime (fst (CanonicalizeSessionKeys io s c))) =
      map (\<lambda>(key, sess). (key, sess\<lparr>ss_Key := key\<rparr>))
        (snd (fold (add_session can) (rt_Sessions (st_runtime s)) (False, []))))"
  by (cases c) (auto simp: CanonicalizeSessionKeys_def Let_def case_prod_beta)

text \<open>What the sessions of a store have queued, running and staged.\<close>

definition pending_work :: "Store \<Rightarrow> string set \<times> SessionActiveOperation set \<times> SessionStagedImage set" where
  "pending_work s =
     (\<Union>(k, x)\<in>set (rt_Sessions (st_runtime s)). clean_strings (ss_Queue x),
      \<Union>(k, x)\<in>set (rt_Sessions (st_runtime s)). set (ss_ActiveOperations x),
      \<Union>(k, x)\<in>set (rt_Sessions (st_runtime s)). set (ss_StagedImages x))"

text \<open>
  C17. Moving the sessions to canonical keys loses no work: whatever the new keys are, also where
  several sessions meet under one key, the submissions queued, the operations running and the
  images staged are afterwards exactly those before (queue entries up to surrounding space).
\<close>

theorem CanonicalizeSessionKeys_keeps_work:
  "pending_work (fst (CanonicalizeSessionKeys io s canonical)) = pending_work s"
proof -
  have e: "(\<Union>(k, x)\<in>set (map (\<lambda>(key, sess). (key, sess\<lparr>ss_Key := key\<rparr>))
        (snd (fold (add_session can) (rt_Sessions (st_runtime s)) (False, [])))). clean_strings (ss_Queue x)) =
      (\<Union>(k, x)\<in>set (rt_Sessions (st_runtime s)). clean_strings (ss_Queue x))"
    "(\<Union>(k, x)\<in>set (map (\<lambda>(key, sess). (key, sess\<lparr>ss_Key := key\<rparr>))
        (snd (fold (add_session can) (rt_Sessions (st_runtime s)) (False, [])))). set (ss_ActiveOperations x)) =
      (\<Union>(k, x)\<in>set (rt_Sessions (st_runtime s)). set (ss_ActiveOperations x))"
    "(\<Union>(k, x)\<in>set (map (\<lambda>(key, sess). (key, sess\<lparr>ss_Key := key\<rparr>))
        (snd (fold (add_session can) (rt_Sessions (st_runtime s)) (False, [])))). set (ss_StagedImages x)) =
      (\<Union>(k, x)\<in>set (rt_Sessions (st_runtime s)). set (ss_StagedImages x))" for can
    using queued.all_work_fold [of "[]" can "rt_Sessions (st_runtime s)" False]
      running.all_work_fold [of "[]" can "rt_Sessions (st_runtime s)" False]
      staged.all_work_fold [of "[]" can "rt_Sessions (st_runtime s)" False]
    by (subst all_work_renamed;
        simp add: queued.all_work_def running.all_work_def staged.all_work_def)+
  show ?thesis
    using Canonicalize_sessions [of io s canonical]
  proof (elim disjE exE conjE)
    assume "rt_Sessions (st_runtime (fst (CanonicalizeSessionKeys io s canonical))) = rt_Sessions (st_runtime s)"
    then show ?thesis unfolding pending_work_def by (simp only:)
  next
    fix can
    assume "rt_Sessions (st_runtime (fst (CanonicalizeSessionKeys io s canonical))) =
      map (\<lambda>(key, sess). (key, sess\<lparr>ss_Key := key\<rparr>))
        (snd (fold (add_session can) (rt_Sessions (st_runtime s)) (False, [])))"
    then show ?thesis unfolding pending_work_def by (simp only: e)
  qed
qed

section \<open>The keys of this program (feishuapp/session\_key\_migration.go)\<close>

definition isAuxiliarySessionKey :: "string \<Rightarrow> bool" where
  "isAuxiliarySessionKey key \<longleftrightarrow> sublist '':workspace:'' (trim key) \<or> sublist '':pending:'' (trim key)"

text \<open>The function canonicalizeStoredSessionKeys hands to the store.\<close>

definition canonicalizeStoredSessionKeys :: canonical_key where
  "canonicalizeStoredSessionKeys key0 chatType chatID0 frontendHint =
     (let key = trim key0 in
      if isAuxiliarySessionKey key then key
      else
        let (parsedFrontendID, t, parsedChatID, r, u) = ParseSessionKey key;
            chatID = (if trim chatID0 = [] then trim parsedChatID else trim chatID0) in
        if chatID = [] then key
        else
          let frontendID = FirstNonEmpty [trim parsedFrontendID, trim frontendHint] in
          if frontendID = [] then key
          else CanonicalSessionKey frontendID (''feishu:chat:'' @ chatID))"

definition canonicalStoredSessionKey :: "string \<Rightarrow> string" where
  "canonicalStoredSessionKey key0 =
     (let key = trim key0 in
      if isAuxiliarySessionKey key then key
      else
        let (parsedFrontendID, t, parsedChatID, r, u) = ParseSessionKey key;
            chatID = trim parsedChatID in
        if chatID = [] then key
        else CanonicalSessionKey (trim parsedFrontendID) (''feishu:chat:'' @ chatID))"

definition sessionKeysEqual :: "string \<Rightarrow> string \<Rightarrow> bool" where
  "sessionKeysEqual left0 right0 =
     (let left = trim left0; right = trim right0 in
      if left = right then True
      else canonicalStoredSessionKey left = canonicalStoredSessionKey right)"

lemma canonicalStoredSessionKey_trim [simp]: "canonicalStoredSessionKey (trim k) = canonicalStoredSessionKey k"
  by (simp add: canonicalStoredSessionKey_def)

lemmas CanonicalSessionKey_chat_cons = CanonicalSessionKey_chat [unfolded append_Cons append_Nil]

lemma canonicalStoredSessionKey_cases:
  obtains (kept) "canonicalStoredSessionKey k = trim k"
    | (rewritten) f c where "key_part f" "key_part c" "c \<noteq> []" "canonicalStoredSessionKey k = canonical_text f c"
proof -
  obtain f t c r u where p: "ParseSessionKey (trim k) = (f, t, c, r, u)" by (metis prod.exhaust)
  note parts = ParseSessionKey_parts [OF p]
  then have "trim f = f" "trim c = c" by (simp_all add: key_part_def)
  then show ?thesis
    using that p parts
    by (cases "isAuxiliarySessionKey (trim k) \<or> c = []")
       (auto simp: canonicalStoredSessionKey_def Let_def CanonicalSessionKey_chat_cons)
qed

lemma canonicalStoredSessionKey_text:
  assumes "key_part f" "key_part c" "c \<noteq> []"
  shows "canonicalStoredSessionKey (canonical_text f c) = canonical_text f c"
proof -
  have "trim f = f" "trim c = c" using assms by (simp_all add: key_part_def)
  then show ?thesis
    using assms
    by (simp add: canonicalStoredSessionKey_def Let_def trim_canonical_text ParseSessionKey_canonical_text
        CanonicalSessionKey_chat_cons)
qed

lemma canonicalStoredSessionKey_idem:
  "canonicalStoredSessionKey (canonicalStoredSessionKey k) = canonicalStoredSessionKey k"
  by (cases rule: canonicalStoredSessionKey_cases [of k]) (simp_all add: canonicalStoredSessionKey_text)

text \<open>
  Comparing session keys is comparing their canonical forms, so it is an equivalence, and a
  key, however old its shape, equals its own canonical form.
\<close>

theorem sessionKeysEqual_canonical:
  "sessionKeysEqual a b = (canonicalStoredSessionKey a = canonicalStoredSessionKey b) \<and>
   sessionKeysEqual a (canonicalStoredSessionKey a)"
proof -
  have e: "sessionKeysEqual x y = (canonicalStoredSessionKey x = canonicalStoredSessionKey y)" for x y
    unfolding sessionKeysEqual_def Let_def by (metis canonicalStoredSessionKey_trim)
  show ?thesis by (simp add: e canonicalStoredSessionKey_idem)
qed

end
