(* ===== verification/Store_Invariants.thy ===== *)
theory Store_Invariants
  imports Store_Migration
begin

text \<open>
  What holds in every reachable state of the store: its operations as a step relation, with a
  restart of the process as one of the steps, and the invariant they keep. The tables hold one
  record per chat and one profile per frontend, and the persisted sessions are the stored forms
  of the sessions in memory.
\<close>

section \<open>The invariant\<close>

definition tables_ok :: "StateSnapshot \<Rightarrow> bool" where
  "tables_ok d \<longleftrightarrow> db_Version d = currentSnapshotVersion \<and> scoped_data d"

definition stored_ok :: "storedSession table \<Rightarrow> bool" where
  "stored_ok t \<longleftrightarrow> distinct (map fst t) \<and>
     (\<forall>(k, d)\<in>set t. sd_Key d = k \<and> settled_record (normalizeStoredSession d))"

lemma stored_okI:
  "distinct (map fst t) \<Longrightarrow>
   (\<And>k d. (k, d) \<in> set t \<Longrightarrow> sd_Key d = k \<and> settled_record (normalizeStoredSession d)) \<Longrightarrow> stored_ok t"
  unfolding stored_ok_def by blast

definition disk_ok :: "StateSnapshot \<Rightarrow> bool" where
  "disk_ok d \<longleftrightarrow> tables_ok d \<and> stored_ok (db_Sessions d)"

definition sessions_ok :: "Store \<Rightarrow> bool" where
  "sessions_ok s \<longleftrightarrow>
     distinct (map fst (rt_Sessions (st_runtime s))) \<and>
     fst ` set (db_Sessions (st_data s)) \<subseteq> fst ` set (rt_Sessions (st_runtime s)) \<and>
     (\<forall>(k, sess)\<in>set (rt_Sessions (st_runtime s)). ss_Key sess = k \<and>
        (trim k \<noteq> [] \<longrightarrow> map_of (db_Sessions (st_data s)) k = Some (storedSessionFromSession sess)))"

definition store_inv :: "Store \<Rightarrow> bool" where
  "store_inv s \<longleftrightarrow> disk_ok (st_data s) \<and> sessions_ok s \<and> (\<forall>d. st_disk s = Some d \<longrightarrow> disk_ok d)"

lemma store_invI:
  assumes "tables_ok (st_data s)" "stored_ok (db_Sessions (st_data s))" "sessions_ok s"
    "\<And>d. st_disk s = Some d \<Longrightarrow> disk_ok d"
  shows "store_inv s"
  using assms by (simp add: store_inv_def disk_ok_def)

lemma store_invD:
  assumes "store_inv s"
  shows "tables_ok (st_data s)" "stored_ok (db_Sessions (st_data s))" "sessions_ok s"
    "st_disk s = Some d \<Longrightarrow> disk_ok d" "scoped_data (st_data s)"
    "db_Version (st_data s) = currentSnapshotVersion"
  using assms by (auto simp: store_inv_def disk_ok_def tables_ok_def)

lemma save_inv:
  assumes "store_inv s" shows "store_inv (fst (saveLocked io s))"
proof -
  have "store_inv (s\<lparr>st_disk := Some (st_data s)\<rparr>)"
    using assms unfolding store_inv_def sessions_ok_def by simp
  with assms show ?thesis
    unfolding saveLocked_current [OF store_invD(6) [OF assms]] by (cases io) simp_all
qed

lemma save_result_inv: "saveLocked io s = (s', e) \<Longrightarrow> store_inv s \<Longrightarrow> store_inv s'"
  using save_inv [of s io] by simp

text \<open>Operations on the tables leave the sessions alone.\<close>

lemma tables_step:
  assumes "store_inv s" "scoped_data (f (st_data s))"
    "\<And>d. db_Version (f d) = db_Version d" "\<And>d. db_Sessions (f d) = db_Sessions d"
  shows "store_inv (st_data_update f s)"
  using assms store_invD [OF assms(1)]
  by (intro store_invI) (simp_all add: tables_ok_def sessions_ok_def)

text \<open>Operations on the rest of the memory leave everything persisted alone.\<close>

lemma runtime_step:
  assumes "store_inv s" "\<And>r. rt_Sessions (f r) = rt_Sessions r"
  shows "store_inv (st_runtime_update f s)"
  using assms store_invD [OF assms(1)] by (intro store_invI) (simp_all add: sessions_ok_def)

lemma settled_stored [simp]: "settled_record (normalizeStoredSession (storedSessionFromSession s))"
  by (rule settled_record_normal)

lemma sessions_okI:
  assumes "distinct (map fst (rt_Sessions (st_runtime s)))"
    "fst ` set (db_Sessions (st_data s)) \<subseteq> fst ` set (rt_Sessions (st_runtime s))"
    "\<And>k sess. (k, sess) \<in> set (rt_Sessions (st_runtime s)) \<Longrightarrow> ss_Key sess = k \<and>
      (trim k \<noteq> [] \<longrightarrow> map_of (db_Sessions (st_data s)) k = Some (storedSessionFromSession sess))"
  shows "sessions_ok s"
  using assms unfolding sessions_ok_def by blast

lemma sessions_ok_parts:
  assumes "sessions_ok s"
  shows "distinct (map fst (rt_Sessions (st_runtime s)))"
    "fst ` set (db_Sessions (st_data s)) \<subseteq> fst ` set (rt_Sessions (st_runtime s))"
    "(k, sess) \<in> set (rt_Sessions (st_runtime s)) \<Longrightarrow> ss_Key sess = k \<and>
      (trim k \<noteq> [] \<longrightarrow> map_of (db_Sessions (st_data s)) k = Some (storedSessionFromSession sess))"
proof -
  note p = assms [unfolded sessions_ok_def]
  show "distinct (map fst (rt_Sessions (st_runtime s)))" by (rule conjunct1 [OF p])
  show "fst ` set (db_Sessions (st_data s)) \<subseteq> fst ` set (rt_Sessions (st_runtime s))"
    by (rule conjunct1 [OF conjunct2 [OF p]])
  show "ss_Key sess = k \<and>
      (trim k \<noteq> [] \<longrightarrow> map_of (db_Sessions (st_data s)) k = Some (storedSessionFromSession sess))"
    if "(k, sess) \<in> set (rt_Sessions (st_runtime s))"
    using bspec [OF conjunct2 [OF conjunct2 [OF p]] that] by simp
qed

lemma sessions_okD:
  assumes "sessions_ok s" "map_of (rt_Sessions (st_runtime s)) k = Some sess"
  shows "ss_Key sess = k"
    "trim k \<noteq> [] \<Longrightarrow> map_of (db_Sessions (st_data s)) k = Some (storedSessionFromSession sess)"
  using sessions_ok_parts(3) [OF assms(1) map_of_SomeD [OF assms(2)]] by blast+

lemma sessions_ok_put:
  assumes "sessions_ok s" "ss_Key sess = k"
    "db_Sessions (st_data s') = (if trim k = [] then db_Sessions (st_data s)
       else AList.update k (storedSessionFromSession sess) (db_Sessions (st_data s)))"
    "rt_Sessions (st_runtime s') = AList.update k sess (rt_Sessions (st_runtime s))"
  shows "sessions_ok s'"
proof -
  let ?t = "rt_Sessions (st_runtime s)"
  note d = sessions_ok_parts(1) [OF assms(1)] and sub = sessions_ok_parts(2) [OF assms(1)]
    and old = sessions_ok_parts(3) [OF assms(1)]
  have "fst ` set (db_Sessions (st_data s')) \<subseteq> fst ` set (rt_Sessions (st_runtime s'))"
    using sub unfolding assms(3,4) by (cases "trim k = []") (auto simp: dom_update)
  moreover have "ss_Key x = j \<and>
      (trim j \<noteq> [] \<longrightarrow> map_of (db_Sessions (st_data s')) j = Some (storedSessionFromSession x))"
    if "(j, x) \<in> set (rt_Sessions (st_runtime s'))" for j x
    using that old [of j x] assms(2) unfolding assms(3,4) set_update [OF d]
    by (cases "j = k"; cases "trim k = []") simp_all
  moreover have "distinct (map fst (rt_Sessions (st_runtime s')))"
    unfolding assms(4) using d by (rule distinct_update)
  ultimately show ?thesis unfolding sessions_ok_def by blast
qed

lemma stored_ok_update:
  assumes "stored_ok t" "ss_Key sess = k"
  shows "stored_ok (AList.update k (storedSessionFromSession sess) t)"
proof -
  have d: "distinct (map fst t)" using assms(1) by (simp add: stored_ok_def)
  then have "distinct (map fst (AList.update k (storedSessionFromSession sess) t))" by (rule distinct_update)
  moreover have "sd_Key x = j \<and> settled_record (normalizeStoredSession x)"
    if "(j, x) \<in> set (AList.update k (storedSessionFromSession sess) t)" for j x
    using that assms unfolding set_update [OF d] stored_ok_def by (cases "j = k") auto
  ultimately show ?thesis unfolding stored_ok_def by blast
qed

lemma put_sync_inv:
  assumes inv: "store_inv s" and key: "ss_Key sess = k"
  shows "store_inv (syncPersistentSessionLocked sess (put_session k sess s))" (is "store_inv ?s")
proof (rule store_invI)
  note i = store_invD [OF inv]
  have data: "db_Sessions (st_data ?s) = (if trim k = [] then db_Sessions (st_data s)
       else AList.update k (storedSessionFromSession sess) (db_Sessions (st_data s)))"
    "scoped_data (st_data ?s) = scoped_data (st_data s)" "db_Version (st_data ?s) = db_Version (st_data s)"
    "st_disk ?s = st_disk s"
    by (simp_all add: syncPersistentSessionLocked_def put_session_def key scoped_data_def)
  show "tables_ok (st_data ?s)" using i(1) data(2,3) by (simp add: tables_ok_def)
  show "stored_ok (db_Sessions (st_data ?s))"
    using stored_ok_update [OF i(2) key] i(2) unfolding data by simp
  show "sessions_ok ?s"
    using i(3) key data(1)
    by (rule sessions_ok_put) (simp add: syncPersistentSessionLocked_def put_session_def)
  show "disk_ok d" if "st_disk ?s = Some d" for d using that i(4) unfolding data by blast
qed

section \<open>Every operation keeps it\<close>

named_theorems store_keeps \<open>operations that keep the store's invariant\<close>

lemmas table_op = save_inv tables_step scoped_insert store_invD(5)

lemma UpsertAgentBinding_inv [store_keeps]: "store_inv s \<Longrightarrow> store_inv (fst (UpsertAgentBinding now io s b))"
  unfolding UpsertAgentBinding_def Let_def same_binding_chat_def
  by (auto intro!: table_op split: option.split if_split)

lemma UpsertScopedAgentBinding_inv [store_keeps]:
  "store_inv s \<Longrightarrow> store_inv (fst (UpsertScopedAgentBinding now io s f b))"
  unfolding UpsertScopedAgentBinding_def Let_def
  by (auto intro!: UpsertAgentBinding_inv split: option.split)

lemma DeleteScopedAgentBinding_inv [store_keeps]:
  "store_inv s \<Longrightarrow> store_inv (fst (DeleteScopedAgentBinding io s f i))"
  unfolding DeleteScopedAgentBinding_def Let_def
  by (auto intro!: table_op keyed_table_delete split: option.split)

lemma UpsertBotProfile_inv [store_keeps]: "store_inv s \<Longrightarrow> store_inv (fst (UpsertBotProfile now io s p))"
  unfolding UpsertBotProfile_def Let_def sanitizeStateIDPart_def using bot_profile_id
  by (auto intro!: table_op split: option.split if_split)

lemma DeleteBotProfile_inv [store_keeps]: "store_inv s \<Longrightarrow> store_inv (fst (DeleteBotProfile io s f))"
  unfolding DeleteBotProfile_def Let_def
  by (auto intro!: table_op)

lemma upsertGroupPrimaryLocked_inv: "store_inv s \<Longrightarrow> store_inv (fst (upsertGroupPrimaryLocked now io s p))"
  unfolding upsertGroupPrimaryLocked_def Let_def
  by (auto intro!: table_op split: if_split)

lemma UpsertGroupPrimary_inv [store_keeps]: "store_inv s \<Longrightarrow> store_inv (fst (UpsertGroupPrimary now io s p))"
  by (cases p) (simp_all add: UpsertGroupPrimary_def upsertGroupPrimaryLocked_inv)

lemma EnsureGroupPrimary_inv [store_keeps]: "store_inv s \<Longrightarrow> store_inv (fst (EnsureGroupPrimary now io s p))"
  using upsertGroupPrimaryLocked_inv [of s now io]
  unfolding EnsureGroupPrimary_def Let_def
  by (auto split: option.split prod.split) (metis fst_conv)+

lemma UpsertScopedGroupPrimary_inv [store_keeps]:
  "store_inv s \<Longrightarrow> store_inv (fst (UpsertScopedGroupPrimary now io s f p))"
  unfolding UpsertScopedGroupPrimary_def Let_def
  by (auto intro!: UpsertGroupPrimary_inv split: option.split)

lemma UpsertGroupAnnouncementBlock_inv [store_keeps]:
  "store_inv s \<Longrightarrow> store_inv (fst (UpsertGroupAnnouncementBlock now io s b))"
  unfolding UpsertGroupAnnouncementBlock_def Let_def
  by (auto intro!: table_op split: option.split if_split)

lemma UpsertScopedGroupAnnouncementBlock_inv [store_keeps]:
  "store_inv s \<Longrightarrow> store_inv (fst (UpsertScopedGroupAnnouncementBlock now io s f b))"
  unfolding UpsertScopedGroupAnnouncementBlock_def Let_def
  by (auto intro!: UpsertGroupAnnouncementBlock_inv split: option.split)

text \<open>Sessions.\<close>

lemma persisted_is_loaded:
  "sessions_ok s \<Longrightarrow> map_of (rt_Sessions (st_runtime s)) k = None \<Longrightarrow>
   map_of (db_Sessions (st_data s)) k = None"
  unfolding sessions_ok_def by (auto simp: map_of_eq_None_iff)

lemma ensureSessionLocked_inv:
  assumes inv: "store_inv s"
  shows "store_inv (fst (ensureSessionLocked now s key)) \<and>
    ss_Key (snd (ensureSessionLocked now s key)) = key"
proof (cases "map_of (rt_Sessions (st_runtime s)) key")
  case None
  note i = store_invD [OF inv]
  let ?new = "zero_Session\<lparr>ss_Key := key, ss_Status := SessionStatusIdle, ss_UpdatedAt := now\<rparr>"
  have "store_inv (syncPersistentSessionLocked ?new (put_session key ?new s))"
    by (rule put_sync_inv [OF inv]) simp
  then show ?thesis using None persisted_is_loaded [OF i(3) None] by (simp add: ensureSessionLocked_def Let_def)
next
  case (Some sess)
  then show ?thesis
    using inv sessions_okD(1) [OF store_invD(3) [OF inv] Some] by (simp add: ensureSessionLocked_def)
qed

lemma UpsertSession_inv [store_keeps]:
  "store_inv s \<Longrightarrow> store_inv (fst (UpsertSession now io s sess))"
  unfolding UpsertSession_def Let_def by (auto intro!: save_inv put_sync_inv split: option.split)

lemma Enqueue_key [simp]: "ss_Key (Enqueue s i) = ss_Key s"
  by (simp add: Enqueue_def)

lemma Dequeue_key [simp]: "ss_Key (fst (Dequeue s)) = ss_Key s"
  by (simp add: Dequeue_def split: list.split)

lemma QueueSubmission_inv [store_keeps]:
  "store_inv s \<Longrightarrow> store_inv (fst (QueueSubmission now io s k i))"
  using ensureSessionLocked_inv [of s now k]
  unfolding QueueSubmission_def Let_def by (auto intro!: save_inv put_sync_inv split: prod.split)

lemma DequeueSubmission_inv [store_keeps]:
  assumes "store_inv s" shows "store_inv (fst (DequeueSubmission now io s k))"
proof -
  obtain s1 sess0 where e: "ensureSessionLocked now s k = (s1, sess0)" by fastforce
  obtain sess1 nxt where d: "Dequeue sess0 = (sess1, nxt)" by fastforce
  let ?sess = "sess1\<lparr>ss_UpdatedAt := now\<rparr>"
  have "ss_Key sess1 = k" "store_inv s1"
    using ensureSessionLocked_inv [OF assms, of now k] Dequeue_key [of sess0] by (simp_all add: e d)
  then have "store_inv (fst (saveLocked io (syncPersistentSessionLocked ?sess (put_session k ?sess s1))))"
    by (intro save_inv put_sync_inv) simp_all
  with \<open>store_inv s1\<close> show ?thesis
    unfolding DequeueSubmission_def by (simp add: e d Let_def case_prod_beta)
qed

text \<open>A mutation that does not rename the session.\<close>

definition keeps_key :: "(Session \<Rightarrow> Session) option \<Rightarrow> bool" where
  "keeps_key mutate \<longleftrightarrow> (\<forall>f x. mutate = Some f \<longrightarrow> ss_Key (f x) = ss_Key x)"

lemma keeps_key_mutated:
  "keeps_key mutate \<Longrightarrow> ss_Key (case mutate of None \<Rightarrow> x | Some f \<Rightarrow> f x) = ss_Key x"
  by (cases mutate) (simp_all add: keeps_key_def)

lemma UpdateSession_inv:
  assumes "store_inv s" "keeps_key mutate"
  shows "store_inv (fst (UpdateSession now io s k mutate))"
proof (cases "map_of (rt_Sessions (st_runtime s)) (trim k)")
  case (Some previous)
  let ?sess = "(normalizeSessionValues (case mutate of None \<Rightarrow> cloneSession previous
     | Some f \<Rightarrow> f (cloneSession previous)))\<lparr>ss_UpdatedAt := now\<rparr>"
  let ?s = "syncPersistentSessionLocked ?sess (put_session (trim k) ?sess s)"
  have "ss_Key previous = trim k" using sessions_okD(1) [OF store_invD(3) [OF assms(1)] Some] .
  then have "ss_Key ?sess = trim k" using keeps_key_mutated [OF assms(2)] by simp
  then have "store_inv (fst (saveLocked io ?s))"
    using assms(1) by (intro save_inv put_sync_inv) simp_all
  then have "store_inv s' \<and> store_inv (syncPersistentSessionLocked previous (put_session (trim k) previous s'))"
    if "saveLocked io ?s = (s', e)" for s' e
    using that put_sync_inv [of s' previous "trim k"] \<open>ss_Key previous = trim k\<close> by simp
  with Some assms(1) show ?thesis
    unfolding UpdateSession_def by (auto simp: Let_def split: prod.split option.split)
qed (simp add: UpdateSession_def assms Let_def)

text \<open>Submissions, requests, links and counters live in memory only.\<close>

lemma runtime_ops_inv [store_keeps]:
  "store_inv s \<Longrightarrow> store_inv (fst (CreateSubmission now stamp s sub))"
  "store_inv s \<Longrightarrow> store_inv (fst (UpdateSubmission now s i f))"
  "store_inv s \<Longrightarrow> store_inv (DeleteSubmission s i)"
  "store_inv s \<Longrightarrow> store_inv (fst (NextLocalID stamp s p))"
  "store_inv s \<Longrightarrow> store_inv (UpsertPending s req)"
  "store_inv s \<Longrightarrow> store_inv (fst (UpdateScopedPending s fid i g))"
  "store_inv s \<Longrightarrow> store_inv (DeleteScopedPending s fid i)"
  "store_inv s \<Longrightarrow> store_inv (DeletePendingRequests s match)"
  "store_inv s \<Longrightarrow> store_inv (UpsertMessageLink s link)"
  "store_inv s \<Longrightarrow> store_inv (DeleteMessageLinks s lmatch)"
  by (auto simp: CreateSubmission_def UpdateSubmission_def DeleteSubmission_def NextLocalID_def
      UpsertPending_def UpdateScopedPending_def DeleteScopedPending_def DeletePendingRequests_def
      UpsertMessageLink_def DeleteMessageLinks_def Let_def
      intro!: runtime_step split: option.split)

text \<open>Notifications are persisted, in a table of their own.\<close>

lemma scoped_data_notes [simp]: "scoped_data (db_FrontendCardNotifications_update f d) = scoped_data d"
  by (simp add: scoped_data_def)

lemma notes_inv: "store_inv s \<Longrightarrow> store_inv (st_data_update (db_FrontendCardNotifications_update f) s)"
  by (rule tables_step) (simp_all add: store_invD(5))

lemma AppendFrontendCardNotification_inv [store_keeps]:
  "store_inv s \<Longrightarrow> store_inv (fst (AppendFrontendCardNotification now io s fid note))"
  unfolding AppendFrontendCardNotification_def put_notes_def Let_def
  by (auto intro!: save_inv notes_inv split: option.split)

lemma DeleteFrontendCardNotificationsByCollapseKey_inv [store_keeps]:
  "store_inv s \<Longrightarrow> store_inv (fst (DeleteFrontendCardNotificationsByCollapseKey io s fid key))"
  unfolding DeleteFrontendCardNotificationsByCollapseKey_def put_notes_def Let_def
  by (auto intro!: save_inv notes_inv)

lemma DrainFrontendCardNotifications_inv [store_keeps]:
  "store_inv s \<Longrightarrow> store_inv (fst (DrainFrontendCardNotifications io s fid))"
  using save_inv [OF notes_inv]
  unfolding DrainFrontendCardNotifications_def Let_def by (simp add: case_prod_beta)

section \<open>Opening\<close>

lemma normalize_table_clean:
  assumes "distinct (map fst t)"
    "\<And>k v. (k, v) \<in> set t \<Longrightarrow> ident (clone v) = k \<and> k \<noteq> [] \<and> keep (clone v)"
  shows "normalize_table clone ident set_ident keep t = map (map_prod id clone) t"
proof -
  let ?f = "\<lambda>(key, value) dst.
             let cp0 = clone value;
                 cp = (if ident cp0 = [] then set_ident (trim key) cp0 else cp0) in
             if ident cp = [] \<or> \<not> keep cp then dst else AList.update (ident cp) cp dst"
  have "fold ?f t acc = acc @ map (map_prod id clone) t"
    if "distinct (map fst (acc @ t))" "\<forall>(k, v)\<in>set t. ident (clone v) = k \<and> k \<noteq> [] \<and> keep (clone v)" for acc
    using that
  proof (induction t arbitrary: acc)
    case (Cons e t)
    obtain k v where e: "e = (k, v)" by fastforce
    have "k \<notin> fst ` set acc" using Cons.prems(1) by (auto simp: e)
    then have "fold ?f (e # t) acc = fold ?f t (acc @ [(k, clone v)])"
      using Cons.prems(2) by (simp add: e update_new Let_def)
    also have "\<dots> = (acc @ [(k, clone v)]) @ map (map_prod id clone) t"
      using Cons.prems by (intro Cons.IH) (auto simp: e)
    finally show ?case by (simp only: e append_assoc append_Cons append_Nil list.map map_prod_simp id_def)
  qed simp
  from this [of "[]"] assms show ?thesis by (auto simp: normalize_table_def)
qed

lemma keyed_table_map:
  assumes "keyed_table good ident scope t"
    "\<And>v. good v \<Longrightarrow> ident (clone v) = ident v \<and> good (clone v) \<and> scope (clone v) = scope v"
  shows "keyed_table good ident scope (map (map_prod id clone) t)"
proof (rule keyed_tableI)
  note t = keyed_tableD [OF assms(1)]
  show "distinct (map fst (map (map_prod id clone) t))" using t(1) by (simp add: comp_def)
  show "ident v = i \<and> good v" if "(i, v) \<in> set (map (map_prod id clone) t)" for i v
    using that t(2,3) assms(2) by auto
  show "i = j" if iv: "(i, v) \<in> set (map (map_prod id clone) t)"
    and jw: "(j, w) \<in> set (map (map_prod id clone) t)" and sc: "scope v = scope w" for i v j w
  proof -
    from iv obtain v' where "(i, v') \<in> set t" "v = clone v'" by auto
    moreover from jw obtain w' where "(j, w') \<in> set t" "w = clone w'" by auto
    ultimately show ?thesis using sc assms(2) t(3,4) by metis
  qed
qed

lemma keyed_table_open:
  assumes "keyed_table good ident scope t"
    "\<And>v. good v \<Longrightarrow> ident v \<noteq> [] \<and> ident (clone v) = ident v \<and> good (clone v) \<and> scope (clone v) = scope v
       \<and> keep (clone v)"
  shows "keyed_table good ident scope (normalize_table clone ident set_ident keep t)"
proof -
  have "normalize_table clone ident set_ident keep t = map (map_prod id clone) t"
    using keyed_tableD(1) [OF assms(1)]
  proof (rule normalize_table_clean)
    show "ident (clone v) = k \<and> k \<noteq> [] \<and> keep (clone v)" if "(k, v) \<in> set t" for k v
      using assms(2) [OF keyed_tableD(3) [OF assms(1) that]] keyed_tableD(2) [OF assms(1) that] by metis
  qed
  moreover have "keyed_table good ident scope (map (map_prod id clone) t)"
    using assms by (intro keyed_table_map) auto
  ultimately show ?thesis by simp
qed

lemma open_data_scoped: "scoped_data d \<Longrightarrow> scoped_data (open_data d)"
  unfolding scoped_data_def
  by (auto simp: open_data_def normalizeAgentBindings_def normalizeBotProfiles_def
      normalizeGroupPrimaries_def normalizeGroupAnnouncementBlocks_def intro!: keyed_table_open)


lemma open_data_disk_ok:
  assumes "disk_ok d"
  shows "disk_ok (open_data d)"
proof -
  have s: "tables_ok d" "stored_ok (db_Sessions d)" using assms by (simp_all add: disk_ok_def)
  have "tables_ok (open_data d)"
    using s(1) open_data_scoped [of d] by (simp add: tables_ok_def) (simp add: open_data_def)
  moreover have "stored_ok (db_Sessions (open_data d))"
  proof -
    have "distinct (map fst (map (map_prod id normalizeStoredSession) (db_Sessions d)))"
      using s(2) by (simp add: stored_ok_def comp_def)
    moreover have "sd_Key v = k \<and> settled_record (normalizeStoredSession v)"
      if "(k, v) \<in> set (map (map_prod id normalizeStoredSession) (db_Sessions d))" for k v
      using that s(2) by (auto simp: stored_ok_def)
    ultimately have "stored_ok (map (map_prod id normalizeStoredSession) (db_Sessions d))"
      by (rule stored_okI)
    then show ?thesis by (simp add: open_data_def)
  qed
  ultimately show ?thesis by (simp add: disk_ok_def)
qed

text \<open>The store that a snapshot gives.\<close>

definition opened :: "StateSnapshot \<Rightarrow> Store" where
  "opened loaded =
     \<lparr>st_data = open_data loaded,
      st_runtime = empty_runtimeState
        \<lparr>rt_Sessions := map (map_prod id sessionFromStored) (db_Sessions (open_data loaded))\<rparr>,
      st_disk = Some loaded\<rparr>"

lemma Open_opened: "fst (Open io (Some d)) = opened d \<or> fst (Open io (Some d)) = fst (saveLocked io (opened d))"
  unfolding Open_def opened_def Let_def by simp

lemma opened_sessions_ok:
  assumes "disk_ok d"
  shows "sessions_ok (opened d)"
proof -
  let ?t = "db_Sessions (open_data d)"
  have t: "stored_ok ?t" using open_data_disk_ok [OF assms] by (simp add: disk_ok_def)
  then have d: "distinct (map fst ?t)" by (simp add: stored_ok_def)
  have "ss_Key sess = k \<and> map_of ?t k = Some (storedSessionFromSession sess)"
    if "(k, sess) \<in> set (map (map_prod id sessionFromStored) ?t)" for k sess
  proof -
    from that obtain v where v: "(k, v) \<in> set ?t" "sess = sessionFromStored v" by auto
    then have norm: "normalizeStoredSession v = v" by (auto simp: open_data_def)
    have "sd_Key v = k \<and> settled_record (normalizeStoredSession v)"
      using t v(1) by (auto simp: stored_ok_def)
    with norm have "sd_Key v = k" "storedSessionFromSession sess = v"
      by (simp_all add: settled_record_def v(2))
    with v d show ?thesis by simp
  qed
  moreover have "distinct (map fst (map (map_prod id sessionFromStored) ?t))"
    using d by (simp add: comp_def)
  moreover have "fst ` set ?t \<subseteq> fst ` set (map (map_prod id sessionFromStored) ?t)"
    by force
  ultimately show ?thesis by (intro sessions_okI) (simp_all add: opened_def)
qed

lemma opened_inv: "disk_ok d \<Longrightarrow> store_inv (opened d)"
  using open_data_disk_ok [of d] opened_sessions_ok [of d]
  unfolding store_inv_def by (simp add: opened_def)

lemma Open_inv: "disk_ok d \<Longrightarrow> store_inv (fst (Open io (Some d)))"
  using Open_opened [of io d] opened_inv [of d] save_inv by metis

lemma empty_Store_inv: "store_inv empty_Store"
proof -
  have "scoped_data (st_data empty_Store)" by (simp add: empty_Store_def)
  then show ?thesis
    unfolding store_inv_def disk_ok_def tables_ok_def stored_ok_def sessions_ok_def
    by (simp add: empty_Store_def) (simp add: empty_StateSnapshot_def empty_runtimeState_def)
qed

lemma Open_new_inv: "store_inv (fst (Open io None))"
  by (simp add: Open_def save_inv empty_Store_inv)

section \<open>Commits keep it\<close>

lemma disk_inv: "store_inv s \<Longrightarrow> disk_ok d \<Longrightarrow> store_inv (s\<lparr>st_disk := Some d\<rparr>)"
  unfolding store_inv_def sessions_ok_def by simp

lemma disk_ok_data: "store_inv s \<Longrightarrow> disk_ok (st_data s)"
  by (simp add: store_inv_def)

lemma put_normalized_inv: "store_inv s \<Longrightarrow> store_inv (put_normalized now x s)"
  unfolding put_normalized_def Let_def by (rule put_sync_inv) simp_all

lemma put_all_inv: "store_inv s \<Longrightarrow> store_inv (fold (put_normalized now) xs s)"
  by (induction xs arbitrary: s) (simp_all add: put_normalized_inv)

lemma CommitTerminal_inv [store_keeps]:
  assumes "store_inv s"
  shows "store_inv (fst (CommitTerminal now io s es ns eu nu ers nrs))"
proof -
  have c: "current s" using store_invD(6) [OF assms] .
  have new: "store_inv (terminal_replace now x y nrs s)" for x y
    unfolding terminal_replace_def Let_def
    by (rule runtime_step) (simp_all add: put_normalized_inv assms)
  have "store_inv (fst (case saveLocked io (terminal_replace now x y nrs s) of
      (s', None) \<Rightarrow> (s', None) | (s', Some e) \<Rightarrow> (restore_terminal s s', Some e)))" for x y
    using save_inv [OF new, of io x y] assms c
    by (cases io) (simp_all add: saveLocked_current terminal_replace_frame)
  with assms show ?thesis
    unfolding CommitTerminal_def by (simp split: option.split)
qed

lemma CommitBackendSessions_inv [store_keeps]:
  assumes "store_inv s"
  shows "store_inv (fst (CommitBackendSessions now io cfg io2 s expected xs))"
proof -
  let ?s = "fold (put_normalized now) xs s"
  obtain d r where f: "?s =
      s\<lparr>st_data := (st_data s)\<lparr>db_Sessions := d\<rparr>, st_runtime := (st_runtime s)\<lparr>rt_Sessions := r\<rparr>\<rparr>"
    using put_all_frame by blast
  note u = restore_sessions_undoes [OF f]
  have c: "current s" "current ?s" using u(3) store_invD(6) [OF assms] by simp_all
  have i: "store_inv ?s" "disk_ok (st_data ?s)" using put_all_inv [OF assms] disk_ok_data by blast+
  show ?thesis
    using assms i disk_ok_data [OF assms] c(1)
    by (cases io; cases cfg; cases io2)
       (simp_all add: CommitBackendSessions_def saveLocked_current [OF c(2)] u saveLocked_current disk_inv)
qed

lemma put_profiles_sessions [simp]:
  "rt_Sessions (st_runtime (put_profile now p s)) = rt_Sessions (st_runtime s)"
  "db_Sessions (st_data (put_profile now p s)) = db_Sessions (st_data s)"
  "st_disk (put_profile now p s) = st_disk s"
  "rt_Sessions (st_runtime (put_binding now b s)) = rt_Sessions (st_runtime s)"
  "db_Sessions (st_data (put_binding now b s)) = db_Sessions (st_data s)"
  "st_disk (put_binding now b s) = st_disk s"
  by (cases b; simp add: put_profile_def put_binding_def Let_def)+

text \<open>A workspace change may write any binding and profiles; it keeps the tables if those do.\<close>

lemma CommitWorkspace_inv:
  assumes "store_inv s" "scoped_data (st_data (workspace_change now change s))"
  shows "store_inv (fst (CommitWorkspace now io cfg io2 s change))"
proof -
  let ?s = "workspace_change now change s"
  let ?a = "fold (put_normalized now) (wm_Sessions change) s"
  note u = workspace_change_frame [where s = s and now = now and change = change]
  have c: "current s" "current ?s" using u(3) store_invD(6) [OF assms(1)] by simp_all
  note a = store_invD [OF put_all_inv [OF assms(1), of now "wm_Sessions change"]]
  have same: "rt_Sessions (st_runtime ?s) = rt_Sessions (st_runtime ?a)"
    "db_Sessions (st_data ?s) = db_Sessions (st_data ?a)" "st_disk ?s = st_disk ?a"
  proof -
    have "rt_Sessions (st_runtime (fold (put_profile now) ps x)) = rt_Sessions (st_runtime x) \<and>
      db_Sessions (st_data (fold (put_profile now) ps x)) = db_Sessions (st_data x) \<and>
      st_disk (fold (put_profile now) ps x) = st_disk x" for ps x
      by (induction ps arbitrary: x) simp_all
    then show "rt_Sessions (st_runtime ?s) = rt_Sessions (st_runtime ?a)"
      "db_Sessions (st_data ?s) = db_Sessions (st_data ?a)" "st_disk ?s = st_disk ?a" by simp_all
  qed
  have i: "store_inv ?s"
  proof (rule store_invI)
    show "tables_ok (st_data ?s)" using assms(2) c(2) by (simp add: tables_ok_def)
    show "stored_ok (db_Sessions (st_data ?s))" using a(2) by (simp only: same)
    show "sessions_ok ?s" using a(3) unfolding sessions_ok_def same .
    show "disk_ok d" if "st_disk ?s = Some d" for d using that a(4) by (simp only: same)
  qed
  show ?thesis
    using assms(1) i disk_ok_data [OF i] disk_ok_data [OF assms(1)] c(1)
    by (cases io; cases cfg; cases "the cfg"; cases io2)
       (simp_all add: CommitWorkspace_def Let_def saveLocked_current [OF c(2)] u saveLocked_current disk_inv)
qed

section \<open>Moving the sessions to new keys keeps it\<close>

lemma rekey_binding_fields [simp]:
  "ab_ID (rekey_binding c b) = ab_ID b" "ab_FrontendID (rekey_binding c b) = ab_FrontendID b"
  "ab_ChatType (rekey_binding c b) = ab_ChatType b" "ab_ChatID (rekey_binding c b) = ab_ChatID b"
  by (simp_all add: rekey_binding_def Let_def)

lemma sync_all_sessions:
  assumes "distinct (map fst (db_Sessions (st_data s)) @ map fst t)" "\<forall>(k, x)\<in>set t. ss_Key x = k"
  shows "fold (\<lambda>(key, sess). syncPersistentSessionLocked sess) t s =
    st_data_update (db_Sessions_update (\<lambda>db. db @ map (map_prod id storedSessionFromSession)
      (filter (\<lambda>(k, x). trim k \<noteq> []) t))) s"
  using assms
proof (induction t arbitrary: s)
  case (Cons e t)
  obtain k x where e: "e = (k, x)" "ss_Key x = k" using Cons.prems(2) by (cases e) auto
  show ?case
  proof (cases "trim k = []")
    case True
    with Cons show ?thesis by (simp add: e syncPersistentSessionLocked_def)
  next
    case False
    have new: "k \<notin> fst ` set (db_Sessions (st_data s))" using Cons.prems(1) by (auto simp: e)
    have "syncPersistentSessionLocked x s =
        st_data_update (db_Sessions_update (\<lambda>db. db @ [(k, storedSessionFromSession x)])) s"
      using False new e(2) by (simp add: syncPersistentSessionLocked_def update_new)
    with False Cons.prems Cons.IH [of "syncPersistentSessionLocked x s"] show ?thesis
      by (auto simp: e comp_def)
  qed
qed simp

lemma add_all_distinct: "distinct (map fst (snd (fold (add_session c) es (b, [])))) "
proof -
  have "distinct (map fst (snd (fold (add_session c) es (b, t))))" if "distinct (map fst t)" for t
    using that
  proof (induction es arbitrary: b t)
    case (Cons e es)
    obtain b' t' where a: "add_session c e (b, t) = (b', t')" by fastforce
    from queued.all_work_add [OF Cons.prems a] Cons.IH [of t' b'] show ?case by (simp add: a)
  qed simp
  then show ?thesis by simp
qed

lemma resync_inv:
  assumes "tables_ok (st_data s)" "db_Sessions (st_data s) = []" "\<And>d. st_disk s = Some d \<Longrightarrow> disk_ok d"
    "distinct (map fst (rt_Sessions (st_runtime s)))" "\<forall>(k, x)\<in>set (rt_Sessions (st_runtime s)). ss_Key x = k"
  shows "store_inv (fold (\<lambda>(key, sess). syncPersistentSessionLocked sess) (rt_Sessions (st_runtime s)) s)"
proof -
  let ?t = "rt_Sessions (st_runtime s)"
  let ?db = "map (map_prod id storedSessionFromSession) (filter (\<lambda>(k, x). trim k \<noteq> []) ?t)"
  have "fold (\<lambda>(key, sess). syncPersistentSessionLocked sess) ?t s =
      st_data_update (db_Sessions_update (\<lambda>_. ?db)) s"
    using assms(4,5) by (subst sync_all_sessions) (auto simp: assms(2))
  moreover have "store_inv (st_data_update (db_Sessions_update (\<lambda>_. ?db)) s)"
  proof (rule store_invI)
    show "tables_ok (st_data (st_data_update (db_Sessions_update (\<lambda>_. ?db)) s))"
      using assms(1) by (simp add: tables_ok_def scoped_data_def)
    have d: "distinct (map fst ?db)"
      using distinct_filter_fst [OF assms(4)] by (simp add: comp_def)
    have "stored_ok ?db"
      using d
    proof (rule stored_okI)
      show "sd_Key d = k \<and> settled_record (normalizeStoredSession d)" if "(k, d) \<in> set ?db" for k d
        using that assms(5) by auto
    qed
    then show "stored_ok (db_Sessions (st_data (st_data_update (db_Sessions_update (\<lambda>_. ?db)) s)))" by simp
    show "sessions_ok (st_data_update (db_Sessions_update (\<lambda>_. ?db)) s)"
    proof (rule sessions_okI)
      fix k sess assume in_t: "(k, sess) \<in> set (rt_Sessions (st_runtime (st_data_update (db_Sessions_update (\<lambda>_. ?db)) s)))"
      have "trim k \<noteq> [] \<Longrightarrow> (k, storedSessionFromSession sess) \<in> set ?db" using in_t by force
      with d in_t assms(5) show "ss_Key sess = k \<and> (trim k \<noteq> [] \<longrightarrow>
          map_of (db_Sessions (st_data (st_data_update (db_Sessions_update (\<lambda>_. ?db)) s))) k =
            Some (storedSessionFromSession sess))"
        by (auto simp del: set_map)
    qed (use assms(4) in \<open>force+\<close>)
  qed (use assms(3) in simp)
  ultimately show ?thesis by simp
qed

lemma CanonicalizeSessionKeys_inv [store_keeps]:
  assumes "store_inv s"
  shows "store_inv (fst (CanonicalizeSessionKeys io s c))"
proof (cases c)
  case (Some can)
  note i = store_invD [OF assms]
  obtain m t where f: "fold (add_session can) (rt_Sessions (st_runtime s)) (False, []) = (m, t)" by fastforce
  let ?b = "map (map_prod id (rekey_binding can)) (db_AgentBindings (st_data s))"
  let ?s1 = "s\<lparr>st_data := (st_data s)\<lparr>db_AgentBindings := ?b\<rparr>\<rparr>"
  let ?t = "map (\<lambda>(key, sess). (key, sess\<lparr>ss_Key := key\<rparr>)) t"
  let ?s2 = "?s1\<lparr>st_data := (st_data ?s1)\<lparr>db_Sessions := []\<rparr>, st_runtime := (st_runtime ?s1)\<lparr>rt_Sessions := ?t\<rparr>\<rparr>"
  have b: "keyed_table good_binding ab_ID binding_scope ?b"
    using scoped_dataD(1) [OF i(5)] by (rule keyed_table_map) simp
  have sc: "scoped_data ((st_data s)\<lparr>db_AgentBindings := ?b\<rparr>)"
    using b scoped_dataD [OF i(5)] by (simp add: scoped_data_def)
  have s1: "store_inv ?s1"
    using i sc by (intro store_invI) (simp_all add: tables_ok_def sessions_ok_def)
  have d: "distinct (map fst t)" using add_all_distinct [of can "rt_Sessions (st_runtime s)" False] f by simp
  have "store_inv (fold (\<lambda>(key, sess). syncPersistentSessionLocked sess) (rt_Sessions (st_runtime ?s2)) ?s2)"
  proof (rule resync_inv)
    show "tables_ok (st_data ?s2)" using sc i(6) by (simp add: tables_ok_def scoped_data_def)
    show "distinct (map fst (rt_Sessions (st_runtime ?s2)))"
      using d by (simp add: comp_def case_prod_beta)
  qed (use i(4) in auto)
  then have "store_inv (fold (\<lambda>(key, sess). syncPersistentSessionLocked sess) ?t ?s2)" by simp
  note s2 = save_inv [OF this, of io]
  show ?thesis
    using assms s1 s2 unfolding CanonicalizeSessionKeys_def by (simp add: Some f Let_def)
qed (simp add: CanonicalizeSessionKeys_def assms)

section \<open>The store as a state machine\<close>

text \<open>
  One rule per operation; the clock, the answers of the file system and of the configuration
  hook are arbitrary. \<open>restart\<close> is a new process that opens the file last written.
\<close>

inductive store_step :: "Store \<Rightarrow> Store \<Rightarrow> bool" where
  upsert_binding: "store_step s (fst (UpsertAgentBinding now io s b))"
| upsert_scoped_binding: "store_step s (fst (UpsertScopedAgentBinding now io s f b))"
| delete_binding: "store_step s (fst (DeleteScopedAgentBinding io s f i))"
| upsert_profile: "store_step s (fst (UpsertBotProfile now io s p))"
| delete_profile: "store_step s (fst (DeleteBotProfile io s f))"
| upsert_primary: "store_step s (fst (UpsertGroupPrimary now io s g))"
| ensure_primary: "store_step s (fst (EnsureGroupPrimary now io s g))"
| upsert_scoped_primary: "store_step s (fst (UpsertScopedGroupPrimary now io s f g))"
| upsert_block: "store_step s (fst (UpsertGroupAnnouncementBlock now io s n))"
| upsert_scoped_block: "store_step s (fst (UpsertScopedGroupAnnouncementBlock now io s f n))"
| upsert_session: "store_step s (fst (UpsertSession now io s x))"
| update_session: "keeps_key mutate \<Longrightarrow>
    store_step s (fst (UpdateSession now io s k mutate))"
| queue_submission: "store_step s (fst (QueueSubmission now io s k i))"
| dequeue_submission: "store_step s (fst (DequeueSubmission now io s k))"
| create_submission: "store_step s (fst (CreateSubmission now stamp s sub))"
| update_submission: "store_step s (fst (UpdateSubmission now s i m))"
| delete_submission: "store_step s (DeleteSubmission s i)"
| next_local_id: "store_step s (fst (NextLocalID stamp s p))"
| upsert_pending: "store_step s (UpsertPending s req)"
| update_pending: "store_step s (fst (UpdateScopedPending s f i g))"
| delete_pending: "store_step s (DeleteScopedPending s f i)"
| delete_pending_requests: "store_step s (DeletePendingRequests s q)"
| upsert_link: "store_step s (UpsertMessageLink s l)"
| delete_links: "store_step s (DeleteMessageLinks s lq)"
| append_note: "store_step s (fst (AppendFrontendCardNotification now io s f note))"
| delete_notes: "store_step s (fst (DeleteFrontendCardNotificationsByCollapseKey io s f k))"
| drain_notes: "store_step s (fst (DrainFrontendCardNotifications io s f))"
| commit_terminal: "store_step s (fst (CommitTerminal now io s es ns eu nu ers nrs))"
| commit_backend: "store_step s (fst (CommitBackendSessions now io cfg io2 s ex xs))"
| commit_workspace: "scoped_data (st_data (workspace_change now c s)) \<Longrightarrow>
    store_step s (fst (CommitWorkspace now io wcfg io2 s c))"
| canonicalize: "store_step s (fst (CanonicalizeSessionKeys io s can))"
| restart: "st_disk s = Some d \<Longrightarrow> store_step s (fst (Open io (Some d)))"

inductive store_reachable :: "Store \<Rightarrow> bool" where
  open_new: "store_reachable (fst (Open io None))"
| step: "store_reachable s \<Longrightarrow> store_step s s' \<Longrightarrow> store_reachable s'"

lemma store_step_inv: "store_step s s' \<Longrightarrow> store_inv s \<Longrightarrow> store_inv s'"
proof (induction rule: store_step.induct)
  case (restart s d io)
  then show ?case using store_invD(4) Open_inv by blast
next
  case (commit_workspace now c s io wcfg io2)
  then show ?case by (intro CommitWorkspace_inv)
next
  case (update_session mutate s now io k)
  then show ?case by (intro UpdateSession_inv)
qed (rule store_keeps, assumption)+

lemma reachable_inv: "store_reachable s \<Longrightarrow> store_inv s"
  by (induction rule: store_reachable.induct) (auto intro: Open_new_inv store_step_inv)

lemma reachable_current: "store_reachable s \<Longrightarrow> current s"
  using reachable_inv store_invD(6) by blast

section \<open>One record per chat\<close>

lemma length_clones [simp]:
  "length (cloneAgentBindingsMatching t P) = length (filter P (map snd t))"
  "length (cloneGroupPrimariesMatching t' P') = length (filter P' (map snd t'))"
  "length (cloneGroupAnnouncementBlocksMatching t'' P'') = length (filter P'' (map snd t''))"
  by (simp_all add: cloneAgentBindingsMatching_def cloneGroupPrimariesMatching_def
      cloneGroupAnnouncementBlocksMatching_def)

lemma one_binding:
  assumes "scoped_data (st_data s)" "trim ct \<noteq> []"
  shows "length (AgentBindingsByChat s f ct c) \<le> 1"
proof (cases "trim c = []")
  case False
  have "length (AgentBindingsByChat s f ct c) = length (filter
      (\<lambda>b. if ab_FrontendID b \<noteq> trim f \<or> ab_ChatID b \<noteq> trim c then False
           else to_lower (trim ct) = [] \<or> ab_ChatType b = to_lower (trim ct))
      (map snd (db_AgentBindings (st_data s))))"
    using False by (simp add: AgentBindingsByChat_def Let_def)
  also have "\<dots> \<le> 1"
    by (rule keyed_table_unique [OF scoped_dataD(1) [OF assms(1)], where k = "(trim f, to_lower (trim ct), trim c)"])
       (use assms(2) in \<open>auto split: if_splits\<close>)
  finally show ?thesis .
qed (simp add: AgentBindingsByChat_def)

lemma one_primary:
  assumes "scoped_data (st_data s)" "trim f \<noteq> []" "trim ct \<noteq> []"
  shows "length (GroupPrimariesByChat s f ct c) \<le> 1"
proof (cases "trim c = []")
  case False
  have "length (GroupPrimariesByChat s f ct c) = length (filter
      (\<lambda>p. if gp_ChatID p \<noteq> trim c then False
           else if trim f \<noteq> [] \<and> trim (gp_FrontendID p) \<noteq> trim f then False
           else to_lower (trim ct) = [] \<or> gp_ChatType p = to_lower (trim ct))
      (map snd (db_GroupPrimaries (st_data s))))"
    using False by (simp add: GroupPrimariesByChat_def Let_def)
  also have "\<dots> \<le> 1"
    by (rule keyed_table_unique [OF scoped_dataD(3) [OF assms(1)], where k = "(trim f, to_lower (trim ct), trim c)"])
       (use assms(2,3) in \<open>auto split: if_splits\<close>)
  finally show ?thesis .
qed (simp add: GroupPrimariesByChat_def)

lemma one_block:
  assumes "scoped_data (st_data s)" "trim ct \<noteq> []"
  shows "length (GroupAnnouncementBlocksByChat (Some s) f ct c) \<le> 1"
proof (cases "trim c = []")
  case False
  have "length (GroupAnnouncementBlocksByChat (Some s) f ct c) = length (filter
      (\<lambda>r. if trim (gb_FrontendID r) \<noteq> trim f \<or> trim (gb_ChatID r) \<noteq> trim c then False
           else to_lower (trim ct) = [] \<or> to_lower (trim (gb_ChatType r)) = to_lower (trim ct))
      (map snd (db_GroupAnnouncementBlocks (st_data s))))"
    using False by (simp add: GroupAnnouncementBlocksByChat_def Let_def)
  also have "\<dots> \<le> 1"
    by (rule keyed_table_unique [OF scoped_dataD(4) [OF assms(1)], where k = "(trim f, to_lower (trim ct), trim c)"])
       (use assms(2) in \<open>auto split: if_splits\<close>)
  finally show ?thesis .
qed (simp add: GroupAnnouncementBlocksByChat_def)

lemma one_profile:
  assumes "scoped_data (st_data s)"
  shows "length (filter (\<lambda>p. bp_FrontendID p = f) (AllBotProfiles s)) \<le> 1"
proof -
  have "length (filter (\<lambda>p. bp_FrontendID p = f) (AllBotProfiles s)) =
    length (filter (\<lambda>p. trim (bp_FrontendID p) = f) (map snd (db_BotProfiles (st_data s))))"
    by (simp add: AllBotProfiles_def cloneBotProfiles_def filter_sort filter_map comp_def)
  also have "\<dots> \<le> 1"
    by (rule keyed_table_unique [OF scoped_dataD(2) [OF assms], where k = f]) auto
  finally show ?thesis .
qed


text \<open>A store after two primaries of one chat were written: the second is refused.\<close>

definition first_primary :: GroupPrimary where
  "first_primary =
     \<lparr>gp_ID = ''p1'', gp_FrontendID = ''f'', gp_ChatID = ''c'', gp_ChatType = ''group'', gp_Enabled = True,
      gp_LastAssignmentMessageID = [], gp_LastAssignmentCreatedAt = 0, gp_CreatedAt = 0, gp_UpdatedAt = 0\<rparr>"

definition first_store :: Store where
  "first_store = fst (UpsertGroupPrimary 5 None (fst (Open None None)) (Some first_primary))"

definition second_store :: Store where
  "second_store = fst (UpsertGroupPrimary 6 None first_store
     (Some (first_primary\<lparr>gp_ID := ''p2'', gp_FrontendID := '' f '', gp_ChatType := ''Group''\<rparr>)))"

lemma second_reachable: "store_reachable first_store" "store_reachable second_store"
proof -
  show first: "store_reachable first_store"
    unfolding first_store_def by (rule store_reachable.step [OF store_reachable.open_new store_step.upsert_primary])
  show "store_reachable second_store"
    unfolding second_store_def by (rule store_reachable.step [OF first store_step.upsert_primary])
qed


section \<open>Updating a session\<close>

lemma put_back:
  assumes "store_inv s" "map_of (rt_Sessions (st_runtime s)) k = Some previous" "ss_Key sess = k" "trim k \<noteq> []"
  shows "syncPersistentSessionLocked previous (put_session k previous
      (syncPersistentSessionLocked sess (put_session k sess s))) = s"
proof -
  have "ss_Key previous = k"
    and "map_of (db_Sessions (st_data s)) k = Some (storedSessionFromSession previous)"
    using sessions_okD [OF store_invD(3) [OF assms(1)] assms(2)] assms(4) by simp_all
  then show ?thesis
    using assms(2-4) by (simp add: syncPersistentSessionLocked_def put_session_def update_same comp_def)
qed


text \<open>A store with one session, as a new process creates it.\<close>

definition session_store :: Store where
  "session_store = fst (UpsertSession 5 None (fst (Open None None))
     (Some (zero_Session\<lparr>ss_Key := ''feishu:chat:c'', ss_ModelOverride := ''m'', ss_Queue := [''u'']\<rparr>)))"

lemma session_store_reachable: "store_reachable session_store"
  unfolding session_store_def
  by (rule store_reachable.step [OF store_reachable.open_new store_step.upsert_session])


section \<open>Restarting\<close>

lemma saved_disk: "current s \<Longrightarrow> st_disk (fst (saveLocked None s)) = Some (st_data (fst (saveLocked None s)))"
  by (simp add: saveLocked_current)

text \<open>What a session is after a restart: idle, nothing queued or running, the rest as stored.\<close>

definition restarted :: "Session \<Rightarrow> Session \<Rightarrow> bool" where
  "restarted x y \<longleftrightarrow>
     storedSessionFromSession y = normalizeStoredSession (storedSessionFromSession x) \<and>
     ss_Status y = SessionStatusIdle \<and> ss_Queue y = [] \<and> ss_ActiveOperations y = [] \<and>
     ss_StagedImages y = [] \<and> ss_ActiveTurnID y = [] \<and> ss_ActiveSubmissionID y = []"

lemma zero_Session_fields [simp]:
  "ss_Queue zero_Session = []" "ss_ActiveOperations zero_Session = []" "ss_StagedImages zero_Session = []"
  "ss_ActiveTurnID zero_Session = []" "ss_ActiveSubmissionID zero_Session = []"
  by (simp_all add: zero_Session_def)

lemma restarted_stored:
  "restarted x (cloneSession (sessionFromStored (normalizeStoredSession (storedSessionFromSession x))))"
  using settled_record_normal [of x]
  by (simp add: restarted_def settled_record_def NormalizeSessionStatus_def trim_literal)

lemma opened_session:
  assumes "store_inv s" "st_disk s = Some (st_data s)" "trim k \<noteq> []" "GetSession s k = Some x"
  shows "\<exists>y. GetSession (fst (Open io (st_disk s))) k = Some y \<and> restarted x y"
proof -
  obtain x0 where x0: "map_of (rt_Sessions (st_runtime s)) k = Some x0" "x = cloneSession x0"
    using assms(4) by (auto simp: GetSession_def)
  have "map_of (db_Sessions (st_data s)) k = Some (storedSessionFromSession x0)"
    using sessions_okD(2) [OF store_invD(3) [OF assms(1)] x0(1)] assms(3) by simp
  then have "map_of (rt_Sessions (st_runtime (opened (st_data s)))) k =
      Some (sessionFromStored (normalizeStoredSession (storedSessionFromSession x0)))"
    by (simp add: opened_def open_data_def map_of_map_prod del: map_map list.map_comp)
  then have "GetSession (opened (st_data s)) k =
      Some (cloneSession (sessionFromStored (normalizeStoredSession (storedSessionFromSession x0))))"
    by (simp add: GetSession_def)
  moreover have "GetSession (fst (saveLocked io (opened (st_data s)))) k = GetSession (opened (st_data s)) k"
    by (simp add: GetSession_def)
  moreover have "restarted x (cloneSession (sessionFromStored (normalizeStoredSession (storedSessionFromSession x0))))"
    using restarted_stored [of x] by (simp add: x0(2))
  ultimately show ?thesis using Open_opened [of io "st_data s"] assms(2) by metis
qed



end
