(* ===== verification/Primary_Storage.thy ===== *)
theory Primary_Storage
  imports Store
begin

text \<open>
  The group primary repository over the state store:
  \<open>internal/adapter/storage/json/group\_primary.go\<close>. It provides the interface that the
  primary use cases of theory Group\_Primary rely on; the interpretation below discharges its
  laws, so what the use cases promise holds of the stored records.
\<close>

section \<open>The adapter\<close>

datatype repository_error =
  StoreNotInitialized
  | ScopeMismatch string string
  | EnsureScopeMismatch
  | StoreRefused store_error

definition fromSnapshot :: "GroupPrimary \<Rightarrow> GroupPrimaryState" where
  "fromSnapshot primary =
     \<lparr>gps_FrontendID = trim (gp_FrontendID primary), gps_ChatID = trim (gp_ChatID primary),
      gps_ChatType = trim (gp_ChatType primary), gps_Enabled = gp_Enabled primary,
      gps_LastAssignmentMessageID = trim (gp_LastAssignmentMessageID primary),
      gps_LastAssignmentCreatedAt = gp_LastAssignmentCreatedAt primary\<rparr>"

definition toSnapshot :: "GroupPrimaryState \<Rightarrow> GroupPrimary" where
  "toSnapshot primary =
     (let frontendID = trim (gps_FrontendID primary);
          chatType = to_lower (trim (gps_ChatType primary));
          chatID = trim (gps_ChatID primary) in
      \<lparr>gp_ID = GroupPrimaryID frontendID chatType chatID, gp_FrontendID = frontendID,
       gp_ChatID = chatID, gp_ChatType = chatType, gp_Enabled = gps_Enabled primary,
       gp_LastAssignmentMessageID = trim (gps_LastAssignmentMessageID primary),
       gp_LastAssignmentCreatedAt = gps_LastAssignmentCreatedAt primary,
       gp_CreatedAt = 0, gp_UpdatedAt = 0\<rparr>)"

text \<open>\<open>scope\<close> is the adapter's frontend, trimmed by its constructor; the store may be nil.\<close>

definition GetGroupPrimary ::
  "string \<Rightarrow> Store option \<Rightarrow> string \<Rightarrow> string \<Rightarrow> string \<Rightarrow> repository_error + GroupPrimaryState option" where
  "GetGroupPrimary scope store frontendID chatType chatID =
     (case store of
        None \<Rightarrow> Inl StoreNotInitialized
      | Some s \<Rightarrow>
          if trim frontendID \<noteq> scope then Inl (ScopeMismatch frontendID scope)
          else Inr (map_option fromSnapshot
            (GetScopedGroupPrimary s scope (GroupPrimaryID scope chatType chatID))))"

definition SaveGroupPrimaryState ::
  "int \<Rightarrow> string option \<Rightarrow> string \<Rightarrow> Store option \<Rightarrow> GroupPrimaryState
     \<Rightarrow> Store option \<times> repository_error option" where
  "SaveGroupPrimaryState now io scope store primary =
     (case store of
        None \<Rightarrow> (None, Some StoreNotInitialized)
      | Some s \<Rightarrow>
          if trim (gps_FrontendID primary) \<noteq> scope
          then (Some s, Some (ScopeMismatch (gps_FrontendID primary) scope))
          else
            let (s', e) = UpsertGroupPrimary now io s (Some (toSnapshot primary)) in
            (Some s', map_option StoreRefused e))"

definition EnsureGroupPrimaryState ::
  "int \<Rightarrow> string option \<Rightarrow> string \<Rightarrow> Store option \<Rightarrow> string \<Rightarrow> string \<Rightarrow> string \<Rightarrow> bool
     \<Rightarrow> Store option \<times> (repository_error + GroupPrimaryState option)" where
  "EnsureGroupPrimaryState now io scope store frontendID chatType chatID enabled =
     (case store of
        None \<Rightarrow> (None, Inl StoreNotInitialized)
      | Some s \<Rightarrow>
          if trim frontendID \<noteq> trim scope then (Some s, Inl EnsureScopeMismatch)
          else
            let record = \<lparr>gp_ID = GroupPrimaryID scope chatType chatID, gp_FrontendID = scope,
                          gp_ChatID = chatID, gp_ChatType = chatType, gp_Enabled = enabled,
                          gp_LastAssignmentMessageID = [], gp_LastAssignmentCreatedAt = 0,
                          gp_CreatedAt = 0, gp_UpdatedAt = 0\<rparr> in
            (case EnsureGroupPrimary now io s (Some record) of
               (s', Inl e) \<Rightarrow> (Some s', Inl (StoreRefused e))
             | (s', Inr None) \<Rightarrow> (Some s', Inr None)
             | (s', Inr (Some result)) \<Rightarrow>
                 (Some s', Inr (Some
                   \<lparr>gps_FrontendID = gp_FrontendID result, gps_ChatID = gp_ChatID result,
                    gps_ChatType = gp_ChatType result, gps_Enabled = gp_Enabled result,
                    gps_LastAssignmentMessageID = gp_LastAssignmentMessageID result,
                    gps_LastAssignmentCreatedAt = gp_LastAssignmentCreatedAt result\<rparr>))))"

definition GroupPrimaryRepository ::
  "int \<Rightarrow> string option \<Rightarrow> string \<Rightarrow> (Store option, repository_error) PrimaryRepository" where
  "GroupPrimaryRepository now io frontendID =
     \<lparr>repo_Get = GetGroupPrimary (trim frontendID),
      repo_Save = SaveGroupPrimaryState now io (trim frontendID),
      repo_Ensure = Some (EnsureGroupPrimaryState now io (trim frontendID))\<rparr>"

section \<open>The laws\<close>

declare to_lower.simps [simp del]

text \<open>Records as the adapter writes them: under the id of their scope.\<close>

definition adapter_record :: "GroupPrimary \<Rightarrow> bool" where
  "adapter_record p \<longleftrightarrow>
     gp_ID p = GroupPrimaryID (gp_FrontendID p) (gp_ChatType p) (gp_ChatID p) \<and>
     gp_ChatType p \<in> {''group'', ''p2p''} \<and> trim (gp_FrontendID p) = gp_FrontendID p \<and>
     trim (gp_ChatID p) = gp_ChatID p \<and> trim (gp_LastAssignmentMessageID p) = gp_LastAssignmentMessageID p"

definition table_ok :: "Store \<Rightarrow> bool" where
  "table_ok s \<longleftrightarrow> (\<forall>(i, p)\<in>set (db_GroupPrimaries (st_data s)). gp_ID p = i \<and> adapter_record p)"

lemma table_okD: "table_ok s \<Longrightarrow> map_of (db_GroupPrimaries (st_data s)) i = Some p \<Longrightarrow> gp_ID p = i \<and> adapter_record p"
  by (drule map_of_SomeD) (auto simp: table_ok_def)

definition primaries_ok :: "string \<Rightarrow> Store option \<Rightarrow> bool" where
  "primaries_ok f store \<longleftrightarrow>
     trim f \<noteq> [] \<and> (\<exists>s. store = Some s \<and> distinct (map fst (db_GroupPrimaries (st_data s))) \<and>
       table_ok s)"

lemma literal_chat_types [simp]:
  "trim ''group'' = ''group''" "trim ''p2p'' = ''p2p''" "to_lower ''group'' = ''group''" "to_lower ''p2p'' = ''p2p''"
  by code_simp+

lemma sanitizeIDPart_trim [simp]: "sanitizeIDPart (trim v) = sanitizeIDPart v"
  by (simp add: sanitizeIDPart_def)

lemma sanitizeIDPart_chat_types [simp]:
  "sanitizeIDPart ''group'' = ''group''" "sanitizeIDPart ''p2p'' = ''p2p''"
  by code_simp+

lemma GroupPrimaryID_trim [simp]: "GroupPrimaryID (trim f) t c = GroupPrimaryID f t c"
  by (simp add: GroupPrimaryID_def)

lemma GroupPrimaryID_chat_type:
  "t \<in> {''group'', ''p2p''} \<Longrightarrow> GroupPrimaryID f t c = GroupPrimaryID f ''group'' c' \<Longrightarrow> t = ''group''"
  by (auto simp: GroupPrimaryID_def)

lemma normal_toSnapshot:
  assumes "normal_state st"
  shows "cloneGroupPrimary (toSnapshot st) = toSnapshot st" "adapter_record (toSnapshot st)"
    "fromSnapshot (toSnapshot st) = st"
    "gp_ID (toSnapshot st) = GroupPrimaryID (gps_FrontendID st) (gps_ChatType st) (gps_ChatID st)"
    "gp_FrontendID (toSnapshot st) = gps_FrontendID st"
  using assms
  by (simp_all add: normal_state_def toSnapshot_def cloneGroupPrimary_def normalizeGroupPrimaryValues_def
      adapter_record_def fromSnapshot_def Let_def)

lemma stamp_primary_adapter [simp]:
  "adapter_record (stamp_primary now prev p) = adapter_record p"
  "fromSnapshot (stamp_primary now prev p) = fromSnapshot p"
  by (auto simp: stamp_primary_def adapter_record_def fromSnapshot_def Let_def split: option.split)

lemma fromSnapshot_clone [simp]:
  "to_lower (trim (gp_ChatType p)) = gp_ChatType p \<Longrightarrow> fromSnapshot (cloneGroupPrimary p) = fromSnapshot p"
  by (simp add: fromSnapshot_def cloneGroupPrimary_def normalizeGroupPrimaryValues_def)

text \<open>What a save does to the table.\<close>

lemma Save_table:
  assumes "normal_state st" "SaveGroupPrimaryState now io F (Some s) st = (r', e)"
  shows "\<exists>s'. r' = Some s' \<and>
    (db_GroupPrimaries (st_data s') = db_GroupPrimaries (st_data s) \<and> e \<noteq> None \<or>
     gps_FrontendID st = F \<and>
     (\<exists>prev. db_GroupPrimaries (st_data s') = AList.update (gp_ID (toSnapshot st))
       (stamp_primary now prev (toSnapshot st)) (db_GroupPrimaries (st_data s))))"
proof -
  have n: "normalizeGroupPrimaryValues (toSnapshot st) = toSnapshot st" "gp_ID (toSnapshot st) \<noteq> []"
    using normal_toSnapshot(1) [OF assms(1)] normal_toSnapshot(4) [OF assms(1)] by (simp_all add: cloneGroupPrimary_def)
  show ?thesis
    using assms(1,2) n unfolding SaveGroupPrimaryState_def UpsertGroupPrimary_def upsertGroupPrimaryLocked_def
    by (auto simp: Let_def cloneGroupPrimary_def normal_state_def saveLocked_def split: if_splits option.splits)
qed

lemma primaries_okE:
  assumes "primaries_ok F r"
  obtains s where "r = Some s" "trim F \<noteq> []" "distinct (map fst (db_GroupPrimaries (st_data s)))"
    "table_ok s"
  using assms unfolding primaries_ok_def table_ok_def by blast

text \<open>What a lookup returns, in terms of the table.\<close>

lemma Get_table:
  assumes "table_ok s"
  shows "repo_Get (GroupPrimaryRepository now io F) (Some s) f ''group'' c =
    (if trim f \<noteq> trim F then Inl (ScopeMismatch f (trim F))
     else Inr (case map_of (db_GroupPrimaries (st_data s)) (GroupPrimaryID F ''group'' c) of
        None \<Rightarrow> None
      | Some p \<Rightarrow> if trim F \<noteq> [] \<and> gp_FrontendID p \<noteq> trim F then None else Some (fromSnapshot p)))"
proof -
  have "fromSnapshot (cloneGroupPrimary p) = fromSnapshot p \<and> trim (gp_FrontendID p) = gp_FrontendID p"
    if "map_of (db_GroupPrimaries (st_data s)) i = Some p" for i p
    using table_okD [OF assms that] by (intro conjI fromSnapshot_clone) (auto simp: adapter_record_def)
  then show ?thesis
    by (auto simp: GroupPrimaryRepository_def GetGroupPrimary_def GetScopedGroupPrimary_def Let_def split: option.split)
qed

lemma fromSnapshot_normal:
  assumes "adapter_record p" "gp_ChatType p = ''group''"
  shows "normal_state (fromSnapshot p)"
    "GroupPrimaryID (gps_FrontendID (fromSnapshot p)) (gps_ChatType (fromSnapshot p)) (gps_ChatID (fromSnapshot p)) = gp_ID p"
  using assms by (simp_all add: normal_state_def fromSnapshot_def adapter_record_def)

lemma Get_normal:
  assumes ok: "primaries_ok F r"
    and get: "repo_Get (GroupPrimaryRepository now io F) r f ''group'' c = Inr (Some st)"
  shows "normal_state st \<and>
    GroupPrimaryID (gps_FrontendID st) (gps_ChatType st) (gps_ChatID st) = GroupPrimaryID f ''group'' c"
proof -
  obtain s where s: "r = Some s" "trim F \<noteq> []"
    and rec: "table_ok s"
    using ok by (rule primaries_okE) blast
  obtain p where f: "trim f = trim F" and m: "map_of (db_GroupPrimaries (st_data s)) (GroupPrimaryID F ''group'' c) = Some p"
    and p: "gp_FrontendID p = trim F" "st = fromSnapshot p"
    using get s(2) unfolding s(1) Get_table [OF rec] by (auto split: if_splits option.splits)
  have r: "gp_ID p = GroupPrimaryID F ''group'' c" "adapter_record p" using table_okD [OF rec m] by simp_all
  then have "GroupPrimaryID F (gp_ChatType p) (gp_ChatID p) = GroupPrimaryID F ''group'' c"
    using p(1) by (simp add: adapter_record_def)
  then have "gp_ChatType p = ''group''" using r(2) by (intro GroupPrimaryID_chat_type) (auto simp: adapter_record_def)
  from fromSnapshot_normal [OF r(2) this] show ?thesis
    using p(2) r(1) f by (metis GroupPrimaryID_trim)
qed

lemma Save_ok:
  assumes ok: "primaries_ok F r" and st: "normal_state st"
    and sv: "repo_Save (GroupPrimaryRepository now io F) r st = (r', e)"
  shows "primaries_ok F r'"
proof -
  obtain s where s: "r = Some s" "trim F \<noteq> []" and d: "distinct (map fst (db_GroupPrimaries (st_data s)))"
    and rec: "table_ok s"
    using ok by (rule primaries_okE) blast
  have "SaveGroupPrimaryState now io (trim F) (Some s) st = (r', e)"
    using sv by (simp add: GroupPrimaryRepository_def s(1))
  from Save_table [OF st this] obtain s' where r': "r' = Some s'"
    and t: "db_GroupPrimaries (st_data s') = db_GroupPrimaries (st_data s) \<or>
     (\<exists>prev. db_GroupPrimaries (st_data s') = AList.update (gp_ID (toSnapshot st))
       (stamp_primary now prev (toSnapshot st)) (db_GroupPrimaries (st_data s)))" by blast
  from t have "distinct (map fst (db_GroupPrimaries (st_data s'))) \<and>
      table_ok s'"
    using d rec [unfolded table_ok_def] set_update [OF d] normal_toSnapshot(2) [OF st]
    by (auto simp: distinct_update table_ok_def split: if_splits)
  with s(2) r' show ?thesis unfolding primaries_ok_def by blast
qed

lemma Get_Save:
  assumes ok: "primaries_ok F r" and st: "normal_state st"
    and sv: "repo_Save (GroupPrimaryRepository now io F) r st = (r', None)"
  shows "repo_Get (GroupPrimaryRepository now io F) r' f ''group'' c =
    (if trim f = trim F \<and> GroupPrimaryID f ''group'' c = GroupPrimaryID (gps_FrontendID st) (gps_ChatType st) (gps_ChatID st)
     then Inr (Some st) else repo_Get (GroupPrimaryRepository now io F) r f ''group'' c)"
proof -
  obtain s where s: "r = Some s" "trim F \<noteq> []" and d: "distinct (map fst (db_GroupPrimaries (st_data s)))"
    and rec: "table_ok s"
    using ok by (rule primaries_okE) blast
  have "SaveGroupPrimaryState now io (trim F) (Some s) st = (r', None)"
    using sv by (simp add: GroupPrimaryRepository_def s(1))
  from Save_table [OF st this] obtain s' prev where r': "r' = Some s'" and F: "gps_FrontendID st = trim F"
    and t: "db_GroupPrimaries (st_data s') = AList.update (gp_ID (toSnapshot st))
       (stamp_primary now prev (toSnapshot st)) (db_GroupPrimaries (st_data s))" by blast
  have rec': "table_ok s'"
    using Save_ok [OF ok st sv] unfolding primaries_ok_def r' by blast
  note n = normal_toSnapshot [OF st]
  have id: "GroupPrimaryID f ''group'' c = GroupPrimaryID F ''group'' c" if "trim f = trim F"
    using that by (metis GroupPrimaryID_trim)
  show ?thesis
    unfolding s(1) r' Get_table [OF rec] Get_table [OF rec'] t n(4)
    using n(3,5) F by (auto simp: id)
qed

interpretation stored_primary: primary_repository
  "GroupPrimaryRepository now io F" "primaries_ok F" GroupPrimaryID
  for now io F
proof
  fix r f c st r' e old
  show "normal_state st \<and> GroupPrimaryID (gps_FrontendID st) (gps_ChatType st) (gps_ChatID st) = GroupPrimaryID f ''group'' c"
    if "primaries_ok F r" "repo_Get (GroupPrimaryRepository now io F) r f ''group'' c = Inr (Some st)"
    using that by (rule Get_normal)
  show "primaries_ok F r'"
    if "primaries_ok F r" "normal_state st" "repo_Save (GroupPrimaryRepository now io F) r st = (r', e)"
    using that by (rule Save_ok)
  show "repo_Get (GroupPrimaryRepository now io F) r' f ''group'' c = Inr (Some st)"
    if "primaries_ok F r" "normal_state st" "repo_Save (GroupPrimaryRepository now io F) r st = (r', None)"
      "repo_Get (GroupPrimaryRepository now io F) r f ''group'' c = Inr old"
      "GroupPrimaryID f ''group'' c = GroupPrimaryID (gps_FrontendID st) (gps_ChatType st) (gps_ChatID st)"
  proof -
    have "trim f = trim F"
      using that(1,4) by (auto simp: GroupPrimaryRepository_def GetGroupPrimary_def primaries_ok_def split: if_splits)
    with that(5) Get_Save [OF that(1-3)] show ?thesis by simp
  qed
  show "repo_Get (GroupPrimaryRepository now io F) r' f ''group'' c = repo_Get (GroupPrimaryRepository now io F) r f ''group'' c"
    if "primaries_ok F r" "normal_state st" "repo_Save (GroupPrimaryRepository now io F) r st = (r', None)"
      "GroupPrimaryID f ''group'' c \<noteq> GroupPrimaryID (gps_FrontendID st) (gps_ChatType st) (gps_ChatID st)"
    using that(4) Get_Save [OF that(1-3)] by simp
qed

section \<open>The use case over the stored records\<close>

text \<open>
  C16. After a primary change that succeeded, asking whether the bot is the primary one of that
  group gives the answer of the change, from the stored record; the change started from the
  record stored before.
\<close>

theorem SetPrimary_then_IsPrimary:
  assumes "primaries_ok F r" "to_lower (trim (chat_Type (cp_Chat input))) = ''group''"
    "trim (cp_Frontend input) = trim F"
    "SetPrimary (Some (GroupPrimaryRepository now io F)) r input = (r', Inr st)"
  shows "IsPrimary (Some (GroupPrimaryRepository now io F)) r' (cp_Frontend input)
      (chat_Type (cp_Chat input)) (chat_ID (cp_Chat input)) = Inr (gps_Enabled st) \<and>
    primaries_ok F r'"
proof -
  let ?c = "trim (chat_ID (cp_Chat input))"
  have n: "ChatRef_Normalize (cp_Chat input) = \<lparr>chat_Type = ''group'', chat_ID = ?c\<rparr>"
    using assms(2) by (simp add: ChatRef_Normalize_def)
  have c: "?c \<noteq> []" using assms(4) n by (auto simp: SetPrimary_def Let_def split: if_splits)
  obtain cur where "primaries_ok F r'" and "stored_primary.current_state now io F r' (trim F) ?c = Some st"
    using stored_primary.SetPrimary_stores [OF assms(1) n assms(3,4)] by blast
  moreover from this(2) have "case repo_Get (GroupPrimaryRepository now io F) r' (trim F) ''group'' ?c of
      Inl e \<Rightarrow> False | Inr None \<Rightarrow> \<not> gps_Enabled st | Inr (Some x) \<Rightarrow> x = st"
    unfolding stored_primary.current_state_def by (auto split: sum.splits option.splits)
  ultimately show ?thesis
    using n c assms(3)
    by (auto simp: IsPrimary_def Lookup_def ChatRef_Normalize_def FrontendID_Normalize_def assms(2)
        split: sum.splits option.splits)
qed

theorem SetPrimary_then_IsPrimary_witness:
  "\<exists>r st. SetPrimary (Some (GroupPrimaryRepository 5 None ''f'')) (Some empty_Store)
      \<lparr>cp_Frontend = ''f'', cp_Chat = \<lparr>chat_Type = ''group'', chat_ID = ''c''\<rparr>, cp_Enabled = True,
       cp_Assignment = None\<rparr> = (r, Inr st) \<and>
    IsPrimary (Some (GroupPrimaryRepository 5 None ''f'')) r ''f'' ''group'' ''c'' = Inr True"
proof -
  let ?in = "\<lparr>cp_Frontend = ''f'', cp_Chat = \<lparr>chat_Type = ''group'', chat_ID = ''c''\<rparr>, cp_Enabled = True,
       cp_Assignment = None\<rparr>"
  let ?p = "SetPrimary (Some (GroupPrimaryRepository 5 None ''f'')) (Some empty_Store) ?in"
  have t: "trim ''f'' = ''f''" by code_simp
  have "case ?p of (r, Inl e) \<Rightarrow> False | (r, Inr st) \<Rightarrow> gps_Enabled st" by code_simp
  then obtain r st where p: "?p = (r, Inr st)" "gps_Enabled st" by (auto split: prod.splits sum.splits)
  have ok: "primaries_ok ''f'' (Some empty_Store)"
    by (simp add: primaries_ok_def table_ok_def empty_Store_def empty_StateSnapshot_def t)
  show ?thesis using SetPrimary_then_IsPrimary [OF ok _ _ p(1)] p by (auto simp: t)
qed

end
