(* ===== verification/Inbound_Dedup.thy ===== *)
theory Inbound_Dedup
  imports Go_Prelude "HOL-Library.AList" "HOL-Library.While_Combinator"
begin

text \<open>
  Inbound messages are delivered more than once by the transport; the deduper lets one delivery
  through: \<open>internal/runtime/inbound.go\<close>. Times are nanoseconds, the clock is the argument
  \<open>now\<close>. A method that loops returns an option: None would be a loop that does not end.
  The operations are the parts under the mutex; a nil deduper admits everything and is not
  modelled.
\<close>

definition DedupRetention :: int where "DedupRetention = 10 * 60 * 1000000000"
definition InflightTTL :: int where "InflightTTL = 2 * 60 * 1000000000"
definition DedupMaxEntries :: int where "DedupMaxEntries = 4096"

record InboundDeduper =
  dd_Inflight :: "(string \<times> int) list"
  dd_RecentlyDone :: "(string \<times> int) list"
  dd_Retention :: int
  dd_InflightTTL :: int
  dd_MaxEntries :: int

definition NewInboundDeduper :: InboundDeduper where
  "NewInboundDeduper =
     \<lparr>dd_Inflight = [], dd_RecentlyDone = [], dd_Retention = DedupRetention,
      dd_InflightTTL = InflightTTL, dd_MaxEntries = DedupMaxEntries\<rparr>"

definition pruneLocked :: "int \<Rightarrow> InboundDeduper \<Rightarrow> InboundDeduper" where
  "pruneLocked now d =
     d\<lparr>dd_Inflight := filter (\<lambda>(i, expiry). expiry > now) (dd_Inflight d),
       dd_RecentlyDone := filter (\<lambda>(i, expiry). expiry > now) (dd_RecentlyDone d)\<rparr>"

definition pick :: "string \<times> int \<Rightarrow> string \<times> int \<Rightarrow> string \<times> int" where
  "pick entry oldest =
     (if fst oldest = [] \<or> snd entry < snd oldest then entry else oldest)"

definition oldest_entry :: "InboundDeduper \<Rightarrow> string \<times> int" where
  "oldest_entry d = fold pick (dd_RecentlyDone d) (fold pick (dd_Inflight d) ([], 0))"

definition entries :: "InboundDeduper \<Rightarrow> nat" where
  "entries d = length (dd_Inflight d) + length (dd_RecentlyDone d)"

definition forget :: "string \<Rightarrow> InboundDeduper \<Rightarrow> InboundDeduper" where
  "forget i d = d\<lparr>dd_Inflight := AList.delete i (dd_Inflight d),
                  dd_RecentlyDone := AList.delete i (dd_RecentlyDone d)\<rparr>"

definition enforceCapLocked :: "InboundDeduper \<Rightarrow> InboundDeduper option" where
  "enforceCapLocked d0 =
     (if dd_MaxEntries d0 \<le> 0 then Some d0
      else while_option
        (\<lambda>d. int (entries d) > dd_MaxEntries d \<and> fst (oldest_entry d) \<noteq> [])
        (\<lambda>d. forget (fst (oldest_entry d)) d) d0)"

definition alive :: "int \<Rightarrow> string \<Rightarrow> (string \<times> int) list \<Rightarrow> bool" where
  "alive now i m = (case map_of m i of None \<Rightarrow> False | Some expiry \<Rightarrow> expiry > now)"

definition Claim :: "int \<Rightarrow> string \<Rightarrow> InboundDeduper \<Rightarrow> (InboundDeduper \<times> bool) option" where
  "Claim now messageID0 d0 =
     (let messageID = trim messageID0; d = pruneLocked now d0 in
      if messageID = [] then Some (d0, True)
      else if alive now messageID (dd_RecentlyDone d) then Some (d, False)
      else
        let d1 = d\<lparr>dd_RecentlyDone := AList.delete messageID (dd_RecentlyDone d)\<rparr> in
        if alive now messageID (dd_Inflight d1) then Some (d1, False)
        else
          let d2 = d1\<lparr>dd_Inflight := AList.update messageID (now + dd_InflightTTL d1)
                        (AList.delete messageID (dd_Inflight d1))\<rparr> in
          map_option (\<lambda>d3. (d3, True)) (enforceCapLocked d2))"

definition MarkDone :: "int \<Rightarrow> string \<Rightarrow> InboundDeduper \<Rightarrow> InboundDeduper option" where
  "MarkDone now messageID0 d =
     (let messageID = trim messageID0 in
      if messageID = [] then Some d
      else enforceCapLocked (pruneLocked now
        (d\<lparr>dd_Inflight := AList.delete messageID (dd_Inflight d),
           dd_RecentlyDone := AList.update messageID (now + dd_Retention d) (dd_RecentlyDone d)\<rparr>)))"

definition Release :: "string \<Rightarrow> InboundDeduper \<Rightarrow> InboundDeduper" where
  "Release messageID0 d =
     (let messageID = trim messageID0 in
      if messageID = [] then d
      else d\<lparr>dd_Inflight := AList.delete messageID (dd_Inflight d)\<rparr>)"

definition GC :: "int \<Rightarrow> InboundDeduper \<Rightarrow> InboundDeduper" where
  "GC now d = pruneLocked now d"

section \<open>The table has no entry without an id\<close>

definition named :: "InboundDeduper \<Rightarrow> bool" where
  "named d \<longleftrightarrow> (\<forall>e\<in>set (dd_Inflight d) \<union> set (dd_RecentlyDone d). fst e \<noteq> [])"

lemma namedI:
  "(\<And>e. e \<in> set (dd_Inflight d) \<Longrightarrow> fst e \<noteq> []) \<Longrightarrow> (\<And>e. e \<in> set (dd_RecentlyDone d) \<Longrightarrow> fst e \<noteq> []) \<Longrightarrow> named d"
  by (auto simp: named_def)

lemma set_delete_subset: "set (AList.delete i m) \<subseteq> set m"
  by (auto simp: AList.delete_eq)

lemma set_update_subset: "set (AList.update i v m) \<subseteq> insert (i, v) (set m)"
  by (induction m) auto

lemma named_prune [simp]: "named d \<Longrightarrow> named (pruneLocked now d)"
  by (auto simp: named_def pruneLocked_def)

lemma named_forget [simp]: "named d \<Longrightarrow> named (forget i d)"
  using set_delete_subset by (fastforce simp: named_def forget_def)

section \<open>The cap\<close>

lemma fold_pick_start:
  "(\<forall>e\<in>set es. fst e \<noteq> []) \<Longrightarrow> fst s \<noteq> [] \<Longrightarrow> fst (fold pick es s) \<noteq> []"
  by (induction es arbitrary: s) (auto simp: pick_def)

lemma fold_pick_mem: "fold pick es s \<in> insert s (set es)"
  by (induction es arbitrary: s) (auto simp: pick_def split: if_splits)

lemma fold_pick_some:
  "(\<forall>e\<in>set es. fst e \<noteq> []) \<Longrightarrow> es \<noteq> [] \<Longrightarrow> fst (fold pick es s) \<noteq> []"
proof (cases es)
  case (Cons e list)
  assume "\<forall>e\<in>set es. fst e \<noteq> []"
  moreover from this have "fst (pick e s) \<noteq> []" by (simp add: Cons pick_def)
  ultimately show ?thesis using fold_pick_start [of list "pick e s"] by (simp add: Cons)
qed simp

text \<open>A table with entries has an oldest one, and it is one of them.\<close>

lemma oldest_entry_mem:
  assumes "named d" "entries d \<noteq> 0"
  shows "fst (oldest_entry d) \<noteq> []" "oldest_entry d \<in> set (dd_Inflight d) \<union> set (dd_RecentlyDone d)"
proof -
  have n: "\<forall>e\<in>set (dd_Inflight d). fst e \<noteq> []" "\<forall>e\<in>set (dd_RecentlyDone d). fst e \<noteq> []"
    using assms(1) by (auto simp: named_def)
  show ne: "fst (oldest_entry d) \<noteq> []"
  proof (cases "dd_RecentlyDone d = []")
    case True
    then have "dd_Inflight d \<noteq> []" using assms(2) by (auto simp: entries_def)
    with True n show ?thesis by (simp add: oldest_entry_def fold_pick_some)
  next
    case False
    with n show ?thesis by (simp add: oldest_entry_def fold_pick_some)
  qed
  have "oldest_entry d \<in> insert ([], 0) (set (dd_Inflight d) \<union> set (dd_RecentlyDone d))"
    unfolding oldest_entry_def
    using fold_pick_mem [of "dd_RecentlyDone d" "fold pick (dd_Inflight d) ([], 0)"]
      fold_pick_mem [of "dd_Inflight d" "([], 0)"] by auto
  with ne show "oldest_entry d \<in> set (dd_Inflight d) \<union> set (dd_RecentlyDone d)" by auto
qed

lemma length_delete_less: "(i, v) \<in> set m \<Longrightarrow> length (AList.delete i m) < length m"
  unfolding AList.delete_eq by (rule length_filter_less) auto

lemma length_delete_le: "length (AList.delete i m) \<le> length m"
  by (simp add: AList.delete_eq)

lemma forget_oldest_less:
  assumes "named d" "entries d \<noteq> 0"
  shows "entries (forget (fst (oldest_entry d)) d) < entries d"
proof -
  obtain i e where o: "oldest_entry d = (i, e)" by force
  with oldest_entry_mem [OF assms] have "(i, e) \<in> set (dd_Inflight d) \<union> set (dd_RecentlyDone d)" by simp
  then show ?thesis
    using length_delete_less [of i e "dd_Inflight d"] length_delete_less [of i e "dd_RecentlyDone d"]
      length_delete_le [of i "dd_Inflight d"] length_delete_le [of i "dd_RecentlyDone d"]
    by (auto simp: entries_def forget_def o)
qed

lemma forget_cap [simp]: "dd_MaxEntries (forget i d) = dd_MaxEntries d"
  by (simp add: forget_def)

text \<open>The loop ends, because every round forgets an entry, and it ends below the cap.\<close>

lemma enforceCapLocked_returns:
  assumes "named d"
  shows "\<exists>d'. enforceCapLocked d = Some d' \<and> named d' \<and>
    (dd_MaxEntries d > 0 \<longrightarrow> int (entries d') \<le> dd_MaxEntries d) \<and> dd_MaxEntries d' = dd_MaxEntries d \<and>
    set (dd_Inflight d') \<subseteq> set (dd_Inflight d) \<and> set (dd_RecentlyDone d') \<subseteq> set (dd_RecentlyDone d)"
proof (cases "dd_MaxEntries d \<le> 0")
  case True
  then show ?thesis using assms by (simp add: enforceCapLocked_def)
next
  case False
  let ?b = "\<lambda>d. int (entries d) > dd_MaxEntries d \<and> fst (oldest_entry d) \<noteq> []"
  let ?c = "\<lambda>d. forget (fst (oldest_entry d)) d"
  let ?P = "\<lambda>x. named x \<and> dd_MaxEntries x = dd_MaxEntries d \<and>
    set (dd_Inflight x) \<subseteq> set (dd_Inflight d) \<and> set (dd_RecentlyDone x) \<subseteq> set (dd_RecentlyDone d)"
  have keep: "?P (?c x)" if "?P x" for x
  proof -
    have "set (dd_Inflight (?c x)) \<subseteq> set (dd_Inflight x)" "set (dd_RecentlyDone (?c x)) \<subseteq> set (dd_RecentlyDone x)"
      unfolding forget_def by (simp_all add: set_delete_subset)
    with that show ?thesis using named_forget [of x] by auto
  qed
  have less: "entries (?c x) < entries x" if "?P x" "?b x" for x
    using that False by (intro forget_oldest_less) auto
  have "\<exists>d'. while_option ?b ?c d = Some d'"
    by (rule measure_while_option_Some [of ?P ?b ?c entries]) (use assms keep less in auto)
  then obtain d' where d': "while_option ?b ?c d = Some d'" by blast
  have P: "?P d'"
    by (rule while_option_rule [OF _ d']) (use assms keep in auto)
  have "int (entries d') \<le> dd_MaxEntries d"
  proof -
    have "\<not> ?b d'" using while_option_stop [OF d'] by simp
    then show ?thesis using oldest_entry_mem(1) [of d'] P False by (cases "entries d' = 0") auto
  qed
  with P d' False show ?thesis by (simp add: enforceCapLocked_def)
qed

section \<open>The deduper over time\<close>

inductive dedup_step :: "InboundDeduper \<Rightarrow> InboundDeduper \<Rightarrow> bool" where
  claim: "Claim now i d = Some (d', accepted) \<Longrightarrow> dedup_step d d'"
| mark_done: "MarkDone now i d = Some d' \<Longrightarrow> dedup_step d d'"
| release: "dedup_step d (Release i d)"
| collect: "dedup_step d (GC now d)"

lemma named_new [simp]: "named NewInboundDeduper"
  by (simp add: named_def NewInboundDeduper_def)

lemma named_inflight:
  "named d \<Longrightarrow> i \<noteq> [] \<Longrightarrow> named (d\<lparr>dd_Inflight := AList.update i v (AList.delete i (dd_Inflight d))\<rparr>)"
  using set_update_subset [of i v "AList.delete i (dd_Inflight d)"] set_delete_subset [of i "dd_Inflight d"]
  by (fastforce simp: named_def)

lemma named_done:
  "named d \<Longrightarrow> i \<noteq> [] \<Longrightarrow>
   named (d\<lparr>dd_Inflight := AList.delete i (dd_Inflight d), dd_RecentlyDone := AList.update i v (dd_RecentlyDone d)\<rparr>)"
  using set_update_subset [of i v "dd_RecentlyDone d"] set_delete_subset [of i "dd_Inflight d"]
  by (fastforce simp: named_def)

lemma named_drop_done:
  "named d \<Longrightarrow> named (d\<lparr>dd_RecentlyDone := AList.delete i (dd_RecentlyDone d)\<rparr>)"
  using set_delete_subset [of i "dd_RecentlyDone d"] by (fastforce simp: named_def)

text \<open>What is stored by an accepted claim, before the cap.\<close>

definition claimed_table :: "int \<Rightarrow> string \<Rightarrow> InboundDeduper \<Rightarrow> InboundDeduper" where
  "claimed_table now i d =
     (let d1 = d\<lparr>dd_RecentlyDone := AList.delete i (dd_RecentlyDone d)\<rparr> in
      d1\<lparr>dd_Inflight := AList.update i (now + dd_InflightTTL d1) (AList.delete i (dd_Inflight d1))\<rparr>)"

lemma named_claimed: "named d \<Longrightarrow> i \<noteq> [] \<Longrightarrow> named (claimed_table now i d)"
  unfolding claimed_table_def Let_def by (intro named_inflight named_drop_done)

lemma Claim_cases:
  "Claim now i d =
     (if trim i = [] then Some (d, True)
      else let p = pruneLocked now d in
        if alive now (trim i) (dd_RecentlyDone p) then Some (p, False)
        else if alive now (trim i) (dd_Inflight p)
        then Some (p\<lparr>dd_RecentlyDone := AList.delete (trim i) (dd_RecentlyDone p)\<rparr>, False)
        else map_option (\<lambda>d. (d, True)) (enforceCapLocked (claimed_table now (trim i) p)))"
  by (simp add: Claim_def Let_def claimed_table_def)

lemma cap_named: "named d \<Longrightarrow> enforceCapLocked d = Some d' \<Longrightarrow> named d' \<and> dd_MaxEntries d' = dd_MaxEntries d"
  using enforceCapLocked_returns by fastforce

lemma prune_cap [simp]: "dd_MaxEntries (pruneLocked now d) = dd_MaxEntries d"
  by (simp add: pruneLocked_def)

lemma claimed_cap [simp]: "dd_MaxEntries (claimed_table now i d) = dd_MaxEntries d"
  by (simp add: claimed_table_def Let_def)

lemma Claim_named:
  assumes "named d" "Claim now i d = Some (d', accepted)"
  shows "named d' \<and> dd_MaxEntries d' = dd_MaxEntries d"
proof -
  let ?p = "pruneLocked now d"
  have p: "named ?p" using assms(1) by simp
  consider "d' = d" | "d' = ?p" | "d' = ?p\<lparr>dd_RecentlyDone := AList.delete (trim i) (dd_RecentlyDone ?p)\<rparr>"
    | "trim i \<noteq> []" "enforceCapLocked (claimed_table now (trim i) ?p) = Some d'"
    using assms(2) by (auto simp: Claim_cases Let_def split: if_splits)
  then show ?thesis
  proof cases
    case 3
    then show ?thesis using named_drop_done [OF p] by simp
  next
    case 4
    then show ?thesis using cap_named [OF named_claimed [OF p]] by fastforce
  qed (use assms(1) in auto)
qed

lemma MarkDone_named:
  assumes "named d" "MarkDone now i d = Some d'"
  shows "named d' \<and> dd_MaxEntries d' = dd_MaxEntries d"
proof (cases "trim i = []")
  case True
  then show ?thesis using assms by (simp add: MarkDone_def)
next
  case False
  then show ?thesis
    using assms(2) cap_named [OF named_prune [OF named_done [OF assms(1) False,
      of "now + dd_Retention d"]], of now d'] by (simp add: MarkDone_def Let_def)
qed

lemma dedup_step_named: "dedup_step d d' \<Longrightarrow> named d \<Longrightarrow> named d' \<and> dd_MaxEntries d' = dd_MaxEntries d"
proof (induction rule: dedup_step.induct)
  case (claim now i d d' accepted)
  then show ?case using Claim_named by blast
next
  case (mark_done now i d d')
  then show ?case using MarkDone_named by blast
next
  case (release d i)
  have "named (d\<lparr>dd_Inflight := AList.delete (trim i) (dd_Inflight d)\<rparr>)"
    using release.prems set_delete_subset [of "trim i" "dd_Inflight d"] by (fastforce simp: named_def)
  with release.prems show ?case by (simp add: Release_def Let_def)
next
  case (collect d now)
  then show ?case by (simp add: GC_def)
qed

lemma dedup_reachable_named:
  "dedup_step\<^sup>*\<^sup>* NewInboundDeduper d \<Longrightarrow> named d \<and> dd_MaxEntries d = DedupMaxEntries"
proof (induction rule: rtranclp_induct)
  case base
  then show ?case by (simp, simp add: NewInboundDeduper_def)
next
  case (step d d')
  then show ?case using dedup_step_named by fastforce
qed

text \<open>
  C23. Every claim and every completion returns, in every reachable state of the deduper: the loop
  that enforces the cap forgets an entry per round, and it leaves no more entries than the cap.
\<close>
theorem dedup_returns_below_cap:
  assumes "dedup_step\<^sup>*\<^sup>* NewInboundDeduper d" "trim i \<noteq> []"
  shows "(\<exists>d' accepted. Claim now i d = Some (d', accepted) \<and>
            (accepted \<longrightarrow> int (entries d') \<le> DedupMaxEntries)) \<and>
         (\<exists>d'. MarkDone now i d = Some d' \<and> int (entries d') \<le> DedupMaxEntries)"
proof
  have n: "named d" "dd_MaxEntries d = DedupMaxEntries" "DedupMaxEntries > 0"
    using dedup_reachable_named [OF assms(1)] by (simp_all add: DedupMaxEntries_def)
  show "\<exists>d' accepted. Claim now i d = Some (d', accepted) \<and>
      (accepted \<longrightarrow> int (entries d') \<le> DedupMaxEntries)"
    using enforceCapLocked_returns [OF named_claimed [OF named_prune [OF n(1)] assms(2)], of now now] n assms(2)
    by (auto simp: Claim_cases Let_def)
  show "\<exists>d'. MarkDone now i d = Some d' \<and> int (entries d') \<le> DedupMaxEntries"
    using enforceCapLocked_returns [OF named_prune [OF named_done [OF n(1) assms(2),
      of "now + dd_Retention d"]], of now] n assms(2)
    by (auto simp: MarkDone_def Let_def)
qed

lemma dedup_returns_below_cap_witness:
  "(\<exists>d' accepted. Claim 5 ''om_1'' NewInboundDeduper = Some (d', accepted) \<and>
      (accepted \<longrightarrow> int (entries d') \<le> DedupMaxEntries)) \<and>
   (\<exists>d'. MarkDone 5 ''om_1'' NewInboundDeduper = Some d' \<and> int (entries d') \<le> DedupMaxEntries)"
  using dedup_returns_below_cap [of NewInboundDeduper "''om_1''" 5] by (simp add: trim_literal)

section \<open>One delivery is let through\<close>

text \<open>A message whose claim is still alive is refused, and so is one that is done.\<close>

lemma alive_iff: "distinct (map fst m) \<Longrightarrow> alive now i m \<longleftrightarrow> (\<exists>expiry>now. (i, expiry) \<in> set m)"
proof -
  assume d: "distinct (map fst m)"
  have "alive now i m \<longleftrightarrow> (\<exists>expiry>now. map_of m i = Some expiry)"
    by (auto simp: alive_def split: option.split)
  with d show ?thesis by simp
qed

lemma alive_prune [simp]:
  "distinct (map fst m) \<Longrightarrow> alive now i (filter (\<lambda>(j, expiry). expiry > now) m) = alive now i m"
  by (auto simp: alive_iff distinct_map_filter)

lemma claimed_message_refused:
  assumes "trim i \<noteq> []" "distinct (map fst (dd_Inflight d))" "distinct (map fst (dd_RecentlyDone d))"
    "alive now (trim i) (dd_Inflight d) \<or> alive now (trim i) (dd_RecentlyDone d)"
  shows "\<exists>d'. Claim now i d = Some (d', False)"
  using assms by (auto simp: Claim_cases Let_def pruneLocked_def)

text \<open>
  The cap evicts the entry that expires first, and a new claim expires earlier than completions
  of the last minutes. When these fill the table, the claim that was just accepted is forgotten
  at once, and the next delivery of the same message is accepted too.
\<close>

definition full_of_done :: InboundDeduper where
  "full_of_done = NewInboundDeduper\<lparr>dd_MaxEntries := 2,
     dd_RecentlyDone := [(''a'', DedupRetention), (''b'', DedupRetention)]\<rparr>"

lemma full_table_accepts_twice:
  "\<exists>d. Claim 0 ''m'' full_of_done = Some (d, True) \<and> (\<exists>d'. Claim 1 ''m'' d = Some (d', True))"
proof -
  have "Claim 0 ''m'' full_of_done = Some (full_of_done, True)"
    by (simp add: Claim_def enforceCapLocked_def Let_def full_of_done_def NewInboundDeduper_def pruneLocked_def
        alive_def entries_def oldest_entry_def pick_def forget_def InflightTTL_def DedupRetention_def trim_literal
        while_option_unfold)
  moreover have "\<exists>d'. Claim 1 ''m'' full_of_done = Some (d', True)"
    by (simp add: Claim_def enforceCapLocked_def Let_def full_of_done_def NewInboundDeduper_def pruneLocked_def
        alive_def entries_def oldest_entry_def pick_def forget_def InflightTTL_def DedupRetention_def trim_literal
        while_option_unfold)
  ultimately show ?thesis by blast
qed

end
