(* ===== verification/Scoped_Store.thy ===== *)
theory Scoped_Store
  imports Store_Migration
begin

text \<open>
  The store as one frontend sees it: \<open>internal/adapter/storage/json/scoped\<close>. Every operation of
  the state store that a use case reaches goes through this gateway, which knows the frontend it
  serves and the backend in use.

  The gateway without a store answers with nothing and changes nothing: \<open>on_store\<close>. The file
  system's answers to the saves of one call are its arguments \<open>io\<close>, in order; a call that reads a
  session may save too, because a session found under an older key is moved to its current key.
\<close>

section \<open>The gateway (store.go)\<close>

record ScopedStore =
  sc_store :: "Store option"
  sc_frontendID :: string
  sc_backend :: string

definition NewScoped :: "Store option \<Rightarrow> string \<Rightarrow> string \<Rightarrow> ScopedStore" where
  "NewScoped store frontendID backend =
     \<lparr>sc_store = store, sc_frontendID = trim frontendID, sc_backend = NormalizeBackend backend\<rparr>"

definition SetBackend :: "string \<Rightarrow> ScopedStore \<Rightarrow> ScopedStore" where
  "SetBackend backend s = s\<lparr>sc_backend := NormalizeBackend backend\<rparr>"

definition matchesFrontend :: "ScopedStore \<Rightarrow> string \<Rightarrow> bool" where
  "matchesFrontend s frontendID \<longleftrightarrow> trim frontendID = sc_frontendID s"

text \<open>A call on the store behind the gateway, and a read of it.\<close>

definition on_store :: "'a \<Rightarrow> (Store \<Rightarrow> Store \<times> 'a) \<Rightarrow> ScopedStore \<Rightarrow> ScopedStore \<times> 'a" where
  "on_store none f s =
     (case sc_store s of
        None \<Rightarrow> (s, none)
      | Some st \<Rightarrow> (case f st of (st', r) \<Rightarrow> (s\<lparr>sc_store := Some st'\<rparr>, r)))"

definition of_store :: "'a \<Rightarrow> (Store \<Rightarrow> 'a) \<Rightarrow> ScopedStore \<Rightarrow> 'a" where
  "of_store none f s = (case sc_store s of None \<Rightarrow> none | Some st \<Rightarrow> f st)"

definition ownsSessionKey :: "ScopedStore \<Rightarrow> string \<Rightarrow> bool" where
  "ownsSessionKey s key = matchesFrontend s (fst (ParseSessionKey key))"

definition canonicalSessionKey :: "string \<Rightarrow> string" where
  "canonicalSessionKey key0 =
     (let key = trim key0 in
      if key = [] \<or> sublist '':workspace:'' key \<or> sublist '':pending:'' key then key
      else CanonicalSessionKey (fst (ParseSessionKey key)) key)"

definition promoteSessionAlias ::
  "int \<Rightarrow> string option \<Rightarrow> Session \<Rightarrow> string \<Rightarrow> Store \<Rightarrow> Store \<times> string" where
  "promoteSessionAlias now io sess canonical0 s =
     (let canonical = trim canonical0 in
      if canonical = [] then (s, canonical)
      else (fst (UpsertSession now io s (Some ((cloneSession sess)\<lparr>ss_Key := canonical\<rparr>))), canonical))"

definition resolveSessionKey ::
  "int \<Rightarrow> string option \<Rightarrow> string \<Rightarrow> Store \<Rightarrow> Store \<times> string" where
  "resolveSessionKey now io key0 s =
     (let key = trim key0; canonical = canonicalSessionKey key;
          alias = (\<lambda>_. case find (\<lambda>sess. \<not> sublist '':workspace:'' (trim (ss_Key sess)) \<and>
                                  \<not> sublist '':pending:'' (trim (ss_Key sess)) \<and>
                                  canonicalSessionKey (ss_Key sess) = canonical) (AllSessions s) of
                     Some sess \<Rightarrow> promoteSessionAlias now io sess canonical s
                   | None \<Rightarrow> (s, FirstNonEmpty [canonical, key])) in
      if key = [] then (s, key)
      else if canonical \<noteq> [] \<and> canonical \<noteq> key then
        (if GetSession s canonical \<noteq> None then (s, canonical)
         else case GetSession s key of
           Some sess \<Rightarrow> promoteSessionAlias now io sess canonical s
         | None \<Rightarrow> alias ())
      else if GetSession s key \<noteq> None then (s, key)
      else alias ())"

definition scoped_Session ::
  "int \<Rightarrow> string option \<Rightarrow> string \<Rightarrow> ScopedStore \<Rightarrow> ScopedStore \<times> Session option" where
  "scoped_Session now io key s =
     on_store None
       (\<lambda>st. if \<not> ownsSessionKey s key then (st, None)
             else case resolveSessionKey now io key st of
               (st', resolved) \<Rightarrow> (st', GetSession st' resolved)) s"

definition scoped_Sessions :: "ScopedStore \<Rightarrow> Session list" where
  "scoped_Sessions s =
     of_store [] (\<lambda>st. filter (\<lambda>sess. ownsSessionKey s (ss_Key sess)) (AllSessions st)) s"

datatype scoped_error = ForeignFrontendSession | ForeignOwner | ForeignInteraction | NilFallback
  | StoreError store_error

text \<open>What is written for a session: under its current key, with the thread of the backend in use.\<close>

definition scoped_form :: "ScopedStore \<Rightarrow> Session \<Rightarrow> Session" where
  "scoped_form s sess =
     (let cp = sess\<lparr>ss_Key := canonicalSessionKey (ss_Key sess)\<rparr> in
      if sc_backend s \<noteq> [] then StoreBackendThread cp (sc_backend s) else cp)"

definition SaveSession ::
  "int \<Rightarrow> string option \<Rightarrow> Session option \<Rightarrow> ScopedStore \<Rightarrow> ScopedStore \<times> scoped_error option" where
  "SaveSession now io session s =
     (case session of
        None \<Rightarrow> (s, None)
      | Some sess \<Rightarrow>
          on_store None
            (\<lambda>st. if \<not> ownsSessionKey s (ss_Key sess) then (st, Some ForeignFrontendSession)
                  else case UpsertSession now io st (Some (scoped_form s (cloneSession sess))) of
                    (st', e) \<Rightarrow> (st', map_option StoreError e)) s)"

definition scoped_UpdateSession ::
  "int \<Rightarrow> string option \<Rightarrow> string option \<Rightarrow> string \<Rightarrow> (Session \<Rightarrow> Session) option \<Rightarrow> ScopedStore
     \<Rightarrow> ScopedStore \<times> (scoped_error + Session option)" where
  "scoped_UpdateSession now io1 io2 key mutate s =
     on_store (Inr None)
       (\<lambda>st. if \<not> ownsSessionKey s key then (st, Inl ForeignFrontendSession)
             else case resolveSessionKey now io1 key st of
               (st1, resolved) \<Rightarrow>
                 (case UpdateSession now io2 st1 resolved
                         (Some (\<lambda>sess. scoped_form s (case mutate of None \<Rightarrow> sess | Some f \<Rightarrow> f sess))) of
                    (st2, Inl e) \<Rightarrow> (st2, Inl (StoreError e))
                  | (st2, Inr sess) \<Rightarrow> (st2, Inr (Some sess)))) s"

section \<open>Profiles and bindings (agent\_binding.go)\<close>

definition scope_or_default :: "ScopedStore \<Rightarrow> string" where
  "scope_or_default s = (if trim (sc_frontendID s) = [] then ''default'' else trim (sc_frontendID s))"

definition scoped_BotProfile :: "ScopedStore \<Rightarrow> BotProfile option" where
  "scoped_BotProfile s = of_store None (\<lambda>st. GetBotProfile st (scope_or_default s)) s"

definition SaveBotProfile ::
  "int \<Rightarrow> string option \<Rightarrow> BotProfile option \<Rightarrow> ScopedStore \<Rightarrow> ScopedStore \<times> store_error option" where
  "SaveBotProfile now io profile s =
     (case profile of
        None \<Rightarrow> (s, None)
      | Some p \<Rightarrow>
          on_store None
            (\<lambda>st. UpsertBotProfile now io st
               (Some (if trim (bp_FrontendID p) = [] then p\<lparr>bp_FrontendID := scope_or_default s\<rparr> else p))) s)"

definition scoped_DeleteBotProfile ::
  "string option \<Rightarrow> ScopedStore \<Rightarrow> ScopedStore \<times> store_error option" where
  "scoped_DeleteBotProfile io s = on_store None (\<lambda>st. DeleteBotProfile io st (sc_frontendID s)) s"

definition scoped_AgentBinding :: "string \<Rightarrow> ScopedStore \<Rightarrow> AgentBinding option" where
  "scoped_AgentBinding i s =
     of_store None (\<lambda>st. if trim i = [] then None
                         else GetScopedAgentBinding st (sc_frontendID s) (trim i)) s"

definition scoped_AgentBindings :: "ScopedStore \<Rightarrow> AgentBinding list" where
  "scoped_AgentBindings s =
     of_store [] (\<lambda>st. filter (\<lambda>b. matchesFrontend s (ab_FrontendID b)) (AllAgentBindings st)) s"

definition scoped_AgentBindingsForChat :: "string \<Rightarrow> string \<Rightarrow> ScopedStore \<Rightarrow> AgentBinding list" where
  "scoped_AgentBindingsForChat chatType0 chatID0 s =
     (let chatType = to_lower (trim chatType0); chatID = trim chatID0 in
      if chatID = [] then []
      else filter (\<lambda>b. ab_ChatID b = chatID \<and> (chatType = [] \<or> ab_ChatType b = chatType))
             (scoped_AgentBindings s))"

definition SaveAgentBinding ::
  "int \<Rightarrow> string option \<Rightarrow> AgentBinding option \<Rightarrow> ScopedStore \<Rightarrow> ScopedStore \<times> store_error option" where
  "SaveAgentBinding now io b s =
     on_store None (\<lambda>st. UpsertScopedAgentBinding now io st (sc_frontendID s) b) s"

definition scoped_DeleteAgentBinding ::
  "string option \<Rightarrow> string \<Rightarrow> ScopedStore \<Rightarrow> ScopedStore \<times> store_error option" where
  "scoped_DeleteAgentBinding io i s =
     on_store None (\<lambda>st. DeleteScopedAgentBinding io st (sc_frontendID s) (trim i)) s"

text \<open>
  The two updates copy the latest record, change the copy, save it and read it back, under the
  mutex that the gateways of a store share.
\<close>

definition scoped_UpdateAgentBinding ::
  "int \<Rightarrow> string option \<Rightarrow> AgentBinding option \<Rightarrow> (AgentBinding \<Rightarrow> AgentBinding) option \<Rightarrow> ScopedStore
     \<Rightarrow> ScopedStore \<times> (scoped_error + AgentBinding option)" where
  "scoped_UpdateAgentBinding now io fallback mutate s =
     (case (sc_store s, fallback) of
        (Some _, Some fb) \<Rightarrow>
          let binding = (case scoped_AgentBinding (ab_ID fb) s of Some latest \<Rightarrow> latest | None \<Rightarrow> fb);
              current = (case mutate of None \<Rightarrow> binding | Some f \<Rightarrow> f binding) in
          (case SaveAgentBinding now io (Some current) s of
             (s', Some e) \<Rightarrow> (s', Inl (StoreError e))
           | (s', None) \<Rightarrow> (s', Inr (scoped_AgentBinding (ab_ID current) s')))
      | _ \<Rightarrow> (s, Inl NilFallback))"

definition scoped_UpdateBotProfile ::
  "int \<Rightarrow> string option \<Rightarrow> BotProfile option \<Rightarrow> (BotProfile \<Rightarrow> BotProfile) option \<Rightarrow> ScopedStore
     \<Rightarrow> ScopedStore \<times> (scoped_error + BotProfile option)" where
  "scoped_UpdateBotProfile now io fallback mutate s =
     (case (sc_store s, fallback) of
        (Some _, Some fb) \<Rightarrow>
          let profile = (case scoped_BotProfile s of Some latest \<Rightarrow> latest | None \<Rightarrow> fb);
              current = (case mutate of None \<Rightarrow> profile | Some f \<Rightarrow> f profile) in
          (case SaveBotProfile now io (Some current) s of
             (s', Some e) \<Rightarrow> (s', Inl (StoreError e))
           | (s', None) \<Rightarrow> (s', Inr (scoped_BotProfile s')))
      | _ \<Rightarrow> (s, Inl NilFallback))"

section \<open>Group primaries and announcement blocks (group\_primary.go, group\_announcement\_block.go)\<close>

definition sanitizeGroupPrimaryIDPart :: "string \<Rightarrow> string" where
  "sanitizeGroupPrimaryIDPart value0 =
     (let value = trim value0;
          clean = replace_unsafe (\<lambda>c. ascii_alnum c \<or> c \<in> {CHR ''-'', CHR ''_'', CHR ''.''}) CHR ''_'' value in
      if value = [] then ''default'' else if clean = [] then ''default'' else clean)"

definition DefaultGroupPrimaryID :: "string \<Rightarrow> string \<Rightarrow> string \<Rightarrow> string" where
  "DefaultGroupPrimaryID frontendID chatType chatID =
     ''primary_'' @ sanitizeGroupPrimaryIDPart frontendID @ ''_'' @
     sanitizeGroupPrimaryIDPart chatType @ ''_'' @ sanitizeGroupPrimaryIDPart chatID"

definition DefaultGroupAnnouncementBlockID :: "string \<Rightarrow> string \<Rightarrow> string \<Rightarrow> string" where
  "DefaultGroupAnnouncementBlockID frontendID chatType chatID =
     ''announcement_'' @ sanitizeGroupPrimaryIDPart frontendID @ ''_'' @
     sanitizeGroupPrimaryIDPart chatType @ ''_'' @ sanitizeGroupPrimaryIDPart chatID"

definition scoped_GroupPrimary :: "string \<Rightarrow> string \<Rightarrow> ScopedStore \<Rightarrow> GroupPrimary option" where
  "scoped_GroupPrimary chatType chatID s =
     of_store None (\<lambda>st. GetScopedGroupPrimary st (sc_frontendID s)
       (DefaultGroupPrimaryID (sc_frontendID s) chatType chatID)) s"

definition GroupPrimariesForChat :: "string \<Rightarrow> string \<Rightarrow> ScopedStore \<Rightarrow> GroupPrimary list" where
  "GroupPrimariesForChat chatType chatID s =
     (case scoped_GroupPrimary chatType chatID s of None \<Rightarrow> [] | Some p \<Rightarrow> [p])"

definition groupPrimaryForSave :: "ScopedStore \<Rightarrow> GroupPrimary option \<Rightarrow> GroupPrimary option" where
  "groupPrimaryForSave s primary =
     map_option
       (\<lambda>p. let cp = p\<lparr>gp_FrontendID := trim (sc_frontendID s)\<rparr> in
            if trim (gp_ChatType cp) \<noteq> [] \<and> trim (gp_ChatID cp) \<noteq> []
            then cp\<lparr>gp_ID := DefaultGroupPrimaryID (sc_frontendID s) (gp_ChatType cp) (gp_ChatID cp)\<rparr>
            else cp) primary"

definition SaveGroupPrimary ::
  "int \<Rightarrow> string option \<Rightarrow> GroupPrimary option \<Rightarrow> ScopedStore \<Rightarrow> ScopedStore \<times> store_error option" where
  "SaveGroupPrimary now io primary s =
     on_store None (\<lambda>st. UpsertGroupPrimary now io st (groupPrimaryForSave s primary)) s"

definition scoped_EnsureGroupPrimary ::
  "int \<Rightarrow> string option \<Rightarrow> GroupPrimary option \<Rightarrow> ScopedStore
     \<Rightarrow> ScopedStore \<times> (store_error + GroupPrimary option)" where
  "scoped_EnsureGroupPrimary now io primary s =
     on_store (Inr None) (\<lambda>st. EnsureGroupPrimary now io st (groupPrimaryForSave s primary)) s"

definition GroupAnnouncementBlocksForChat ::
  "string \<Rightarrow> string \<Rightarrow> ScopedStore \<Rightarrow> GroupAnnouncementBlock list" where
  "GroupAnnouncementBlocksForChat chatType chatID s =
     of_store [] (\<lambda>st. GroupAnnouncementBlocksByChat (Some st) (sc_frontendID s) chatType chatID) s"

definition scoped_GroupAnnouncementBlock ::
  "string \<Rightarrow> string \<Rightarrow> ScopedStore \<Rightarrow> GroupAnnouncementBlock option" where
  "scoped_GroupAnnouncementBlock chatType chatID s =
     (case GroupAnnouncementBlocksForChat chatType chatID s of [] \<Rightarrow> None | r # rs \<Rightarrow> Some r)"

definition GroupAnnouncementBlocks :: "ScopedStore \<Rightarrow> GroupAnnouncementBlock list" where
  "GroupAnnouncementBlocks s =
     of_store [] (\<lambda>st. filter (\<lambda>r. gb_FrontendID r = sc_frontendID s)
                       (AllGroupAnnouncementBlocks (Some st))) s"

definition SaveGroupAnnouncementBlock ::
  "int \<Rightarrow> string option \<Rightarrow> GroupAnnouncementBlock option \<Rightarrow> ScopedStore
     \<Rightarrow> ScopedStore \<times> store_error option" where
  "SaveGroupAnnouncementBlock now io record s =
     (let r = map_option
            (\<lambda>r. if trim (gb_ID r) = []
                 then r\<lparr>gb_ID := DefaultGroupAnnouncementBlockID (sc_frontendID s) (gb_ChatType r) (gb_ChatID r)\<rparr>
                 else r) record in
      on_store None (\<lambda>st. UpsertScopedGroupAnnouncementBlock now io st (sc_frontendID s) r) s)"

section \<open>Message links and notifications (message.go)\<close>

definition scoped_NextLocalID :: "string \<Rightarrow> string \<Rightarrow> ScopedStore \<Rightarrow> ScopedStore \<times> string" where
  "scoped_NextLocalID stamp name s = on_store [] (\<lambda>st. NextLocalID stamp st (trim name)) s"

definition scoped_MessageLink :: "string \<Rightarrow> ScopedStore \<Rightarrow> MessageLink option" where
  "scoped_MessageLink messageID s =
     of_store None (\<lambda>st. if trim messageID = [] then None
                         else GetScopedMessageLink st (sc_frontendID s) (trim messageID)) s"

definition SaveMessageLink :: "MessageLink option \<Rightarrow> ScopedStore \<Rightarrow> ScopedStore" where
  "SaveMessageLink link0 s =
     (case link0 of
        None \<Rightarrow> s
      | Some link \<Rightarrow>
          let a = (if trim (ml_FrontendID link) = [] then link\<lparr>ml_FrontendID := sc_frontendID s\<rparr> else link);
              b = (if trim (ml_Backend a) = [] then a\<lparr>ml_Backend := sc_backend s\<rparr> else a) in
          fst (on_store () (\<lambda>st. (UpsertMessageLink st (Some b), ())) s))"

definition scoped_DeleteMessageLinks :: "(MessageLink \<Rightarrow> bool) option \<Rightarrow> ScopedStore \<Rightarrow> ScopedStore" where
  "scoped_DeleteMessageLinks match s =
     (case match of
        None \<Rightarrow> s
      | Some m \<Rightarrow>
          fst (on_store () (\<lambda>st. (DeleteMessageLinks st
            (Some (\<lambda>link. matchesFrontend s (ml_FrontendID link) \<and> m link)), ())) s))"

definition QueueFrontendCardNotification ::
  "int \<Rightarrow> string option \<Rightarrow> FrontendCardNotification \<Rightarrow> ScopedStore \<Rightarrow> ScopedStore \<times> store_error option" where
  "QueueFrontendCardNotification now io note s =
     on_store None (\<lambda>st. AppendFrontendCardNotification now io st (trim (sc_frontendID s)) note) s"

definition scoped_DeleteFrontendCardNotificationsByCollapseKey ::
  "string option \<Rightarrow> string \<Rightarrow> ScopedStore \<Rightarrow> ScopedStore \<times> store_error option" where
  "scoped_DeleteFrontendCardNotificationsByCollapseKey io key s =
     on_store None
       (\<lambda>st. DeleteFrontendCardNotificationsByCollapseKey io st (trim (sc_frontendID s)) key) s"

definition scoped_FrontendCardNotifications :: "ScopedStore \<Rightarrow> FrontendCardNotification list" where
  "scoped_FrontendCardNotifications s =
     of_store [] (\<lambda>st. FrontendCardNotifications st (sc_frontendID s)) s"

definition scoped_DrainFrontendCardNotifications ::
  "string option \<Rightarrow> ScopedStore \<Rightarrow> ScopedStore \<times> FrontendCardNotification list \<times> store_error option" where
  "scoped_DrainFrontendCardNotifications io s =
     on_store ([], None) (\<lambda>st. DrainFrontendCardNotifications io st (sc_frontendID s)) s"

section \<open>Pending requests (pending.go)\<close>

definition scoped_Pending :: "string \<Rightarrow> ScopedStore \<Rightarrow> PendingRequest option" where
  "scoped_Pending i s =
     of_store None (\<lambda>st. if trim i = [] then None
                         else PendingByScopedID st (sc_frontendID s) (trim i)) s"

text \<open>
  The chat type of the session decides who may answer: a group's requests belong to nobody in
  particular. A chat the key does not type is a group when the frontend knows it as one.
\<close>

definition pending_chat_type :: "string \<Rightarrow> string \<Rightarrow> Session option \<Rightarrow> Store \<Rightarrow> string" where
  "pending_chat_type frontendID sessionKey session st =
     (case session of
        Some sess \<Rightarrow> ss_ChatType sess
      | None \<Rightarrow>
          (case ParseSessionKey sessionKey of (f, parsed, chatID, r, u) \<Rightarrow>
             if parsed = [] \<and> chatID \<noteq> [] then
               (if AgentBindingsByChat st frontendID ''group'' chatID \<noteq> [] then ''group''
                else if GroupPrimariesByChat st frontendID ''group'' chatID \<noteq> [] then ''group''
                else parsed)
             else parsed))"

definition SavePending ::
  "int \<Rightarrow> string option \<Rightarrow> PendingRequest option \<Rightarrow> ScopedStore \<Rightarrow> ScopedStore" where
  "SavePending now io request s =
     (case request of
        None \<Rightarrow> s
      | Some req \<Rightarrow>
          let a = (if trim (pr_FrontendID req) = [] then req\<lparr>pr_FrontendID := sc_frontendID s\<rparr> else req);
              b = (if trim (pr_Backend a) = [] then a\<lparr>pr_Backend := sc_backend s\<rparr> else a) in
          case scoped_Session now io (pr_SessionKey b) s of
            (s1, session) \<Rightarrow>
              (case sc_store s1 of
                 None \<Rightarrow> s1
               | Some st \<Rightarrow>
                   let chatType = pending_chat_type (sc_frontendID s) (pr_SessionKey b) session st;
                       cp = (if equal_fold (trim chatType) ''group'' then b\<lparr>pr_OwnerUserID := []\<rparr> else b) in
                   s1\<lparr>sc_store := Some (UpsertPending st (Some cp))\<rparr>))"

definition scoped_PendingRequests :: "ScopedStore \<Rightarrow> PendingRequest list" where
  "scoped_PendingRequests s =
     of_store [] (\<lambda>st. filter (\<lambda>r. matchesFrontend s (pr_FrontendID r)) (AllPendingRequests st)) s"

definition UpdatePending ::
  "string \<Rightarrow> (PendingRequest \<Rightarrow> PendingRequest) \<Rightarrow> ScopedStore \<Rightarrow> ScopedStore \<times> store_error option" where
  "UpdatePending i mutate s =
     on_store None (\<lambda>st. if trim i = [] then (st, None)
                         else UpdateScopedPending st (sc_frontendID s) (trim i) mutate) s"

definition ResolvePending :: "string \<Rightarrow> ScopedStore \<Rightarrow> ScopedStore \<times> PendingRequest option" where
  "ResolvePending i s =
     (let s' = fst (UpdatePending i (\<lambda>req. req\<lparr>pr_Status := ''resolved''\<rparr>) s) in (s', scoped_Pending i s'))"

definition scoped_DeletePendingRequests :: "(PendingRequest \<Rightarrow> bool) option \<Rightarrow> ScopedStore \<Rightarrow> ScopedStore" where
  "scoped_DeletePendingRequests match s =
     (case match of
        None \<Rightarrow> s
      | Some m \<Rightarrow>
          fst (on_store () (\<lambda>st. (DeletePendingRequests st
            (Some (\<lambda>req. matchesFrontend s (pr_FrontendID req) \<and> m req)), ())) s))"

definition DeleteTurnArtifacts :: "string \<Rightarrow> ScopedStore \<Rightarrow> ScopedStore" where
  "DeleteTurnArtifacts turnID0 s =
     (let turnID = trim turnID0 in
      if turnID = [] then s
      else scoped_DeleteMessageLinks (Some (\<lambda>link. trim (ml_TurnID link) = turnID))
             (scoped_DeletePendingRequests (Some (\<lambda>req. trim (pr_TurnID req) = turnID)) s))"

section \<open>Submissions (submission.go)\<close>

definition scoped_CreateSubmission ::
  "int \<Rightarrow> string \<Rightarrow> Submission \<Rightarrow> ScopedStore \<Rightarrow> ScopedStore \<times> string" where
  "scoped_CreateSubmission now stamp sub s = on_store [] (\<lambda>st. CreateSubmission now stamp st sub) s"

definition scoped_DeleteSubmission :: "string \<Rightarrow> ScopedStore \<Rightarrow> ScopedStore" where
  "scoped_DeleteSubmission i s = fst (on_store () (\<lambda>st. (DeleteSubmission st (trim i), ())) s)"

definition scoped_Submission :: "string \<Rightarrow> ScopedStore \<Rightarrow> Submission option" where
  "scoped_Submission i s = of_store None (\<lambda>st. GetSubmission st (trim i)) s"

definition scoped_UpdateSubmission ::
  "int \<Rightarrow> string \<Rightarrow> (Submission \<Rightarrow> Submission) \<Rightarrow> ScopedStore \<Rightarrow> ScopedStore \<times> store_error option" where
  "scoped_UpdateSubmission now i mutate s =
     on_store None (\<lambda>st. UpdateSubmission now st (trim i) mutate) s"

definition SetSubmissionStatus ::
  "int \<Rightarrow> string \<Rightarrow> string \<Rightarrow> ScopedStore \<Rightarrow> ScopedStore \<times> store_error option" where
  "SetSubmissionStatus now i status = scoped_UpdateSubmission now i (\<lambda>sub. SetStatus sub status)"

definition MarkSubmissionRunning ::
  "int \<Rightarrow> string \<Rightarrow> string \<Rightarrow> string \<Rightarrow> ScopedStore \<Rightarrow> ScopedStore \<times> store_error option" where
  "MarkSubmissionRunning now i threadID turnID =
     scoped_UpdateSubmission now i (\<lambda>sub. MarkRunning sub threadID turnID)"

definition FinalizeSubmission ::
  "int \<Rightarrow> string \<Rightarrow> string \<Rightarrow> ScopedStore \<Rightarrow> ScopedStore \<times> store_error option" where
  "FinalizeSubmission now i status = scoped_UpdateSubmission now i (\<lambda>sub. Finalize sub status)"

definition scoped_QueueSubmission ::
  "int \<Rightarrow> string option \<Rightarrow> string \<Rightarrow> string \<Rightarrow> ScopedStore \<Rightarrow> ScopedStore \<times> store_error option" where
  "scoped_QueueSubmission now io sessionKey i s =
     on_store None (\<lambda>st. QueueSubmission now io st (trim sessionKey) (trim i)) s"

definition scoped_DequeueSubmission ::
  "int \<Rightarrow> string option \<Rightarrow> string \<Rightarrow> ScopedStore \<Rightarrow> ScopedStore \<times> string \<times> store_error option" where
  "scoped_DequeueSubmission now io sessionKey s =
     on_store ([], None) (\<lambda>st. DequeueSubmission now io st (trim sessionKey)) s"

section \<open>Terminal transitions (terminal\_transition.go)\<close>

definition foreign_requests :: "ScopedStore \<Rightarrow> PendingRequest option list \<Rightarrow> bool" where
  "foreign_requests s requests =
     (\<exists>r\<in>set requests. case r of None \<Rightarrow> True | Some req \<Rightarrow> \<not> matchesFrontend s (pr_FrontendID req))"

text \<open>The call dereferences the store: it is made on a gateway that has one.\<close>

definition scoped_CommitTerminal ::
  "int \<Rightarrow> string option \<Rightarrow> Session option \<Rightarrow> Session option \<Rightarrow> Submission option \<Rightarrow> Submission option
     \<Rightarrow> PendingRequest option list \<Rightarrow> PendingRequest option list \<Rightarrow> ScopedStore
     \<Rightarrow> ScopedStore \<times> scoped_error option" where
  "scoped_CommitTerminal now io expectedSession nextSession expectedSubmission nextSubmission
     expectedRequests nextRequests s =
     (case expectedSession of
        None \<Rightarrow> (s, Some ForeignFrontendSession)
      | Some eSess \<Rightarrow>
          (case (nextSession, expectedSubmission, nextSubmission) of
             (Some nSess, Some eSub, Some nSub) \<Rightarrow>
               if ss_Key nSess \<noteq> ss_Key eSess \<or> sub_SessionKey eSub \<noteq> ss_Key eSess \<or>
                  sub_SessionKey nSub \<noteq> ss_Key eSess
               then (s, Some ForeignOwner)
               else if \<not> ownsSessionKey s (ss_Key eSess) then (s, Some ForeignFrontendSession)
               else if foreign_requests s expectedRequests \<or> foreign_requests s nextRequests
               then (s, Some ForeignInteraction)
               else on_store None
                 (\<lambda>st. map_prod id (map_option StoreError)
                   (CommitTerminal now io st (Some eSess) (Some nSess) (Some eSub) (Some nSub)
                      expectedRequests nextRequests)) s
           | _ \<Rightarrow> (s, Some ForeignOwner)))"

end
