(* ===== verification/Runtime_State.thy ===== *)
theory Runtime_State
  imports Complex_Main Submission "HOL-Library.AList"
begin

text \<open>
  The transient state of one frontend: who starts queued work
  (\<open>internal/runtime/submission_start.go\<close>), which threads are attached to the current process
  (\<open>live_threads.go\<close>), which submission a turn answers (\<open>turnbinding/tracker.go\<close>), the upgrade
  or restart of a backend (\<open>maintenance_tracker.go\<close>) and the switch to another backend
  (\<open>backend_transition.go\<close>). Each operation is the part of the method under its mutex. Maps are
  association lists; the zero time is None. Nil receivers answer with zero values and are not
  modelled.
\<close>

section \<open>Starts of queued work (submission\_start.go)\<close>

type_synonym SubmissionStarts = "(string \<times> StartState) list"

definition start_of :: "SubmissionStarts \<Rightarrow> string \<Rightarrow> StartState" where
  "start_of g key = (case map_of g key of None \<Rightarrow> zero_StartState | Some s \<Rightarrow> s)"

definition TryBegin :: "string \<Rightarrow> SubmissionStarts \<Rightarrow> SubmissionStarts \<times> bool" where
  "TryBegin sessionKey g =
     (let key = trim sessionKey in
      if key = [] then (g, False)
      else case Begin (start_of g key) of (next_state, admitted) \<Rightarrow> (AList.update key next_state g, admitted))"

definition FinishStarts :: "string \<Rightarrow> SubmissionStarts \<Rightarrow> SubmissionStarts \<times> bool" where
  "FinishStarts sessionKey g =
     (let key = trim sessionKey in
      if key = [] then (g, False)
      else (AList.delete key g, snd (Finish (start_of g key))))"

section \<open>Live threads (live\_threads.go)\<close>

type_synonym LiveThreads = "(string \<times> string) list"

definition MarkLive :: "string \<Rightarrow> string \<Rightarrow> LiveThreads \<Rightarrow> LiveThreads" where
  "MarkLive sessionKey threadID t =
     (if trim sessionKey = [] \<or> trim threadID = [] then t
      else AList.update (trim sessionKey) (trim threadID) t)"

definition HasLive :: "string \<Rightarrow> string \<Rightarrow> LiveThreads \<Rightarrow> bool" where
  "HasLive sessionKey threadID t \<longleftrightarrow>
     trim sessionKey \<noteq> [] \<and> trim threadID \<noteq> [] \<and> map_of t (trim sessionKey) = Some (trim threadID)"

definition ClearLive :: "string \<Rightarrow> LiveThreads \<Rightarrow> LiveThreads" where
  "ClearLive sessionKey t = AList.delete (trim sessionKey) t"

definition ResetLive :: "LiveThreads \<Rightarrow> LiveThreads" where
  "ResetLive t = []"

section \<open>Turns and submissions (turnbinding/tracker.go)\<close>

text \<open>Usage numbers are stored and handed out, never computed with.\<close>

record TokenUsageBreakdown =
  tu_TotalTokens :: int
  tu_InputTokens :: int
  tu_CachedInputTokens :: int
  tu_OutputTokens :: int
  tu_ReasoningOutputTokens :: int

definition zero_Usage :: TokenUsageBreakdown where
  "zero_Usage = \<lparr>tu_TotalTokens = 0, tu_InputTokens = 0, tu_CachedInputTokens = 0,
     tu_OutputTokens = 0, tu_ReasoningOutputTokens = 0\<rparr>"

record ThreadTokenUsage =
  ttu_Total :: TokenUsageBreakdown
  ttu_Last :: TokenUsageBreakdown
  ttu_ModelContextWindow :: "int option"

record TurnBinding =
  tb_Binding :: Binding
  tb_LastUsage :: TokenUsageBreakdown
  tb_HasLastUsage :: bool
  tb_ContextUsagePercent :: rat
  tb_HasContextUsagePercent :: bool

definition new_binding :: "string \<Rightarrow> string \<Rightarrow> string \<Rightarrow> TurnBinding" where
  "new_binding threadID sessionKey submissionID =
     \<lparr>tb_Binding = NewBinding threadID sessionKey submissionID, tb_LastUsage = zero_Usage,
      tb_HasLastUsage = False, tb_ContextUsagePercent = 0, tb_HasContextUsagePercent = False\<rparr>"

record ClaudeThreadUsageSnapshot =
  cu_TotalInputTokens :: int
  cu_TotalOutputTokens :: int
  cu_TotalCacheReadTokens :: int
  cu_TotalCacheCreationTokens :: int
  cu_TotalCostUSD :: rat
  cu_ContextWindow :: int
  cu_ContextUsagePercent :: rat
  cu_HasContextUsagePercent :: bool

record TurnTracker =
  tk_Bindings :: "(string \<times> TurnBinding) list"
  tk_Pending :: "(string \<times> TurnBinding list) list"
  tk_ThreadUsage :: "(string \<times> ThreadTokenUsage) list"
  tk_ClaudeUsage :: "(string \<times> ClaudeThreadUsageSnapshot) list"

definition NewTurnTracker :: TurnTracker where
  "NewTurnTracker = \<lparr>tk_Bindings = [], tk_Pending = [], tk_ThreadUsage = [], tk_ClaudeUsage = []\<rparr>"

text \<open>The lookup of a submission in the store is the argument \<open>lookup\<close>; the ids are trimmed.\<close>

definition tracked_submission :: "(string \<Rightarrow> Submission option) \<Rightarrow> TurnBinding \<Rightarrow> Submission option" where
  "tracked_submission lookup b = lookup (trim (bnd_SubmissionID (tb_Binding b)))"

definition pending_of :: "TurnTracker \<Rightarrow> string \<Rightarrow> TurnBinding list" where
  "pending_of t threadID = (case map_of (tk_Pending t) threadID of None \<Rightarrow> [] | Some bs \<Rightarrow> bs)"

definition put_pending :: "string \<Rightarrow> TurnBinding list \<Rightarrow> TurnTracker \<Rightarrow> TurnTracker" where
  "put_pending threadID bs t =
     (if bs = [] then t\<lparr>tk_Pending := AList.delete threadID (tk_Pending t)\<rparr>
      else t\<lparr>tk_Pending := AList.update threadID bs (tk_Pending t)\<rparr>)"

definition NotePendingTurnBinding :: "string \<Rightarrow> string \<Rightarrow> string \<Rightarrow> TurnTracker \<Rightarrow> TurnTracker" where
  "NotePendingTurnBinding threadID0 sessionKey submissionID0 t =
     (let threadID = trim threadID0; submissionID = trim submissionID0; bs = pending_of t threadID in
      if threadID = [] then t
      else if \<exists>b\<in>set bs. trim (bnd_SubmissionID (tb_Binding b)) = submissionID then t
      else put_pending threadID (bs @ [new_binding threadID sessionKey submissionID]) t)"

definition open_pending :: "(string \<Rightarrow> Submission option) \<Rightarrow> TurnBinding \<Rightarrow> bool" where
  "open_pending lookup b =
     (case tracked_submission lookup b of None \<Rightarrow> False | Some sub \<Rightarrow> \<not> sub_Finalized sub)"

definition PendingSubmissionForThread ::
  "(string \<Rightarrow> Submission option) \<Rightarrow> string \<Rightarrow> TurnTracker \<Rightarrow> TurnTracker \<times> string \<times> Submission option" where
  "PendingSubmissionForThread lookup threadID0 t =
     (let threadID = trim threadID0 in
      if threadID = [] then (t, [], None)
      else
        let still = filter (open_pending lookup) (pending_of t threadID);
            t' = put_pending threadID still t in
        (case still of
           [] \<Rightarrow> (t', [], None)
         | b # bs \<Rightarrow>
             (case tracked_submission lookup b of
                None \<Rightarrow> (t', [], None)
              | Some sub \<Rightarrow> (t', bnd_SessionKey (tb_Binding b), Some sub))))"

definition ClearPendingTurnBindingForSubmission :: "string \<Rightarrow> string \<Rightarrow> TurnTracker \<Rightarrow> TurnTracker" where
  "ClearPendingTurnBindingForSubmission threadID0 submissionID0 t =
     (let threadID = trim threadID0; submissionID = trim submissionID0; bs = pending_of t threadID in
      if threadID = [] \<or> submissionID = [] then t
      else if bs = [] then t
      else put_pending threadID
        (filter (\<lambda>b. trim (bnd_SubmissionID (tb_Binding b)) \<noteq> submissionID) bs) t)"

definition BindTurnSubmission :: "string \<Rightarrow> string \<Rightarrow> string \<Rightarrow> string \<Rightarrow> TurnTracker \<Rightarrow> TurnTracker" where
  "BindTurnSubmission threadID turnID0 sessionKey submissionID t =
     (let turnID = trim turnID0 in
      if turnID = [] then t
      else t\<lparr>tk_Bindings := AList.update turnID (new_binding threadID sessionKey submissionID) (tk_Bindings t)\<rparr>)"

text \<open>A change of an existing binding; without one nothing happens.\<close>

definition change_binding :: "string \<Rightarrow> (TurnBinding \<Rightarrow> TurnBinding) \<Rightarrow> TurnTracker \<Rightarrow> TurnTracker" where
  "change_binding turnID f t =
     (case map_of (tk_Bindings t) turnID of
        None \<Rightarrow> t
      | Some b \<Rightarrow> t\<lparr>tk_Bindings := AList.update turnID (f b) (tk_Bindings t)\<rparr>)"

definition RebindTurnThreadID :: "string \<Rightarrow> string \<Rightarrow> TurnTracker \<Rightarrow> TurnTracker" where
  "RebindTurnThreadID turnID0 threadID0 t =
     (let turnID = trim turnID0; threadID = trim threadID0 in
      if turnID = [] \<or> threadID = [] then t
      else change_binding turnID (tb_Binding_update (bnd_ThreadID_update (\<lambda>_. threadID))) t)"

definition BoundSubmissionForTurn ::
  "(string \<Rightarrow> Submission option) \<Rightarrow> string \<Rightarrow> TurnTracker \<Rightarrow> string \<times> Submission option" where
  "BoundSubmissionForTurn lookup turnID0 t =
     (let turnID = trim turnID0 in
      if turnID = [] then ([], None)
      else case map_of (tk_Bindings t) turnID of
        None \<Rightarrow> ([], None)
      | Some b \<Rightarrow>
          (case tracked_submission lookup b of
             None \<Rightarrow> ([], None)
           | Some sub \<Rightarrow> (bnd_SessionKey (tb_Binding b), Some sub)))"

definition ClearTurnBinding :: "string \<Rightarrow> TurnTracker \<Rightarrow> TurnTracker" where
  "ClearTurnBinding turnID0 t =
     (let turnID = trim turnID0 in
      if turnID = [] then t else t\<lparr>tk_Bindings := AList.delete turnID (tk_Bindings t)\<rparr>)"

definition MarkTurnStartedAt :: "string \<Rightarrow> int \<Rightarrow> TurnTracker \<Rightarrow> TurnTracker" where
  "MarkTurnStartedAt turnID0 startedAt t =
     (let turnID = trim turnID0 in
      if turnID = [] then t
      else change_binding turnID (tb_Binding_update (\<lambda>b. MarkStarted b startedAt)) t)"

definition RecordTurnTokenUsage :: "string \<Rightarrow> string \<Rightarrow> ThreadTokenUsage \<Rightarrow> TurnTracker \<Rightarrow> TurnTracker" where
  "RecordTurnTokenUsage threadID0 turnID0 usage t =
     (let threadID = trim threadID0; turnID = trim turnID0;
          t1 = (if threadID = [] then t
                else t\<lparr>tk_ThreadUsage := AList.update threadID usage (tk_ThreadUsage t)\<rparr>) in
      if turnID = [] then t1
      else change_binding turnID
        (\<lambda>b. b\<lparr>tb_LastUsage := ttu_Last usage, tb_HasLastUsage := True\<rparr>) t1)"

definition RecordTurnContextUsagePercent :: "string \<Rightarrow> rat \<Rightarrow> TurnTracker \<Rightarrow> TurnTracker" where
  "RecordTurnContextUsagePercent turnID0 percentage t =
     (let turnID = trim turnID0 in
      if turnID = [] then t
      else change_binding turnID
        (\<lambda>b. b\<lparr>tb_ContextUsagePercent := percentage, tb_HasContextUsagePercent := True\<rparr>) t)"

definition TurnMetadata :: "string \<Rightarrow> TurnTracker \<Rightarrow> TurnBinding option" where
  "TurnMetadata turnID t = map_of (tk_Bindings t) (trim turnID)"

definition CurrentThreadUsage :: "string \<Rightarrow> TurnTracker \<Rightarrow> ThreadTokenUsage option" where
  "CurrentThreadUsage threadID t =
     (if trim threadID = [] then None else map_of (tk_ThreadUsage t) (trim threadID))"

definition SetClaudeThreadUsage :: "string \<Rightarrow> ClaudeThreadUsageSnapshot \<Rightarrow> TurnTracker \<Rightarrow> TurnTracker" where
  "SetClaudeThreadUsage threadID snapshot t =
     t\<lparr>tk_ClaudeUsage := AList.update threadID snapshot (tk_ClaudeUsage t)\<rparr>"

definition GetClaudeThreadUsage :: "string \<Rightarrow> TurnTracker \<Rightarrow> ClaudeThreadUsageSnapshot option" where
  "GetClaudeThreadUsage threadID t = map_of (tk_ClaudeUsage t) threadID"

section \<open>Maintenance of a backend (maintenance\_tracker.go)\<close>

record UpgradeSnapshot =
  up_Running :: bool
  up_Phase :: string
  up_Result :: string
  up_Message :: string
  up_CurrentVersion :: string
  up_PreviousVersion :: string
  up_TargetVersion :: string
  up_LatestVersion :: string
  up_StartedAt :: "int option"
  up_UpdatedAt :: "int option"

record RestartSnapshot =
  rs_Running :: bool
  rs_Phase :: string
  rs_Result :: string
  rs_Message :: string
  rs_CurrentVersion :: string
  rs_StartedAt :: "int option"
  rs_UpdatedAt :: "int option"

definition zero_Upgrade :: UpgradeSnapshot where
  "zero_Upgrade = \<lparr>up_Running = False, up_Phase = [], up_Result = [], up_Message = [],
     up_CurrentVersion = [], up_PreviousVersion = [], up_TargetVersion = [], up_LatestVersion = [],
     up_StartedAt = None, up_UpdatedAt = None\<rparr>"

definition zero_Restart :: RestartSnapshot where
  "zero_Restart = \<lparr>rs_Running = False, rs_Phase = [], rs_Result = [], rs_Message = [],
     rs_CurrentVersion = [], rs_StartedAt = None, rs_UpdatedAt = None\<rparr>"

record MaintenanceTracker =
  mt_Upgrade :: UpgradeSnapshot
  mt_Restart :: RestartSnapshot

definition NewMaintenanceTracker :: MaintenanceTracker where
  "NewMaintenanceTracker = \<lparr>mt_Upgrade = zero_Upgrade, mt_Restart = zero_Restart\<rparr>"

definition Active :: "MaintenanceTracker \<Rightarrow> bool" where
  "Active t \<longleftrightarrow> up_Running (mt_Upgrade t) \<or> rs_Running (mt_Restart t)"

definition BeginUpgrade :: "int \<Rightarrow> UpgradeSnapshot \<Rightarrow> MaintenanceTracker \<Rightarrow> MaintenanceTracker \<times> bool" where
  "BeginUpgrade now snapshot t =
     (let s = snapshot\<lparr>up_Running := True,
            up_Phase := (if up_Phase snapshot = [] then ''preflight'' else up_Phase snapshot),
            up_StartedAt := (if up_StartedAt snapshot = None then Some now else up_StartedAt snapshot),
            up_UpdatedAt := Some now\<rparr> in
      if Active t then (t, False) else (t\<lparr>mt_Upgrade := s\<rparr>, True))"

definition BeginRestart :: "int \<Rightarrow> RestartSnapshot \<Rightarrow> MaintenanceTracker \<Rightarrow> MaintenanceTracker \<times> bool" where
  "BeginRestart now snapshot t =
     (let s = snapshot\<lparr>rs_Running := True,
            rs_Phase := (if rs_Phase snapshot = [] then ''preflight'' else rs_Phase snapshot),
            rs_StartedAt := (if rs_StartedAt snapshot = None then Some now else rs_StartedAt snapshot),
            rs_UpdatedAt := Some now\<rparr> in
      if Active t then (t, False) else (t\<lparr>mt_Restart := s\<rparr>, True))"

definition UpdateUpgrade ::
  "int \<Rightarrow> (UpgradeSnapshot \<Rightarrow> UpgradeSnapshot) \<Rightarrow> MaintenanceTracker \<Rightarrow> MaintenanceTracker \<times> UpgradeSnapshot" where
  "UpdateUpgrade now mutate t =
     (let s = (mutate (mt_Upgrade t))\<lparr>up_UpdatedAt := Some now\<rparr> in (t\<lparr>mt_Upgrade := s\<rparr>, s))"

definition UpdateRestart ::
  "int \<Rightarrow> (RestartSnapshot \<Rightarrow> RestartSnapshot) \<Rightarrow> MaintenanceTracker \<Rightarrow> MaintenanceTracker \<times> RestartSnapshot" where
  "UpdateRestart now mutate t =
     (let s = (mutate (mt_Restart t))\<lparr>rs_UpdatedAt := Some now\<rparr> in (t\<lparr>mt_Restart := s\<rparr>, s))"

definition finished_upgrade :: "string \<Rightarrow> string \<Rightarrow> UpgradeSnapshot \<Rightarrow> UpgradeSnapshot" where
  "finished_upgrade result message snapshot =
     (let s = snapshot\<lparr>up_Running := False,
            up_Result := (if trim result \<noteq> [] then trim result else up_Result snapshot),
            up_Message := (if trim message \<noteq> [] then trim message else up_Message snapshot)\<rparr> in
      if up_Result s = ''success'' then
        s\<lparr>up_Phase := ''completed'',
          up_CurrentVersion := (if trim (up_TargetVersion s) \<noteq> [] then trim (up_TargetVersion s)
                                else up_CurrentVersion s)\<rparr>
      else if up_Result s = ''rolled_back'' then
        s\<lparr>up_Phase := ''failed'',
          up_CurrentVersion := (if trim (up_PreviousVersion s) \<noteq> [] then trim (up_PreviousVersion s)
                                else up_CurrentVersion s)\<rparr>
      else if up_Result s = ''rollback_failed'' then s\<lparr>up_Phase := ''failed''\<rparr>
      else if up_Phase s = [] then s\<lparr>up_Phase := ''failed''\<rparr>
      else s)"

definition FinishUpgrade ::
  "int \<Rightarrow> string \<Rightarrow> string \<Rightarrow> MaintenanceTracker \<Rightarrow> MaintenanceTracker \<times> UpgradeSnapshot" where
  "FinishUpgrade now result message = UpdateUpgrade now (finished_upgrade result message)"

definition finished_restart :: "string \<Rightarrow> string \<Rightarrow> RestartSnapshot \<Rightarrow> RestartSnapshot" where
  "finished_restart result message snapshot =
     (let s = snapshot\<lparr>rs_Running := False,
            rs_Result := (if trim result \<noteq> [] then trim result else rs_Result snapshot),
            rs_Message := (if trim message \<noteq> [] then trim message else rs_Message snapshot)\<rparr> in
      if rs_Result s = ''success'' then s\<lparr>rs_Phase := ''completed''\<rparr> else s\<lparr>rs_Phase := ''failed''\<rparr>)"

definition FinishRestart ::
  "int \<Rightarrow> string \<Rightarrow> string \<Rightarrow> MaintenanceTracker \<Rightarrow> MaintenanceTracker \<times> RestartSnapshot" where
  "FinishRestart now result message = UpdateRestart now (finished_restart result message)"

text \<open>
  The callers change a snapshot without touching its running flag, so the two kinds of
  maintenance exclude each other.
\<close>

inductive maintenance_step :: "MaintenanceTracker \<Rightarrow> MaintenanceTracker \<Rightarrow> bool" where
  begin_upgrade: "maintenance_step t (fst (BeginUpgrade now u t))"
| begin_restart: "maintenance_step t (fst (BeginRestart now r t))"
| update_upgrade: "(\<And>u. up_Running (f u) = up_Running u) \<Longrightarrow> maintenance_step t (fst (UpdateUpgrade now f t))"
| update_restart: "(\<And>r. rs_Running (g r) = rs_Running r) \<Longrightarrow> maintenance_step t (fst (UpdateRestart now g t))"
| finish_upgrade: "maintenance_step t (fst (FinishUpgrade now result message t))"
| finish_restart: "maintenance_step t (fst (FinishRestart now result message t))"

lemma finished_not_running [simp]:
  "\<not> up_Running (finished_upgrade result message u)" "\<not> rs_Running (finished_restart result message r)"
  by (simp_all add: finished_upgrade_def finished_restart_def Let_def)

lemma one_maintenance_at_a_time:
  "maintenance_step\<^sup>*\<^sup>* NewMaintenanceTracker t \<Longrightarrow> \<not> (up_Running (mt_Upgrade t) \<and> rs_Running (mt_Restart t))"
proof (induction rule: rtranclp_induct)
  case base
  show ?case by (simp add: NewMaintenanceTracker_def zero_Upgrade_def)
next
  case (step t u)
  from step(2,3) show ?case
    by cases (auto simp: BeginUpgrade_def BeginRestart_def UpdateUpgrade_def UpdateRestart_def
      FinishUpgrade_def FinishRestart_def Active_def Let_def)
qed

section \<open>The switch of the backend (backend\_transition.go)\<close>

record BackendTransition =
  bt_switching :: bool
  bt_target :: string

definition BeginBackendSwitchState :: "string \<Rightarrow> BackendTransition \<Rightarrow> BackendTransition" where
  "BeginBackendSwitchState target s = s\<lparr>bt_switching := True, bt_target := NormalizeBackend target\<rparr>"

definition FinishBackendSwitchState :: "BackendTransition \<Rightarrow> BackendTransition" where
  "FinishBackendSwitchState s = s\<lparr>bt_switching := False, bt_target := []\<rparr>"

definition BackendSwitchState :: "BackendTransition \<Rightarrow> bool \<times> string" where
  "BackendSwitchState s = (bt_switching s, bt_target s)"

definition backendDisplayName :: "string \<Rightarrow> string" where
  "backendDisplayName kind =
     (if NormalizeBackend kind = ''codex'' then ''Codex''
      else if NormalizeBackend kind = ''claude'' then ''Claude'' else [])"

text \<open>Why traffic is refused: the display name of the target, empty for an unnamed switch.\<close>

definition BackendSwitchBlockedReasonForTraffic :: "BackendTransition \<Rightarrow> string option" where
  "BackendSwitchBlockedReasonForTraffic s =
     (case BackendSwitchState s of (switching, target) \<Rightarrow>
        if \<not> switching then None else Some (backendDisplayName (trim target)))"

definition BackendSwitchBlocksCardAction :: "string \<Rightarrow> BackendTransition \<Rightarrow> string option" where
  "BackendSwitchBlocksCardAction actionName s =
     (if trim actionName = ''menu.backend.switch'' then None else BackendSwitchBlockedReasonForTraffic s)"

section \<open>Requests to start work\<close>

text \<open>What happened for the sessions so far, the newest event first.\<close>

datatype start_event = Asked string | Done string

fun run_starts :: "start_event list \<Rightarrow> SubmissionStarts" where
  "run_starts [] = []"
| "run_starts (Asked k # evs) = fst (TryBegin k (run_starts evs))"
| "run_starts (Done k # evs) = fst (FinishStarts k (run_starts evs))"

text \<open>Whether a start of session \<open>k\<close> is under way, and whether a request was turned away since.\<close>

fun under_way :: "string \<Rightarrow> start_event list \<Rightarrow> bool" where
  "under_way k [] = False"
| "under_way k (Asked j # evs) = (trim j = k \<or> under_way k evs)"
| "under_way k (Done j # evs) = (trim j \<noteq> k \<and> under_way k evs)"

fun turned_away :: "string \<Rightarrow> start_event list \<Rightarrow> bool" where
  "turned_away k [] = False"
| "turned_away k (Asked j # evs) = (if trim j = k then under_way k evs else turned_away k evs)"
| "turned_away k (Done j # evs) = (trim j \<noteq> k \<and> turned_away k evs)"

lemma turned_away_under_way: "turned_away k evs \<Longrightarrow> under_way k evs"
  by (induction k evs rule: turned_away.induct) (auto split: if_splits)

lemma start_of_update: "start_of (AList.update j s g) k = (if k = j then s else start_of g k)"
  by (simp add: start_of_def update_conv')

lemma start_of_delete: "start_of (AList.delete j g) k = (if k = j then zero_StartState else start_of g k)"
  by (simp add: start_of_def delete_conv')

lemma start_of_TryBegin:
  assumes "k \<noteq> []"
  shows "start_of (fst (TryBegin j g)) k = (if trim j = k then fst (Begin (start_of g k)) else start_of g k)"
proof -
  define i where "i = trim j"
  show ?thesis
    using assms unfolding TryBegin_def Let_def i_def [symmetric]
    by (cases "Begin (start_of g i)") (auto simp: start_of_update)
qed

lemma start_of_FinishStarts:
  assumes "k \<noteq> []"
  shows "start_of (fst (FinishStarts j g)) k = (if trim j = k then zero_StartState else start_of g k)"
proof -
  define i where "i = trim j"
  show ?thesis
    using assms unfolding FinishStarts_def Let_def i_def [symmetric] by (auto simp: start_of_delete)
qed

lemma run_starts_state:
  "k \<noteq> [] \<Longrightarrow> start_of (run_starts evs) k = \<lparr>start_Running = under_way k evs, start_Pending = turned_away k evs\<rparr>"
proof (induction evs rule: run_starts.induct)
  case 1
  show ?case by (simp add: start_of_def zero_StartState_def)
next
  case (2 j evs)
  then show ?case
    using turned_away_under_way [of k evs] by (auto simp: start_of_TryBegin Begin_def)
next
  case (3 j evs)
  then show ?case
    by (auto simp: start_of_FinishStarts zero_StartState_def)
qed

text \<open>
  C26. However the requests and the ends of starts of all sessions interleave, a request is admitted
  exactly when no start of its session is under way, so a session is never started twice at once;
  and the start that ends asks for another pass exactly when a request of its session was turned
  away meanwhile, so no request is lost.
\<close>
theorem starts_are_exclusive_and_complete:
  "snd (TryBegin k (run_starts evs)) = (trim k \<noteq> [] \<and> \<not> under_way (trim k) evs) \<and>
   snd (FinishStarts k (run_starts evs)) = (trim k \<noteq> [] \<and> turned_away (trim k) evs)"
proof (cases "trim k = []")
  case False
  then show ?thesis
    by (simp add: TryBegin_def FinishStarts_def Let_def Begin_def Finish_def run_starts_state case_prod_beta)
qed (simp add: TryBegin_def FinishStarts_def)

section \<open>Pending submissions of a thread\<close>

lemma pending_of_put [simp]: "pending_of (put_pending th bs t) u = (if u = th then bs else pending_of t u)"
  by (simp add: pending_of_def put_pending_def update_conv' delete_conv')

text \<open>The oldest noted submission that still runs answers for the thread.\<close>

lemma PendingSubmissionForThread_first:
  assumes "trim th \<noteq> []" "pending_of t (trim th) = gone @ b # bs"
    and "\<forall>d\<in>set gone. \<not> open_pending lookup d" "open_pending lookup b"
  shows "snd (PendingSubmissionForThread lookup th t) =
    (bnd_SessionKey (tb_Binding b), tracked_submission lookup b)"
proof -
  have f: "filter (open_pending lookup) (pending_of t (trim th)) = b # filter (open_pending lookup) bs"
    using assms by (simp add: filter_False)
  from assms(4) obtain sub where "tracked_submission lookup b = Some sub"
    by (auto simp: open_pending_def split: option.splits)
  with f assms(1) show ?thesis by (simp add: PendingSubmissionForThread_def Let_def)
qed

lemma bound_turn_found:
  "trim turn \<noteq> [] \<Longrightarrow> lookup (trim i) = Some sub \<Longrightarrow>
   BoundSubmissionForTurn lookup turn (BindTurnSubmission th turn key i t) = (trim key, Some sub)"
  by (simp add: BoundSubmissionForTurn_def BindTurnSubmission_def Let_def tracked_submission_def
    new_binding_def NewBinding_def update_conv')

end
