(* ===== verification/Auto_Retry.thy ===== *)
theory Auto_Retry
  imports Conversation Submission "HOL-Library.Word" "HOL-Library.AList"
begin

text \<open>
  The automatic retry of failed turns: \<open>internal/application/autoretry/state.go, engine.go\<close>.
  A retry state per session waits for a timer; the timer starts one more submission. Every part
  of a method that runs under the tracker's mutex is an operation of its own, so that the step
  relation below may interleave the parts as goroutines do.

  A scheduled task is the record of what was scheduled; its callback dispatches the pair of
  session key and sequence number. The engine is built with a tracker; its guards for a missing
  one are not repeated. A presenter that is missing sends nothing, which is the presenter that
  answers with the empty message id. Durations are nanoseconds.
\<close>

section \<open>State and policy (state.go)\<close>

definition InitialDelay :: int where "InitialDelay = 1000000000"
definition MaxDelay :: int where "MaxDelay = 15000000000"

record DelayedTask =
  task_Delay :: int
  task_Session :: string
  task_Seq :: "64 word"

record RetryState =
  rs_SessionKey :: string
  rs_ThreadID :: string
  rs_WorkspaceID :: string
  rs_ChatID :: string
  rs_TriggerMessageID :: string
  rs_SourceRootMessageIDs :: "string list"
  rs_RetryCount :: int
  rs_BackoffStep :: int
  rs_StatusMessageID :: string
  rs_LastError :: string
  rs_Timer :: "DelayedTask option"
  rs_TimerSeq :: "64 word"
  rs_Canceled :: bool

definition zero_RetryState :: RetryState where
  "zero_RetryState =
     \<lparr>rs_SessionKey = [], rs_ThreadID = [], rs_WorkspaceID = [], rs_ChatID = [],
      rs_TriggerMessageID = [], rs_SourceRootMessageIDs = [], rs_RetryCount = 0,
      rs_BackoffStep = 0, rs_StatusMessageID = [], rs_LastError = [], rs_Timer = None,
      rs_TimerSeq = 0, rs_Canceled = False\<rparr>"

record Tracker =
  tr_States :: "(string \<times> RetryState) list"
  tr_nextTimerSeq :: "64 word"

definition NewTracker :: Tracker where
  "NewTracker = \<lparr>tr_States = [], tr_nextTimerSeq = 0\<rparr>"

text \<open>The loop of DelayForStep: \<open>n\<close> rounds are left.\<close>

fun delay_rounds :: "nat \<Rightarrow> int \<Rightarrow> int" where
  "delay_rounds 0 delay = (if delay > MaxDelay then MaxDelay else delay)"
| "delay_rounds (Suc n) delay = (if delay \<ge> MaxDelay then MaxDelay else delay_rounds n (delay * 2))"

definition DelayForStep :: "int \<Rightarrow> int" where
  "DelayForStep step = delay_rounds (nat step) InitialDelay"

text \<open>Whole seconds, rounded to the nearest one; a negative delay is shown as none.\<close>

definition FormatDelay :: "int \<Rightarrow> string" where
  "FormatDelay delay =
     (if delay \<le> 0 then ''0s''
      else if delay < 1000000000 then ''<1s''
      else dec (nat ((delay + 500000000) div 1000000000)) @ ''s'')"

definition CloneState :: "RetryState option \<Rightarrow> RetryState" where
  "CloneState src = (case src of None \<Rightarrow> zero_RetryState | Some st \<Rightarrow> st\<lparr>rs_Timer := None\<rparr>)"

definition StateWaiting :: "RetryState option \<Rightarrow> bool" where
  "StateWaiting state =
     (case state of None \<Rightarrow> False | Some st \<Rightarrow> \<not> rs_Canceled st \<and> rs_Timer st \<noteq> None)"

definition StateBlocksQueue :: "RetryState option \<Rightarrow> bool" where
  "StateBlocksQueue state = (case state of None \<Rightarrow> False | Some st \<Rightarrow> \<not> rs_Canceled st)"

definition RefreshState ::
  "RetryState \<Rightarrow> Session option \<Rightarrow> Submission option \<Rightarrow> string \<Rightarrow> RetryState" where
  "RefreshState state sess sub threadID =
     (let a = (if trim threadID \<noteq> [] then state\<lparr>rs_ThreadID := trim threadID\<rparr> else state);
          b = (case sub of
                 None \<Rightarrow> a
               | Some x \<Rightarrow>
                   let f = a\<lparr>rs_WorkspaceID := FirstNonEmpty [trim (sub_WorkspaceID x), rs_WorkspaceID a],
                             rs_ChatID := FirstNonEmpty [trim (sub_ChatID x), rs_ChatID a],
                             rs_TriggerMessageID :=
                               FirstNonEmpty [trim (sub_TriggerMessageID x), rs_TriggerMessageID a]\<rparr> in
                   if sub_SourceRootMessageIDs x \<noteq> []
                   then f\<lparr>rs_SourceRootMessageIDs := sub_SourceRootMessageIDs x\<rparr> else f) in
      case sess of
        None \<Rightarrow> b
      | Some s \<Rightarrow>
          let c = b\<lparr>rs_WorkspaceID := FirstNonEmpty [trim (ss_WorkspaceID s), rs_WorkspaceID b],
                    rs_ChatID := FirstNonEmpty [trim (ss_ChatID s), rs_ChatID b]\<rparr>;
              root = trim (ss_RootMessageID s);
              d = (if rs_SourceRootMessageIDs c = [] \<and> root \<noteq> []
                   then c\<lparr>rs_SourceRootMessageIDs := [root]\<rparr> else c) in
          if trim (rs_TriggerMessageID d) = [] then d\<lparr>rs_TriggerMessageID := root\<rparr> else d)"

section \<open>The engine (engine.go)\<close>

text \<open>The errors of a start and the notices of the presenter; the code has them as text.\<close>

datatype retry_error =
  SessionMissing | ActiveThreadChanged | ThreadNotLive | WorkspaceNotFound string | Failed string

datatype notice =
    RetryDisabled | NonFailedTerminal | TurnInterrupted | RetryStopped | WaitingToContinue
  | SessionGone | NoActiveThread | ThreadSwitched | NewWork | NotIdle | Recovering
  | ContinueSent | StartFailed retry_error | GivenNotice string

type_synonym presenter = "RetryState \<Rightarrow> string \<Rightarrow> notice \<Rightarrow> string"

definition uniqueSourceRoots :: "string list \<Rightarrow> string list" where
  "uniqueSourceRoots values =
     fold (\<lambda>value result. let v = trim value in
             if v \<noteq> [] \<and> v \<notin> set result then result @ [v] else result) values []"

definition put_state :: "string \<Rightarrow> RetryState \<Rightarrow> Tracker \<Rightarrow> Tracker" where
  "put_state key st = tr_States_update (AList.update key st)"

definition drop_state :: "string \<Rightarrow> Tracker \<Rightarrow> Tracker" where
  "drop_state key = tr_States_update (AList.delete key)"

text \<open>The status message is remembered once it is sent, under the mutex.\<close>

definition note_sent :: "RetryState \<Rightarrow> string \<Rightarrow> Tracker \<Rightarrow> Tracker" where
  "note_sent snapshot sentID0 t =
     (let sentID = trim sentID0 in
      if sentID = [] then t
      else case map_of (tr_States t) (rs_SessionKey snapshot) of
        None \<Rightarrow> t
      | Some st \<Rightarrow>
          let current = trim (rs_StatusMessageID st) in
          if current = [] \<or> current = trim (rs_StatusMessageID snapshot)
          then put_state (rs_SessionKey snapshot) (st\<lparr>rs_StatusMessageID := sentID\<rparr>) t else t)"

definition notify :: "presenter \<Rightarrow> RetryState \<Rightarrow> string \<Rightarrow> notice \<Rightarrow> Tracker \<Rightarrow> Tracker" where
  "notify present snapshot phase notice t = note_sent snapshot (present snapshot phase notice) t"

definition HasPendingAutoRetry :: "Tracker \<Rightarrow> string \<Rightarrow> bool" where
  "HasPendingAutoRetry t sessionKey0 =
     (let sessionKey = trim sessionKey0 in
      if sessionKey \<noteq> [] then StateWaiting (map_of (tr_States t) sessionKey)
      else \<exists>st\<in>set (map snd (tr_States t)). StateWaiting (Some st))"

definition HasBlockingAutoRetry :: "Tracker \<Rightarrow> string \<Rightarrow> bool" where
  "HasBlockingAutoRetry t sessionKey0 =
     (let sessionKey = trim sessionKey0 in
      if sessionKey \<noteq> [] then StateBlocksQueue (map_of (tr_States t) sessionKey)
      else \<exists>st\<in>set (map snd (tr_States t)). StateBlocksQueue (Some st))"

definition CurrentAutoRetryState :: "Tracker \<Rightarrow> string \<Rightarrow> RetryState option" where
  "CurrentAutoRetryState t sessionKey =
     map_option (\<lambda>st. CloneState (Some st)) (map_of (tr_States t) (trim sessionKey))"

text \<open>A timer is set with the next sequence number.\<close>

definition set_timer :: "string \<Rightarrow> RetryState \<Rightarrow> Tracker \<Rightarrow> Tracker" where
  "set_timer key st t =
     (let seq = tr_nextTimerSeq t + 1 in
      put_state key
        (st\<lparr>rs_TimerSeq := seq,
            rs_Timer := Some \<lparr>task_Delay = DelayForStep (rs_BackoffStep st),
                              task_Session = key, task_Seq = seq\<rparr>\<rparr>)
        (t\<lparr>tr_nextTimerSeq := seq\<rparr>))"

text \<open>The removals of an entry return the snapshot that is presented afterwards.\<close>

definition finish_terminal :: "string \<Rightarrow> string \<Rightarrow> Tracker \<Rightarrow> Tracker \<times> RetryState option" where
  "finish_terminal sessionKey threadID t =
     (case map_of (tr_States t) sessionKey of
        None \<Rightarrow> (t, None)
      | Some st \<Rightarrow>
          if trim (rs_ThreadID st) = threadID
          then (drop_state sessionKey t, Some (CloneState (Some st))) else (t, None))"

definition FinishAutoRetryOnTerminal ::
  "presenter \<Rightarrow> string \<Rightarrow> string \<Rightarrow> string \<Rightarrow> Tracker \<Rightarrow> Tracker" where
  "FinishAutoRetryOnTerminal present sessionKey0 threadID0 status0 t =
     (let sessionKey = trim sessionKey0; threadID = trim threadID0; status = trim status0 in
      if sessionKey = [] \<or> threadID = [] then t
      else case finish_terminal sessionKey threadID t of
        (t', None) \<Rightarrow> t'
      | (t', Some snapshot) \<Rightarrow>
          if rs_Canceled snapshot then notify present snapshot ''stopped'' RetryStopped t'
          else if status = ''completed'' then notify present snapshot ''completed'' NonFailedTerminal t'
          else if status = ''interrupted'' then notify present snapshot ''interrupted'' TurnInterrupted t'
          else t')"

definition idle_or_queued :: "Session \<Rightarrow> bool" where
  "idle_or_queued sess =
     (NormalizeSessionStatus (FirstNonEmpty [trim (ss_Status sess), SessionStatusIdle])
        \<in> {SessionStatusIdle, SessionStatusQueued})"

definition schedule_failure ::
  "string \<Rightarrow> string \<Rightarrow> Session \<Rightarrow> Submission option \<Rightarrow> string \<Rightarrow> string \<Rightarrow> Tracker
     \<Rightarrow> Tracker \<times> RetryState option" where
  "schedule_failure sessionKey threadID sess sub reuseMessageID lastError t =
     (let st = (case map_of (tr_States t) sessionKey of
                  Some st \<Rightarrow> st
                | None \<Rightarrow> zero_RetryState\<lparr>rs_SessionKey := sessionKey, rs_ThreadID := threadID\<rparr>) in
      if rs_Canceled st then (drop_state sessionKey t, None)
      else
        let a = (RefreshState st (Some sess) sub threadID)\<lparr>rs_LastError := trim lastError\<rparr>;
            b = (if trim (rs_StatusMessageID a) = []
                 then a\<lparr>rs_StatusMessageID := trim reuseMessageID\<rparr> else a);
            t' = (if rs_Timer b = None then set_timer sessionKey b t else put_state sessionKey b t) in
        (t', map_of (tr_States t') sessionKey))"

definition ScheduleAutoRetryAfterFailure ::
  "presenter \<Rightarrow> bool \<Rightarrow> string \<Rightarrow> string \<Rightarrow> Session option \<Rightarrow> Submission option \<Rightarrow> string
     \<Rightarrow> string \<Rightarrow> Tracker \<Rightarrow> Tracker \<times> bool" where
  "ScheduleAutoRetryAfterFailure present enabled sessionKey0 threadID0 updatedSess sub reuseMessageID lastError t =
     (let sessionKey = trim sessionKey0; threadID = trim threadID0 in
      if sessionKey = [] \<or> threadID = [] \<or> \<not> enabled then (t, False)
      else case updatedSess of
        None \<Rightarrow> (t, False)
      | Some sess \<Rightarrow>
          if trim (ss_ActiveThreadID sess) \<noteq> threadID \<or> trim (ss_ActiveThreadID sess) = [] then (t, False)
          else if HasActiveWork (Some sess) \<or> \<not> idle_or_queued sess then (t, False)
          else case schedule_failure sessionKey threadID sess sub reuseMessageID lastError t of
            (t', None) \<Rightarrow> (t', False)
          | (t', Some st) \<Rightarrow>
              (notify present (CloneState (Some st)) ''waiting'' WaitingToContinue t',
               StateWaiting (Some st)))"

definition ObserveAutoRetryTerminal ::
  "presenter \<Rightarrow> bool \<Rightarrow> string \<Rightarrow> string \<Rightarrow> string \<Rightarrow> Session option \<Rightarrow> Submission option \<Rightarrow> string
     \<Rightarrow> string \<Rightarrow> Tracker \<Rightarrow> Tracker \<times> bool" where
  "ObserveAutoRetryTerminal present enabled sessionKey0 threadID0 status0 updatedSess sub reuseMessageID lastError t =
     (let sessionKey = trim sessionKey0; threadID = trim threadID0; status = trim status0 in
      if sessionKey = [] \<or> threadID = [] then (t, False)
      else if NormalizeSubmissionStatus status \<noteq> SubmissionStatusFailed
      then (FinishAutoRetryOnTerminal present sessionKey threadID status t, False)
      else ScheduleAutoRetryAfterFailure present enabled sessionKey threadID updatedSess sub
             reuseMessageID lastError t)"

text \<open>What the dispatch of a timer claims: the state of that timer, which is then no longer set.\<close>

definition claim_timer :: "string \<Rightarrow> 64 word \<Rightarrow> Tracker \<Rightarrow> Tracker \<times> RetryState option" where
  "claim_timer sessionKey expectedSeq t =
     (case map_of (tr_States t) sessionKey of
        None \<Rightarrow> (t, None)
      | Some st \<Rightarrow>
          if rs_Canceled st \<or> rs_Timer st = None \<or> rs_TimerSeq st \<noteq> expectedSeq then (t, None)
          else (put_state sessionKey (st\<lparr>rs_Timer := None\<rparr>) t, Some (CloneState (Some st))))"

definition finish_state :: "string \<Rightarrow> Tracker \<Rightarrow> Tracker \<times> RetryState option" where
  "finish_state sessionKey t =
     (case map_of (tr_States t) sessionKey of
        None \<Rightarrow> (t, None)
      | Some st \<Rightarrow> (drop_state sessionKey t, Some (CloneState (Some st))))"

definition FinishAutoRetryWithMessage ::
  "presenter \<Rightarrow> string \<Rightarrow> string \<Rightarrow> notice \<Rightarrow> Tracker \<Rightarrow> Tracker" where
  "FinishAutoRetryWithMessage present sessionKey0 phase notice t =
     (let sessionKey = trim sessionKey0 in
      if sessionKey = [] then t
      else case finish_state sessionKey t of
        (t', None) \<Rightarrow> t'
      | (t', Some snapshot) \<Rightarrow> notify present snapshot phase notice t')"

definition bump_state :: "string \<Rightarrow> Tracker \<Rightarrow> Tracker \<times> RetryState option" where
  "bump_state sessionKey t =
     (case map_of (tr_States t) sessionKey of
        None \<Rightarrow> (t, None)
      | Some st \<Rightarrow>
          if rs_Canceled st then (t, None)
          else
            let t' = set_timer sessionKey (st\<lparr>rs_BackoffStep := rs_BackoffStep st + 1\<rparr>) t in
            (t', map_option (\<lambda>x. CloneState (Some x)) (map_of (tr_States t') sessionKey)))"

definition BumpAutoRetryBackoffAndReschedule ::
  "presenter \<Rightarrow> string \<Rightarrow> notice \<Rightarrow> Tracker \<Rightarrow> Tracker" where
  "BumpAutoRetryBackoffAndReschedule present sessionKey0 notice t =
     (let sessionKey = trim sessionKey0 in
      if sessionKey = [] then t
      else case bump_state sessionKey t of
        (t', None) \<Rightarrow> t'
      | (t', Some snapshot) \<Rightarrow> notify present snapshot ''waiting'' notice t')"

definition start_state ::
  "string \<Rightarrow> Session option \<Rightarrow> Submission \<Rightarrow> Tracker \<Rightarrow> Tracker \<times> RetryState option" where
  "start_state sessionKey sess sub t =
     (case map_of (tr_States t) sessionKey of
        None \<Rightarrow> (t, None)
      | Some st \<Rightarrow>
          if rs_Canceled st then (t, None)
          else
            let a = st\<lparr>rs_RetryCount := rs_RetryCount st + 1, rs_BackoffStep := rs_BackoffStep st + 1\<rparr>;
                b = RefreshState a sess (Some sub)
                      (FirstNonEmpty [trim (sub_ThreadID sub), rs_ThreadID a]) in
            (put_state sessionKey b t, Some (CloneState (Some b))))"

definition MarkAutoRetryAttemptStarted ::
  "presenter \<Rightarrow> (string \<Rightarrow> Session option) \<Rightarrow> string \<Rightarrow> Submission \<Rightarrow> Tracker \<Rightarrow> Tracker" where
  "MarkAutoRetryAttemptStarted present session sessionKey0 sub t =
     (let sessionKey = trim sessionKey0 in
      if sessionKey = [] then t
      else case start_state sessionKey (session sessionKey) sub t of
        (t', None) \<Rightarrow> t'
      | (t', Some snapshot) \<Rightarrow> notify present snapshot ''running'' ContinueSent t')"

definition cancel_state ::
  "string \<Rightarrow> bool \<Rightarrow> bool \<Rightarrow> Session option \<Rightarrow> Tracker \<Rightarrow> Tracker \<times> RetryState option" where
  "cancel_state sessionKey keepUntilTerminal enabled session t =
     (case map_of (tr_States t) sessionKey of
        Some st \<Rightarrow>
          if rs_Canceled st then (t, None)
          else
            let stopped = st\<lparr>rs_Timer := None, rs_Canceled := True\<rparr> in
            (if keepUntilTerminal then put_state sessionKey stopped t else drop_state sessionKey t,
             Some (CloneState (Some stopped)))
      | None \<Rightarrow>
          (if keepUntilTerminal \<and> enabled then
             (case session of
                Some sess \<Rightarrow>
                  if ss_ActiveThreadID sess \<noteq> []
                  then put_state sessionKey
                         (zero_RetryState\<lparr>rs_SessionKey := sessionKey,
                            rs_ThreadID := ss_ActiveThreadID sess, rs_Canceled := True\<rparr>) t
                  else t
              | None \<Rightarrow> t)
           else t, None))"

definition CancelAutoRetry ::
  "presenter \<Rightarrow> bool \<Rightarrow> (string \<Rightarrow> Session option) \<Rightarrow> string \<Rightarrow> bool \<Rightarrow> string \<Rightarrow> Tracker
     \<Rightarrow> Tracker \<times> bool" where
  "CancelAutoRetry present enabled session sessionKey0 keepUntilTerminal given t =
     (let sessionKey = trim sessionKey0 in
      if sessionKey = [] then (t, False)
      else case cancel_state sessionKey keepUntilTerminal enabled (session sessionKey) t of
        (t', None) \<Rightarrow> (t', False)
      | (t', Some snapshot) \<Rightarrow>
          (notify present snapshot ''stopped''
             (if trim given \<noteq> [] then GivenNotice (trim given) else RetryStopped) t', True))"

text \<open>A map has no entry without a state: the code's clean-up of nil entries never applies.\<close>

definition cancel_all :: "Tracker \<Rightarrow> Tracker \<times> RetryState list" where
  "cancel_all t = (t\<lparr>tr_States := []\<rparr>, map (\<lambda>(_, st). CloneState (Some st)) (tr_States t))"

definition CancelAllAutoRetry :: "presenter \<Rightarrow> string \<Rightarrow> Tracker \<Rightarrow> Tracker \<times> nat" where
  "CancelAllAutoRetry present given t =
     (case cancel_all t of (t', pending) \<Rightarrow>
        (fold (\<lambda>snapshot. notify present snapshot ''stopped''
                 (if trim given \<noteq> [] then GivenNotice (trim given) else RetryDisabled)) pending t',
         length pending))"

definition UpdateAutoRetryEnabled ::
  "presenter \<Rightarrow> (bool \<Rightarrow> string option) \<Rightarrow> bool \<Rightarrow> Tracker \<Rightarrow> Tracker \<times> string option" where
  "UpdateAutoRetryEnabled present save enabled t =
     (case save enabled of
        Some e \<Rightarrow> (t, Some e)
      | None \<Rightarrow> (if enabled then t else fst (CancelAllAutoRetry present [] t), None))"

text \<open>
  What the engine asks its ports while a retry starts. The starter runs the submission and may
  report its outcome to the tracker before it returns.
\<close>

record retry_ports =
  rp_ContextDone :: bool
  rp_Enabled :: bool
  rp_Recovering :: bool
  rp_Session :: "string \<Rightarrow> Session option"
  rp_Live :: "string \<Rightarrow> string \<Rightarrow> bool"
  rp_DefaultWorkspaceID :: string
  rp_Workspace :: "string \<Rightarrow> WorkspaceConfig option"
  rp_Create :: "Submission \<Rightarrow> string + string"
  rp_Submission :: "string \<Rightarrow> Submission option"
  rp_Start :: "string \<Rightarrow> Session \<Rightarrow> Submission \<Rightarrow> WorkspaceConfig \<Rightarrow> Tracker \<Rightarrow> Tracker \<times> string option"
  rp_Present :: presenter

text \<open>The text the code sends in Chinese: continue.\<close>

definition continue_text :: string where
  "continue_text = [CHR 0xE7, CHR 0xBB, CHR 0xA7, CHR 0xE7, CHR 0xBB, CHR 0xAD]"

definition retry_submission :: "string \<Rightarrow> Session \<Rightarrow> RetryState \<Rightarrow> string \<Rightarrow> Submission" where
  "retry_submission sessionKey sess snapshot workspaceID =
     (let root = trim (ss_RootMessageID sess);
          roots = (if rs_SourceRootMessageIDs snapshot = [] \<and> root \<noteq> [] then [root]
                   else rs_SourceRootMessageIDs snapshot) in
      zero_Submission\<lparr>sub_SessionKey := trim sessionKey, sub_BindingID := trim (ss_BindingID sess),
        sub_WorkspaceID := workspaceID, sub_UserID := trim (ss_OwnerUserID sess),
        sub_ChatID := FirstNonEmpty [trim (ss_ChatID sess), trim (rs_ChatID snapshot)],
        sub_TriggerMessageID := FirstNonEmpty [trim (rs_TriggerMessageID snapshot), root],
        sub_SourceRootMessageIDs := uniqueSourceRoots roots,
        sub_InputText := continue_text, sub_Status := SubmissionStatusQueued\<rparr>)"

definition StartAutoRetrySubmission ::
  "retry_ports \<Rightarrow> string \<Rightarrow> Session option \<Rightarrow> RetryState \<Rightarrow> Tracker
     \<Rightarrow> Tracker \<times> Submission option \<times> retry_error option" where
  "StartAutoRetrySubmission p sessionKey session snapshot t =
     (case session of
        None \<Rightarrow> (t, None, Some SessionMissing)
      | Some sess \<Rightarrow>
          if trim (rs_ThreadID snapshot) = [] \<or> trim (ss_ActiveThreadID sess) \<noteq> trim (rs_ThreadID snapshot)
          then (t, None, Some ActiveThreadChanged)
          else if \<not> rp_Live p sessionKey (rs_ThreadID snapshot) then (t, None, Some ThreadNotLive)
          else
            let workspaceID = FirstNonEmpty [trim (ss_WorkspaceID sess),
                  trim (rs_WorkspaceID snapshot), rp_DefaultWorkspaceID p] in
            case rp_Workspace p workspaceID of
              None \<Rightarrow> (t, None, Some (WorkspaceNotFound workspaceID))
            | Some ws \<Rightarrow>
                let sub = retry_submission sessionKey sess snapshot workspaceID in
                case rp_Create p sub of
                  Inl e \<Rightarrow> (t, None, Some (Failed e))
                | Inr i \<Rightarrow>
                    let sub' = sub\<lparr>sub_ID := i\<rparr> in
                    case rp_Start p sessionKey sess sub' ws t of
                      (t', None) \<Rightarrow> (t', Some sub', None)
                    | (t', Some e) \<Rightarrow>
                        (t', Some (case rp_Submission p i of Some cur \<Rightarrow> cur | None \<Rightarrow> sub'),
                         Some (Failed e)))"

text \<open>The checks of a fired timer, in the order of the code: the reason to give up, if any.\<close>

definition retry_obstacle :: "retry_ports \<Rightarrow> Session option \<Rightarrow> RetryState \<Rightarrow> notice option" where
  "retry_obstacle p session snapshot =
     (if \<not> rp_Enabled p then Some RetryDisabled
      else case session of
        None \<Rightarrow> Some SessionGone
      | Some sess \<Rightarrow>
          if trim (ss_ActiveThreadID sess) = [] then Some NoActiveThread
          else if trim (ss_ActiveThreadID sess) \<noteq> trim (rs_ThreadID snapshot) then Some ThreadSwitched
          else if HasActiveWork (Some sess) then Some NewWork
          else if \<not> idle_or_queued sess then Some NotIdle
          else None)"

definition RunAutoRetryTimer ::
  "retry_ports \<Rightarrow> string \<Rightarrow> 64 word \<Rightarrow> Tracker \<Rightarrow> Tracker" where
  "RunAutoRetryTimer p sessionKey0 expectedSeq t =
     (let sessionKey = trim sessionKey0 in
      if rp_ContextDone p \<or> sessionKey = [] then t
      else case claim_timer sessionKey expectedSeq t of
        (t1, None) \<Rightarrow> t1
      | (t1, Some snapshot) \<Rightarrow>
          let session = rp_Session p sessionKey in
          case retry_obstacle p session snapshot of
            Some notice \<Rightarrow> FinishAutoRetryWithMessage (rp_Present p) sessionKey ''stopped'' notice t1
          | None \<Rightarrow>
              if rp_Recovering p
              then BumpAutoRetryBackoffAndReschedule (rp_Present p) sessionKey Recovering t1
              else case StartAutoRetrySubmission p sessionKey session snapshot t1 of
                (t2, sub, Some e) \<Rightarrow>
                  if HasPendingAutoRetry t2 sessionKey then t2
                  else FinishAutoRetryWithMessage (rp_Present p) sessionKey ''stopped''
                         (StartFailed e) t2
              | (t2, None, None) \<Rightarrow> t2
              | (t2, Some sub, None) \<Rightarrow>
                  MarkAutoRetryAttemptStarted (rp_Present p) (rp_Session p) sessionKey sub t2)"

section \<open>Delays\<close>

lemma delay_rounds_closed:
  "InitialDelay \<le> d \<Longrightarrow> delay_rounds n d = min MaxDelay (d * 2 ^ n)"
proof (induction n arbitrary: d)
  case 0
  then show ?case by simp
next
  case (Suc n)
  have "InitialDelay \<le> d * 2" using Suc.prems by (simp add: InitialDelay_def)
  moreover have "d * 1 \<le> d * 2 ^ Suc n" using Suc.prems
    by (intro mult_left_mono one_le_power) (simp_all add: InitialDelay_def)
  ultimately show ?case using Suc.IH [of "d * 2"] by (auto simp: min_def mult.assoc)
qed

lemma DelayForStep_closed: "DelayForStep step = min MaxDelay (InitialDelay * 2 ^ nat step)"
  by (simp add: DelayForStep_def delay_rounds_closed)

lemma delay_order:
  "1 \<le> x \<Longrightarrow> x \<le> y \<Longrightarrow>
     InitialDelay \<le> min MaxDelay (InitialDelay * x) \<and> min MaxDelay (InitialDelay * x) \<le> MaxDelay \<and>
     min MaxDelay (InitialDelay * x) \<le> min MaxDelay (InitialDelay * y) \<and>
     min MaxDelay (InitialDelay * x) = min MaxDelay (InitialDelay * x)"
  by (simp add: InitialDelay_def MaxDelay_def min_def)

section \<open>Interleavings\<close>

text \<open>
  The operations as the goroutines interleave them. An event records that a timer was set, that
  its dispatch was claimed, or that the retry of a session was ended.
\<close>

datatype retry_event = Armed string "64 word" | Claimed string "64 word" | Ended string

definition armed_by :: "string \<Rightarrow> Tracker \<Rightarrow> Tracker \<Rightarrow> retry_event list" where
  "armed_by k t t' =
     (if tr_nextTimerSeq t' = tr_nextTimerSeq t then [] else [Armed k (tr_nextTimerSeq t')])"

inductive retry_step :: "Tracker \<Rightarrow> retry_event list \<Rightarrow> Tracker \<Rightarrow> bool" where
  sent: "retry_step t [] (note_sent snapshot i t)"
| failed: "schedule_failure k thread sess sub reuse err t = (t', r) \<Longrightarrow>
     retry_step t (if r = None then [Ended k] else armed_by k t t') t'"
| terminal: "finish_terminal k thread t = (t', Some snapshot) \<Longrightarrow> retry_step t [Ended k] t'"
| claimed: "claim_timer k q t = (t', Some snapshot) \<Longrightarrow> retry_step t [Claimed k q] t'"
| finished: "finish_state k t = (t', Some snapshot) \<Longrightarrow> retry_step t [Ended k] t'"
| bumped: "bump_state k t = (t', Some snapshot) \<Longrightarrow> retry_step t (armed_by k t t') t'"
| started: "start_state k sess sub t = (t', Some snapshot) \<Longrightarrow> retry_step t [] t'"
| cancelled: "cancel_state k keep enabled sess t = (t', Some snapshot) \<Longrightarrow> retry_step t [Ended k] t'"
| marked: "cancel_state k keep enabled sess t = (t', None) \<Longrightarrow> retry_step t [] t'"
| all_cancelled: "cancel_all t = (t', snapshots) \<Longrightarrow>
     retry_step t (map (Ended \<circ> fst) (tr_States t)) t'"

inductive retry_run :: "Tracker \<Rightarrow> retry_event list \<Rightarrow> Tracker \<Rightarrow> bool" where
  none: "retry_run t [] t"
| more: "retry_run t es t' \<Longrightarrow> retry_step t' es' t'' \<Longrightarrow> retry_run t (es @ es') t''"

text \<open>
  What the interleavings show of the tracker: the sequence number each session still waits for.
\<close>

definition live_seq :: "Tracker \<Rightarrow> string \<Rightarrow> 64 word option" where
  "live_seq t k =
     (case map_of (tr_States t) k of
        None \<Rightarrow> None
      | Some st \<Rightarrow> if rs_Timer st = None then None else Some (rs_TimerSeq st))"

type_synonym timers = "(string \<Rightarrow> 64 word option) \<times> 64 word"

abbreviation timers_of :: "Tracker \<Rightarrow> timers" where
  "timers_of t \<equiv> (live_seq t, tr_nextTimerSeq t)"

inductive timer_step :: "timers \<Rightarrow> retry_event list \<Rightarrow> timers \<Rightarrow> bool" where
  idle: "timer_step s [] s"
| arm: "timer_step (live, n) [Armed k (n + 1)] (live(k \<mapsto> n + 1), n + 1)"
| claim: "live k = Some q \<Longrightarrow> timer_step (live, n) [Claimed k q] (live(k := None), n)"
| close: "timer_step (live, n) [Ended k] (live(k := None), n)"
| close_all: "dom live \<subseteq> set ks \<Longrightarrow> timer_step (live, n) (map Ended ks) (\<lambda>_. None, n)"

lemma map_of_put_state:
  "map_of (tr_States (put_state k st t)) j = (if j = k then Some st else map_of (tr_States t) j)"
  by (simp add: put_state_def update_conv')

lemma map_of_drop_state:
  "map_of (tr_States (drop_state k t)) j = (if j = k then None else map_of (tr_States t) j)"
  by (simp add: drop_state_def delete_conv')

lemma seq_put [simp]: "tr_nextTimerSeq (put_state k st t) = tr_nextTimerSeq t"
  by (simp add: put_state_def)

lemma seq_drop [simp]: "tr_nextTimerSeq (drop_state k t) = tr_nextTimerSeq t"
  by (simp add: drop_state_def)

lemma seq_set_timer [simp]: "tr_nextTimerSeq (set_timer k st t) = tr_nextTimerSeq t + 1"
  by (simp add: set_timer_def Let_def)

lemma live_put [simp]:
  "live_seq (put_state k st t) =
     (live_seq t)(k := if rs_Timer st = None then None else Some (rs_TimerSeq st))"
  by (rule ext) (simp add: live_seq_def map_of_put_state)

lemma live_drop [simp]: "live_seq (drop_state k t) = (live_seq t)(k := None)"
  by (rule ext) (simp add: live_seq_def map_of_drop_state)

lemma live_next [simp]: "live_seq (t\<lparr>tr_nextTimerSeq := n\<rparr>) = live_seq t"
  by (rule ext) (simp add: live_seq_def)

lemma live_set_timer [simp]: "live_seq (set_timer k st t) = (live_seq t)(k \<mapsto> tr_nextTimerSeq t + 1)"
  by (simp add: set_timer_def Let_def)

lemma live_same: "map_of (tr_States t) k = Some st \<Longrightarrow>
    (live_seq t)(k := if rs_Timer st = None then None else Some (rs_TimerSeq st)) = live_seq t"
  by (rule ext) (simp add: live_seq_def)

lemma live_unchanged:
  assumes "map_of (tr_States t) k = Some st" "rs_Timer st' = rs_Timer st" "rs_TimerSeq st' = rs_TimerSeq st"
  shows "live_seq (put_state k st' t) = live_seq t"
  by (subst live_put) (simp only: assms(2,3) live_same [OF assms(1)])

lemma live_note_sent [simp]: "live_seq (note_sent snapshot i t) = live_seq t"
  by (auto simp: note_sent_def Let_def live_unchanged simp del: live_put split: option.split)

lemma seq_note_sent [simp]: "tr_nextTimerSeq (note_sent snapshot i t) = tr_nextTimerSeq t"
  by (simp add: note_sent_def Let_def split: option.split)

lemma RefreshState_timer [simp]:
  "rs_Timer (RefreshState st sess sub th) = rs_Timer st"
  "rs_TimerSeq (RefreshState st sess sub th) = rs_TimerSeq st"
  by (simp_all add: RefreshState_def Let_def split: option.split)

lemma timer_idle [intro]:
  "(\<And>j. live' j = live j) \<Longrightarrow> n' = n \<Longrightarrow> timer_step (live, n) [] (live', n')"
proof -
  assume "\<And>j. live' j = live j" "n' = n"
  then have "live' = live" by blast
  with \<open>n' = n\<close> timer_step.idle [of "(live, n)"] show ?thesis by simp
qed

lemma timer_close [intro]:
  "(\<And>j. live' j = (live(k := None)) j) \<Longrightarrow> n' = n \<Longrightarrow>
     timer_step (live, n) [Ended k] (live', n')"
proof -
  assume "\<And>j. live' j = (live(k := None)) j" "n' = n"
  then have "live' = live(k := None)" by blast
  with \<open>n' = n\<close> timer_step.close [of live n k] show ?thesis by (simp only:)
qed

lemma timer_arm [intro]:
  "(\<And>j. live' j = (live(k \<mapsto> n + 1)) j) \<Longrightarrow> n' = n + 1 \<Longrightarrow>
     timer_step (live, n) [Armed k (n + 1)] (live', n')"
proof -
  assume "\<And>j. live' j = (live(k \<mapsto> n + 1)) j" "n' = n + 1"
  then have "live' = live(k \<mapsto> n + 1)" by blast
  with \<open>n' = n + 1\<close> timer_step.arm [of live n k] show ?thesis by (simp only:)
qed

lemma armed_by_same [simp]: "tr_nextTimerSeq t' = tr_nextTimerSeq t \<Longrightarrow> armed_by k t t' = []"
  by (simp add: armed_by_def)

lemma armed_by_next [simp]:
  "tr_nextTimerSeq t' = tr_nextTimerSeq t + 1 \<Longrightarrow> armed_by k t t' = [Armed k (tr_nextTimerSeq t + 1)]"
  by (simp add: armed_by_def)

lemma schedule_failure_timers:
  assumes "schedule_failure k thread sess sub reuse err t = (t', r)"
  shows "timer_step (timers_of t) (if r = None then [Ended k] else armed_by k t t') (timers_of t')"
proof -
  define st where "st = (case map_of (tr_States t) k of Some st \<Rightarrow> st
      | None \<Rightarrow> zero_RetryState\<lparr>rs_SessionKey := k, rs_ThreadID := thread\<rparr>)"
  show ?thesis
  proof (cases "rs_Canceled st")
    case True
    then have "t' = drop_state k t" "r = None"
      using assms by (auto simp: schedule_failure_def Let_def st_def)
    then show ?thesis by auto
  next
    case False
    define b where "b = (let a = (RefreshState st (Some sess) sub thread)\<lparr>rs_LastError := trim err\<rparr> in
        if trim (rs_StatusMessageID a) = [] then a\<lparr>rs_StatusMessageID := trim reuse\<rparr> else a)"
    have b: "rs_Timer b = rs_Timer st" "rs_TimerSeq b = rs_TimerSeq st"
      by (simp_all add: b_def Let_def)
    have t': "t' = (if rs_Timer b = None then set_timer k b t else put_state k b t)"
      and r: "r = map_of (tr_States t') k"
      using assms False by (auto simp: schedule_failure_def Let_def st_def [symmetric] b_def)
    have "r \<noteq> None" unfolding r t' by (simp add: set_timer_def Let_def map_of_put_state)
    moreover have "live_seq (put_state k b t) = live_seq t" if "rs_Timer b \<noteq> None"
    proof -
      from that b have "map_of (tr_States t) k = Some st"
        by (auto simp: st_def zero_RetryState_def split: option.splits)
      then show ?thesis by (rule live_unchanged) (simp_all add: b)
    qed
    ultimately show ?thesis unfolding t' by (auto simp del: live_put)
  qed
qed

lemma claim_timer_timers:
  assumes "claim_timer k q t = (t', Some snapshot)"
  shows "timer_step (timers_of t) [Claimed k q] (timers_of t')"
proof -
  from assms obtain st where "map_of (tr_States t) k = Some st" "rs_Timer st \<noteq> None"
    "rs_TimerSeq st = q" "t' = put_state k (st\<lparr>rs_Timer := None\<rparr>) t"
    by (auto simp: claim_timer_def split: option.splits if_splits)
  then show ?thesis using timer_step.claim [of "live_seq t" k q] by (simp add: live_seq_def)
qed

lemma live_dom: "dom (live_seq t) \<subseteq> fst ` set (tr_States t)"
  using dom_map_of_conv_image_fst [of "tr_States t"]
  by (force simp: live_seq_def dom_def split: option.splits)

lemma retry_step_timers: "retry_step t es t' \<Longrightarrow> timer_step (timers_of t) es (timers_of t')"
proof (induction rule: retry_step.induct)
  case (sent t snapshot i)
  then show ?case by auto
next
  case (failed k thread sess sub reuse err t t' r)
  then show ?case by (rule schedule_failure_timers)
next
  case (terminal k thread t t' snapshot)
  then show ?case by (auto simp: finish_terminal_def split: option.splits if_splits)
next
  case (claimed k q t t' snapshot)
  then show ?case by (rule claim_timer_timers)
next
  case (finished k t t' snapshot)
  then show ?case by (auto simp: finish_state_def split: option.splits)
next
  case (bumped k t t' snapshot)
  then obtain st where "t' = set_timer k st t"
    by (auto simp: bump_state_def Let_def split: option.splits if_splits)
  then show ?case using timer_step.arm [of "live_seq t" "tr_nextTimerSeq t" k]
    by (simp only: live_set_timer seq_set_timer armed_by_next)
next
  case (started k sess sub t t' snapshot)
  then show ?case
    by (auto simp: start_state_def Let_def live_unchanged simp del: live_put
        split: option.splits if_splits)
next
  case (cancelled k keep enabled sess t t' snapshot)
  then show ?case
    by (auto simp: cancel_state_def Let_def split: option.splits if_splits)
next
  case (marked k keep enabled sess t t')
  then show ?case
    by (auto simp: cancel_state_def Let_def live_seq_def zero_RetryState_def map_of_put_state
        split: option.splits if_splits)
next
  case (all_cancelled t t' snapshots)
  then have "t' = t\<lparr>tr_States := []\<rparr>" by (simp add: cancel_all_def)
  then have "timers_of t' = (\<lambda>_. None, tr_nextTimerSeq t)" by (simp add: live_seq_def fun_eq_iff)
  with timer_step.close_all [of "live_seq t" "map fst (tr_States t)" "tr_nextTimerSeq t"] live_dom [of t]
  show ?case by (simp add: comp_def)
qed

section \<open>What a run of the timers shows\<close>

definition claims :: "retry_event list \<Rightarrow> 64 word list" where
  "claims es = concat (map (\<lambda>e. case e of Claimed k q \<Rightarrow> [q] | _ \<Rightarrow> []) es)"

definition armings :: "retry_event list \<Rightarrow> nat" where
  "armings es = length (filter (\<lambda>e. case e of Armed k q \<Rightarrow> True | _ \<Rightarrow> False) es)"

lemma claims_append [simp]: "claims (es @ es') = claims es @ claims es'"
  by (simp add: claims_def)

lemma armings_append [simp]: "armings (es @ es') = armings es + armings es'"
  by (simp add: armings_def)

lemma claims_simps [simp]:
  "claims [] = []" "claims [Armed k q] = []" "claims [Claimed k q] = [q]" "claims [Ended k] = []"
  "claims (map Ended ks) = []"
  by (simp_all add: claims_def comp_def)

lemma armings_simps [simp]:
  "armings [] = 0" "armings [Armed k q] = 1" "armings [Claimed k q] = 0" "armings [Ended k] = 0"
  "armings (map Ended ks) = 0"
  by (simp_all add: armings_def comp_def)

text \<open>No number is in use twice: it is waited for by one session, or claimed, but not both.\<close>

definition timers_ok :: "retry_event list \<Rightarrow> timers \<Rightarrow> bool" where
  "timers_ok es s \<longleftrightarrow>
     unat (snd s) = armings es \<and> distinct (claims es) \<and>
     (\<forall>q\<in>set (claims es). unat q \<le> armings es) \<and>
     (\<forall>k q. fst s k = Some q \<longrightarrow> unat q \<le> armings es \<and> q \<notin> set (claims es)) \<and>
     (\<forall>j k q. fst s j = Some q \<longrightarrow> fst s k = Some q \<longrightarrow> j = k)"

lemma timers_okI:
  assumes "unat n = armings es" "distinct (claims es)"
    "\<And>q. q \<in> set (claims es) \<Longrightarrow> unat q \<le> armings es"
    "\<And>k q. live k = Some q \<Longrightarrow> unat q \<le> armings es"
    "\<And>k q. live k = Some q \<Longrightarrow> q \<notin> set (claims es)"
    "\<And>j k q. live j = Some q \<Longrightarrow> live k = Some q \<Longrightarrow> j = k"
  shows "timers_ok es (live, n)"
  using assms by (auto simp: timers_ok_def)

lemma timers_okD:
  assumes "timers_ok es (live, n)"
  shows "unat n = armings es" "distinct (claims es)"
    "q \<in> set (claims es) \<Longrightarrow> unat q \<le> armings es"
    "live k = Some q \<Longrightarrow> unat q \<le> armings es"
    "live k = Some q \<Longrightarrow> q \<notin> set (claims es)"
    "live j = Some q \<Longrightarrow> live k = Some q \<Longrightarrow> j = k"
  using assms by (auto simp: timers_ok_def)

lemma timer_step_ok:
  assumes "timer_step s es' s'" "timers_ok es s" "armings (es @ es') < 2 ^ 64"
  shows "timers_ok (es @ es') s'"
  using assms
proof (induction rule: timer_step.induct)
  case (idle s)
  then show ?case by simp
next
  case (arm live n k)
  note ok = timers_okD [OF arm.prems(1)]
  have n: "unat (n + 1) = Suc (armings es)"
    using arm.prems(2) ok(1) by (simp add: unat_word_ariths)
  have fresh: "q \<noteq> n + 1" if "unat q \<le> armings es" for q
    using that n by auto
  show ?case
  proof (rule timers_okI)
    show "q \<notin> set (claims (es @ [Armed k (n + 1)]))" if "(live(k \<mapsto> n + 1)) j = Some q" for j q
      using that ok(3,5) fresh by (auto split: if_splits)
    have "live j \<noteq> Some (n + 1)" for j using ok(4) fresh by blast
    then show "i = j" if "(live(k \<mapsto> n + 1)) i = Some q" "(live(k \<mapsto> n + 1)) j = Some q" for i j q
      using that ok(6) [of i q j] by (auto split: if_splits)
  qed (use n ok in \<open>auto simp: le_Suc_eq split: if_splits\<close>)
next
  case (claim live k q n)
  note ok = timers_okD [OF claim.prems(1)]
  show ?case
    by (rule timers_okI) (use ok claim.hyps in \<open>auto split: if_splits\<close>)
next
  case (close live n k)
  note ok = timers_okD [OF close.prems(1)]
  show ?case by (rule timers_okI) (use ok in \<open>auto split: if_splits\<close>)
next
  case (close_all live ks n)
  note ok = timers_okD [OF close_all.prems(1)]
  show ?case by (rule timers_okI) (use ok in auto)
qed

lemma retry_run_ok:
  assumes "retry_run t es t'" "timers_ok [] (timers_of t)" "armings es < 2 ^ 64"
  shows "timers_ok es (timers_of t')"
  using assms
proof (induction rule: retry_run.induct)
  case (none t)
  then show ?case by simp
next
  case (more t es t' es' t'')
  have "timers_ok es (timers_of t')" using more.IH more.prems by simp
  then show ?case using retry_step_timers [OF more.hyps(2)] more.prems(2) timer_step_ok by blast
qed

text \<open>A session waits, after an end, only for a timer that was set since.\<close>

definition closed_ok :: "retry_event list \<Rightarrow> timers \<Rightarrow> bool" where
  "closed_ok es s \<longleftrightarrow>
     (\<forall>before k after. es = before @ [Ended k] @ after \<longrightarrow>
        (\<forall>q. fst s k = Some q \<or> Claimed k q \<in> set after \<longrightarrow> Armed k q \<in> set after))"

lemma closed_okD:
  "closed_ok es s \<Longrightarrow> es = before @ [Ended k] @ after \<Longrightarrow> fst s k = Some q \<or> Claimed k q \<in> set after
     \<Longrightarrow> Armed k q \<in> set after"
  by (auto simp: closed_ok_def)

lemma timer_step_closed:
  assumes "timer_step s es' s'" "closed_ok es s"
  shows "closed_ok (es @ es') s'"
  using assms
proof (induction rule: timer_step.induct)
  case (idle s)
  then show ?case by simp
next
  case (arm live n k)
  have "Armed j q \<in> set after" if "es @ [Armed k (n + 1)] = before @ [Ended j] @ after"
    "(live(k \<mapsto> n + 1)) j = Some q \<or> Claimed j q \<in> set after" for before j after q
    using that closed_okD [OF arm.prems, of before j "butlast after" q]
    by (cases after rule: rev_cases) (auto split: if_splits)
  then show ?case by (simp add: closed_ok_def)
next
  case (claim live k q n)
  have "Armed j r \<in> set after" if "es @ [Claimed k q] = before @ [Ended j] @ after"
    "(live(k := None)) j = Some r \<or> Claimed j r \<in> set after" for before j after r
    using that closed_okD [OF claim.prems, of before j "butlast after" r] claim.hyps
    by (cases after rule: rev_cases) (auto split: if_splits)
  then show ?case by (simp add: closed_ok_def)
next
  case (close live n k)
  have "Armed j r \<in> set after" if "es @ [Ended k] = before @ [Ended j] @ after"
    "(live(k := None)) j = Some r \<or> Claimed j r \<in> set after" for before j after r
    using that closed_okD [OF close.prems, of before j "butlast after" r]
    by (cases after rule: rev_cases) (auto split: if_splits)
  then show ?case by (simp add: closed_ok_def)
next
  case (close_all live ks n)
  have "Armed j r \<in> set after" if e: "es @ map Ended ks = before @ [Ended j] @ after"
    and c: "Claimed j r \<in> set after" for before j after r
  proof -
    from e consider us where "es = before @ [Ended j] @ us" "after = us @ map Ended ks"
      | us where "map Ended ks = us @ [Ended j] @ after"
      by (fastforce simp: append_eq_append_conv2 append_eq_Cons_conv Cons_eq_append_conv)
    then show ?thesis
    proof cases
      case (1 us)
      then show ?thesis using c closed_okD [OF close_all.prems, of before j us r] by auto
    next
      case (2 us)
      from c have "Claimed j r \<in> set (map Ended ks)" unfolding 2 by simp
      then show ?thesis by auto
    qed
  qed
  then show ?case by (auto simp: closed_ok_def)
qed

section \<open>The methods are runs of these steps\<close>

definition reaches :: "Tracker \<Rightarrow> Tracker \<Rightarrow> bool" where
  "reaches t t' \<longleftrightarrow> (\<exists>es. retry_run t es t')"

lemma reaches_refl [simp, intro]: "reaches t t"
  using retry_run.none by (auto simp: reaches_def)

lemma reaches_step: "reaches t t' \<Longrightarrow> retry_step t' es t'' \<Longrightarrow> reaches t t''"
  unfolding reaches_def using retry_run.more by blast

lemma reaches_trans: "reaches t t' \<Longrightarrow> reaches t' t'' \<Longrightarrow> reaches t t''"
proof -
  assume *: "reaches t t'"
  assume "reaches t' t''"
  then obtain es where "retry_run t' es t''" by (auto simp: reaches_def)
  then show ?thesis using * by (induction rule: retry_run.induct) (auto intro: reaches_step)
qed

lemma reaches_notify [intro]: "reaches t t' \<Longrightarrow> reaches t (notify present snapshot phase notice t')"
  unfolding notify_def using reaches_step retry_step.sent by blast

lemmas reaches_by = reaches_step [OF reaches_refl]

lemma FinishAutoRetryOnTerminal_reaches [intro]:
  "reaches t (FinishAutoRetryOnTerminal present k th status t)"
proof (cases "finish_terminal (trim k) (trim th) t")
  case (Pair t' r)
  have "reaches t t'"
    using Pair reaches_by [OF retry_step.terminal, of "trim k" "trim th" t t']
    by (cases r) (auto simp: finish_terminal_def split: option.splits if_splits)
  then show ?thesis
    by (auto simp: FinishAutoRetryOnTerminal_def Let_def Pair split: option.split)
qed

lemma ScheduleAutoRetryAfterFailure_reaches [intro]:
  "reaches t (fst (ScheduleAutoRetryAfterFailure present en k th sess sub reuse err t))"
proof (cases sess)
  case None
  then show ?thesis by (simp add: ScheduleAutoRetryAfterFailure_def Let_def)
next
  case (Some s)
  obtain t' r where e: "schedule_failure (trim k) (trim th) s sub reuse err t = (t', r)" by force
  have "reaches t t'" by (rule reaches_by [OF retry_step.failed [OF e]])
  then show ?thesis
    by (auto simp: ScheduleAutoRetryAfterFailure_def Let_def Some e split: option.split)
qed

lemma ObserveAutoRetryTerminal_reaches:
  "reaches t (fst (ObserveAutoRetryTerminal present en k th status sess sub reuse err t))"
  by (auto simp: ObserveAutoRetryTerminal_def Let_def)

lemma FinishAutoRetryWithMessage_reaches [intro]:
  "reaches t t' \<Longrightarrow> reaches t (FinishAutoRetryWithMessage present k phase notice t')"
proof (cases "finish_state (trim k) t'")
  case (Pair t2 r)
  assume "reaches t t'"
  then have "reaches t t2"
    using Pair reaches_step [OF _ retry_step.finished, of t t' "trim k" t2]
    by (cases r) (auto simp: finish_state_def split: option.splits)
  then show ?thesis
    using \<open>reaches t t'\<close> by (auto simp: FinishAutoRetryWithMessage_def Let_def Pair split: option.split)
qed

lemma BumpAutoRetryBackoffAndReschedule_reaches [intro]:
  "reaches t t' \<Longrightarrow> reaches t (BumpAutoRetryBackoffAndReschedule present k notice t')"
proof (cases "bump_state (trim k) t'")
  case (Pair t2 r)
  assume "reaches t t'"
  moreover have "r = None \<Longrightarrow> t2 = t'"
    using Pair
    by (auto simp: bump_state_def Let_def set_timer_def map_of_put_state split: option.splits if_splits)
  ultimately have "reaches t t2"
    using Pair reaches_step [OF _ retry_step.bumped, of t t' "trim k" t2] by (cases r) auto
  then show ?thesis
    using \<open>reaches t t'\<close>
    by (auto simp: BumpAutoRetryBackoffAndReschedule_def Let_def Pair split: option.split)
qed

lemma MarkAutoRetryAttemptStarted_reaches [intro]:
  "reaches t t' \<Longrightarrow> reaches t (MarkAutoRetryAttemptStarted present session k sub t')"
proof (cases "start_state (trim k) (session (trim k)) sub t'")
  case (Pair t2 r)
  assume "reaches t t'"
  then have "reaches t t2"
    using Pair reaches_step [OF _ retry_step.started, of t t' "trim k" "session (trim k)" sub t2]
    by (cases r) (auto simp: start_state_def Let_def split: option.splits if_splits)
  then show ?thesis
    using \<open>reaches t t'\<close>
    by (auto simp: MarkAutoRetryAttemptStarted_def Let_def Pair split: option.split)
qed

lemma CancelAutoRetry_reaches: "reaches t (fst (CancelAutoRetry present en session k keep given t))"
proof (cases "cancel_state (trim k) keep en (session (trim k)) t")
  case (Pair t2 r)
  have "reaches t t2"
    using Pair reaches_by [OF retry_step.cancelled, of "trim k" keep en _ t t2]
      reaches_by [OF retry_step.marked, of "trim k" keep en _ t t2] by (cases r) auto
  then show ?thesis by (auto simp: CancelAutoRetry_def Let_def Pair split: option.split)
qed

lemma fold_notify_reaches:
  "reaches t t' \<Longrightarrow> reaches t (fold (\<lambda>snapshot. notify present snapshot phase notice) snapshots t')"
  by (induction snapshots arbitrary: t') auto

lemma CancelAllAutoRetry_reaches: "reaches t (fst (CancelAllAutoRetry present given t))"
proof -
  obtain t' r where e: "cancel_all t = (t', r)" by force
  show ?thesis
    using fold_notify_reaches [OF reaches_by [OF retry_step.all_cancelled [OF e]]]
    by (simp add: CancelAllAutoRetry_def e)
qed

lemma StartAutoRetrySubmission_reaches:
  assumes "\<And>k s x ws u. reaches u (fst (rp_Start p k s x ws u))"
  shows "reaches t (fst (StartAutoRetrySubmission p k session snapshot t))"
proof (cases session)
  case None
  then show ?thesis by (simp add: StartAutoRetrySubmission_def)
next
  case (Some s)
  show ?thesis
    by (auto simp: StartAutoRetrySubmission_def Some Let_def split: option.split sum.split prod.split)
      (metis assms fst_conv)+
qed

text \<open>The starter may itself report to the tracker, by runs of the same steps.\<close>

lemma RunAutoRetryTimer_reaches:
  assumes "\<And>k s x ws u. reaches u (fst (rp_Start p k s x ws u))"
  shows "reaches t (RunAutoRetryTimer p k q t)"
proof (cases "claim_timer (trim k) q t")
  case (Pair t1 r)
  show ?thesis
  proof (cases r)
    case None
    then have "t1 = t" using Pair by (auto simp: claim_timer_def split: option.splits if_splits)
    then show ?thesis by (simp add: RunAutoRetryTimer_def Let_def Pair None)
  next
    case (Some snapshot)
    have 1: "reaches t t1" using Pair Some by (metis reaches_by retry_step.claimed)
    obtain t2 sub e where st: "StartAutoRetrySubmission p (trim k) (rp_Session p (trim k)) snapshot t1 = (t2, sub, e)"
      by (metis prod_cases3)
    have 2: "reaches t t2"
      using StartAutoRetrySubmission_reaches [OF assms, of t1 "trim k" "rp_Session p (trim k)" snapshot]
        1 st reaches_trans by simp
    show ?thesis using 1 2
      by (auto simp: RunAutoRetryTimer_def Let_def Pair Some st split: option.split)
  qed
qed

section \<open>Properties\<close>

text \<open>
  C20. The delay of a retry doubles from one second and stops at fifteen: every step waits at
  least the initial and at most the maximal delay, never less than an earlier step, and exactly
  the doubled delay cut off at the maximum.
\<close>
theorem DelayForStep_bounds:
  "InitialDelay \<le> DelayForStep step \<and> DelayForStep step \<le> MaxDelay \<and>
   DelayForStep step \<le> DelayForStep (step + 1) \<and>
   DelayForStep step = min MaxDelay (InitialDelay * 2 ^ nat step)"
proof -
  have "(2::int) ^ nat step \<le> 2 ^ nat (step + 1)" by (rule power_increasing) (simp_all add: nat_mono)
  moreover have "(1::int) \<le> 2 ^ nat step" by simp
  ultimately show ?thesis
    unfolding DelayForStep_closed using delay_order by blast
qed

text \<open>
  C21. However failures, terminal turns, timers, cancellations and status messages interleave, no
  timer starts two retries: the sequence numbers of the claimed dispatches are all different. The
  numbers are 64 bits wide, so fewer than \<open>2 ^ 64\<close> timers may have been set.
\<close>
theorem each_timer_starts_once:
  assumes "retry_run NewTracker es t" "armings es < 2 ^ 64"
  shows "distinct (claims es)"
proof -
  have "timers_ok [] (timers_of NewTracker)"
    by (simp add: timers_ok_def NewTracker_def live_seq_def)
  then have "timers_ok es (timers_of t)" using assms retry_run_ok by blast
  then show ?thesis by (simp add: timers_ok_def)
qed

text \<open>
  C22. Once a retry is stopped or finished, the timers it had set start nothing, even when their
  dispatch is already under way: a dispatch that is claimed afterwards belongs to a timer that
  was set afterwards.
\<close>
theorem ended_retry_starts_nothing:
  assumes "retry_run t es t'" "es = before @ [Ended k] @ after" "Claimed k q \<in> set after"
  shows "Armed k q \<in> set after"
proof -
  have "closed_ok es (timers_of t')"
    using assms(1)
  proof (induction rule: retry_run.induct)
    case (none t)
    then show ?case by (simp add: closed_ok_def)
  next
    case (more t es t' es' t'')
    then show ?case using retry_step_timers timer_step_closed by blast
  qed
  then show ?thesis using closed_okD [OF _ assms(2)] assms(3) by blast
qed

text \<open>A run with a failure, the dispatch of its timer, a stop, and a late dispatch.\<close>

definition demo_failed :: Tracker where
  "demo_failed = fst (schedule_failure ''k'' ''th'' zero_Session None [] [] NewTracker)"

definition demo_claimed :: Tracker where
  "demo_claimed = fst (claim_timer ''k'' 1 demo_failed)"

lemma demo_values:
  "schedule_failure ''k'' ''th'' zero_Session None [] [] NewTracker =
     (demo_failed, map_of (tr_States demo_failed) ''k'')"
  "map_of (tr_States demo_failed) ''k'' \<noteq> None" "armed_by ''k'' NewTracker demo_failed = [Armed ''k'' 1]"
  "claim_timer ''k'' 1 demo_failed =
     (demo_claimed, Some (CloneState (map_of (tr_States demo_failed) ''k'')))"
  "cancel_state ''k'' False True None demo_failed =
     (NewTracker\<lparr>tr_nextTimerSeq := 1\<rparr>,
      Some (CloneState (map_option (\<lambda>st. st\<lparr>rs_Canceled := True\<rparr>) (map_of (tr_States demo_failed) ''k''))))"
  by code_simp+

lemma demo_runs:
  "retry_run NewTracker [Armed ''k'' 1] demo_failed"
  "retry_run NewTracker [Armed ''k'' 1, Claimed ''k'' 1] demo_claimed"
proof -
  show *: "retry_run NewTracker [Armed ''k'' 1] demo_failed"
    using retry_run.more [OF retry_run.none retry_step.failed [OF demo_values(1)]] demo_values(2,3)
    by simp
  show "retry_run NewTracker [Armed ''k'' 1, Claimed ''k'' 1] demo_claimed"
    using retry_run.more [OF * retry_step.claimed [OF demo_values(4)]] by simp
qed

text \<open>The session fails again after the stop: its new timer, the second one, may start.\<close>

definition demo_stopped :: Tracker where "demo_stopped = NewTracker\<lparr>tr_nextTimerSeq := 1\<rparr>"
definition demo_again :: Tracker where
  "demo_again = fst (schedule_failure ''k'' ''th'' zero_Session None [] [] demo_stopped)"
definition demo_last :: Tracker where "demo_last = fst (claim_timer ''k'' 2 demo_again)"

lemma demo_again_values:
  "schedule_failure ''k'' ''th'' zero_Session None [] [] demo_stopped =
     (demo_again, map_of (tr_States demo_again) ''k'')"
  "map_of (tr_States demo_again) ''k'' \<noteq> None" "armed_by ''k'' demo_stopped demo_again = [Armed ''k'' 2]"
  "claim_timer ''k'' 2 demo_again =
     (demo_last, Some (CloneState (map_of (tr_States demo_again) ''k'')))"
  by code_simp+

lemma demo_stop_run:
  "retry_run NewTracker [Armed ''k'' 1, Ended ''k'', Armed ''k'' 2, Claimed ''k'' 2] demo_last"
proof -
  have "retry_run NewTracker [Armed ''k'' 1, Ended ''k''] demo_stopped"
    using retry_run.more [OF demo_runs(1) retry_step.cancelled [OF demo_values(5)]]
    by (simp add: demo_stopped_def)
  from retry_run.more [OF this retry_step.failed [OF demo_again_values(1)]]
  have "retry_run NewTracker [Armed ''k'' 1, Ended ''k'', Armed ''k'' 2] demo_again"
    using demo_again_values(2,3) by simp
  from retry_run.more [OF this retry_step.claimed [OF demo_again_values(4)]] show ?thesis by simp
qed

lemma each_timer_starts_once_witness: "distinct (claims [Armed ''k'' 1, Claimed ''k'' 1])"
  using each_timer_starts_once [OF demo_runs(2)] by (simp add: armings_def)

lemma ended_retry_starts_nothing_witness: "Armed ''k'' 2 \<in> set [Armed ''k'' 2, Claimed ''k'' 2]"
  using ended_retry_starts_nothing [OF demo_stop_run, of "[Armed ''k'' 1]" "''k''" "[Armed ''k'' 2, Claimed ''k'' 2]" 2]
  by simp

end
