(* ===== verification/Goals.thy ===== *)
theory Goals
  imports Go_Prelude Conversation_Data "HOL-Library.AList"
begin

text \<open>
  The goal of a thread: what the frontend remembers of it (\<open>internal/application/goal/tracker.go\<close>)
  and the operations on the goal kept by the backend (\<open>management.go\<close>). The backend is outside
  this program: its three calls are a record of functions on a state of its own.
\<close>

section \<open>The tracker (tracker.go)\<close>

record Anchor =
  an_SessionKey :: string
  an_ThreadID :: string
  an_MessageID :: string
  an_ChatID :: string
  an_ChatType :: string
  an_UserID :: string

record GoalTracker =
  gt_goals :: "(string \<times> ThreadGoal) list"
  gt_anchors :: "(string \<times> Anchor) list"
  gt_counts :: "(string \<times> nat) list"

definition NewGoalTracker :: GoalTracker where
  "NewGoalTracker = \<lparr>gt_goals = [], gt_anchors = [], gt_counts = []\<rparr>"

definition NoteGoal :: "ThreadGoal \<Rightarrow> GoalTracker \<Rightarrow> GoalTracker" where
  "NoteGoal goal t =
     (let threadID = trim (tg_ThreadID goal) in
      if threadID = [] then t else t\<lparr>gt_goals := AList.update threadID goal (gt_goals t)\<rparr>)"

definition ClearGoal :: "string \<Rightarrow> GoalTracker \<Rightarrow> GoalTracker" where
  "ClearGoal threadID0 t =
     (let threadID = trim threadID0 in
      if threadID = [] then t
      else t\<lparr>gt_goals := AList.delete threadID (gt_goals t),
             gt_counts := AList.delete threadID (gt_counts t)\<rparr>)"

definition ActiveGoal :: "string \<Rightarrow> GoalTracker \<Rightarrow> ThreadGoal option" where
  "ActiveGoal threadID t =
     (if trim threadID = [] then None
      else case map_of (gt_goals t) (trim threadID) of
        None \<Rightarrow> None
      | Some goal \<Rightarrow> if tg_Status goal = ThreadGoalStatusActive then Some goal else None)"

definition RecordAnchor :: "Anchor \<Rightarrow> GoalTracker \<Rightarrow> GoalTracker" where
  "RecordAnchor anchor0 t =
     (let anchor = anchor0\<lparr>an_ThreadID := trim (an_ThreadID anchor0),
                           an_SessionKey := trim (an_SessionKey anchor0),
                           an_MessageID := trim (an_MessageID anchor0)\<rparr> in
      if an_ThreadID anchor = [] \<or> an_SessionKey anchor = [] \<or> an_MessageID anchor = [] then t
      else t\<lparr>gt_anchors := AList.update (an_ThreadID anchor) anchor (gt_anchors t)\<rparr>)"

definition RecordContext :: "Anchor \<Rightarrow> GoalTracker \<Rightarrow> GoalTracker" where
  "RecordContext anchor0 t =
     (let anchor = anchor0\<lparr>an_ThreadID := trim (an_ThreadID anchor0),
                           an_SessionKey := trim (an_SessionKey anchor0), an_MessageID := []\<rparr>;
          kept = (case map_of (gt_anchors t) (an_ThreadID anchor) of
             None \<Rightarrow> anchor
           | Some existing \<Rightarrow>
               anchor\<lparr>an_ChatID := FirstNonEmpty [trim (an_ChatID anchor), trim (an_ChatID existing)],
                      an_ChatType := FirstNonEmpty [trim (an_ChatType anchor), trim (an_ChatType existing)],
                      an_UserID := FirstNonEmpty [trim (an_UserID anchor), trim (an_UserID existing)]\<rparr>) in
      if an_ThreadID anchor = [] \<or> an_SessionKey anchor = [] then t
      else t\<lparr>gt_anchors := AList.update (an_ThreadID anchor) kept (gt_anchors t)\<rparr>)"

definition goal_anchor :: "string \<Rightarrow> GoalTracker \<Rightarrow> Anchor option" where
  "goal_anchor threadID t = (if trim threadID = [] then None else map_of (gt_anchors t) (trim threadID))"

definition NextContinuationOrdinal :: "string \<Rightarrow> GoalTracker \<Rightarrow> GoalTracker \<times> nat" where
  "NextContinuationOrdinal threadID0 t =
     (let threadID = trim threadID0;
          n = Suc (case map_of (gt_counts t) threadID of None \<Rightarrow> 0 | Some k \<Rightarrow> k) in
      if threadID = [] then (t, 0) else (t\<lparr>gt_counts := AList.update threadID n (gt_counts t)\<rparr>, n))"

section \<open>Management (management.go)\<close>

record GoalUpdate =
  gu_ThreadID :: string
  gu_Objective :: "string option"
  gu_Status :: "string option"
  gu_TokenBudget :: "int option"

text \<open>What the backend answers to a call: its new state, and an error or a result.\<close>

record 'g goal_gateway =
  gg_Get :: "string \<Rightarrow> 'g \<Rightarrow> 'g \<times> (string + ThreadGoal option)"
  gg_Set :: "GoalUpdate \<Rightarrow> 'g \<Rightarrow> 'g \<times> (string + ThreadGoal)"
  gg_Clear :: "string \<Rightarrow> 'g \<Rightarrow> 'g \<times> (string + bool)"

datatype goal_error = ObjectiveEmpty | ObjectiveTooLong nat | GatewayFailed string

definition MaxObjectiveRunes :: nat where
  "MaxObjectiveRunes = 4000"

definition ValidateObjective :: "string \<Rightarrow> goal_error option" where
  "ValidateObjective objective =
     (if trim objective = [] then Some ObjectiveEmpty
      else let count = length (runes (trim objective)) in
        if count > MaxObjectiveRunes then Some (ObjectiveTooLong count) else None)"

definition EditedStatus :: "string \<Rightarrow> string" where
  "EditedStatus status =
     (if status \<in> {ThreadGoalStatusActive, ThreadGoalStatusPaused, ThreadGoalStatusBlocked,
                   ThreadGoalStatusUsageLimited} then status
      else ThreadGoalStatusActive)"

text \<open>The gateway itself may be unavailable, which is an error before any call.\<close>

record 'g Management =
  mg_Gateway :: "string + 'g goal_gateway"

type_synonym 'g goal_state = "'g \<times> GoalTracker"

definition Get_goal ::
  "'g Management \<Rightarrow> string \<Rightarrow> 'g goal_state \<Rightarrow> 'g goal_state \<times> (goal_error + ThreadGoal option)" where
  "Get_goal m threadID = (\<lambda>(g, t).
     case mg_Gateway m of
       Inl e \<Rightarrow> ((g, t), Inl (GatewayFailed e))
     | Inr gw \<Rightarrow>
         (case gg_Get gw threadID g of
            (g', Inl e) \<Rightarrow> ((g', t), Inl (GatewayFailed e))
          | (g', Inr None) \<Rightarrow> ((g', ClearGoal threadID t), Inr None)
          | (g', Inr (Some goal)) \<Rightarrow> ((g', NoteGoal goal t), Inr (Some goal))))"

definition goal_update :: "string \<Rightarrow> string \<Rightarrow> string \<Rightarrow> int option \<Rightarrow> GoalUpdate" where
  "goal_update threadID objective status tokenBudget =
     \<lparr>gu_ThreadID = trim threadID,
      gu_Objective = (if trim objective = [] then None else Some (trim objective)),
      gu_Status = (if status = [] then None else Some status), gu_TokenBudget = tokenBudget\<rparr>"

definition Set_goal ::
  "'g Management \<Rightarrow> string \<Rightarrow> string \<Rightarrow> string \<Rightarrow> int option \<Rightarrow> 'g goal_state
     \<Rightarrow> 'g goal_state \<times> (goal_error + ThreadGoal)" where
  "Set_goal m threadID objective status tokenBudget = (\<lambda>(g, t).
     case (if trim objective = [] then None else ValidateObjective objective) of
       Some e \<Rightarrow> ((g, t), Inl e)
     | None \<Rightarrow>
         (case mg_Gateway m of
            Inl e \<Rightarrow> ((g, t), Inl (GatewayFailed e))
          | Inr gw \<Rightarrow>
              (case gg_Set gw (goal_update threadID objective status tokenBudget) g of
                 (g', Inl e) \<Rightarrow> ((g', t), Inl (GatewayFailed e))
               | (g', Inr goal) \<Rightarrow> ((g', NoteGoal goal t), Inr goal))))"

definition Clear_goal ::
  "'g Management \<Rightarrow> string \<Rightarrow> 'g goal_state \<Rightarrow> 'g goal_state \<times> (goal_error + bool)" where
  "Clear_goal m threadID = (\<lambda>(g, t).
     case mg_Gateway m of
       Inl e \<Rightarrow> ((g, t), Inl (GatewayFailed e))
     | Inr gw \<Rightarrow>
         (case gg_Clear gw threadID g of
            (g', Inl e) \<Rightarrow> ((g', t), Inl (GatewayFailed e))
          | (g', Inr cleared) \<Rightarrow> ((g', ClearGoal threadID t), Inr cleared)))"

record ObjectiveResult =
  or_Goal :: "ThreadGoal option"
  or_NeedsConfirmation :: bool

definition set_objective ::
  "'g Management \<Rightarrow> string \<Rightarrow> string \<Rightarrow> 'g goal_state \<Rightarrow> 'g goal_state \<times> (goal_error + ThreadGoal)" where
  "set_objective m threadID objective = Set_goal m threadID objective ThreadGoalStatusActive None"

definition ProposeObjective ::
  "'g Management \<Rightarrow> string \<Rightarrow> string \<Rightarrow> 'g goal_state \<Rightarrow> 'g goal_state \<times> (goal_error + ObjectiveResult)" where
  "ProposeObjective m threadID objective s =
     (let set = (\<lambda>s. case set_objective m threadID objective s of
            (s', Inl e) \<Rightarrow> (s', Inl e)
          | (s', Inr goal) \<Rightarrow> (s', Inr \<lparr>or_Goal = Some goal, or_NeedsConfirmation = False\<rparr>)) in
      case ValidateObjective objective of
        Some e \<Rightarrow> (s, Inl e)
      | None \<Rightarrow>
          (case Get_goal m threadID s of
             (s1, Inl e) \<Rightarrow> (s1, Inl e)
           | (s1, Inr None) \<Rightarrow> set s1
           | (s1, Inr (Some goal)) \<Rightarrow>
               if tg_Status goal \<noteq> ThreadGoalStatusComplete
               then (s1, Inr \<lparr>or_Goal = Some goal, or_NeedsConfirmation = True\<rparr>)
               else (case Clear_goal m threadID s1 of
                  (s2, Inl e) \<Rightarrow> (s2, Inl e)
                | (s2, Inr _) \<Rightarrow> set s2)))"

definition Replace_goal ::
  "'g Management \<Rightarrow> string \<Rightarrow> string \<Rightarrow> 'g goal_state \<Rightarrow> 'g goal_state \<times> (goal_error + ThreadGoal)" where
  "Replace_goal m threadID objective s =
     (case ValidateObjective objective of
        Some e \<Rightarrow> (s, Inl e)
      | None \<Rightarrow>
          (case Clear_goal m threadID s of
             (s1, Inl e) \<Rightarrow> (s1, Inl e)
           | (s1, Inr _) \<Rightarrow> set_objective m threadID objective s1))"

section \<open>A proposal keeps an unfinished goal\<close>

text \<open>
  What is relied on of the backend: a read changes nothing and answers with the goal of the
  thread, a set answers with the goal it stored, a clear leaves no goal.
\<close>

definition serves :: "'g goal_gateway \<Rightarrow> ('g \<Rightarrow> string \<Rightarrow> ThreadGoal option) \<Rightarrow> bool" where
  "serves gw goals \<longleftrightarrow>
     (\<forall>th g. fst (gg_Get gw th g) = g) \<and>
     (\<forall>th g g' r. gg_Get gw th g = (g', Inr r) \<longrightarrow>
        r = goals g th \<and> (\<forall>x. r = Some x \<longrightarrow> tg_ThreadID x = th)) \<and>
     (\<forall>u g g' x. gg_Set gw u g = (g', Inr x) \<longrightarrow>
        goals g' (gu_ThreadID u) = Some x \<and> tg_ThreadID x = gu_ThreadID u) \<and>
     (\<forall>th g g' b. gg_Clear gw th g = (g', Inr b) \<longrightarrow> goals g' th = None)"

definition remembered :: "string \<Rightarrow> GoalTracker \<Rightarrow> ThreadGoal option" where
  "remembered th t = map_of (gt_goals t) th"

lemma remembered_NoteGoal:
  "trim (tg_ThreadID x) = th \<Longrightarrow> th \<noteq> [] \<Longrightarrow> remembered th (NoteGoal x t) = Some x"
  by (auto simp: remembered_def NoteGoal_def update_conv')

lemma remembered_ClearGoal: "trim th = th \<Longrightarrow> th \<noteq> [] \<Longrightarrow> remembered th (ClearGoal th t) = None"
  by (simp add: remembered_def ClearGoal_def delete_conv')

lemma Get_goal_reads:
  assumes "mg_Gateway m = Inr gw" "serves gw goals" "trim th = th" "th \<noteq> []"
  obtains t' r where "Get_goal m th (g, t) = ((g, t'), r)"
    "\<And>x. r = Inr x \<Longrightarrow> x = goals g th \<and> remembered th t' = goals g th"
proof (cases "gg_Get gw th g")
  case (Pair g' r)
  have g': "g' = g" using assms(2) Pair unfolding serves_def by (metis fst_conv)
  have r: "x = goals g th \<and> (\<forall>y. x = Some y \<longrightarrow> tg_ThreadID y = th)" if "r = Inr x" for x
    using assms(2) Pair that unfolding serves_def by blast
  show thesis
  proof (cases r)
    case (Inl e)
    then show thesis
      by (intro that [of t "Inl (GatewayFailed e)"]) (simp_all add: Get_goal_def assms(1) Pair g')
  next
    case (Inr x)
    show thesis
    proof (cases x)
      case None
      have "goals g th = None" using r [OF Inr] None by simp
      then show thesis
        by (intro that [of "ClearGoal th t" "Inr None"])
          (simp_all add: Get_goal_def assms Pair g' Inr None remembered_ClearGoal)
    next
      case (Some y)
      have "goals g th = Some y" "tg_ThreadID y = th" using r [OF Inr] Some by auto
      then show thesis
        by (intro that [of "NoteGoal y t" "Inr (Some y)"])
          (simp_all add: Get_goal_def assms(1,3,4) Pair g' Inr Some remembered_NoteGoal)
    qed
  qed
qed

lemma set_objective_stores:
  assumes "mg_Gateway m = Inr gw" "serves gw goals" "trim th = th" "th \<noteq> []"
    and "set_objective m th objective (g, t) = ((g', t'), Inr x)"
  shows "goals g' th = Some x \<and> remembered th t' = Some x"
proof -
  define u where "u = goal_update th objective ThreadGoalStatusActive None"
  have u: "gu_ThreadID u = th" by (simp add: u_def goal_update_def assms(3))
  have s: "gg_Set gw u g = (g', Inr x)" and t': "t' = NoteGoal x t"
    using assms(5) by (auto simp: set_objective_def Set_goal_def assms(1) u_def
        split: option.splits prod.splits sum.splits if_splits)
  have "goals g' (gu_ThreadID u) = Some x \<and> tg_ThreadID x = gu_ThreadID u"
    using assms(2) s unfolding serves_def by blast
  then show ?thesis by (simp add: t' u remembered_NoteGoal assms(3,4))
qed

text \<open>
  C40. A proposed objective never destroys an unfinished goal of the backend: whatever happens, the
  goal and its server stay as they are, and a proposal that is answered asks for confirmation.
  Without an unfinished goal an answered proposal has set the new goal, and the tracker
  remembers the goal the backend has.
\<close>
theorem proposal_keeps_unfinished_goal:
  assumes "mg_Gateway m = Inr gw" "serves gw goals" "trim th = th" "th \<noteq> []"
    and "ProposeObjective m th objective (g, t) = ((g', t'), r)"
  shows "(case goals g th of
            Some x \<Rightarrow> tg_Status x \<noteq> ThreadGoalStatusComplete \<longrightarrow>
              g' = g \<and> (\<forall>y. r = Inr y \<longrightarrow> y = \<lparr>or_Goal = Some x, or_NeedsConfirmation = True\<rparr>)
          | None \<Rightarrow> (\<forall>y. r = Inr y \<longrightarrow> \<not> or_NeedsConfirmation y)) \<and>
    (\<forall>y. r = Inr y \<longrightarrow> or_Goal y = goals g' th \<and> remembered th t' = goals g' th)"
proof (cases "ValidateObjective objective")
  case (Some e)
  with assms(5) show ?thesis by (auto simp: ProposeObjective_def split: option.split)
next
  case None
  obtain t1 r1 where g: "Get_goal m th (g, t) = ((g, t1), r1)"
      and r1: "\<And>x. r1 = Inr x \<Longrightarrow> x = goals g th \<and> remembered th t1 = goals g th"
    using Get_goal_reads [OF assms(1-4)] by blast
  have st: "goals a th = Some x \<and> remembered th b = Some x"
    if "set_objective m th objective c = ((a, b), Inr x)" for a b c x
    using set_objective_stores [OF assms(1-4)] that by (cases c) blast
  show ?thesis
  proof (cases r1)
    case (Inl e)
    with assms(5) g None show ?thesis by (auto simp: ProposeObjective_def split: option.split)
  next
    case (Inr x)
    have x: "goals g th = x" "remembered th t1 = x" using r1 [OF Inr] by simp_all
    show ?thesis
      using assms(5) g None Inr x
      by (auto simp: ProposeObjective_def split: option.splits sum.splits prod.splits if_splits
          dest!: st)
  qed
qed

text \<open>A backend that keeps one goal per thread.\<close>

definition goal_in :: "(string \<Rightarrow> ThreadGoal option) \<Rightarrow> string \<Rightarrow> ThreadGoal option" where
  "goal_in g th = (case g th of Some x \<Rightarrow> if tg_ThreadID x = th then Some x else None | None \<Rightarrow> None)"

definition stored_goal :: "GoalUpdate \<Rightarrow> ThreadGoal" where
  "stored_goal u =
     \<lparr>tg_ThreadID = gu_ThreadID u, tg_Objective = (case gu_Objective u of None \<Rightarrow> [] | Some x \<Rightarrow> x),
      tg_Status = (case gu_Status u of None \<Rightarrow> [] | Some x \<Rightarrow> x), tg_TokenBudget = gu_TokenBudget u,
      tg_TokensUsed = 0, tg_TimeUsedSeconds = 0, tg_CreatedAt = 0, tg_UpdatedAt = 0\<rparr>"

definition goal_map_gateway :: "(string \<Rightarrow> ThreadGoal option) goal_gateway" where
  "goal_map_gateway =
     \<lparr>gg_Get = (\<lambda>th g. (g, Inr (goal_in g th))),
      gg_Set = (\<lambda>u g. (g(gu_ThreadID u := Some (stored_goal u)), Inr (stored_goal u))),
      gg_Clear = (\<lambda>th g. (g(th := None), Inr (g th \<noteq> None)))\<rparr>"

lemma goal_map_gateway_serves: "serves goal_map_gateway goal_in"
  by (auto simp: serves_def goal_map_gateway_def goal_in_def stored_goal_def split: option.splits if_splits)

definition demo_goal :: "string \<Rightarrow> ThreadGoal" where
  "demo_goal status = stored_goal \<lparr>gu_ThreadID = ''t'', gu_Objective = Some ''ship'', gu_Status = Some status,
     gu_TokenBudget = None\<rparr>"

definition demo_Management :: "(string \<Rightarrow> ThreadGoal option) Management" where
  "demo_Management = \<lparr>mg_Gateway = Inr goal_map_gateway\<rparr>"

lemma demo_proposal:
  "\<exists>t'. ProposeObjective demo_Management ''t'' ''rest'' (Map.empty(''t'' \<mapsto> demo_goal ''paused''), NewGoalTracker) =
     ((Map.empty(''t'' \<mapsto> demo_goal ''paused''), t'),
      Inr \<lparr>or_Goal = Some (demo_goal ''paused''), or_NeedsConfirmation = True\<rparr>)"
proof -
  have v: "ValidateObjective ''rest'' = None" by code_simp
  have g: "goal_in (Map.empty(''t'' \<mapsto> demo_goal ''paused'')) ''t'' = Some (demo_goal ''paused'')"
    by (simp add: goal_in_def demo_goal_def stored_goal_def)
  have s: "tg_Status (demo_goal ''paused'') \<noteq> ''complete''" by (simp add: demo_goal_def stored_goal_def)
  show ?thesis
    using s by (simp add: ProposeObjective_def Get_goal_def demo_Management_def goal_map_gateway_def v g)
qed

theorem proposal_keeps_unfinished_goal_witness:
  "\<exists>t'. remembered ''t'' t' = Some (demo_goal ''paused'') \<and>
     ProposeObjective demo_Management ''t'' ''rest'' (Map.empty(''t'' \<mapsto> demo_goal ''paused''), NewGoalTracker) =
     ((Map.empty(''t'' \<mapsto> demo_goal ''paused''), t'),
      Inr \<lparr>or_Goal = Some (demo_goal ''paused''), or_NeedsConfirmation = True\<rparr>)"
proof -
  let ?g = "Map.empty(''t'' \<mapsto> demo_goal ''paused'')"
  obtain t' where p: "ProposeObjective demo_Management ''t'' ''rest'' (?g, NewGoalTracker) =
      ((?g, t'), Inr \<lparr>or_Goal = Some (demo_goal ''paused''), or_NeedsConfirmation = True\<rparr>)"
    using demo_proposal by blast
  have "mg_Gateway demo_Management = Inr goal_map_gateway" by (simp add: demo_Management_def)
  moreover have "trim ''t'' = ''t''" by code_simp
  moreover have "goal_in ?g ''t'' = Some (demo_goal ''paused'')"
    by (simp add: goal_in_def demo_goal_def stored_goal_def)
  ultimately have "remembered ''t'' t' = Some (demo_goal ''paused'')"
    using proposal_keeps_unfinished_goal [OF _ goal_map_gateway_serves _ _ p] by simp
  with p show ?thesis by blast
qed

end
