(* ===== verification/Pending_Queue.thy ===== *)
theory Pending_Queue
  imports Scoped_Store Runtime_State Auto_Retry Goals "HOL-Library.Char_ord" "HOL-Library.List_Lexorder"
    "HOL-Library.Product_Lexorder"
begin

text \<open>
  The services around queued input: \<open>internal/application/submission/submission.go\<close> (message ids
  and staged images), \<open>pending_queue.go\<close> (staging and discarding input, reactions),
  \<open>submission_status.go\<close> (which submission a turn answers), the pending images and message links
  of \<open>application/continuation/service.go\<close>, and the cleanup of a finished submission
  (\<open>runtime/maintenance/cleanup.go\<close>).

  The services of a frontend work on its store gateway, its turn tracker, its live threads, its
  start gate and its retry tracker; these are the fields of a desk. Each call of the store may
  meet another time and its save may fail: \<open>dk_calls\<close> counts the calls, and the ports say what
  the clock and the disk answer to call n. What leaves the program is appended to \<open>dk_effects\<close>.
\<close>

section \<open>Message ids (submission.go)\<close>

definition UniqueStrings :: "string list \<Rightarrow> string list" where
  "UniqueStrings values =
     fold (\<lambda>value out. let v = trim value in if v = [] \<or> v \<in> set out then out else out @ [v]) values []"

fun remove_first :: "string \<Rightarrow> string list \<Rightarrow> string list" where
  "remove_first target [] = []"
| "remove_first target (v # vs) = (if trim v = target then vs else v # remove_first target vs)"

definition RemoveString :: "string list \<Rightarrow> string \<Rightarrow> string list" where
  "RemoveString values target0 =
     (let target = trim target0 in if target = [] then values else remove_first target values)"

definition StagedImageAttachments :: "SessionStagedImage list \<Rightarrow> SubmissionAttachment list" where
  "StagedImageAttachments images =
     map (\<lambda>image. \<lparr>sa_Kind = ''image'', sa_Name = img_Name image, sa_LocalPath = img_LocalPath image\<rparr>)
       (filter (\<lambda>image. trim (img_LocalPath image) \<noteq> []) images)"

definition StagedImageSourceMessageIDs :: "SessionStagedImage list \<Rightarrow> string list" where
  "StagedImageSourceMessageIDs images = UniqueStrings (map img_SourceMessageID images)"

definition StagedImageRootMessageIDs :: "SessionStagedImage list \<Rightarrow> string list" where
  "StagedImageRootMessageIDs images =
     UniqueStrings (filter (\<lambda>i. i \<noteq> [])
       (map (\<lambda>image. FirstNonEmpty [trim (img_RootMessageID image), trim (img_SourceMessageID image)]) images))"

definition SourceMessageIDs :: "Submission option \<Rightarrow> string list" where
  "SourceMessageIDs submission =
     (case submission of
        None \<Rightarrow> []
      | Some sub \<Rightarrow>
          UniqueStrings (sub_SourceMessageIDs sub @
            (if trim (sub_TriggerMessageID sub) \<noteq> [] then [sub_TriggerMessageID sub] else [])))"

definition HasSourceMessage :: "Submission option \<Rightarrow> string \<Rightarrow> bool" where
  "HasSourceMessage submission messageID \<longleftrightarrow> messageID \<in> set (SourceMessageIDs submission)"

section \<open>The desk of a frontend\<close>

datatype effect =
    AddedReaction string string | RemovedReaction string string
  | Replied string string bool | QueuedNotice Submission
  | StartFailedNotice string string bool bool
  | AskedForSession string string | AskedForThread string string | AskedForTurn string string string
  | AskedForReview string string | AskedToSteer string string string
  | Scheduled string string
  | ItemsCleared string | StreamNoted string string | StreamDeleted string
  | PlanExpired string | TerminalCard string string string string | FinalMessages string string string
  | PlanCard string string string | EmptyFinalCard string string | SkillPending string SubmissionSkill | SkillCleared string
  | LiveCleared string | StreamFlushed string string | SessionNotice Session string
  | AnchorCard string ThreadGoal nat

record Desk =
  dk_app :: ScopedStore
  dk_turns :: TurnTracker
  dk_live :: LiveThreads
  dk_starts :: SubmissionStarts
  dk_retry :: Tracker
  dk_goals :: GoalTracker
  dk_calls :: nat
  dk_effects :: "effect list"

text \<open>
  What the store calls of a desk are answered: the time of a call, the error of its save (of the
  save that promotes an alias key, of the save of the call itself), and the stamp of new ids. A
  reaction that cannot be removed is an error of the chat service.
\<close>

record disk_ports =
  dp_now :: "nat \<Rightarrow> int"
  dp_alias_io :: "nat \<Rightarrow> string option"
  dp_io :: "nat \<Rightarrow> string option"
  dp_stamp :: "nat \<Rightarrow> string"
  dp_remove_fails :: "string \<Rightarrow> string \<Rightarrow> bool"

definition on_app :: "(nat \<Rightarrow> ScopedStore \<Rightarrow> ScopedStore \<times> 'r) \<Rightarrow> Desk \<Rightarrow> Desk \<times> 'r" where
  "on_app f w =
     (case f (dk_calls w) (dk_app w) of (s, r) \<Rightarrow> (w\<lparr>dk_app := s, dk_calls := Suc (dk_calls w)\<rparr>, r))"

definition emit :: "effect \<Rightarrow> Desk \<Rightarrow> Desk" where
  "emit e w = w\<lparr>dk_effects := dk_effects w @ [e]\<rparr>"

abbreviation app_submission :: "string \<Rightarrow> Desk \<Rightarrow> Submission option" where
  "app_submission i w \<equiv> scoped_Submission i (dk_app w)"

abbreviation app_sessions :: "Desk \<Rightarrow> Session list" where
  "app_sessions w \<equiv> scoped_Sessions (dk_app w)"

definition get_session :: "('p) disk_ports_scheme \<Rightarrow> string \<Rightarrow> Desk \<Rightarrow> Desk \<times> Session option" where
  "get_session p key = on_app (\<lambda>n. scoped_Session (dp_now p n) (dp_alias_io p n) key)"

definition save_session ::
  "('p) disk_ports_scheme \<Rightarrow> Session \<Rightarrow> Desk \<Rightarrow> Desk \<times> scoped_error option" where
  "save_session p sess = on_app (\<lambda>n. SaveSession (dp_now p n) (dp_io p n) (Some sess))"

definition update_session ::
  "('p) disk_ports_scheme \<Rightarrow> string \<Rightarrow> (Session \<Rightarrow> Session) \<Rightarrow> Desk
     \<Rightarrow> Desk \<times> (scoped_error + Session option)" where
  "update_session p key mutate =
     on_app (\<lambda>n. scoped_UpdateSession (dp_now p n) (dp_alias_io p n) (dp_io p n) key (Some mutate))"

definition update_submission ::
  "('p) disk_ports_scheme \<Rightarrow> string \<Rightarrow> (Submission \<Rightarrow> Submission) \<Rightarrow> Desk \<Rightarrow> Desk \<times> store_error option" where
  "update_submission p i mutate = on_app (\<lambda>n. scoped_UpdateSubmission (dp_now p n) i mutate)"

definition mark_running ::
  "('p) disk_ports_scheme \<Rightarrow> string \<Rightarrow> string \<Rightarrow> string \<Rightarrow> Desk \<Rightarrow> Desk \<times> store_error option" where
  "mark_running p i threadID turnID = on_app (\<lambda>n. MarkSubmissionRunning (dp_now p n) i threadID turnID)"

definition finalize_submission ::
  "('p) disk_ports_scheme \<Rightarrow> string \<Rightarrow> string \<Rightarrow> Desk \<Rightarrow> Desk \<times> store_error option" where
  "finalize_submission p i status = on_app (\<lambda>n. FinalizeSubmission (dp_now p n) i status)"

definition on_gateway :: "(ScopedStore \<Rightarrow> ScopedStore) \<Rightarrow> Desk \<Rightarrow> Desk" where
  "on_gateway f w = w\<lparr>dk_app := f (dk_app w)\<rparr>"

definition on_turns :: "(TurnTracker \<Rightarrow> TurnTracker) \<Rightarrow> Desk \<Rightarrow> Desk" where
  "on_turns f w = w\<lparr>dk_turns := f (dk_turns w)\<rparr>"

definition on_live :: "(LiveThreads \<Rightarrow> LiveThreads) \<Rightarrow> Desk \<Rightarrow> Desk" where
  "on_live f w = w\<lparr>dk_live := f (dk_live w)\<rparr>"

definition bound_submission :: "string \<Rightarrow> Desk \<Rightarrow> string \<times> Submission option" where
  "bound_submission turnID w = BoundSubmissionForTurn (\<lambda>i. app_submission i w) turnID (dk_turns w)"

section \<open>Reactions (pending\_queue.go)\<close>

abbreviation QueueReactionEmoji :: string where "QueueReactionEmoji \<equiv> ''OneSecond''"
abbreviation TypingReactionEmoji :: string where "TypingReactionEmoji \<equiv> ''THINKING''"
abbreviation DiscardReactionEmoji :: string where "DiscardReactionEmoji \<equiv> ''ThumbsDown''"

definition forEachMessageID :: "(string \<Rightarrow> Desk \<Rightarrow> Desk) \<Rightarrow> string list \<Rightarrow> Desk \<Rightarrow> Desk" where
  "forEachMessageID f messageIDs = fold f (UniqueStrings messageIDs)"

definition markMessagesQueuedReactions :: "string list \<Rightarrow> Desk \<Rightarrow> Desk" where
  "markMessagesQueuedReactions = forEachMessageID (\<lambda>i. emit (AddedReaction i QueueReactionEmoji))"

definition markMessagesTypingReactions :: "string list \<Rightarrow> Desk \<Rightarrow> Desk" where
  "markMessagesTypingReactions = forEachMessageID (\<lambda>i. emit (AddedReaction i TypingReactionEmoji))"

definition clearMessageProcessingReactions :: "('p) disk_ports_scheme \<Rightarrow> string list \<Rightarrow> Desk \<Rightarrow> Desk" where
  "clearMessageProcessingReactions p =
     forEachMessageID (\<lambda>i w.
       let w1 = emit (RemovedReaction i QueueReactionEmoji) w in
       if dp_remove_fails p i QueueReactionEmoji then w1
       else emit (RemovedReaction i TypingReactionEmoji) w1)"

definition markMessagesDiscardedReactions :: "('p) disk_ports_scheme \<Rightarrow> string list \<Rightarrow> Desk \<Rightarrow> Desk" where
  "markMessagesDiscardedReactions p ids w =
     forEachMessageID (\<lambda>i. emit (AddedReaction i DiscardReactionEmoji)) ids
       (clearMessageProcessingReactions p ids w)"

definition MarkSubmissionQueuedReactions :: "Submission option \<Rightarrow> Desk \<Rightarrow> Desk" where
  "MarkSubmissionQueuedReactions sub = markMessagesQueuedReactions (SourceMessageIDs sub)"

definition MarkSubmissionRunningReactions :: "('p) disk_ports_scheme \<Rightarrow> Submission option \<Rightarrow> Desk \<Rightarrow> Desk" where
  "MarkSubmissionRunningReactions p sub w =
     (let ids = SourceMessageIDs sub in
      markMessagesTypingReactions ids (clearMessageProcessingReactions p ids w))"

definition ClearSubmissionProcessingReactions ::
  "('p) disk_ports_scheme \<Rightarrow> Submission option \<Rightarrow> Desk \<Rightarrow> Desk" where
  "ClearSubmissionProcessingReactions p sub = clearMessageProcessingReactions p (SourceMessageIDs sub)"

section \<open>Cleanup of a finished submission (maintenance/cleanup.go)\<close>

text \<open>The requests of its turn that can still be answered keep their message.\<close>

definition surviving :: "string \<Rightarrow> Desk \<Rightarrow> PendingRequest list" where
  "surviving turnID w =
     filter (\<lambda>req. pr_TurnID req = turnID \<and> OutlivesTurn (pr_Backend req) (pr_Kind req) (pr_Status req))
       (scoped_PendingRequests (dk_app w))"

definition CleanupSubmissionRuntimeState :: "Submission option \<Rightarrow> Desk \<Rightarrow> Desk" where
  "CleanupSubmissionRuntimeState submission w0 =
     (case submission of
        None \<Rightarrow> w0
      | Some sub \<Rightarrow>
          let submissionID = trim (sub_ID sub); turnID = trim (sub_TurnID sub);
              threadID = trim (sub_ThreadID sub);
              kept = surviving turnID w0;
              w1 = on_gateway (scoped_DeleteMessageLinks (Some (\<lambda>link.
                     ml_MessageID link \<notin> pr_FeishuMsgID ` set kept \<and>
                     (submissionID \<noteq> [] \<and> trim (ml_SubmissionID link) = submissionID \<or>
                      turnID \<noteq> [] \<and> trim (ml_TurnID link) = turnID)))) w0;
              w2 = (if turnID = [] then w1
                    else on_gateway (scoped_DeletePendingRequests (Some (\<lambda>req.
                      trim (pr_TurnID req) = turnID \<and> pr_ID req \<notin> pr_ID ` set kept))) w1);
              w3 = (if submissionID = [] then w2 else on_gateway (scoped_DeleteSubmission submissionID) w2);
              w4 = (if turnID = [] then w3
                    else emit (ItemsCleared turnID) (on_turns (ClearTurnBinding turnID) w3)) in
          if submissionID \<noteq> [] \<and> threadID \<noteq> []
          then on_turns (ClearPendingTurnBindingForSubmission threadID submissionID) w4 else w4)"

section \<open>Staging and discarding input (pending\_queue.go)\<close>

definition ShouldStageInboundImages :: "InboundMessage option \<Rightarrow> bool" where
  "ShouldStageInboundImages message =
     (case message of
        None \<Rightarrow> False
      | Some msg \<Rightarrow>
          \<not> (im_ExpandedMergeForward msg \<or> trim (im_Text msg) \<noteq> [] \<or> im_Attachments msg = []))"

datatype desk_error = ScopedFailed scoped_error | StoreFailed store_error | External string

text \<open>The test for work in flight fills in the operation of a session of the old format.\<close>

abbreviation looked_at :: "Session \<Rightarrow> Session" where
  "looked_at \<equiv> EnsureActiveOperations"

definition staged_from :: "int \<Rightarrow> InboundMessage \<Rightarrow> SubmissionAttachment \<Rightarrow> SessionStagedImage" where
  "staged_from now msg attachment =
     \<lparr>img_SourceMessageID = im_MessageID msg,
      img_RootMessageID = FirstNonEmpty [trim (im_RootMessageID msg), trim (im_MessageID msg)],
      img_Name = sa_Name attachment, img_LocalPath = sa_LocalPath attachment, img_CreatedAt = now\<rparr>"

definition StageInboundImagesForSession ::
  "('p) disk_ports_scheme \<Rightarrow> string \<Rightarrow> InboundMessage option \<Rightarrow> string
     \<Rightarrow> (InboundMessage \<Rightarrow> string \<Rightarrow> string \<Rightarrow> string + SubmissionAttachment list) \<Rightarrow> Desk \<Rightarrow> Desk \<times> desk_error option" where
  "StageInboundImagesForSession p defaultWorkspaceID message sessionKey resolveAttachments w0 =
     (case message of
        None \<Rightarrow> (w0, None)
      | Some msg \<Rightarrow>
          let (w1, found) = get_session p sessionKey w0;
              sess0 = (case found of
                         Some sess \<Rightarrow> sess
                       | None \<Rightarrow> zero_Session\<lparr>ss_Key := sessionKey, ss_WorkspaceID := defaultWorkspaceID,
                           ss_OwnerUserID := im_UserID msg, ss_ChatID := im_ChatID msg,
                           ss_ChatType := im_ChatType msg, ss_RootMessageID := im_RootMessageID msg,
                           ss_Status := SessionStatusIdle\<rparr>);
              sess1 = (if trim (ss_WorkspaceID sess0) = [] then sess0\<lparr>ss_WorkspaceID := defaultWorkspaceID\<rparr>
                       else sess0) in
          (case resolveAttachments msg (ss_WorkspaceID sess1) sessionKey of
             Inl e \<Rightarrow> (w1, Some (External e))
           | Inr attachments \<Rightarrow>
               let sess2 = sess1\<lparr>ss_StagedImages := ss_StagedImages sess1 @
                             map (staged_from (dp_now p (dk_calls w1)) msg) attachments\<rparr>;
                   sess3 = (if HasInFlightSubmission (Some sess2) \<or> ss_Queue sess2 \<noteq> [] \<or>
                               ss_StagedImages sess2 \<noteq> []
                            then (looked_at sess2)\<lparr>ss_Status := SessionStatusQueued\<rparr> else looked_at sess2);
                   (w2, e) = save_session p sess3 w1 in
               (case e of
                  Some e \<Rightarrow> (w2, Some (ScopedFailed e))
                | None \<Rightarrow> (markMessagesQueuedReactions [im_MessageID msg] w2, None))))"

fun drop_image :: "string \<Rightarrow> SessionStagedImage list \<Rightarrow> SessionStagedImage list" where
  "drop_image messageID [] = []"
| "drop_image messageID (img # imgs) =
     (if trim (img_SourceMessageID img) = messageID then imgs else img # drop_image messageID imgs)"

definition DiscardStagedImageByMessageID :: "Session \<Rightarrow> string \<Rightarrow> Session \<times> bool" where
  "DiscardStagedImageByMessageID sess messageID =
     (if \<exists>img\<in>set (ss_StagedImages sess). trim (img_SourceMessageID img) = messageID
      then (RefreshPendingStatus (sess\<lparr>ss_StagedImages := drop_image messageID (ss_StagedImages sess)\<rparr>), True)
      else (sess, False))"

text \<open>
  The closures set a flag when they discard: a change of a stored session that reports whether it
  applied. Without the session, or when its save fails, nothing is discarded.
\<close>

definition discarding ::
  "('p) disk_ports_scheme \<Rightarrow> string \<Rightarrow> (Session \<Rightarrow> Session \<times> bool) \<Rightarrow> Desk \<Rightarrow> Desk \<times> bool" where
  "discarding p key f w =
     (case get_session p key w of
        (w1, before) \<Rightarrow>
          (case update_session p key (\<lambda>s. fst (f s)) w of
             (w2, Inl e) \<Rightarrow> (w2, False)
           | (w2, Inr _) \<Rightarrow> (w2, case before of None \<Rightarrow> False | Some s \<Rightarrow> snd (f s))))"


definition DiscardStagedImageFromSessionSnapshot ::
  "('p) disk_ports_scheme \<Rightarrow> Session \<Rightarrow> string \<Rightarrow> Desk \<Rightarrow> Desk \<times> bool" where
  "DiscardStagedImageFromSessionSnapshot p snapshot messageID w0 =
     (if trim (ss_Key snapshot) = [] then (w0, False)
      else case discarding p (ss_Key snapshot) (\<lambda>s. DiscardStagedImageByMessageID s messageID) w0 of
        (w1, False) \<Rightarrow> (w1, False)
      | (w1, True) \<Rightarrow> (markMessagesDiscardedReactions p [messageID] w1, True))"

definition without_queued :: "string \<Rightarrow> Session \<Rightarrow> Session \<times> bool" where
  "without_queued submissionID sess =
     (let nextQueue = RemoveString (ss_Queue sess) submissionID in
      if length nextQueue = length (ss_Queue sess) then (sess, False)
      else (RefreshPendingStatus (sess\<lparr>ss_Queue := nextQueue\<rparr>), True))"

definition discarded_submission :: "Submission \<Rightarrow> Submission" where
  "discarded_submission sub = sub\<lparr>sub_Status := SubmissionStatusDiscarded, sub_Finalized := True\<rparr>"

definition DiscardQueuedSubmissionFromSessionSnapshot ::
  "('p) disk_ports_scheme \<Rightarrow> Session \<Rightarrow> string \<Rightarrow> Submission option \<Rightarrow> Desk \<Rightarrow> Desk \<times> bool" where
  "DiscardQueuedSubmissionFromSessionSnapshot p snapshot submissionID sub w0 =
     (if trim (ss_Key snapshot) = [] \<or> trim submissionID = [] then (w0, False)
      else case discarding p (ss_Key snapshot) (without_queued submissionID) w0 of
        (w1, False) \<Rightarrow> (w1, False)
      | (w1, True) \<Rightarrow>
          (case update_submission p submissionID discarded_submission w1 of
             (w2, Some e) \<Rightarrow> (w2, False)
           | (w2, None) \<Rightarrow>
               (CleanupSubmissionRuntimeState sub
                  (markMessagesDiscardedReactions p (SourceMessageIDs sub) w2), True)))"

text \<open>The search stops at the first session that holds the message, in its images or its queue.\<close>

fun discard_queued_from ::
  "('p) disk_ports_scheme \<Rightarrow> Session \<Rightarrow> string \<Rightarrow> string list \<Rightarrow> Desk \<Rightarrow> Desk \<times> bool option" where
  "discard_queued_from p snapshot messageID [] w = (w, None)"
| "discard_queued_from p snapshot messageID (i # ids) w =
     (let sub = app_submission i w in
      if \<not> HasSourceMessage sub messageID then discard_queued_from p snapshot messageID ids w
      else case DiscardQueuedSubmissionFromSessionSnapshot p snapshot i sub w of
        (w', ok) \<Rightarrow> (w', Some ok))"

fun discard_from ::
  "('p) disk_ports_scheme \<Rightarrow> string \<Rightarrow> Session list \<Rightarrow> Desk \<Rightarrow> Desk \<times> bool" where
  "discard_from p messageID [] w = (w, False)"
| "discard_from p messageID (snapshot # rest) w =
     (case DiscardStagedImageFromSessionSnapshot p snapshot messageID w of
        (w1, True) \<Rightarrow> (w1, True)
      | (w1, False) \<Rightarrow>
          (case discard_queued_from p snapshot messageID (ss_Queue snapshot) w1 of
             (w2, Some ok) \<Rightarrow> (w2, ok)
           | (w2, None) \<Rightarrow> discard_from p messageID rest w2))"

definition DiscardPendingInputByMessageID ::
  "('p) disk_ports_scheme \<Rightarrow> string \<Rightarrow> Desk \<Rightarrow> Desk \<times> bool" where
  "DiscardPendingInputByMessageID p messageID0 w =
     (let messageID = trim messageID0 in
      if messageID = [] then (w, False) else discard_from p messageID (app_sessions w) w)"

text \<open>Everything a session waits for; the count is of the images and of the submissions updated.\<close>

fun discard_all_queued ::
  "('p) disk_ports_scheme \<Rightarrow> string list \<Rightarrow> nat \<Rightarrow> Desk \<Rightarrow> Desk \<times> nat" where
  "discard_all_queued p [] n w = (w, n)"
| "discard_all_queued p (i # ids) n w =
     (let sub = app_submission i w;
          w1 = markMessagesDiscardedReactions p (SourceMessageIDs sub) w in
      case update_submission p i discarded_submission w1 of
        (w2, Some e) \<Rightarrow> discard_all_queued p ids n w2
      | (w2, None) \<Rightarrow> discard_all_queued p ids (n + 1) (CleanupSubmissionRuntimeState sub w2))"

definition DiscardSessionPendingInputs ::
  "('p) disk_ports_scheme \<Rightarrow> string \<Rightarrow> Desk \<Rightarrow> Desk \<times> nat" where
  "DiscardSessionPendingInputs p sessionKey w0 =
     (case get_session p sessionKey w0 of
        (w1, None) \<Rightarrow> (w1, 0)
      | (w1, Some sess) \<Rightarrow>
          let w2 = fold (\<lambda>img. markMessagesDiscardedReactions p [img_SourceMessageID img])
                     (ss_StagedImages sess) w1;
              (w3, discarded) = discard_all_queued p (ss_Queue sess) (length (ss_StagedImages sess)) w2;
              sess1 = sess\<lparr>ss_Queue := [], ss_StagedImages := []\<rparr>;
              sess2 = (if HasInFlightSubmission (Some sess1) then looked_at sess1
                       else (looked_at sess1)\<lparr>ss_Status := SessionStatusIdle\<rparr>) in
          (fst (save_session p sess2 w3), discarded))"

section \<open>Pending images and message links (continuation/service.go)\<close>

definition PendingInputSessionKey :: "string \<Rightarrow> InboundMessage option \<Rightarrow> string" where
  "PendingInputSessionKey frontendID message =
     (case message of
        None \<Rightarrow> []
      | Some msg \<Rightarrow>
          ''feishu:'' @ (if trim frontendID \<noteq> [] then ''frontend:'' @ trim frontendID @ '':'' else []) @
          ''chat:'' @ trim (im_ChatID msg) @ '':pending:'' @ trim (im_UserID msg))"

fun staged_images ::
  "('p) disk_ports_scheme \<Rightarrow> string list \<Rightarrow> Desk \<Rightarrow> Desk \<times> SessionStagedImage list" where
  "staged_images p [] w = (w, [])"
| "staged_images p (key # keys) w =
     (case get_session p key w of
        (w1, found) \<Rightarrow>
          (case staged_images p keys w1 of
             (w2, imgs) \<Rightarrow> (w2, (case found of None \<Rightarrow> [] | Some sess \<Rightarrow> ss_StagedImages sess) @ imgs)))"

definition CollectPendingStagedImages ::
  "('p) disk_ports_scheme \<Rightarrow> string \<Rightarrow> string \<Rightarrow> Desk \<Rightarrow> Desk \<times> SessionStagedImage list" where
  "CollectPendingStagedImages p targetSessionKey bucketSessionKey w =
     (case staged_images p (UniqueStrings [bucketSessionKey, targetSessionKey]) w of
        (w', imgs) \<Rightarrow> (w', sort_key (\<lambda>img. (img_CreatedAt img, img_SourceMessageID img)) imgs))"

fun clear_images ::
  "('p) disk_ports_scheme \<Rightarrow> string list \<Rightarrow> Desk \<Rightarrow> Desk \<times> scoped_error option" where
  "clear_images p [] w = (w, None)"
| "clear_images p (key # keys) w =
     (case get_session p key w of
        (w1, None) \<Rightarrow> clear_images p keys w1
      | (w1, Some sess) \<Rightarrow>
          if ss_StagedImages sess = [] then clear_images p keys w1
          else
            let sess1 = sess\<lparr>ss_StagedImages := []\<rparr>;
                sess2 = (if \<not> HasInFlightSubmission (Some sess1) \<and> ss_Queue sess1 = []
                         then (looked_at sess1)\<lparr>ss_Status := SessionStatusIdle\<rparr> else looked_at sess1) in
            (case save_session p sess2 w1 of
               (w2, Some e) \<Rightarrow> (w2, Some e)
             | (w2, None) \<Rightarrow> clear_images p keys w2))"

definition ClearPendingStagedImages ::
  "('p) disk_ports_scheme \<Rightarrow> string \<Rightarrow> string \<Rightarrow> Desk \<Rightarrow> Desk \<times> scoped_error option" where
  "ClearPendingStagedImages p targetSessionKey bucketSessionKey =
     clear_images p (UniqueStrings [bucketSessionKey, targetSessionKey])"

definition zero_MessageLink :: MessageLink where
  "zero_MessageLink = \<lparr>ml_FrontendID = [], ml_Backend = [], ml_MessageID = [], ml_SessionKey = [],
     ml_SubmissionID = [], ml_ThreadID = [], ml_TurnID = []\<rparr>"

definition RecordTurnMessageLink :: "string \<Rightarrow> string \<Rightarrow> string \<Rightarrow> string \<Rightarrow> Desk \<Rightarrow> Desk" where
  "RecordTurnMessageLink messageID sessionKey threadID turnID w =
     (if trim messageID = [] then w
      else on_gateway (SaveMessageLink (Some (zero_MessageLink\<lparr>ml_MessageID := trim messageID,
        ml_SessionKey := trim sessionKey, ml_ThreadID := trim threadID, ml_TurnID := trim turnID\<rparr>))) w)"

definition RecordRootTurnBinding :: "string \<Rightarrow> string \<Rightarrow> string \<Rightarrow> string \<Rightarrow> Desk \<Rightarrow> Desk" where
  "RecordRootTurnBinding rootMessageID sessionKey threadID turnID w =
     (if trim rootMessageID = [] then w
      else on_gateway (SaveMessageLink (Some (zero_MessageLink\<lparr>ml_MessageID := trim rootMessageID,
        ml_SessionKey := trim sessionKey, ml_ThreadID := trim threadID, ml_TurnID := trim turnID\<rparr>))) w)"

definition RecordSubmissionSourceLinks :: "Submission \<Rightarrow> Desk \<Rightarrow> Desk" where
  "RecordSubmissionSourceLinks sub w =
     (let ids = SourceMessageIDs (Some sub);
          record_link = (\<lambda>i. RecordTurnMessageLink i (sub_SessionKey sub) (sub_ThreadID sub) (sub_TurnID sub));
          w1 = (if length (sub_SourceRootMessageIDs sub) > 1 then fold record_link ids w
                else if trim (sub_TriggerMessageID sub) \<noteq> [] then record_link (sub_TriggerMessageID sub) w
                else fold record_link ids w) in
      fold (\<lambda>i. RecordRootTurnBinding i (sub_SessionKey sub) (sub_ThreadID sub) (sub_TurnID sub))
        (sub_SourceRootMessageIDs sub) w1)"

section \<open>The submission of a turn (submission\_status.go)\<close>

definition submission_of :: "Desk \<Rightarrow> SessionActiveOperation option \<Rightarrow> Session \<Rightarrow> (string \<times> Submission) option" where
  "submission_of w operation sess =
     (case operation of
        None \<Rightarrow> None
      | Some op \<Rightarrow>
          if trim (op_SubmissionID op) = [] then None
          else map_option (\<lambda>sub. (ss_Key sess, sub)) (app_submission (op_SubmissionID op) w))"

fun first_some :: "('a \<Rightarrow> 'b option) \<Rightarrow> 'a list \<Rightarrow> 'b option" where
  "first_some f [] = None"
| "first_some f (x # xs) = (case f x of Some y \<Rightarrow> Some y | None \<Rightarrow> first_some f xs)"

definition FindSubmissionByTurn :: "string \<Rightarrow> string \<Rightarrow> Desk \<Rightarrow> (string \<times> Submission) option" where
  "FindSubmissionByTurn threadID turnID w =
     (if trim turnID \<noteq> [] then
        (case bound_submission turnID w of
           (key, Some sub) \<Rightarrow> Some (key, sub)
         | (_, None) \<Rightarrow>
             first_some (\<lambda>sess. submission_of w (FindActiveOperationByTurn (Some sess) turnID) sess) (app_sessions w))
      else if trim threadID = [] then None
      else first_some (\<lambda>sess. submission_of w (FindActiveOperationByThread (Some sess) threadID) sess) (app_sessions w))"

definition UpdateSubmissionByTurn ::
  "('p) disk_ports_scheme \<Rightarrow> string \<Rightarrow> string \<Rightarrow> (Submission \<Rightarrow> Submission) \<Rightarrow> Desk \<Rightarrow> Desk" where
  "UpdateSubmissionByTurn p threadID turnID mutate w =
     (case FindSubmissionByTurn threadID turnID w of
        None \<Rightarrow> w
      | Some (_, sub) \<Rightarrow> fst (update_submission p (sub_ID sub) mutate w))"

definition RecordTurnFailure ::
  "('p) disk_ports_scheme \<Rightarrow> string \<Rightarrow> string \<Rightarrow> Desk \<Rightarrow> Desk \<times> store_error option" where
  "RecordTurnFailure p threadID turnID w =
     (case FindSubmissionByTurn threadID turnID w of
        None \<Rightarrow> (w, None)
      | Some (_, sub) \<Rightarrow>
          update_submission p (sub_ID sub) (\<lambda>s. s\<lparr>sub_Status := SubmissionStatusFailed\<rparr>) w)"

definition wants_notice :: "Submission option \<Rightarrow> bool" where
  "wants_notice submission =
     (case submission of None \<Rightarrow> False | Some sub \<Rightarrow> sub_WaitedInQueue sub \<and> \<not> sub_StartNoticeSent sub)"

definition ClaimStartNotice ::
  "('p) disk_ports_scheme \<Rightarrow> string \<Rightarrow> Desk \<Rightarrow> Desk \<times> bool \<times> store_error option" where
  "ClaimStartNotice p i w =
     (case update_submission p i
             (\<lambda>s. if wants_notice (Some s) then s\<lparr>sub_StartNoticeSent := True\<rparr> else s) w of
        (w', e) \<Rightarrow> (w', wants_notice (app_submission i w), e))"

end
