(* ===== verification/Compaction.thy ===== *)
theory Compaction
  imports Pending_Queue
begin

text \<open>
  The compaction of a thread's context (\<open>internal/application/compaction/service.go\<close>): a session
  without other work is put into the state "compacting", the backend starts a turn of its own,
  which is bound to the session when it is announced, and the end of that turn frees the session.
  A notice to the chat is named by the result it reports.
\<close>

record compaction_ports = disk_ports +
  cp_Gateway :: "(string \<Rightarrow> string option) option"

datatype compaction_error =
    NoActiveThread | WorkRunning | CompactionNotSaved scoped_error | NoGateway | GatewayError string

text \<open>The strings of an item that decide: its type, its status, its state.\<close>

record protocol_item =
  it_type :: string
  it_status :: string
  it_state :: string

definition IsContextCompactionItem :: "protocol_item \<Rightarrow> bool" where
  "IsContextCompactionItem item \<longleftrightarrow>
     map (\<lambda>c. if c = CHR ''-'' then CHR ''_'' else c) (to_lower (trim (it_type item)))
       \<in> {''context_compaction'', ''contextcompaction''}"

definition normalizeWorkingStatus :: "string \<Rightarrow> string" where
  "normalizeWorkingStatus v = filter (\<lambda>c. c \<noteq> CHR ''_'') (to_lower (trim v))"

section \<open>Start\<close>

definition RestoreSession :: "('p) disk_ports_scheme \<Rightarrow> string \<Rightarrow> string \<Rightarrow> string \<Rightarrow> Desk \<Rightarrow> Desk" where
  "RestoreSession p sessionKey threadID previousStatus w =
     (case get_session p sessionKey w of
        (w', None) \<Rightarrow> w'
      | (w', Some sess) \<Rightarrow>
          if trim (ss_ActiveThreadID sess) \<noteq> trim threadID \<or> HasActiveOperations (Some sess) \<or>
             NormalizeSessionStatus (ss_Status sess) \<noteq> SessionStatusCompacting then w'
          else fst (save_session p ((looked_at sess)
            \<lparr>ss_Status := (if trim previousStatus = [] then SessionStatusIdle else trim previousStatus)\<rparr>) w'))"

definition StartThreadCompaction ::
  "compaction_ports \<Rightarrow> string \<Rightarrow> Desk \<Rightarrow> Desk \<times> (compaction_error + Session option)" where
  "StartThreadCompaction p sessionKey w =
     (case get_session p sessionKey w of
        (w1, None) \<Rightarrow> (w1, Inl NoActiveThread)
      | (w1, Some sess) \<Rightarrow>
          if trim (ss_ActiveThreadID sess) = [] then (w1, Inl NoActiveThread)
          else if HasActiveWork (Some sess) then (w1, Inl WorkRunning)
          else
            let threadID = trim (ss_ActiveThreadID sess);
                restore = RestoreSession p sessionKey threadID (trim (ss_Status sess)) in
            (case save_session p ((looked_at sess)\<lparr>ss_Status := SessionStatusCompacting\<rparr>) w1 of
               (w2, Some e) \<Rightarrow> (w2, Inl (CompactionNotSaved e))
             | (w2, None) \<Rightarrow>
                 (case cp_Gateway p of
                    None \<Rightarrow> (restore w2, Inl NoGateway)
                  | Some start \<Rightarrow>
                      (case start threadID of
                         Some e \<Rightarrow> (restore w2, Inl (GatewayError e))
                       | None \<Rightarrow> (case get_session p sessionKey w2 of (w3, s) \<Rightarrow> (w3, Inr s))))))"

section \<open>The turn of a compaction\<close>

text \<open>The operation of a turn that is not a submission's, and one that is.\<close>

definition own_turn :: "Session \<Rightarrow> string \<Rightarrow> bool" where
  "own_turn sess turnID \<longleftrightarrow>
     (case FindActiveOperationByTurn (Some sess) turnID of
        None \<Rightarrow> False | Some op \<Rightarrow> trim (op_SubmissionID op) = [])"

definition submission_turn :: "Session \<Rightarrow> string \<Rightarrow> bool" where
  "submission_turn sess turnID \<longleftrightarrow>
     (case FindActiveOperationByTurn (Some sess) turnID of
        None \<Rightarrow> False | Some op \<Rightarrow> trim (op_SubmissionID op) \<noteq> [])"

definition awaits_compaction :: "string \<Rightarrow> string \<Rightarrow> Session \<Rightarrow> bool" where
  "awaits_compaction threadID turnID sess \<longleftrightarrow>
     \<not> HasInFlightSubmission (Some sess) \<and> trim (ss_ActiveThreadID sess) = threadID \<and>
     (case ForegroundOperation (Some sess) of
        None \<Rightarrow> True | Some op \<Rightarrow> trim (op_TurnID op) \<in> {[], turnID}) \<and>
     NormalizeSessionStatus (ss_Status sess) = SessionStatusCompacting"

fun bind_first ::
  "('p) disk_ports_scheme \<Rightarrow> string \<Rightarrow> string \<Rightarrow> Session list \<Rightarrow> Desk \<Rightarrow> Desk \<times> bool" where
  "bind_first p threadID turnID [] w = (w, False)"
| "bind_first p threadID turnID (sess # ss) w =
     (if own_turn sess turnID then (w, True)
      else if awaits_compaction threadID turnID sess then
        (case save_session p
            ((UpsertActiveOperation (dp_now p (dk_calls w)) sess
                \<lparr>op_Kind = OpKindTurn, op_SubmissionID = [], op_ThreadID = threadID, op_TurnID = turnID,
                 op_StartedAt = 0\<rparr>)\<lparr>ss_Status := SessionStatusCompacting\<rparr>) w of
           (w', e) \<Rightarrow> (w', e = None))
      else bind_first p threadID turnID ss w)"

definition BindStandaloneCompactTurn ::
  "('p) disk_ports_scheme \<Rightarrow> string \<Rightarrow> string \<Rightarrow> Desk \<Rightarrow> Desk \<times> bool" where
  "BindStandaloneCompactTurn p threadID0 turnID0 w =
     (let threadID = trim threadID0; turnID = trim turnID0 in
      if threadID = [] \<or> turnID = [] then (w, False)
      else bind_first p threadID turnID (app_sessions w) w)"

definition NoteStandaloneCompactItemStarted ::
  "('p) disk_ports_scheme \<Rightarrow> string \<Rightarrow> string \<Rightarrow> protocol_item \<Rightarrow> Desk \<Rightarrow> Desk \<times> bool" where
  "NoteStandaloneCompactItemStarted p threadID turnID item w =
     (if \<not> IsContextCompactionItem item then (w, False) else BindStandaloneCompactTurn p threadID turnID w)"

section \<open>The end of a compaction\<close>

definition SendSessionTextNotice :: "Session \<Rightarrow> string \<Rightarrow> Desk \<Rightarrow> Desk" where
  "SendSessionTextNotice sess text_name w = (if trim text_name = [] then w else emit (SessionNotice sess text_name) w)"

text \<open>The results that have a text.\<close>

definition sendStandaloneCompactResult :: "Session \<Rightarrow> string \<Rightarrow> Desk \<Rightarrow> Desk" where
  "sendStandaloneCompactResult sess status w =
     (if trim status \<in> {''completed'', ''interrupted'', ''failed''}
      then SendSessionTextNotice sess (trim status) w else w)"

text \<open>The session without the operation of the turn.\<close>

definition freed :: "string \<Rightarrow> Session \<Rightarrow> Session" where
  "freed turnID sess0 =
     (let sess = fst (RemoveActiveOperation sess0 [] turnID) in
      sess\<lparr>ss_Status := (if ss_Queue sess \<noteq> [] \<or> ss_StagedImages sess \<noteq> [] then SessionStatusQueued
                        else SessionStatusIdle)\<rparr>)"

definition free_session ::
  "('p) disk_ports_scheme \<Rightarrow> string \<Rightarrow> (Session \<Rightarrow> Desk \<Rightarrow> Desk) \<Rightarrow> Session option \<Rightarrow> Desk \<Rightarrow> Desk \<times> bool" where
  "free_session p turnID tell found w =
     (case found of
        None \<Rightarrow> (w, False)
      | Some sess \<Rightarrow>
          (case save_session p (freed turnID sess) w of
             (w', Some _) \<Rightarrow> (w', False)
           | (w', None) \<Rightarrow> (tell (freed turnID sess) w', True)))"

text \<open>The session a compaction ends in, when its turn may be unknown.\<close>

definition compacts :: "string \<Rightarrow> string \<Rightarrow> Session \<Rightarrow> bool" where
  "compacts threadID turnID sess \<longleftrightarrow>
     \<not> submission_turn sess turnID \<and> trim (ss_ActiveThreadID sess) = threadID \<and>
     \<not> (turnID \<noteq> [] \<and> FindActiveOperationByTurn (Some sess) turnID = None \<and> HasActiveOperations (Some sess)) \<and>
     (NormalizeSessionStatus (ss_Status sess) = SessionStatusCompacting \<or>
      FindActiveOperationByThread (Some sess) threadID \<noteq> None)"

definition resolved_turn :: "string \<Rightarrow> string \<Rightarrow> Session \<Rightarrow> string" where
  "resolved_turn threadID turnID sess =
     (if turnID \<noteq> [] then turnID
      else case FindActiveOperationByThread (Some sess) threadID of
        None \<Rightarrow> []
      | Some op \<Rightarrow> if trim (op_SubmissionID op) = [] then trim (op_TurnID op) else [])"

definition end_compaction ::
  "('p) disk_ports_scheme \<Rightarrow> string \<Rightarrow> string \<Rightarrow> (Session \<Rightarrow> Desk \<Rightarrow> Desk) \<Rightarrow> Desk \<Rightarrow> Desk \<times> bool" where
  "end_compaction p threadID0 turnID0 tell w =
     (let threadID = trim threadID0; turnID = trim turnID0;
          found = find (compacts threadID turnID) (app_sessions w) in
      if threadID = [] then (w, False)
      else free_session p (case found of None \<Rightarrow> [] | Some sess \<Rightarrow> resolved_turn threadID turnID sess) tell found w)"

definition CompleteStandaloneCompactTurn ::
  "('p) disk_ports_scheme \<Rightarrow> string \<Rightarrow> string \<Rightarrow> Desk \<Rightarrow> Desk \<times> bool" where
  "CompleteStandaloneCompactTurn p threadID turnID =
     end_compaction p threadID turnID (\<lambda>sess. sendStandaloneCompactResult sess ''completed'')"

definition FailStandaloneCompactTurn ::
  "('p) disk_ports_scheme \<Rightarrow> string \<Rightarrow> string \<Rightarrow> string \<Rightarrow> Desk \<Rightarrow> Desk \<times> bool" where
  "FailStandaloneCompactTurn p threadID turnID message =
     end_compaction p threadID turnID (\<lambda>sess. SendSessionTextNotice sess (''failed:'' @ trim message))"

definition FinishStandaloneCompactTurn ::
  "('p) disk_ports_scheme \<Rightarrow> string \<Rightarrow> string \<Rightarrow> string \<Rightarrow> Desk \<Rightarrow> Desk \<times> bool" where
  "FinishStandaloneCompactTurn p threadID0 turnID0 status w =
     (let threadID = trim threadID0; turnID = trim turnID0 in
      if threadID = [] \<or> turnID = [] then (w, False)
      else free_session p turnID (\<lambda>sess. sendStandaloneCompactResult sess status)
        (find (\<lambda>sess. \<not> submission_turn sess turnID \<and> trim (ss_ActiveThreadID sess) = threadID \<and>
                      FindActiveOperationByTurn (Some sess) turnID \<noteq> None) (app_sessions w)) w)"

definition CompleteStandaloneCompactItem ::
  "('p) disk_ports_scheme \<Rightarrow> string \<Rightarrow> string \<Rightarrow> protocol_item \<Rightarrow> Desk \<Rightarrow> Desk \<times> bool" where
  "CompleteStandaloneCompactItem p threadID turnID item w =
     (let status = normalizeWorkingStatus (FirstNonEmpty [it_status item, it_state item]) in
      if \<not> IsContextCompactionItem item then (w, False)
      else if status \<in> {[], ''completed''} then CompleteStandaloneCompactTurn p threadID turnID w
      else if status \<in> {''interrupted'', ''cancelled'', ''canceled''}
      then FinishStandaloneCompactTurn p threadID turnID ''interrupted'' w
      else (w, False))"

end
