(* ===== verification/Dispatch.thy ===== *)
theory Dispatch
  imports Scoped_Store "HOL-Library.Char_ord" "HOL-Library.List_Lexorder"
begin

text \<open>
  Which session starts its next submission: the scheduling of
  \<open>internal/application/submission/queue.go\<close>. The sessions of one group chat share one execution
  surface: one of them runs at a time, the oldest queued submission first. Every other session
  has its own queue.

  \<open>blocking\<close> is the answer of the automatic retry for a session key; without a retry engine it is
  never true. Go compares strings byte by byte, as the order of the library does here.
\<close>

definition sessionGroupKeyParts :: "string \<Rightarrow> string \<times> string \<times> bool" where
  "sessionGroupKeyParts sessionKey =
     (case ParseSessionKey sessionKey of (frontendID, chatType, chatID, r, u) \<Rightarrow>
        if trim chatID = [] then ([], [], False)
        else if chatType \<noteq> [] \<and> chatType \<noteq> ''group'' then ([], [], False)
        else (trim frontendID, trim chatID, True))"

definition serialGroupExecutionKey :: "Session option \<Rightarrow> string" where
  "serialGroupExecutionKey session =
     (case session of
        None \<Rightarrow> []
      | Some sess \<Rightarrow>
          if \<not> equal_fold (trim (ss_ChatType sess)) ''group'' then []
          else case sessionGroupKeyParts (ss_Key sess) of (frontendID, keyChatID, ok) \<Rightarrow>
            if \<not> ok \<and> trim (ss_BindingID sess) = [] then []
            else
              let chatID = FirstNonEmpty [keyChatID, trim (ss_ChatID sess)] in
              if chatID = [] then []
              else if ok \<and> frontendID = [] then ''group:'' @ chatID
              else if \<not> ok then ''binding:'' @ trim (ss_BindingID sess)
              else ''frontend:'' @ frontendID @ '':group:'' @ chatID)"

definition queuedHeadSubmission :: "ScopedStore \<Rightarrow> Session option \<Rightarrow> Submission option" where
  "queuedHeadSubmission s session =
     (case session of
        None \<Rightarrow> None
      | Some sess \<Rightarrow>
          (case ss_Queue sess of
             [] \<Rightarrow> None
           | q # qs \<Rightarrow>
               let i = trim q in
               if i = [] then None
               else case scoped_Submission i s of
                 Some sub \<Rightarrow> Some sub
               | None \<Rightarrow> Some (zero_Submission\<lparr>sub_ID := i, sub_SessionKey := trim (ss_Key sess)\<rparr>)))"

definition submissionBefore :: "Submission option \<Rightarrow> Submission option \<Rightarrow> bool" where
  "submissionBefore a b =
     (case (a, b) of
        (_, None) \<Rightarrow> a \<noteq> None
      | (None, _) \<Rightarrow> False
      | (Some x, Some y) \<Rightarrow>
          if (sub_CreatedAt x \<noteq> 0 \<or> sub_CreatedAt y \<noteq> 0) \<and> sub_CreatedAt x \<noteq> sub_CreatedAt y
          then sub_CreatedAt x < sub_CreatedAt y
          else trim (sub_ID x) < trim (sub_ID y))"

definition hasAutoRetryWorkAhead :: "(string \<Rightarrow> bool) \<Rightarrow> ScopedStore \<Rightarrow> Session option \<Rightarrow> bool" where
  "hasAutoRetryWorkAhead blocking s session =
     (case session of
        None \<Rightarrow> False
      | Some sess \<Rightarrow>
          let groupExecutionKey = serialGroupExecutionKey session in
          if groupExecutionKey = [] then blocking (trim (ss_Key sess))
          else (\<exists>candidate\<in>set (scoped_Sessions s).
                  serialGroupExecutionKey (Some candidate) = groupExecutionKey \<and>
                  blocking (trim (ss_Key candidate))) \<or> blocking (trim (ss_Key sess)))"

text \<open>One candidate of the loop of hasSerialBindingWorkAhead.\<close>

definition ahead_of :: "ScopedStore \<Rightarrow> Session \<Rightarrow> Session \<Rightarrow> bool" where
  "ahead_of s candidate sess =
     (HasInFlightSubmission (Some candidate) \<or>
      (let candidateHead = queuedHeadSubmission s (Some candidate);
           currentHead = queuedHeadSubmission s (Some sess) in
       candidateHead \<noteq> None \<and> (currentHead = None \<or> submissionBefore candidateHead currentHead)))"

definition hasSerialBindingWorkAhead :: "ScopedStore \<Rightarrow> Session \<Rightarrow> bool" where
  "hasSerialBindingWorkAhead s sess =
     (let groupExecutionKey = serialGroupExecutionKey (Some sess) in
      groupExecutionKey \<noteq> [] \<and>
      (\<exists>candidate\<in>set (scoped_Sessions s).
         trim (ss_Key candidate) \<noteq> trim (ss_Key sess) \<and>
         serialGroupExecutionKey (Some candidate) = groupExecutionKey \<and> ahead_of s candidate sess))"

text \<open>The loop of nextQueuedSerialSessionKey; it stops at a session with work in flight.\<close>

fun next_serial ::
  "ScopedStore \<Rightarrow> string \<Rightarrow> Session list \<Rightarrow> string \<Rightarrow> Submission option \<Rightarrow> string" where
  "next_serial s g [] bestKey bestSub = bestKey"
| "next_serial s g (sess # rest) bestKey bestSub =
     (if serialGroupExecutionKey (Some sess) \<noteq> g then next_serial s g rest bestKey bestSub
      else if HasInFlightSubmission (Some sess) then []
      else
        let head = queuedHeadSubmission s (Some sess) in
        if head = None then next_serial s g rest bestKey bestSub
        else if bestSub = None \<or> submissionBefore head bestSub
        then next_serial s g rest (trim (ss_Key sess)) head
        else next_serial s g rest bestKey bestSub)"

definition nextQueuedSerialSessionKey :: "ScopedStore \<Rightarrow> string \<Rightarrow> string" where
  "nextQueuedSerialSessionKey s groupExecutionKey0 =
     (let groupExecutionKey = trim groupExecutionKey0 in
      if groupExecutionKey = [] then []
      else next_serial s groupExecutionKey (scoped_Sessions s) [] None)"

definition NextQueuedSessionKey ::
  "int \<Rightarrow> string option \<Rightarrow> (string \<Rightarrow> bool) \<Rightarrow> string \<Rightarrow> ScopedStore \<Rightarrow> ScopedStore \<times> string" where
  "NextQueuedSessionKey now io blocking sessionKey s =
     (case scoped_Session now io sessionKey s of
        (s', None) \<Rightarrow> (s', [])
      | (s', Some sess) \<Rightarrow>
          if hasAutoRetryWorkAhead blocking s' (Some sess) then (s', [])
          else
            let groupExecutionKey = serialGroupExecutionKey (Some sess) in
            if groupExecutionKey \<noteq> [] then (s', nextQueuedSerialSessionKey s' groupExecutionKey)
            else if ShouldStartNextSubmission (Some sess) then (s', trim (ss_Key sess))
            else (s', []))"

section \<open>The order of submissions\<close>

text \<open>
  Submissions are ordered by creation time, then by id: two creation times that differ are not
  both zero, so the guard of the code changes nothing.
\<close>

definition age :: "Submission \<Rightarrow> int \<times> string" where
  "age sub = (sub_CreatedAt sub, trim (sub_ID sub))"

definition older :: "int \<times> string \<Rightarrow> int \<times> string \<Rightarrow> bool" where
  "older a b \<longleftrightarrow> fst a < fst b \<or> fst a = fst b \<and> snd a < snd b"

lemma submissionBefore_older: "submissionBefore (Some x) (Some y) \<longleftrightarrow> older (age x) (age y)"
  by (auto simp: submissionBefore_def older_def age_def)

lemma older_irrefl: "\<not> older a a"
  by (simp add: older_def)

lemma older_trans: "older a b \<Longrightarrow> older b c \<Longrightarrow> older a c"
  by (auto simp: older_def)

lemma older_total: "a \<noteq> b \<Longrightarrow> older a b \<or> older b a"
  by (cases a; cases b) (auto simp: older_def)

lemma not_older_trans: "\<not> older b a \<Longrightarrow> \<not> older c b \<Longrightarrow> \<not> older c a"
  using older_total older_trans by metis

section \<open>What the scheduler picks\<close>

abbreviation in_group :: "string \<Rightarrow> Session \<Rightarrow> bool" where
  "in_group g sess \<equiv> serialGroupExecutionKey (Some sess) = g"

abbreviation head_of :: "ScopedStore \<Rightarrow> Session \<Rightarrow> Submission option" where
  "head_of s sess \<equiv> queuedHeadSubmission s (Some sess)"

lemma next_serial_in_flight:
  "\<exists>sess\<in>set ss. in_group g sess \<and> HasInFlightSubmission (Some sess) \<Longrightarrow> next_serial s g ss k b = []"
  by (induction ss arbitrary: k b) (auto simp: Let_def)

text \<open>Among idle sessions the oldest head wins; the first one found keeps a tie.\<close>

definition oldest_in :: "ScopedStore \<Rightarrow> string \<Rightarrow> Session list \<Rightarrow> Submission \<Rightarrow> bool" where
  "oldest_in s g ss x \<longleftrightarrow>
     (\<forall>sess\<in>set ss. \<forall>y. in_group g sess \<longrightarrow> head_of s sess = Some y \<longrightarrow> \<not> older (age y) (age x))"

lemma oldest_in_Cons:
  "oldest_in s g (sess # ss) x \<longleftrightarrow>
     (\<forall>y. in_group g sess \<longrightarrow> head_of s sess = Some y \<longrightarrow> \<not> older (age y) (age x)) \<and> oldest_in s g ss x"
  by (auto simp: oldest_in_def)

lemma next_serial_idle:
  assumes "\<forall>sess\<in>set ss. in_group g sess \<longrightarrow> \<not> HasInFlightSubmission (Some sess)"
  shows "(next_serial s g ss k b = k \<and>
          (case b of None \<Rightarrow> \<forall>sess\<in>set ss. in_group g sess \<longrightarrow> head_of s sess = None
           | Some x \<Rightarrow> oldest_in s g ss x)) \<or>
         (\<exists>sess\<in>set ss. \<exists>x. in_group g sess \<and> head_of s sess = Some x \<and>
            next_serial s g ss k b = trim (ss_Key sess) \<and> oldest_in s g ss x \<and>
            (case b of None \<Rightarrow> True | Some y \<Rightarrow> older (age x) (age y)))"
  using assms
proof (induction ss arbitrary: k b)
  case Nil
  then show ?case by (simp add: oldest_in_def split: option.split)
next
  case (Cons sess ss)
  have idle: "\<forall>x\<in>set ss. in_group g x \<longrightarrow> \<not> HasInFlightSubmission (Some x)"
    using Cons.prems by simp
  note IH = Cons.IH [OF idle]
  show ?case
  proof (cases "in_group g sess \<and> head_of s sess \<noteq> None")
    case False
    then have e: "next_serial s g (sess # ss) k b = next_serial s g ss k b"
      using Cons.prems by (auto simp: Let_def)
    have o: "oldest_in s g (sess # ss) x = oldest_in s g ss x" for x
      using False by (auto simp: oldest_in_Cons)
    show ?thesis using IH [of k b] False unfolding e o by (auto split: option.splits)
  next
    case True
    then obtain h where h: "in_group g sess" "head_of s sess = Some h" by blast
    have fl: "\<not> HasInFlightSubmission (Some sess)" using Cons.prems h by simp
    have o: "oldest_in s g (sess # ss) x \<longleftrightarrow> \<not> older (age h) (age x) \<and> oldest_in s g ss x" for x
      using h by (simp add: oldest_in_Cons)
    show ?thesis
    proof (cases "b = None \<or> submissionBefore (Some h) b")
      case True
      then have e: "next_serial s g (sess # ss) k b = next_serial s g ss (trim (ss_Key sess)) (Some h)"
        using h fl by (simp add: Let_def)
      have hb: "case b of None \<Rightarrow> True | Some y \<Rightarrow> older (age h) (age y)"
        using True by (auto simp: submissionBefore_older split: option.split)
      from IH [of "trim (ss_Key sess)" "Some h"] show ?thesis
      proof (elim disjE conjE bexE exE)
        assume "next_serial s g ss (trim (ss_Key sess)) (Some h) = trim (ss_Key sess)"
          "case Some h of None \<Rightarrow> \<forall>sess\<in>set ss. in_group g sess \<longrightarrow> head_of s sess = None
             | Some x \<Rightarrow> oldest_in s g ss x"
        then show ?thesis using e h hb by (intro disjI2 bexI [of _ sess] exI [of _ h]) (auto simp: o older_irrefl)
      next
        fix sess' x
        assume x: "sess' \<in> set ss" "in_group g sess'" "head_of s sess' = Some x"
          "next_serial s g ss (trim (ss_Key sess)) (Some h) = trim (ss_Key sess')" "oldest_in s g ss x"
          "case Some h of None \<Rightarrow> True | Some y \<Rightarrow> older (age x) (age y)"
        then have "older (age x) (age h)" by simp
        then have "\<not> older (age h) (age x)" "case b of None \<Rightarrow> True | Some y \<Rightarrow> older (age x) (age y)"
          using hb older_irrefl older_trans by (blast, auto split: option.splits intro: older_trans)
        with x e show ?thesis by (intro disjI2 bexI [of _ sess'] exI [of _ x]) (auto simp: o)
      qed
    next
      case False
      then obtain y where y: "b = Some y" "\<not> older (age h) (age y)"
        by (auto simp: submissionBefore_older)
      have nb: "\<not> submissionBefore (Some h) (Some y)" using y(2) by (simp add: submissionBefore_older)
      have e: "next_serial s g (sess # ss) k b = next_serial s g ss k b"
        using h fl nb y(1) by (simp add: Let_def)
      from IH [of k b] show ?thesis
      proof (elim disjE conjE bexE exE)
        assume "next_serial s g ss k b = k"
          "case b of None \<Rightarrow> \<forall>sess\<in>set ss. in_group g sess \<longrightarrow> head_of s sess = None
             | Some x \<Rightarrow> oldest_in s g ss x"
        then show ?thesis using e y by (simp add: o)
      next
        fix sess' x
        assume x: "sess' \<in> set ss" "in_group g sess'" "head_of s sess' = Some x"
          "next_serial s g ss k b = trim (ss_Key sess')" "oldest_in s g ss x"
          "case b of None \<Rightarrow> True | Some y \<Rightarrow> older (age x) (age y)"
        then have "\<not> older (age h) (age x)" using y older_trans [of "age h" "age x" "age y"] by auto
        with x e show ?thesis by (intro disjI2 bexI [of _ sess'] exI [of _ x]) (auto simp: o)
      qed
    qed
  qed
qed

section \<open>The scheduler and the start agree\<close>

text \<open>What hasSerialBindingWorkAhead says of an idle group.\<close>

lemma not_ahead:
  assumes "in_group g sess" "sess \<in> set (scoped_Sessions s)" "head_of s sess = Some x"
    "oldest_in s g (scoped_Sessions s) x"
    "\<And>c. c \<in> set (scoped_Sessions s) \<Longrightarrow> in_group g c \<Longrightarrow> \<not> HasInFlightSubmission (Some c)"
  shows "\<not> hasSerialBindingWorkAhead s sess"
proof
  assume "hasSerialBindingWorkAhead s sess"
  then obtain c where c: "c \<in> set (scoped_Sessions s)" "in_group g c" "ahead_of s c sess"
    using assms(1) by (auto simp: hasSerialBindingWorkAhead_def Let_def)
  then obtain y where "head_of s c = Some y" "older (age y) (age x)"
    using assms(3) assms(5) [OF c(1,2)] by (auto simp: ahead_of_def Let_def submissionBefore_older)
  with c assms(4) show False by (auto simp: oldest_in_def)
qed

lemma next_is_loop:
  "trim g = g \<Longrightarrow> g \<noteq> [] \<Longrightarrow>
   nextQueuedSerialSessionKey s g = next_serial s g (scoped_Sessions s) [] None"
  by (simp add: nextQueuedSerialSessionKey_def)

lemma named_session_is_free:
  assumes "trim g = g" "g \<noteq> []" and ne: "nextQueuedSerialSessionKey s g \<noteq> []"
  shows "\<exists>sess\<in>set (scoped_Sessions s). in_group g sess \<and> trim (ss_Key sess) = nextQueuedSerialSessionKey s g \<and>
    \<not> HasInFlightSubmission (Some sess) \<and> ss_Queue sess \<noteq> [] \<and> \<not> hasSerialBindingWorkAhead s sess"
proof -
  let ?ss = "scoped_Sessions s"
  note nxt = next_is_loop [OF assms(1,2), of s]
  have idle: "\<forall>c\<in>set ?ss. in_group g c \<longrightarrow> \<not> HasInFlightSubmission (Some c)"
    using ne next_serial_in_flight [of ?ss g s "[]" None] unfolding nxt by blast
  from next_serial_idle [OF idle, of s "[]" None] ne
  obtain sess x where x: "sess \<in> set ?ss" "in_group g sess" "head_of s sess = Some x"
    "trim (ss_Key sess) = next_serial s g ?ss [] None" "oldest_in s g ?ss x"
    unfolding nxt by auto
  then have "\<not> hasSerialBindingWorkAhead s sess" using idle by (intro not_ahead) auto
  moreover have "ss_Queue sess \<noteq> []" using x(3) by (auto simp: queuedHeadSubmission_def)
  ultimately show ?thesis using x idle nxt by (intro bexI [of _ sess]) auto
qed

lemma idle_group_has_next:
  assumes "trim g = g" "g \<noteq> []" "\<forall>c\<in>set (scoped_Sessions s). trim (ss_Key c) \<noteq> []"
    and "\<exists>sess\<in>set (scoped_Sessions s). in_group g sess \<and> head_of s sess \<noteq> None"
    and "\<forall>c\<in>set (scoped_Sessions s). in_group g c \<longrightarrow> \<not> HasInFlightSubmission (Some c)"
  shows "nextQueuedSerialSessionKey s g \<noteq> []"
  using next_serial_idle [of "scoped_Sessions s" g s "[]" None] assms(3-) unfolding next_is_loop [OF assms(1,2)]
  by auto

lemma older_head_is_ahead:
  assumes "in_group g a" "in_group g b" "g \<noteq> []" "a \<in> set (scoped_Sessions s)"
    "trim (ss_Key a) \<noteq> trim (ss_Key b)" "head_of s a = Some x" "head_of s b = Some y" "older (age x) (age y)"
  shows "hasSerialBindingWorkAhead s b"
  using assms by (auto simp: hasSerialBindingWorkAhead_def ahead_of_def Let_def submissionBefore_older)

lemma one_runs_first:
  assumes "g \<noteq> []" "a \<in> set (scoped_Sessions s)" "b \<in> set (scoped_Sessions s)" "in_group g a" "in_group g b"
    "trim (ss_Key a) \<noteq> trim (ss_Key b)" "head_of s a = Some x" "head_of s b = Some y" "age x \<noteq> age y"
  shows "hasSerialBindingWorkAhead s a \<or> hasSerialBindingWorkAhead s b"
  using older_total [OF assms(9)] older_head_is_ahead [OF assms(4,5,1,2,6,7,8)]
    older_head_is_ahead [OF assms(5,4,1,3) assms(6) [symmetric] assms(8,7)] by blast

text \<open>
  C25. In a group chat the scheduler and the start agree. The session the scheduler names is idle,
  has work, and is refused by no other session's work. A group with queued work and nothing in
  flight always has such a session, so its queue does not stall. And of two sessions with
  different heads at most one is not refused: the group runs one submission at a time, the
  oldest first.
\<close>
theorem group_scheduling:
  assumes "trim g = g" "g \<noteq> []" "\<forall>c\<in>set (scoped_Sessions s). trim (ss_Key c) \<noteq> []"
  shows "(nextQueuedSerialSessionKey s g \<noteq> [] \<longrightarrow>
      (\<exists>sess\<in>set (scoped_Sessions s). in_group g sess \<and> trim (ss_Key sess) = nextQueuedSerialSessionKey s g \<and>
         \<not> HasInFlightSubmission (Some sess) \<and> ss_Queue sess \<noteq> [] \<and> \<not> hasSerialBindingWorkAhead s sess)) \<and>
    ((\<exists>sess\<in>set (scoped_Sessions s). in_group g sess \<and> head_of s sess \<noteq> None) \<and>
      (\<forall>c\<in>set (scoped_Sessions s). in_group g c \<longrightarrow> \<not> HasInFlightSubmission (Some c)) \<longrightarrow>
      nextQueuedSerialSessionKey s g \<noteq> []) \<and>
    (\<forall>a\<in>set (scoped_Sessions s). \<forall>b\<in>set (scoped_Sessions s). \<forall>x y.
      in_group g a \<and> in_group g b \<and> trim (ss_Key a) \<noteq> trim (ss_Key b) \<and>
      head_of s a = Some x \<and> head_of s b = Some y \<and> age x \<noteq> age y \<longrightarrow>
      hasSerialBindingWorkAhead s a \<or> hasSerialBindingWorkAhead s b)"
  using named_session_is_free [OF assms(1,2)] idle_group_has_next [OF assms] one_runs_first [OF assms(2)]
  by blast

text \<open>Two threads of a group chat, each with one queued submission; the second was sent first.\<close>

definition demo_thread :: "string \<Rightarrow> string \<Rightarrow> Session" where
  "demo_thread key sub =
     zero_Session\<lparr>ss_Key := key, ss_ChatType := ''group'', ss_ChatID := ''c'', ss_Queue := [sub]\<rparr>"

definition demo_group :: ScopedStore where
  "demo_group = \<lparr>sc_store = Some (empty_Store\<lparr>st_runtime := empty_runtimeState
     \<lparr>rt_Sessions :=
        [(''feishu:frontend:b:group:c:root:m1'', demo_thread ''feishu:frontend:b:group:c:root:m1'' ''s1''),
         (''feishu:frontend:b:group:c:root:m2'', demo_thread ''feishu:frontend:b:group:c:root:m2'' ''s2'')],
      rt_Submissions :=
        [(''s1'', zero_Submission\<lparr>sub_ID := ''s1'', sub_CreatedAt := 20\<rparr>),
         (''s2'', zero_Submission\<lparr>sub_ID := ''s2'', sub_CreatedAt := 10\<rparr>)]\<rparr>\<rparr>),
     sc_frontendID = ''b'', sc_backend = ''codex''\<rparr>"

definition demo_first :: Session where
  "demo_first = cloneSession (demo_thread ''feishu:frontend:b:group:c:root:m1'' ''s1'')"

definition demo_second :: Session where
  "demo_second = cloneSession (demo_thread ''feishu:frontend:b:group:c:root:m2'' ''s2'')"

lemma demo_owned:
  "ownsSessionKey demo_group (ss_Key demo_first)" "ownsSessionKey demo_group (ss_Key demo_second)"
  by code_simp+

lemma demo_group_sessions: "scoped_Sessions demo_group = [demo_first, demo_second]"
proof -
  obtain st where st: "sc_store demo_group = Some st" "AllSessions st = [demo_first, demo_second]"
    by (simp add: demo_group_def AllSessions_def demo_first_def demo_second_def)
  show ?thesis by (simp add: scoped_Sessions_def of_store_def st demo_owned)
qed

lemma demo_group_facts:
  "in_group ''frontend:b:group:c'' demo_first" "in_group ''frontend:b:group:c'' demo_second"
  "\<not> HasInFlightSubmission (Some demo_first)" "\<not> HasInFlightSubmission (Some demo_second)"
  "trim (ss_Key demo_second) = ''feishu:frontend:b:group:c:root:m2''" "trim (ss_Key demo_first) \<noteq> []"
  "submissionBefore (head_of demo_group demo_second) (head_of demo_group demo_first)"
  "head_of demo_group demo_first \<noteq> None" "head_of demo_group demo_second \<noteq> None"
  by code_simp+

lemma demo_group_next:
  "nextQueuedSerialSessionKey demo_group ''frontend:b:group:c'' = ''feishu:frontend:b:group:c:root:m2''"
  using demo_group_facts
  by (auto simp: nextQueuedSerialSessionKey_def demo_group_sessions trim_literal Let_def)

lemma demo_group_keys: "\<forall>c\<in>set (scoped_Sessions demo_group). trim (ss_Key c) \<noteq> []"
  using demo_group_facts by (simp add: demo_group_sessions)

theorem group_scheduling_witness:
  "\<exists>sess\<in>set (scoped_Sessions demo_group). in_group ''frontend:b:group:c'' sess \<and>
     trim (ss_Key sess) = ''feishu:frontend:b:group:c:root:m2'' \<and>
     ss_Queue sess \<noteq> [] \<and> \<not> hasSerialBindingWorkAhead demo_group sess"
proof -
  have "trim ''frontend:b:group:c'' = ''frontend:b:group:c''" by (simp add: trim_literal)
  from group_scheduling [OF this _ demo_group_keys] show ?thesis
    unfolding demo_group_next by auto
qed

end
