(* ===== verification/Store_Work.thy ===== *)
theory Store_Work
  imports Store_Sessions
begin

text \<open>
  The work the store holds for a session: its queue, the submissions and their ids, the
  notifications of a frontend.
\<close>

section \<open>The queue of a session\<close>

definition session_queue_of :: "string \<Rightarrow> Store \<Rightarrow> string list" where
  "session_queue_of key s =
     (case map_of (rt_Sessions (st_runtime s)) key of None \<Rightarrow> [] | Some sess \<Rightarrow> ss_Queue sess)"

lemma queue_of_save [simp]: "session_queue_of k (fst (saveLocked io s)) = session_queue_of k s"
  by (simp add: session_queue_of_def)

lemma queue_of_sync [simp]:
  "session_queue_of k (syncPersistentSessionLocked x s) = session_queue_of k s"
  by (simp add: session_queue_of_def syncPersistentSessionLocked_def)

lemma queue_of_put [simp]:
  "session_queue_of k (put_session j x s) = (if k = j then ss_Queue x else session_queue_of k s)"
  by (simp add: session_queue_of_def put_session_def)

lemma queue_of_ensure:
  "session_queue_of k (fst (ensureSessionLocked now s j)) = session_queue_of k s"
  "ss_Queue (snd (ensureSessionLocked now s j)) = session_queue_of j s"
proof -
  have z: "ss_Queue zero_Session = []" by (simp add: zero_Session_def)
  show "session_queue_of k (fst (ensureSessionLocked now s j)) = session_queue_of k s"
    by (auto simp: ensureSessionLocked_def Let_def z session_queue_of_def [of j s] split: option.split)
  show "ss_Queue (snd (ensureSessionLocked now s j)) = session_queue_of j s"
    by (auto simp: ensureSessionLocked_def Let_def z session_queue_of_def split: option.split)
qed

text \<open>In memory a queue follows the calls whether or not the saves succeed.\<close>

lemma QueueSubmission_queue:
  "session_queue_of k (fst (QueueSubmission now io s j i)) =
     (if k \<noteq> j \<or> i \<in> set (session_queue_of j s) then session_queue_of k s
      else session_queue_of k s @ [i])"
  using queue_of_ensure(1) [of k now s j] queue_of_ensure(2) [of now s j]
  by (auto simp: QueueSubmission_def Let_def case_prod_beta Enqueue_def)

lemma DequeueSubmission_queue:
  "session_queue_of k (fst (DequeueSubmission now io s j)) =
     (if k = j then tl (session_queue_of j s) else session_queue_of k s)"
  "session_queue_of j s = x # xs \<Longrightarrow> fst (snd (DequeueSubmission now io s j)) = x"
proof -
  obtain s1 x0 where e: "ensureSessionLocked now s j = (s1, x0)" by fastforce
  have q: "session_queue_of k s1 = session_queue_of k s" "ss_Queue x0 = session_queue_of j s" for k
    using queue_of_ensure(1) [of k now s j] queue_of_ensure(2) [of now s j] by (simp_all add: e)
  show "session_queue_of k (fst (DequeueSubmission now io s j)) =
     (if k = j then tl (session_queue_of j s) else session_queue_of k s)"
    using q by (cases "session_queue_of j s") (auto simp: DequeueSubmission_def e Let_def case_prod_beta Dequeue_def)
  show "session_queue_of j s = x # xs \<Longrightarrow> fst (snd (DequeueSubmission now io s j)) = x"
    using q(2) by (simp add: DequeueSubmission_def e Let_def case_prod_beta Dequeue_def)
qed

definition take_one :: "int \<Rightarrow> string option \<Rightarrow> string \<Rightarrow> Store \<Rightarrow> Store \<times> string" where
  "take_one now io key s = (let (s', i, e) = DequeueSubmission now io s key in (s', i))"

interpretation store_queue: dedup_queue
  "session_queue_of k" "\<lambda>s. True" "\<lambda>i s. fst (QueueSubmission now io s k i)" "take_one now io k"
  for k now io
  by unfold_locales
     (simp_all add: QueueSubmission_queue DequeueSubmission_queue take_one_def case_prod_beta Let_def)

text \<open>Arrivals at several sessions, and what taking from one of them returns.\<close>

fun take_queued :: "int \<Rightarrow> string option \<Rightarrow> nat \<Rightarrow> string \<Rightarrow> Store \<Rightarrow> string list" where
  "take_queued now io 0 key s = []"
| "take_queued now io (Suc n) key s =
     (let (s', i) = take_one now io key s in i # take_queued now io n key s')"

lemma take_queued_drain: "take_queued now io n k s = store_queue.drain now io k n s"
  by (induction n arbitrary: s) (simp_all add: case_prod_beta)

lemma arrivals_queue:
  "session_queue_of k s = [] \<Longrightarrow>
   session_queue_of k (fold (\<lambda>(key, i) s. fst (QueueSubmission now io s key i)) events s) =
     first_arrivals (map snd (filter (\<lambda>(key, i). key = k) events))"
  by (induction events rule: rev_induct)
     (auto simp: QueueSubmission_queue first_arrivals_snoc image_iff)

text \<open>
  C18. Submissions queued at any sessions in any interleaving leave each session's queue in the
  order in which they first arrived there, each once, and whether or not the saves succeeded.
\<close>

theorem store_queue_first_in_first_out:
  assumes "session_queue_of k s = []"
  shows "take_queued now io (length (first_arrivals (map snd (filter (\<lambda>(key, i). key = k) events)))) k
      (fold (\<lambda>(key, i) s. fst (QueueSubmission now io s key i)) events s) =
    first_arrivals (map snd (filter (\<lambda>(key, i). key = k) events))"
  using store_queue.drain_contents [where k = k and now = now and io = io and s = "fold (\<lambda>(key, i) s. fst (QueueSubmission now io s key i)) events s"]
    arrivals_queue [OF assms] by (simp add: take_queued_drain)

theorem store_queue_first_in_first_out_witness:
  "take_queued 5 None 2 ''k'' (fold (\<lambda>(key, i) s. fst (QueueSubmission 5 None s key i))
     [(''k'', ''b''), (''j'', ''x''), (''k'', ''a''), (''k'', ''b'')] empty_Store) = [''b'', ''a'']"
proof -
  have e: "session_queue_of ''k'' empty_Store = []"
    by (simp add: session_queue_of_def empty_Store_def empty_runtimeState_def)
  show ?thesis
    using store_queue_first_in_first_out [OF e, where now = 5 and io = None
        and events = "[(''k'', ''b''), (''j'', ''x''), (''k'', ''a''), (''k'', ''b'')]"]
    by (simp add: first_arrivals_def eval_nat_numeral)
qed

text \<open>A taken submission is gone from the queue also when the save failed and an error is returned.\<close>

lemma failed_dequeue_drops:
  assumes "session_queue_of k s = i # rest"
  shows "snd (snd (DequeueSubmission now (Some e) s k)) = Some (SaveFailed e)"
    "session_queue_of k (fst (DequeueSubmission now (Some e) s k)) = rest"
proof -
  obtain s1 x0 where q: "ensureSessionLocked now s k = (s1, x0)" by fastforce
  then have "ss_Queue x0 = i # rest" using queue_of_ensure(2) [of now s k] assms by simp
  then show "snd (snd (DequeueSubmission now (Some e) s k)) = Some (SaveFailed e)"
    by (simp add: DequeueSubmission_def q Dequeue_def saveLocked_def Let_def)
  show "session_queue_of k (fst (DequeueSubmission now (Some e) s k)) = rest"
    by (simp add: DequeueSubmission_queue assms)
qed

section \<open>Submission ids\<close>

lemma dec_digits: "set (dec n) \<subseteq> {c. between CHR ''0'' CHR ''9'' c}"
proof (induction n rule: dec.induct)
  case (1 n)
  have d: "between CHR ''0'' CHR ''9'' (char_of (48 + m))" if "m < 10" for m :: nat
    using that of_char_digit [OF that] by (simp add: char_le_nat)
  show ?case
    using 1 d [of n] d [of "n mod 10"] by (subst dec.simps) (auto simp del: dec.simps)
qed

lemma pad6_no_dash: "CHR ''-'' \<notin> set (pad6 n)"
proof -
  have "\<not> between CHR ''0'' CHR ''9'' CHR ''-''" by (simp add: char_le_nat)
  then show ?thesis using dec_digits [of n] by (auto simp: pad6_def)
qed

lemma last_part_inject:
  assumes "a @ d # p = b @ d # q" "d \<notin> set p" "d \<notin> set q"
  shows "p = q"
proof -
  have "takeWhile (\<lambda>c. c \<noteq> d) (rev (x @ d # y)) = rev y" if "d \<notin> set y" for x y
    using that by (auto simp: takeWhile_append2 takeWhile_tail)
  with assms show ?thesis by (metis rev_rev_ident)
qed

text \<open>The counter alone keeps ids apart, whatever the clock shows and whatever the prefixes.\<close>

lemma formatID_inject: "p @ formatID t m = q @ formatID u n \<Longrightarrow> m = n"
  using last_part_inject [of "p @ t" "CHR ''-''" "pad6 m" "q @ u" "pad6 n"] pad6_no_dash
  by (simp add: formatID_def)

text \<open>Submissions created one after another; each comes without an id. The result is their ids.\<close>

fun create_all :: "(int \<times> string \<times> Submission) list \<Rightarrow> Store \<Rightarrow> Store \<times> string list" where
  "create_all [] s = (s, [])"
| "create_all ((now, stamp, sub) # subs) s =
     (let (s1, i) = CreateSubmission now stamp s sub; (s2, is) = create_all subs s1 in (s2, i # is))"

lemma CreateSubmission_new:
  assumes "trim (sub_ID sub) = []" "CreateSubmission now stamp s sub = (s', i)"
  shows "i = ''sub-'' @ formatID stamp (ctr_NextSubmission (rt_Counters (st_runtime s)))"
    "ctr_NextSubmission (rt_Counters (st_runtime s')) = Suc (ctr_NextSubmission (rt_Counters (st_runtime s)))"
    "GetSubmission s' j = (if j = i then Some (sub\<lparr>sub_ID := i, sub_CreatedAt := now, sub_UpdatedAt := now,
       sub_Status := NormalizeSubmissionStatus (sub_Status sub)\<rparr>) else GetSubmission s j)"
  using assms by (auto simp: CreateSubmission_def Let_def GetSubmission_def normalizeSubmissionValues_def)

text \<open>What is kept of a created submission.\<close>

definition created_as :: "Submission \<Rightarrow> string \<Rightarrow> Submission option \<Rightarrow> bool" where
  "created_as sub i stored \<longleftrightarrow>
     (\<exists>now. stored = Some (sub\<lparr>sub_ID := i, sub_CreatedAt := now, sub_UpdatedAt := now,
        sub_Status := NormalizeSubmissionStatus (sub_Status sub)\<rparr>))"

lemma create_all_ids:
  assumes "\<forall>(now, stamp, sub)\<in>set subs. trim (sub_ID sub) = []" "create_all subs s = (s', is)"
  shows "length is = length subs \<and> distinct is \<and>
    (\<forall>i\<in>set is. \<exists>stamp n. ctr_NextSubmission (rt_Counters (st_runtime s)) \<le> n \<and> i = ''sub-'' @ formatID stamp n) \<and>
    list_all2 (\<lambda>(now, stamp, sub) i. created_as sub i (GetSubmission s' i)) subs is \<and>
    (\<forall>i. i \<notin> set is \<longrightarrow> GetSubmission s' i = GetSubmission s i)"
  using assms
proof (induction subs arbitrary: s "is")
  case (Cons e subs)
  obtain now stamp sub where e: "e = (now, stamp, sub)" by (metis prod.exhaust)
  obtain s1 i where c: "CreateSubmission now stamp s sub = (s1, i)" by fastforce
  obtain s2 is' where r: "create_all subs s1 = (s2, is')" by fastforce
  have b: "trim (sub_ID sub) = []" using Cons.prems(1) by (simp add: e)
  note new = CreateSubmission_new [OF b c]
  have out: "s2 = s'" "is = i # is'" using Cons.prems(2) by (simp_all add: e c r)
  have prems: "\<forall>(now, stamp, sub)\<in>set subs. trim (sub_ID sub) = []" "create_all subs s1 = (s', is')"
    using Cons.prems(1) r out(1) by auto
  note ih = Cons.IH [OF prems]
  let ?c = "ctr_NextSubmission (rt_Counters (st_runtime s))"
  have later: "\<forall>j\<in>set is'. \<exists>stamp n. Suc ?c \<le> n \<and> j = ''sub-'' @ formatID stamp n"
    using ih new(2) by simp
  have fresh: "i \<notin> set is'"
  proof
    assume "i \<in> set is'"
    then obtain u n where n: "Suc ?c \<le> n" "i = ''sub-'' @ formatID u n" using later by blast
    have "''sub-'' @ formatID stamp ?c = ''sub-'' @ formatID u n" using new(1) n(2) by simp
    then have "?c = n" by (rule formatID_inject)
    with n(1) show False by simp
  qed
  have kept: "created_as sub i (GetSubmission s' i)"
    using ih fresh new(3) [of i] unfolding created_as_def by auto
  have ids: "\<exists>t n. ?c \<le> n \<and> j = ''sub-'' @ formatID t n" if "j \<in> set is" for j
  proof (cases "j = i")
    case True
    then show ?thesis using new(1) by blast
  next
    case False
    with that later out(2) show ?thesis by (metis Suc_leD set_ConsD)
  qed
  have frame: "GetSubmission s' j = GetSubmission s j" if "j \<notin> set is" for j
    using that ih new(3) [of j] out(2) by simp
  show ?case using ih fresh kept ids frame out(2) by (simp add: e)
qed simp

text \<open>
  Submissions created without ids get ids that no other of them has, whatever the clock
  shows, and each is stored under its id as it was given.
\<close>

theorem created_submissions_distinct:
  assumes "\<forall>(now, stamp, sub)\<in>set subs. trim (sub_ID sub) = []" "create_all subs s = (s', is)"
  shows "distinct is \<and> list_all2 (\<lambda>(now, stamp, sub) i. created_as sub i (GetSubmission s' i)) subs is"
  using create_all_ids [OF assms] by blast

theorem created_submissions_distinct_witness:
  "\<exists>s'. create_all [(5, ''20240101T000000'', zero_Submission), (5, ''20240101T000000'', zero_Submission)] empty_Store
     = (s', [''sub-20240101T000000-000001'', ''sub-20240101T000000-000002'']) \<and>
   distinct [''sub-20240101T000000-000001'', ''sub-20240101T000000-000002'']"
proof -
  let ?subs = "[(5, ''20240101T000000'', zero_Submission), (5, ''20240101T000000'', zero_Submission)]"
  have "snd (create_all ?subs empty_Store) = [''sub-20240101T000000-000001'', ''sub-20240101T000000-000002'']"
    by code_simp
  then obtain s' where c: "create_all ?subs empty_Store
      = (s', [''sub-20240101T000000-000001'', ''sub-20240101T000000-000002''])"
    by (metis prod.collapse)
  have "\<forall>(now, stamp, sub)\<in>set ?subs. trim (sub_ID sub) = []" by (simp add: zero_Submission_def)
  from created_submissions_distinct [OF this c] c show ?thesis by blast
qed

section \<open>Notifications\<close>

text \<open>
  The notifications waiting for a frontend are a map from their key to the newest one; when it
  came does not count. \<open>waiting\<close> is that map.
\<close>

definition content :: "FrontendCardNotification \<Rightarrow> FrontendCardNotification" where
  "content n = n\<lparr>fcn_CreatedAt := 0\<rparr>"

definition waiting :: "Store \<Rightarrow> string \<Rightarrow> string \<Rightarrow> FrontendCardNotification option" where
  "waiting s frontendID key =
     map_option content (find (\<lambda>n. frontendCardNotificationKey n = key) (notes_of s (trim frontendID)))"

definition notes_ok :: "FrontendCardNotification list \<Rightarrow> bool" where
  "notes_ok ns \<longleftrightarrow> distinct (map frontendCardNotificationKey ns) \<and>
     (\<forall>n\<in>set ns. normalizeFrontendCardNotification n = Some n)"

lemma normalize_note:
  assumes "normalizeFrontendCardNotification note = Some n"
  shows "normalizeFrontendCardNotification n = Some n"
    "normalizeFrontendCardNotification (n\<lparr>fcn_CreatedAt := t\<rparr>) = Some (n\<lparr>fcn_CreatedAt := t\<rparr>)"
    "frontendCardNotificationKey note = frontendCardNotificationKey n"
    "frontendCardNotificationKey (n\<lparr>fcn_CreatedAt := t\<rparr>) = frontendCardNotificationKey n"
proof -
  have n: "n = note\<lparr>fcn_Kind := trim (fcn_Kind note), fcn_CollapseKey := trim (fcn_CollapseKey note),
      fcn_Title := trim (fcn_Title note), fcn_Color := trim (fcn_Color note), fcn_Body := trim (fcn_Body note)\<rparr>"
    and ne: "trim (fcn_Title note) \<noteq> []" "trim (fcn_Body note) \<noteq> []"
    using assms by (auto simp: normalizeFrontendCardNotification_def Let_def split: if_splits)
  show r: "normalizeFrontendCardNotification n = Some n"
    "normalizeFrontendCardNotification (n\<lparr>fcn_CreatedAt := t\<rparr>) = Some (n\<lparr>fcn_CreatedAt := t\<rparr>)"
    using ne by (simp_all add: n normalizeFrontendCardNotification_def Let_def)
  show "frontendCardNotificationKey note = frontendCardNotificationKey n"
    "frontendCardNotificationKey (n\<lparr>fcn_CreatedAt := t\<rparr>) = frontendCardNotificationKey n"
    by (simp_all add: frontendCardNotificationKey_def assms r)
qed

lemma find_note_Some:
  assumes "find_note k ns = Some i"
  shows "i < length ns" "frontendCardNotificationKey (ns ! i) = k"
    "frontendCardNotificationKey m = k \<Longrightarrow> find (\<lambda>n. frontendCardNotificationKey n = j) (ns[i := m]) =
      (if j = k then Some m else find (\<lambda>n. frontendCardNotificationKey n = j) ns)"
    "find (\<lambda>n. frontendCardNotificationKey n = k) ns = Some (ns ! i)"
  using assms by (induction ns arbitrary: i) (auto split: if_splits)

lemma find_note_None:
  "find_note k ns = None \<longleftrightarrow> k \<notin> frontendCardNotificationKey ` set ns"
  by (induction ns) auto

lemma find_append: "find P (xs @ ys) = (case find P xs of None \<Rightarrow> find P ys | Some x \<Rightarrow> Some x)"
  by (induction xs) auto

lemma find_filter_other:
  "find (\<lambda>n. g n = j) (filter (\<lambda>n. g n \<noteq> k) ns) = (if j = k then None else find (\<lambda>n. g n = j) ns)"
  by (induction ns) auto

lemma notes_of_save [simp]: "notes_of (fst (saveLocked io s)) f = notes_of s f"
  by (simp add: notes_of_def saveLocked_data)

lemma notes_of_put [simp]: "notes_of (put_notes g ns s) f = (if f = g then ns else notes_of s f)"
  by (simp add: notes_of_def put_notes_def)

lemma notes_of_delete [simp]:
  "notes_of (st_data_update (db_FrontendCardNotifications_update (AList.delete g)) s) f =
     (if f = g then [] else notes_of s f)"
  by (simp add: notes_of_def)

lemma notes_ok_put:
  assumes "notes_ok ns" "find_note k ns = Some i" "frontendCardNotificationKey m = k"
    "normalizeFrontendCardNotification m = Some m"
  shows "notes_ok (ns[i := m])"
proof -
  have "map frontendCardNotificationKey (ns[i := m]) = map frontendCardNotificationKey ns"
    using find_note_Some(1,2) [OF assms(2)] assms(3)
    by (simp add: map_update list_update_same_conv)
  with assms show ?thesis by (auto simp: notes_ok_def dest: set_update_subset_insert [THEN subsetD])
qed

lemma notes_ok_filter: "notes_ok ns \<Longrightarrow> notes_ok (filter P ns)"
  by (auto simp: notes_ok_def distinct_map inj_on_def)

lemma Append_refines:
  assumes "notes_ok (notes_of s (trim f))"
  shows "let s' = fst (AppendFrontendCardNotification now io s f note) in
      waiting s' f = (case normalizeFrontendCardNotification note of
          None \<Rightarrow> waiting s f
        | Some n \<Rightarrow> (waiting s f)(frontendCardNotificationKey n := Some (content n))) \<and>
      notes_ok (notes_of s' (trim f)) \<and> (trim g \<noteq> trim f \<longrightarrow> waiting s' g = waiting s g)"
proof (cases "normalizeFrontendCardNotification note")
  case None
  then show ?thesis using assms by (simp add: AppendFrontendCardNotification_def Let_def)
next
  case (Some n)
  let ?ns = "notes_of s (trim f)" and ?k = "frontendCardNotificationKey n"
  let ?n = "if fcn_CreatedAt n = 0 then n\<lparr>fcn_CreatedAt := now\<rparr> else n"
  have new: "frontendCardNotificationKey ?n = ?k" "normalizeFrontendCardNotification ?n = Some ?n"
    "content ?n = content n"
    using normalize_note [OF Some] by (simp_all add: content_def)
  show ?thesis
  proof (cases "find_note ?k ?ns")
    case None
    then have f: "find (\<lambda>m. frontendCardNotificationKey m = ?k) ?ns = None"
      unfolding find_note_None find_None_iff by (metis image_eqI)
    have "notes_ok (?ns @ [?n])" using None assms new by (auto simp: notes_ok_def find_note_None)
    with None Some f new show ?thesis
      by (auto simp: AppendFrontendCardNotification_def Let_def waiting_def find_append fun_eq_iff
          simp del: if_split split: option.split)
  next
    case (Some i)
    note i = find_note_Some [OF this]
    have old: "normalizeFrontendCardNotification (?ns ! i) = Some (?ns ! i)"
      using assms i(1) by (simp add: notes_ok_def)
    have same: "content (?ns ! i) = content n" if "same_notification (?ns ! i) n"
      using that by (simp add: same_notification_def content_def)
    have "notes_ok (?ns[i := ?n])" using assms Some new(1,2) by (rule notes_ok_put)
    with Some \<open>normalizeFrontendCardNotification note = Some n\<close> assms new same i(3) [OF new(1)] i(4) old
    show ?thesis
      by (auto simp: AppendFrontendCardNotification_def Let_def waiting_def fun_eq_iff simp del: if_split)
  qed
qed

lemma Delete_refines:
  assumes "notes_ok (notes_of s (trim f))"
  shows "let s' = fst (DeleteFrontendCardNotificationsByCollapseKey io s f key) in
      waiting s' f = (if trim key = [] then waiting s f else (waiting s f)(''collapse|'' @ trim key := None)) \<and>
      notes_ok (notes_of s' (trim f)) \<and> (trim g \<noteq> trim f \<longrightarrow> waiting s' g = waiting s g)"
proof -
  let ?ns = "notes_of s (trim f)" and ?k = "''collapse|'' @ trim key"
  let ?next = "filter (\<lambda>n. frontendCardNotificationKey n \<noteq> ?k) ?ns"
  have w: "map_option content (find (\<lambda>n. frontendCardNotificationKey n = j) ?next) =
      ((waiting s f)(?k := None)) j" for j
    by (simp add: waiting_def find_filter_other)
  have ok: "notes_ok ?next" "notes_ok []" using assms notes_ok_filter by (auto simp: notes_ok_def)
  have "waiting (fst (DeleteFrontendCardNotificationsByCollapseKey io s f key)) f =
      (if trim key = [] then waiting s f else (\<lambda>j. map_option content (find (\<lambda>n. frontendCardNotificationKey n = j) ?next)))"
    by (auto simp: DeleteFrontendCardNotificationsByCollapseKey_def Let_def waiting_def fun_eq_iff simp del: append_Cons)
  with w assms ok show ?thesis
    by (auto simp: DeleteFrontendCardNotificationsByCollapseKey_def Let_def fun_eq_iff simp del: append_Cons)
       (auto simp: waiting_def)
qed

lemma clone_notes: "notes_ok ns \<Longrightarrow> cloneFrontendCardNotifications ns = ns"
  by (induction ns) (auto simp: notes_ok_def cloneFrontendCardNotifications_def map_filter_simps)

lemma Drain_refines:
  assumes "notes_ok (notes_of s (trim f))"
  shows "let (s', ns, e) = DrainFrontendCardNotifications io s f in
      ns = notes_of s (trim f) \<and> waiting s' f = (\<lambda>k. None) \<and> (trim g \<noteq> trim f \<longrightarrow> waiting s' g = waiting s g)"
  using clone_notes [OF assms]
  by (cases "notes_of s (trim f) = []")
     (auto simp: DrainFrontendCardNotifications_def Let_def case_prod_beta waiting_def)

text \<open>
  C19. The notifications of a frontend refine a map: appending one that has a title and a body
  replaces the one with its key and leaves the others, appending another one is ignored,
  deleting a collapse key removes that key, and taking them all returns each once and leaves
  none. Other frontends are not affected, and the list stays free of duplicates.
\<close>

theorem notifications_refine_map:
  assumes "notes_ok (notes_of s (trim f))"
  shows "(let s' = fst (AppendFrontendCardNotification now io s f msg) in
      waiting s' f = (case normalizeFrontendCardNotification msg of
          None \<Rightarrow> waiting s f
        | Some n \<Rightarrow> (waiting s f)(frontendCardNotificationKey n := Some (content n))) \<and>
      notes_ok (notes_of s' (trim f)) \<and> (trim g \<noteq> trim f \<longrightarrow> waiting s' g = waiting s g)) \<and>
    (let s' = fst (DeleteFrontendCardNotificationsByCollapseKey io s f key) in
      waiting s' f = (if trim key = [] then waiting s f else (waiting s f)(''collapse|'' @ trim key := None)) \<and>
      notes_ok (notes_of s' (trim f)) \<and> (trim g \<noteq> trim f \<longrightarrow> waiting s' g = waiting s g)) \<and>
    (let (s', ns, e) = DrainFrontendCardNotifications io s f in
      ns = notes_of s (trim f) \<and> waiting s' f = (\<lambda>k. None) \<and> (trim g \<noteq> trim f \<longrightarrow> waiting s' g = waiting s g))"
  using Append_refines [OF assms] Delete_refines [OF assms] Drain_refines [OF assms] by (intro conjI)

theorem notifications_refine_map_witness:
  "waiting (fst (AppendFrontendCardNotification 5 None empty_Store ''f''
     \<lparr>fcn_Kind = ''update'', fcn_CollapseKey = ''ck'', fcn_Title = ''t'', fcn_Color = [], fcn_Body = ''b'', fcn_CreatedAt = 0\<rparr>))
     ''f'' ''collapse|ck'' \<noteq> None"
proof -
  let ?n = "\<lparr>fcn_Kind = ''update'', fcn_CollapseKey = ''ck'', fcn_Title = ''t'', fcn_Color = [], fcn_Body = ''b'', fcn_CreatedAt = 0\<rparr>"
  have e: "notes_ok (notes_of empty_Store (trim ''f''))"
    by (simp add: notes_ok_def notes_of_def empty_Store_def empty_StateSnapshot_def)
  have n: "normalizeFrontendCardNotification ?n = Some ?n" "frontendCardNotificationKey ?n = ''collapse|ck''"
    by code_simp+
  show ?thesis
    using notifications_refine_map [OF e, where now = 5 and io = None and msg = ?n] by (simp add: n Let_def)
qed

end
