(* ===== verification/Effects.thy ===== *)
theory Effects
  imports Submission Messages Identity "HOL-Library.AList"
begin

text \<open>
  Side effects that follow a stored transition: the effects and their identities
  (\<open>internal/application/effect.go\<close>), the runner that executes them
  (\<open>internal/runtime/effect_runner.go\<close>) and the deduper that keeps an effect with an identity from
  being executed twice (\<open>effect_deduper.go\<close>).
\<close>

section \<open>Effects (effect.go, backendops/request.go)\<close>

record StartTurnRequest =
  st_ThreadID :: string
  st_Submission :: "Submission option"
  st_Cwd :: string
  st_ApprovalPolicy :: string
  st_SandboxMode :: string
  st_ServiceTier :: string
  st_Model :: string
  st_Effort :: string
  st_MultiAgentMode :: string
  st_Collaboration :: "SessionCollaborationMode option"

record TurnResult =
  tr_ID :: string
  tr_Status :: string

record ResponseError =
  re_Code :: int
  re_Message :: string

record Response =
  rs_Token :: string
  rs_Payload :: string
  rs_Error :: "ResponseError option"

text \<open>The view of a card is an interface value; the runner only hands it on.\<close>

datatype 'view Effect =
    SaveState (ef_Frontend: string) "Session option" (ef_Key: string)
  | SendMessage (ef_Frontend: string) ChatRef (ef_Text: string) (ef_ReplyMessageID: string) (ef_InThread: bool)
      (ef_Key: string)
  | SendCard (ef_Frontend: string) ChatRef (ef_ReplyMessageID: string) (ef_View: 'view) (ef_InThread: bool)
      (ef_Key: string)
  | PatchCard (ef_Frontend: string) (ef_MessageID: string) (ef_View: 'view) (ef_Key: string)
  | StartTurn (ef_Frontend: string) (ef_SessionKey: string) (ef_Request: StartTurnRequest) (ef_Key: string)
  | ResolveBackendRequest (ef_Frontend: string) (ef_Backend: string) (ef_Response: Response) (ef_Key: string)
  | SteerTurn (ef_Frontend: string) (ef_SessionKey: string) (ef_ThreadID: string) (ef_ExpectedTurnID: string)
      (ef_Text: string) (ef_Key: string)
  | EnqueueInput (ef_Frontend: string) (ef_SessionKey: string) (ef_BindOnlyCurrentRoot: bool)
      (ef_Message: InboundMessage) (ef_Key: string)
  | RefreshGroupStatus (ef_Frontend: string) (ef_ChatID: string) (ef_Reason: string) (ef_Key: string)

text \<open>
  The bytes that are hashed: the kind, then a zero byte before each part. The hash is SHA-256 of
  the standard library, in hex.
\<close>

definition key_bytes :: "string \<Rightarrow> string list \<Rightarrow> string" where
  "key_bytes kind parts = trim kind @ concat (map (\<lambda>part. CHR 0x00 # part) parts)"

definition StableEffectKey :: "(string \<Rightarrow> string) \<Rightarrow> string \<Rightarrow> string list \<Rightarrow> string" where
  "StableEffectKey hash kind parts = trim kind @ '':'' @ hash (key_bytes kind parts)"

definition boolString :: "bool \<Rightarrow> string" where
  "boolString v = (if v then ''1'' else ''0'')"

definition EffectIdentity :: "(string \<Rightarrow> string) \<Rightarrow> 'view Effect option \<Rightarrow> string" where
  "EffectIdentity hash effect =
     (case effect of
        None \<Rightarrow> []
      | Some e \<Rightarrow>
          (case e of
             SendMessage frontend chat txt reply inThread key \<Rightarrow>
               if trim key \<noteq> [] then key
               else if trim reply \<noteq> []
               then StableEffectKey hash ''reply-message'' [frontend, reply, txt, boolString inThread]
               else []
           | StartTurn frontend sessionKey request key \<Rightarrow>
               (case st_Submission request of
                  Some sub \<Rightarrow>
                    if key = [] \<and> trim (sub_ID sub) \<noteq> []
                    then StableEffectKey hash ''start-turn'' [frontend, sessionKey, sub_ID sub] else trim key
                | None \<Rightarrow> trim key)
           | ResolveBackendRequest frontend backend response key \<Rightarrow>
               if key = [] \<and> rs_Token response \<noteq> []
               then StableEffectKey hash ''resolve-request'' [frontend, backend, rs_Token response]
               else trim key
           | SteerTurn frontend sessionKey threadID turnID txt key \<Rightarrow>
               if key = [] \<and> trim turnID \<noteq> []
               then StableEffectKey hash ''steer-turn'' [frontend, threadID, turnID, txt] else trim key
           | EnqueueInput frontend sessionKey bindOnly msg key \<Rightarrow>
               if key = [] \<and> trim (im_MessageID msg) \<noteq> []
               then StableEffectKey hash ''enqueue-input'' [frontend, sessionKey, im_MessageID msg] else trim key
           | _ \<Rightarrow> trim (ef_Key e)))"

section \<open>The deduper (effect\_deduper.go)\<close>

datatype effect_value = NoValue | MessageID string | Turn TurnResult

datatype effect_error = Unavailable string | EffectFailed string | ContextDone string

type_synonym effect_result = "effect_error + effect_value"

text \<open>
  The two parts of Do that run under the mutex, before and after the function it is given. A
  waiter is an address: inflight maps a key to the waiter of the call that runs it, and the result
  of a waiter is set when it is closed.
\<close>

record MemoryEffectDeduper =
  ed_completed :: "(string \<times> effect_value) list"
  ed_inflight :: "(string \<times> nat) list"
  ed_results :: "(nat \<times> effect_result) list"
  ed_next :: nat

definition NewMemoryEffectDeduper :: MemoryEffectDeduper where
  "NewMemoryEffectDeduper = \<lparr>ed_completed = [], ed_inflight = [], ed_results = [], ed_next = 0\<rparr>"

datatype admission = Completed effect_value | Joined nat | Admitted nat

definition Enter :: "string \<Rightarrow> MemoryEffectDeduper \<Rightarrow> MemoryEffectDeduper \<times> admission" where
  "Enter key d =
     (case map_of (ed_completed d) key of
        Some v \<Rightarrow> (d, Completed v)
      | None \<Rightarrow>
          (case map_of (ed_inflight d) key of
             Some w \<Rightarrow> (d, Joined w)
           | None \<Rightarrow>
               (d\<lparr>ed_inflight := AList.update key (ed_next d) (ed_inflight d), ed_next := Suc (ed_next d)\<rparr>,
                Admitted (ed_next d))))"

definition Leave :: "string \<Rightarrow> nat \<Rightarrow> effect_result \<Rightarrow> MemoryEffectDeduper \<Rightarrow> MemoryEffectDeduper" where
  "Leave key w result d =
     d\<lparr>ed_inflight := AList.delete key (ed_inflight d),
       ed_completed := (case result of Inr v \<Rightarrow> AList.update key v (ed_completed d) | Inl _ \<Rightarrow> ed_completed d),
       ed_results := AList.update w result (ed_results d)\<rparr>"

text \<open>
  Do, called by one goroutine while no other is inside. Nobody closes the waiter of a call that
  is still running then, so joining one would never return: None.
\<close>

definition Do ::
  "string \<Rightarrow> ('w \<Rightarrow> 'w \<times> effect_result) \<Rightarrow> MemoryEffectDeduper \<times> 'w
     \<Rightarrow> ((MemoryEffectDeduper \<times> 'w) \<times> effect_result) option" where
  "Do key f s =
     (case s of (d, w) \<Rightarrow>
        if key = [] then (case f w of (w', r) \<Rightarrow> Some ((d, w'), r))
        else
          (case Enter key d of
             (d1, Completed v) \<Rightarrow> Some ((d1, w), Inr v)
           | (d1, Joined i) \<Rightarrow> map_option (\<lambda>r. ((d1, w), r)) (map_of (ed_results d1) i)
           | (d1, Admitted i) \<Rightarrow> (case f w of (w', r) \<Rightarrow> Some ((Leave key i r d1, w'), r))))"

section \<open>The runner (effect\_runner.go)\<close>

text \<open>
  What the runner is given: a function per kind of effect, each possibly nil. \<open>'w\<close> is what they
  work on. \<open>er_Done\<close> is the error of the context, if it is done. The two With functions return a
  value; the others only an error.
\<close>

type_synonym ('e, 'w) action = "'e \<Rightarrow> 'w \<Rightarrow> 'w \<times> string option"

record ('view, 'w) EffectRunner =
  er_Done :: "'w \<Rightarrow> string option"
  er_Hash :: "string \<Rightarrow> string"
  er_RefreshGroup :: "('view Effect, 'w) action option"
  er_Steer :: "('view Effect, 'w) action option"
  er_Enqueue :: "('view Effect, 'w) action option"
  er_Save :: "('view Effect, 'w) action option"
  er_Send :: "('view Effect, 'w) action option"
  er_SendWithID :: "('view Effect \<Rightarrow> 'w \<Rightarrow> 'w \<times> (string + string)) option"
  er_SendCard :: "('view Effect, 'w) action option"
  er_SendCardWithID :: "('view Effect \<Rightarrow> 'w \<Rightarrow> 'w \<times> (string + string)) option"
  er_Patch :: "('view Effect, 'w) action option"
  er_Start :: "('view Effect, 'w) action option"
  er_StartWithResult :: "('view Effect \<Rightarrow> 'w \<Rightarrow> 'w \<times> (string + TurnResult)) option"
  er_Resolve :: "('view Effect, 'w) action option"

type_synonym 'w runner_state = "MemoryEffectDeduper option \<times> 'w"

definition run_keyed ::
  "string \<Rightarrow> ('w \<Rightarrow> 'w \<times> effect_result) \<Rightarrow> 'w runner_state \<Rightarrow> ('w runner_state \<times> effect_result) option" where
  "run_keyed key f s =
     (case s of
        (None, w) \<Rightarrow> (case f w of (w', r) \<Rightarrow> Some ((None, w'), r))
      | (Some d, w) \<Rightarrow> map_option (\<lambda>((d', w'), r). ((Some d', w'), r)) (Do key f (d, w)))"

definition plain :: "effect_value \<Rightarrow> 'w \<times> string option \<Rightarrow> 'w \<times> effect_result" where
  "plain v answer = (case answer of (w, None) \<Rightarrow> (w, Inr v) | (w, Some e) \<Rightarrow> (w, Inl (EffectFailed e)))"

definition valued :: "('a \<Rightarrow> effect_value) \<Rightarrow> 'w \<times> (string + 'a) \<Rightarrow> 'w \<times> effect_result" where
  "valued wrap answer = (case answer of (w, Inl e) \<Rightarrow> (w, Inl (EffectFailed e)) | (w, Inr x) \<Rightarrow> (w, Inr (wrap x)))"

text \<open>The function for an effect; without one it is unavailable.\<close>

definition via :: "('view Effect, 'w) action option \<Rightarrow> effect_value \<Rightarrow> string \<Rightarrow> 'view Effect \<Rightarrow> 'w \<Rightarrow> 'w \<times> effect_result" where
  "via action v kind e w = (case action of None \<Rightarrow> (w, Inl (Unavailable kind)) | Some f \<Rightarrow> plain v (f e w))"

definition send_action :: "('view, 'w) EffectRunner \<Rightarrow> 'view Effect \<Rightarrow> 'w \<Rightarrow> 'w \<times> effect_result" where
  "send_action r e w =
     (case er_SendWithID r of
        Some f \<Rightarrow> valued MessageID (f e w)
      | None \<Rightarrow> via (er_Send r) (MessageID []) ''send'' e w)"

definition card_action :: "('view, 'w) EffectRunner \<Rightarrow> 'view Effect \<Rightarrow> 'w \<Rightarrow> 'w \<times> effect_result" where
  "card_action r e w =
     (case er_SendCardWithID r of
        Some f \<Rightarrow> valued MessageID (f e w)
      | None \<Rightarrow> via (er_SendCard r) (MessageID []) ''send card'' e w)"

definition start_action :: "('view, 'w) EffectRunner \<Rightarrow> 'view Effect \<Rightarrow> 'w \<Rightarrow> 'w \<times> effect_result" where
  "start_action r e w =
     (case er_StartWithResult r of
        Some f \<Rightarrow> valued Turn (f e w)
      | None \<Rightarrow> via (er_Start r) (Turn \<lparr>tr_ID = [], tr_Status = []\<rparr>) ''start'' e w)"

definition run_valued ::
  "('view, 'w) EffectRunner \<Rightarrow> ('view Effect \<Rightarrow> 'w \<Rightarrow> 'w \<times> effect_result) \<Rightarrow> 'view Effect \<Rightarrow> 'w runner_state
     \<Rightarrow> ('w runner_state \<times> effect_result) option" where
  "run_valued r f e s =
     (case er_Done r (snd s) of
        Some d \<Rightarrow> Some (s, Inl (ContextDone d))
      | None \<Rightarrow> run_keyed (EffectIdentity (er_Hash r) (Some e)) (f e) s)"

definition RunSendMessage where "RunSendMessage r = run_valued r (send_action r)"
definition RunSendCard where "RunSendCard r = run_valued r (card_action r)"
definition RunStartTurn where "RunStartTurn r = run_valued r (start_action r)"

text \<open>The value a call returns, when it is one: a type assertion that may fail leaves the zero value.\<close>

definition value_ID :: "effect_value \<Rightarrow> string" where
  "value_ID v = (case v of MessageID i \<Rightarrow> i | _ \<Rightarrow> [])"

definition value_Turn :: "effect_value \<Rightarrow> TurnResult" where
  "value_Turn v = (case v of Turn t \<Rightarrow> t | _ \<Rightarrow> \<lparr>tr_ID = [], tr_Status = []\<rparr>)"

text \<open>One effect of Run. A missing function is noticed before the deduper is asked.\<close>

definition run_plain ::
  "('view, 'w) EffectRunner \<Rightarrow> ('view Effect, 'w) action option \<Rightarrow> string \<Rightarrow> 'view Effect \<Rightarrow> 'w runner_state
     \<Rightarrow> ('w runner_state \<times> effect_result) option" where
  "run_plain r action kind e s =
     (if action = None then Some (s, Inl (Unavailable kind))
      else run_keyed (EffectIdentity (er_Hash r) (Some e)) (via action NoValue kind e) s)"

definition run_effect ::
  "('view, 'w) EffectRunner \<Rightarrow> 'view Effect \<Rightarrow> 'w runner_state \<Rightarrow> ('w runner_state \<times> effect_result) option" where
  "run_effect r e =
     (case e of
        RefreshGroupStatus _ _ _ _ \<Rightarrow> run_plain r (er_RefreshGroup r) ''group refresh'' e
      | SaveState _ _ _ \<Rightarrow> run_plain r (er_Save r) ''save'' e
      | SendMessage _ _ _ _ _ _ \<Rightarrow> run_plain r (er_Send r) ''send'' e
      | SendCard _ _ _ _ _ _ \<Rightarrow> RunSendCard r e
      | PatchCard _ _ _ _ \<Rightarrow> run_plain r (er_Patch r) ''patch'' e
      | StartTurn _ _ _ _ \<Rightarrow> RunStartTurn r e
      | SteerTurn _ _ _ _ _ _ \<Rightarrow> run_plain r (er_Steer r) ''steer'' e
      | EnqueueInput _ _ _ _ _ \<Rightarrow> run_plain r (er_Enqueue r) ''enqueue'' e
      | ResolveBackendRequest _ _ _ _ \<Rightarrow> run_plain r (er_Resolve r) ''resolve'' e)"

fun Run ::
  "('view, 'w) EffectRunner \<Rightarrow> 'view Effect list \<Rightarrow> 'w runner_state
     \<Rightarrow> ('w runner_state \<times> effect_error option) option" where
  "Run r [] s = Some (s, None)"
| "Run r (e # es) s =
     (case er_Done r (snd s) of
        Some d \<Rightarrow> Some (s, Some (ContextDone d))
      | None \<Rightarrow>
          (case run_effect r e s of
             None \<Rightarrow> None
           | Some (s', Inl err) \<Rightarrow> Some (s', Some err)
           | Some (s', Inr _) \<Rightarrow> Run r es s'))"

section \<open>A run that is repeated\<close>

text \<open>
  Between calls no key is in flight. Such a deduper answers every call, and an effect whose
  function succeeded is answered from then on without calling the function.
\<close>

definition idle :: "MemoryEffectDeduper \<Rightarrow> bool" where
  "idle d \<longleftrightarrow> ed_inflight d = []"

lemma Enter_idle:
  "idle d \<Longrightarrow> Enter key d = (case map_of (ed_completed d) key of
     Some v \<Rightarrow> (d, Completed v)
   | None \<Rightarrow> (d\<lparr>ed_inflight := [(key, ed_next d)], ed_next := Suc (ed_next d)\<rparr>, Admitted (ed_next d)))"
  by (simp add: Enter_def idle_def split: option.split)

lemma Leave_idle: "idle (Leave key i r (d\<lparr>ed_inflight := [(key, j)], ed_next := n\<rparr>))"
  by (simp add: Leave_def idle_def)

lemma Do_idle:
  assumes "idle d" "key \<noteq> []"
  shows "\<exists>d' w' r. Do key f (d, w) = Some ((d', w'), r) \<and> idle d' \<and>
    (\<forall>k v. map_of (ed_completed d) k = Some v \<longrightarrow> map_of (ed_completed d') k = Some v) \<and>
    (\<forall>v. r = Inr v \<longrightarrow> map_of (ed_completed d') key = Some v)"
proof (cases "map_of (ed_completed d) key")
  case (Some v)
  then show ?thesis using assms by (simp add: Do_def Enter_idle)
next
  case None
  obtain w' r where "f w = (w', r)" by fastforce
  with assms None show ?thesis
    by (auto simp: Do_def Enter_idle Leave_idle) (auto simp: Leave_def update_conv' split: sum.split)
qed

text \<open>The effects whose function is looked for before the deduper is asked.\<close>

definition available :: "('view, 'w) EffectRunner \<Rightarrow> 'view Effect \<Rightarrow> bool" where
  "available r e =
     (case e of
        RefreshGroupStatus _ _ _ _ \<Rightarrow> er_RefreshGroup r \<noteq> None
      | SaveState _ _ _ \<Rightarrow> er_Save r \<noteq> None
      | SendMessage _ _ _ _ _ _ \<Rightarrow> er_Send r \<noteq> None
      | PatchCard _ _ _ _ \<Rightarrow> er_Patch r \<noteq> None
      | SteerTurn _ _ _ _ _ _ \<Rightarrow> er_Steer r \<noteq> None
      | EnqueueInput _ _ _ _ _ \<Rightarrow> er_Enqueue r \<noteq> None
      | ResolveBackendRequest _ _ _ _ \<Rightarrow> er_Resolve r \<noteq> None
      | _ \<Rightarrow> True)"

text \<open>The function an effect is executed with; a context that is done executes none.\<close>

definition action_of :: "('view, 'w) EffectRunner \<Rightarrow> 'view Effect \<Rightarrow> 'w \<Rightarrow> 'w \<times> effect_result" where
  "action_of r e =
     (case e of
        RefreshGroupStatus _ _ _ _ \<Rightarrow> via (er_RefreshGroup r) NoValue ''group refresh'' e
      | SaveState _ _ _ \<Rightarrow> via (er_Save r) NoValue ''save'' e
      | SendMessage _ _ _ _ _ _ \<Rightarrow> via (er_Send r) NoValue ''send'' e
      | SendCard _ _ _ _ _ _ \<Rightarrow> card_action r e
      | PatchCard _ _ _ _ \<Rightarrow> via (er_Patch r) NoValue ''patch'' e
      | StartTurn _ _ _ _ \<Rightarrow> start_action r e
      | SteerTurn _ _ _ _ _ _ \<Rightarrow> via (er_Steer r) NoValue ''steer'' e
      | EnqueueInput _ _ _ _ _ \<Rightarrow> via (er_Enqueue r) NoValue ''enqueue'' e
      | ResolveBackendRequest _ _ _ _ \<Rightarrow> via (er_Resolve r) NoValue ''resolve'' e)"

lemma run_effect_keyed:
  assumes "er_Done r (snd s) = None" "available r e"
  shows "run_effect r e s = run_keyed (EffectIdentity (er_Hash r) (Some e)) (action_of r e) s"
  using assms
  by (cases e) (auto simp: run_effect_def run_plain_def RunSendCard_def RunStartTurn_def run_valued_def
      available_def action_of_def)

lemma run_effect_unavailable:
  "\<not> available r e \<Longrightarrow> \<exists>kind. run_effect r e s = Some (s, Inl (Unavailable kind))"
  by (cases e) (simp_all add: run_effect_def run_plain_def available_def)

definition settled :: "('view, 'w) EffectRunner \<Rightarrow> MemoryEffectDeduper \<Rightarrow> 'view Effect \<Rightarrow> bool" where
  "settled r d e \<longleftrightarrow>
     available r e \<and> map_of (ed_completed d) (EffectIdentity (er_Hash r) (Some e)) \<noteq> None"

lemma settled_run:
  assumes "er_Done r w = None" "EffectIdentity (er_Hash r) (Some e) \<noteq> []" "settled r d e"
  shows "\<exists>v. run_effect r e (Some d, w) = Some ((Some d, w), Inr v)"
  using assms by (auto simp: run_effect_keyed settled_def run_keyed_def Do_def Enter_def)

lemma settled_mono:
  assumes "settled r d e"
    "\<forall>k v. map_of (ed_completed d) k = Some v \<longrightarrow> map_of (ed_completed d') k = Some v"
  shows "settled r d' e"
  using assms by (auto simp: settled_def)

lemma run_effect_settles:
  assumes "er_Done r w = None" "EffectIdentity (er_Hash r) (Some e) \<noteq> []" "idle d"
  shows "\<exists>d' w' x. run_effect r e (Some d, w) = Some ((Some d', w'), x) \<and> idle d' \<and>
    (\<forall>k v. map_of (ed_completed d) k = Some v \<longrightarrow> map_of (ed_completed d') k = Some v) \<and>
    ((\<exists>v. x = Inr v) \<longrightarrow> settled r d' e)"
proof (cases "available r e")
  case True
  obtain d' w' x where x: "Do (EffectIdentity (er_Hash r) (Some e)) (action_of r e) (d, w) = Some ((d', w'), x)"
      "idle d'" "\<forall>k v. map_of (ed_completed d) k = Some v \<longrightarrow> map_of (ed_completed d') k = Some v"
      "\<forall>v. x = Inr v \<longrightarrow> map_of (ed_completed d') (EffectIdentity (er_Hash r) (Some e)) = Some v"
    using Do_idle [OF assms(3, 2), of "action_of r e" w] by blast
  show ?thesis
    by (intro exI [of _ d'] exI [of _ w'] exI [of _ x])
       (use x True assms(1) in \<open>auto simp: run_effect_keyed run_keyed_def settled_def\<close>)
next
  case False
  then show ?thesis using run_effect_unavailable [of r e "(Some d, w)"] assms(3) by auto
qed

lemma Run_settled:
  assumes "er_Done r = (\<lambda>_. None)" "\<forall>e\<in>set es. EffectIdentity (er_Hash r) (Some e) \<noteq> [] \<and> settled r d e"
  shows "Run r (es @ fs) (Some d, w) = Run r fs (Some d, w)"
  using assms(2)
proof (induction es)
  case (Cons e es)
  then show ?case using settled_run [of r w e d] assms(1) by auto
qed simp

lemma Run_progress:
  assumes "er_Done r = (\<lambda>_. None)" "\<forall>e\<in>set es. EffectIdentity (er_Hash r) (Some e) \<noteq> []" "idle d"
  shows "\<exists>n d1 w1. n \<le> length es \<and> idle d1 \<and>
    Run r (take n es) (Some d, w) = Some ((Some d1, w1), None) \<and>
    (\<forall>e\<in>set (take n es). settled r d1 e) \<and>
    (\<forall>k v. map_of (ed_completed d) k = Some v \<longrightarrow> map_of (ed_completed d1) k = Some v) \<and>
    (n < length es \<longrightarrow> (\<exists>d' w' err. run_effect r (es ! n) (Some d1, w1) = Some ((Some d', w'), Inl err) \<and>
       (\<forall>k v. map_of (ed_completed d1) k = Some v \<longrightarrow> map_of (ed_completed d') k = Some v) \<and>
       Run r es (Some d, w) = Some ((Some d', w'), Some err))) \<and>
    (n = length es \<longrightarrow> Run r es (Some d, w) = Some ((Some d1, w1), None))"
  using assms(2, 3)
proof (induction es arbitrary: d w)
  case Nil
  then show ?case by (intro exI [of _ 0] exI [of _ d] exI [of _ w]) simp
next
  case (Cons e es)
  obtain d2 w2 x where x: "run_effect r e (Some d, w) = Some ((Some d2, w2), x)" "idle d2"
      "\<forall>k v. map_of (ed_completed d) k = Some v \<longrightarrow> map_of (ed_completed d2) k = Some v"
      "(\<exists>v. x = Inr v) \<longrightarrow> settled r d2 e"
    using run_effect_settles [of r w e d] assms(1) Cons.prems by auto
  show ?case
  proof (cases x)
    case (Inl err)
    with x assms(1) Cons.prems show ?thesis
      by (intro exI [of _ 0] exI [of _ d] exI [of _ w]) auto
  next
    case (Inr v)
    obtain n d1 w1 where n: "n \<le> length es" "idle d1"
        "Run r (take n es) (Some d2, w2) = Some ((Some d1, w1), None)"
        "\<forall>e\<in>set (take n es). settled r d1 e"
        "\<forall>k v. map_of (ed_completed d2) k = Some v \<longrightarrow> map_of (ed_completed d1) k = Some v"
        "n < length es \<longrightarrow> (\<exists>d' w' err. run_effect r (es ! n) (Some d1, w1) = Some ((Some d', w'), Inl err) \<and>
           (\<forall>k v. map_of (ed_completed d1) k = Some v \<longrightarrow> map_of (ed_completed d') k = Some v) \<and>
           Run r es (Some d2, w2) = Some ((Some d', w'), Some err))"
        "n = length es \<longrightarrow> Run r es (Some d2, w2) = Some ((Some d1, w1), None)"
      using Cons.IH [of d2 w2] Cons.prems(1) x(2) by auto
    have e: "settled r d1 e" using x(4) Inr n(5) settled_mono by blast
    show ?thesis
      by (intro exI [of _ "Suc n"] exI [of _ d1] exI [of _ w1])
         (use n e x assms(1) Inr in auto)
  qed
qed


text \<open>A runner whose world is the list of what it did; one message cannot be queued the first time.\<close>

definition sample_input :: "string \<Rightarrow> unit Effect" where
  "sample_input i = EnqueueInput ''bot'' ''k'' False (zero_InboundMessage\<lparr>im_MessageID := i\<rparr>) []"

definition sample_enqueue :: "(unit Effect, string list) action" where
  "sample_enqueue e log =
     (let i = im_MessageID (ef_Message e) in
      if i = ''m2'' \<and> ''try'' \<notin> set log then (log @ [''try''], Some ''busy'') else (log @ [i], None))"

definition sample_runner :: "(unit, string list) EffectRunner" where
  "sample_runner =
     \<lparr>er_Done = \<lambda>_. None, er_Hash = id, er_RefreshGroup = None, er_Steer = None,
      er_Enqueue = Some sample_enqueue, er_Save = None, er_Send = None, er_SendWithID = None,
      er_SendCard = None, er_SendCardWithID = None, er_Patch = None, er_Start = None,
      er_StartWithResult = None, er_Resolve = None\<rparr>"


section \<open>Many goroutines\<close>

text \<open>
  The deduper among goroutines that call it at any time: the calls that run their function, by
  waiter and key, and what succeeded so far.
\<close>

record dedup_system =
  sy_deduper :: MemoryEffectDeduper
  sy_running :: "(nat \<times> string) list"
  sy_succeeded :: "(string \<times> effect_value) list"

inductive effect_dedup_step :: "dedup_system \<Rightarrow> dedup_system \<Rightarrow> bool" where
  called: "key \<noteq> [] \<Longrightarrow> Enter key (sy_deduper s) = (d, a) \<Longrightarrow>
    effect_dedup_step s (s\<lparr>sy_deduper := d,
      sy_running := (case a of Admitted i \<Rightarrow> (i, key) # sy_running s | _ \<Rightarrow> sy_running s)\<rparr>)"
| returned: "(i, key) \<in> set (sy_running s) \<Longrightarrow>
    effect_dedup_step s (s\<lparr>sy_deduper := Leave key i r (sy_deduper s),
      sy_running := filter (\<lambda>c. c \<noteq> (i, key)) (sy_running s),
      sy_succeeded := (case r of Inr v \<Rightarrow> (key, v) # sy_succeeded s | Inl _ \<Rightarrow> sy_succeeded s)\<rparr>)"

inductive effect_dedup_reached :: "dedup_system \<Rightarrow> bool" where
  fresh: "effect_dedup_reached \<lparr>sy_deduper = NewMemoryEffectDeduper, sy_running = [], sy_succeeded = []\<rparr>"
| stepped: "effect_dedup_reached s \<Longrightarrow> effect_dedup_step s t \<Longrightarrow> effect_dedup_reached t"

definition dedup_sound :: "dedup_system \<Rightarrow> bool" where
  "dedup_sound s \<longleftrightarrow>
     (let d = sy_deduper s in
      (\<forall>key i. map_of (ed_inflight d) key = Some i \<longleftrightarrow> (i, key) \<in> set (sy_running s)) \<and>
      distinct (map fst (sy_running s)) \<and>
      map_of (ed_completed d) = map_of (sy_succeeded s) \<and> distinct (map fst (sy_succeeded s)) \<and>
      (\<forall>(i, key)\<in>set (sy_running s). map_of (sy_succeeded s) key = None \<and> i < ed_next d) \<and>
      (\<forall>i<ed_next d. i \<in> fst ` set (sy_running s) \<or> map_of (ed_results d) i \<noteq> None))"

lemma dedup_sound_called:
  assumes "dedup_sound s" "Enter key (sy_deduper s) = (d, a)"
  shows "dedup_sound (s\<lparr>sy_deduper := d,
      sy_running := (case a of Admitted i \<Rightarrow> (i, key) # sy_running s | _ \<Rightarrow> sy_running s)\<rparr>)"
proof (cases a)
  case (Admitted i)
  then have new: "map_of (ed_completed (sy_deduper s)) key = None" "map_of (ed_inflight (sy_deduper s)) key = None"
      "i = ed_next (sy_deduper s)"
      "d = (sy_deduper s)\<lparr>ed_inflight := AList.update key i (ed_inflight (sy_deduper s)), ed_next := Suc i\<rparr>"
    using assms(2) by (auto simp: Enter_def simp del: map_of_eq_None_iff split: option.splits)
  have "(j, key) \<notin> set (sy_running s)" for j
    using new(2) assms(1) unfolding dedup_sound_def Let_def by (metis option.distinct(1))
  moreover have "i \<notin> fst ` set (sy_running s)" "map_of (sy_succeeded s) key = None"
    using assms(1) new(1,3) by (auto simp: dedup_sound_def Let_def)
  ultimately show ?thesis
    using assms(1) new(3,4) Admitted unfolding dedup_sound_def Let_def
    by (auto simp: update_conv' less_Suc_eq simp del: map_of_eq_None_iff)
qed (use assms in \<open>auto simp: Enter_def split: option.splits\<close>)

lemma dedup_sound_returned:
  assumes "dedup_sound s" "(i, key) \<in> set (sy_running s)"
  shows "dedup_sound (s\<lparr>sy_deduper := Leave key i r (sy_deduper s),
      sy_running := filter (\<lambda>c. c \<noteq> (i, key)) (sy_running s),
      sy_succeeded := (case r of Inr v \<Rightarrow> (key, v) # sy_succeeded s | Inl _ \<Rightarrow> sy_succeeded s)\<rparr>)"
    (is "dedup_sound ?t")
proof -
  let ?d = "sy_deduper s" and ?run = "filter (\<lambda>c. c \<noteq> (i, key)) (sy_running s)"
  note inv = assms(1) [unfolded dedup_sound_def Let_def]
  have keys: "j = i" if "(j, key) \<in> set (sy_running s)" for j
    using that inv assms(2) by (metis option.inject)
  have ids: "k = key" if "(i, k) \<in> set (sy_running s)" for k
    using that inv assms(2) by (metis eq_key_imp_eq_value)
  have none: "map_of (sy_succeeded s) key = None" using inv assms(2) by auto
  have run: "\<forall>k j. map_of (ed_inflight (sy_deduper ?t)) k = Some j \<longleftrightarrow> (j, k) \<in> set (sy_running ?t)"
  proof (intro allI)
    fix k j
    have "map_of (ed_inflight ?d) k = Some j \<longleftrightarrow> (j, k) \<in> set (sy_running s)" using inv by blast
    then show "map_of (ed_inflight (sy_deduper ?t)) k = Some j \<longleftrightarrow> (j, k) \<in> set (sy_running ?t)"
      using keys by (cases "k = key") (auto simp: Leave_def delete_conv')
  qed
  have others: "\<forall>(j, k)\<in>set (sy_running ?t). map_of (sy_succeeded ?t) k = None \<and> j < ed_next (sy_deduper ?t)"
  proof (clarify, goal_cases)
    case (1 j k)
    then have m: "(j, k) \<in> set (sy_running s)" "(j, k) \<noteq> (i, key)" by auto
    then have "k \<noteq> key" using keys by blast
    with m(1) inv show ?case by (auto simp: Leave_def split: sum.split)
  qed
  have results: "\<forall>j<ed_next (sy_deduper ?t). j \<in> fst ` set (sy_running ?t) \<or>
      map_of (ed_results (sy_deduper ?t)) j \<noteq> None"
  proof (intro allI impI)
    fix j assume "j < ed_next (sy_deduper ?t)"
    then have "j \<in> fst ` set (sy_running s) \<or> map_of (ed_results ?d) j \<noteq> None"
      using inv by (simp add: Leave_def)
    then show "j \<in> fst ` set (sy_running ?t) \<or> map_of (ed_results (sy_deduper ?t)) j \<noteq> None"
      by (cases "j = i") (force simp: Leave_def update_conv')+
  qed
  have completed: "map_of (ed_completed (sy_deduper ?t)) = map_of (sy_succeeded ?t)"
    using inv by (simp add: Leave_def update_conv' split: sum.split)
  have once: "distinct (map fst (sy_succeeded ?t))"
    using inv none by (auto simp: map_of_eq_None_iff split: sum.split)
  have "distinct (map fst (sy_running ?t))" using inv by (simp add: distinct_map_filter)
  with run others results completed once show ?thesis unfolding dedup_sound_def Let_def by blast
qed

lemma effect_dedup_reached_sound: "effect_dedup_reached s \<Longrightarrow> dedup_sound s"
proof (induction rule: effect_dedup_reached.induct)
  case fresh
  show ?case by (simp add: dedup_sound_def NewMemoryEffectDeduper_def)
next
  case (stepped s t)
  from stepped(2) stepped(3) show ?case
    by (cases rule: effect_dedup_step.cases) (use dedup_sound_called dedup_sound_returned in blast)+
qed

text \<open>
  C34. However goroutines call the deduper: no two of them execute effects of one identity at the
  same time, no effect succeeds twice or is executed again after it succeeded, a later call is
  answered with the value of the execution that succeeded, and whoever waits for another
  execution waits for one that is under way or has its result.
\<close>

theorem effects_succeed_once:
  assumes "effect_dedup_reached s"
  shows "distinct (map snd (sy_running s)) \<and> distinct (map fst (sy_succeeded s)) \<and>
    (\<forall>(i, key)\<in>set (sy_running s). key \<notin> fst ` set (sy_succeeded s)) \<and>
    (\<forall>key. case snd (Enter key (sy_deduper s)) of
       Completed v \<Rightarrow> (key, v) \<in> set (sy_succeeded s)
     | Joined i \<Rightarrow> (i, key) \<in> set (sy_running s)
     | Admitted i \<Rightarrow> key \<notin> fst ` set (sy_succeeded s) \<and> key \<notin> snd ` set (sy_running s)) \<and>
    (\<forall>i<ed_next (sy_deduper s). i \<in> fst ` set (sy_running s) \<or> map_of (ed_results (sy_deduper s)) i \<noteq> None)"
proof -
  note inv = effect_dedup_reached_sound [OF assms, unfolded dedup_sound_def Let_def]
  have "inj_on snd (set (sy_running s))"
    by (rule inj_onI) (metis inv option.inject prod.collapse)
  then have "distinct (map snd (sy_running s))"
    using inv by (auto simp: distinct_map)
  moreover have "case snd (Enter key (sy_deduper s)) of
       Completed v \<Rightarrow> (key, v) \<in> set (sy_succeeded s)
     | Joined i \<Rightarrow> (i, key) \<in> set (sy_running s)
     | Admitted i \<Rightarrow> key \<notin> fst ` set (sy_succeeded s) \<and> key \<notin> snd ` set (sy_running s)" for key
  proof (cases "map_of (ed_completed (sy_deduper s)) key")
    case None
    then have "key \<notin> fst ` set (sy_succeeded s)" using inv by (simp add: map_of_eq_None_iff)
    moreover have "key \<notin> snd ` set (sy_running s)" if "map_of (ed_inflight (sy_deduper s)) key = None"
      using inv that by force
    ultimately show ?thesis
      using inv None by (auto simp: Enter_def simp del: map_of_eq_None_iff split: option.split)
  next
    case (Some v)
    then have "map_of (sy_succeeded s) key = Some v" using inv by metis
    then show ?thesis by (simp add: Enter_def Some map_of_SomeD)
  qed
  moreover have "\<forall>(i, key)\<in>set (sy_running s). key \<notin> fst ` set (sy_succeeded s)"
    using inv by (fastforce simp: map_of_eq_None_iff)
  ultimately show ?thesis using inv by blast
qed

theorem effects_succeed_once_witness:
  "\<exists>s. effect_dedup_reached s \<and> sy_running s = [(0, ''k'')] \<and> distinct (map snd (sy_running s)) \<and>
     (case snd (Enter ''k'' (sy_deduper s)) of
        Completed v \<Rightarrow> (''k'', v) \<in> set (sy_succeeded s)
      | Joined i \<Rightarrow> (i, ''k'') \<in> set (sy_running s)
      | Admitted i \<Rightarrow> ''k'' \<notin> fst ` set (sy_succeeded s) \<and> ''k'' \<notin> snd ` set (sy_running s))"
proof -
  let ?s0 = "\<lparr>sy_deduper = NewMemoryEffectDeduper, sy_running = [], sy_succeeded = []\<rparr>"
  let ?d = "NewMemoryEffectDeduper\<lparr>ed_inflight := [(''k'', 0)], ed_next := 1\<rparr>"
  have "Enter ''k'' (sy_deduper ?s0) = (?d, Admitted 0)" by (simp add: Enter_def NewMemoryEffectDeduper_def)
  from called [OF _ this] have "effect_dedup_step ?s0 (?s0\<lparr>sy_deduper := ?d, sy_running := [(0, ''k'')]\<rparr>)" by simp
  then have r: "effect_dedup_reached (?s0\<lparr>sy_deduper := ?d, sy_running := [(0, ''k'')]\<rparr>)"
    using stepped fresh by blast
  show ?thesis
    by (intro exI conjI, rule r, simp) (use effects_succeed_once [OF r] in blast)+
qed

end
