(* ===== verification/Routing_Configuration.thy ===== *)
theory Routing_Configuration
  imports Pending_Queue Effects
begin

text \<open>
  The settings a chat command writes: the bindings of group chats and the profile of the bot
  (\<open>internal/application/routing/configuration.go\<close>), and the choice between the two
  (\<open>scoped_configuration.go\<close>). The repository is the store gateway of the desk.
\<close>

section \<open>Ids (domain/routing/configuration.go)\<close>

text \<open>
  \<open>unicode.IsLetter\<close> and \<open>unicode.IsDigit\<close> are tables of the standard library: \<open>wide\<close> is their
  answer for an encoded rune outside ASCII.
\<close>

definition SanitizeBindingIDPart :: "(string \<Rightarrow> bool) \<Rightarrow> string \<Rightarrow> string" where
  "SanitizeBindingIDPart wide value0 =
     (let value = trim value0 in
      if value = [] then ''default''
      else concat (map (\<lambda>r. case r of
             [c] \<Rightarrow> if ascii_alnum c \<or> c \<in> {CHR ''-'', CHR ''_'', CHR ''.''} then r else ''_''
           | _ \<Rightarrow> if wide r then r else ''_'') (runes value)))"

definition DefaultBindingID :: "(string \<Rightarrow> bool) \<Rightarrow> string \<Rightarrow> string \<Rightarrow> string \<Rightarrow> string" where
  "DefaultBindingID wide frontendID chatType chatID =
     ''binding_'' @ SanitizeBindingIDPart wide frontendID @ ''_'' @ SanitizeBindingIDPart wide chatType @ ''_'' @
     SanitizeBindingIDPart wide chatID"

definition ProfileID :: "string \<Rightarrow> string" where
  "ProfileID value0 =
     (let value = trim value0;
          trim_dashes = (\<lambda>s. rev (dropWhile (\<lambda>c. c = CHR ''-'') (rev (dropWhile (\<lambda>c. c = CHR ''-'') s)))) in
      if value = [] then ''default''
      else trim_dashes
             (replace_unsafe (\<lambda>c. ascii_alnum c \<or> c \<in> {CHR ''-'', CHR ''_''}) CHR ''-'' value))"

section \<open>Writes (configuration.go)\<close>

datatype configuration_error =
    InvalidSetting setting_error | GroupOnly | NoBinding | BindingLost string | NoScope
  | NoTier string | WriteFailed scoped_error

record configuration =
  cf_frontend :: string
  cf_wide :: "string \<Rightarrow> bool"

definition update_binding ::
  "('p) disk_ports_scheme \<Rightarrow> AgentBinding \<Rightarrow> (AgentBinding \<Rightarrow> AgentBinding) option \<Rightarrow> Desk
     \<Rightarrow> Desk \<times> (scoped_error + AgentBinding option)" where
  "update_binding p b f = on_app (\<lambda>n. scoped_UpdateAgentBinding (dp_now p n) (dp_io p n) (Some b) f)"

definition update_profile ::
  "('p) disk_ports_scheme \<Rightarrow> BotProfile \<Rightarrow> (BotProfile \<Rightarrow> BotProfile) option \<Rightarrow> Desk
     \<Rightarrow> Desk \<times> (scoped_error + BotProfile option)" where
  "update_profile p b f = on_app (\<lambda>n. scoped_UpdateBotProfile (dp_now p n) (dp_io p n) (Some b) f)"

definition settingValue :: "Setting \<Rightarrow> string \<Rightarrow> string" where
  "settingValue setting value = (if setting = Workspace then trim value else ClearableValue value)"

definition first_binding :: "string \<Rightarrow> string \<Rightarrow> Desk \<Rightarrow> AgentBinding option" where
  "first_binding chatType chatID w =
     (case scoped_AgentBindingsForChat chatType chatID (dk_app w) of [] \<Rightarrow> None | b # _ \<Rightarrow> Some b)"

definition new_AgentBinding :: "configuration \<Rightarrow> string \<Rightarrow> string \<Rightarrow> AgentBinding" where
  "new_AgentBinding c chatType chatID =
     zero_AgentBinding\<lparr>ab_ID := DefaultBindingID (cf_wide c) (cf_frontend c) chatType chatID,
       ab_FrontendID := cf_frontend c, ab_ChatType := chatType, ab_ChatID := chatID,
       ab_Status := ''pending''\<rparr>"

text \<open>
  EnsureBinding returns what the repository read back; that may be nothing, which is a nil binding
  and no error.
\<close>

definition EnsureBinding ::
  "('p) disk_ports_scheme \<Rightarrow> configuration \<Rightarrow> string \<Rightarrow> string \<Rightarrow> Desk
     \<Rightarrow> Desk \<times> (configuration_error + AgentBinding option)" where
  "EnsureBinding p c chatType0 chatID0 w =
     (let chatType = trim chatType0; chatID = trim chatID0 in
      if chatType \<noteq> ''group'' \<or> chatID = [] then (w, Inl GroupOnly)
      else case first_binding chatType chatID w of
        Some b \<Rightarrow> (w, Inr (Some b))
      | None \<Rightarrow>
          (case update_binding p (new_AgentBinding c chatType chatID) None w of
             (w', Inl e) \<Rightarrow> (w', Inl (WriteFailed e))
           | (w', Inr b) \<Rightarrow> (w', Inr b)))"

definition activated :: "AgentBinding \<Rightarrow> AgentBinding" where
  "activated b = (if trim (ab_WorkspaceID b) \<noteq> [] then b\<lparr>ab_Status := ''active''\<rparr> else b)"

definition dec_int :: "int \<Rightarrow> string" where
  "dec_int n = (if n < 0 then CHR ''-'' # dec (nat (- n)) else dec (nat n))"

text \<open>The effect of a changed group binding; its key is the hash of what \<open>key\<close> is applied to.\<close>

definition binding_effects :: "configuration \<Rightarrow> (string \<Rightarrow> string) \<Rightarrow> AgentBinding \<Rightarrow> unit Effect list" where
  "binding_effects c hash b =
     (if equal_fold (trim (ab_ChatType b)) ''group'' then
        [RefreshGroupStatus (cf_frontend c) (ab_ChatID b) ''binding_updated''
           (StableEffectKey hash ''refresh-group-status''
              [cf_frontend c, ab_ID b, dec_int (ab_UpdatedAt b)])]
      else [])"

definition UpdateBinding ::
  "('p) disk_ports_scheme \<Rightarrow> (AgentBinding \<Rightarrow> AgentBinding) option \<Rightarrow> AgentBinding option \<Rightarrow> Desk
     \<Rightarrow> Desk \<times> (configuration_error + AgentBinding)" where
  "UpdateBinding p mutate binding w =
     (case binding of
        None \<Rightarrow> (w, Inl NoBinding)
      | Some b \<Rightarrow>
          (case update_binding p b (Some (\<lambda>x. activated (case mutate of None \<Rightarrow> x | Some f \<Rightarrow> f x))) w of
             (w', Inl e) \<Rightarrow> (w', Inl (WriteFailed e))
           | (w', Inr None) \<Rightarrow> (w', Inl (BindingLost (ab_ID b)))
           | (w', Inr (Some updated)) \<Rightarrow> (w', Inr updated)))"

definition set_or_keep :: "setting_error + 'a \<Rightarrow> 'a \<Rightarrow> 'a" where
  "set_or_keep r old = (case r of Inl _ \<Rightarrow> old | Inr x \<Rightarrow> x)"

definition service_SetBinding ::
  "('p) disk_ports_scheme \<Rightarrow> AgentBinding option \<Rightarrow> Setting \<Rightarrow> string \<Rightarrow> Desk
     \<Rightarrow> Desk \<times> (configuration_error + AgentBinding)" where
  "service_SetBinding p binding setting value w =
     (case SetBinding (Some zero_AgentBinding) setting value of
        Inl e \<Rightarrow> (w, Inl (InvalidSetting e))
      | Inr _ \<Rightarrow>
          UpdateBinding p (Some (\<lambda>b. set_or_keep (SetBinding (Some b) setting (settingValue setting value)) b))
            binding w)"

definition EnsureProfile ::
  "('p) disk_ports_scheme \<Rightarrow> configuration \<Rightarrow> Desk \<Rightarrow> Desk \<times> (scoped_error + BotProfile option)" where
  "EnsureProfile p c w =
     (case scoped_BotProfile (dk_app w) of
        Some profile \<Rightarrow> (w, Inr (Some profile))
      | None \<Rightarrow>
          update_profile p (zero_BotProfile\<lparr>bp_ID := ''bot-profile-'' @ ProfileID (cf_frontend c),
            bp_FrontendID := cf_frontend c\<rparr>) None w)"

text \<open>A profile that was not read back is nil, which the repository refuses to update.\<close>

definition UpdateProfile ::
  "('p) disk_ports_scheme \<Rightarrow> configuration \<Rightarrow> (BotProfile \<Rightarrow> BotProfile) option \<Rightarrow> Desk
     \<Rightarrow> Desk \<times> (scoped_error + BotProfile option)" where
  "UpdateProfile p c mutate w =
     (case EnsureProfile p c w of
        (w1, Inl e) \<Rightarrow> (w1, Inl e)
      | (w1, Inr profile) \<Rightarrow>
          on_app (\<lambda>n. scoped_UpdateBotProfile (dp_now p n) (dp_io p n) profile mutate) w1)"

definition service_SetProfile ::
  "('p) disk_ports_scheme \<Rightarrow> configuration \<Rightarrow> string \<Rightarrow> Setting \<Rightarrow> string \<Rightarrow> Desk
     \<Rightarrow> Desk \<times> (configuration_error + BotProfile option)" where
  "service_SetProfile p c backend setting value w =
     (case SetProfile (Some zero_BotProfile) backend setting value of
        Inl e \<Rightarrow> (w, Inl (InvalidSetting e))
      | Inr _ \<Rightarrow>
          (case UpdateProfile p c
                  (Some (\<lambda>b. set_or_keep (SetProfile (Some b) backend setting (settingValue setting value)) b)) w of
             (w', r) \<Rightarrow> (w', map_sum WriteFailed id r)))"

section \<open>Writes by chat (scoped\_configuration.go)\<close>

type_synonym owner = "AgentBinding option \<times> BotProfile option"

abbreviation FastServiceTier :: string where "FastServiceTier \<equiv> ''fast''"

definition requested_tier :: "string \<Rightarrow> string" where
  "requested_tier value = (if equal_fold (trim value) FastServiceTier then FastServiceTier else [])"

definition ToggleServiceTier :: "string \<Rightarrow> string" where
  "ToggleServiceTier value = (if requested_tier value = FastServiceTier then [] else FastServiceTier)"

definition IsGroup :: "string \<Rightarrow> string \<Rightarrow> bool" where
  "IsGroup chatType chatID \<longleftrightarrow> to_lower (trim chatType) = ''group'' \<and> trim chatID \<noteq> []"

definition scoped_Set ::
  "('p) disk_ports_scheme \<Rightarrow> configuration \<Rightarrow> string \<Rightarrow> string \<times> string \<Rightarrow> Setting \<Rightarrow> string \<Rightarrow> Desk
     \<Rightarrow> Desk \<times> (configuration_error + owner)" where
  "scoped_Set p c backend scope setting value w =
     (case scope of (chatType, chatID) \<Rightarrow>
        if IsGroup chatType chatID then
          (case EnsureBinding p c (to_lower (trim chatType)) (trim chatID) w of
             (w1, Inl e) \<Rightarrow> (w1, Inl e)
           | (w1, Inr binding) \<Rightarrow>
               (case service_SetBinding p binding setting value w1 of
                  (w2, r) \<Rightarrow> (w2, map_sum id (\<lambda>b. (Some b, None)) r)))
        else if trim chatID = [] then (w, Inl NoScope)
        else (case service_SetProfile p c backend setting value w of
                (w1, r) \<Rightarrow> (w1, map_sum id (\<lambda>profile. (None, profile)) r)))"

definition scoped_Ensure ::
  "('p) disk_ports_scheme \<Rightarrow> configuration \<Rightarrow> string \<times> string \<Rightarrow> Desk \<Rightarrow> Desk \<times> (configuration_error + owner)" where
  "scoped_Ensure p c scope w =
     (case scope of (chatType, chatID) \<Rightarrow>
        if IsGroup chatType chatID then
          (case EnsureBinding p c (to_lower (trim chatType)) (trim chatID) w of
             (w1, r) \<Rightarrow> (w1, map_sum id (\<lambda>b. (b, None)) r))
        else if trim chatID = [] then (w, Inl NoScope)
        else (case EnsureProfile p c w of (w1, r) \<Rightarrow> (w1, map_sum WriteFailed (\<lambda>b. (None, b)) r)))"

definition ChangeServiceTier ::
  "('p) disk_ports_scheme \<Rightarrow> configuration \<Rightarrow> string \<Rightarrow> string \<times> string \<Rightarrow> string \<Rightarrow> bool \<Rightarrow> Desk
     \<Rightarrow> Desk \<times> (configuration_error + owner)" where
  "ChangeServiceTier p c backend scope value toggle w =
     (case scope of (chatType, chatID) \<Rightarrow>
        if \<not> toggle then
          let requested = to_lower (trim value); tier = requested_tier requested in
          if requested \<noteq> [] \<and> requested \<noteq> ''off'' \<and> requested \<noteq> ''default'' \<and> tier = []
          then (w, Inl (NoTier requested))
          else scoped_Set p c backend scope ServiceTier tier w
        else if IsGroup chatType chatID then
          (case EnsureBinding p c (to_lower (trim chatType)) (trim chatID) w of
             (w1, Inl e) \<Rightarrow> (w1, Inl e)
           | (w1, Inr binding) \<Rightarrow>
               (case UpdateBinding p (Some (\<lambda>b. b\<lparr>ab_ServiceTierOverride := ToggleServiceTier (ab_ServiceTierOverride b)\<rparr>))
                       binding w1 of
                  (w2, r) \<Rightarrow> (w2, map_sum id (\<lambda>b. (Some b, None)) r)))
        else if trim chatID = [] then (w, Inl NoScope)
        else
          (case UpdateProfile p c (Some (\<lambda>b. b\<lparr>bp_ServiceTier := ToggleServiceTier (bp_ServiceTier b)\<rparr>)) w of
             (w1, r) \<Rightarrow> (w1, map_sum WriteFailed (\<lambda>b. (None, b)) r)))"

end
