(* ===== verification/Workspace_Selection.thy ===== *)
theory Workspace_Selection
  imports Routing_Configuration
begin

text \<open>
  Which workspace a conversation works in: the selection records of
  \<open>internal/application/workspace/selection.go\<close> over the store gateway
  (\<open>adapter/storage/json/scoped/workspace_selection.go\<close>), and the choice for a message
  (\<open>internal/feishuapp/workspace_selection.go\<close>).
\<close>

section \<open>Selection records (selection.go)\<close>

record selection =
  sl_Frontend :: string
  sl_DefaultWorkspaceID :: string

definition SelectionKey :: "string \<Rightarrow> string \<Rightarrow> string \<Rightarrow> string \<Rightarrow> string" where
  "SelectionKey frontend chatType0 chatID0 userID0 =
     (let chatType = to_lower (trim chatType0); chatID = trim chatID0; userID = trim userID0 in
      if chatType = [] \<or> chatID = [] \<or> chatType \<noteq> ''group'' \<and> userID = [] then []
      else ''feishu:'' @ (if trim frontend \<noteq> [] then ''frontend:'' @ trim frontend @ '':'' else []) @
           chatType @ '':'' @ chatID @ '':workspace'' @ (if chatType \<noteq> ''group'' then '':'' @ userID else []))"

text \<open>The record of a selection is read from the store as it is, without the gateway's aliases.\<close>

definition selected_session :: "string \<Rightarrow> Desk \<Rightarrow> Session option" where
  "selected_session key w = of_store None (\<lambda>st. GetSession st key) (dk_app w)"

definition own_selection :: "selection \<Rightarrow> string \<Rightarrow> string \<Rightarrow> string \<Rightarrow> Desk \<Rightarrow> string" where
  "own_selection sl chatType chatID userID w =
     (let key = SelectionKey (sl_Frontend sl) chatType chatID userID in
      if key = [] then []
      else case selected_session key w of None \<Rightarrow> [] | Some s \<Rightarrow> trim (ss_WorkspaceID s))"

definition Resolve_selection ::
  "selection \<Rightarrow> string \<Rightarrow> string \<Rightarrow> string \<Rightarrow> Session option \<Rightarrow> Desk \<Rightarrow> string" where
  "Resolve_selection sl chatType chatID userID fallback w =
     (let own = own_selection sl chatType chatID userID w;
          profile = (case scoped_BotProfile (dk_app w) of None \<Rightarrow> [] | Some p \<Rightarrow> trim (bp_WorkspaceID p));
          fb = (case fallback of None \<Rightarrow> [] | Some s \<Rightarrow> trim (ss_WorkspaceID s)) in
      if own \<noteq> [] then own
      else if chatType \<noteq> [] \<and> \<not> equal_fold (trim chatType) ''group'' \<and> profile \<noteq> [] then profile
      else if fb \<noteq> [] then fb
      else if trim (sl_DefaultWorkspaceID sl) \<noteq> [] then trim (sl_DefaultWorkspaceID sl)
      else ''default'')"

definition ResolveSession_selection :: "selection \<Rightarrow> Session option \<Rightarrow> Desk \<Rightarrow> string" where
  "ResolveSession_selection sl session w =
     (case session of
        None \<Rightarrow> Resolve_selection sl [] [] [] None w
      | Some s \<Rightarrow> Resolve_selection sl (ss_ChatType s) (ss_ChatID s) (ss_OwnerUserID s) session w)"

definition BindingWorkspace :: "string \<Rightarrow> Session option \<Rightarrow> Desk \<Rightarrow> string" where
  "BindingWorkspace sessionKey session w =
     (let of_session = (\<lambda>f. case session of None \<Rightarrow> [] | Some s \<Rightarrow> trim (f s));
          (_, keyType, keyChat, _, _) = ParseSessionKey sessionKey;
          chatType0 = (if of_session ss_ChatType = [] then keyType else of_session ss_ChatType);
          chatID = (if of_session ss_ChatID = [] then keyChat else of_session ss_ChatID);
          bindingID = of_session ss_BindingID;
          chatType = (if chatType0 = [] \<and> chatID \<noteq> [] \<and> scoped_AgentBindingsForChat ''group'' chatID (dk_app w) \<noteq> []
                      then ''group'' else chatType0) in
      if \<not> equal_fold chatType ''group'' \<or> chatID = [] then []
      else
        let bindings = scoped_AgentBindingsForChat chatType chatID (dk_app w) in
        case (if bindingID = [] then None else find (\<lambda>b. trim (ab_ID b) = bindingID) bindings) of
          Some b \<Rightarrow> trim (ab_WorkspaceID b)
        | None \<Rightarrow>
            (case find (\<lambda>b. trim (ab_WorkspaceID b) \<noteq> []) bindings of
               Some b \<Rightarrow> trim (ab_WorkspaceID b) | None \<Rightarrow> []))"

text \<open>
  The records to save when a workspace is chosen: the selection, and for a private chat the
  profile. \<open>conversation.CloneSession\<close> copies the record as it is.
\<close>

definition selected_record :: "string \<Rightarrow> string \<Rightarrow> string \<Rightarrow> string \<Rightarrow> string \<Rightarrow> Session option \<Rightarrow> Session" where
  "selected_record key chatType chatID userID workspaceID session =
     (let s = (case session of Some s \<Rightarrow> s | None \<Rightarrow> zero_Session\<lparr>ss_Key := key, ss_Status := SessionStatusIdle\<rparr>) in
      s\<lparr>ss_ChatType := trim chatType, ss_ChatID := trim chatID,
        ss_OwnerUserID := (if equal_fold (trim chatType) ''group'' then [] else trim userID),
        ss_WorkspaceID := workspaceID,
        ss_Status := (if trim (ss_Status s) = [] then SessionStatusIdle else trim (ss_Status s)),
        ss_RecentWorkspaceIDs := workspaceID # filter (\<lambda>i. trim i \<noteq> workspaceID) (ss_RecentWorkspaceIDs s)\<rparr>)"

definition selected_profile :: "selection \<Rightarrow> string \<Rightarrow> Desk \<Rightarrow> BotProfile" where
  "selected_profile sl workspaceID w =
     (let frontend = (if sl_Frontend sl = [] then ''default'' else sl_Frontend sl);
          profile = (case scoped_BotProfile (dk_app w) of
             Some p \<Rightarrow> p
           | None \<Rightarrow> zero_BotProfile\<lparr>bp_ID := ''bot-profile-'' @ ProfileID frontend, bp_FrontendID := frontend\<rparr>) in
      profile\<lparr>bp_WorkspaceID := workspaceID\<rparr>)"

definition selection_transition ::
  "selection \<Rightarrow> string \<Rightarrow> string \<Rightarrow> string \<Rightarrow> string \<Rightarrow> Desk \<Rightarrow> (Session \<times> BotProfile option) option" where
  "selection_transition sl chatType chatID userID workspaceID0 w =
     (let workspaceID = trim workspaceID0; key = SelectionKey (sl_Frontend sl) chatType chatID userID in
      if workspaceID = [] \<or> key = [] then None
      else
        let s = selected_record key chatType chatID userID workspaceID (selected_session key w) in
        Some (s, if equal_fold (ss_ChatType s) ''group'' then None else Some (selected_profile sl workspaceID w)))"

text \<open>SetProfileWorkspace writes the profile by the use case of theory Routing\_Configuration.\<close>

definition Select ::
  "('p) disk_ports_scheme \<Rightarrow> selection \<Rightarrow> string \<Rightarrow> string \<Rightarrow> string \<Rightarrow> string \<Rightarrow> Desk
     \<Rightarrow> Desk \<times> scoped_error option" where
  "Select p sl chatType chatID userID workspaceID w =
     (case selection_transition sl chatType chatID userID workspaceID w of
        None \<Rightarrow> (w, None)
      | Some (s, profile) \<Rightarrow>
          (case on_app (\<lambda>n. on_store None (\<lambda>st. case UpsertSession (dp_now p n) (dp_io p n) st (Some s) of
                  (st', e) \<Rightarrow> (st', map_option StoreError e))) w of
             (w1, Some e) \<Rightarrow> (w1, Some e)
           | (w1, None) \<Rightarrow>
               if profile = None \<or> sc_store (dk_app w1) = None then (w1, None)
               else
                 (case UpdateProfile p
                         \<lparr>cf_frontend = scope_or_default (dk_app w1), cf_wide = (\<lambda>_. False)\<rparr>
                         (Some (\<lambda>b. b\<lparr>bp_WorkspaceID := workspaceID\<rparr>)) w1 of
                    (w2, Inl e) \<Rightarrow> (w2, Some e)
                  | (w2, Inr _) \<Rightarrow> (w2, None))))"

section \<open>The workspace of a message (feishuapp/workspace\_selection.go)\<close>

definition agentBindingForSession :: "Session option \<Rightarrow> Desk \<Rightarrow> AgentBinding option" where
  "agentBindingForSession session w =
     (case session of
        None \<Rightarrow> None
      | Some s \<Rightarrow> if trim (ss_BindingID s) = [] then None else scoped_AgentBinding (trim (ss_BindingID s)) (dk_app w))"

definition agentBindingForChat :: "string \<Rightarrow> string \<Rightarrow> Desk \<Rightarrow> AgentBinding option" where
  "agentBindingForChat chatType chatID w = first_binding chatType chatID w"

definition resolveThreadWorkspaceID :: "Session option \<Rightarrow> string \<Rightarrow> string" where
  "resolveThreadWorkspaceID session fallback =
     (case session of
        None \<Rightarrow> trim fallback
      | Some s \<Rightarrow> FirstNonEmpty [trim (ss_ActiveThreadWorkspaceID s), trim (ss_WorkspaceID s), trim fallback])"

definition resolveWorkspaceSelectionForMessage ::
  "selection \<Rightarrow> InboundMessage option \<Rightarrow> Session option \<Rightarrow> Desk \<Rightarrow> string" where
  "resolveWorkspaceSelectionForMessage sl message fallback w =
     (case message of
        None \<Rightarrow> Resolve_selection sl [] [] [] fallback w
      | Some msg \<Rightarrow> Resolve_selection sl (im_ChatType msg) (im_ChatID msg) (im_UserID msg) fallback w)"

definition resolveSubmissionWorkspaceID ::
  "selection \<Rightarrow> InboundMessage option \<Rightarrow> Session option \<Rightarrow> bool \<Rightarrow> Desk \<Rightarrow> string" where
  "resolveSubmissionWorkspaceID sl message session bindOnlyCurrentRoot w =
     (let thread = (case session of None \<Rightarrow> [] | Some s \<Rightarrow> trim (ss_ActiveThreadWorkspaceID s)) in
      case agentBindingForSession session w of
        Some b \<Rightarrow> if bindOnlyCurrentRoot \<and> thread \<noteq> [] then thread else trim (ab_WorkspaceID b)
      | None \<Rightarrow>
          if bindOnlyCurrentRoot
          then FirstNonEmpty [resolveThreadWorkspaceID session [],
                 resolveWorkspaceSelectionForMessage sl message session w, sl_DefaultWorkspaceID sl]
          else FirstNonEmpty [resolveWorkspaceSelectionForMessage sl message session w,
                 (case session of None \<Rightarrow> [] | Some s \<Rightarrow> trim (ss_WorkspaceID s)), sl_DefaultWorkspaceID sl])"

end
