(* ===== verification/Interaction_Service.thy ===== *)
theory Interaction_Service
  imports Scoped_Store Interaction
begin

text \<open>
  The use cases of human interactions: \<open>internal/application/interaction\<close> (\<open>service.go\<close>,
  \<open>lifecycle.go\<close>, \<open>delivery.go\<close>, \<open>forms.go\<close>) over the pending requests of the store, with the
  repository of \<open>internal/adapter/storage/json/interaction.go\<close>.

  The clock is the argument \<open>now\<close>. What a presenter delivers and what encoding a payload gives
  are arguments too: a message id or an error, a text or an error. Lifetimes are seconds.
\<close>

section \<open>The repository (interaction.go of the storage adapter)\<close>

definition requestFromDTO :: "PendingRequest \<Rightarrow> Request" where
  "requestFromDTO req =
     \<lparr>rq_ID = pr_ID req, rq_Backend = pr_Backend req, rq_Kind = pr_Kind req, rq_Status = pr_Status req,
      rq_SessionKey = pr_SessionKey req, rq_ThreadID = pr_ThreadID req, rq_TurnID = pr_TurnID req\<rparr>"

definition DTO_IsPendingRequestOpen :: "PendingRequest option \<Rightarrow> bool" where
  "DTO_IsPendingRequestOpen req = (case req of None \<Rightarrow> False | Some r \<Rightarrow> IsPendingRequestOpen (pr_Status r))"

text \<open>
  The transition runs on the request the store has; its result, with what else the transition
  reports, is what the caller gets. A missing request is no error.
\<close>

definition UpdateRequest ::
  "string \<Rightarrow> (Request \<Rightarrow> Request \<times> 'a) \<Rightarrow> ScopedStore \<Rightarrow> ScopedStore \<times> (Request \<times> 'a) option" where
  "UpdateRequest id0 transition s =
     (let i = trim id0 in
      case sc_store s of
        None \<Rightarrow> (s, None)
      | Some st \<Rightarrow>
          if i = [] then (s, None)
          else case PendingByScopedID st (sc_frontendID s) i of
            None \<Rightarrow> (s, None)
          | Some req \<Rightarrow>
              let result = transition (requestFromDTO req) in
              (fst (UpdatePending i (\<lambda>r. r\<lparr>pr_Status := rq_Status (fst (transition (requestFromDTO r)))\<rparr>) s),
               Some result))"

definition Requests :: "ScopedStore \<Rightarrow> Request list" where
  "Requests s =
     of_store [] (\<lambda>st. map requestFromDTO
       (filter (\<lambda>r. trim (pr_FrontendID r) = sc_frontendID s) (AllPendingRequests st))) s"

section \<open>Replies and resolutions (service.go)\<close>

definition service_ReplyAccepted :: "string \<Rightarrow> ScopedStore \<Rightarrow> ScopedStore \<times> Request option" where
  "service_ReplyAccepted i s =
     (case UpdateRequest i (\<lambda>r. (ReplyAccepted r, ())) s of
        (s', r) \<Rightarrow> (s', map_option fst r))"

definition HasOpenRequest :: "string \<Rightarrow> string \<Rightarrow> string \<Rightarrow> ScopedStore \<Rightarrow> bool" where
  "HasOpenRequest threadID turnID excludeID s =
     (\<exists>r\<in>set (Requests s). BlocksResume r threadID turnID excludeID)"

text \<open>\<open>find_sub\<close> is the lookup of the submission a turn belongs to.\<close>

definition ResumeSubmission ::
  "int \<Rightarrow> (string \<Rightarrow> string \<Rightarrow> Submission option) \<Rightarrow> Request option \<Rightarrow> ScopedStore
     \<Rightarrow> ScopedStore \<times> store_error option" where
  "ResumeSubmission now find_sub request s =
     (case request of
        None \<Rightarrow> (s, None)
      | Some r \<Rightarrow>
          if HasOpenRequest (rq_ThreadID r) (rq_TurnID r) (rq_ID r) s then (s, None)
          else case find_sub (rq_ThreadID r) (rq_TurnID r) of
            None \<Rightarrow> (s, None)
          | Some sub \<Rightarrow> SetSubmissionStatus now (sub_ID sub) SubmissionStatusRunning s)"

definition FinalizeReply ::
  "int \<Rightarrow> (string \<Rightarrow> string \<Rightarrow> Submission option) \<Rightarrow> string \<Rightarrow> ScopedStore
     \<Rightarrow> ScopedStore \<times> Request option \<times> store_error option" where
  "FinalizeReply now find_sub i s =
     (case UpdateRequest i
             (\<lambda>r. if equal_fold (trim (rq_Backend r)) ''claude'' \<or> \<not> IsServerResolvedPendingKind (rq_Kind r)
                  then (case Resolved r of (next_r, didChange) \<Rightarrow> (next_r, True, didChange))
                  else (ReplyAccepted r, False, False)) s of
        (s', None) \<Rightarrow> (s', None, None)
      | (s', Some (r, local_end, changed)) \<Rightarrow>
          if \<not> local_end \<or> \<not> changed then (s', Some r, None)
          else case ResumeSubmission now find_sub (Some r) s' of (s2, e) \<Rightarrow> (s2, Some r, e))"

definition service_Resolve :: "string \<Rightarrow> ScopedStore \<Rightarrow> ScopedStore \<times> Request option" where
  "service_Resolve i s =
     (case UpdateRequest i Resolved s of
        (s', Some (r, True)) \<Rightarrow> (s', Some r)
      | (s', _) \<Rightarrow> (s', None))"

definition ResolveAndResume ::
  "int \<Rightarrow> (string \<Rightarrow> string \<Rightarrow> Submission option) \<Rightarrow> string \<Rightarrow> ScopedStore
     \<Rightarrow> ScopedStore \<times> Request option \<times> store_error option" where
  "ResolveAndResume now find_sub i s =
     (case service_Resolve i s of
        (s', r) \<Rightarrow> (case ResumeSubmission now find_sub r s' of (s2, e) \<Rightarrow> (s2, r, e)))"

section \<open>Expiry (lifecycle.go)\<close>

definition expiry_applies ::
  "string \<Rightarrow> string \<Rightarrow> string \<Rightarrow> string list \<Rightarrow> PendingRequest \<Rightarrow> bool" where
  "expiry_applies frontend backend sessionKey ids req =
     (let wanted = filter (\<lambda>i. i \<noteq> []) (map trim ids) in
      equal_fold (trim (pr_Backend req)) backend \<and> IsPendingRequestOpen (pr_Status req) \<and>
      (sessionKey = [] \<or>
         CanonicalSessionKey frontend (pr_SessionKey req) = CanonicalSessionKey frontend sessionKey) \<and>
      (wanted = [] \<or> trim (pr_ID req) \<in> set wanted))"

text \<open>One request: it expires if it is still open when the update reaches it.\<close>

definition expire_one :: "PendingRequest \<Rightarrow> ScopedStore \<Rightarrow> ScopedStore \<times> PendingRequest list" where
  "expire_one req s =
     (let still_open = (case scoped_Pending (pr_ID req) s of
                          Some cur \<Rightarrow> IsPendingRequestOpen (pr_Status cur) | None \<Rightarrow> False) in
      case UpdatePending (pr_ID req)
             (\<lambda>cur. if IsPendingRequestOpen (pr_Status cur)
                        then cur\<lparr>pr_Status := ''expired''\<rparr> else cur) s of
        (s', None) \<Rightarrow> (s', if still_open then [req\<lparr>pr_Status := ''expired''\<rparr>] else [])
      | (s', Some e) \<Rightarrow> (s', []))"

fun expire_list :: "PendingRequest list \<Rightarrow> ScopedStore \<Rightarrow> ScopedStore \<times> PendingRequest list" where
  "expire_list [] s = (s, [])"
| "expire_list (r # rs) s =
     (case expire_one r s of (s1, a) \<Rightarrow> (case expire_list rs s1 of (s2, b) \<Rightarrow> (s2, a @ b)))"

definition Expire ::
  "string \<Rightarrow> string \<Rightarrow> string \<Rightarrow> string list \<Rightarrow> ScopedStore \<Rightarrow> ScopedStore \<times> PendingRequest list" where
  "Expire frontend backend sessionKey ids s =
     expire_list (filter (expiry_applies frontend backend sessionKey ids) (scoped_PendingRequests s)) s"

definition LatestTextRequest ::
  "string \<Rightarrow> string \<Rightarrow> string \<Rightarrow> string list \<Rightarrow> ScopedStore \<Rightarrow> PendingRequest option" where
  "LatestTextRequest frontend sessionKey userID kinds s =
     fold (\<lambda>req best.
             if pr_Status req \<noteq> ''pending'' \<or> pr_Kind req \<notin> set kinds \<or>
                CanonicalSessionKey frontend (pr_SessionKey req) \<noteq> CanonicalSessionKey frontend sessionKey
             then best
             else if pr_OwnerUserID req \<noteq> [] \<and> pr_OwnerUserID req \<noteq> userID then best
             else case best of
               None \<Rightarrow> Some req
             | Some b \<Rightarrow> if pr_CreatedAt req > pr_CreatedAt b then Some req else best)
       (scoped_PendingRequests s) None"

section \<open>Delivery (delivery.go)\<close>

record DeliveryInput =
  di_Request :: PendingRequest
  di_SubmissionID :: string
  di_WaitingStatus :: string
  di_NonBlocking :: bool
  di_TTL :: int

datatype interaction_error =
    MissingRequestID | MissingWaitingStatus | EmptyMessageID | DeliveryFailed string
  | InteractionStore store_error

text \<open>The second half: the card is delivered unless it was, and linked to the turn.\<close>

definition deliver_request ::
  "(DeliveryInput \<Rightarrow> string + string) \<Rightarrow> DeliveryInput \<Rightarrow> PendingRequest \<Rightarrow> ScopedStore
     \<Rightarrow> ScopedStore \<times> interaction_error option" where
  "deliver_request deliver input req s =
     (let link = (\<lambda>i s. (SaveMessageLink (Some
            \<lparr>ml_FrontendID = [], ml_Backend = pr_Backend req, ml_MessageID = i,
             ml_SessionKey = pr_SessionKey req, ml_SubmissionID = di_SubmissionID input,
             ml_ThreadID = pr_ThreadID req, ml_TurnID = pr_TurnID req\<rparr>) s, None));
          known = trim (pr_FeishuMsgID req) in
      if known \<noteq> [] then link known s
      else case deliver (input\<lparr>di_Request := req\<rparr>) of
        Inl e \<Rightarrow> (s, Some (DeliveryFailed e))
      | Inr sent \<Rightarrow>
          let i = trim sent in
          if i = [] then (s, Some EmptyMessageID)
          else case UpdatePending (pr_ID req) (\<lambda>cur. cur\<lparr>pr_FeishuMsgID := i\<rparr>) s of
            (s', Some e) \<Rightarrow> (s', Some (InteractionStore e))
          | (s', None) \<Rightarrow> link i s')"

definition await_submission :: "int \<Rightarrow> DeliveryInput \<Rightarrow> ScopedStore \<Rightarrow> ScopedStore \<times> store_error option" where
  "await_submission now input s =
     (if di_WaitingStatus input \<noteq> [] \<and> di_SubmissionID input \<noteq> []
      then SetSubmissionStatus now (di_SubmissionID input) (di_WaitingStatus input) s else (s, None))"

definition proceed_delivery ::
  "int \<Rightarrow> (DeliveryInput \<Rightarrow> string + string) \<Rightarrow> DeliveryInput \<Rightarrow> PendingRequest \<Rightarrow> ScopedStore
     \<Rightarrow> ScopedStore \<times> interaction_error option" where
  "proceed_delivery now deliver input req s =
     (case await_submission now input s of
        (s', Some e) \<Rightarrow> (s', Some (InteractionStore e))
      | (s', None) \<Rightarrow> deliver_request deliver input req s')"

definition Open_interaction ::
  "int \<Rightarrow> string option \<Rightarrow> (DeliveryInput \<Rightarrow> string + string) \<Rightarrow> DeliveryInput \<Rightarrow> ScopedStore
     \<Rightarrow> ScopedStore \<times> interaction_error option" where
  "Open_interaction now io deliver input0 s =
     (let req0 = (di_Request input0)\<lparr>pr_ID := trim (pr_ID (di_Request input0))\<rparr>;
          input = input0\<lparr>di_WaitingStatus := trim (di_WaitingStatus input0)\<rparr> in
      if pr_ID req0 = [] then (s, Some MissingRequestID)
      else if di_WaitingStatus input = [] \<and> \<not> di_NonBlocking input then (s, Some MissingWaitingStatus)
      else case scoped_Pending (pr_ID req0) s of
        Some existing \<Rightarrow>
          if trim (pr_Status existing) \<noteq> ''pending'' then (s, None)
          else if pr_ExpiresAt existing > 0 \<and> pr_ExpiresAt existing \<le> now
          then (case UpdatePending (pr_ID req0) (\<lambda>cur. cur\<lparr>pr_Status := ''expired''\<rparr>) s of
                  (s', e) \<Rightarrow> (s', map_option InteractionStore e))
          else proceed_delivery now deliver input existing s
      | None \<Rightarrow>
          let ttl = (if di_TTL input \<le> 0 then 1800 else di_TTL input);
              req = req0\<lparr>pr_Status := ''pending'', pr_CreatedAt := now, pr_ExpiresAt := now + ttl\<rparr> in
          proceed_delivery now deliver input req (SavePending now io (Some req) s))"

section \<open>Local forms (forms.go)\<close>

datatype form_error =
    FormExpired | NotAllowed | BackendInteraction | InvalidTransition string | FormMissing
  | FormClosed | AlreadyProcessing | NotProcessing | EncodingFailed string | FormStore store_error

definition Open_form ::
  "int \<Rightarrow> string \<Rightarrow> string option \<Rightarrow> string \<Rightarrow> PendingRequest \<Rightarrow> string + string \<Rightarrow> int \<Rightarrow> ScopedStore
     \<Rightarrow> ScopedStore \<times> (form_error + PendingRequest option)" where
  "Open_form now stamp io name request encoded lifetime0 s =
     (case encoded of
        Inl e \<Rightarrow> (s, Inl (EncodingFailed e))
      | Inr payload \<Rightarrow>
          (case scoped_NextLocalID stamp name s of
             (s1, i) \<Rightarrow>
               let lifetime = (if lifetime0 \<le> 0 then 1800 else lifetime0);
                   req = request\<lparr>pr_ID := i, pr_PayloadJSON := payload, pr_Status := ''pending'',
                                 pr_CreatedAt := now, pr_ExpiresAt := now + lifetime\<rparr>;
                   s2 = SavePending now io (Some req) s1 in
               (s2, Inr (scoped_Pending i s2))))"

definition lapsed :: "int \<Rightarrow> PendingRequest \<Rightarrow> bool" where
  "lapsed now req \<longleftrightarrow> pr_ExpiresAt req > 0 \<and> pr_ExpiresAt req \<le> now"

definition owned_by_other :: "string \<Rightarrow> PendingRequest \<Rightarrow> bool" where
  "owned_by_other userID req \<longleftrightarrow> pr_OwnerUserID req \<noteq> [] \<and> pr_OwnerUserID req \<noteq> userID"

definition backend_owned :: "PendingRequest \<Rightarrow> bool" where
  "backend_owned req \<longleftrightarrow>
     IsServerResolvedPendingKind (pr_Kind req) \<or> IsClaudeInteractiveKind (pr_Kind req) \<or>
     pr_Kind req = ''async_user_input''"

definition Authorize ::
  "int \<Rightarrow> string \<Rightarrow> string \<Rightarrow> string \<Rightarrow> ScopedStore \<Rightarrow> form_error + PendingRequest" where
  "Authorize now i kind userID s =
     (case scoped_Pending (trim i) s of
        None \<Rightarrow> Inl FormExpired
      | Some request \<Rightarrow>
          if pr_Kind request \<noteq> kind \<or> pr_Status request \<noteq> ''pending'' \<or> lapsed now request then Inl FormExpired
          else if owned_by_other userID request then Inl NotAllowed
          else Inr request)"

text \<open>The callback of Transition: what it refuses, and the request it writes.\<close>

definition transition_refuses ::
  "int \<Rightarrow> string \<Rightarrow> string \<Rightarrow> string \<Rightarrow> string \<Rightarrow> PendingRequest \<Rightarrow> form_error option" where
  "transition_refuses now kind userID expected next_status cur =
     (if pr_Kind cur \<noteq> kind \<or> trim (pr_Status cur) \<noteq> expected \<or> lapsed now cur then Some FormExpired
      else if owned_by_other userID cur then Some NotAllowed
      else if backend_owned cur then Some BackendInteraction
      else if next_status \<noteq> ''processing'' \<and> next_status \<noteq> ''resolved''
      then Some (InvalidTransition next_status)
      else None)"

definition transition_write :: "string \<Rightarrow> string \<Rightarrow> PendingRequest \<Rightarrow> PendingRequest" where
  "transition_write next_status messageID cur =
     (let a = cur\<lparr>pr_Status := next_status\<rparr> in
      if pr_FeishuMsgID a = [] then a\<lparr>pr_FeishuMsgID := messageID\<rparr> else a)"

definition Transition ::
  "int \<Rightarrow> string \<Rightarrow> string \<Rightarrow> string \<Rightarrow> string \<Rightarrow> string \<Rightarrow> string \<Rightarrow> ScopedStore
     \<Rightarrow> ScopedStore \<times> (form_error + PendingRequest)" where
  "Transition now i kind userID expected next_status messageID s =
     (let before = scoped_Pending (trim i) s in
      case UpdatePending (trim i)
             (\<lambda>cur. if transition_refuses now kind userID expected next_status cur = None
                    then transition_write next_status messageID cur else cur) s of
        (s', Some e) \<Rightarrow> (s', Inl (FormStore e))
      | (s', None) \<Rightarrow>
          (case before of
             None \<Rightarrow> (s', Inl FormMissing)
           | Some cur \<Rightarrow>
               (case transition_refuses now kind userID expected next_status cur of
                  Some e \<Rightarrow> (s', Inl e)
                | None \<Rightarrow> (s', Inr cur))))"

definition draft_refuses :: "int \<Rightarrow> string \<Rightarrow> PendingRequest \<Rightarrow> form_error option" where
  "draft_refuses now status cur =
     (let phase = trim (pr_Status cur) in
      if backend_owned cur then Some BackendInteraction
      else if lapsed now cur \<and> status \<noteq> ''expired'' then Some FormExpired
      else if phase = ''resolved'' \<or> phase = ''expired'' then Some FormClosed
      else if status = ''processing'' \<and> phase \<noteq> ''pending'' \<and> phase \<noteq> [] then Some AlreadyProcessing
      else if status = ''cancelling'' \<and> phase \<noteq> ''processing'' then Some NotProcessing
      else if status \<noteq> [] \<and> status \<noteq> ''pending'' \<and> status \<noteq> ''processing'' \<and> status \<noteq> ''cancelling'' \<and>
              status \<noteq> ''resolved'' \<and> status \<noteq> ''expired'' then Some (InvalidTransition status)
      else None)"

definition draft_write ::
  "int \<Rightarrow> string option \<Rightarrow> string \<Rightarrow> int \<Rightarrow> string \<Rightarrow> PendingRequest \<Rightarrow> PendingRequest" where
  "draft_write now payload status lifetime messageID cur =
     (let a = (case payload of Some p \<Rightarrow> cur\<lparr>pr_PayloadJSON := p\<rparr> | None \<Rightarrow> cur);
          b = (if status \<noteq> [] then a\<lparr>pr_Status := status\<rparr> else a);
          c = (if lifetime > 0 then b\<lparr>pr_ExpiresAt := now + lifetime\<rparr> else b) in
      if pr_FeishuMsgID c = [] \<and> messageID \<noteq> [] then c\<lparr>pr_FeishuMsgID := messageID\<rparr> else c)"

text \<open>\<open>payload\<close> is no payload, or the outcome of its encoding.\<close>

definition SaveDraft ::
  "int \<Rightarrow> string \<Rightarrow> (string + string) option \<Rightarrow> string \<Rightarrow> int \<Rightarrow> string \<Rightarrow> ScopedStore
     \<Rightarrow> ScopedStore \<times> form_error option" where
  "SaveDraft now i payload status lifetime messageID s =
     (case payload of
        Some (Inl e) \<Rightarrow> (s, Some (EncodingFailed e))
      | _ \<Rightarrow>
          let encoded = (case payload of Some (Inr p) \<Rightarrow> Some p | _ \<Rightarrow> None);
              before = scoped_Pending i s in
          (case UpdatePending i
                  (\<lambda>cur. if draft_refuses now status cur = None
                         then draft_write now encoded status lifetime messageID cur else cur) s of
             (s', Some e) \<Rightarrow> (s', Some (FormStore e))
           | (s', None) \<Rightarrow> (s', case before of None \<Rightarrow> None | Some cur \<Rightarrow> draft_refuses now status cur)))"

section \<open>What an operation does to one request\<close>

lemma pendingStoreKey_inject:
  "trim i \<noteq> [] \<Longrightarrow> pendingStoreKey f i = pendingStoreKey f j \<longleftrightarrow> trim i = trim j"
  by (auto simp: pendingStoreKey_def Let_def)

lemma on_store_scope [simp]:
  "sc_frontendID (fst (on_store none f s)) = sc_frontendID s"
  "sc_backend (fst (on_store none f s)) = sc_backend s"
  by (simp_all add: on_store_def split: option.split prod.split)

lemma UpdatePending_scope [simp]: "sc_frontendID (fst (UpdatePending i m s)) = sc_frontendID s"
  by (simp add: UpdatePending_def)

lemma scoped_Pending_trim [simp]: "scoped_Pending (trim i) s = scoped_Pending i s"
  unfolding scoped_Pending_def of_store_def trim_trim ..

lemma scoped_Pending_store:
  "scoped_Pending i s =
     (case sc_store s of None \<Rightarrow> None | Some st \<Rightarrow> if trim i = [] then None else
        map_of (rt_PendingRequests (st_runtime st)) (pendingStoreKey (sc_frontendID s) (trim i)))"
  by (simp add: scoped_Pending_def of_store_def PendingByScopedID_def split: option.split)

lemma scoped_Pending_update:
  "scoped_Pending j (fst (UpdatePending i m s)) =
     (if trim j = trim i then map_option (\<lambda>r. normalizePendingRequestValues (m r)) (scoped_Pending j s)
      else scoped_Pending j s)"
proof (cases "sc_store s")
  case None
  then show ?thesis by (simp add: scoped_Pending_store UpdatePending_def on_store_def)
next
  case (Some st)
  define u where "u = trim i"
  define v where "v = trim j"
  define f where "f = sc_frontendID s"
  have key: "pendingStoreKey f v = pendingStoreKey f u \<longleftrightarrow> v = u" if "u \<noteq> []"
  proof -
    have "trim u = u" "trim v = v" unfolding u_def v_def by (rule trim_trim)+
    then show ?thesis using that pendingStoreKey_inject [of u f v] by metis
  qed
  have put: "map_of (rt_PendingRequests (st_runtime (fst (UpdateScopedPending st f u m)))) k =
      (if k = pendingStoreKey f u
       then map_option (\<lambda>r. normalizePendingRequestValues (m r)) (map_of (rt_PendingRequests (st_runtime st)) k)
       else map_of (rt_PendingRequests (st_runtime st)) k)" for k
    by (simp add: UpdateScopedPending_def Let_def split: option.split)
  have s': "sc_store (fst (UpdatePending i m s)) =
      Some (if u = [] then st else fst (UpdateScopedPending st f u m))"
    by (simp add: UpdatePending_def on_store_def Some u_def [symmetric] f_def split: prod.split)
  show ?thesis
    unfolding scoped_Pending_store s' Some u_def [symmetric] v_def [symmetric] UpdatePending_scope
      f_def [symmetric] option.case
    by (cases "u = []"; cases "v = []") (simp_all add: put key)
qed

text \<open>A request that an operation leaves closed as it was.\<close>

definition keeps_closed :: "ScopedStore \<Rightarrow> ScopedStore \<Rightarrow> bool" where
  "keeps_closed s s' \<longleftrightarrow>
     (\<forall>i r. scoped_Pending i s = Some r \<longrightarrow> closed_status (pr_Status r) \<longrightarrow>
        (\<exists>r'. scoped_Pending i s' = Some r' \<and> trim (pr_Status r') = trim (pr_Status r)))"

lemma keeps_closedI:
  "(\<And>i r. scoped_Pending i s = Some r \<Longrightarrow> closed_status (pr_Status r) \<Longrightarrow>
      \<exists>r'. scoped_Pending i s' = Some r' \<and> trim (pr_Status r') = trim (pr_Status r)) \<Longrightarrow> keeps_closed s s'"
  by (simp add: keeps_closed_def)

lemma keeps_closed_refl [simp]: "keeps_closed s s"
  by (auto simp: keeps_closed_def)

lemma closed_status_trim: "trim a = trim b \<Longrightarrow> closed_status a = closed_status b"
  by (simp add: closed_status_def)

lemma keeps_closed_trans [trans]: "keeps_closed s s' \<Longrightarrow> keeps_closed s' s'' \<Longrightarrow> keeps_closed s s''"
proof (rule keeps_closedI)
  fix i r assume *: "keeps_closed s s'" "keeps_closed s' s''" "scoped_Pending i s = Some r" "closed_status (pr_Status r)"
  then obtain r' where r': "scoped_Pending i s' = Some r'" "trim (pr_Status r') = trim (pr_Status r)"
    unfolding keeps_closed_def by blast
  then have "closed_status (pr_Status r')" using *(4) closed_status_trim by blast
  with *(2) r' show "\<exists>r'. scoped_Pending i s'' = Some r' \<and> trim (pr_Status r') = trim (pr_Status r)"
    unfolding keeps_closed_def by fastforce
qed

lemma keeps_closed_same: "(\<And>i. scoped_Pending i s' = scoped_Pending i s) \<Longrightarrow> keeps_closed s s'"
  by (simp add: keeps_closed_def)

lemma normalize_closed_status: "closed_status v \<Longrightarrow> trim (NormalizePendingRequestStatus v) = trim v"
  by (auto simp: closed_status_def NormalizePendingRequestStatus_def Let_def trim_literal)

lemma UpdatePending_keeps_closed:
  assumes "\<And>r. closed_status (pr_Status r) \<Longrightarrow> trim (pr_Status (m r)) = trim (pr_Status r)"
  shows "keeps_closed s (fst (UpdatePending i m s))"
proof (rule keeps_closedI)
  fix j r assume r: "scoped_Pending j s = Some r" "closed_status (pr_Status r)"
  have "closed_status (pr_Status (m r))" using assms r(2) closed_status_trim by blast
  then have "trim (pr_Status (normalizePendingRequestValues (m r))) = trim (pr_Status r)"
    using assms [OF r(2)] normalize_closed_status by (simp add: normalizePendingRequestValues_def)
  then show "\<exists>r'. scoped_Pending j (fst (UpdatePending i m s)) = Some r' \<and> trim (pr_Status r') = trim (pr_Status r)"
    using r by (auto simp: scoped_Pending_update)
qed

section \<open>Closed requests stay closed\<close>

lemma on_store_Pending:
  assumes "\<And>st st' r. f st = (st', r) \<Longrightarrow> rt_PendingRequests (st_runtime st') = rt_PendingRequests (st_runtime st)"
  shows "scoped_Pending i (fst (on_store none f s)) = scoped_Pending i s"
  using assms
  by (auto simp: scoped_Pending_store on_store_def split: option.split prod.split)

lemma put_session_Pending [simp]:
  "rt_PendingRequests (st_runtime (put_session k x s)) = rt_PendingRequests (st_runtime s)"
  by (simp add: put_session_def)

lemma sync_Pending [simp]:
  "st_runtime (syncPersistentSessionLocked x s) = st_runtime s"
  by (simp add: syncPersistentSessionLocked_def)

lemma UpsertSession_Pending [simp]:
  "rt_PendingRequests (st_runtime (fst (UpsertSession now io s x))) = rt_PendingRequests (st_runtime s)"
  by (simp add: UpsertSession_def Let_def split: option.split)

lemma resolveSessionKey_Pending:
  "rt_PendingRequests (st_runtime (fst (resolveSessionKey now io k s))) = rt_PendingRequests (st_runtime s)"
  by (simp add: resolveSessionKey_def promoteSessionAlias_def Let_def split: option.split)

lemma scoped_Session_Pending [simp]:
  "scoped_Pending i (fst (scoped_Session now io k s)) = scoped_Pending i s"
  unfolding scoped_Session_def
proof (rule on_store_Pending)
  fix st st' r
  assume "(if \<not> ownsSessionKey s k then (st, None)
     else case resolveSessionKey now io k st of (st', resolved) \<Rightarrow> (st', GetSession st' resolved)) = (st', r)"
  then show "rt_PendingRequests (st_runtime st') = rt_PendingRequests (st_runtime st)"
    using resolveSessionKey_Pending [of now io k st] by (auto split: if_splits prod.splits)
qed

lemma scoped_Session_scope [simp]:
  "sc_frontendID (fst (scoped_Session now io k s)) = sc_frontendID s"
  by (simp add: scoped_Session_def)

lemma SaveMessageLink_Pending [simp]: "scoped_Pending i (SaveMessageLink l s) = scoped_Pending i s"
  by (auto simp: SaveMessageLink_def Let_def UpsertMessageLink_def intro!: on_store_Pending
      split: option.split if_splits)

lemma SetSubmissionStatus_Pending [simp]:
  "scoped_Pending i (fst (SetSubmissionStatus now j st s)) = scoped_Pending i s"
  unfolding SetSubmissionStatus_def scoped_UpdateSubmission_def
  by (rule on_store_Pending) (auto simp: UpdateSubmission_def Let_def split: option.splits)

lemma scoped_NextLocalID_Pending [simp]:
  "scoped_Pending i (fst (scoped_NextLocalID stamp n s)) = scoped_Pending i s"
  unfolding scoped_NextLocalID_def
  by (rule on_store_Pending) (auto simp: NextLocalID_def Let_def)

text \<open>Saving a request of this frontend under a new id leaves the others alone.\<close>

definition of_scope :: "ScopedStore \<Rightarrow> PendingRequest \<Rightarrow> bool" where
  "of_scope s req \<longleftrightarrow> trim (pr_FrontendID req) = [] \<or> trim (pr_FrontendID req) = trim (sc_frontendID s)"

lemma UpsertPending_table:
  "rt_PendingRequests (st_runtime (UpsertPending st (Some req))) =
     (if trim (pr_ID req) = [] then rt_PendingRequests (st_runtime st)
      else AList.update (pendingStoreKey (pr_FrontendID req) (pr_ID req)) (normalizePendingRequestValues req)
             (rt_PendingRequests (st_runtime st)))"
  by (simp add: UpsertPending_def Let_def normalizePendingRequestValues_def)

lemma pendingStoreKey_trims: "pendingStoreKey (trim f) (trim i) = pendingStoreKey f i"
  by (simp only: pendingStoreKey_def Let_def trim_trim)

lemma SavePending_other:
  assumes "of_scope s req" "trim j \<noteq> trim (pr_ID req)"
  shows "scoped_Pending j (SavePending now io (Some req) s) = scoped_Pending j s"
proof -
  define f where "f = sc_frontendID s"
  define a where "a = (if trim (pr_FrontendID req) = [] then req\<lparr>pr_FrontendID := f\<rparr> else req)"
  define b where "b = (if trim (pr_Backend a) = [] then a\<lparr>pr_Backend := sc_backend s\<rparr> else a)"
  obtain s1 session where s1: "scoped_Session now io (pr_SessionKey b) s = (s1, session)" by force
  have s1': "scoped_Pending j s1 = scoped_Pending j s" "sc_frontendID s1 = f"
    using scoped_Session_Pending [of j now io "pr_SessionKey b" s]
      scoped_Session_scope [of now io "pr_SessionKey b" s] by (simp_all add: s1 f_def)
  define c where "c = (\<lambda>st. if equal_fold (trim (pending_chat_type f (pr_SessionKey b) session st)) ''group''
      then b\<lparr>pr_OwnerUserID := []\<rparr> else b)"
  have c: "trim (pr_FrontendID (c st)) = trim f" "pr_ID (c st) = pr_ID req" for st
    using assms(1) unfolding c_def b_def a_def of_scope_def f_def by auto
  have key: "pendingStoreKey (pr_FrontendID (c st)) (pr_ID (c st)) = pendingStoreKey f (pr_ID req)" for st
    using c [of st] pendingStoreKey_trims by metis
  have save: "SavePending now io (Some req) s =
      (case sc_store s1 of None \<Rightarrow> s1 | Some st \<Rightarrow> s1\<lparr>sc_store := Some (UpsertPending st (Some (c st)))\<rparr>)"
    unfolding SavePending_def option.case Let_def f_def [symmetric] a_def [symmetric] b_def [symmetric] s1
      prod.case c_def ..
  have ne: "pendingStoreKey f (trim j) \<noteq> pendingStoreKey f (pr_ID req)" if "trim j \<noteq> []"
    using that assms(2) pendingStoreKey_inject [of "trim j" f "pr_ID req"] trim_trim by metis
  show ?thesis
  proof (cases "sc_store s1")
    case None
    then show ?thesis by (simp add: save s1')
  next
    case (Some st)
    define v where "v = trim j"
    have "scoped_Pending j (SavePending now io (Some req) s) = scoped_Pending j s1"
      unfolding save scoped_Pending_store s1'(2) Some option.case v_def [symmetric]
      using ne unfolding v_def [symmetric]
      by (cases "v = []") (simp_all add: UpsertPending_table key s1'(2))
    then show ?thesis using s1' by simp
  qed
qed

lemma SavePending_keeps_closed:
  assumes "of_scope s req" "scoped_Pending (pr_ID req) s = None"
  shows "keeps_closed s (SavePending now io (Some req) s)"
proof (rule keeps_closedI)
  fix j r assume r: "scoped_Pending j s = Some r"
  have "trim j \<noteq> trim (pr_ID req)"
    using assms(2) r scoped_Pending_trim by (metis option.distinct(1))
  then show "\<exists>r'. scoped_Pending j (SavePending now io (Some req) s) = Some r' \<and> trim (pr_Status r') = trim (pr_Status r)"
    using SavePending_other [OF assms(1)] r by auto
qed

lemma fst_case [simp]: "fst (case p of (x, y) \<Rightarrow> (x, g y)) = fst p"
  by (simp split: prod.split)

lemma UpdateRequest_keeps_closed:
  assumes "\<And>r. closed_status (rq_Status r) \<Longrightarrow> fst (tr r) = r"
  shows "keeps_closed s (fst (UpdateRequest i tr s))"
proof -
  have "keeps_closed s (fst (UpdatePending (trim i)
      (\<lambda>r. r\<lparr>pr_Status := rq_Status (fst (tr (requestFromDTO r)))\<rparr>) s))"
    by (rule UpdatePending_keeps_closed) (simp add: assms requestFromDTO_def)
  then show ?thesis
    by (simp add: UpdateRequest_def Let_def split: option.split)
qed

lemma Resolved_closed: "closed_status (rq_Status r) \<Longrightarrow> Resolved r = (r, False)"
  by (simp add: Resolved_def closed_status_def)

lemma ReplyAccepted_closed: "closed_status (rq_Status r) \<Longrightarrow> ReplyAccepted r = r"
  by (simp add: ReplyAccepted_def closed_not_open)

lemma ResumeSubmission_Pending [simp]:
  "scoped_Pending i (fst (ResumeSubmission now find_sub r s)) = scoped_Pending i s"
  by (simp add: ResumeSubmission_def split: option.split)

lemma service_ReplyAccepted_keeps: "keeps_closed s (fst (service_ReplyAccepted i s))"
  using UpdateRequest_keeps_closed [of "\<lambda>r. (ReplyAccepted r, ())" s i]
  by (simp add: service_ReplyAccepted_def ReplyAccepted_closed)

lemma keeps_closed_then:
  "keeps_closed s s' \<Longrightarrow> (\<And>i. scoped_Pending i s'' = scoped_Pending i s') \<Longrightarrow> keeps_closed s s''"
  using keeps_closed_trans keeps_closed_same by blast

lemma FinalizeReply_keeps: "keeps_closed s (fst (FinalizeReply now find_sub i s))"
proof -
  let ?tr = "\<lambda>r. if equal_fold (trim (rq_Backend r)) ''claude'' \<or> \<not> IsServerResolvedPendingKind (rq_Kind r)
      then (case Resolved r of (next_r, didChange) \<Rightarrow> (next_r, True, didChange))
      else (ReplyAccepted r, False, False)"
  have "keeps_closed s (fst (UpdateRequest i ?tr s))"
    by (rule UpdateRequest_keeps_closed) (simp add: Resolved_closed ReplyAccepted_closed)
  moreover obtain s' res where u: "UpdateRequest i ?tr s = (s', res)" by force
  ultimately have "keeps_closed s s'" by simp
  then show ?thesis
    using keeps_closed_then [of s s']
    by (simp add: FinalizeReply_def u split: option.split prod.split)
qed

lemma service_Resolve_keeps: "keeps_closed s (fst (service_Resolve i s))"
  using UpdateRequest_keeps_closed [of Resolved s i] Resolved_closed
  by (auto simp: service_Resolve_def split: option.split prod.split bool.split)

lemma ResolveAndResume_keeps: "keeps_closed s (fst (ResolveAndResume now find_sub i s))"
proof -
  obtain s' r where e: "service_Resolve i s = (s', r)" by force
  have "keeps_closed s s'" using service_Resolve_keeps [of s i] by (simp add: e)
  then show ?thesis
    using keeps_closed_then [of s s' "fst (ResumeSubmission now find_sub r s')"]
    by (simp add: ResolveAndResume_def e)
qed

lemma expire_one_keeps: "keeps_closed s (fst (expire_one r s))"
proof -
  have "keeps_closed s (fst (UpdatePending (pr_ID r) (\<lambda>cur. if IsPendingRequestOpen (pr_Status cur)
      then cur\<lparr>pr_Status := ''expired''\<rparr> else cur) s))"
    by (rule UpdatePending_keeps_closed) (simp add: closed_not_open)
  then show ?thesis by (auto simp: expire_one_def Let_def split: prod.split option.split)
qed

lemma expire_list_keeps: "keeps_closed s (fst (expire_list rs s))"
proof (induction rs arbitrary: s)
  case Nil
  then show ?case by simp
next
  case (Cons r rs)
  obtain s1 a where 1: "expire_one r s = (s1, a)" by force
  obtain s2 b where 2: "expire_list rs s1 = (s2, b)" by force
  have "keeps_closed s s1" using expire_one_keeps [of s r] by (simp add: 1)
  also have "keeps_closed s1 s2" using Cons.IH [of s1] by (simp add: 2)
  finally show ?case by (simp add: 1 2)
qed

lemma Expire_keeps: "keeps_closed s (fst (Expire frontend backend k ids s))"
  by (simp add: Expire_def expire_list_keeps)

lemma deliver_request_keeps: "keeps_closed s (fst (deliver_request deliver input req s))"
proof -
  have "keeps_closed s (fst (UpdatePending i (\<lambda>cur. cur\<lparr>pr_FeishuMsgID := m\<rparr>) s))" for i m
    by (rule UpdatePending_keeps_closed) simp
  then have u: "keeps_closed s s'" if "UpdatePending i (\<lambda>cur. cur\<lparr>pr_FeishuMsgID := m\<rparr>) s = (s', e)" for i m s' e
    using that by (metis fst_conv)
  show ?thesis
    unfolding deliver_request_def Let_def
    by (auto split: sum.split prod.split option.split intro: keeps_closed_same keeps_closed_then dest: u)
qed

lemma proceed_keeps: "keeps_closed s (fst (proceed_delivery now deliver input req s))"
proof -
  obtain s' e where a: "await_submission now input s = (s', e)" by force
  have "fst (await_submission now input s) = s'" by (simp add: a)
  then have "scoped_Pending i s' = scoped_Pending i s" for i
    by (auto simp: await_submission_def split: if_splits)
  then have "keeps_closed s s'" by (rule keeps_closed_same)
  then show ?thesis
    using keeps_closed_trans [OF _ deliver_request_keeps]
    by (simp add: proceed_delivery_def a split: option.split)
qed

lemma UpdatePending_trim: "UpdatePending (trim i) m s = UpdatePending i m s"
  by (simp only: UpdatePending_def trim_trim)

text \<open>An update of a request that is not closed leaves the closed ones alone.\<close>

lemma UpdatePending_not_closed:
  assumes "\<And>r. scoped_Pending i s = Some r \<Longrightarrow> \<not> closed_status (pr_Status r)"
  shows "keeps_closed s (fst (UpdatePending i m s))"
proof (rule keeps_closedI)
  fix j r assume r: "scoped_Pending j s = Some r" "closed_status (pr_Status r)"
  have "trim j \<noteq> trim i"
  proof
    assume "trim j = trim i"
    then have "scoped_Pending i s = Some r" using r(1) scoped_Pending_trim by metis
    with assms r(2) show False by blast
  qed
  then show "\<exists>r'. scoped_Pending j (fst (UpdatePending i m s)) = Some r' \<and> trim (pr_Status r') = trim (pr_Status r)"
    using r by (simp add: scoped_Pending_update)
qed

lemma Open_interaction_keeps:
  assumes "of_scope s (di_Request input)"
  shows "keeps_closed s (fst (Open_interaction now io deliver input s))"
proof (cases "scoped_Pending (pr_ID (di_Request input)) s")
  case None
  define ttl where "ttl = (if di_TTL input \<le> 0 then 1800 else di_TTL input)"
  define req where "req = (di_Request input)\<lparr>pr_ID := trim (pr_ID (di_Request input)), pr_Status := ''pending'',
    pr_CreatedAt := now, pr_ExpiresAt := now + ttl\<rparr>"
  have "keeps_closed s (SavePending now io (Some req) s)"
    by (rule SavePending_keeps_closed) (use assms None in \<open>simp_all add: req_def of_scope_def\<close>)
  from keeps_closed_trans [OF this proceed_keeps]
  have "keeps_closed s (fst (proceed_delivery now deliver input' req (SavePending now io (Some req) s)))" for input' .
  then show ?thesis
    by (cases "di_TTL input \<le> 0") (simp_all add: Open_interaction_def Let_def None req_def ttl_def)
next
  case (Some r)
  have "\<not> closed_status (pr_Status r)" if "trim (pr_Status r) = ''pending''"
    using that by (simp add: closed_status_def)
  then have "keeps_closed s (fst (UpdatePending (pr_ID (di_Request input)) m s))"
    if "trim (pr_Status r) = ''pending''" for m
    using that Some by (intro UpdatePending_not_closed) simp
  then show ?thesis
    using proceed_keeps by (simp add: Open_interaction_def Let_def Some UpdatePending_trim)
qed

lemma Open_form_keeps:
  assumes "of_scope s request" "scoped_Pending (snd (scoped_NextLocalID stamp name s)) s = None"
  shows "keeps_closed s (fst (Open_form now stamp io name request encoded lifetime s))"
proof (cases encoded)
  case (Inl e)
  then show ?thesis by (simp add: Open_form_def)
next
  case (Inr payload)
  obtain s1 i where n: "scoped_NextLocalID stamp name s = (s1, i)" by force
  have same: "scoped_Pending j s1 = scoped_Pending j s" for j
    using scoped_NextLocalID_Pending [of j stamp name s] by (simp add: n)
  have scope: "sc_frontendID s1 = sc_frontendID s"
    using on_store_scope(1) [of "[]" "\<lambda>st. NextLocalID stamp st (trim name)" s]
      n [unfolded scoped_NextLocalID_def] by simp
  have "keeps_closed s1 (SavePending now io (Some req) s1)"
    if "pr_ID req = i" "pr_FrontendID req = pr_FrontendID request" for req
    by (rule SavePending_keeps_closed) (use assms that same scope n in \<open>simp_all add: of_scope_def\<close>)
  then have "keeps_closed s (SavePending now io (Some req) s1)"
    if "pr_ID req = i" "pr_FrontendID req = pr_FrontendID request" for req
    using that keeps_closed_trans keeps_closed_same [OF same] by blast
  then show ?thesis by (simp add: Open_form_def Inr n Let_def)
qed

lemma Transition_keeps:
  assumes "expected \<noteq> ''resolved''" "expected \<noteq> ''expired''"
  shows "keeps_closed s (fst (Transition now i kind userID expected nxt m s))"
proof -
  have "keeps_closed s (fst (UpdatePending (trim i)
      (\<lambda>cur. if transition_refuses now kind userID expected nxt cur = None
             then transition_write nxt m cur else cur) s))"
    by (rule UpdatePending_keeps_closed) (use assms in \<open>auto simp: transition_refuses_def closed_status_def\<close>)
  then have "keeps_closed s s'" if "UpdatePending (trim i)
      (\<lambda>cur. if transition_refuses now kind userID expected nxt cur = None
             then transition_write nxt m cur else cur) s = (s', e)" for s' e
    using that by (metis fst_conv)
  then show ?thesis by (auto simp: Transition_def Let_def split: prod.split option.split)
qed

lemma draft_refuses_closed: "closed_status (pr_Status cur) \<Longrightarrow> draft_refuses now status cur \<noteq> None"
  by (auto simp: draft_refuses_def closed_status_def Let_def)

lemma SaveDraft_keeps: "keeps_closed s (fst (SaveDraft now i payload status lifetime m s))"
proof -
  have "keeps_closed s (fst (UpdatePending i
      (\<lambda>cur. if draft_refuses now status cur = None then draft_write now body status lifetime m cur else cur) s))" for body
    by (rule UpdatePending_keeps_closed) (simp add: draft_refuses_closed)
  then have *: "keeps_closed s s'" if "UpdatePending i
      (\<lambda>cur. if draft_refuses now status cur = None then draft_write now body status lifetime m cur else cur) s = (s', e)"
    for body s' e
    using that by (metis fst_conv)
  then show ?thesis
    by (auto simp: SaveDraft_def Let_def split: option.split sum.split prod.split)
qed

section \<open>The interaction workflow\<close>

text \<open>
  What the use cases do to the requests of a frontend, in any order. A request is opened for the
  frontend itself, a form under a new local id, and no caller of Transition expects a closed form.
\<close>

inductive interaction_step :: "ScopedStore \<Rightarrow> ScopedStore \<Rightarrow> bool" where
  accept: "interaction_step s (fst (service_ReplyAccepted i s))"
| finalize: "interaction_step s (fst (FinalizeReply now find_sub i s))"
| resolve: "interaction_step s (fst (service_Resolve i s))"
| resolve_resume: "interaction_step s (fst (ResolveAndResume now find_sub i s))"
| expire: "interaction_step s (fst (Expire frontend backend k ids s))"
| open_request: "of_scope s (di_Request input) \<Longrightarrow>
    interaction_step s (fst (Open_interaction now io deliver input s))"
| open_form: "of_scope s request \<Longrightarrow> scoped_Pending (snd (scoped_NextLocalID stamp name s)) s = None \<Longrightarrow>
    interaction_step s (fst (Open_form now stamp io name request encoded lifetime s))"
| transition: "expected \<noteq> ''resolved'' \<Longrightarrow> expected \<noteq> ''expired'' \<Longrightarrow>
    interaction_step s (fst (Transition now i kind userID expected nxt m s))"
| draft: "interaction_step s (fst (SaveDraft now i payload status lifetime m s))"

lemma interaction_step_keeps: "interaction_step s s' \<Longrightarrow> keeps_closed s s'"
  by (induction rule: interaction_step.induct)
    (auto intro: service_ReplyAccepted_keeps FinalizeReply_keeps service_Resolve_keeps
      ResolveAndResume_keeps Expire_keeps Open_interaction_keeps Open_form_keeps Transition_keeps
      SaveDraft_keeps)

lemma interaction_steps_keep: "interaction_step\<^sup>*\<^sup>* s s' \<Longrightarrow> keeps_closed s s'"
proof (induction rule: rtranclp_induct)
  case base
  then show ?case by simp
next
  case (step s' s'')
  then show ?case using interaction_step_keeps keeps_closed_trans by blast
qed

text \<open>
  C24. A request that is resolved or expired stays that, whatever replies, resolutions, expiries,
  repeated deliveries, form transitions and drafts follow: no later event reopens it, and a
  resolved request never turns into an expired one.
\<close>
theorem closed_requests_stay_closed:
  assumes "interaction_step\<^sup>*\<^sup>* s s'" "scoped_Pending i s = Some r"
    "trim (pr_Status r) = ''resolved'' \<or> trim (pr_Status r) = ''expired''"
  shows "\<exists>r'. scoped_Pending i s' = Some r' \<and> trim (pr_Status r') = trim (pr_Status r)"
  using interaction_steps_keep [OF assms(1)] assms(2,3)
  unfolding keeps_closed_def closed_status_def by blast

definition demo_request :: PendingRequest where
  "demo_request = zero_PendingRequest\<lparr>pr_ID := ''r1'', pr_Kind := ''command_approval''\<rparr>"

definition demo_closed :: ScopedStore where
  "demo_closed = NewScoped
     (Some (UpsertPending empty_Store
        (Some (demo_request\<lparr>pr_FrontendID := ''bot'', pr_Status := ''resolved''\<rparr>)))) ''bot'' ''codex''"

text \<open>The backend repeats its event for the resolved request, and a late reply arrives.\<close>

definition demo_repeated :: ScopedStore where
  "demo_repeated = fst (service_ReplyAccepted ''r1''
     (fst (Open_interaction 9 None (\<lambda>_. Inr ''om_1'')
        \<lparr>di_Request = demo_request, di_SubmissionID = [], di_WaitingStatus = ''waiting_approval'',
         di_NonBlocking = False, di_TTL = 60\<rparr> demo_closed)))"

lemma demo_repeated_steps: "interaction_step\<^sup>*\<^sup>* demo_closed demo_repeated"
proof -
  let ?input = "\<lparr>di_Request = demo_request, di_SubmissionID = [], di_WaitingStatus = ''waiting_approval'',
     di_NonBlocking = False, di_TTL = 60\<rparr>"
  have "of_scope demo_closed (di_Request ?input)"
    by (simp add: of_scope_def demo_request_def zero_PendingRequest_def)
  from interaction_step.open_request [OF this] interaction_step.accept
  show ?thesis unfolding demo_repeated_def by (meson converse_rtranclp_into_rtranclp r_into_rtranclp)
qed

lemma demo_closed_request:
  "map_option pr_Status (scoped_Pending ''r1'' demo_closed) = Some ''resolved''"
  by code_simp

lemma closed_requests_stay_closed_witness:
  "\<exists>r'. scoped_Pending ''r1'' demo_repeated = Some r' \<and> trim (pr_Status r') = ''resolved''"
proof -
  obtain r where r: "scoped_Pending ''r1'' demo_closed = Some r" "pr_Status r = ''resolved''"
    using demo_closed_request by auto
  then have t: "trim (pr_Status r) = ''resolved''" by (simp add: trim_literal)
  show ?thesis
    using closed_requests_stay_closed [OF demo_repeated_steps r(1)] unfolding t by simp
qed

end
