(* ===== verification/Model_Settings.thy ===== *)
theory Model_Settings
  imports Routing_Configuration
begin

text \<open>
  The use cases of model settings: \<open>internal/application/modelconfig\<close> with the types of
  \<open>domain/modelconfig/catalog.go\<close>, and the settings of a thread (\<open>application/threadsettings\<close>). The
  sources of a snapshot are read from the store gateway and the configuration
  (\<open>adapter/config/model_sources.go\<close>); the values of the configuration are an argument.
\<close>

section \<open>The catalog of a backend (catalog.go)\<close>

record ModelReasoningEffortEntry =
  me_ReasoningEffort :: string
  me_Description :: string

record ModelListEntry =
  ml_ID :: string
  ml_Model :: string
  ml_DisplayName :: string
  ml_Description :: string
  ml_DefaultReasoningEffort :: string
  ml_SupportedReasoningEfforts :: "ModelReasoningEffortEntry list"
  ml_IsDefault :: bool

type_synonym ModelListResult = "ModelListEntry list"

definition DefaultModelEntry :: "ModelListResult \<Rightarrow> ModelListEntry option" where
  "DefaultModelEntry result =
     (case find ml_IsDefault result of
        Some e \<Rightarrow> Some e
      | None \<Rightarrow> (case result of [] \<Rightarrow> None | e # _ \<Rightarrow> Some e))"

definition LookupModelEntry :: "ModelListResult \<Rightarrow> string \<Rightarrow> ModelListEntry option" where
  "LookupModelEntry result modelID =
     (if trim modelID = [] then DefaultModelEntry result
      else find (\<lambda>e. ml_ID e = trim modelID \<or> ml_Model e = trim modelID) result)"

definition FindModelEntry :: "ModelListResult \<Rightarrow> string \<Rightarrow> ModelListEntry option" where
  "FindModelEntry result modelID =
     (case LookupModelEntry result modelID of Some e \<Rightarrow> Some e | None \<Rightarrow> DefaultModelEntry result)"

definition ModelSupportsEffort :: "ModelListEntry option \<Rightarrow> string \<Rightarrow> bool" where
  "ModelSupportsEffort model effort =
     (case model of
        None \<Rightarrow> True
      | Some e \<Rightarrow> trim effort = [] \<or>
          (\<exists>item\<in>set (ml_SupportedReasoningEfforts e). trim (me_ReasoningEffort item) = trim effort))"

section \<open>The list of model options (options.go)\<close>

text \<open>The change of the stored list: blank and repeated models go, and the removed one.\<close>

fun kept_options :: "bool \<Rightarrow> string \<Rightarrow> string list \<Rightarrow> string list \<Rightarrow> string list" where
  "kept_options add value out [] = out"
| "kept_options add value out (m # ms) =
     (let model = trim m in
      if model = [] \<or> model \<in> set out \<or> \<not> add \<and> model = value then kept_options add value out ms
      else kept_options add value (out @ [model]) ms)"

definition Set_option :: "string \<Rightarrow> bool \<Rightarrow> string list \<Rightarrow> string list option" where
  "Set_option value0 add options =
     (let value = trim value0 in
      if value = [] then None
      else Some (kept_options add value [] (if add then options @ [value] else options)))"

section \<open>Defaults of a bot (defaults.go)\<close>

record DefaultsRevision =
  df_Values :: GlobalValues
  df_Profile :: "BotProfile option"

datatype defaults_error =
    SaveBlocked string | UnsupportedBackend string | UnsupportedDefault string Setting | NotCommitted string

text \<open>One setting goes to the configuration and to the profile of the frontend.\<close>

definition dual_write ::
  "string \<Rightarrow> Setting \<times> string \<Rightarrow> GlobalValues \<times> BotProfile \<Rightarrow> defaults_error + GlobalValues \<times> BotProfile" where
  "dual_write backend kv vp =
     (case (GlobalField backend (fst kv), ProfileField backend (fst kv)) of
        (Some (_, write_g), Some (_, write_p)) \<Rightarrow>
          Inr (write_g (trim (snd kv)) (fst vp), write_p (trim (snd kv)) (snd vp))
      | _ \<Rightarrow> Inl (UnsupportedDefault backend (fst kv)))"

fun dual_writes ::
  "string \<Rightarrow> (Setting \<times> string) list \<Rightarrow> GlobalValues \<times> BotProfile
     \<Rightarrow> defaults_error + GlobalValues \<times> BotProfile" where
  "dual_writes backend [] vp = Inr vp"
| "dual_writes backend (kv # kvs) vp =
     (case dual_write backend kv vp of Inl e \<Rightarrow> Inl e | Inr vp' \<Rightarrow> dual_writes backend kvs vp')"

text \<open>An effort that the model in force does not offer is cleared in both places.\<close>

definition fit_effort :: "ModelListResult \<Rightarrow> GlobalValues \<times> BotProfile \<Rightarrow> GlobalValues \<times> BotProfile" where
  "fit_effort catalog = (\<lambda>(v, p).
     let model = FirstNonEmpty [bp_Model p, gv_Model v];
         (v1, p1) =
           (if ModelSupportsEffort (FindModelEntry catalog model)
                 (FirstNonEmpty [bp_ReasoningEffort p, gv_Effort v]) then (v, p)
            else (v\<lparr>gv_Effort := []\<rparr>, p\<lparr>bp_ReasoningEffort := []\<rparr>));
         plan = FirstNonEmpty [bp_PlanModel p1, gv_PlanModel v1, model] in
     if ModelSupportsEffort (FindModelEntry catalog plan)
          (FirstNonEmpty [bp_PlanReasoningEffort p1, gv_PlanEffort v1]) then (v1, p1)
     else (v1\<lparr>gv_PlanEffort := []\<rparr>, p1\<lparr>bp_PlanReasoningEffort := []\<rparr>))"

record DefaultsCommand =
  dc_Backend :: string
  dc_Values :: "(Setting \<times> string) list"
  dc_Catalog :: "ModelListResult option"

text \<open>
  The mutation of the revision. The keys of the map of values are visited in some order; they are
  distinct.
\<close>

definition revised_defaults ::
  "string \<Rightarrow> DefaultsCommand \<Rightarrow> DefaultsRevision \<Rightarrow> defaults_error + DefaultsRevision" where
  "revised_defaults frontend command revision =
     (let p = (case df_Profile revision of
            Some p \<Rightarrow> p
          | None \<Rightarrow> zero_BotProfile\<lparr>bp_ID := ''bot-profile-'' @ ProfileID frontend, bp_FrontendID := frontend\<rparr>) in
      case dual_writes (dc_Backend command) (dc_Values command) (df_Values revision, p) of
        Inl e \<Rightarrow> Inl e
      | Inr vp \<Rightarrow>
          let (v, p) = (case dc_Catalog command of
                 Some catalog \<Rightarrow> if dc_Backend command = BackendCodex then fit_effort catalog vp else vp
               | None \<Rightarrow> vp) in
          Inr \<lparr>df_Values = v, df_Profile = Some p\<rparr>)"

text \<open>\<open>blocked\<close> is the reason that admission gives, \<open>commit\<close> the error of the repository.\<close>

definition Set_defaults ::
  "string \<Rightarrow> string option \<Rightarrow> (DefaultsRevision \<Rightarrow> string option) \<Rightarrow> DefaultsCommand \<Rightarrow> DefaultsRevision
     \<Rightarrow> defaults_error + DefaultsRevision" where
  "Set_defaults frontend0 blocked commit command revision =
     (let frontend = (if trim frontend0 = [] then ''default'' else frontend0) in
      case blocked of
        Some reason \<Rightarrow> Inl (SaveBlocked reason)
      | None \<Rightarrow>
          if dc_Backend command \<noteq> BackendCodex \<and> dc_Backend command \<noteq> BackendClaude
          then Inl (UnsupportedBackend (dc_Backend command))
          else (case revised_defaults frontend command revision of
                  Inl e \<Rightarrow> Inl e
                | Inr revision' \<Rightarrow>
                    (case commit revision' of Some e \<Rightarrow> Inl (NotCommitted e) | None \<Rightarrow> Inr revision')))"

section \<open>Snapshots (snapshot.go, model\_sources.go)\<close>

record SourceRevision =
  sr_Session :: "Session option"
  sr_Binding :: "AgentBinding option"
  sr_Profile :: "BotProfile option"
  sr_Global :: GlobalValues

definition ModelSourceRevision :: "GlobalValues \<Rightarrow> Session option \<Rightarrow> ScopedStore \<Rightarrow> SourceRevision" where
  "ModelSourceRevision global session s =
     \<lparr>sr_Session = session,
      sr_Binding = (case session of
         None \<Rightarrow> None
       | Some sess \<Rightarrow> if trim (ss_BindingID sess) = [] then None else scoped_AgentBinding (ss_BindingID sess) s),
      sr_Profile = scoped_BotProfile s, sr_Global = global\<rparr>"

definition session_values :: "Session option \<Rightarrow> SessionValues" where
  "session_values session =
     (case session of
        None \<Rightarrow> \<lparr>sv_Model = [], sv_PlanModel = [], sv_PlanEffort = [], sv_ReviewModel = [], sv_SubagentModel = [],
           sv_SubagentEffort = [], sv_SmallModel = []\<rparr>
      | Some s \<Rightarrow> \<lparr>sv_Model = ss_ModelOverride s, sv_PlanModel = ss_PlanModelOverride s,
           sv_PlanEffort = ss_PlanReasoningEffortOverride s, sv_ReviewModel = ss_ReviewModelOverride s,
           sv_SubagentModel = ss_SubagentModelOverride s, sv_SubagentEffort = ss_SubagentReasoningEffortOverride s,
           sv_SmallModel = ss_SmallModelOverride s\<rparr>)"

definition binding_values :: "AgentBinding option \<Rightarrow> ScopeValues" where
  "binding_values binding =
     (case binding of
        None \<Rightarrow> \<lparr>sc_Model = [], sc_Effort = [], sc_PlanModel = [], sc_PlanEffort = [], sc_ReviewModel = [],
           sc_SubagentModel = [], sc_SubagentEffort = [], sc_SmallModel = []\<rparr>
      | Some b \<Rightarrow> \<lparr>sc_Model = ab_ModelOverride b, sc_Effort = ab_ReasoningEffortOverride b,
           sc_PlanModel = ab_PlanModelOverride b, sc_PlanEffort = ab_PlanReasoningEffortOverride b,
           sc_ReviewModel = ab_ReviewModelOverride b, sc_SubagentModel = ab_SubagentModelOverride b,
           sc_SubagentEffort = ab_SubagentReasoningEffortOverride b, sc_SmallModel = ab_SmallModelOverride b\<rparr>)"

text \<open>The profile's own small model is not among the sources.\<close>

definition profile_values :: "BotProfile option \<Rightarrow> ProfileValues" where
  "profile_values profile =
     (case profile of
        None \<Rightarrow> \<lparr>pv_Model = [], pv_ClaudeModel = [], pv_Effort = [], pv_PlanModel = [], pv_PlanEffort = [],
           pv_ReviewModel = [], pv_SubagentModel = [], pv_SubagentEffort = [], pv_ClaudeSubagent = [],
           pv_SmallModel = [], pv_ClaudeSmallModel = []\<rparr>
      | Some p \<Rightarrow> \<lparr>pv_Model = bp_Model p, pv_ClaudeModel = bp_ClaudeModel p, pv_Effort = bp_ReasoningEffort p,
           pv_PlanModel = bp_PlanModel p, pv_PlanEffort = bp_PlanReasoningEffort p,
           pv_ReviewModel = bp_ReviewModel p, pv_SubagentModel = bp_SubagentModel p,
           pv_SubagentEffort = bp_SubagentReasoningEffort p, pv_ClaudeSubagent = bp_ClaudeSubagentModel p,
           pv_SmallModel = [], pv_ClaudeSmallModel = bp_ClaudeSmallModel p\<rparr>)"

definition sources :: "SourceRevision \<Rightarrow> bool \<Rightarrow> Sources" where
  "sources revision includeActive =
     \<lparr>src_Session = session_values (sr_Session revision), src_Binding = binding_values (sr_Binding revision),
      src_Profile = profile_values (sr_Profile revision), src_Global = sr_Global revision,
      src_Active = (case sr_Session revision of
         None \<Rightarrow> None
       | Some s \<Rightarrow> if includeActive
           then map_option (\<lambda>m. \<lparr>ac_Mode = cm_Mode m, ac_Model = cm_Model m,
                              ac_PresetEffort = cm_PresetReasoningEffort m\<rparr>) (ss_ActiveThreadCollaborationMode s)
           else None)\<rparr>"

definition Desired :: "GlobalValues \<Rightarrow> string \<Rightarrow> Session option \<Rightarrow> ScopedStore \<Rightarrow> Snapshot" where
  "Desired g backend sess s = Resolve backend (sources (ModelSourceRevision g sess s) False)"

definition DesiredTraced :: "GlobalValues \<Rightarrow> string \<Rightarrow> Session option \<Rightarrow> ScopedStore \<Rightarrow> Snapshot \<times> Origins" where
  "DesiredTraced g backend sess s = ResolveTraced backend (sources (ModelSourceRevision g sess s) False)"

definition Auxiliary_values :: "GlobalValues \<Rightarrow> Session option \<Rightarrow> ScopedStore \<Rightarrow> GlobalValues" where
  "Auxiliary_values g sess s = ResolveAuxiliary (sources (ModelSourceRevision g sess s) False)"

definition TurnSnapshot :: "GlobalValues \<Rightarrow> string \<Rightarrow> Session option \<Rightarrow> ScopedStore \<Rightarrow> Snapshot" where
  "TurnSnapshot g backend sess s = Resolve backend (sources (ModelSourceRevision g sess s) True)"

definition SubmissionSnapshot ::
  "GlobalValues \<Rightarrow> string \<Rightarrow> Session option \<Rightarrow> Submission option \<Rightarrow> ScopedStore \<Rightarrow> Snapshot" where
  "SubmissionSnapshot g backend sess submission s =
     TurnSnapshot g backend
       (case submission of
          None \<Rightarrow> sess
        | Some sub \<Rightarrow>
            if sub_BindingID sub = [] then sess
            else Some ((case sess of Some x \<Rightarrow> x | None \<Rightarrow> zero_Session)\<lparr>ss_BindingID := sub_BindingID sub\<rparr>)) s"

section \<open>The status shown to the user (status.go)\<close>

record Status =
  sts_NextModel :: string
  sts_NextEffort :: string
  sts_AppliedModel :: string
  sts_AppliedEffort :: string
  sts_HasApplied :: bool
  sts_Pending :: bool
  sts_Error :: string

definition SessionStatus :: "string \<Rightarrow> string \<Rightarrow> Snapshot \<Rightarrow> Snapshot \<Rightarrow> string \<Rightarrow> Status" where
  "SessionStatus backend activeThreadID desired applied applyError =
     (let hasApplied = snap_Valid applied \<and> snap_Backend applied = backend \<and> trim activeThreadID \<noteq> [] in
      \<lparr>sts_NextModel = fst (TurnSettings desired), sts_NextEffort = snd (TurnSettings desired),
       sts_AppliedModel = (if hasApplied then fst (TurnSettings applied) else []),
       sts_AppliedEffort = (if hasApplied then snd (TurnSettings applied) else []),
       sts_HasApplied = hasApplied, sts_Pending = (hasApplied \<and> desired \<noteq> applied), sts_Error = applyError\<rparr>)"

record StatusView =
  vw_Backend :: string
  vw_HasSession :: bool
  vw_Status :: "Status option"

definition SessionView :: "GlobalValues \<Rightarrow> string \<Rightarrow> Session option \<Rightarrow> ScopedStore \<Rightarrow> StatusView" where
  "SessionView g backend sess s =
     \<lparr>vw_Backend = backend, vw_HasSession = (sess \<noteq> None),
      vw_Status = map_option (\<lambda>x. SessionStatus backend (ss_ActiveThreadID x) (TurnSnapshot g backend sess s)
        (ss_AppliedModelConfig x) (ss_ModelConfigError x)) sess\<rparr>"

text \<open>What the backend has acknowledged becomes the applied settings (acknowledgement.go).\<close>

definition Applied ::
  "('p) disk_ports_scheme \<Rightarrow> string \<Rightarrow> Snapshot \<Rightarrow> Desk \<Rightarrow> Desk \<times> scoped_error option" where
  "Applied p sessionKey settings w =
     (case update_session p sessionKey
             (\<lambda>s. s\<lparr>ss_AppliedModelConfig := settings, ss_ModelConfigError := []\<rparr>) w of
        (w', Inl e) \<Rightarrow> (w', Some e)
      | (w', Inr _) \<Rightarrow> (w', None))"

section \<open>Auxiliary settings (settings.go)\<close>

datatype setting_scope = SessionScope | ProfileScope

datatype auxiliary_error =
    NotAuxiliary Setting | AuxiliaryBlocked string | SessionNotSaved scoped_error
  | ProfileNotSaved configuration_error

definition set_session_field :: "Setting \<Rightarrow> string \<Rightarrow> Session \<Rightarrow> Session" where
  "set_session_field setting value s =
     (case SessionField setting of Some (_, put) \<Rightarrow> put value s | None \<Rightarrow> s)"

definition SaveAuxiliary ::
  "('p) disk_ports_scheme \<Rightarrow> configuration \<Rightarrow> string option \<Rightarrow> string \<Rightarrow> string \<Rightarrow> Setting \<Rightarrow> string \<Rightarrow> Desk
     \<Rightarrow> Desk \<times> (auxiliary_error + setting_scope \<times> string)" where
  "SaveAuxiliary p c blocked key backend setting value0 w =
     (if \<not> Auxiliary setting then (w, Inl (NotAuxiliary setting))
      else case blocked of
        Some reason \<Rightarrow> (w, Inl (AuxiliaryBlocked reason))
      | None \<Rightarrow>
          let value = ClearableValue value0 in
          (case get_session p key w of
             (w1, Some sess) \<Rightarrow>
               (case update_session p (ss_Key sess) (set_session_field setting value) w1 of
                  (w2, Inl e) \<Rightarrow> (w2, Inl (SessionNotSaved e))
                | (w2, Inr _) \<Rightarrow> (w2, Inr (SessionScope, value)))
           | (w1, None) \<Rightarrow>
               (case service_SetProfile p c backend setting value w1 of
                  (w2, Inl e) \<Rightarrow> (w2, Inl (ProfileNotSaved e))
                | (w2, Inr _) \<Rightarrow> (w2, Inr (ProfileScope, value)))))"

section \<open>Settings of the active thread (threadsettings/service.go)\<close>

datatype thread_error = ThreadGone | NoThread | ThreadNotSaved scoped_error | UnsupportedMode string | BypassOff

text \<open>
  The change runs inside the update of the session; it is refused there when the thread is not the
  expected one. The update then still writes the unchanged session.
\<close>

definition thread_refuses :: "string \<Rightarrow> bool \<Rightarrow> Session \<Rightarrow> thread_error option" where
  "thread_refuses threadID tier sess =
     (if trim (ss_ActiveThreadID sess) = [] then Some (if tier then NoThread else ThreadGone)
      else if (threadID \<noteq> [] \<or> \<not> tier) \<and> trim (ss_ActiveThreadID sess) \<noteq> trim threadID then Some ThreadGone
      else None)"

definition missing_thread :: "bool \<Rightarrow> thread_error" where
  "missing_thread tier = (if tier then NoThread else ThreadGone)"

definition update_thread ::
  "('p) disk_ports_scheme \<Rightarrow> string \<Rightarrow> string \<Rightarrow> bool \<Rightarrow> (Session \<Rightarrow> Session) \<Rightarrow> Desk
     \<Rightarrow> Desk \<times> (thread_error + Session)" where
  "update_thread p key threadID tier mutate w =
     (let before = (case get_session p key w of (_, s) \<Rightarrow> s) in
      case update_session p key (\<lambda>s. if thread_refuses threadID tier s = None then mutate s else s) w of
        (w', Inl (StoreError ErrNotExist)) \<Rightarrow> (w', Inl (missing_thread tier))
      | (w', Inl e) \<Rightarrow> (w', Inl (ThreadNotSaved e))
      | (w', Inr None) \<Rightarrow> (w', Inl (missing_thread tier))
      | (w', Inr (Some sess)) \<Rightarrow>
          (case before of
             None \<Rightarrow> (w', Inr sess)
           | Some b \<Rightarrow>
               (case thread_refuses threadID tier b of
                  Some e \<Rightarrow> (w', Inl e)
                | None \<Rightarrow> (w', Inr sess))))"

definition SandboxOptions :: "string list" where
  "SandboxOptions = [''read-only'', ''workspace-write'', ''danger-full-access'']"

definition ApprovalPolicyOptions :: "string list" where
  "ApprovalPolicyOptions = [''untrusted'', ''on-request'', ''never'']"

definition MultiAgentModeOptions :: "string list" where
  "MultiAgentModeOptions = [''explicitRequestOnly'', ''proactive'', ''none'']"

text \<open>The value of a setting is one of its options; blank clears it, except the multi-agent mode.\<close>

definition thread_value_ok :: "Setting \<Rightarrow> string \<Rightarrow> bool" where
  "thread_value_ok setting value \<longleftrightarrow>
     (case setting of
        Sandbox \<Rightarrow> value = [] \<or> value \<in> set SandboxOptions
      | ApprovalPolicy \<Rightarrow> value = [] \<or> value \<in> set ApprovalPolicyOptions
      | MultiAgent \<Rightarrow> value \<in> set MultiAgentModeOptions
      | Permissions \<Rightarrow> value \<in> {[], ''default'', ''acceptEdits'', ''bypassPermissions''}
      | _ \<Rightarrow> False)"

definition set_thread_field :: "Setting \<Rightarrow> string \<Rightarrow> Session \<Rightarrow> Session" where
  "set_thread_field setting value sess =
     (case setting of
        Sandbox \<Rightarrow> sess\<lparr>ss_ActiveThreadSandboxMode := value\<rparr>
      | ApprovalPolicy \<Rightarrow> sess\<lparr>ss_ActiveThreadApprovalPolicy := value\<rparr>
      | MultiAgent \<Rightarrow> sess\<lparr>ss_ActiveThreadMultiAgentMode := value\<rparr>
      | Permissions \<Rightarrow> sess\<lparr>ss_ActiveClaudePermissionMode := value\<rparr>
      | _ \<Rightarrow> sess)"

definition Set_thread ::
  "('p) disk_ports_scheme \<Rightarrow> string \<Rightarrow> string \<Rightarrow> Setting \<Rightarrow> string \<Rightarrow> Desk \<Rightarrow> Desk \<times> (thread_error + Session)" where
  "Set_thread p key threadID setting value0 w =
     (let value = trim value0 in
      if \<not> thread_value_ok setting value then (w, Inl (UnsupportedMode value))
      else update_thread p key threadID False (set_thread_field setting value) w)"

definition SetThreadServiceTier ::
  "('p) disk_ports_scheme \<Rightarrow> string \<Rightarrow> string \<Rightarrow> string \<Rightarrow> Desk \<Rightarrow> Desk \<times> (thread_error + Session)" where
  "SetThreadServiceTier p key threadID tier =
     update_thread p key threadID True (\<lambda>s. s\<lparr>ss_ActiveThreadServiceTier := NormalizeServiceTier tier\<rparr>)"

definition Toggle_thread ::
  "('p) disk_ports_scheme \<Rightarrow> string \<Rightarrow> Desk \<Rightarrow> Desk \<times> (thread_error + Session)" where
  "Toggle_thread p key =
     update_thread p key [] True (\<lambda>s. s\<lparr>ss_ActiveThreadServiceTier :=
       (if NormalizeServiceTier (ss_ActiveThreadServiceTier s) = ''fast'' then [] else ''fast'')\<rparr>)"

text \<open>
  The permission mode of Claude (permissions.go). Bypassing needs the configuration; what is set is
  then applied to the running session, if its thread is still the one it was set for.
\<close>

record permission_ports =
  pp_Workspace :: "Session option \<Rightarrow> WorkspaceConfig option"
  pp_Default :: string
  pp_AllowBypass :: bool
  pp_Apply :: "string \<Rightarrow> string \<Rightarrow> string option"

definition permission_value :: "bool \<Rightarrow> string \<Rightarrow> thread_error + string" where
  "permission_value allowBypass raw =
     (let value = trim raw in
      if value \<in> {''inherit'', ''follow'', ''clear'', ''unset'', ''workspace'', ''global''} then Inr []
      else if value \<in> {[], ''default'', ''acceptEdits''} then Inr value
      else if value = ''bypassPermissions'' then (if allowBypass then Inr value else Inl BypassOff)
      else Inl (UnsupportedMode value))"

definition apply_permission ::
  "('p) disk_ports_scheme \<Rightarrow> permission_ports \<Rightarrow> string \<Rightarrow> string \<Rightarrow> Desk \<Rightarrow> Desk \<times> string option" where
  "apply_permission p pp key threadID w =
     (case get_session p key w of
        (w', None) \<Rightarrow> (w', None)
      | (w', Some sess) \<Rightarrow>
          if ss_ActiveThreadID sess \<noteq> threadID then (w', None)
          else
            let binding = (if trim (ss_BindingID sess) = [] then None
                           else scoped_AgentBinding (trim (ss_BindingID sess)) (dk_app w')) in
            (w', pp_Apply pp key (set_ClaudePermissionMode
               (ResolveSettings (Some sess) binding (scoped_BotProfile (dk_app w')) (pp_Workspace pp (Some sess))
                 (pp_Default pp)))))"

definition Set_permission ::
  "('p) disk_ports_scheme \<Rightarrow> permission_ports \<Rightarrow> string \<Rightarrow> string \<Rightarrow> string \<Rightarrow> Desk
     \<Rightarrow> Desk \<times> (thread_error + Session) \<times> string option" where
  "Set_permission p pp key threadID raw w =
     (case permission_value (pp_AllowBypass pp) raw of
        Inl e \<Rightarrow> (w, Inl e, None)
      | Inr value \<Rightarrow>
          (case Set_thread p key threadID Permissions value w of
             (w1, Inl e) \<Rightarrow> (w1, Inl e, None)
           | (w1, Inr sess) \<Rightarrow>
               (case apply_permission p pp key threadID w1 of (w2, e) \<Rightarrow> (w2, Inr sess, e))))"

section \<open>The defaults of a bot agree\<close>

definition trimmed_write :: "'k \<times> string \<Rightarrow> 'k \<times> string" where
  "trimmed_write kv = (fst kv, trim (snd kv))"

lemma dual_write_wr:
  "dual_write backend kv vp = Inr vp' \<Longrightarrow>
     vp' = (global.wr backend (trimmed_write kv) (fst vp), profile.wr backend (trimmed_write kv) (snd vp)) \<and>
     GlobalField backend (fst kv) \<noteq> None \<and> ProfileField backend (fst kv) \<noteq> None"
  by (auto simp: dual_write_def global.wr_def profile.wr_def trimmed_write_def split: option.splits)

lemma dual_writes_wr:
  "dual_writes backend kvs vp = Inr vp' \<Longrightarrow>
     vp' = (fold (global.wr backend) (map trimmed_write kvs) (fst vp),
            fold (profile.wr backend) (map trimmed_write kvs) (snd vp)) \<and>
     (\<forall>kv\<in>set kvs. GlobalField backend (fst kv) \<noteq> None \<and> ProfileField backend (fst kv) \<noteq> None)"
  by (induction kvs arbitrary: vp) (auto split: sum.splits dest!: dual_write_wr)

text \<open>Both fields of a setting hold the same value.\<close>

definition tiers_agree :: "string \<Rightarrow> Setting \<Rightarrow> GlobalValues \<times> BotProfile \<Rightarrow> bool" where
  "tiers_agree backend k vp \<longleftrightarrow> global.rd backend k (fst vp) = profile.rd backend k (snd vp)"

definition effort_fits :: "ModelListResult \<Rightarrow> GlobalValues \<times> BotProfile \<Rightarrow> bool" where
  "effort_fits catalog vp \<longleftrightarrow>
     ModelSupportsEffort
       (FindModelEntry catalog (FirstNonEmpty [bp_Model (snd vp), gv_Model (fst vp)]))
       (FirstNonEmpty [bp_ReasoningEffort (snd vp), gv_Effort (fst vp)]) \<and>
     ModelSupportsEffort
       (FindModelEntry catalog (FirstNonEmpty [bp_PlanModel (snd vp), gv_PlanModel (fst vp),
          FirstNonEmpty [bp_Model (snd vp), gv_Model (fst vp)]]))
       (FirstNonEmpty [bp_PlanReasoningEffort (snd vp), gv_PlanEffort (fst vp)])"

lemma dual_writes_agree:
  assumes "dual_writes backend kvs vp = Inr vp'" "k \<in> fst ` set kvs"
  shows "tiers_agree backend k vp'"
proof -
  have k: "GlobalField backend k \<noteq> None" "ProfileField backend k \<noteq> None"
    using dual_writes_wr [OF assms(1)] assms(2) by auto
  have "k \<in> fst ` set (rev (map trimmed_write kvs))"
    using assms(2) by (auto simp: trimmed_write_def image_image)
  then obtain v where v: "map_of (rev (map trimmed_write kvs)) k = Some v"
    by (metis map_of_eq_None_iff not_Some_eq)
  show ?thesis
    unfolding tiers_agree_def
    by (simp add: conjunct1 [OF dual_writes_wr [OF assms(1)]] global.rd_fold [OF k(1)]
        profile.rd_fold [OF k(2)] v)
qed

lemma no_effort_supported [simp]: "ModelSupportsEffort e []"
  by (simp add: ModelSupportsEffort_def split: option.split)

lemma FirstNonEmpty_blank2 [simp]: "FirstNonEmpty [[], []] = []"
  by (simp add: FirstNonEmpty_Nil_iff)

lemma fit_effort_fits: "effort_fits catalog (fit_effort catalog vp)"
  by (cases vp) (simp add: fit_effort_def effort_fits_def Let_def)

lemma fit_effort_agree:
  assumes "tiers_agree BackendCodex k vp"
  shows "tiers_agree BackendCodex k (fit_effort catalog vp)"
proof -
  have e: "tiers_agree BackendCodex k (v\<lparr>gv_Effort := []\<rparr>, p\<lparr>bp_ReasoningEffort := []\<rparr>)"
    if "tiers_agree BackendCodex k (v, p)" for v p
    using that by (cases k) (simp_all add: tiers_agree_def global.rd_def profile.rd_def)
  have e': "tiers_agree BackendCodex k (v\<lparr>gv_PlanEffort := []\<rparr>, p\<lparr>bp_PlanReasoningEffort := []\<rparr>)"
    if "tiers_agree BackendCodex k (v, p)" for v p
    using that by (cases k) (simp_all add: tiers_agree_def global.rd_def profile.rd_def)
  show ?thesis
    using assms by (cases vp) (auto simp: fit_effort_def Let_def e e' split: prod.split)
qed

text \<open>
  Setting the defaults of a bot writes every named setting to the configuration and to the
  profile of the frontend, with the same value in both, whatever was there and whatever the
  catalog clears; and with the catalog of codex the effort and the plan effort in force are ones
  the model in force offers.
\<close>
theorem defaults_agree:
  assumes "Set_defaults frontend blocked commit command revision = Inr revision'"
  shows "\<exists>p. df_Profile revision' = Some p \<and>
    (\<forall>k\<in>fst ` set (dc_Values command). tiers_agree (dc_Backend command) k (df_Values revision', p)) \<and>
    (\<forall>catalog. dc_Catalog command = Some catalog \<and> dc_Backend command = BackendCodex \<longrightarrow>
       effort_fits catalog (df_Values revision', p))"
proof -
  define f where "f = (if trim frontend = [] then ''default'' else frontend)"
  have r: "revised_defaults f command revision = Inr revision'"
    using assms by (auto simp: Set_defaults_def f_def Let_def split: option.splits if_splits sum.splits)
  obtain p0 vp where w: "dual_writes (dc_Backend command) (dc_Values command) (df_Values revision, p0) = Inr vp"
    and e: "revision' = \<lparr>df_Values = fst (case dc_Catalog command of
                 Some catalog \<Rightarrow> if dc_Backend command = BackendCodex then fit_effort catalog vp else vp
               | None \<Rightarrow> vp), df_Profile = Some (snd (case dc_Catalog command of
                 Some catalog \<Rightarrow> if dc_Backend command = BackendCodex then fit_effort catalog vp else vp
               | None \<Rightarrow> vp))\<rparr>"
    using r unfolding revised_defaults_def Let_def
    by (auto simp: case_prod_beta split: sum.splits)
  have a: "tiers_agree (dc_Backend command) k vp" if "k \<in> fst ` set (dc_Values command)" for k
    using dual_writes_agree [OF w that] .
  show ?thesis
    by (cases "dc_Catalog command"; cases "dc_Backend command = BackendCodex")
      (use a in \<open>auto simp: e fit_effort_fits fit_effort_agree\<close>)
qed

definition demo_catalog :: ModelListResult where
  "demo_catalog =
     [\<lparr>ml_ID = ''m'', ml_Model = ''m'', ml_DisplayName = [], ml_Description = [],
       ml_DefaultReasoningEffort = ''low'',
       ml_SupportedReasoningEfforts = [\<lparr>me_ReasoningEffort = ''low'', me_Description = []\<rparr>],
       ml_IsDefault = True\<rparr>]"

definition demo_revision :: DefaultsRevision where
  "demo_revision = \<lparr>df_Values = GlobalValues.make [] ''high'' [] [] [] [] [] [] [] [] [] [],
     df_Profile = Some zero_BotProfile\<rparr>"

definition demo_command :: DefaultsCommand where
  "demo_command = \<lparr>dc_Backend = BackendCodex, dc_Values = [(Model, ''m''), (Effort, ''high'')],
     dc_Catalog = Some demo_catalog\<rparr>"

definition demo_saved :: DefaultsRevision where
  "demo_saved = \<lparr>df_Values = GlobalValues.make ''m'' [] [] [] [] [] [] [] [] [] [] [],
     df_Profile = Some (zero_BotProfile\<lparr>bp_Model := ''m''\<rparr>)\<rparr>"

lemma demo_trims: "trim ''m'' = ''m''" "trim ''high'' = ''high''" "trim ''low'' = ''low''"
  by code_simp+

lemma demo_defaults: "Set_defaults ''bot'' None (\<lambda>_. None) demo_command demo_revision = Inr demo_saved"
  by (simp add: Set_defaults_def revised_defaults_def demo_command_def demo_revision_def demo_saved_def
      dual_write_def fit_effort_def FindModelEntry_def LookupModelEntry_def ModelSupportsEffort_def
      demo_catalog_def GlobalValues.make_def zero_BotProfile_def FirstNonEmpty_Cons demo_trims Let_def)

theorem defaults_agree_witness:
  "\<exists>p. df_Profile demo_saved = Some p \<and> tiers_agree BackendCodex Model (df_Values demo_saved, p) \<and>
     effort_fits demo_catalog (df_Values demo_saved, p)"
  using defaults_agree [OF demo_defaults] by (simp add: demo_command_def) blast

section \<open>The options are a set in the order of entry\<close>

lemma kept_options_spec:
  "distinct out \<Longrightarrow> distinct (kept_options add value out ms) \<and>
     set (kept_options add value out ms) =
       set out \<union> {m \<in> trim ` set ms. m \<noteq> [] \<and> (add \<or> m \<noteq> value)}"
  by (induction ms arbitrary: out) (auto simp: Let_def)

text \<open>
  A changed list of model options has no blank and no repeated entry; adding a model keeps the
  others and has the new one, removing keeps exactly the others.
\<close>
theorem Set_option_set:
  "case Set_option value add options of
     None \<Rightarrow> blank value
   | Some out \<Rightarrow> distinct out \<and>
       set out = (if add then insert (trim value) {m \<in> trim ` set options. m \<noteq> []}
                  else {m \<in> trim ` set options. m \<noteq> [] \<and> m \<noteq> trim value})"
  using kept_options_spec [of "[]" add "trim value" "if add then options @ [trim value] else options"]
  by (auto simp: Set_option_def Let_def)

end
