(* ===== verification/Plan_Confirmation.thy ===== *)
theory Plan_Confirmation
  imports Pending_Queue Interaction_Service Model_Settings
begin

text \<open>
  Plan mode: which collaboration mode a thread is switched to (\<open>internal/application/plan/settings.go\<close>
  and \<open>service.go\<close>), and the question whether a finished plan is to be implemented
  (\<open>confirmation.go\<close>, with its entry in \<open>internal/adapter/feishu/planmode/exit.go\<close>). The question is
  a pending request of the interaction service; the encoding of its payload and the delivery of its
  card are ports.
\<close>

section \<open>The mode of a thread (settings.go)\<close>

record SettingsValues =
  pv_Experimental :: bool
  pv_CurrentModel :: string
  pv_CurrentEffort :: string
  pv_CurrentPlanModel :: string
  pv_CurrentPlanEffort :: string

record CollaborationModeMask =
  mk_Name :: string
  mk_Mode :: "string option"
  mk_Model :: "string option"
  mk_ReasoningEffort :: "string option"

record plan_settings =
  ps_Values :: "Session option \<Rightarrow> SettingsValues"
  ps_Catalog :: "string option"
  ps_Modes :: "string + CollaborationModeMask list"
  ps_Models :: "string + ModelListResult"

datatype plan_error =
    NotExperimental | CatalogFailed string | NoPlanPreset | ModelUnavailable
  | PlanThreadMissing | PlanThreadChanged | PlanNotSaved scoped_error | PlanForm form_error
  | PlanPayload string | PlanExpiredError | PlanBusy | PlanWorkspace string | PlanThread string
  | PlanSession | PlanQueue store_error | PlanStart string

definition CaptureMode :: "plan_settings \<Rightarrow> Session \<Rightarrow> SessionCollaborationMode option" where
  "CaptureMode ps sess =
     (case NormalizeCollaborationMode (ss_ActiveThreadCollaborationMode sess) of
        None \<Rightarrow> None
      | Some mode \<Rightarrow>
          if equal_fold (cm_Mode mode) ''default'' \<and> cm_ReasoningEffort mode = []
          then Some (mode\<lparr>cm_ReasoningEffort := trim (pv_CurrentEffort (ps_Values ps (Some sess)))\<rparr>)
          else Some mode)"

definition default_mode :: "string \<Rightarrow> string \<Rightarrow> SessionCollaborationMode" where
  "default_mode model effort =
     \<lparr>cm_PresetReasoningEffort = [], cm_Mode = ''default'', cm_Model = model, cm_ReasoningEffort = effort,
      cm_DeveloperInstructions = None\<rparr>"

text \<open>The modes the session had: of its thread, and of its last codex thread.\<close>

definition known_modes :: "Session option \<Rightarrow> SessionCollaborationMode list" where
  "known_modes session =
     (case session of
        None \<Rightarrow> []
      | Some sess \<Rightarrow> map the (filter (\<lambda>m. m \<noteq> None)
          [ss_ActiveThreadCollaborationMode sess,
           (case map_of (ss_BackendThreads sess) ''codex'' of None \<Rightarrow> None | Some t \<Rightarrow> bt_CollaborationMode t)]))"

text \<open>What leaving plan mode finds without asking the backend.\<close>

definition remembered_default :: "SettingsValues \<Rightarrow> SessionCollaborationMode list \<Rightarrow> string \<times> string" where
  "remembered_default values modes =
     (let (model, effort) =
        fold (\<lambda>mode (model, effort).
            if equal_fold (cm_Mode mode) ''default''
            then (FirstNonEmpty [model, cm_Model mode], FirstNonEmpty [effort, cm_ReasoningEffort mode])
            else (model, effort)) modes
          (trim (pv_CurrentModel values), trim (pv_CurrentEffort values)) in
      if model \<noteq> [] then (model, effort)
      else (fold (\<lambda>mode model.
            if \<not> equal_fold (cm_Mode mode) ''plan'' \<or> pv_CurrentPlanModel values = []
            then FirstNonEmpty [model, cm_Model mode] else model) modes model, effort))"

definition plan_preset :: "CollaborationModeMask list \<Rightarrow> CollaborationModeMask option" where
  "plan_preset = find (\<lambda>m. case mk_Mode m of None \<Rightarrow> False | Some x \<Rightarrow> trim x = ''plan'')"

text \<open>Mode, preset effort, model and effort before the model is looked up.\<close>

definition requested_mode ::
  "plan_settings \<Rightarrow> SettingsValues \<Rightarrow> bool \<Rightarrow> string \<times> string
     \<Rightarrow> plan_error + string \<times> string \<times> string \<times> string" where
  "requested_mode ps values enabled = (\<lambda>(model, effort).
     if \<not> enabled then Inr (''default'', [], model, effort)
     else case ps_Modes ps of
       Inl e \<Rightarrow> Inl (CatalogFailed e)
     | Inr modes \<Rightarrow>
         (case plan_preset modes of
            None \<Rightarrow> Inl NoPlanPreset
          | Some preset \<Rightarrow>
              let given = (case mk_ReasoningEffort preset of None \<Rightarrow> [] | Some x \<Rightarrow> trim x) in
              Inr (''plan'', given, FirstNonEmpty [pv_CurrentPlanModel values, model],
                   (if mk_ReasoningEffort preset = None then trim (pv_CurrentPlanEffort values)
                    else FirstNonEmpty [trim (pv_CurrentPlanEffort values), given]))))"

definition resolved_model ::
  "plan_settings \<Rightarrow> bool \<Rightarrow> string \<Rightarrow> string \<Rightarrow> plan_error + string \<times> string" where
  "resolved_model ps enabled model effort =
     (if model \<noteq> [] then Inr (model, effort)
      else case ps_Models ps of
        Inl e \<Rightarrow> Inl (CatalogFailed e)
      | Inr catalog \<Rightarrow>
          (case FindModelEntry catalog model of
             None \<Rightarrow> Inl ModelUnavailable
           | Some entry \<Rightarrow>
               Inr (FirstNonEmpty [ml_ID entry, ml_Model entry],
                    if \<not> enabled \<and> (effort = [] \<or> \<not> ModelSupportsEffort (Some entry) effort)
                    then trim (ml_DefaultReasoningEffort entry) else effort)))"

definition Resolve_mode ::
  "plan_settings \<Rightarrow> Session option \<Rightarrow> bool \<Rightarrow> plan_error + SessionCollaborationMode" where
  "Resolve_mode ps session enabled =
     (let values = ps_Values ps session;
          (model, effort) =
            (if enabled then (trim (pv_CurrentModel values), trim (pv_CurrentEffort values))
             else remembered_default values (known_modes session)) in
      if \<not> enabled \<and> model \<noteq> [] then Inr (default_mode model effort)
      else if enabled \<and> \<not> pv_Experimental values then Inl NotExperimental
      else case ps_Catalog ps of
        Some e \<Rightarrow> Inl (CatalogFailed e)
      | None \<Rightarrow>
          (case requested_mode ps values enabled (model, effort) of
             Inl e \<Rightarrow> Inl e
           | Inr (mode, given, model, effort) \<Rightarrow>
               (case resolved_model ps enabled model effort of
                  Inl e \<Rightarrow> Inl e
                | Inr (model, effort) \<Rightarrow>
                    Inr \<lparr>cm_PresetReasoningEffort = given, cm_Mode = mode, cm_Model = model,
                         cm_ReasoningEffort = effort, cm_DeveloperInstructions = None\<rparr>)))"

section \<open>Switching (service.go)\<close>

record plan_ports =
  pn_Settings :: plan_settings
  pn_Encode :: "string \<Rightarrow> string"
  pn_Decode :: "string \<Rightarrow> string + string"
  pn_Deliver :: "DeliveryInput \<Rightarrow> string + string"
  pn_DefaultWorkspaceID :: string
  pn_Workspace :: "string \<Rightarrow> WorkspaceConfig option"
  pn_StartThread :: "string \<Rightarrow> Session \<Rightarrow> WorkspaceConfig \<Rightarrow> Desk \<Rightarrow> Desk \<times> string option"

definition ModeForTurnStart ::
  "('p) disk_ports_scheme \<Rightarrow> plan_settings \<Rightarrow> string \<Rightarrow> string \<Rightarrow> Desk
     \<Rightarrow> Desk \<times> SessionCollaborationMode option" where
  "ModeForTurnStart p ps sessionKey threadID w =
     (if trim sessionKey = [] \<or> trim threadID = [] then (w, None)
      else case get_session p sessionKey w of
        (w', None) \<Rightarrow> (w', None)
      | (w', Some sess) \<Rightarrow>
          (w', if trim (ss_ActiveThreadID sess) \<noteq> trim threadID then None else CaptureMode ps sess))"

text \<open>The mode is written if the thread is still the one it was resolved for.\<close>

definition write_mode ::
  "('p) disk_ports_scheme \<Rightarrow> string \<Rightarrow> Session \<Rightarrow> SessionCollaborationMode \<Rightarrow> Desk
     \<Rightarrow> Desk \<times> plan_error option" where
  "write_mode p key sess mode w =
     (let changed = (case get_session p key w of
            (_, None) \<Rightarrow> False
          | (_, Some cur) \<Rightarrow> ss_ActiveThreadID cur = ss_ActiveThreadID sess) in
      case update_session p key
             (\<lambda>cur. if ss_ActiveThreadID cur = ss_ActiveThreadID sess
                        then cur\<lparr>ss_ActiveThreadCollaborationMode := Some mode\<rparr> else cur) w of
        (w', Inl e) \<Rightarrow> (w', Some (PlanNotSaved e))
      | (w', Inr _) \<Rightarrow> (w', if changed then None else Some PlanThreadChanged))"

definition Configure_plan ::
  "('p) disk_ports_scheme \<Rightarrow> plan_settings \<Rightarrow> string \<Rightarrow> string \<Rightarrow> Desk
     \<Rightarrow> Desk \<times> (plan_error + SessionCollaborationMode \<times> bool)" where
  "Configure_plan p ps key option w =
     (case get_session p key w of
        (w1, None) \<Rightarrow> (w1, Inl PlanThreadMissing)
      | (w1, Some sess) \<Rightarrow>
          if trim (ss_ActiveThreadID sess) = [] then (w1, Inl PlanThreadMissing)
          else
            let in_plan = (case ss_ActiveThreadCollaborationMode sess of
                   None \<Rightarrow> False | Some m \<Rightarrow> equal_fold (cm_Mode m) ''plan'');
                enabled = (option = ''on'' \<or> option = [] \<and> \<not> in_plan) in
            (case Resolve_mode ps (Some sess) enabled of
               Inl e \<Rightarrow> (w1, Inl e)
             | Inr mode \<Rightarrow>
                 (case write_mode p key sess mode w1 of
                    (w2, Some e) \<Rightarrow> (w2, Inl e)
                  | (w2, None) \<Rightarrow> (w2, Inr (mode, enabled)))))"

definition Clear_plan ::
  "('p) disk_ports_scheme \<Rightarrow> plan_settings \<Rightarrow> string \<Rightarrow> Desk \<Rightarrow> Desk \<times> (plan_error + bool)" where
  "Clear_plan p ps key w =
     (case get_session p key w of
        (w1, None) \<Rightarrow> (w1, Inr False)
      | (w1, Some sess) \<Rightarrow>
          (case Resolve_mode ps (Some sess) False of
             Inl e \<Rightarrow> (w1, Inl e)
           | Inr mode \<Rightarrow>
               (case write_mode p key sess mode w1 of
                  (w2, Some e) \<Rightarrow> (w2, Inl e)
                | (w2, None) \<Rightarrow> (w2, Inr True))))"

section \<open>The confirmation (confirmation.go)\<close>

definition ConfirmationKind :: string where
  "ConfirmationKind = ''codex_exit_plan_mode''"

definition Confirmation :: "string \<Rightarrow> ScopedStore \<Rightarrow> PendingRequest option" where
  "Confirmation key s =
     fold (\<lambda>req latest.
         if pr_Kind req = ConfirmationKind \<and> pr_SessionKey req = trim key \<and>
            IsPendingRequestOpen (pr_Status req) \<and>
            (case latest of None \<Rightarrow> True | Some l \<Rightarrow> pr_CreatedAt req > pr_CreatedAt l)
         then Some req else latest)
       (scoped_PendingRequests s) None"

text \<open>A draft without a payload, lifetime or message: a change of the status.\<close>

definition save_status ::
  "('p) disk_ports_scheme \<Rightarrow> string \<Rightarrow> string \<Rightarrow> Desk \<Rightarrow> Desk \<times> form_error option" where
  "save_status p i status = on_app (\<lambda>n. SaveDraft (dp_now p n) i None status 0 [])"

definition Invalidate_plan ::
  "('p) disk_ports_scheme \<Rightarrow> string \<Rightarrow> Desk \<Rightarrow> Desk \<times> (form_error + PendingRequest option)" where
  "Invalidate_plan p key w =
     (case Confirmation key (dk_app w) of
        None \<Rightarrow> (w, Inr None)
      | Some req \<Rightarrow>
          (case save_status p (pr_ID req) ''expired'' w of
             (w', Some e) \<Rightarrow> (w', Inl e)
           | (w', None) \<Rightarrow> (w', Inr (Some req))))"

record ConfirmationInput =
  ci_SessionKey :: string
  ci_ThreadID :: string
  ci_TurnID :: string
  ci_Status :: string
  ci_Markdown :: string
  ci_Eligible :: bool
  ci_Submission :: "Submission option"

text \<open>The session has nothing else to do than to be asked.\<close>

definition at_rest :: "string \<Rightarrow> Session \<Rightarrow> bool" where
  "at_rest threadID sess \<longleftrightarrow>
     ss_ActiveThreadID sess \<noteq> [] \<and> ss_ActiveThreadID sess = threadID \<and> \<not> HasActiveWork (Some sess) \<and>
     ss_Queue sess = [] \<and> ss_StagedImages sess = [] \<and>
     NormalizeSessionStatus (ss_Status sess) = SessionStatusIdle"

definition confirmation_id :: "Submission \<Rightarrow> string" where
  "confirmation_id sub = ''codex-plan-exit-'' @ sub_ID sub"

definition offer_blocked :: "string \<Rightarrow> string \<Rightarrow> ScopedStore \<Rightarrow> bool" where
  "offer_blocked key i s \<longleftrightarrow>
     (\<exists>req\<in>set (scoped_PendingRequests s).
        pr_SessionKey req = key \<and> pr_ID req \<noteq> i \<and> IsPendingRequestOpen (pr_Status req)) \<or>
     (case scoped_Pending i s of None \<Rightarrow> False | Some existing \<Rightarrow> pr_Status existing \<noteq> ''pending'')"

definition Offer ::
  "('p) disk_ports_scheme \<Rightarrow> ('d) plan_ports_scheme \<Rightarrow> ConfirmationInput \<Rightarrow> Desk
     \<Rightarrow> Desk \<times> bool \<times> interaction_error option" where
  "Offer p pn input w =
     (case ci_Submission input of
        None \<Rightarrow> (w, False, None)
      | Some sub \<Rightarrow>
          if \<not> ci_Eligible input \<or> ci_Status input \<noteq> ''completed'' \<or> trim (ci_Markdown input) = []
          then (w, False, None)
          else
            let key = FirstNonEmpty [ci_SessionKey input, sub_SessionKey sub];
                threadID = FirstNonEmpty [ci_ThreadID input, sub_ThreadID sub];
                i = confirmation_id sub in
            (case get_session p key w of
               (w1, None) \<Rightarrow> (w1, False, None)
             | (w1, Some sess) \<Rightarrow>
                 if \<not> at_rest threadID sess \<or> offer_blocked key i (dk_app w1) then (w1, False, None)
                 else
                   let request = zero_PendingRequest
                         \<lparr>pr_ID := i, pr_Kind := ConfirmationKind, pr_SessionKey := key,
                          pr_ThreadID := threadID, pr_OwnerUserID := sub_UserID sub,
                          pr_PayloadJSON := pn_Encode pn (trim (ci_Markdown input))\<rparr> in
                   (case on_app (\<lambda>n. Open_interaction (dp_now p n) (dp_alias_io p n) (pn_Deliver pn)
                           \<lparr>di_Request = request, di_SubmissionID = [], di_WaitingStatus = [],
                            di_NonBlocking = True, di_TTL = 1800\<rparr>) w1 of
                      (w2, e) \<Rightarrow> (w2, e = None, e))))"

definition Authorize_plan :: "int \<Rightarrow> string \<Rightarrow> string \<Rightarrow> ScopedStore \<Rightarrow> form_error + PendingRequest" where
  "Authorize_plan now i userID s = Authorize now i ConfirmationKind userID s"

definition Stay ::
  "('p) disk_ports_scheme \<Rightarrow> string \<Rightarrow> Desk \<Rightarrow> Desk \<times> plan_error option" where
  "Stay p i w =
     (case scoped_Pending i (dk_app w) of
        None \<Rightarrow> (w, Some PlanExpiredError)
      | Some req \<Rightarrow>
          if pr_Status req \<noteq> ''pending'' then (w, Some PlanExpiredError)
          else (case save_status p i ''resolved'' w of (w', e) \<Rightarrow> (w', map_option PlanForm e)))"

text \<open>
  The end of a turn in plan mode (exit.go): the question is asked at most once per submission; an
  error of the delivery is logged.
\<close>

definition ProcessCodexPlanModeExitOnTurnCompleted ::
  "('p) disk_ports_scheme \<Rightarrow> ('d) plan_ports_scheme \<Rightarrow> string \<Rightarrow> ConfirmationInput \<Rightarrow> Desk \<Rightarrow> Desk \<times> bool" where
  "ProcessCodexPlanModeExitOnTurnCompleted p pn backend input w =
     (if ci_Submission input = None \<or> backend \<noteq> BackendCodex then (w, False)
      else case Offer p pn input w of (w', offered, _) \<Rightarrow> (w', offered))"

end
