(* ===== verification/Submission_Start.thy ===== *)
theory Submission_Start
  imports Dispatch Pending_Queue Store_Work Effects Workspace_Selection Plan_Confirmation
begin

text \<open>
  How queued input becomes a turn of the backend: the rest of
  \<open>internal/application/submission/queue.go\<close>, \<open>claude_start.go\<close> and \<open>turn_start.go\<close>. A submission
  is enqueued, taken from the queue of its session, bound to a thread, and handed to the backend;
  a failed start is undone or finalized. The backends, the chat service and the configuration are
  the ports of a queue. Other goroutines do not run in between: a session's work is serialized by
  its actor.
\<close>

section \<open>Ports\<close>

text \<open>
  What a backend answers when it fails: the 30 second deadline passed, the model settings could
  not be applied (ErrModelConfigApply), or something else.
\<close>

datatype failure = DeadlineExceeded | ModelConfigApply string | OtherFailure string

datatype start_error =
    BackendFailed failure | SessionFailed scoped_error | SubmissionFailed store_error
  | SnapshotInvalid | NoSuchWorkspace string | SessionGone string | ClaudeMissing
  | NoInput string | NoTurnID | PlanNotWithdrawn form_error | NilDereference | SubmissionGone | NoWorkspaceChosen | Rejected string

record SubmissionSkillResolution =
  sr_InputText :: string
  sr_Skills :: "SubmissionSkill list"
  sr_ConsumePending :: bool
  sr_PendingReplacement :: "SubmissionSkill option"

record queue_ports = disk_ports +
  qp_Backend :: string
  qp_FrontendID :: string
  qp_Workspace :: "string \<Rightarrow> WorkspaceConfig option"
  qp_DefaultWorkspaceID :: string
  qp_Deferring :: "nat \<Rightarrow> bool"
  qp_DropLineage :: "start_error \<Rightarrow> bool"
  qp_Text :: "start_error \<Rightarrow> string"
  qp_RetryEnabled :: bool
  qp_Present :: presenter
  qp_GlobalValues :: GlobalValues
  qp_ReplyInThread :: "Submission \<Rightarrow> bool"
  qp_ReplyFails :: "string \<Rightarrow> bool"
  qp_StartConversation ::
    "WorkspaceConfig \<Rightarrow> Session \<Rightarrow> Submission \<Rightarrow> string \<Rightarrow> failure + (string \<times> string \<times> string)"
  qp_RunStartTurn :: "StartTurnRequest \<Rightarrow> failure + string"
  qp_ModeForTurnStart :: "string \<Rightarrow> string \<Rightarrow> SessionCollaborationMode option"
  qp_StartReview :: "string \<Rightarrow> Submission \<Rightarrow> failure + string"
  qp_ClaudeAvailable :: bool
  qp_ClaudePrompt :: "Submission \<Rightarrow> string"
  qp_EnsureSession :: "nat \<Rightarrow> string \<Rightarrow> WorkspaceConfig \<Rightarrow> string \<Rightarrow> string \<Rightarrow> failure + string"
  qp_ClaudeTurn :: "string \<Rightarrow> string \<Rightarrow> string \<Rightarrow> string \<Rightarrow> failure option"
  qp_ClaudeSteer :: "string \<Rightarrow> string \<Rightarrow> string \<Rightarrow> string \<Rightarrow> string \<Rightarrow> failure option"
  qp_CanRetryFresh :: "string \<Rightarrow> bool"
  qp_Selection :: selection
  qp_ReplyInThreadEnabled :: "string \<Rightarrow> bool"
  qp_Attachments :: "InboundMessage \<Rightarrow> string \<Rightarrow> string \<Rightarrow> string + SubmissionAttachment list"
  qp_Skill :: "nat \<Rightarrow> string \<Rightarrow> string \<Rightarrow> string \<Rightarrow> SubmissionAttachment list \<Rightarrow> SubmissionSkillResolution"

definition now_of :: "queue_ports \<Rightarrow> Desk \<Rightarrow> int" where
  "now_of p w = dp_now p (dk_calls w)"

section \<open>Settings of a submission (queue.go, turn\_start.go)\<close>

definition submissionBinding :: "Session \<Rightarrow> Submission \<Rightarrow> Desk \<Rightarrow> AgentBinding option" where
  "submissionBinding sess sub w =
     (let by_id = (\<lambda>i. if trim i = [] then None else scoped_AgentBinding (trim i) (dk_app w)) in
      case by_id (sub_BindingID sub) of
        Some b \<Rightarrow> Some b
      | None \<Rightarrow> by_id (ss_BindingID sess))"

definition submissionSettings :: "Session \<Rightarrow> Submission \<Rightarrow> WorkspaceConfig \<Rightarrow> Desk \<Rightarrow> Settings" where
  "submissionSettings sess sub ws w =
     ResolveSettings (Some sess) (submissionBinding sess sub w) (scoped_BotProfile (dk_app w)) (Some ws) []"

definition modelSnapshot :: "queue_ports \<Rightarrow> Session \<Rightarrow> Submission \<Rightarrow> Desk \<Rightarrow> start_error + Snapshot" where
  "modelSnapshot p sess sub w =
     (let snapshot = SubmissionSnapshot (qp_GlobalValues p) (qp_Backend p) (Some sess) (Some sub) (dk_app w) in
      if snap_Valid snapshot then Inr snapshot else Inl SnapshotInvalid)"

definition turn_collaboration ::
  "queue_ports \<Rightarrow> string \<Rightarrow> string \<Rightarrow> Snapshot \<Rightarrow> SessionCollaborationMode option" where
  "turn_collaboration p key threadID snapshot =
     (if snap_Valid snapshot then
        (if snap_CollaborationMode snapshot = [] then None
         else
           let (model, effort) =
             (if snap_CollaborationMode snapshot = ''plan'' then (snap_PlanModel snapshot, snap_PlanEffort snapshot)
              else (snap_Model snapshot, snap_Effort snapshot)) in
           if model = [] then None
           else Some \<lparr>cm_PresetReasoningEffort = [], cm_Mode = snap_CollaborationMode snapshot,
                  cm_Model = model, cm_ReasoningEffort = effort, cm_DeveloperInstructions = None\<rparr>)
      else qp_ModeForTurnStart p key threadID)"

definition turn_request ::
  "queue_ports \<Rightarrow> string \<Rightarrow> string \<Rightarrow> Submission \<Rightarrow> string \<Rightarrow> Settings \<Rightarrow> string \<Rightarrow> string \<Rightarrow> StartTurnRequest" where
  "turn_request p key threadID sub cwd settings model effort =
     \<lparr>st_ThreadID = threadID, st_Submission = Some sub, st_Cwd = cwd,
      st_ApprovalPolicy = set_ApprovalPolicy settings, st_SandboxMode = set_SandboxMode settings,
      st_ServiceTier = set_ServiceTier settings, st_Model = model, st_Effort = effort,
      st_MultiAgentMode = set_MultiAgentMode settings,
      st_Collaboration = turn_collaboration p key threadID (sub_ModelConfig sub)\<rparr>"

definition IsReviewSubmission :: "Submission \<Rightarrow> bool" where
  "IsReviewSubmission sub \<longleftrightarrow> trim (sub_Kind sub) = ''review''"

section \<open>A failed start\<close>

definition submission_operation :: "string \<Rightarrow> string \<Rightarrow> string \<Rightarrow> SessionActiveOperation" where
  "submission_operation i threadID turnID =
     \<lparr>op_Kind = OpKindSubmission, op_SubmissionID = i, op_ThreadID = threadID, op_TurnID = turnID,
      op_StartedAt = 0\<rparr>"

definition NotifySubmissionStartFailure ::
  "queue_ports \<Rightarrow> Submission \<Rightarrow> string \<Rightarrow> bool \<Rightarrow> Desk \<Rightarrow> Desk" where
  "NotifySubmissionStartFailure p sub failure willContinue w =
     (let body = trim failure; trigger = sub_TriggerMessageID sub;
          in_chat = (\<lambda>w. if trim (sub_ChatID sub) \<noteq> []
                         then emit (StartFailedNotice (sub_ChatID sub) body willContinue False) w else w) in
      if trim trigger \<noteq> [] then
        let w' = emit (StartFailedNotice trigger body willContinue (qp_ReplyInThread p sub)) w in
        if qp_ReplyFails p trigger then in_chat w' else w'
      else in_chat w)"

text \<open>The change of the session: the operation goes, and the thread if its lineage is broken.\<close>

definition drops_thread :: "bool \<Rightarrow> string \<Rightarrow> Session \<Rightarrow> bool" where
  "drops_thread dropLineage threadID sess \<longleftrightarrow>
     dropLineage \<and> trim threadID \<noteq> [] \<and> trim (ss_ActiveThreadID sess) = trim threadID"

definition without_operation :: "string option \<Rightarrow> Session \<Rightarrow> Session" where
  "without_operation submissionID sess =
     (case submissionID of None \<Rightarrow> sess | Some i \<Rightarrow> fst (RemoveActiveOperation sess i []))"

definition after_start_failure :: "string option \<Rightarrow> bool \<Rightarrow> string \<Rightarrow> Session \<Rightarrow> Session" where
  "after_start_failure submissionID dropLineage threadID sess0 =
     (let sess1 = without_operation submissionID sess0;
          sess2 = (if drops_thread dropLineage threadID sess1
                   then ClearBackendThread (ClearThreadContext sess1) ''codex'' else sess1);
          sess3 = EnsureActiveOperations sess2 in
      if HasActiveOperations (Some sess2) then sess3
      else if ss_Queue sess3 \<noteq> [] \<or> ss_StagedImages sess3 \<noteq> []
      then sess3\<lparr>ss_Status := SessionStatusQueued\<rparr>
      else sess3\<lparr>ss_Status := SessionStatusIdle\<rparr>)"

definition next_session_key :: "queue_ports \<Rightarrow> string \<Rightarrow> Desk \<Rightarrow> Desk \<times> string" where
  "next_session_key p key w =
     on_app (\<lambda>n. NextQueuedSessionKey (dp_now p n) (dp_alias_io p n) (HasBlockingAutoRetry (dk_retry w)) key) w"

definition observe_failure ::
  "queue_ports \<Rightarrow> string \<Rightarrow> string \<Rightarrow> Session \<Rightarrow> Submission option \<Rightarrow> string \<Rightarrow> Desk \<Rightarrow> Desk \<times> bool" where
  "observe_failure p key threadID sess sub lastError w =
     (case ObserveAutoRetryTerminal (qp_Present p) (qp_RetryEnabled p) key threadID ''failed'' (Some sess) sub
             [] lastError (dk_retry w) of
        (t, pending) \<Rightarrow> (w\<lparr>dk_retry := t\<rparr>, pending))"

text \<open>
  The submission as the store has it now; without it, or when it is finalized, no notice is sent.
\<close>

definition refreshed :: "Submission option \<Rightarrow> bool \<Rightarrow> Desk \<Rightarrow> Submission option \<times> bool" where
  "refreshed submission notifyFailure w =
     (case submission of
        None \<Rightarrow> (None, notifyFailure)
      | Some sub \<Rightarrow>
          (case app_submission (sub_ID sub) w of
             None \<Rightarrow> (Some sub, False)
           | Some stored \<Rightarrow> (Some stored, notifyFailure \<and> \<not> sub_Finalized stored)))"

definition HandleSubmissionStartFailure ::
  "queue_ports \<Rightarrow> string \<Rightarrow> string \<Rightarrow> Submission option \<Rightarrow> start_error \<Rightarrow> bool \<Rightarrow> Desk \<Rightarrow> Desk" where
  "HandleSubmissionStartFailure p sessionKey threadID submission e notifyFailure0 w0 =
     (let dropLineage = qp_DropLineage p e;
          (sub, notifyFailure) = refreshed submission notifyFailure0 w0;
          i = map_option sub_ID sub;
          w1 = (case i of None \<Rightarrow> w0 | Some i \<Rightarrow> on_turns (ClearPendingTurnBindingForSubmission threadID i) w0);
          w2 = ClearSubmissionProcessingReactions p sub w1;
          w3 = (case i of None \<Rightarrow> w2 | Some i \<Rightarrow> fst (finalize_submission p i SubmissionStatusFailed w2));
          before = snd (get_session p sessionKey w3);
          (w4, updated) = update_session p sessionKey (after_start_failure i dropLineage threadID) w3;
          cleared = (case before of
             None \<Rightarrow> False
           | Some sess \<Rightarrow> drops_thread dropLineage threadID (without_operation i sess));
          (w5, startNext) = (case updated of
             Inr (Some sess) \<Rightarrow>
               (case observe_failure p sessionKey threadID sess sub (qp_Text p e) w4 of
                  (w, True) \<Rightarrow> (w, False)
                | (w, False) \<Rightarrow> (case next_session_key p sessionKey w of (w', k) \<Rightarrow> (w', k \<noteq> [])))
           | _ \<Rightarrow> (w4, False));
          w6 = (if cleared then on_live (ClearLive sessionKey) w5 else w5);
          w7 = (case sub of
                  Some s \<Rightarrow> if notifyFailure then NotifySubmissionStartFailure p s (qp_Text p e) startNext w6 else w6
                | None \<Rightarrow> w6);
          w8 = CleanupSubmissionRuntimeState sub w7 in
      if startNext then
        (case next_session_key p sessionKey w8 of
           (w9, k) \<Rightarrow> emit (Scheduled (FirstNonEmpty [k, sessionKey]) ''turnStartFailed'') w9)
      else w8)"


section \<open>A start on Codex\<close>

text \<open>The thread to use: the session's, if it belongs to the workspace and is still attached.\<close>

definition codex_thread :: "string \<Rightarrow> Session \<Rightarrow> Submission \<Rightarrow> Desk \<Rightarrow> Session \<times> string" where
  "codex_thread sessionKey sess0 sub w =
     (let (sess1, t1) = (if CanResumeThreadForWorkspace (Some sess0) (sub_WorkspaceID sub)
                         then (sess0, trim (ss_ActiveThreadID sess0)) else (ClearThreadContext sess0, [])) in
      if t1 \<noteq> [] \<and> \<not> HasLive sessionKey t1 (dk_live w) then (ClearThreadContext sess1, []) else (sess1, t1))"

definition applied_config :: "bool \<Rightarrow> Session \<Rightarrow> Submission \<Rightarrow> Snapshot" where
  "applied_config createdThread sess sub =
     (let applied = sub_ModelConfig sub; old = ss_AppliedModelConfig sess in
      if snap_Valid old \<and> snap_Backend old = ''codex'' \<and> \<not> createdThread
      then applied\<lparr>snap_ReviewModel := snap_ReviewModel old, snap_SubagentModel := snap_SubagentModel old,
             snap_SubagentEffort := snap_SubagentEffort old\<rparr>
      else applied)"

definition recordLegacySessionRootTurnBinding ::
  "Session option \<Rightarrow> Submission \<Rightarrow> string \<Rightarrow> string \<Rightarrow> string \<Rightarrow> Desk \<Rightarrow> Desk" where
  "recordLegacySessionRootTurnBinding session sub sessionKey threadID turnID w =
     (case session of
        None \<Rightarrow> w
      | Some sess \<Rightarrow>
          if HasSourceRootMessages (Some sub) then w
          else RecordRootTurnBinding (ss_RootMessageID sess) sessionKey threadID turnID w)"

text \<open>The turn runs: its binding is noted everywhere.\<close>

definition codex_turn_started ::
  "queue_ports \<Rightarrow> string \<Rightarrow> Session \<Rightarrow> Submission \<Rightarrow> string \<Rightarrow> string \<Rightarrow> Desk \<Rightarrow> Desk \<times> start_error option" where
  "codex_turn_started p sessionKey sess0 sub0 threadID turnID w0 =
     (let sess = (UpsertActiveOperation (now_of p w0) sess0 (submission_operation (sub_ID sub0) threadID turnID))
                   \<lparr>ss_Status := SessionStatusTurnInProgress\<rparr>;
          w1 = on_turns (ClearPendingTurnBindingForSubmission threadID (sub_ID sub0) \<circ>
                         MarkTurnStartedAt turnID (now_of p w0) \<circ>
                         BindTurnSubmission threadID turnID sessionKey (sub_ID sub0)) w0;
          sub = sub0\<lparr>sub_ThreadID := threadID, sub_TurnID := turnID, sub_Status := SubmissionStatusRunning\<rparr> in
      case save_session p sess w1 of
        (w2, Some e) \<Rightarrow> (w2, Some (SessionFailed e))
      | (w2, None) \<Rightarrow>
          (case mark_running p (sub_ID sub) threadID turnID w2 of
             (w3, Some e) \<Rightarrow> (w3, Some (SubmissionFailed e))
           | (w3, None) \<Rightarrow>
               (emit (StreamNoted sessionKey (sub_ID sub))
                  (recordLegacySessionRootTurnBinding (Some sess) sub sessionKey threadID turnID
                     (RecordSubmissionSourceLinks sub w3)), None)))"

text \<open>The request for a turn, or a review, on the thread.\<close>

definition codex_request_turn ::
  "queue_ports \<Rightarrow> string \<Rightarrow> Submission \<Rightarrow> WorkspaceConfig \<Rightarrow> Settings \<Rightarrow> string \<Rightarrow> Desk \<Rightarrow> Desk \<times> (failure + string)" where
  "codex_request_turn p sessionKey sub ws settings threadID w =
     (if IsReviewSubmission sub
      then (emit (AskedForReview threadID (sub_ID sub)) w, qp_StartReview p threadID sub)
      else (emit (AskedForTurn sessionKey threadID (sub_ID sub)) w,
            qp_RunStartTurn p (turn_request p sessionKey threadID sub (wk_Cwd ws) settings
              (snap_Model (sub_ModelConfig sub)) (snap_Effort (sub_ModelConfig sub)))))"

definition codex_on_thread ::
  "queue_ports \<Rightarrow> string \<Rightarrow> Session \<Rightarrow> Submission \<Rightarrow> WorkspaceConfig \<Rightarrow> Settings \<Rightarrow> bool \<Rightarrow> string \<Rightarrow> bool \<Rightarrow> Desk
     \<Rightarrow> Desk \<times> start_error option" where
  "codex_on_thread p sessionKey sess0 sub0 ws settings createdThread threadID notifyFailure w0 =
     (let sess1 = (if threadID \<noteq> [] \<and> trim (ss_ActiveThreadWorkspaceID sess0) = []
                   then SetThreadContext sess0 (sub_WorkspaceID sub0) threadID (ss_ActiveThreadName sess0)
                          (ss_ActiveThreadPreview sess0)
                   else sess0);
          w1 = (if threadID \<noteq> [] then on_live (MarkLive sessionKey threadID) w0 else w0);
          sess2 = (UpsertActiveOperation (now_of p w1) sess1 (submission_operation (sub_ID sub0) threadID []))
                    \<lparr>ss_Status := SessionStatusTurnStarting\<rparr>;
          sub = sub0\<lparr>sub_ThreadID := threadID, sub_Status := SubmissionStatusRunning\<rparr>;
          forget_pending = on_turns (ClearPendingTurnBindingForSubmission threadID (sub_ID sub));
          w2 = on_turns (NotePendingTurnBinding threadID sessionKey (sub_ID sub)) w1 in
      case save_session p sess2 w2 of
        (w3, Some e) \<Rightarrow> (forget_pending w3, Some (SessionFailed e))
      | (w3, None) \<Rightarrow>
          (case mark_running p (sub_ID sub) threadID [] w3 of
             (w4, Some e) \<Rightarrow> (forget_pending w4, Some (SubmissionFailed e))
           | (w4, None) \<Rightarrow>
               (case codex_request_turn p sessionKey sub ws settings threadID
                       (MarkSubmissionRunningReactions p (Some sub) w4) of
                  (w5, Inl DeadlineExceeded) \<Rightarrow> (w5, None)
                | (w5, Inl f) \<Rightarrow>
                    (HandleSubmissionStartFailure p sessionKey threadID (Some sub) (BackendFailed f) notifyFailure w5,
                     Some (BackendFailed f))
                | (w5, Inr turnID) \<Rightarrow>
                    let sess3 = (if snap_Valid (sub_ModelConfig sub)
                                 then sess2\<lparr>ss_AppliedModelConfig := applied_config createdThread sess2 sub,
                                        ss_ModelConfigError := []\<rparr>
                                 else sess2) in
                    codex_turn_started p sessionKey sess3 sub threadID turnID w5)))"

definition StartNextCodexSubmissionWithFailureNotice ::
  "queue_ports \<Rightarrow> string \<Rightarrow> Session \<Rightarrow> Submission \<Rightarrow> WorkspaceConfig \<Rightarrow> bool \<Rightarrow> Desk \<Rightarrow> Desk \<times> start_error option" where
  "StartNextCodexSubmissionWithFailureNotice p sessionKey sess0 sub0 ws notifyFailure w0 =
     (case codex_thread sessionKey sess0 sub0 w0 of
        (sess1, threadID) \<Rightarrow>
          (case modelSnapshot p sess1 sub0 w0 of
             Inl e \<Rightarrow> (w0, Some e)
           | Inr snapshot \<Rightarrow>
               let sub = sub0\<lparr>sub_ModelConfig := snapshot\<rparr> in
               (case update_submission p (sub_ID sub) (\<lambda>s. s\<lparr>sub_ModelConfig := snapshot\<rparr>) w0 of
                  (w1, Some e) \<Rightarrow> (w1, Some (SubmissionFailed e))
                | (w1, None) \<Rightarrow>
                    let settings = submissionSettings sess1 sub ws w1 in
                    if threadID \<noteq> [] then
                      codex_on_thread p sessionKey sess1 sub ws settings False threadID notifyFailure w1
                    else
                      let w2 = emit (AskedForThread sessionKey (sub_ID sub)) w1 in
                      (case qp_StartConversation p ws sess1 sub (snap_Model snapshot) of
                         Inl f \<Rightarrow>
                           (HandleSubmissionStartFailure p sessionKey [] (Some sub) (BackendFailed f) notifyFailure w2,
                            Some (BackendFailed f))
                       | Inr (newID, name, preview) \<Rightarrow>
                           codex_on_thread p sessionKey
                             (SetThreadContext sess1 (sub_WorkspaceID sub) newID name preview) sub ws settings
                             True newID notifyFailure (on_live (MarkLive sessionKey newID) w2)))))"


section \<open>A start on Claude (claude\_start.go)\<close>

definition truncate :: "string \<Rightarrow> nat \<Rightarrow> string" where
  "truncate s maxLen = (if length s \<le> maxLen then s else take maxLen s @ ''...'')"

definition claude_context :: "Submission \<Rightarrow> string \<Rightarrow> Session \<Rightarrow> Session" where
  "claude_context sub threadID sess =
     SetThreadContext sess (sub_WorkspaceID sub) threadID
       (FirstNonEmpty [trim (ss_ActiveThreadName sess), ''Claude''])
       (FirstNonEmpty [trim (ss_ActiveThreadPreview sess), truncate (sub_InputText sub) 48])"

definition claude_bound :: "int \<Rightarrow> Submission \<Rightarrow> string \<Rightarrow> string \<Rightarrow> Session \<Rightarrow> Session" where
  "claude_bound now sub threadID turnID sess0 =
     (let sess = claude_context sub threadID sess0;
          op = submission_operation (sub_ID sub) threadID turnID in
      (if HasActiveOperations (Some sess) then PrependActiveOperation now sess op
       else UpsertActiveOperation now sess op)\<lparr>ss_Status := SessionStatusTurnInProgress\<rparr>)"

text \<open>The submission is returned with the binding the code writes into it.\<close>

definition bindClaudeSubmissionStartState ::
  "queue_ports \<Rightarrow> string \<Rightarrow> Submission \<Rightarrow> string \<Rightarrow> string \<Rightarrow> Desk \<Rightarrow> Desk \<times> Submission \<times> start_error option" where
  "bindClaudeSubmissionStartState p sessionKey sub0 threadID turnID w0 =
     (case update_session p sessionKey (claude_bound (now_of p w0) sub0 threadID turnID) w0 of
        (w1, Inl e) \<Rightarrow> (w1, sub0, Some (SessionFailed e))
      | (w1, Inr updated) \<Rightarrow>
          let sub = sub0\<lparr>sub_ThreadID := threadID, sub_TurnID := turnID, sub_Status := SubmissionStatusRunning\<rparr>;
              w2 = on_turns (BindTurnSubmission threadID turnID sessionKey (sub_ID sub)) w1 in
          (case mark_running p (sub_ID sub) threadID turnID w2 of
             (w3, Some e) \<Rightarrow> (w3, sub, Some (SubmissionFailed e))
           | (w3, None) \<Rightarrow>
               let w4 = emit (StreamNoted sessionKey (sub_ID sub))
                     (recordLegacySessionRootTurnBinding updated sub sessionKey threadID turnID
                        (RecordSubmissionSourceLinks sub w3)) in
               (on_live (if trim threadID \<noteq> [] then MarkLive sessionKey threadID else ClearLive sessionKey) w4,
                sub, None)))"

definition next_turn_id :: "queue_ports \<Rightarrow> Desk \<Rightarrow> Desk \<times> string" where
  "next_turn_id p = on_app (\<lambda>n. scoped_NextLocalID (dp_stamp p n) ''claude-turn'')"

text \<open>An attempt returns the submission as bound, the id of its turn, and the error if it failed.\<close>

definition startClaudeSubmissionAttempt ::
  "queue_ports \<Rightarrow> string \<Rightarrow> Submission \<Rightarrow> string \<Rightarrow> string \<Rightarrow> bool \<Rightarrow> Desk
     \<Rightarrow> Desk \<times> Submission \<times> string \<times> start_error option" where
  "startClaudeSubmissionAttempt p sessionKey sub0 threadID prompt steer w0 =
     (case next_turn_id p w0 of
        (w1, turnID) \<Rightarrow>
          if trim turnID = [] then (w1, sub0, [], Some NoTurnID)
          else
            (case bindClaudeSubmissionStartState p sessionKey sub0 threadID turnID w1 of
               (w2, sub, Some e) \<Rightarrow> (w2, sub, turnID, Some e)
             | (w2, sub, None) \<Rightarrow>
                 if steer then
                   (emit (AskedToSteer sessionKey threadID (sub_ID sub)) (MarkSubmissionRunningReactions p (Some sub) w2),
                    sub, turnID,
                    map_option BackendFailed (qp_ClaudeSteer p sessionKey threadID turnID prompt (sub_ID sub)))
                 else
                   (emit (AskedForTurn sessionKey threadID (sub_ID sub))
                      (MarkSubmissionRunningReactions p (Some sub)
                         (on_turns (MarkTurnStartedAt turnID (now_of p w2)) w2)),
                    sub, turnID,
                    map_option BackendFailed (qp_ClaudeTurn p sessionKey threadID turnID prompt))))"

definition rolled_back :: "string \<Rightarrow> string \<Rightarrow> bool \<Rightarrow> Session \<Rightarrow> Session" where
  "rolled_back submissionID turnID preserveLineage sess0 =
     (let sess1 = (if submissionID = [] then sess0 else fst (RemoveActiveOperation sess0 submissionID turnID));
          sess2 = EnsureActiveOperations sess1;
          unthreaded = (\<lambda>s. if preserveLineage then s else ClearThreadContext s) in
      if HasActiveOperations (Some sess1) then
        sess2\<lparr>ss_Status := (if \<exists>op\<in>set (ss_ActiveOperations sess2). trim (op_TurnID op) \<noteq> []
                            then SessionStatusTurnInProgress else SessionStatusTurnStarting)\<rparr>
      else if ss_Queue sess2 \<noteq> [] \<or> ss_StagedImages sess2 \<noteq> []
      then (unthreaded sess2)\<lparr>ss_Status := SessionStatusQueued\<rparr>
      else (unthreaded sess2)\<lparr>ss_Status := SessionStatusIdle\<rparr>)"

definition queued_again :: "Submission \<Rightarrow> Submission" where
  "queued_again sub =
     sub\<lparr>sub_ThreadID := [], sub_TurnID := [], sub_Status := SessionStatusQueued, sub_Finalized := False\<rparr>"

definition forget_turn :: "string \<Rightarrow> Desk \<Rightarrow> Desk" where
  "forget_turn turnID w =
     (if trim turnID = [] then w
      else emit (StreamDeleted turnID) (emit (ItemsCleared turnID)
        (on_turns (ClearTurnBinding turnID) (on_gateway (DeleteTurnArtifacts turnID) w))))"

definition rollbackClaudeSubmissionStartState ::
  "queue_ports \<Rightarrow> string \<Rightarrow> Submission \<Rightarrow> string \<Rightarrow> bool \<Rightarrow> Desk
     \<Rightarrow> Desk \<times> Session option \<times> Submission option \<times> start_error option" where
  "rollbackClaudeSubmissionStartState p sessionKey sub turnID preserveLineage w0 =
     (let submissionID = trim (sub_ID sub) in
      case update_session p sessionKey (rolled_back submissionID turnID preserveLineage) w0 of
        (w1, Inl e) \<Rightarrow> (w1, None, None, Some (SessionFailed e))
      | (w1, Inr updated) \<Rightarrow>
          (case (if submissionID = [] then (w1, None) else update_submission p submissionID queued_again w1) of
             (w2, Some e) \<Rightarrow> (w2, updated, None, Some (SubmissionFailed e))
           | (w2, None) \<Rightarrow>
               let fresh = (if submissionID = [] then None else app_submission submissionID w2);
                   w3 = forget_turn turnID w2;
                   w4 = (if \<not> preserveLineage \<and> \<not> HasActiveOperations updated
                         then on_live (ClearLive sessionKey) w3 else w3) in
               (w4, updated, fresh, None)))"

text \<open>The prompt stays at the head of the queue, and nothing else is scheduled.\<close>

definition deferred :: "string \<Rightarrow> string \<Rightarrow> Session \<Rightarrow> Session" where
  "deferred submissionID message sess0 =
     (let sess1 = fst (RemoveActiveOperation sess0 submissionID []);
          sess2 = sess1\<lparr>ss_Queue := submissionID # filter (\<lambda>i. i \<noteq> submissionID) (ss_Queue sess1),
                        ss_ModelConfigError := message\<rparr>;
          sess3 = EnsureActiveOperations sess2 in
      if HasActiveOperations (Some sess2) then sess3 else sess3\<lparr>ss_Status := SessionStatusQueued\<rparr>)"

definition deferClaudeModelConfig ::
  "queue_ports \<Rightarrow> string \<Rightarrow> Submission \<Rightarrow> start_error \<Rightarrow> bool \<Rightarrow> Desk \<Rightarrow> Desk \<times> start_error option" where
  "deferClaudeModelConfig p sessionKey sub applyErr notifyFailure w0 =
     (case update_submission p (sub_ID sub) (\<lambda>s. s\<lparr>sub_Status := SubmissionStatusQueued, sub_TurnID := []\<rparr>) w0 of
        (w1, Some e) \<Rightarrow> (w1, Some (SubmissionFailed e))
      | (w1, None) \<Rightarrow>
          (case update_session p sessionKey (deferred (sub_ID sub) (qp_Text p applyErr)) w1 of
             (w2, Inl e) \<Rightarrow> (w2, Some (SessionFailed e))
           | (w2, Inr _) \<Rightarrow>
               let w3 = MarkSubmissionQueuedReactions (Some sub) w2 in
               ((if notifyFailure then NotifySubmissionStartFailure p sub (qp_Text p applyErr) False w3 else w3),
                Some applyErr)))"

definition config_not_applied :: "start_error \<Rightarrow> bool" where
  "config_not_applied e = (case e of BackendFailed (ModelConfigApply _) \<Rightarrow> True | _ \<Rightarrow> False)"

text \<open>The backend may answer each call differently: a call is numbered by the effects before it.\<close>

definition ensure_session ::
  "queue_ports \<Rightarrow> string \<Rightarrow> WorkspaceConfig \<Rightarrow> string \<Rightarrow> string \<Rightarrow> Desk \<Rightarrow> Desk \<times> (start_error + string)" where
  "ensure_session p sessionKey ws resume model w =
     (emit (AskedForSession sessionKey resume) w,
      map_sum BackendFailed id (qp_EnsureSession p (length (dk_effects w)) sessionKey ws resume model))"

text \<open>A fresh session after the resumed one could not run the turn; a failed call has no thread.\<close>

definition claude_retry ::
  "queue_ports \<Rightarrow> string \<Rightarrow> WorkspaceConfig \<Rightarrow> string \<Rightarrow> string \<Rightarrow> Session option \<Rightarrow> Submission option \<Rightarrow> Desk
     \<Rightarrow> Desk \<times> string \<times> Submission option \<times> start_error option" where
  "claude_retry p sessionKey ws model prompt session submission w0 =
     (case ensure_session p sessionKey ws [] model w0 of
        (w1, Inl e) \<Rightarrow> (w1, [], submission, Some e)
      | (w1, Inr threadID) \<Rightarrow>
          (case (if session = None then get_session p sessionKey w1 else (w1, session)) of
             (w2, None) \<Rightarrow> (w2, threadID, submission, Some (SessionGone sessionKey))
           | (w2, Some sess) \<Rightarrow>
               (case submission of
                  None \<Rightarrow> (w2, threadID, None, Some SubmissionGone)
                | Some sub \<Rightarrow>
                    (case startClaudeSubmissionAttempt p sessionKey sub threadID prompt False w2 of
                       (w3, sub', turnID, e) \<Rightarrow> (w3, threadID, Some sub', e)))))"


definition claude_thread :: "Session \<Rightarrow> Submission \<Rightarrow> Session \<times> string" where
  "claude_thread sess sub =
     (if CanResumeThreadForWorkspace (Some sess) (sub_WorkspaceID sub)
      then (sess, trim (ss_ActiveThreadID sess)) else (ClearThreadContext sess, []))"

text \<open>A start that failed for good: the failure is handled and returned.\<close>

definition failed_start ::
  "queue_ports \<Rightarrow> string \<Rightarrow> string \<Rightarrow> Submission option \<Rightarrow> bool \<Rightarrow> start_error \<Rightarrow> Desk \<Rightarrow> Desk \<times> start_error option" where
  "failed_start p sessionKey threadID sub notifyFailure e w =
     (HandleSubmissionStartFailure p sessionKey threadID sub e notifyFailure w, Some e)"

text \<open>
  The session is resumed; when that fails a fresh one is started, once. A first answer that the
  model settings are not applied is told apart: it defers the submission.
\<close>

definition claude_session ::
  "queue_ports \<Rightarrow> string \<Rightarrow> Session \<Rightarrow> WorkspaceConfig \<Rightarrow> string \<Rightarrow> string \<Rightarrow> Desk
     \<Rightarrow> Desk \<times> (scoped_error + ((start_error \<times> bool) + string))" where
  "claude_session p sessionKey sess ws resume model w0 =
     (case ensure_session p sessionKey ws resume model w0 of
        (w1, Inr threadID) \<Rightarrow> (w1, Inr (Inr threadID))
      | (w1, Inl e) \<Rightarrow>
          if config_not_applied e then (w1, Inr (Inl (e, True)))
          else if resume = [] then (w1, Inr (Inl (e, False)))
          else
            (case save_session p (ClearThreadContext sess) w1 of
               (w2, Some saveErr) \<Rightarrow> (w2, Inl saveErr)
             | (w2, None) \<Rightarrow>
                 (case ensure_session p sessionKey ws [] model w2 of
                    (w3, Inl e') \<Rightarrow> (w3, Inr (Inl (e', False)))
                  | (w3, Inr threadID) \<Rightarrow> (w3, Inr (Inr threadID)))))"

definition defer_after_rollback ::
  "queue_ports \<Rightarrow> string \<Rightarrow> Submission \<Rightarrow> string \<Rightarrow> start_error \<Rightarrow> bool \<Rightarrow> Desk \<Rightarrow> Desk \<times> start_error option" where
  "defer_after_rollback p sessionKey sub turnID e notifyFailure w =
     (case rollbackClaudeSubmissionStartState p sessionKey sub turnID True w of
        (w1, _, _, Some rollbackErr) \<Rightarrow> (w1, Some rollbackErr)
      | (w1, _, _, None) \<Rightarrow> deferClaudeModelConfig p sessionKey sub e notifyFailure w1)"

text \<open>The turn on the session that was ensured.\<close>

definition claude_turn ::
  "queue_ports \<Rightarrow> string \<Rightarrow> Submission \<Rightarrow> WorkspaceConfig \<Rightarrow> string \<Rightarrow> string \<Rightarrow> string \<Rightarrow> string \<Rightarrow> bool \<Rightarrow> Desk
     \<Rightarrow> Desk \<times> start_error option" where
  "claude_turn p sessionKey sub0 ws resume model threadID prompt notifyFailure w0 =
     (case startClaudeSubmissionAttempt p sessionKey sub0 threadID prompt False w0 of
        (w1, sub, turnID, None) \<Rightarrow> (w1, None)
      | (w1, sub, turnID, Some e) \<Rightarrow>
          if config_not_applied e then defer_after_rollback p sessionKey sub turnID e notifyFailure w1
          else if trim resume \<noteq> [] \<and> \<not> qp_CanRetryFresh p sessionKey then
            defer_after_rollback p sessionKey sub turnID
              (BackendFailed (ModelConfigApply (qp_Text p e))) notifyFailure w1
          else if trim resume = [] then failed_start p sessionKey threadID (Some sub) notifyFailure e w1
          else
            (case rollbackClaudeSubmissionStartState p sessionKey sub turnID False w1 of
               (w2, sess', sub', Some rollbackErr) \<Rightarrow>
                 failed_start p sessionKey threadID sub' notifyFailure rollbackErr w2
             | (w2, sess', sub', None) \<Rightarrow>
                 (case claude_retry p sessionKey ws model prompt sess' sub' w2 of
                    (w3, threadID', sub'', None) \<Rightarrow> (w3, None)
                  | (w3, threadID', sub'', Some e') \<Rightarrow>
                      failed_start p sessionKey threadID' sub'' notifyFailure e' w3)))"

definition StartNextClaudeSubmissionWithFailureNoticeEx ::
  "queue_ports \<Rightarrow> string \<Rightarrow> Session \<Rightarrow> Submission \<Rightarrow> WorkspaceConfig \<Rightarrow> bool \<Rightarrow> bool \<Rightarrow> Desk
     \<Rightarrow> Desk \<times> start_error option" where
  "StartNextClaudeSubmissionWithFailureNoticeEx p sessionKey sess0 sub ws notifyFailure steer w0 =
     (if \<not> qp_ClaudeAvailable p then
        failed_start p sessionKey (trim (ss_ActiveThreadID sess0)) (Some sub) notifyFailure ClaudeMissing w0
      else
        case claude_thread sess0 sub of
          (sess, threadID) \<Rightarrow>
            let prompt = qp_ClaudePrompt p sub in
            if trim prompt = [] then
              failed_start p sessionKey threadID (Some sub) notifyFailure (NoInput (sub_ID sub)) w0
            else if steer then
              (case startClaudeSubmissionAttempt p sessionKey sub threadID prompt True w0 of
                 (w1, sub', turnID, None) \<Rightarrow> (w1, None)
               | (w1, sub', turnID, Some e) \<Rightarrow> failed_start p sessionKey threadID (Some sub') notifyFailure e w1)
            else
              (case modelSnapshot p sess sub w0 of
                 Inl e \<Rightarrow> (w0, Some e)
               | Inr snapshot \<Rightarrow>
                   let model = snap_Model snapshot in
                   (case claude_session p sessionKey sess ws threadID model w0 of
                      (w1, Inl saveErr) \<Rightarrow> (w1, Some (SessionFailed saveErr))
                    | (w1, Inr (Inl (e, defers))) \<Rightarrow>
                        if defers then deferClaudeModelConfig p sessionKey sub e notifyFailure w1
                        else failed_start p sessionKey threadID (Some sub) notifyFailure e w1
                    | (w1, Inr (Inr newID)) \<Rightarrow>
                        claude_turn p sessionKey sub ws threadID model newID prompt notifyFailure w1)))"

definition StartQueuedSubmission ::
  "queue_ports \<Rightarrow> string \<Rightarrow> Session \<Rightarrow> Submission \<Rightarrow> WorkspaceConfig \<Rightarrow> bool \<Rightarrow> Desk \<Rightarrow> Desk \<times> start_error option" where
  "StartQueuedSubmission p sessionKey sess sub ws notifyFailure =
     (if qp_Backend p = ''claude''
      then StartNextClaudeSubmissionWithFailureNoticeEx p sessionKey sess sub ws notifyFailure False
      else StartNextCodexSubmissionWithFailureNotice p sessionKey sess sub ws notifyFailure)"

end
