(* ===== verification/Goal_Continuation.thy ===== *)
theory Goal_Continuation
  imports Submission_Start
begin

text \<open>
  A turn the backend starts by itself to pursue a goal becomes a submission of the session the
  goal's thread belongs to (\<open>internal/application/goal/continuation.go\<close>). It is anchored at a card
  sent to the chat; sending is a port.
\<close>

record goal_ports =
  gp_FrontendID :: string
  gp_DefaultWorkspaceID :: string
  gp_Send :: "string \<Rightarrow> ThreadGoal \<Rightarrow> nat \<Rightarrow> string + string"

definition sessionBelongsToFrontend :: "string \<Rightarrow> string \<Rightarrow> bool" where
  "sessionBelongsToFrontend frontendID sessionKey \<longleftrightarrow> trim (fst (ParseSessionKey sessionKey)) = trim frontendID"

text \<open>The session of the anchor if it is still on the thread, otherwise the first one that is.\<close>

definition findGoalContinuationSession ::
  "('p) disk_ports_scheme \<Rightarrow> goal_ports \<Rightarrow> string \<Rightarrow> Desk \<Rightarrow> Desk \<times> (string \<times> Session) option" where
  "findGoalContinuationSession p gp threadID w =
     (let by_list = (\<lambda>w. (w, map_option (\<lambda>s. (ss_Key s, s))
            (find (\<lambda>s. sessionBelongsToFrontend (gp_FrontendID gp) (ss_Key s) \<and>
                       trim (ss_ActiveThreadID s) = threadID) (app_sessions w)))) in
      case goal_anchor threadID (dk_goals w) of
        None \<Rightarrow> by_list w
      | Some anchor \<Rightarrow>
          (case get_session p (an_SessionKey anchor) w of
             (w', Some sess) \<Rightarrow>
               if trim (ss_ActiveThreadID sess) = threadID then (w', Some (an_SessionKey anchor, sess))
               else by_list w'
           | (w', None) \<Rightarrow> by_list w'))"

definition on_goals :: "(GoalTracker \<Rightarrow> GoalTracker) \<Rightarrow> Desk \<Rightarrow> Desk" where
  "on_goals f w = w\<lparr>dk_goals := f (dk_goals w)\<rparr>"

definition anchor_of :: "string \<Rightarrow> string \<Rightarrow> Session \<Rightarrow> GoalTracker \<Rightarrow> Anchor" where
  "anchor_of sessionKey threadID sess t =
     (let recorded = (\<lambda>f. case goal_anchor threadID t of None \<Rightarrow> [] | Some a \<Rightarrow> trim (f a)) in
      \<lparr>an_SessionKey = sessionKey, an_ThreadID = threadID, an_MessageID = [],
       an_ChatID = FirstNonEmpty [ss_ChatID sess, recorded an_ChatID],
       an_ChatType = FirstNonEmpty [ss_ChatType sess, recorded an_ChatType],
       an_UserID = FirstNonEmpty [ss_OwnerUserID sess, recorded an_UserID]\<rparr>)"

definition sendGoalContinuationAnchor ::
  "goal_ports \<Rightarrow> string \<Rightarrow> string \<Rightarrow> Session \<Rightarrow> ThreadGoal \<Rightarrow> Desk \<Rightarrow> Desk \<times> Anchor option" where
  "sendGoalContinuationAnchor gp sessionKey threadID sess goal w =
     (let anchor = anchor_of sessionKey threadID sess (dk_goals w) in
      if an_ChatID anchor = [] then (w, None)
      else
        let (t, ordinal) = NextContinuationOrdinal threadID (dk_goals w);
            w1 = emit (AnchorCard (an_ChatID anchor) goal ordinal) (w\<lparr>dk_goals := t\<rparr>) in
        case gp_Send gp (an_ChatID anchor) goal ordinal of
          Inl _ \<Rightarrow> (w1, None)
        | Inr sent \<Rightarrow>
            if trim sent = [] then (w1, None)
            else
              let a = anchor\<lparr>an_MessageID := trim sent\<rparr> in
              (on_goals (RecordAnchor a) w1, Some a))"

definition goal_submission ::
  "goal_ports \<Rightarrow> string \<Rightarrow> string \<Rightarrow> string \<Rightarrow> Session \<Rightarrow> Anchor \<Rightarrow> Submission" where
  "goal_submission gp sessionKey threadID turnID sess anchor =
     zero_Submission
       \<lparr>sub_SessionKey := sessionKey,
        sub_WorkspaceID := FirstNonEmpty [ss_ActiveThreadWorkspaceID sess, ss_WorkspaceID sess,
                             gp_DefaultWorkspaceID gp],
        sub_ThreadID := threadID, sub_TurnID := turnID, sub_UserID := trim (ss_OwnerUserID sess),
        sub_ChatID := trim (an_ChatID anchor), sub_TriggerMessageID := an_MessageID anchor,
        sub_SourceMessageIDs := UniqueStrings [an_MessageID anchor],
        sub_SourceRootMessageIDs := UniqueStrings [an_MessageID anchor],
        sub_InputText := ''[goal continuation]'', sub_Kind := ''goal'',
        sub_Status := SubmissionStatusRunning\<rparr>"

definition goal_turn :: "int \<Rightarrow> string \<Rightarrow> Submission \<Rightarrow> Session \<Rightarrow> Session" where
  "goal_turn now i sub current0 =
     (let cur = (UpsertActiveOperation now current0
            (submission_operation i (sub_ThreadID sub) (sub_TurnID sub)))\<lparr>ss_Status := SessionStatusTurnInProgress\<rparr> in
      SetThreadContext cur (sub_WorkspaceID sub) (sub_ThreadID sub) (ss_ActiveThreadName cur)
        (ss_ActiveThreadPreview cur))"

text \<open>What is noted of a turn that runs, here and in theory Turn\_Lifecycle.\<close>

definition note_running :: "string \<Rightarrow> Submission \<Rightarrow> string \<Rightarrow> Desk \<Rightarrow> Desk" where
  "note_running sessionKey sub threadID w =
     on_live (MarkLive sessionKey threadID) (emit (StreamNoted sessionKey (sub_ID sub)) w)"

definition bind_goal_turn ::
  "('p) disk_ports_scheme \<Rightarrow> goal_ports \<Rightarrow> string \<Rightarrow> string \<Rightarrow> string \<Rightarrow> Session \<Rightarrow> Anchor \<Rightarrow> Desk \<Rightarrow> Desk \<times> bool" where
  "bind_goal_turn p gp sessionKey threadID turnID sess anchor w =
     (let sub0 = goal_submission gp sessionKey threadID turnID sess anchor;
          (w1, i) = on_app (\<lambda>n. scoped_CreateSubmission (dp_now p n) (dp_stamp p n) sub0) w;
          sub = sub0\<lparr>sub_ID := i\<rparr> in
      if trim i = [] then (w1, False)
      else case update_session p sessionKey (goal_turn (dp_now p (dk_calls w1)) i sub) w1 of
        (w2, Inr (Some _)) \<Rightarrow>
          (note_running sessionKey sub threadID
             (RecordRootTurnBinding (an_MessageID anchor) sessionKey threadID turnID
               (RecordSubmissionSourceLinks sub
                 (on_turns (MarkTurnStartedAt turnID (dp_now p (dk_calls w2)) \<circ>
                            BindTurnSubmission threadID turnID sessionKey i) w2))), True)
      | (w2, _) \<Rightarrow> (on_gateway (scoped_DeleteSubmission i) w2, False))"

definition BindGoalContinuationTurn ::
  "('p) disk_ports_scheme \<Rightarrow> goal_ports \<Rightarrow> string \<Rightarrow> string \<Rightarrow> Desk \<Rightarrow> Desk \<times> bool" where
  "BindGoalContinuationTurn p gp threadID0 turnID0 w =
     (let threadID = trim threadID0; turnID = trim turnID0 in
      if threadID = [] \<or> turnID = [] then (w, False)
      else case ActiveGoal threadID (dk_goals w) of
        None \<Rightarrow> (w, False)
      | Some goal \<Rightarrow>
          (case findGoalContinuationSession p gp threadID w of
             (w1, None) \<Rightarrow> (w1, False)
           | (w1, Some (sessionKey, sess)) \<Rightarrow>
               if sessionKey = [] \<or> HasActiveOperations (Some sess) then (w1, False)
               else (case sendGoalContinuationAnchor gp sessionKey threadID sess goal w1 of
                       (w2, None) \<Rightarrow> (w2, False)
                     | (w2, Some anchor) \<Rightarrow> bind_goal_turn p gp sessionKey threadID turnID sess anchor w2)))"

end
