(* ===== verification/Turn_Lifecycle.thy ===== *)
theory Turn_Lifecycle
  imports Compaction Goal_Continuation
begin

text \<open>
  Turns of the backend (\<open>internal/application/turn/service.go\<close>): a turn that has started is bound to
  the submission that asked for it, a turn that has ended finalizes the submission, frees the
  session, tells the user and schedules the next queued session. A missed end is reconciled from
  what the backend reports (\<open>reconciliation.go\<close>, \<open>stopped_reconciliation.go\<close>). The stream of a turn and
  the ports of the use cases called here are in one record.
\<close>

record StreamSummary =
  fl_SawFinal :: bool
  fl_PlanMarkdown :: string
  fl_PlanMessageID :: string
  fl_ShouldUsePlanExitPrompt :: bool
  fl_LastError :: string
  fl_WorkingMessageID :: string
  fl_FinalText :: string
  fl_FinalReuseMessageID :: string

record turn_ports =
  tn_queue :: queue_ports
  tn_goals :: goal_ports
  tn_plan :: "string \<Rightarrow> plan_ports"
  tn_Flush :: "string \<Rightarrow> string \<Rightarrow> StreamSummary"
  tn_Available :: bool
  tn_SawFinal :: "string \<Rightarrow> bool"
  tn_ReadTurns :: "string \<Rightarrow> string + (string \<times> string) list"
  tn_Stopped :: "string \<Rightarrow> bool"

section \<open>Binding a turn to its submission\<close>

text \<open>A bound submission runs, and that is noted in the same way in all three places.\<close>

definition turn_noted ::
  "Session \<Rightarrow> Submission \<Rightarrow> string \<Rightarrow> string \<Rightarrow> string \<Rightarrow> Desk \<Rightarrow> Desk" where
  "turn_noted sess sub sessionKey threadID turnID w =
     note_running sessionKey sub threadID
       (recordLegacySessionRootTurnBinding (Some sess) sub sessionKey threadID turnID
         (RecordSubmissionSourceLinks sub w))"

definition bind_turn :: "int \<Rightarrow> string \<Rightarrow> string \<Rightarrow> string \<Rightarrow> string \<Rightarrow> Desk \<Rightarrow> Desk" where
  "bind_turn now threadID turnID sessionKey i =
     on_turns (ClearPendingTurnBindingForSubmission threadID i \<circ> MarkTurnStartedAt turnID now \<circ>
               BindTurnSubmission threadID turnID sessionKey i)"

definition pending_submission :: "string \<Rightarrow> Desk \<Rightarrow> Desk \<times> string \<times> Submission option" where
  "pending_submission threadID w =
     (case PendingSubmissionForThread (\<lambda>i. app_submission i w) threadID (dk_turns w) of
        (t, key, sub) \<Rightarrow> (w\<lparr>dk_turns := t\<rparr>, key, sub))"

definition BindPendingSubmissionTurn ::
  "('p) disk_ports_scheme \<Rightarrow> string \<Rightarrow> string \<Rightarrow> bool \<Rightarrow> Desk \<Rightarrow> Desk \<times> bool" where
  "BindPendingSubmissionTurn p threadID0 turnID0 allowReview w0 =
     (let threadID = trim threadID0; turnID = trim turnID0 in
      if threadID = [] \<or> turnID = [] then (w0, False)
      else case pending_submission threadID w0 of (w1, sessionKey, submission) \<Rightarrow>
        (case (submission, CanBindPending threadID turnID submission allowReview) of
           (Some sub, True) \<Rightarrow>
             (case get_session p sessionKey
                     (bind_turn (dp_now p (dk_calls w1)) threadID turnID sessionKey (sub_ID sub) w1) of
                (w2, None) \<Rightarrow> (w2, False)
              | (w2, Some sess0) \<Rightarrow>
                  let sess = BindSession (dp_now p (dk_calls w2)) sess0 sub threadID turnID in
                  (case save_session p sess w2 of
                     (w3, Some e) \<Rightarrow> (w3, False)
                   | (w3, None) \<Rightarrow>
                       (turn_noted sess (MarkRunning sub threadID turnID) sessionKey threadID turnID
                          (fst (mark_running p (sub_ID sub) threadID turnID w3)), True)))
         | _ \<Rightarrow> (w1, False)))"

text \<open>The session whose submission waits for a turn on the thread; none if a session has the turn.\<close>

fun awaiting_turn :: "string \<Rightarrow> string \<Rightarrow> Session list \<Rightarrow> (string \<times> string) option" where
  "awaiting_turn threadID turnID [] = None"
| "awaiting_turn threadID turnID (s # ss) =
     (if FindActiveOperationByTurn (Some s) turnID \<noteq> None then None
      else case FindPendingSubmissionOperationByThread (Some s) threadID of
        None \<Rightarrow> awaiting_turn threadID turnID ss
      | Some op \<Rightarrow>
          if trim (op_SubmissionID op) = [] then awaiting_turn threadID turnID ss
          else Some (ss_Key s, trim (op_SubmissionID op)))"

definition rebind_turn ::
  "('p) disk_ports_scheme \<Rightarrow> string \<Rightarrow> string \<Rightarrow> string \<Rightarrow> string \<Rightarrow> Desk \<Rightarrow> Desk" where
  "rebind_turn p threadID turnID sessionKey submissionID w0 =
     (if sessionKey = [] then w0
      else case get_session p sessionKey w0 of
        (w1, None) \<Rightarrow> w1
      | (w1, Some sess0) \<Rightarrow>
          (case app_submission submissionID w1 of
             None \<Rightarrow> w1
           | Some sub \<Rightarrow>
               let sess = BindSession (dp_now p (dk_calls w1)) sess0 sub threadID turnID in
               (case save_session p sess w1 of
                  (w2, Some e) \<Rightarrow> w2
                | (w2, None) \<Rightarrow>
                    let w3 = fst (mark_running p (sub_ID sub) threadID turnID w2) in
                    turn_noted sess (MarkRunning sub threadID turnID) sessionKey threadID turnID
                      (bind_turn (dp_now p (dk_calls w3)) threadID turnID sessionKey (sub_ID sub) w3))))"

definition OnTurnStartedNotification :: "turn_ports \<Rightarrow> string \<Rightarrow> string \<Rightarrow> Desk \<Rightarrow> Desk" where
  "OnTurnStartedNotification tn threadID0 turnID0 w0 =
     (let p = tn_queue tn; threadID = trim threadID0; turnID = trim turnID0 in
      if threadID = [] \<or> turnID = [] then w0
      else case BindPendingSubmissionTurn p threadID turnID False w0 of
        (w1, True) \<Rightarrow> w1
      | (w1, False) \<Rightarrow>
          (case BindStandaloneCompactTurn p threadID turnID w1 of
             (w2, True) \<Rightarrow> w2
           | (w2, False) \<Rightarrow>
               (case BindGoalContinuationTurn p (tn_goals tn) threadID turnID w2 of
                  (w3, True) \<Rightarrow> w3
                | (w3, False) \<Rightarrow>
                    (case awaiting_turn threadID turnID (app_sessions w3) of
                       None \<Rightarrow> w3
                     | Some (sessionKey, i) \<Rightarrow> rebind_turn p threadID turnID sessionKey i w3))))"

text \<open>A turn that ends without having been announced.\<close>

definition BindPendingSubmissionForTurnCompletion ::
  "('p) disk_ports_scheme \<Rightarrow> string \<Rightarrow> string \<Rightarrow> Desk \<Rightarrow> Desk \<times> (string \<times> Submission) option" where
  "BindPendingSubmissionForTurnCompletion p threadID0 turnID0 w0 =
     (let threadID = trim threadID0; turnID = trim turnID0 in
      if threadID = [] \<or> turnID = [] then (w0, None)
      else case pending_submission threadID w0 of
        (w1, _, None) \<Rightarrow> (w1, None)
      | (w1, sessionKey, Some sub) \<Rightarrow>
          if trim (sub_TurnID sub) \<noteq> [] \<or> sub_Finalized sub then (w1, None)
          else case get_session p sessionKey w1 of
            (w2, None) \<Rightarrow> (w2, None)
          | (w2, Some sess0) \<Rightarrow>
              if \<not> CanBindCompletion (Some sess0) (Some sub) threadID turnID then (w2, None)
              else
                let w3 = bind_turn (dp_now p (dk_calls w2)) threadID turnID sessionKey (sub_ID sub) w2;
                    sess = BindSession (dp_now p (dk_calls w3)) sess0 sub threadID turnID in
                (case save_session p sess w3 of
                   (w4, Some e) \<Rightarrow> (w4, None)
                 | (w4, None) \<Rightarrow>
                     (case mark_running p (sub_ID sub) threadID turnID w4 of
                        (w5, Some e) \<Rightarrow> (w5, None)
                      | (w5, None) \<Rightarrow>
                          (case app_submission (sub_ID sub) w5 of
                             None \<Rightarrow> (w5, None)
                           | Some sub' \<Rightarrow>
                               (turn_noted sess sub' sessionKey threadID turnID w5, Some (sessionKey, sub'))))))"

section \<open>What the user is told (presentation/terminal.go, attention\_mentions.go)\<close>

definition interrupted_text :: string where
  "interrupted_text =
     [CHR 0xE4, CHR 0xBB, CHR 0xBB, CHR 0xE5, CHR 0x8A, CHR 0xA1, CHR 0xE5, CHR 0xB7, CHR 0xB2,
      CHR 0xE4, CHR 0xB8, CHR 0xAD, CHR 0xE6, CHR 0x96, CHR 0xAD, CHR 0xE3, CHR 0x80, CHR 0x82]"

definition failed_text :: string where
  "failed_text =
     [CHR 0xE4, CHR 0xBB, CHR 0xBB, CHR 0xE5, CHR 0x8A, CHR 0xA1, CHR 0xE5, CHR 0xA4, CHR 0xB1,
      CHR 0xE8, CHR 0xB4, CHR 0xA5, CHR 0xE3, CHR 0x80, CHR 0x82]"

definition ended_text :: string where
  "ended_text =
     [CHR 0xE4, CHR 0xBB, CHR 0xBB, CHR 0xE5, CHR 0x8A, CHR 0xA1, CHR 0xE5, CHR 0xB7, CHR 0xB2,
      CHR 0xE7, CHR 0xBB, CHR 0x93, CHR 0xE6, CHR 0x9D, CHR 0x9F, CHR 0xE3, CHR 0x80, CHR 0x82]"

definition CompletionTerminalText :: "string \<Rightarrow> string \<Rightarrow> string" where
  "CompletionTerminalText status lastError =
     (let fallback = (if trim lastError \<noteq> [] then trim lastError
                      else if status = SubmissionStatusInterrupted then interrupted_text
                      else if status = SubmissionStatusFailed then failed_text else ended_text) in
      if NormalizeSubmissionStatus status = SubmissionStatusCompleted then []
      else if status = SubmissionStatusInterrupted then interrupted_text else fallback)"

definition shouldMentionOnTurnStop ::
  "('p) disk_ports_scheme \<Rightarrow> Submission \<Rightarrow> string \<Rightarrow> Desk \<Rightarrow> Desk \<times> bool" where
  "shouldMentionOnTurnStop p sub turnID0 w =
     (if trim (sub_UserID sub) = [] then (w, False)
      else
        let turnID = FirstNonEmpty [turnID0, sub_TurnID sub] in
        case get_session p (sub_SessionKey sub) w of
          (w', None) \<Rightarrow> (w', True)
        | (w', Some sess) \<Rightarrow>
            let cp = fst (RemoveActiveOperation sess (sub_ID sub) turnID) in
            (w', \<not> HasActiveWork (Some cp) \<and> ss_Queue cp = [] \<and> ss_StagedImages cp = [] \<and>
                 \<not> (\<exists>req\<in>set (scoped_PendingRequests (dk_app w')).
                      IsPendingRequestOpen (pr_Status req) \<and> trim (pr_SessionKey req) = trim (sub_SessionKey sub))))"

definition turnStopAttentionUserID ::
  "('p) disk_ports_scheme \<Rightarrow> Submission \<Rightarrow> string \<Rightarrow> Desk \<Rightarrow> Desk \<times> string" where
  "turnStopAttentionUserID p sub turnID w =
     (case shouldMentionOnTurnStop p sub turnID w of
        (w', mention) \<Rightarrow> (w', if mention then trim (sub_UserID sub) else []))"

section \<open>The end of a turn\<close>

text \<open>
  A submission that steered the turn, still open on its thread, ends with it.
\<close>

definition end_steer ::
  "('p) disk_ports_scheme \<Rightarrow> string \<Rightarrow> string \<Rightarrow> string \<Rightarrow> string \<Rightarrow> SessionActiveOperation \<Rightarrow> Desk \<Rightarrow> Desk" where
  "end_steer p sessionKey threadID turnID status op w =
     (let opTurnID = trim (op_TurnID op) in
      if trim (op_ThreadID op) \<noteq> threadID \<or> opTurnID \<noteq> [] \<and> opTurnID = turnID then w
      else case app_submission (trim (op_SubmissionID op)) w of
        None \<Rightarrow> w
      | Some steerSub \<Rightarrow>
          if sub_Finalized steerSub then w
          else fst (update_session p sessionKey
                      (\<lambda>s. RefreshPendingStatus (fst (RemoveActiveOperation s (sub_ID steerSub) opTurnID)))
                 (ClearSubmissionProcessingReactions p (Some steerSub)
                   (fst (finalize_submission p (sub_ID steerSub) (CompletionStatus status) w)))))"

text \<open>The card that closes a completed turn whose stream showed no final answer.\<close>

definition send_final :: "Submission \<Rightarrow> StreamSummary \<Rightarrow> bool \<Rightarrow> Desk \<Rightarrow> Desk" where
  "send_final sub flush planExitPromptSent w =
     (let reuse = trim (fl_WorkingMessageID flush) in
      if NormalizeSubmissionStatus (sub_Status sub) \<noteq> SubmissionStatusCompleted \<or> fl_SawFinal flush \<or>
         planExitPromptSent then w
      else if fl_ShouldUsePlanExitPrompt flush \<and> trim (fl_PlanMarkdown flush) \<noteq> [] then
        emit (PlanCard (sub_ID sub) (trim (fl_PlanMarkdown flush))
                (FirstNonEmpty [fl_PlanMessageID flush, reuse])) w
      else if trim (fl_FinalText flush) \<noteq> [] then
        emit (FinalMessages (sub_ID sub) (trim (fl_FinalText flush)) (trim (fl_FinalReuseMessageID flush))) w
      else emit (EmptyFinalCard (sub_ID sub) reuse) w)"

text \<open>The last part: steering submissions, the question about a plan, the next session, the cleanup.\<close>

definition finish_rest ::
  "turn_ports \<Rightarrow> string \<Rightarrow> string \<Rightarrow> string \<Rightarrow> string \<Rightarrow> StreamSummary \<Rightarrow> Submission \<Rightarrow> Session \<Rightarrow> Desk \<Rightarrow> Desk" where
  "finish_rest tn sessionKey threadID turnID status flush sub updated w0 =
     (let p = tn_queue tn;
          w1 = fold (end_steer p sessionKey threadID turnID status) (ss_ActiveOperations updated) w0;
          (w2, _) = get_session p sessionKey w1;
          (w3, prompted) = ProcessCodexPlanModeExitOnTurnCompleted p (tn_plan tn (fl_PlanMessageID flush))
            (qp_Backend p)
            \<lparr>ci_SessionKey = sessionKey, ci_ThreadID = threadID, ci_TurnID = turnID, ci_Status = status,
             ci_Markdown = fl_PlanMarkdown flush, ci_Eligible = fl_ShouldUsePlanExitPrompt flush,
             ci_Submission = Some sub\<rparr> w2;
          (w4, k) = next_session_key p sessionKey (send_final sub flush prompted w3);
          w5 = (if trim k \<noteq> [] then emit (Scheduled (trim k) ''finishTurn'') w4 else w4) in
      CleanupSubmissionRuntimeState (Some sub) w5)"

definition freed_of_turn :: "Submission \<Rightarrow> string \<Rightarrow> Session \<Rightarrow> Session" where
  "freed_of_turn sub turnID sess = RefreshActiveStatus (fst (RemoveActiveOperation sess (sub_ID sub) turnID))"

text \<open>
  The end of a turn whose submission is open. False means that the code dereferences nil: the
  submission is gone after it was finalized, or the update of the session failed.
\<close>

definition finish_open ::
  "turn_ports \<Rightarrow> string \<Rightarrow> string \<Rightarrow> string \<Rightarrow> string \<Rightarrow> Submission \<Rightarrow> Desk \<Rightarrow> Desk \<times> bool" where
  "finish_open tn sessionKey threadID turnID status sub0 w0 =
     (let p = tn_queue tn;
          flush = tn_Flush tn threadID turnID;
          reuse = trim (fl_WorkingMessageID flush);
          w1 = fst (finalize_submission p (sub_ID sub0) (CompletionStatus status)
                 (emit (StreamFlushed threadID turnID) w0)) in
      case app_submission (sub_ID sub0) w1 of
        None \<Rightarrow> (fst (get_session p sessionKey w1), False)
      | Some sub \<Rightarrow>
          let terminal = CompletionTerminalText (sub_Status sub) (fl_LastError flush);
              (w2, attention) = turnStopAttentionUserID p sub turnID
                                  (ClearSubmissionProcessingReactions p (Some sub) w1);
              (w3, _) = get_session p sessionKey w2;
              (w4, result) = update_session p sessionKey (freed_of_turn sub turnID) w3;
              tell = (\<lambda>w. if terminal \<noteq> [] then emit (TerminalCard (sub_ID sub) terminal attention reuse) w
                          else w) in
          (case result of
             Inr (Some updated) \<Rightarrow>
               let (t, suppress) = ObserveAutoRetryTerminal (qp_Present p) (qp_RetryEnabled p) sessionKey threadID
                     (sub_Status sub) (Some updated) (Some sub) reuse (fl_LastError flush) (dk_retry w4);
                   w5 = w4\<lparr>dk_retry := t\<rparr> in
               (finish_rest tn sessionKey threadID turnID status flush sub updated
                  (if suppress then w5 else tell w5), True)
           | _ \<Rightarrow> (tell w4, False)))"

definition FinishTurn :: "turn_ports \<Rightarrow> string \<Rightarrow> string \<Rightarrow> string \<Rightarrow> Desk \<Rightarrow> Desk \<times> bool" where
  "FinishTurn tn threadID turnID status w0 =
     (let p = tn_queue tn;
          (w1, found) = (case FindSubmissionByTurn threadID turnID w0 of
             Some hit \<Rightarrow> (w0, Some hit)
           | None \<Rightarrow> BindPendingSubmissionForTurnCompletion p threadID turnID w0) in
      case found of
        None \<Rightarrow> (fst (FinishStandaloneCompactTurn p threadID turnID status w1), True)
      | Some (sessionKey, sub) \<Rightarrow>
          if sub_Finalized sub then (w1, True)
          else finish_open tn sessionKey threadID turnID status sub w1)"

section \<open>Missed ends (reconciliation.go, stopped\_reconciliation.go)\<close>

definition in_turn :: "Session \<Rightarrow> bool" where
  "in_turn sess \<longleftrightarrow> HasInFlightSubmission (Some sess) \<and> trim (ss_ActiveThreadID (looked_at sess)) \<noteq> [] \<and>
     trim (ss_ActiveTurnID (looked_at sess)) \<noteq> []"

text \<open>The session as it is after the turn was finished; None of the flag means a panic.\<close>

definition finish_and_reload ::
  "turn_ports \<Rightarrow> string \<Rightarrow> string \<Rightarrow> string \<Rightarrow> string \<Rightarrow> Desk \<Rightarrow> Desk \<times> Session option \<times> bool" where
  "finish_and_reload tn key threadID turnID status w =
     (case FinishTurn tn threadID turnID status w of
        (w1, False) \<Rightarrow> (w1, None, False)
      | (w1, True) \<Rightarrow> (case get_session (tn_queue tn) key w1 of (w2, s) \<Rightarrow> (w2, s, True)))"

definition Reconcile_turn ::
  "turn_ports \<Rightarrow> string \<Rightarrow> Session \<Rightarrow> Desk \<Rightarrow> Desk \<times> Session option \<times> bool" where
  "Reconcile_turn tn key sess w =
     (let threadID = trim (ss_ActiveThreadID sess); turnID = trim (ss_ActiveTurnID sess);
          same = (w, Some (if tn_Available tn then looked_at sess else sess), True) in
      if \<not> tn_Available tn \<or> \<not> in_turn sess then same
      else case tn_ReadTurns tn threadID of
        Inl _ \<Rightarrow> same
      | Inr turns \<Rightarrow>
          (case find (\<lambda>(i, _). trim i = turnID) turns of
             None \<Rightarrow> same
           | Some (_, status) \<Rightarrow>
               if trim status \<in> {''completed'', ''failed'', ''interrupted''}
               then finish_and_reload tn key threadID turnID status w else same))"

definition AfterFinal ::
  "turn_ports \<Rightarrow> string \<Rightarrow> Session \<Rightarrow> Desk \<Rightarrow> Desk \<times> Session option \<times> bool" where
  "AfterFinal tn key sess w =
     (if \<not> tn_SawFinal tn (trim (ss_ActiveTurnID sess)) then (w, Some sess, True)
      else Reconcile_turn tn key sess w)"

definition Reconcile_stopped ::
  "turn_ports \<Rightarrow> string \<Rightarrow> Session \<Rightarrow> Desk \<Rightarrow> Desk \<times> Session option \<times> bool" where
  "Reconcile_stopped tn key sess w =
     (if \<not> in_turn sess \<or> \<not> tn_Stopped tn key then (w, Some (looked_at sess), True)
      else finish_and_reload tn key (trim (ss_ActiveThreadID sess)) (trim (ss_ActiveTurnID sess)) ''completed'' w)"

text \<open>Which of the two depends on the backend (runtime/backend\_codex.go, backend\_claude.go).\<close>

definition ReconcileCompletedTurnFromFinalOutput ::
  "turn_ports \<Rightarrow> string \<Rightarrow> Session \<Rightarrow> Desk \<Rightarrow> Desk \<times> Session option \<times> bool" where
  "ReconcileCompletedTurnFromFinalOutput tn key sess w =
     (if qp_Backend (tn_queue tn) = BackendClaude then Reconcile_stopped tn key sess w
      else AfterFinal tn key sess w)"

end
