(* ===== verification/Submission_Queue.thy ===== *)
theory Submission_Queue
  imports Turn_Lifecycle
begin

text \<open>
  The queue of a session at work: the start loop and the enqueueing of
  \<open>internal/application/submission/queue.go\<close>. A pass of the loop takes the head of the queue; a
  head whose submission is gone is skipped. The loop is a recursion, and that it ends is proved
  from what a pass does to the stored session.
\<close>

section \<open>One pass of the start loop\<close>

datatype pass = Stop "start_error option" | Again | Picked Session Submission WorkspaceConfig

definition dequeue :: "queue_ports \<Rightarrow> string \<Rightarrow> Desk \<Rightarrow> Desk \<times> string \<times> store_error option" where
  "dequeue p sessionKey = on_app (\<lambda>n. scoped_DequeueSubmission (dp_now p n) (dp_io p n) sessionKey)"

definition start_blocked :: "queue_ports \<Rightarrow> Session \<Rightarrow> Desk \<Rightarrow> bool" where
  "start_blocked p sess w \<longleftrightarrow>
     hasAutoRetryWorkAhead (HasBlockingAutoRetry (dk_retry w)) (dk_app w) (Some sess) \<or>
     HasInFlightSubmission (Some sess) \<and>
       \<not> SessionInflightAllowsAdditional (SessionInflightModeForBackend (qp_Backend p)) \<or>
     hasSerialBindingWorkAhead (dk_app w) sess \<or> qp_Deferring p (dk_calls w)"

definition refresh_then :: "queue_ports \<Rightarrow> string \<Rightarrow> (Session option \<Rightarrow> pass) \<Rightarrow> Desk \<Rightarrow> Desk \<times> pass" where
  "refresh_then p sessionKey f w =
     (case update_session p sessionKey RefreshPendingStatus w of
        (w', Inl e) \<Rightarrow> (w', Stop (Some (SessionFailed e)))
      | (w', Inr updated) \<Rightarrow> (w', f updated))"

definition start_step :: "queue_ports \<Rightarrow> string \<Rightarrow> Desk \<Rightarrow> Desk \<times> pass" where
  "start_step p sessionKey w0 =
     (case get_session p sessionKey w0 of
        (w1, None) \<Rightarrow> (w1, Stop None)
      | (w1, Some sess) \<Rightarrow>
          if start_blocked p sess w1 then (w1, Stop None)
          else
            (case dequeue p sessionKey w1 of
               (w2, subID, Some e) \<Rightarrow> (w2, Stop (Some (SubmissionFailed e)))
             | (w2, subID, None) \<Rightarrow>
                 if subID = [] then refresh_then p sessionKey (\<lambda>_. Stop None) w2
                 else
                   (case app_submission subID w2 of
                      None \<Rightarrow> refresh_then p sessionKey
                        (\<lambda>updated. if ShouldStartNextSubmission updated then Again else Stop None) w2
                    | Some sub \<Rightarrow>
                        (case qp_Workspace p (sub_WorkspaceID sub) of
                           None \<Rightarrow> (w2, Stop (Some (NoSuchWorkspace (sub_WorkspaceID sub))))
                         | Some ws \<Rightarrow>
                             (case get_session p sessionKey w2 of
                                (w3, None) \<Rightarrow> (w3, Stop (Some (SessionGone sessionKey)))
                              | (w3, Some sess') \<Rightarrow> (w3, Picked sess' sub ws))))))"

section \<open>A skipped head is gone from the queue\<close>

definition stored_session :: "string \<Rightarrow> Desk \<Rightarrow> Session option" where
  "stored_session k w = of_store None (\<lambda>st. map_of (rt_Sessions (st_runtime st)) k) (dk_app w)"

lemma canonicalSessionKey_trimmed [simp]: "trim (canonicalSessionKey k) = canonicalSessionKey k"
proof -
  obtain f t c r u where p: "ParseSessionKey (trim k) = (f, t, c, r, u)" by (metis prod.exhaust)
  have "key_part f" "key_part c" using ParseSessionKey_parts [OF p] by simp_all
  moreover have "FirstNonEmpty [f, f] = f"
    using \<open>key_part f\<close> by (auto simp: FirstNonEmpty_Cons key_part_def)
  ultimately show ?thesis
    using CanonicalSessionKey_eq [of "trim k" f t c r u f] p
    by (auto simp: canonicalSessionKey_def Let_def trim_canonical_text)
qed

lemma promote_sessions:
  "rt_Sessions (st_runtime (fst (promoteSessionAlias now io sess c s))) =
     (if trim c = [] then rt_Sessions (st_runtime s)
      else AList.update (trim c) ((normalizeSessionValues (cloneSession ((cloneSession sess)\<lparr>ss_Key := trim c\<rparr>)))
             \<lparr>ss_UpdatedAt := now\<rparr>) (rt_Sessions (st_runtime s)))"
  by (simp add: promoteSessionAlias_def UpsertSession_def Let_def put_session_def)

text \<open>The resolution of a key may add a session under its canonical key, never replace one.\<close>

lemma promote_keeps_sessions:
  assumes "map_of (rt_Sessions (st_runtime s)) k = Some x"
    and "trim c = [] \<or> map_of (rt_Sessions (st_runtime s)) (trim c) = None"
  shows "map_of (rt_Sessions (st_runtime (fst (promoteSessionAlias now io sess c s)))) k = Some x"
  using assms by (auto simp: promote_sessions update_conv')

lemma resolve_keeps_sessions:
  assumes "map_of (rt_Sessions (st_runtime s)) k = Some x"
  shows "map_of (rt_Sessions (st_runtime (fst (resolveSessionKey now io key s)))) k = Some x"
proof -
  define c where "c = canonicalSessionKey (trim key)"
  have tc: "trim c = c" by (simp add: c_def)
  have p: "map_of (rt_Sessions (st_runtime (fst (promoteSessionAlias now io sess c s)))) k = Some x"
    if "c = [] \<or> GetSession s c = None" for sess
    using promote_keeps_sessions [OF assms, of c now io sess] that by (simp add: tc GetSession_def)
  show ?thesis
  proof (cases "c = [] \<or> GetSession s c = None")
    case True
    then show ?thesis
      unfolding resolveSessionKey_def Let_def c_def [symmetric]
      using assms p by (auto split: option.split)
  next
    case False
    then show ?thesis
      unfolding resolveSessionKey_def Let_def c_def [symmetric]
      using assms by (auto split: option.split)
  qed
qed

text \<open>What a call of the store leaves under a key, when the gateway has a store and when not.\<close>

lemma stored_after:
  assumes "sc_store (dk_app w) = Some st" "f (dk_calls w) (dk_app w) = on_store none g (dk_app w)"
  shows "stored_session k (fst (on_app f w)) = map_of (rt_Sessions (st_runtime (fst (g st)))) k"
    "snd (on_app f w) = snd (g st)"
  using assms by (simp_all add: stored_session_def of_store_def on_app_def on_store_def case_prod_beta)

lemma stored_SomeE:
  assumes "stored_session k w = Some x"
  obtains st where "sc_store (dk_app w) = Some st" "map_of (rt_Sessions (st_runtime st)) k = Some x"
  using assms by (auto simp: stored_session_def of_store_def split: option.splits)

lemma get_session_keeps:
  assumes "stored_session k w = Some x"
  shows "stored_session k (fst (get_session p key w)) = Some x"
proof -
  obtain st where st: "sc_store (dk_app w) = Some st" "map_of (rt_Sessions (st_runtime st)) k = Some x"
    using assms by (rule stored_SomeE)
  show ?thesis
    unfolding get_session_def
    by (rule trans [OF stored_after(1) [OF st(1)]], rule scoped_Session_def)
       (simp add: st(2) case_prod_beta resolve_keeps_sessions)
qed

lemma dequeue_shortens:
  assumes "dequeue p key w = (w', i, e)" "i \<noteq> []"
  obtains x x' where "stored_session (trim key) w = Some x" "stored_session (trim key) w' = Some x'"
    "length (ss_Queue x') < length (ss_Queue x)"
proof -
  have w': "w' = fst (dequeue p key w)" and i: "i = fst (snd (dequeue p key w))"
    using assms(1) by simp_all
  obtain st where st: "sc_store (dk_app w) = Some st"
    using i assms(2) by (cases "sc_store (dk_app w)")
      (auto simp: dequeue_def on_app_def scoped_DequeueSubmission_def on_store_def)
  define now io where "now = dp_now p (dk_calls w)" and "io = dp_io p (dk_calls w)"
  have i': "i = fst (snd (DequeueSubmission now io st (trim key)))"
    and s': "stored_session k w' = map_of (rt_Sessions (st_runtime (fst (DequeueSubmission now io st (trim key))))) k" for k
    unfolding i w' dequeue_def now_def io_def
    using stored_after [where f = "\<lambda>n. scoped_DequeueSubmission (dp_now p n) (dp_io p n) key",
        OF st scoped_DequeueSubmission_def]
    by simp_all
  have s: "stored_session k w = map_of (rt_Sessions (st_runtime st)) k" for k
    using st by (simp add: stored_session_def of_store_def)
  have ne: "session_queue_of (trim key) st \<noteq> []"
  proof
    assume "session_queue_of (trim key) st = []"
    then show False
      using i' assms(2) queue_of_ensure(2) [of now st "trim key"]
      by (simp add: DequeueSubmission_def Let_def case_prod_beta)
  qed
  then obtain x where x: "stored_session (trim key) w = Some x" "ss_Queue x = session_queue_of (trim key) st"
    by (auto simp: s session_queue_of_def split: option.splits)
  have "stored_session (trim key) w' \<noteq> None"
    using ne x s queue_of_ensure(2) [of now st "trim key"]
    by (simp add: s' DequeueSubmission_def Let_def case_prod_beta put_session_def)
  then obtain x' where x': "stored_session (trim key) w' = Some x'" by auto
  then have "ss_Queue x' = tl (session_queue_of (trim key) st)"
    using DequeueSubmission_queue(1) [of "trim key" now io st "trim key"] s' [of "trim key"]
    by (simp add: session_queue_of_def)
  with ne x show thesis
    by (intro that [OF x(1) x']) (cases "session_queue_of (trim key) st"; simp)
qed

lemma scoped_form_queue [simp]: "ss_Queue (scoped_form s x) = ss_Queue x"
  by (simp add: scoped_form_def StoreBackendThread_def Let_def)

lemma RefreshPendingStatus_queue [simp]: "ss_Queue (RefreshPendingStatus x) = ss_Queue x"
  by (simp add: RefreshPendingStatus_def EnsureActiveOperations_def Let_def)

lemma UpdateSession_keeps_queue:
  assumes "map_of (rt_Sessions (st_runtime s)) k = Some x" "\<And>y. ss_Queue (f y) = ss_Queue y"
  shows "\<exists>x'. map_of (rt_Sessions (st_runtime (fst (UpdateSession now io s key (Some f))))) k = Some x' \<and>
    ss_Queue x' = ss_Queue x"
proof -
  have n: "ss_Queue (normalizeSessionValues y) = ss_Queue y" for y
    by (simp add: normalizeSessionValues_def fill_context_def Let_def split: option.split)
  have c: "ss_Queue (cloneSession y) = ss_Queue y" for y by (simp add: cloneSession_def n)
  show ?thesis
    using assms
    by (auto simp: UpdateSession_def Let_def put_session_def case_prod_beta update_conv' n c
        split: option.splits prod.splits)
qed

lemma update_keeps_queue:
  assumes "stored_session k w = Some x"
  obtains x' where "stored_session k (fst (update_session p key RefreshPendingStatus w)) = Some x'"
    "ss_Queue x' = ss_Queue x"
proof -
  obtain st where st: "sc_store (dk_app w) = Some st" "map_of (rt_Sessions (st_runtime st)) k = Some x"
    using assms by (rule stored_SomeE)
  define r where "r = resolveSessionKey (dp_now p (dk_calls w)) (dp_alias_io p (dk_calls w)) key st"
  define f where "f = (\<lambda>y. scoped_form (dk_app w) (RefreshPendingStatus y))"
  have r: "map_of (rt_Sessions (st_runtime (fst r))) k = Some x"
    by (simp add: r_def st(2) resolve_keeps_sessions)
  have "stored_session k (fst (update_session p key RefreshPendingStatus w)) =
      (if ownsSessionKey (dk_app w) key
       then map_of (rt_Sessions (st_runtime (fst (UpdateSession (dp_now p (dk_calls w)) (dp_io p (dk_calls w))
         (fst r) (snd r) (Some f))))) k
       else Some x)"
    unfolding update_session_def
    by (rule trans [OF stored_after(1) [OF st(1)]], rule scoped_UpdateSession_def)
       (simp add: case_prod_beta r_def f_def st(2) split: sum.split)
  moreover have "ss_Queue (f y) = ss_Queue y" for y by (simp add: f_def)
  then obtain y where "map_of (rt_Sessions (st_runtime (fst (UpdateSession (dp_now p (dk_calls w))
        (dp_io p (dk_calls w)) (fst r) (snd r) (Some f))))) k = Some y" "ss_Queue y = ss_Queue x"
    using UpdateSession_keeps_queue [OF r] by blast
  ultimately show thesis
    using that st(2) by (cases "ownsSessionKey (dk_app w) key") simp_all
qed


text \<open>
  How much a session holds back. A key without a stored session may still name one by an older
  spelling, which the first look stores under the key: this can happen once.
\<close>

definition awaiting_start :: "string \<Rightarrow> Desk \<Rightarrow> nat \<times> nat" where
  "awaiting_start k w = (case stored_session k w of None \<Rightarrow> (1, 0) | Some x \<Rightarrow> (0, length (ss_Queue x)))"

lemma start_step_again:
  assumes "start_step p key w = (w', Again)"
  shows "(awaiting_start (trim key) w', awaiting_start (trim key) w) \<in> less_than <*lex*> less_than"
proof -
  let ?k = "trim key"
  obtain w1 w2 i where w1: "w1 = fst (get_session p key w)" and d: "dequeue p key w1 = (w2, i, None)" "i \<noteq> []"
    and w': "w' = fst (update_session p key RefreshPendingStatus w2)"
    using assms
    by (auto simp: start_step_def refresh_then_def split: prod.splits option.splits sum.splits if_splits)
  obtain x x2 where x: "stored_session ?k w1 = Some x" "stored_session ?k w2 = Some x2"
      "length (ss_Queue x2) < length (ss_Queue x)"
    using dequeue_shortens [OF d] by blast
  obtain x' where x': "stored_session ?k w' = Some x'" "ss_Queue x' = ss_Queue x2"
    using update_keeps_queue [OF x(2), of p key] w' by blast
  have "stored_session ?k w = None \<or> stored_session ?k w = Some x"
    using get_session_keeps [of ?k w _ p key] x(1) w1 by (cases "stored_session ?k w") auto
  with x(3) x' show ?thesis by (auto simp: awaiting_start_def)
qed

section \<open>The start loop\<close>

function start_loop :: "queue_ports \<Rightarrow> string \<Rightarrow> bool \<Rightarrow> Desk \<Rightarrow> Desk \<times> start_error option" where
  "start_loop p key notifyFailure w =
     (case start_step p key w of
        (w', Stop e) \<Rightarrow> (w', e)
      | (w', Again) \<Rightarrow> start_loop p key notifyFailure w'
      | (w', Picked sess sub ws) \<Rightarrow> StartQueuedSubmission p key sess sub ws notifyFailure w')"
  by pat_completeness auto

termination
  by (relation "inv_image (less_than <*lex*> less_than) (\<lambda>(p, key, _, w). awaiting_start (trim key) w)")
     (auto dest!: start_step_again [OF sym])

declare start_loop.simps [simp del]

definition StartNextSubmissionWithFailureNotice ::
  "queue_ports \<Rightarrow> string \<Rightarrow> bool \<Rightarrow> Desk \<Rightarrow> Desk \<times> start_error option" where
  "StartNextSubmissionWithFailureNotice p sessionKey0 notifyFailure w =
     (let sessionKey = trim sessionKey0 in
      if sessionKey = [] then (w, None)
      else case TryBegin sessionKey (dk_starts w) of
        (g, False) \<Rightarrow> (w\<lparr>dk_starts := g\<rparr>, None)
      | (g, True) \<Rightarrow>
          (case start_loop p sessionKey notifyFailure (w\<lparr>dk_starts := g\<rparr>) of
             (w1, e) \<Rightarrow>
               (case FinishStarts sessionKey (dk_starts w1) of
                  (g', again) \<Rightarrow>
                    let w2 = w1\<lparr>dk_starts := g'\<rparr> in
                    (if again then emit (Scheduled sessionKey ''coalesced'') w2 else w2, e))))"

definition StartNextSubmission :: "queue_ports \<Rightarrow> string \<Rightarrow> Desk \<Rightarrow> Desk \<times> start_error option" where
  "StartNextSubmission p sessionKey = StartNextSubmissionWithFailureNotice p sessionKey False"

definition StartNextSubmissionAsync :: "queue_ports \<Rightarrow> string \<Rightarrow> Desk \<Rightarrow> Desk" where
  "StartNextSubmissionAsync p sessionKey w =
     (if trim sessionKey = [] then w
      else case next_session_key p sessionKey w of
        (w1, k) \<Rightarrow> if k = [] then w1 else fst (StartNextSubmissionWithFailureNotice p k True w1))"

section \<open>Enqueueing a message\<close>

definition conversationOwnerUserID :: "InboundMessage \<Rightarrow> string" where
  "conversationOwnerUserID msg =
     (if equal_fold (trim (im_ChatType msg)) ''group'' then [] else trim (im_UserID msg))"

definition message_root :: "InboundMessage \<Rightarrow> string" where
  "message_root msg = FirstNonEmpty [trim (im_RootMessageID msg), trim (im_MessageID msg)]"

definition new_session :: "queue_ports \<Rightarrow> InboundMessage \<Rightarrow> string \<Rightarrow> AgentBinding option \<Rightarrow> Session" where
  "new_session p msg sessionKey chatBinding =
     zero_Session
       \<lparr>ss_Key := sessionKey,
        ss_BindingID := (case chatBinding of None \<Rightarrow> [] | Some b \<Rightarrow> trim (ab_ID b)),
        ss_WorkspaceID := (case chatBinding of None \<Rightarrow> qp_DefaultWorkspaceID p | Some _ \<Rightarrow> []),
        ss_OwnerUserID := conversationOwnerUserID msg, ss_ChatID := im_ChatID msg,
        ss_ChatType := im_ChatType msg, ss_RootMessageID := message_root msg,
        ss_Status := SessionStatusIdle\<rparr>"

definition with_binding :: "AgentBinding option \<Rightarrow> Session \<Rightarrow> Session" where
  "with_binding chatBinding sess =
     (case chatBinding of
        Some b \<Rightarrow> if trim (ss_BindingID sess) = [] then sess\<lparr>ss_BindingID := trim (ab_ID b)\<rparr> else sess
      | None \<Rightarrow> sess)"

definition without_group_owner :: "InboundMessage \<Rightarrow> Session \<Rightarrow> Session" where
  "without_group_owner msg sess =
     (if equal_fold (trim (ss_ChatType sess)) ''group'' \<or> equal_fold (trim (im_ChatType msg)) ''group''
      then sess\<lparr>ss_OwnerUserID := []\<rparr> else sess)"

text \<open>
  The session a message goes to and its workspace. When the end of a missed turn was reconciled,
  the session is the one read after it: what was filled in before is then lost. None is a panic
  of the reconciliation.
\<close>

definition enqueue_target ::
  "turn_ports \<Rightarrow> InboundMessage \<Rightarrow> string \<Rightarrow> bool \<Rightarrow> Desk \<Rightarrow> Desk \<times> (Session \<times> string) option" where
  "enqueue_target tn msg sessionKey bindOnlyCurrentRoot w0 =
     (let p = tn_queue tn;
          chatBinding = agentBindingForChat (im_ChatType msg) (im_ChatID msg) w0;
          resolve = (\<lambda>sess w. trim (resolveSubmissionWorkspaceID (qp_Selection p) (Some msg) (Some sess)
                                 bindOnlyCurrentRoot w));
          fresh = new_session p msg sessionKey chatBinding;
          (w1, stored) = get_session p sessionKey w0;
          sess1 = with_binding chatBinding (without_group_owner msg (case stored of Some s \<Rightarrow> s | None \<Rightarrow> fresh));
          workspaceID = resolve sess1 w1;
          sess2 = (if trim (ss_WorkspaceID sess1) = []
                   then sess1\<lparr>ss_WorkspaceID := FirstNonEmpty [workspaceID, qp_DefaultWorkspaceID p]\<rparr> else sess1);
          (w2, reconciled, alive) = ReconcileCompletedTurnFromFinalOutput tn sessionKey sess2 w1;
          (w3, again) = (case reconciled of Some s \<Rightarrow> (w2, Some s) | None \<Rightarrow> get_session p sessionKey w2);
          sess = (case again of Some s \<Rightarrow> s | None \<Rightarrow> with_binding chatBinding fresh);
          late = FirstNonEmpty [resolve sess w3, trim (ss_WorkspaceID sess)] in
      if \<not> alive then (w2, None)
      else (w3, Some (sess,
        if workspaceID \<noteq> [] then workspaceID
        else if trim (ss_BindingID sess) = [] then FirstNonEmpty [late, qp_DefaultWorkspaceID p]
        else late)))"

text \<open>Whether the new submission may start at once, and whether it waits.\<close>

record admission_verdict =
  av_AutoRetryBlocked :: bool
  av_SerialBlocked :: bool
  av_ShouldAttempt :: bool
  av_WillWait :: bool

definition admission_of :: "queue_ports \<Rightarrow> Session \<Rightarrow> Desk \<Rightarrow> admission_verdict" where
  "admission_of p sess w =
     (let hasInFlight = HasInFlightSubmission (Some sess);
          autoRetryBlocked =
            hasAutoRetryWorkAhead (HasBlockingAutoRetry (dk_retry w)) (dk_app w) (Some sess);
          serialBlocked = hasSerialBindingWorkAhead (dk_app w) sess;
          allowsAdditional =
            SessionInflightAllowsAdditional (SessionInflightModeForBackend (qp_Backend p)) \<and>
            serialGroupExecutionKey (Some sess) = [] in
      \<lparr>av_AutoRetryBlocked = autoRetryBlocked, av_SerialBlocked = serialBlocked,
       av_ShouldAttempt = (\<not> autoRetryBlocked \<and> \<not> serialBlocked \<and> (\<not> hasInFlight \<or> allowsAdditional)),
       av_WillWait = (ss_Queue sess \<noteq> [] \<or> autoRetryBlocked \<or> serialBlocked \<or>
                      hasInFlight \<and> \<not> allowsAdditional)\<rparr>)"

definition enqueued_submission ::
  "InboundMessage \<Rightarrow> string \<Rightarrow> Session \<Rightarrow> string \<Rightarrow> bool \<Rightarrow> SessionStagedImage list \<Rightarrow>
   SubmissionAttachment list \<Rightarrow> SubmissionSkillResolution \<Rightarrow> bool \<Rightarrow> Submission" where
  "enqueued_submission msg sessionKey sess workspaceID bindOnlyCurrentRoot images attachments skill willWait =
     zero_Submission
       \<lparr>sub_SessionKey := sessionKey, sub_BindingID := trim (ss_BindingID sess),
        sub_WorkspaceID := workspaceID, sub_UserID := im_UserID msg, sub_ChatID := im_ChatID msg,
        sub_TriggerMessageID := im_MessageID msg,
        sub_SourceMessageIDs := UniqueStrings (im_MessageID msg # StagedImageSourceMessageIDs images),
        sub_SourceRootMessageIDs :=
          (if bindOnlyCurrentRoot then [message_root msg]
           else UniqueStrings (message_root msg # StagedImageRootMessageIDs images)),
        sub_InputText := sr_InputText skill, sub_Skills := sr_Skills skill,
        sub_Attachments := attachments, sub_Status := SubmissionStatusQueued,
        sub_WaitedInQueue := willWait\<rparr>"

text \<open>The submission is stored and queued; a plan waiting for confirmation is withdrawn.\<close>

definition enqueue_stored ::
  "queue_ports \<Rightarrow> string \<Rightarrow> Session \<Rightarrow> Submission \<Rightarrow> Desk \<Rightarrow> Desk \<times> (start_error + string)" where
  "enqueue_stored p sessionKey sess sub w0 =
     (case save_session p sess w0 of
        (w1, Some e) \<Rightarrow> (w1, Inl (SessionFailed e))
      | (w1, None) \<Rightarrow>
          let (w1', _) = get_session p sessionKey w1;
              (w2, i) = on_app (\<lambda>n. scoped_CreateSubmission (dp_now p n) (dp_stamp p n) sub) w1' in
          (case on_app (\<lambda>n. scoped_QueueSubmission (dp_now p n) (dp_io p n) sessionKey i) w2 of
             (w3, Some e) \<Rightarrow> (w3, Inl (SubmissionFailed e))
           | (w3, None) \<Rightarrow>
               (case Invalidate_plan p sessionKey w3 of
                  (w4, Inl e) \<Rightarrow> (w4, Inl (PlanNotWithdrawn e))
                | (w4, Inr None) \<Rightarrow> (w4, Inr i)
                | (w4, Inr (Some plan)) \<Rightarrow> (emit (PlanExpired (pr_ID plan)) w4, Inr i))))"

text \<open>The last part: the staged images are used up, the queue is started, the user is told.\<close>

definition enqueue_started ::
  "queue_ports \<Rightarrow> string \<Rightarrow> admission_verdict \<Rightarrow> Submission \<Rightarrow> Desk \<Rightarrow> Desk \<times> start_error option" where
  "enqueue_started p sessionKey v sub w0 =
     (let (w1, _) = get_session p sessionKey w0;
          (w2, e) = (if av_ShouldAttempt v then StartNextSubmission p sessionKey w1 else (w1, None)) in
      if e \<noteq> None \<or> av_ShouldAttempt v \<and> \<not> av_WillWait v then (w2, e)
      else
        let w3 = emit (QueuedNotice sub) (MarkSubmissionQueuedReactions (Some sub) w2) in
        (if av_SerialBlocked v \<and> \<not> av_AutoRetryBlocked v
         then emit (Scheduled sessionKey ''serialBindingQueued'') w3 else w3, None))"

definition EnqueueSubmission ::
  "turn_ports \<Rightarrow> InboundMessage \<Rightarrow> string \<Rightarrow> bool \<Rightarrow> Desk \<Rightarrow> Desk \<times> start_error option" where
  "EnqueueSubmission tn msg sessionKey bindOnlyCurrentRoot w0 =
     (let p = tn_queue tn in
      case enqueue_target tn msg sessionKey bindOnlyCurrentRoot w0 of
        (w1, None) \<Rightarrow> (w1, Some NilDereference)
      | (w1, Some (sess, workspaceID)) \<Rightarrow>
        if workspaceID = [] then (w1, Some NoWorkspaceChosen)
        else case qp_Attachments p msg workspaceID sessionKey of
          Inl e \<Rightarrow> (w1, Some (Rejected e))
        | Inr inbound \<Rightarrow>
            let bucket = PendingInputSessionKey (qp_FrontendID p) (Some msg);
                (w2, images) = CollectPendingStagedImages p sessionKey bucket w1;
                attachments = StagedImageAttachments images @ inbound;
                skill = qp_Skill p (dk_calls w2) sessionKey workspaceID (im_Text msg) attachments in
            (case (sr_PendingReplacement skill, trim (sr_InputText skill) = [] \<and> attachments = []) of
               (Some replacement, True) \<Rightarrow>
                 let w3 = emit (Replied (im_MessageID msg) (trim (sk_Name replacement))
                                  (qp_ReplyInThreadEnabled p (im_ChatType msg)))
                            (emit (SkillPending sessionKey replacement) w2) in
                 (w3, if qp_ReplyFails p (im_MessageID msg) then Some (Rejected (im_MessageID msg)) else None)
             | _ \<Rightarrow>
                 let v = admission_of p sess w2;
                     sess' = (if av_WillWait v then (looked_at sess)\<lparr>ss_Status := SessionStatusQueued\<rparr>
                              else looked_at sess);
                     sub = enqueued_submission msg sessionKey sess workspaceID bindOnlyCurrentRoot images
                             attachments skill (av_WillWait v) in
                 (case enqueue_stored p sessionKey sess' sub w2 of
                    (w3, Inl e) \<Rightarrow> (w3, Some e)
                  | (w3, Inr i) \<Rightarrow>
                      let (w4, e) = (if images \<noteq> [] then ClearPendingStagedImages p sessionKey bucket w3
                                     else (w3, None)) in
                      (case e of
                         Some e \<Rightarrow> (w4, Some (SessionFailed e))
                       | None \<Rightarrow>
                           enqueue_started p sessionKey v (sub\<lparr>sub_ID := i\<rparr>)
                             (if sr_ConsumePending skill then emit (SkillCleared sessionKey) w4 else w4)))))"

end
