(* ===== verification/Session_Actors.thy ===== *)
theory Session_Actors
  imports Go_Prelude "HOL-Library.AList"
begin

text \<open>
  The serialization of work by session: \<open>internal/runtime/session_actors.go\<close>. The other theories
  let the operations of a session follow one another; this is the code that makes it so. A call of
  Run has four parts that other goroutines may separate: it takes a reference to the lock of its
  key, waits for the lock, runs its function and unlocks, and gives the reference back.
\<close>

section \<open>Calls of Run\<close>

datatype phase = Waiting | Running | Unlocked

record call =
  ca_id :: nat
  ca_key :: string
  ca_lock :: nat
  ca_phase :: phase

text \<open>
  Locks are addresses; \<open>sa_locks\<close> is the map of the struct, \<open>sa_refs\<close> and \<open>sa_held\<close> the two
  fields of a lock, \<open>sa_calls\<close> the calls that have not returned.
\<close>

record SessionActors =
  sa_locks :: "(string \<times> nat) list"
  sa_refs :: "nat \<Rightarrow> nat"
  sa_held :: "nat \<Rightarrow> bool"
  sa_next :: nat
  sa_calls :: "call list"

definition NewSessionActors :: SessionActors where
  "NewSessionActors = \<lparr>sa_locks = [], sa_refs = (\<lambda>_. 0), sa_held = (\<lambda>_. False), sa_next = 0, sa_calls = []\<rparr>"

definition take_reference :: "nat \<Rightarrow> string \<Rightarrow> SessionActors \<Rightarrow> SessionActors" where
  "take_reference g key0 a =
     (let key = trim key0;
          (a1, e) = (case map_of (sa_locks a) key of
             Some e \<Rightarrow> (a, e)
           | None \<Rightarrow> (a\<lparr>sa_locks := AList.update key (sa_next a) (sa_locks a), sa_next := Suc (sa_next a),
                       sa_refs := (sa_refs a)(sa_next a := 0), sa_held := (sa_held a)(sa_next a := False)\<rparr>,
                     sa_next a)) in
      a1\<lparr>sa_refs := (sa_refs a1)(e := sa_refs a1 e + 1),
         sa_calls := \<lparr>ca_id = g, ca_key = key, ca_lock = e, ca_phase = Waiting\<rparr> # sa_calls a1\<rparr>)"

definition in_phase :: "phase \<Rightarrow> call \<Rightarrow> call list \<Rightarrow> call list" where
  "in_phase ph c = map (\<lambda>x. if ca_id x = ca_id c then x\<lparr>ca_phase := ph\<rparr> else x)"

definition acquire :: "call \<Rightarrow> SessionActors \<Rightarrow> SessionActors" where
  "acquire c a = a\<lparr>sa_held := (sa_held a)(ca_lock c := True), sa_calls := in_phase Running c (sa_calls a)\<rparr>"

definition unlock :: "call \<Rightarrow> SessionActors \<Rightarrow> SessionActors" where
  "unlock c a = a\<lparr>sa_held := (sa_held a)(ca_lock c := False), sa_calls := in_phase Unlocked c (sa_calls a)\<rparr>"

definition give_back :: "call \<Rightarrow> SessionActors \<Rightarrow> SessionActors" where
  "give_back c a =
     (let refs = sa_refs a (ca_lock c) - 1 in
      a\<lparr>sa_refs := (sa_refs a)(ca_lock c := refs),
        sa_locks := (if refs = 0 then AList.delete (ca_key c) (sa_locks a) else sa_locks a),
        sa_calls := filter (\<lambda>x. ca_id x \<noteq> ca_id c) (sa_calls a)\<rparr>)"

text \<open>What may happen next: a call begins, a free lock goes to one that waits, a call goes on.\<close>

inductive actor_step :: "SessionActors \<Rightarrow> SessionActors \<Rightarrow> bool" where
  begins: "g \<notin> ca_id ` set (sa_calls a) \<Longrightarrow> actor_step a (take_reference g key a)"
| locks: "c \<in> set (sa_calls a) \<Longrightarrow> ca_phase c = Waiting \<Longrightarrow> \<not> sa_held a (ca_lock c) \<Longrightarrow> actor_step a (acquire c a)"
| unlocks: "c \<in> set (sa_calls a) \<Longrightarrow> ca_phase c = Running \<Longrightarrow> actor_step a (unlock c a)"
| returns: "c \<in> set (sa_calls a) \<Longrightarrow> ca_phase c = Unlocked \<Longrightarrow> actor_step a (give_back c a)"

inductive actors_reached :: "SessionActors \<Rightarrow> bool" where
  none_called: "actors_reached NewSessionActors"
| after_step: "actors_reached a \<Longrightarrow> actor_step a b \<Longrightarrow> actors_reached b"

section \<open>The locks are those of the calls\<close>

definition holders :: "nat \<Rightarrow> call list \<Rightarrow> call list" where
  "holders e cs = filter (\<lambda>c. ca_lock c = e) cs"

definition runners :: "nat \<Rightarrow> call list \<Rightarrow> call list" where
  "runners e cs = filter (\<lambda>c. ca_lock c = e \<and> ca_phase c = Running) cs"

definition locks_ok ::
  "(string \<times> nat) list \<Rightarrow> (nat \<Rightarrow> nat) \<Rightarrow> (nat \<Rightarrow> bool) \<Rightarrow> nat \<Rightarrow> call list \<Rightarrow> bool" where
  "locks_ok locks refs held n calls \<longleftrightarrow>
     distinct (map ca_id calls) \<and>
     (\<forall>c\<in>set calls. map_of locks (ca_key c) = Some (ca_lock c)) \<and>
     (\<forall>k e. map_of locks k = Some e \<longrightarrow> e < n \<and> refs e = length (holders e calls) \<and>
        holders e calls \<noteq> [] \<and> length (runners e calls) = (if held e then 1 else 0)) \<and>
     (\<forall>j k e. map_of locks j = Some e \<longrightarrow> map_of locks k = Some e \<longrightarrow> j = k)"

definition actors_ok :: "SessionActors \<Rightarrow> bool" where
  "actors_ok a \<longleftrightarrow> locks_ok (sa_locks a) (sa_refs a) (sa_held a) (sa_next a) (sa_calls a)"

lemmas actors_ok_defs = actors_ok_def locks_ok_def

lemma ok_take_reference:
  assumes "actors_ok a" "g \<notin> ca_id ` set (sa_calls a)"
  shows "actors_ok (take_reference g key a)"
proof (cases "map_of (sa_locks a) (trim key)")
  case None
  have new: "ca_lock c \<noteq> sa_next a" if "c \<in> set (sa_calls a)" for c
    using that assms(1) unfolding actors_ok_defs by (metis less_irrefl)
  have "map_of (sa_locks a) k \<noteq> Some (sa_next a)" for k
    using assms(1) unfolding actors_ok_defs by (metis less_irrefl)
  with assms None new show ?thesis
    by (auto simp: actors_ok_defs take_reference_def Let_def update_conv' holders_def runners_def filter_empty_conv less_Suc_eq
        split: if_splits)
next
  case (Some e)
  with assms show ?thesis
    by (auto simp: actors_ok_defs take_reference_def Let_def holders_def runners_def)
qed

lemma other_lock:
  assumes "actors_ok a" "c \<in> set (sa_calls a)" "map_of (sa_locks a) k = Some e" "e \<noteq> ca_lock c"
  shows "k \<noteq> ca_key c"
  using assms unfolding actors_ok_defs by (metis option.inject)

lemma same_call:
  assumes "actors_ok a" "c \<in> set (sa_calls a)" "x \<in> set (sa_calls a)" "ca_id x = ca_id c"
  shows "x = c"
  using assms unfolding actors_ok_defs by (metis inj_onD distinct_map)

text \<open>Changing the phase of a call changes one list, the list of those that run.\<close>

lemma in_phase_ids [simp]: "map ca_id (in_phase ph c cs) = map ca_id cs"
  by (induction cs) (auto simp: in_phase_def)

lemma in_phase_holders: "length (holders e (in_phase ph c cs)) = length (holders e cs)"
  by (induction cs) (auto simp: in_phase_def holders_def)

lemma in_phase_keys:
  "(\<forall>x\<in>set (in_phase ph c cs). P (ca_key x) (ca_lock x)) \<longleftrightarrow> (\<forall>x\<in>set cs. P (ca_key x) (ca_lock x))"
  by (induction cs) (auto simp: in_phase_def)

lemma runners_in_phase:
  assumes "distinct (map ca_id cs)" "c \<in> set cs"
  shows "length (runners e (in_phase ph c cs)) + (if ca_lock c = e \<and> ca_phase c = Running then 1 else 0) =
    length (runners e cs) + (if ca_lock c = e \<and> ph = Running then 1 else 0)"
  using assms
proof (induction cs)
  case (Cons x cs)
  show ?case
  proof (cases "x = c")
    case True
    with Cons.prems have "in_phase ph c cs = cs"
      by (auto simp: in_phase_def image_iff intro!: map_idI)
    with True show ?thesis by (auto simp: in_phase_def runners_def)
  next
    case False
    with Cons.prems have "ca_id x \<noteq> ca_id c" "c \<in> set cs" by auto
    with Cons show ?thesis by (auto simp: in_phase_def runners_def)
  qed
qed simp

lemma ok_phase:
  assumes "actors_ok a" "c \<in> set (sa_calls a)" "map_of (sa_locks a) (ca_key c) = Some (ca_lock c)"
    "ca_phase c = Running \<or> ph = Running" "ca_phase c \<noteq> ph"
    "ph = Running \<longrightarrow> \<not> sa_held a (ca_lock c)"
  shows "actors_ok (a\<lparr>sa_held := (sa_held a)(ca_lock c := (ph = Running)), sa_calls := in_phase ph c (sa_calls a)\<rparr>)"
proof -
  note inv = assms(1) [unfolded actors_ok_defs]
  have r: "length (runners e (in_phase ph c (sa_calls a))) = (if ((sa_held a)(ca_lock c := (ph = Running))) e then 1 else 0)"
    if "map_of (sa_locks a) k = Some e" for k e
  proof -
    have "length (runners e (sa_calls a)) = (if sa_held a e then 1 else 0)" using inv that by blast
    then show ?thesis
      using runners_in_phase [of "sa_calls a" c e ph] inv assms(2,4,5,6)
      by (auto split: if_splits)
  qed
  have h: "holders e (in_phase ph c (sa_calls a)) \<noteq> []" if "holders e (sa_calls a) \<noteq> []" for e
    using that in_phase_holders [of e ph c "sa_calls a"] by (metis length_0_conv)
  show ?thesis
    unfolding actors_ok_defs
    using inv r h in_phase_keys [of ph c "sa_calls a" "\<lambda>k e. map_of (sa_locks a) k = Some e"]
    by (simp add: in_phase_holders)
qed

lemma filter_id_length:
  assumes "distinct (map ca_id cs)" "c \<in> set cs"
  shows "length (filter P (filter (\<lambda>x. ca_id x \<noteq> ca_id c) cs)) + (if P c then 1 else 0) = length (filter P cs)"
  using assms
proof (induction cs)
  case (Cons x cs)
  show ?case
  proof (cases "x = c")
    case True
    with Cons.prems have "filter (\<lambda>x. ca_id x \<noteq> ca_id c) cs = cs"
      by (auto simp: image_iff intro!: filter_True)
    with True show ?thesis by auto
  next
    case False
    with Cons.prems have "ca_id x \<noteq> ca_id c" "c \<in> set cs" by auto
    with Cons show ?thesis by auto
  qed
qed simp

lemma ok_give_back:
  assumes "actors_ok a" "c \<in> set (sa_calls a)" "ca_phase c = Unlocked"
  shows "actors_ok (give_back c a)"
proof -
  note inv = assms(1) [unfolded actors_ok_defs]
  let ?cs = "filter (\<lambda>x. ca_id x \<noteq> ca_id c) (sa_calls a)"
  have key: "map_of (sa_locks a) (ca_key c) = Some (ca_lock c)" using inv assms(2) by blast
  have len: "length (holders e ?cs) + (if ca_lock c = e then 1 else 0) = length (holders e (sa_calls a))"
      "length (runners e ?cs) = length (runners e (sa_calls a))" for e
  proof -
    have dc: "distinct (map ca_id (sa_calls a))" using inv by blast
    show "length (holders e ?cs) + (if ca_lock c = e then 1 else 0) = length (holders e (sa_calls a))"
      unfolding holders_def by (rule filter_id_length [OF dc assms(2)])
    show "length (runners e ?cs) = length (runners e (sa_calls a))"
      using filter_id_length [OF dc assms(2), of "\<lambda>x. ca_lock x = e \<and> ca_phase x = Running"] assms(3)
      unfolding runners_def by simp
  qed
  have "sa_refs a (ca_lock c) = length (holders (ca_lock c) (sa_calls a))" using inv key by blast
  then have refs: "sa_refs a (ca_lock c) - 1 = length (holders (ca_lock c) ?cs)"
    using len(1) [of "ca_lock c"] by simp
  have d: "distinct (map ca_id ?cs)" using inv by (simp add: distinct_map_filter)
  have others: "sa_refs a e = length (holders e ?cs)" "holders e ?cs \<noteq> []"
    if "map_of (sa_locks a) k = Some e" "e \<noteq> ca_lock c" for k e
  proof -
    have "sa_refs a e = length (holders e (sa_calls a))" "holders e (sa_calls a) \<noteq> []" using inv that(1) by blast+
    then show "sa_refs a e = length (holders e ?cs)" "holders e ?cs \<noteq> []"
      using len(1) [of e] that(2) by (simp, metis add_0_right length_0_conv)
  qed
  have running: "length (runners e ?cs) = (if sa_held a e then 1 else 0)" if "map_of (sa_locks a) k = Some e" for k e
  proof -
    have "length (runners e (sa_calls a)) = (if sa_held a e then 1 else 0)" using inv that by blast
    with len(2) [of e] show ?thesis by simp
  qed
  show ?thesis
  proof (cases "holders (ca_lock c) ?cs = []")
    case True
    with refs have b: "give_back c a = a\<lparr>sa_refs := (sa_refs a)(ca_lock c := 0),
        sa_locks := AList.delete (ca_key c) (sa_locks a), sa_calls := ?cs\<rparr>"
      by (simp add: give_back_def Let_def)
    have m: "map_of (AList.delete (ca_key c) (sa_locks a)) k = Some e \<longleftrightarrow>
        map_of (sa_locks a) k = Some e \<and> e \<noteq> ca_lock c" for k e
      using inv key by (auto simp: delete_conv')
    have "ca_lock x \<noteq> ca_lock c" if "x \<in> set ?cs" for x
      using True that by (auto simp: holders_def filter_empty_conv)
    then have keyed: "\<forall>x\<in>set ?cs. map_of (AList.delete (ca_key c) (sa_locks a)) (ca_key x) = Some (ca_lock x)"
      using inv by (auto simp: m)
    have each: "e < sa_next a \<and> ((sa_refs a)(ca_lock c := 0)) e = length (holders e ?cs) \<and>
        holders e ?cs \<noteq> [] \<and> length (runners e ?cs) = (if sa_held a e then 1 else 0)"
      if "map_of (AList.delete (ca_key c) (sa_locks a)) k = Some e" for k e
    proof -
      have e: "map_of (sa_locks a) k = Some e" "e \<noteq> ca_lock c" using that m by blast+
      have "e < sa_next a" using inv e(1) by blast
      then show ?thesis using others [OF e] running [OF e(1)] e(2) by simp
    qed
    have inj: "\<forall>j k e. map_of (AList.delete (ca_key c) (sa_locks a)) j = Some e \<longrightarrow>
        map_of (AList.delete (ca_key c) (sa_locks a)) k = Some e \<longrightarrow> j = k"
      unfolding m using inv by blast
    have "actors_ok (give_back c a) \<longleftrightarrow>
        locks_ok (AList.delete (ca_key c) (sa_locks a)) ((sa_refs a)(ca_lock c := 0)) (sa_held a) (sa_next a) ?cs"
      by (simp add: actors_ok_def b)
    moreover have "locks_ok (AList.delete (ca_key c) (sa_locks a)) ((sa_refs a)(ca_lock c := 0)) (sa_held a) (sa_next a) ?cs"
      unfolding locks_ok_def using d keyed each inj by blast
    ultimately show ?thesis by blast
  next
    case False
    with refs have b: "give_back c a = a\<lparr>sa_refs := (sa_refs a)(ca_lock c := length (holders (ca_lock c) ?cs)),
        sa_calls := ?cs\<rparr>"
      by (simp add: give_back_def Let_def)
    have r: "((sa_refs a)(ca_lock c := length (holders (ca_lock c) ?cs))) e = length (holders e ?cs) \<and> holders e ?cs \<noteq> []"
      if "map_of (sa_locks a) k = Some e" for k e
      using others [OF that] False by (cases "e = ca_lock c") simp_all
    show ?thesis
      unfolding actors_ok_defs b
      using inv d r running by simp
  qed
qed

lemma actors_reached_ok: "actors_reached a \<Longrightarrow> actors_ok a"
proof (induction rule: actors_reached.induct)
  case none_called
  show ?case by (simp add: actors_ok_defs NewSessionActors_def)
next
  case (after_step a b)
  from after_step(2) after_step(3) show ?case
  proof (cases rule: actor_step.cases)
    case (begins g key)
    then show ?thesis using after_step(3) ok_take_reference by blast
  next
    case (locks c)
    have "map_of (sa_locks a) (ca_key c) = Some (ca_lock c)"
      using after_step(3) locks(2) by (simp add: actors_ok_defs)
    then show ?thesis
      using ok_phase [OF after_step(3) locks(2), of Running] locks(1,3,4) by (simp add: acquire_def)
  next
    case (unlocks c)
    have "map_of (sa_locks a) (ca_key c) = Some (ca_lock c)"
      using after_step(3) unlocks(2) by (simp add: actors_ok_defs)
    then show ?thesis
      using ok_phase [OF after_step(3) unlocks(2), of Unlocked] unlocks(1,3) by (simp add: unlock_def)
  next
    case (returns c)
    then show ?thesis using after_step(3) ok_give_back by blast
  qed
qed

lemma runners_of_key:
  assumes "actors_ok a" "map_of (sa_locks a) k = Some e"
  shows "runners e (sa_calls a) = filter (\<lambda>c. ca_key c = k \<and> ca_phase c = Running) (sa_calls a)"
  unfolding runners_def
proof (rule filter_cong)
  fix c assume "c \<in> set (sa_calls a)"
  then have "map_of (sa_locks a) (ca_key c) = Some (ca_lock c)" using assms(1) by (simp add: actors_ok_defs)
  then have "ca_lock c = e \<longleftrightarrow> ca_key c = k"
    using assms unfolding actors_ok_defs by (metis option.inject)
  then show "(ca_lock c = e \<and> ca_phase c = Running) = (ca_key c = k \<and> ca_phase c = Running)" by blast
qed simp

text \<open>
  C36. Under every interleaving of calls, at most one function of a session key runs at a time;
  a call that waits can go on whenever none of its key runs; a key has a lock exactly while it has
  a call, so no lock is left behind; and a call that has unlocked can return.
\<close>

theorem one_actor_per_session:
  assumes "actors_reached a"
  shows "(\<forall>k. length (filter (\<lambda>c. ca_key c = k \<and> ca_phase c = Running) (sa_calls a)) \<le> 1) \<and>
    (\<forall>c\<in>set (sa_calls a). ca_phase c = Waiting \<longrightarrow>
       (\<forall>x\<in>set (sa_calls a). ca_key x = ca_key c \<longrightarrow> ca_phase x \<noteq> Running) \<longrightarrow> actor_step a (acquire c a)) \<and>
    dom (map_of (sa_locks a)) = ca_key ` set (sa_calls a)"
proof -
  have ok: "actors_ok a" by (rule actors_reached_ok [OF assms])
  note inv = ok [unfolded actors_ok_defs]
  have keyed: "\<forall>c\<in>set (sa_calls a). map_of (sa_locks a) (ca_key c) = Some (ca_lock c)" using inv by blast
  have one: "length (filter (\<lambda>c. ca_key c = k \<and> ca_phase c = Running) (sa_calls a)) \<le> 1" for k
  proof (cases "map_of (sa_locks a) k")
    case None
    then have "filter (\<lambda>c. ca_key c = k \<and> ca_phase c = Running) (sa_calls a) = []"
      using keyed by (force simp: filter_empty_conv)
    then show ?thesis by simp
  next
    case (Some e)
    have "length (runners e (sa_calls a)) = (if sa_held a e then 1 else 0)" using inv Some by blast
    then show ?thesis by (simp add: runners_of_key [OF ok Some] split: if_splits)
  qed
  have go: "actor_step a (acquire c a)"
    if c: "c \<in> set (sa_calls a)" "ca_phase c = Waiting"
      and none: "\<forall>x\<in>set (sa_calls a). ca_key x = ca_key c \<longrightarrow> ca_phase x \<noteq> Running" for c
  proof (rule locks [OF c])
    have l: "map_of (sa_locks a) (ca_key c) = Some (ca_lock c)" using inv c(1) by blast
    then have "length (runners (ca_lock c) (sa_calls a)) = (if sa_held a (ca_lock c) then 1 else 0)"
      using inv by blast
    moreover have "runners (ca_lock c) (sa_calls a) = []"
      unfolding runners_of_key [OF ok l] using none by (auto simp: filter_empty_conv)
    ultimately show "\<not> sa_held a (ca_lock c)" by (auto split: if_splits)
  qed
  have "dom (map_of (sa_locks a)) \<subseteq> ca_key ` set (sa_calls a)"
  proof
    fix k assume "k \<in> dom (map_of (sa_locks a))"
    then obtain e where e: "map_of (sa_locks a) k = Some e" by blast
    then obtain c where "c \<in> set (sa_calls a)" "ca_lock c = e"
      using inv by (metis (mono_tags, lifting) filter_False holders_def)
    then show "k \<in> ca_key ` set (sa_calls a)" using e inv by (metis image_eqI)
  qed
  moreover have "ca_key ` set (sa_calls a) \<subseteq> dom (map_of (sa_locks a))" using inv by auto
  ultimately show ?thesis using one go by blast
qed

theorem one_actor_per_session_witness:
  "\<exists>a. actors_reached a \<and> map ca_phase (sa_calls a) = [Waiting, Running] \<and>
     length (filter (\<lambda>c. ca_key c = ''k'' \<and> ca_phase c = Running) (sa_calls a)) \<le> 1"
proof -
  let ?a1 = "take_reference 1 ''k'' NewSessionActors"
  let ?c = "\<lparr>ca_id = 1, ca_key = ''k'', ca_lock = 0, ca_phase = Waiting\<rparr>"
  let ?a3 = "take_reference 2 ''k'' (acquire ?c ?a1)"
  have k: "trim ''k'' = ''k''" by code_simp
  have calls: "sa_calls ?a1 = [?c]" by (simp add: take_reference_def NewSessionActors_def k Let_def)
  have s1: "actor_step NewSessionActors ?a1" by (rule begins) (simp add: NewSessionActors_def)
  have s2: "actor_step ?a1 (acquire ?c ?a1)"
    by (rule locks, simp_all only: calls) (simp_all add: take_reference_def NewSessionActors_def k Let_def)
  have s3: "actor_step (acquire ?c ?a1) ?a3" by (rule begins) (simp add: acquire_def in_phase_def calls del: One_nat_def)
  have r: "actors_reached ?a3"
    using none_called s1 s2 s3 after_step by blast
  have phases: "map ca_phase (sa_calls ?a3) = [Waiting, Running]"
    by (simp add: take_reference_def NewSessionActors_def acquire_def in_phase_def k Let_def)
  show ?thesis
    by (rule exI, rule conjI, rule r, rule conjI, rule phases,
        rule one_actor_per_session [OF r, THEN conjunct1, THEN spec])
qed

end
