(* ===== verification/Versions.thy ===== *)
theory Versions
  imports Go_Prelude "HOL-Library.Char_ord" "HOL-Library.List_Lexorder" "HOL-Library.Product_Lexorder"
begin

text \<open>
  Version numbers of releases: the parser and the comparison of \<open>internal/release/github.go\<close>, by
  which an update is recognised as newer, and \<open>strconv.Atoi\<close> as it is used there and by the
  commands. Integers are those of a 64 bit machine.
\<close>

section \<open>Numbers\<close>

abbreviation digit :: "char \<Rightarrow> bool" where
  "digit c \<equiv> between CHR ''0'' CHR ''9'' c"

definition max_int :: int where "max_int = 2 ^ 63 - 1"

text \<open>
  \<open>Atoi\<close> returns a value and whether there was no error; a number out of range is an error with
  the nearest value in range.
\<close>

definition Atoi :: "string \<Rightarrow> int \<times> bool" where
  "Atoi s =
     (let (negative, ds) = (case s of
            c # cs \<Rightarrow> if c = CHR ''-'' then (True, cs) else if c = CHR ''+'' then (False, cs) else (False, s)
          | [] \<Rightarrow> (False, s)) in
      if ds = [] \<or> \<not> list_all digit ds then (0, False)
      else
        let n = int (dec_value ds) in
        if negative then (if n \<le> max_int + 1 then (- n, True) else (- max_int - 1, False))
        else (if n \<le> max_int then (n, True) else (max_int, False)))"

section \<open>Parsing\<close>

record VersionInfo =
  vi_Major :: int
  vi_Minor :: int
  vi_Patch :: int
  vi_Suffix :: string

definition suffix_char :: "char \<Rightarrow> bool" where
  "suffix_char c \<longleftrightarrow> ascii_alnum c \<or> c = CHR ''.'' \<or> c = CHR ''-''"

text \<open>The expression \<open>v?D.D.D\<close> with an optional suffix; a run of digits ends only at another byte.\<close>

definition number_dot :: "string \<Rightarrow> (string \<times> string) option" where
  "number_dot s =
     (case (takeWhile digit s, dropWhile digit s) of
        ([], _) \<Rightarrow> None
      | (ds, CHR ''.'' # rest) \<Rightarrow> Some (ds, rest)
      | _ \<Rightarrow> None)"

definition match_semver :: "string \<Rightarrow> (string \<times> string \<times> string \<times> string) option" where
  "match_semver raw =
     (let s = (case raw of CHR ''v'' # cs \<Rightarrow> cs | _ \<Rightarrow> raw) in
      case number_dot s of
        None \<Rightarrow> None
      | Some (major, s1) \<Rightarrow>
          (case number_dot s1 of
             None \<Rightarrow> None
           | Some (minor, s2) \<Rightarrow>
               let patch = takeWhile digit s2; rest = dropWhile digit s2 in
               if patch = [] then None
               else if rest = [] then Some (major, minor, patch, [])
               else if length rest \<ge> 2 \<and> (hd rest = CHR ''.'' \<or> hd rest = CHR ''-'') \<and>
                       list_all suffix_char (tl rest)
               then Some (major, minor, patch, rest) else None))"

definition ParseVersion :: "string \<Rightarrow> VersionInfo option" where
  "ParseVersion raw =
     (case match_semver (trim raw) of
        None \<Rightarrow> None
      | Some (major, minor, patch, rest) \<Rightarrow>
          Some \<lparr>vi_Major = fst (Atoi major), vi_Minor = fst (Atoi minor), vi_Patch = fst (Atoi patch),
                vi_Suffix = trim rest\<rparr>)"

section \<open>Comparing\<close>

fun split_version :: "(char \<Rightarrow> bool) \<Rightarrow> string \<Rightarrow> string \<Rightarrow> string list" where
  "split_version sep acc [] = (if acc = [] then [] else [acc])"
| "split_version sep acc (c # cs) =
     (if sep c then (if acc = [] then split_version sep [] cs else acc # split_version sep [] cs)
      else split_version sep (acc @ [c]) cs)"

definition splitPrerelease :: "string \<Rightarrow> string list" where
  "splitPrerelease value0 =
     (let sep = (\<lambda>c. c = CHR ''.'' \<or> c = CHR ''-''); value = trim (dropWhile sep value0) in
      if value = [] then [] else filter (\<lambda>part. trim part \<noteq> []) (split_version sep [] value))"

definition parseNumericPrerelease :: "string \<Rightarrow> int option" where
  "parseNumericPrerelease value =
     (if value = [] \<or> \<not> list_all digit value then None
      else case Atoi value of (v, ok) \<Rightarrow> if ok then Some v else None)"

fun compare_parts :: "string list \<Rightarrow> string list \<Rightarrow> int" where
  "compare_parts (a # as) (b # bs) =
     (case (parseNumericPrerelease a, parseNumericPrerelease b) of
        (Some m, Some n) \<Rightarrow> if m < n then -1 else if m > n then 1 else compare_parts as bs
      | (Some m, None) \<Rightarrow> -1
      | (None, Some n) \<Rightarrow> 1
      | (None, None) \<Rightarrow> if a < b then -1 else if a > b then 1 else compare_parts as bs)"
| "compare_parts [] (b # bs) = -1"
| "compare_parts (a # as) [] = 1"
| "compare_parts [] [] = 0"

definition compareSuffix :: "string \<Rightarrow> string \<Rightarrow> int" where
  "compareSuffix a0 b0 =
     (let a = trim a0; b = trim b0 in
      if a = b then 0 else if a = [] then 1 else if b = [] then -1
      else compare_parts (splitPrerelease a) (splitPrerelease b))"

definition compare_versions :: "VersionInfo \<Rightarrow> VersionInfo \<Rightarrow> int" where
  "compare_versions a b =
     (if vi_Major a \<noteq> vi_Major b then (if vi_Major a < vi_Major b then -1 else 1)
      else if vi_Minor a \<noteq> vi_Minor b then (if vi_Minor a < vi_Minor b then -1 else 1)
      else if vi_Patch a \<noteq> vi_Patch b then (if vi_Patch a < vi_Patch b then -1 else 1)
      else compareSuffix (vi_Suffix a) (vi_Suffix b))"

definition CompareVersions :: "string \<Rightarrow> string \<Rightarrow> int option" where
  "CompareVersions a b =
     (case (ParseVersion a, ParseVersion b) of (Some v, Some w) \<Rightarrow> Some (compare_versions v w) | _ \<Rightarrow> None)"

section \<open>The comparison is that of a key\<close>

text \<open>Numbers come before words, numbers by value and words byte by byte; no suffix comes last.\<close>

definition part_key :: "string \<Rightarrow> bool \<times> int \<times> string" where
  "part_key part = (case parseNumericPrerelease part of Some n \<Rightarrow> (False, n, []) | None \<Rightarrow> (True, 0, part))"

definition suffix_key :: "string \<Rightarrow> bool \<times> (bool \<times> int \<times> string) list" where
  "suffix_key s = (trim s = [], map part_key (splitPrerelease (trim s)))"

definition version_key :: "VersionInfo \<Rightarrow> int \<times> int \<times> int \<times> bool \<times> (bool \<times> int \<times> string) list" where
  "version_key v = (vi_Major v, vi_Minor v, vi_Patch v, suffix_key (vi_Suffix v))"

definition three_way :: "'a::linorder \<Rightarrow> 'a \<Rightarrow> int" where
  "three_way x y = (if x < y then -1 else if x > y then 1 else 0)"

lemma three_way_Pair:
  "three_way (a, b) (c, d) = (if a \<noteq> c then (if a < c then -1 else 1) else three_way b d)"
  by (auto simp: three_way_def)

lemma three_way_swap: "three_way y x = - three_way x y"
  by (auto simp: three_way_def)

lemma three_way_trans:
  "three_way x y \<le> 0 \<Longrightarrow> three_way y z \<le> 0 \<Longrightarrow>
     three_way x z \<le> 0 \<and> (three_way x z = 0 \<longleftrightarrow> three_way x y = 0 \<and> three_way y z = 0)"
  by (auto simp: three_way_def split: if_splits)

lemma compare_parts_key: "compare_parts as bs = three_way (map part_key as) (map part_key bs)"
  by (induction as bs rule: compare_parts.induct)
     (auto simp: three_way_def part_key_def less_prod_def split: option.splits)

lemma suffix_key_eq: "trim a = trim b \<Longrightarrow> suffix_key a = suffix_key b"
  by (simp add: suffix_key_def)

lemma splitPrerelease_Nil [simp]: "splitPrerelease [] = []"
  by (simp add: splitPrerelease_def)

lemma compareSuffix_key: "compareSuffix a b = three_way (suffix_key a) (suffix_key b)"
proof -
  have "(if x = y then 0 else if x = [] then 1 else if y = [] then -1
         else compare_parts (splitPrerelease x) (splitPrerelease y)) =
      three_way (x = [], map part_key (splitPrerelease x)) (y = [], map part_key (splitPrerelease y))" for x y
    by (cases "x = y"; cases "x = []"; cases "y = []") (simp_all add: compare_parts_key three_way_Pair, simp_all add: three_way_def)
  then show ?thesis by (simp only: compareSuffix_def suffix_key_def Let_def)
qed

lemma compare_versions_key: "compare_versions v w = three_way (version_key v) (version_key w)"
  by (simp add: compare_versions_def compareSuffix_key version_key_def three_way_Pair)



end
