(* ===== verification/Commands.thy ===== *)
theory Commands
  imports Versions Submission
begin

text \<open>
  The syntax of the local commands: the matchers of
  \<open>internal/application/features/commandmatch.go\<close> and the argument parsers of
  \<open>internal/application/workspace/commands.go\<close>. A line that no matcher accepts is not a command
  of the bot; it goes to the backend as text.
\<close>

section \<open>Words of a line\<close>

text \<open>\<open>strings.Fields\<close>: the runs of runes that are not white space.\<close>

fun fields_from :: "string list \<Rightarrow> string \<Rightarrow> string list" where
  "fields_from [] word = (if word = [] then [] else [word])"
| "fields_from (r # rs) word =
     (if r \<in> set white_space then (if word = [] then fields_from rs [] else word # fields_from rs [])
      else fields_from rs (word @ r))"

definition go_fields :: "string \<Rightarrow> string list" where
  "go_fields s = fields_from (runes s) []"

section \<open>Arguments of workspace commands (workspace/commands.go)\<close>

text \<open>The results are the repository or branch, the workspace id and the parent directory.\<close>

definition ParseCloneArgs :: "string list \<Rightarrow> (string \<times> string \<times> string) option" where
  "ParseCloneArgs args =
     (case args of
        a0 # a1 # rest \<Rightarrow>
          let repoURL = trim a1 in
          if trim a0 \<noteq> ''clone'' \<or> repoURL = [] then None
          else (case rest of
             [] \<Rightarrow> Some (repoURL, [], [])
           | [x] \<Rightarrow> if trim x = ''--parent'' then None else Some (repoURL, trim x, [])
           | [x, y] \<Rightarrow> if trim x \<noteq> ''--parent'' \<or> trim y = [] then None else Some (repoURL, [], trim y)
           | [x, y, z] \<Rightarrow>
               if trim x = [] \<or> trim y \<noteq> ''--parent'' \<or> trim z = [] then None
               else Some (repoURL, trim x, trim z)
           | _ \<Rightarrow> None)
      | _ \<Rightarrow> None)"

definition ParseWorktreeArgs :: "string list \<Rightarrow> (string \<times> string) option" where
  "ParseWorktreeArgs args =
     (case args of
        a0 # a1 # rest \<Rightarrow>
          if trim a0 \<noteq> ''new'' \<or> trim a1 \<noteq> ''worktree'' then None
          else (case rest of
             [] \<Rightarrow> Some ([], [])
           | [x] \<Rightarrow> Some (trim x, [])
           | [x, y] \<Rightarrow> Some (trim x, trim y)
           | _ \<Rightarrow> None)
      | _ \<Rightarrow> None)"

section \<open>Matchers (commandmatch.go)\<close>

text \<open>A matcher gets the words of the line, the name of the command first.\<close>

definition ExactCommand :: "string list \<Rightarrow> bool" where
  "ExactCommand fs \<longleftrightarrow> length fs = 1"

definition CommandArgInSet :: "string \<Rightarrow> string list \<Rightarrow> bool" where
  "CommandArgInSet value allowed \<longleftrightarrow> trim value \<in> set allowed"

definition ExactOrSingleArgCommand :: "string list \<Rightarrow> string list \<Rightarrow> bool" where
  "ExactOrSingleArgCommand fs allowed \<longleftrightarrow>
     length fs = 1 \<or> length fs = 2 \<and> CommandArgInSet (fs ! 1) allowed"

definition MatchBackendCommand :: "string list \<Rightarrow> bool" where
  "MatchBackendCommand fs \<longleftrightarrow>
     length fs = 1 \<or> length fs = 2 \<and> trim (fs ! 1) = ''retry'' \<or>
     length fs = 3 \<and> trim (fs ! 1) = ''retry'' \<and> CommandArgInSet (fs ! 2) [''status'', ''on'', ''off'']"

definition MatchReviewCommand :: "string list \<Rightarrow> bool" where
  "MatchReviewCommand fs =
     (if length fs = 1 then True
      else let w = trim (fs ! 1) in
        if w \<in> {''uncommitted'', ''uncommittedChanges''} then length fs = 2
        else if w \<in> {''base'', ''commit''} then length fs = 2 \<or> length fs = 3
        else if w = ''custom'' then length fs \<ge> 2
        else False)"

definition MatchGoalCommand :: "string list \<Rightarrow> bool" where
  "MatchGoalCommand fs \<longleftrightarrow> length fs \<ge> 1"

definition MatchHistoryCommand :: "string list \<Rightarrow> bool" where
  "MatchHistoryCommand fs \<longleftrightarrow>
     length fs = 1 \<or>
     length fs = 3 \<and> trim (fs ! 1) = ''detail'' \<and>
     (case Atoi (trim (fs ! 2)) of (value, ok) \<Rightarrow> ok \<and> value > 0)"

definition MatchModelCommand :: "string list \<Rightarrow> bool" where
  "MatchModelCommand fs =
     (case map trim fs of
        [_] \<Rightarrow> True
      | [_, w] \<Rightarrow> w = ''plan''
      | [_, w, x] \<Rightarrow> w \<in> {''set'', ''effort''} \<and> x \<noteq> []
      | [_, w, verb, x] \<Rightarrow>
          if w = ''subagent'' then verb \<in> {''set'', ''effort''} \<and> x \<noteq> []
          else if w \<in> {''plan'', ''review'', ''small''}
          then (verb = ''set'' \<or> w = ''plan'' \<and> verb = ''effort'') \<and> x \<noteq> []
          else if w = ''option'' then verb \<in> {''add'', ''remove'', ''delete'', ''rm''} \<and> x \<noteq> []
          else False
      | _ \<Rightarrow> False)"

definition MatchEffortCommand :: "string list \<Rightarrow> bool" where
  "MatchEffortCommand fs \<longleftrightarrow> length fs = 1 \<or> length fs = 2 \<and> trim (fs ! 1) \<noteq> []"

definition MatchThreadCommand :: "string list \<Rightarrow> bool" where
  "MatchThreadCommand fs =
     (if length fs = 1 then True
      else let w = trim (fs ! 1) in
        if w = ''list'' then length fs = 2 \<or> length fs = 3 \<and> trim (fs ! 2) = ''all''
        else if w \<in> {''new'', ''fork''} then length fs = 2
        else if w = ''resume'' then length fs = 3
        else if w \<in> {''sandbox'', ''policy'', ''multiagent''} then length fs = 2 \<or> length fs = 3
        else False)"

definition MatchSessionCommand :: "string list \<Rightarrow> bool" where
  "MatchSessionCommand fs =
     (if length fs = 1 then True
      else let w = trim (fs ! 1) in
        if w = ''list'' then length fs = 2 \<or> length fs = 3 \<and> trim (fs ! 2) = ''all''
        else if w \<in> {''new'', ''fork''} then length fs = 2
        else if w = ''resume'' then length fs = 3
        else if w = ''permissions'' then length fs = 2 \<or> length fs = 3
        else False)"

definition NormalizeUpgradeVersion :: "string \<Rightarrow> string option" where
  "NormalizeUpgradeVersion raw0 =
     (let raw = trim raw0 in
      if raw = [] then None
      else case ParseVersion raw of
        None \<Rightarrow> None
      | Some _ \<Rightarrow> Some (''v'' @ (case raw of CHR ''v'' # cs \<Rightarrow> cs | _ \<Rightarrow> raw)))"

definition MatchUpgradeCommand :: "string list \<Rightarrow> bool" where
  "MatchUpgradeCommand fs =
     (if length fs = 1 then True
      else let w = trim (fs ! 1) in
        if w \<in> {''dev'', ''local''} then length fs = 2
        else if w = ''path'' then length fs \<ge> 3
        else length fs = 2 \<and> NormalizeUpgradeVersion (fs ! 1) \<noteq> None)"

definition MatchCodexCommand :: "string list \<Rightarrow> bool" where
  "MatchCodexCommand fs \<longleftrightarrow>
     length fs = 1 \<or> length fs = 2 \<and> CommandArgInSet (fs ! 1) [''check'', ''upgrade'', ''restart'']"

definition MatchClaudeCommand :: "string list \<Rightarrow> bool" where
  "MatchClaudeCommand fs \<longleftrightarrow>
     length fs = 1 \<or> length fs = 2 \<and> CommandArgInSet (fs ! 1) [''check'', ''upgrade'', ''restart'']"

definition workspace_command :: "string set \<Rightarrow> string list \<Rightarrow> bool" where
  "workspace_command settings fs =
     (if length fs = 1 then True
      else let w = trim (fs ! 1) in
        if w \<in> {''list'', ''choose'', ''unbind''} then length fs = 2
        else if w = ''new'' then
          (if length fs \<ge> 3 \<and> trim (fs ! 2) = ''worktree'' then ParseWorktreeArgs (tl fs) \<noteq> None else length fs = 2)
        else if w = ''delete'' then length fs = 2 \<or> length fs = 3
        else if w \<in> settings then length fs = 2 \<or> length fs = 3
        else if w = ''clone'' then length fs = 2 \<or> ParseCloneArgs (tl fs) \<noteq> None
        else if w = ''use'' then length fs = 3
        else False)"

definition MatchWorkspaceCommand :: "string list \<Rightarrow> bool" where
  "MatchWorkspaceCommand = workspace_command {''sandbox'', ''policy'', ''permissions'', ''multiagent''}"

definition MatchClaudeWorkspaceCommand :: "string list \<Rightarrow> bool" where
  "MatchClaudeWorkspaceCommand = workspace_command {''permissions''}"

section \<open>The specification of a capability (types.go)\<close>

text \<open>Labels, descriptions and summaries are display text and left out.\<close>

datatype SpecKind = SpecKindCapability | SpecKindSection
datatype MenuItemKind = MenuItemDirect | MenuItemSubmenu | MenuItemBack

record CommandBackendSpec =
  cb_HideInHelp :: bool
  cb_HelpEntries :: "string list option"

record CommandSpec =
  cs_ID :: string
  cs_Names :: "string list"
  cs_HelpGroup :: string
  cs_HelpEntries :: "string list"
  cs_Backends :: "(string \<times> CommandBackendSpec) list"

record MenuGroupSpec =
  mg_Action :: string
  mg_ShowInRoot :: bool

record MenuItemSpec =
  mi_GroupAction :: string
  mi_Action :: string
  mi_Slash :: string
  mi_Kind :: MenuItemKind
  mi_IncludeParentAction :: bool

record MenuNode =
  mn_Action :: string
  mn_Parent :: string

record Spec =
  sp_ID :: string
  sp_Kind :: SpecKind
  sp_Backends :: "string list"
  sp_Commands :: "CommandSpec list"
  sp_Nodes :: "MenuNode list"
  sp_MenuGroup :: "MenuGroupSpec option"
  sp_MenuItems :: "MenuItemSpec list"
  sp_ActionNames :: "string list"

definition SupportsBackend :: "Spec \<Rightarrow> string \<Rightarrow> bool" where
  "SupportsBackend s backend0 =
     (let backend = NormalizeBackend backend0 in
      backend = [] \<or> sp_Backends s = [] \<or> (\<exists>c\<in>set (sp_Backends s). NormalizeBackend c = backend))"

definition BackendSpec :: "CommandSpec \<Rightarrow> string \<Rightarrow> CommandBackendSpec" where
  "BackendSpec s backend0 =
     (let backend = NormalizeBackend backend0; zero = \<lparr>cb_HideInHelp = False, cb_HelpEntries = None\<rparr> in
      if backend = [] then zero
      else case map_of (cs_Backends s) backend of Some spec \<Rightarrow> spec | None \<Rightarrow> zero)"

definition HelpEntriesForBackend :: "CommandSpec \<Rightarrow> string \<Rightarrow> string list" where
  "HelpEntriesForBackend s backend =
     (let b = BackendSpec s backend in
      if cb_HideInHelp b then []
      else case cb_HelpEntries b of Some es \<Rightarrow> es | None \<Rightarrow> cs_HelpEntries s)"

definition VisibleInHelpForBackend :: "CommandSpec \<Rightarrow> string \<Rightarrow> bool" where
  "VisibleInHelpForBackend s backend \<longleftrightarrow> \<not> cb_HideInHelp (BackendSpec s backend)"

definition OwnsAction :: "Spec \<Rightarrow> string \<Rightarrow> bool" where
  "OwnsAction s action0 =
     (let action = trim action0 in
      action \<noteq> [] \<and>
      ((\<exists>name\<in>set (sp_ActionNames s). trim name = action) \<or> (\<exists>node\<in>set (sp_Nodes s). trim (mn_Action node) = action) \<or>
       (\<exists>item\<in>set (sp_MenuItems s). trim (mi_Action item) = action) \<or>
       (case sp_MenuGroup s of Some g \<Rightarrow> trim (mg_Action g) = action | None \<Rightarrow> False)))"

section \<open>Recognition (command\_policy.go)\<close>

definition Matches :: "CommandSpec \<Rightarrow> string \<Rightarrow> string list \<Rightarrow> bool" where
  "Matches s kind0 fs =
     (let kind = NormalizeBackend kind0; i = cs_ID s in
      if fs = [] then False
      else if i \<in> {''menu'', ''interrupt'', ''fork'', ''new'', ''compact'', ''download'', ''usage'', ''status'', ''help''}
      then ExactCommand fs
      else if i = ''primary'' then trim (fs ! 0) = ''/primary'' \<and> length fs \<le> 2
      else if i = ''backend'' then MatchBackendCommand fs
      else if i = ''review'' then MatchReviewCommand fs
      else if i = ''quiet'' then ExactOrSingleArgCommand fs [''config'', ''verbose'', ''progress'', ''normal'', ''final'']
      else if i = ''plan'' then ExactOrSingleArgCommand fs [''on'', ''off'']
      else if i = ''goal'' then MatchGoalCommand fs
      else if i = ''history'' then MatchHistoryCommand fs
      else if i = ''skills'' then ExactOrSingleArgCommand fs [''reload'']
      else if i = ''thread'' then kind \<noteq> ''claude'' \<and> MatchThreadCommand fs
      else if i = ''session'' then kind \<noteq> ''codex'' \<and> MatchSessionCommand fs
      else if i = ''threads'' then kind \<noteq> ''claude'' \<and> ExactCommand fs
      else if i = ''workspace'' then
        (if kind = ''claude'' then MatchClaudeWorkspaceCommand fs else MatchWorkspaceCommand fs)
      else if i = ''model'' then
        MatchModelCommand fs \<and> \<not> (kind = ''claude'' \<and> length fs \<ge> 2 \<and> trim (fs ! 1) = ''plan'')
      else if i = ''effort'' then MatchEffortCommand fs
      else if i = ''fast'' then ExactOrSingleArgCommand fs [''config'', ''fast'', ''default'', ''off'', ''toggle'']
      else if i = ''debug'' then ExactOrSingleArgCommand fs [''on'', ''off'', ''logs'']
      else if i = ''codex'' then MatchCodexCommand fs
      else if i = ''claude'' then MatchClaudeCommand fs
      else if i = ''upgrade'' then MatchUpgradeCommand fs
      else False)"

definition CommandAllowedWithoutBackend :: "string \<Rightarrow> string \<Rightarrow> bool" where
  "CommandAllowedWithoutBackend chatType name0 =
     (let name = trim name0 in
      name = ''/backend'' \<or> name \<in> {''/workspace'', ''/primary''} \<and> chatType = ''group'')"

end
