(* ===== verification/Binding_Replay.thy ===== *)
theory Binding_Replay
  imports Routing_Configuration Store_Sessions Commands
begin

text \<open>
  The messages of a group whose bot has no workspace yet: they wait in the binding of the chat
  (\<open>internal/application/routing/pending.go\<close>) and are handed to the session queue, in order, when
  a workspace is chosen (\<open>internal/runtime/binding_replay.go\<close>).
\<close>

section \<open>Waiting messages (pending.go)\<close>

definition BindingReady :: "AgentBinding option \<Rightarrow> bool" where
  "BindingReady binding =
     (case binding of
        None \<Rightarrow> False
      | Some b \<Rightarrow> equal_fold (trim (ab_Status b)) ''active'' \<and> trim (ab_WorkspaceID b) \<noteq> [])"

definition OnboardingCommand :: "string \<Rightarrow> bool" where
  "OnboardingCommand raw =
     (case go_fields raw of
        [] \<Rightarrow> False
      | word # _ \<Rightarrow> to_lower word \<in> {''/workspace'', ''/primary'', ''/menu'', ''/model'', ''/effort'', ''/fast'',
          ''/help'', ''/backend''})"

definition PendingFromMessage :: "InboundMessage \<Rightarrow> string \<Rightarrow> int \<Rightarrow> AgentBindingPendingMessage" where
  "PendingFromMessage msg sessionKey storedAt =
     \<lparr>pm_SessionKey = sessionKey, pm_MessageID = trim (im_MessageID msg), pm_ChatID = trim (im_ChatID msg),
      pm_ChatType = trim (im_ChatType msg), pm_UserID = trim (im_UserID msg), pm_UserName = trim (im_UserName msg),
      pm_ChatName = trim (im_ChatName msg), pm_Text = im_Text msg, pm_RootMessageID = trim (im_RootMessageID msg),
      pm_ParentMessageID = trim (im_ParentMessageID msg), pm_ThreadID = trim (im_ThreadID msg),
      pm_Attachments = map (\<lambda>a. \<lparr>pa_Kind = att_Kind a, pa_ResourceKey = att_ResourceKey a,
        pa_SourceMessageID = att_SourceMessageID a\<rparr>) (im_Attachments msg),
      pm_MergeForwardMessageIDs = im_MergeForwardMessageIDs msg,
      pm_ExpandedMergeForward = im_ExpandedMergeForward msg, pm_MentionedOpenIDs = im_MentionedOpenIDs msg,
      pm_MentionedAny = im_MentionedAny msg, pm_MentionedSelf = im_MentionedSelf msg,
      pm_CreatedAt = im_CreatedAt msg, pm_StoredAt = storedAt\<rparr>"

definition MessageFromPending :: "AgentBindingPendingMessage \<Rightarrow> InboundMessage" where
  "MessageFromPending pending =
     \<lparr>im_SessionKey = trim (pm_SessionKey pending), im_MessageID = trim (pm_MessageID pending),
      im_ChatID = trim (pm_ChatID pending), im_ChatType = trim (pm_ChatType pending),
      im_UserID = trim (pm_UserID pending), im_UserName = trim (pm_UserName pending),
      im_ChatName = trim (pm_ChatName pending), im_Text = pm_Text pending,
      im_RootMessageID = trim (pm_RootMessageID pending), im_ParentMessageID = trim (pm_ParentMessageID pending),
      im_ThreadID = trim (pm_ThreadID pending),
      im_Attachments = map (\<lambda>a. \<lparr>att_Kind = pa_Kind a, att_ResourceKey = pa_ResourceKey a,
        att_SourceMessageID = pa_SourceMessageID a\<rparr>) (pm_Attachments pending),
      im_MergeForwardMessageIDs = pm_MergeForwardMessageIDs pending,
      im_ExpandedMergeForward = pm_ExpandedMergeForward pending, im_MentionedOpenIDs = pm_MentionedOpenIDs pending,
      im_MentionedAny = pm_MentionedAny pending, im_MentionedSelf = pm_MentionedSelf pending,
      im_MentionAll = False, im_CreatedAt = pm_CreatedAt pending\<rparr>"

text \<open>Whether a group message waits: handled means that it was stored.\<close>

definition appended :: "AgentBindingPendingMessage \<Rightarrow> AgentBinding \<Rightarrow> AgentBinding" where
  "appended pending b =
     b\<lparr>ab_PendingMessages := ab_PendingMessages b @ [Some pending], ab_PendingMessage := Some pending\<rparr>"

definition Gate ::
  "('p) disk_ports_scheme \<Rightarrow> configuration \<Rightarrow> InboundMessage option \<Rightarrow> string \<Rightarrow> bool \<Rightarrow> int \<Rightarrow> Desk
     \<Rightarrow> Desk \<times> (configuration_error + (AgentBinding option \<times> bool))" where
  "Gate p c message sessionKey primary storedAt w =
     (case message of
        None \<Rightarrow> (w, Inr (None, False))
      | Some msg \<Rightarrow>
          if \<not> equal_fold (trim (im_ChatType msg)) ''group'' \<or> OnboardingCommand (im_Text msg)
          then (w, Inr (None, False))
          else
            let existing = first_binding (im_ChatType msg) (im_ChatID msg) w in
            if existing = None \<and> \<not> im_MentionedSelf msg \<and> \<not> primary then (w, Inr (None, False))
            else
              (case (if existing = None then EnsureBinding p c (im_ChatType msg) (im_ChatID msg) w
                     else (w, Inr existing)) of
                 (w1, Inl e) \<Rightarrow> (w1, Inl e)
               | (w1, Inr binding) \<Rightarrow>
                   if BindingReady binding then (w1, Inr (None, False))
                   else
                     (case UpdateBinding p (Some (appended (PendingFromMessage msg sessionKey storedAt))) binding w1 of
                        (w2, Inl e) \<Rightarrow> (w2, Inl e)
                      | (w2, Inr b) \<Rightarrow> (w2, Inr (Some b, True)))))"

definition pending_head :: "string \<Rightarrow> Desk \<Rightarrow> AgentBindingPendingMessage option option" where
  "pending_head bindingID w =
     (case scoped_AgentBinding bindingID (dk_app w) of
        None \<Rightarrow> None
      | Some b \<Rightarrow>
          if \<not> BindingReady (Some b) then None
          else (case ab_PendingMessages b of [] \<Rightarrow> None | m # _ \<Rightarrow> Some m))"

definition enqueue_effects :: "configuration \<Rightarrow> AgentBindingPendingMessage option \<Rightarrow> unit Effect list" where
  "enqueue_effects c pending =
     (case pending of
        None \<Rightarrow> []
      | Some m \<Rightarrow>
          let msg = MessageFromPending m;
              key = (if trim (pm_SessionKey m) = []
                     then CanonicalSessionKey (cf_frontend c) (''feishu:chat:'' @ im_ChatID msg)
                     else trim (pm_SessionKey m)) in
          [EnqueueInput (cf_frontend c) key False msg []])"

text \<open>The head goes if it is still the message that was handed over.\<close>

definition acknowledged :: "AgentBindingPendingMessage option \<Rightarrow> AgentBinding \<Rightarrow> AgentBinding" where
  "acknowledged pending b =
     (case ab_PendingMessages b of
        [] \<Rightarrow> b\<lparr>ab_PendingMessage := None\<rparr>
      | head # rest \<Rightarrow>
          if (case (pending, head) of
                (None, None) \<Rightarrow> True
              | (Some p, Some h) \<Rightarrow> trim (pm_MessageID h) = trim (pm_MessageID p)
              | _ \<Rightarrow> False)
          then b\<lparr>ab_PendingMessages := rest,
                 ab_PendingMessage := (case rest of [] \<Rightarrow> None | m # _ \<Rightarrow> m)\<rparr>
          else b)"

definition Acknowledge ::
  "('p) disk_ports_scheme \<Rightarrow> string \<Rightarrow> AgentBindingPendingMessage option \<Rightarrow> Desk
     \<Rightarrow> Desk \<times> (configuration_error + AgentBinding)" where
  "Acknowledge p bindingID pending w =
     (case scoped_AgentBinding bindingID (dk_app w) of
        None \<Rightarrow> (w, Inl (BindingLost bindingID))
      | Some b \<Rightarrow> UpdateBinding p (Some (acknowledged pending)) (Some b) w)"

definition without_message :: "string \<Rightarrow> AgentBinding \<Rightarrow> AgentBinding" where
  "without_message messageID b =
     (let filtered = filter (\<lambda>m. case m of None \<Rightarrow> True | Some m \<Rightarrow> trim (pm_MessageID m) \<noteq> messageID)
                       (ab_PendingMessages b) in
      if length filtered = length (ab_PendingMessages b) then b
      else b\<lparr>ab_PendingMessages := filtered,
             ab_PendingMessage := (case filtered of [] \<Rightarrow> None | m # _ \<Rightarrow> m)\<rparr>)"

definition holds_message :: "string \<Rightarrow> AgentBinding \<Rightarrow> bool" where
  "holds_message messageID b \<longleftrightarrow>
     (\<exists>m\<in>set (ab_PendingMessages b). case m of None \<Rightarrow> False | Some m \<Rightarrow> trim (pm_MessageID m) = messageID)"

text \<open>
  The flag is set inside the update, on the latest binding; an error after that still reports it.
\<close>

fun discard_bindings ::
  "('p) disk_ports_scheme \<Rightarrow> string \<Rightarrow> AgentBinding list \<Rightarrow> bool \<Rightarrow> Desk \<Rightarrow> Desk \<times> bool \<times> scoped_error option" where
  "discard_bindings p messageID [] discarded w = (w, discarded, None)"
| "discard_bindings p messageID (b # bs) discarded w =
     (let latest = (case scoped_AgentBinding (ab_ID b) (dk_app w) of Some x \<Rightarrow> x | None \<Rightarrow> b);
          found = holds_message messageID latest in
      case update_binding p b (Some (without_message messageID)) w of
        (w', Inl e) \<Rightarrow> (w', discarded \<or> found, Some e)
      | (w', Inr _) \<Rightarrow> discard_bindings p messageID bs (discarded \<or> found) w')"

definition Discard ::
  "('p) disk_ports_scheme \<Rightarrow> string \<Rightarrow> Desk \<Rightarrow> Desk \<times> bool \<times> scoped_error option" where
  "Discard p messageID0 w =
     (let messageID = trim messageID0 in
      if messageID = [] then (w, False, None)
      else discard_bindings p messageID (scoped_AgentBindings (dk_app w)) False w)"

section \<open>The replay (binding\_replay.go)\<close>

text \<open>
  The runner executes effects outside the bindings; here it answers each call, numbered from the
  start of the replay, with an error or none. The replay returns what it handed to the runner and
  how it ended. Its loop ends when nothing waits; a port that stops it or a message that stays
  cannot be excluded by the loop itself, so it is a partial function.
\<close>

record replay_ports =
  rp_Cancelled :: "nat \<Rightarrow> string option"
  rp_Run :: "nat \<Rightarrow> unit Effect list \<Rightarrow> string option"
  rp_Hash :: "string \<Rightarrow> string"

datatype replay_error = ReplayCancelled string | RunFailed string | NotAcknowledged configuration_error

partial_function (option) replay_loop ::
  "('p) disk_ports_scheme \<Rightarrow> configuration \<Rightarrow> replay_ports \<Rightarrow> string \<Rightarrow> nat \<Rightarrow> unit Effect list \<Rightarrow> Desk
     \<Rightarrow> (Desk \<times> unit Effect list \<times> replay_error option) option" where
  "replay_loop p c r bindingID n handed w =
     (case rp_Cancelled r n of
        Some e \<Rightarrow> Some (w, handed, Some (ReplayCancelled e))
      | None \<Rightarrow>
          (case pending_head bindingID w of
             None \<Rightarrow> Some (w, handed, None)
           | Some pending \<Rightarrow>
               let effects = enqueue_effects c pending in
               (case rp_Run r (2 * n) effects of
                  Some e \<Rightarrow> Some (w, handed, Some (RunFailed e))
                | None \<Rightarrow>
                    (case Acknowledge p bindingID pending w of
                       (w1, Inl e) \<Rightarrow> Some (w1, handed @ effects, Some (NotAcknowledged e))
                     | (w1, Inr b) \<Rightarrow>
                         (case rp_Run r (2 * n + 1) (binding_effects c (rp_Hash r) b) of
                            Some e \<Rightarrow> Some (w1, handed @ effects, Some (RunFailed e))
                          | None \<Rightarrow> replay_loop p c r bindingID (n + 1) (handed @ effects) w1)))))"

definition Replay ::
  "('p) disk_ports_scheme \<Rightarrow> configuration \<Rightarrow> replay_ports \<Rightarrow> string \<Rightarrow> Desk
     \<Rightarrow> (Desk \<times> unit Effect list \<times> replay_error option) option" where
  "Replay p c r bindingID = replay_loop p c r bindingID 0 []"

end
