(* ===== verification/Feature_Registry.thy ===== *)
theory Feature_Registry
  imports Commands "HOL-Library.AList"
begin

text \<open>
  The capabilities the bot offers and how its menus and commands follow from them: the table of
  \<open>internal/application/features/data.go\<close>, the recognition of a command line
  (\<open>command_policy.go\<close>) and the visibility of menus (\<open>menu_policy.go\<close>). The entries stand in the
  order of the source.
\<close>

section \<open>The table (data.go)\<close>

definition tools_group :: string where
  "tools_group = [CHR 0xE5, CHR 0xB8, CHR 0xB8, CHR 0xE7, CHR 0x94, CHR 0xA8, CHR 0xE5, CHR 0xB7, CHR 0xA5, CHR 0xE5, CHR 0x85, CHR 0xB7]"

definition spec_root :: Spec where
  "spec_root =
   \<lparr>sp_ID = ''menu.root'', sp_Kind = SpecKindCapability, sp_Backends = [],
    sp_Commands =
     [\<lparr>cs_ID = ''menu'', cs_Names = [''/menu''], cs_HelpGroup = [],
        cs_HelpEntries = [''/menu''],
        cs_Backends = []\<rparr>],
    sp_Nodes =
     [\<lparr>mn_Action = ''menu.root'', mn_Parent = []\<rparr>],
    sp_MenuGroup = None,
    sp_MenuItems =
     [],
    sp_ActionNames =
     [''menu.root'']\<rparr>"

definition spec_tools :: Spec where
  "spec_tools =
   \<lparr>sp_ID = ''menu.tools'', sp_Kind = SpecKindSection, sp_Backends = [],
    sp_Commands =
     [],
    sp_Nodes =
     [\<lparr>mn_Action = ''menu.tools'', mn_Parent = ''menu.root''\<rparr>],
    sp_MenuGroup = Some \<lparr>mg_Action = ''menu.tools'', mg_ShowInRoot = True\<rparr>,
    sp_MenuItems =
     [\<lparr>mi_GroupAction = ''menu.tools'', mi_Action = ''menu.root'', mi_Slash = [], mi_Kind = MenuItemBack,
        mi_IncludeParentAction = False\<rparr>],
    sp_ActionNames =
     [''menu.tools'']\<rparr>"

definition spec_group_model :: Spec where
  "spec_group_model =
   \<lparr>sp_ID = ''menu.group.model'', sp_Kind = SpecKindSection, sp_Backends = [],
    sp_Commands =
     [],
    sp_Nodes =
     [\<lparr>mn_Action = ''menu.group.model'', mn_Parent = ''menu.root''\<rparr>],
    sp_MenuGroup = Some \<lparr>mg_Action = ''menu.group.model'', mg_ShowInRoot = True\<rparr>,
    sp_MenuItems =
     [\<lparr>mi_GroupAction = ''menu.group.model'', mi_Action = ''menu.root'', mi_Slash = [], mi_Kind = MenuItemBack,
        mi_IncludeParentAction = False\<rparr>],
    sp_ActionNames =
     [''menu.group.model'']\<rparr>"

definition spec_current_bot :: Spec where
  "spec_current_bot =
   \<lparr>sp_ID = ''menu.current_bot'', sp_Kind = SpecKindSection, sp_Backends = [],
    sp_Commands =
     [\<lparr>cs_ID = ''primary'', cs_Names = [''/primary''], cs_HelpGroup = [],
        cs_HelpEntries = [],
        cs_Backends = []\<rparr>],
    sp_Nodes =
     [],
    sp_MenuGroup = None,
    sp_MenuItems =
     [],
    sp_ActionNames =
     [''menu.current_bot'']\<rparr>"

definition spec_current_workspace :: Spec where
  "spec_current_workspace =
   \<lparr>sp_ID = ''menu.current_workspace'', sp_Kind = SpecKindSection, sp_Backends = [],
    sp_Commands =
     [],
    sp_Nodes =
     [],
    sp_MenuGroup = None,
    sp_MenuItems =
     [],
    sp_ActionNames =
     [''menu.current_workspace'',
      ''current_workspace.choose'',
      ''current_workspace.use'']\<rparr>"

definition spec_group_backend :: Spec where
  "spec_group_backend =
   \<lparr>sp_ID = ''menu.group.backend'', sp_Kind = SpecKindCapability, sp_Backends = [],
    sp_Commands =
     [\<lparr>cs_ID = ''backend'', cs_Names = [''/backend''], cs_HelpGroup = ''system'',
        cs_HelpEntries = [''/backend'', ''/backend retry'', ''/backend retry on'', ''/backend retry off''],
        cs_Backends = []\<rparr>],
    sp_Nodes =
     [\<lparr>mn_Action = ''menu.group.backend'', mn_Parent = ''menu.group.system''\<rparr>,
      \<lparr>mn_Action = ''menu.backend.switch'', mn_Parent = ''menu.group.backend''\<rparr>,
      \<lparr>mn_Action = ''menu.auto_retry'', mn_Parent = ''menu.group.backend''\<rparr>],
    sp_MenuGroup = Some \<lparr>mg_Action = ''menu.group.backend'', mg_ShowInRoot = False\<rparr>,
    sp_MenuItems =
     [\<lparr>mi_GroupAction = ''menu.group.system'', mi_Action = ''menu.group.backend'', mi_Slash = [], mi_Kind = MenuItemSubmenu,
        mi_IncludeParentAction = False\<rparr>,
      \<lparr>mi_GroupAction = ''menu.group.backend'', mi_Action = ''menu.backend.switch'', mi_Slash = ''/backend'', mi_Kind = MenuItemDirect,
        mi_IncludeParentAction = False\<rparr>,
      \<lparr>mi_GroupAction = ''menu.group.backend'', mi_Action = ''menu.auto_retry'', mi_Slash = ''/backend retry'', mi_Kind = MenuItemDirect,
        mi_IncludeParentAction = False\<rparr>,
      \<lparr>mi_GroupAction = ''menu.group.backend'', mi_Action = ''menu.group.system'', mi_Slash = [], mi_Kind = MenuItemBack,
        mi_IncludeParentAction = False\<rparr>],
    sp_ActionNames =
     [''menu.group.backend'',
      ''menu.backend'',
      ''menu.backend.switch'',
      ''menu.auto_retry'',
      ''backend.select'',
      ''auto_retry.set'']\<rparr>"

definition spec_review :: Spec where
  "spec_review =
   \<lparr>sp_ID = ''menu.review'', sp_Kind = SpecKindCapability, sp_Backends = [''codex''],
    sp_Commands =
     [\<lparr>cs_ID = ''review'', cs_Names = [''/review''], cs_HelpGroup = tools_group,
        cs_HelpEntries = [''/review'', ''/review uncommitted'', ''/review base'', ''/review base <branch>'', ''/review commit'', ''/review commit <rev>'', ''/review custom'', ''/review custom <instructions>''],
        cs_Backends = [(''claude'', \<lparr>cb_HideInHelp = True, cb_HelpEntries = None\<rparr>)]\<rparr>],
    sp_Nodes =
     [\<lparr>mn_Action = ''menu.review'', mn_Parent = ''menu.tools''\<rparr>],
    sp_MenuGroup = None,
    sp_MenuItems =
     [\<lparr>mi_GroupAction = ''menu.tools'', mi_Action = ''menu.review'', mi_Slash = ''/review'', mi_Kind = MenuItemSubmenu,
        mi_IncludeParentAction = False\<rparr>],
    sp_ActionNames =
     [''menu.review'',
      ''review.start.uncommitted'',
      ''review.start.base'',
      ''review.start.commit'',
      ''review.start.custom'']\<rparr>"

definition spec_quiet :: Spec where
  "spec_quiet =
   \<lparr>sp_ID = ''menu.quiet'', sp_Kind = SpecKindCapability, sp_Backends = [],
    sp_Commands =
     [\<lparr>cs_ID = ''quiet'', cs_Names = [''/quiet''], cs_HelpGroup = tools_group,
        cs_HelpEntries = [''/quiet'', ''/quiet verbose'', ''/quiet progress'', ''/quiet normal'', ''/quiet final'', ''/quiet config''],
        cs_Backends = []\<rparr>],
    sp_Nodes =
     [\<lparr>mn_Action = ''menu.quiet'', mn_Parent = ''menu.tools''\<rparr>],
    sp_MenuGroup = None,
    sp_MenuItems =
     [\<lparr>mi_GroupAction = ''menu.tools'', mi_Action = ''menu.quiet'', mi_Slash = ''/quiet config'', mi_Kind = MenuItemSubmenu,
        mi_IncludeParentAction = False\<rparr>],
    sp_ActionNames =
     [''menu.quiet'',
      ''quiet.set'']\<rparr>"

definition spec_plan :: Spec where
  "spec_plan =
   \<lparr>sp_ID = ''plan'', sp_Kind = SpecKindCapability, sp_Backends = [''codex''],
    sp_Commands =
     [\<lparr>cs_ID = ''plan'', cs_Names = [''/plan''], cs_HelpGroup = tools_group,
        cs_HelpEntries = [''/plan'', ''/plan on'', ''/plan off''],
        cs_Backends = [(''claude'', \<lparr>cb_HideInHelp = True, cb_HelpEntries = None\<rparr>)]\<rparr>],
    sp_Nodes =
     [],
    sp_MenuGroup = None,
    sp_MenuItems =
     [\<lparr>mi_GroupAction = ''menu.tools'', mi_Action = ''menu.plan'', mi_Slash = ''/plan'', mi_Kind = MenuItemDirect,
        mi_IncludeParentAction = True\<rparr>],
    sp_ActionNames =
     [''menu.plan'']\<rparr>"

definition spec_goal :: Spec where
  "spec_goal =
   \<lparr>sp_ID = ''goal'', sp_Kind = SpecKindCapability, sp_Backends = [''codex''],
    sp_Commands =
     [\<lparr>cs_ID = ''goal'', cs_Names = [''/goal''], cs_HelpGroup = tools_group,
        cs_HelpEntries = [''/goal'', ''/goal <objective>'', ''/goal pause'', ''/goal resume'', ''/goal clear'', ''/goal edit''],
        cs_Backends = [(''claude'', \<lparr>cb_HideInHelp = True, cb_HelpEntries = None\<rparr>)]\<rparr>],
    sp_Nodes =
     [\<lparr>mn_Action = ''menu.goal'', mn_Parent = ''menu.tools''\<rparr>],
    sp_MenuGroup = None,
    sp_MenuItems =
     [\<lparr>mi_GroupAction = ''menu.tools'', mi_Action = ''menu.goal'', mi_Slash = ''/goal'', mi_Kind = MenuItemDirect,
        mi_IncludeParentAction = True\<rparr>],
    sp_ActionNames =
     [''menu.goal'',
      ''goal.pause'',
      ''goal.resume'',
      ''goal.clear'',
      ''goal.edit'',
      ''goal.replace.confirm'',
      ''goal.replace.cancel'',
      ''goal.edit.submit'']\<rparr>"

definition spec_compact :: Spec where
  "spec_compact =
   \<lparr>sp_ID = ''menu.compact'', sp_Kind = SpecKindCapability, sp_Backends = [],
    sp_Commands =
     [\<lparr>cs_ID = ''compact'', cs_Names = [''/compact''], cs_HelpGroup = tools_group,
        cs_HelpEntries = [''/compact''],
        cs_Backends = [(''claude'', \<lparr>cb_HideInHelp = False, cb_HelpEntries = Some [''/compact'']\<rparr>)]\<rparr>],
    sp_Nodes =
     [],
    sp_MenuGroup = None,
    sp_MenuItems =
     [\<lparr>mi_GroupAction = ''menu.tools'', mi_Action = ''menu.compact'', mi_Slash = ''/compact'', mi_Kind = MenuItemDirect,
        mi_IncludeParentAction = True\<rparr>],
    sp_ActionNames =
     [''menu.compact'']\<rparr>"

definition spec_download :: Spec where
  "spec_download =
   \<lparr>sp_ID = ''menu.download'', sp_Kind = SpecKindCapability, sp_Backends = [],
    sp_Commands =
     [\<lparr>cs_ID = ''download'', cs_Names = [''/download''], cs_HelpGroup = tools_group,
        cs_HelpEntries = [''/download''],
        cs_Backends = []\<rparr>],
    sp_Nodes =
     [],
    sp_MenuGroup = None,
    sp_MenuItems =
     [\<lparr>mi_GroupAction = ''menu.tools'', mi_Action = ''menu.download'', mi_Slash = ''/download'', mi_Kind = MenuItemDirect,
        mi_IncludeParentAction = True\<rparr>],
    sp_ActionNames =
     [''menu.download'']\<rparr>"

definition spec_history :: Spec where
  "spec_history =
   \<lparr>sp_ID = ''menu.history'', sp_Kind = SpecKindCapability, sp_Backends = [],
    sp_Commands =
     [\<lparr>cs_ID = ''history'', cs_Names = [''/history''], cs_HelpGroup = tools_group,
        cs_HelpEntries = [''/history'', ''/history detail TURN_NUMBER''],
        cs_Backends = [(''claude'', \<lparr>cb_HideInHelp = False, cb_HelpEntries = Some [''/history'', ''/history detail TURN_NUMBER'']\<rparr>)]\<rparr>],
    sp_Nodes =
     [\<lparr>mn_Action = ''menu.history'', mn_Parent = ''menu.tools''\<rparr>,
      \<lparr>mn_Action = ''history.detail'', mn_Parent = ''menu.history''\<rparr>],
    sp_MenuGroup = None,
    sp_MenuItems =
     [\<lparr>mi_GroupAction = ''menu.tools'', mi_Action = ''menu.history'', mi_Slash = ''/history'', mi_Kind = MenuItemSubmenu,
        mi_IncludeParentAction = False\<rparr>],
    sp_ActionNames =
     [''menu.history'',
      ''history.page'',
      ''history.detail'',
      ''history.detail.select'']\<rparr>"

definition spec_skills :: Spec where
  "spec_skills =
   \<lparr>sp_ID = ''menu.skills'', sp_Kind = SpecKindCapability, sp_Backends = [''codex''],
    sp_Commands =
     [\<lparr>cs_ID = ''skills'', cs_Names = [''/skills''], cs_HelpGroup = tools_group,
        cs_HelpEntries = [''/skills'', ''/skills reload'', [CHR ''$'', CHR ''s'', CHR ''k'', CHR ''i'', CHR ''l'', CHR ''l'', CHR ''-'', CHR ''n'', CHR ''a'', CHR ''m'', CHR ''e'', CHR 0x20, CHR ''<'', CHR 0xE5, CHR 0x86, CHR 0x85, CHR 0xE5, CHR 0xAE, CHR 0xB9, CHR ''>'']],
        cs_Backends = [(''claude'', \<lparr>cb_HideInHelp = True, cb_HelpEntries = None\<rparr>)]\<rparr>],
    sp_Nodes =
     [\<lparr>mn_Action = ''menu.skills'', mn_Parent = ''menu.tools''\<rparr>],
    sp_MenuGroup = None,
    sp_MenuItems =
     [\<lparr>mi_GroupAction = ''menu.tools'', mi_Action = ''menu.skills'', mi_Slash = ''/skills'', mi_Kind = MenuItemSubmenu,
        mi_IncludeParentAction = False\<rparr>],
    sp_ActionNames =
     [''menu.skills'',
      ''skills.select'',
      ''skills.reload'']\<rparr>"

definition spec_usage :: Spec where
  "spec_usage =
   \<lparr>sp_ID = ''menu.usage'', sp_Kind = SpecKindCapability, sp_Backends = [],
    sp_Commands =
     [\<lparr>cs_ID = ''usage'', cs_Names = [''/usage''], cs_HelpGroup = tools_group,
        cs_HelpEntries = [''/usage''],
        cs_Backends = [(''claude'', \<lparr>cb_HideInHelp = False, cb_HelpEntries = Some [''/usage'']\<rparr>)]\<rparr>],
    sp_Nodes =
     [\<lparr>mn_Action = ''menu.usage'', mn_Parent = ''menu.tools''\<rparr>],
    sp_MenuGroup = None,
    sp_MenuItems =
     [\<lparr>mi_GroupAction = ''menu.tools'', mi_Action = ''menu.usage'', mi_Slash = ''/usage'', mi_Kind = MenuItemSubmenu,
        mi_IncludeParentAction = False\<rparr>],
    sp_ActionNames =
     [''menu.usage'']\<rparr>"

definition spec_interrupt :: Spec where
  "spec_interrupt =
   \<lparr>sp_ID = ''menu.interrupt'', sp_Kind = SpecKindCapability, sp_Backends = [],
    sp_Commands =
     [\<lparr>cs_ID = ''interrupt'', cs_Names = [''/interrupt'', ''/stop''], cs_HelpGroup = tools_group,
        cs_HelpEntries = [[CHR 0x60, CHR ''/'', CHR ''i'', CHR ''n'', CHR ''t'', CHR ''e'', CHR ''r'', CHR ''r'', CHR ''u'', CHR ''p'', CHR ''t'', CHR 0x60, CHR 0x20, CHR 0xE6, CHR 0x88, CHR 0x96, CHR 0x20, CHR 0x60, CHR ''/'', CHR ''s'', CHR ''t'', CHR ''o'', CHR ''p'', CHR 0x60]],
        cs_Backends = []\<rparr>],
    sp_Nodes =
     [],
    sp_MenuGroup = None,
    sp_MenuItems =
     [\<lparr>mi_GroupAction = ''menu.tools'', mi_Action = ''menu.interrupt'', mi_Slash = ''/stop'', mi_Kind = MenuItemDirect,
        mi_IncludeParentAction = True\<rparr>],
    sp_ActionNames =
     [''menu.interrupt'']\<rparr>"

definition spec_thread :: Spec where
  "spec_thread =
   \<lparr>sp_ID = ''menu.thread'', sp_Kind = SpecKindCapability, sp_Backends = [],
    sp_Commands =
     [\<lparr>cs_ID = ''fork'', cs_Names = [''/fork''], cs_HelpGroup = ''thread'',
        cs_HelpEntries = [''/fork''],
        cs_Backends = [(''claude'', \<lparr>cb_HideInHelp = False, cb_HelpEntries = Some [''/fork'']\<rparr>)]\<rparr>,
      \<lparr>cs_ID = ''new'', cs_Names = [''/new''], cs_HelpGroup = ''thread'',
        cs_HelpEntries = [''/new''],
        cs_Backends = [(''claude'', \<lparr>cb_HideInHelp = False, cb_HelpEntries = Some [''/new'']\<rparr>)]\<rparr>,
      \<lparr>cs_ID = ''thread'', cs_Names = [''/thread''], cs_HelpGroup = ''thread'',
        cs_HelpEntries = [''/thread'', ''/thread list'', ''/thread list all'', ''/thread new'', ''/thread fork'', ''/thread resume THREAD_ID'', ''/thread sandbox'', ''/thread sandbox MODE'', ''/thread policy'', ''/thread policy POLICY'', ''/thread multiagent'', ''/thread multiagent MODE''],
        cs_Backends = [(''claude'', \<lparr>cb_HideInHelp = True, cb_HelpEntries = None\<rparr>)]\<rparr>,
      \<lparr>cs_ID = ''session'', cs_Names = [''/session''], cs_HelpGroup = ''thread'',
        cs_HelpEntries = [''/session'', ''/session list'', ''/session list all'', ''/session new'', ''/session fork'', ''/session resume SESSION_ID'', ''/session permissions'', ''/session permissions MODE'', ''/session permissions inherit''],
        cs_Backends = [(''codex'', \<lparr>cb_HideInHelp = True, cb_HelpEntries = None\<rparr>)]\<rparr>,
      \<lparr>cs_ID = ''threads'', cs_Names = [''/threads''], cs_HelpGroup = ''thread'',
        cs_HelpEntries = [''/threads''],
        cs_Backends = [(''claude'', \<lparr>cb_HideInHelp = True, cb_HelpEntries = None\<rparr>)]\<rparr>],
    sp_Nodes =
     [\<lparr>mn_Action = ''menu.thread'', mn_Parent = ''menu.root''\<rparr>,
      \<lparr>mn_Action = ''thread.sandbox.menu'', mn_Parent = ''menu.thread''\<rparr>,
      \<lparr>mn_Action = ''thread.policy.menu'', mn_Parent = ''menu.thread''\<rparr>,
      \<lparr>mn_Action = ''thread.multiagent.menu'', mn_Parent = ''menu.thread''\<rparr>,
      \<lparr>mn_Action = ''thread.permission_mode.menu'', mn_Parent = ''menu.thread''\<rparr>],
    sp_MenuGroup = Some \<lparr>mg_Action = ''menu.thread'', mg_ShowInRoot = True\<rparr>,
    sp_MenuItems =
     [],
    sp_ActionNames =
     [''menu.thread'',
      ''thread.new.start'',
      ''thread.fork.start'']\<rparr>"

definition spec_workspace :: Spec where
  "spec_workspace =
   \<lparr>sp_ID = ''menu.workspace'', sp_Kind = SpecKindCapability, sp_Backends = [],
    sp_Commands =
     [\<lparr>cs_ID = ''workspace'', cs_Names = [''/workspace''], cs_HelpGroup = ''workspace'',
        cs_HelpEntries = [''/workspace'', ''/workspace list'', ''/workspace new'', ''/workspace new worktree [BRANCH] [ID]'', ''/workspace clone GIT_URL [ID] [--parent DIR]'', ''/workspace use ID'', ''/workspace choose'', ''/workspace delete'', ''/workspace delete ID'', ''/workspace sandbox'', ''/workspace sandbox MODE'', ''/workspace policy'', ''/workspace policy POLICY'', ''/workspace multiagent'', ''/workspace multiagent MODE''],
        cs_Backends = [(''claude'', \<lparr>cb_HideInHelp = False, cb_HelpEntries = Some [''/workspace'', ''/workspace list'', ''/workspace new'', ''/workspace new worktree [BRANCH] [ID]'', ''/workspace clone GIT_URL [ID] [--parent DIR]'', ''/workspace use ID'', ''/workspace choose'', ''/workspace delete'', ''/workspace delete ID'', ''/workspace permissions'', ''/workspace permissions MODE'', ''/workspace permissions inherit'']\<rparr>)]\<rparr>],
    sp_Nodes =
     [\<lparr>mn_Action = ''menu.workspace'', mn_Parent = ''menu.root''\<rparr>,
      \<lparr>mn_Action = ''workspace.new'', mn_Parent = ''menu.workspace''\<rparr>,
      \<lparr>mn_Action = ''workspace.clone'', mn_Parent = ''menu.workspace''\<rparr>,
      \<lparr>mn_Action = ''workspace.worktree'', mn_Parent = ''menu.workspace''\<rparr>,
      \<lparr>mn_Action = ''workspace.sandbox.menu'', mn_Parent = ''menu.workspace''\<rparr>,
      \<lparr>mn_Action = ''workspace.policy.menu'', mn_Parent = ''menu.workspace''\<rparr>,
      \<lparr>mn_Action = ''workspace.multiagent.menu'', mn_Parent = ''menu.workspace''\<rparr>,
      \<lparr>mn_Action = ''workspace.permission_mode.menu'', mn_Parent = ''menu.workspace''\<rparr>,
      \<lparr>mn_Action = ''workspace.delete.menu'', mn_Parent = ''menu.workspace''\<rparr>,
      \<lparr>mn_Action = ''workspace.delete.confirm'', mn_Parent = ''workspace.delete.menu''\<rparr>],
    sp_MenuGroup = Some \<lparr>mg_Action = ''menu.workspace'', mg_ShowInRoot = True\<rparr>,
    sp_MenuItems =
     [],
    sp_ActionNames =
     [''menu.workspace'']\<rparr>"

definition spec_group_system :: Spec where
  "spec_group_system =
   \<lparr>sp_ID = ''menu.group.system'', sp_Kind = SpecKindSection, sp_Backends = [],
    sp_Commands =
     [],
    sp_Nodes =
     [\<lparr>mn_Action = ''menu.group.system'', mn_Parent = ''menu.root''\<rparr>],
    sp_MenuGroup = Some \<lparr>mg_Action = ''menu.group.system'', mg_ShowInRoot = True\<rparr>,
    sp_MenuItems =
     [\<lparr>mi_GroupAction = ''menu.group.system'', mi_Action = ''menu.root'', mi_Slash = [], mi_Kind = MenuItemBack,
        mi_IncludeParentAction = False\<rparr>],
    sp_ActionNames =
     [''menu.group.system'']\<rparr>"

definition spec_model :: Spec where
  "spec_model =
   \<lparr>sp_ID = ''menu.model'', sp_Kind = SpecKindCapability, sp_Backends = [],
    sp_Commands =
     [\<lparr>cs_ID = ''model'', cs_Names = [''/model''], cs_HelpGroup = ''model'',
        cs_HelpEntries = [''/model'', ''/model set <model-id>'', ''/model effort <effort>'', ''/model plan set <model-id|default>'', ''/model plan effort <effort|default>'', ''/model review set <model-id|default>'', ''/model subagent set <model-id|default>'', ''/model subagent effort <effort|default>''],
        cs_Backends = [(''claude'', \<lparr>cb_HideInHelp = False, cb_HelpEntries = Some [''/model'', ''/model small set <model-id|default>'', ''/model subagent set <model-id|default>'', ''/model option add <model-id>'', ''/model option remove <model-id>'']\<rparr>)]\<rparr>,
      \<lparr>cs_ID = ''effort'', cs_Names = [''/effort''], cs_HelpGroup = ''model'',
        cs_HelpEntries = [''/effort'', ''/effort <effort>'', ''/effort default''],
        cs_Backends = []\<rparr>],
    sp_Nodes =
     [\<lparr>mn_Action = ''menu.model'', mn_Parent = ''menu.root''\<rparr>,
      \<lparr>mn_Action = ''menu.model_auxiliary'', mn_Parent = ''menu.model''\<rparr>],
    sp_MenuGroup = None,
    sp_MenuItems =
     [\<lparr>mi_GroupAction = ''menu.group.model'', mi_Action = ''menu.model'', mi_Slash = ''/model'', mi_Kind = MenuItemSubmenu,
        mi_IncludeParentAction = False\<rparr>],
    sp_ActionNames =
     [''menu.model'',
      ''menu.model_auxiliary'',
      ''model.config.set_model'',
      ''model.config.select_model'',
      ''model.config.add_option'',
      ''model.config.remove_option'',
      ''model.config.set_effort'',
      ''model.config.select_effort'',
      ''model.plan_config.set_model'',
      ''model.plan_config.select_model'',
      ''model.plan_config.set_effort'',
      ''model.plan_config.select_effort'',
      ''model.aux_config.select_review_model'',
      ''model.aux_config.select_plan_model'',
      ''model.aux_config.select_plan_effort'',
      ''model.aux_config.select_subagent_model'',
      ''model.aux_config.select_subagent_effort'',
      ''model.aux_config.select_small_model'']\<rparr>"

definition spec_fast :: Spec where
  "spec_fast =
   \<lparr>sp_ID = ''menu.fast'', sp_Kind = SpecKindCapability, sp_Backends = [''codex''],
    sp_Commands =
     [\<lparr>cs_ID = ''fast'', cs_Names = [''/fast''], cs_HelpGroup = ''model'',
        cs_HelpEntries = [''/fast'', ''/fast fast'', ''/fast default'', ''/fast toggle'', ''/fast config''],
        cs_Backends = [(''claude'', \<lparr>cb_HideInHelp = True, cb_HelpEntries = None\<rparr>)]\<rparr>],
    sp_Nodes =
     [\<lparr>mn_Action = ''menu.fast'', mn_Parent = ''menu.group.model''\<rparr>],
    sp_MenuGroup = None,
    sp_MenuItems =
     [\<lparr>mi_GroupAction = ''menu.group.model'', mi_Action = ''menu.fast'', mi_Slash = ''/fast config'', mi_Kind = MenuItemSubmenu,
        mi_IncludeParentAction = False\<rparr>],
    sp_ActionNames =
     [''menu.fast'',
      ''service_tier.set'']\<rparr>"

definition spec_debug :: Spec where
  "spec_debug =
   \<lparr>sp_ID = ''menu.debug'', sp_Kind = SpecKindCapability, sp_Backends = [],
    sp_Commands =
     [\<lparr>cs_ID = ''debug'', cs_Names = [''/debug''], cs_HelpGroup = ''system'',
        cs_HelpEntries = [''/debug'', ''/debug on'', ''/debug off'', ''/debug logs''],
        cs_Backends = []\<rparr>],
    sp_Nodes =
     [\<lparr>mn_Action = ''menu.debug.logs'', mn_Parent = ''menu.group.system''\<rparr>],
    sp_MenuGroup = None,
    sp_MenuItems =
     [\<lparr>mi_GroupAction = ''menu.group.system'', mi_Action = ''menu.debug'', mi_Slash = ''/debug'', mi_Kind = MenuItemDirect,
        mi_IncludeParentAction = False\<rparr>,
      \<lparr>mi_GroupAction = ''menu.group.system'', mi_Action = ''menu.debug.logs'', mi_Slash = ''/debug logs'', mi_Kind = MenuItemDirect,
        mi_IncludeParentAction = False\<rparr>],
    sp_ActionNames =
     [''menu.debug'',
      ''menu.debug.logs'']\<rparr>"

definition spec_status :: Spec where
  "spec_status =
   \<lparr>sp_ID = ''menu.status'', sp_Kind = SpecKindCapability, sp_Backends = [],
    sp_Commands =
     [\<lparr>cs_ID = ''status'', cs_Names = [''/status''], cs_HelpGroup = ''system'',
        cs_HelpEntries = [''/status''],
        cs_Backends = [(''claude'', \<lparr>cb_HideInHelp = False, cb_HelpEntries = Some [''/status'']\<rparr>)]\<rparr>],
    sp_Nodes =
     [\<lparr>mn_Action = ''menu.status'', mn_Parent = ''menu.group.system''\<rparr>],
    sp_MenuGroup = None,
    sp_MenuItems =
     [\<lparr>mi_GroupAction = ''menu.group.system'', mi_Action = ''menu.status'', mi_Slash = ''/status'', mi_Kind = MenuItemSubmenu,
        mi_IncludeParentAction = False\<rparr>],
    sp_ActionNames =
     [''menu.status'']\<rparr>"

definition spec_help :: Spec where
  "spec_help =
   \<lparr>sp_ID = ''menu.help'', sp_Kind = SpecKindCapability, sp_Backends = [],
    sp_Commands =
     [\<lparr>cs_ID = ''help'', cs_Names = [''/help''], cs_HelpGroup = [],
        cs_HelpEntries = [''/help''],
        cs_Backends = []\<rparr>],
    sp_Nodes =
     [\<lparr>mn_Action = ''menu.help'', mn_Parent = ''menu.group.system''\<rparr>],
    sp_MenuGroup = None,
    sp_MenuItems =
     [\<lparr>mi_GroupAction = ''menu.group.system'', mi_Action = ''menu.help'', mi_Slash = ''/help'', mi_Kind = MenuItemSubmenu,
        mi_IncludeParentAction = False\<rparr>],
    sp_ActionNames =
     [''menu.help'']\<rparr>"

definition spec_codex_upgrade :: Spec where
  "spec_codex_upgrade =
   \<lparr>sp_ID = ''menu.codex_upgrade'', sp_Kind = SpecKindCapability, sp_Backends = [],
    sp_Commands =
     [\<lparr>cs_ID = ''codex'', cs_Names = [''/codex''], cs_HelpGroup = ''system'',
        cs_HelpEntries = [''/codex'', ''/codex check'', ''/codex upgrade'', ''/codex restart''],
        cs_Backends = []\<rparr>],
    sp_Nodes =
     [\<lparr>mn_Action = ''menu.codex_upgrade'', mn_Parent = ''menu.group.backend''\<rparr>],
    sp_MenuGroup = None,
    sp_MenuItems =
     [\<lparr>mi_GroupAction = ''menu.group.backend'', mi_Action = ''menu.codex_upgrade'', mi_Slash = ''/codex'', mi_Kind = MenuItemSubmenu,
        mi_IncludeParentAction = False\<rparr>],
    sp_ActionNames =
     [''menu.codex_upgrade'']\<rparr>"

definition spec_claude_upgrade :: Spec where
  "spec_claude_upgrade =
   \<lparr>sp_ID = ''menu.claude_upgrade'', sp_Kind = SpecKindCapability, sp_Backends = [],
    sp_Commands =
     [\<lparr>cs_ID = ''claude'', cs_Names = [''/claude''], cs_HelpGroup = ''system'',
        cs_HelpEntries = [''/claude'', ''/claude check'', ''/claude upgrade'', ''/claude restart''],
        cs_Backends = []\<rparr>],
    sp_Nodes =
     [\<lparr>mn_Action = ''menu.claude_upgrade'', mn_Parent = ''menu.group.backend''\<rparr>],
    sp_MenuGroup = None,
    sp_MenuItems =
     [\<lparr>mi_GroupAction = ''menu.group.backend'', mi_Action = ''menu.claude_upgrade'', mi_Slash = ''/claude'', mi_Kind = MenuItemSubmenu,
        mi_IncludeParentAction = False\<rparr>],
    sp_ActionNames =
     [''menu.claude_upgrade'']\<rparr>"

definition spec_upgrade :: Spec where
  "spec_upgrade =
   \<lparr>sp_ID = ''menu.upgrade'', sp_Kind = SpecKindCapability, sp_Backends = [],
    sp_Commands =
     [\<lparr>cs_ID = ''upgrade'', cs_Names = [''/upgrade''], cs_HelpGroup = ''system'',
        cs_HelpEntries = [''/upgrade'', ''/upgrade dev'', ''/upgrade v0.3.0'', ''/upgrade local'', ''/upgrade path ./dist/feidex-linux-amd64''],
        cs_Backends = []\<rparr>],
    sp_Nodes =
     [\<lparr>mn_Action = ''menu.upgrade'', mn_Parent = ''menu.group.system''\<rparr>],
    sp_MenuGroup = None,
    sp_MenuItems =
     [\<lparr>mi_GroupAction = ''menu.group.system'', mi_Action = ''menu.upgrade'', mi_Slash = ''/upgrade'', mi_Kind = MenuItemSubmenu,
        mi_IncludeParentAction = False\<rparr>],
    sp_ActionNames =
     [''menu.upgrade'']\<rparr>"

definition registry :: "Spec list" where
  "registry =
     [spec_root, spec_tools, spec_group_model, spec_current_bot, spec_current_workspace,
      spec_group_backend, spec_review, spec_quiet, spec_plan, spec_goal, spec_compact,
      spec_download, spec_history, spec_skills, spec_usage, spec_interrupt, spec_thread,
      spec_workspace, spec_group_system, spec_model, spec_fast, spec_debug, spec_status,
      spec_help, spec_codex_upgrade, spec_claude_upgrade, spec_upgrade]"

section \<open>Look up (data.go)\<close>

fun add_nodes :: "Spec list \<Rightarrow> (string \<times> MenuNode) list \<Rightarrow> (string \<times> MenuNode) list" where
  "add_nodes [] nodes = nodes"
| "add_nodes (s # ss) nodes =
     (let own = fold (\<lambda>node m. AList.update (trim (mn_Action node)) node m) (sp_Nodes s) nodes in
      add_nodes ss
        (case sp_MenuGroup s of
           None \<Rightarrow> own
         | Some g \<Rightarrow>
             let action = trim (mg_Action g) in
             if action = [] \<or> map_of own action \<noteq> None then own
             else AList.update action \<lparr>mn_Action = action, mn_Parent = []\<rparr> own))"

definition MenuNodes :: "(string \<times> MenuNode) list" where
  "MenuNodes = add_nodes registry []"

definition MenuGroupSpecs :: "MenuGroupSpec list" where
  "MenuGroupSpecs = List.map_filter sp_MenuGroup registry"

definition MenuItemSpecs :: "MenuItemSpec list" where
  "MenuItemSpecs = concat (map sp_MenuItems registry)"

definition FindSpecByID :: "string \<Rightarrow> Spec option" where
  "FindSpecByID i = find (\<lambda>s. sp_ID s = trim i) registry"

definition FindSpecByAction :: "string \<Rightarrow> Spec option" where
  "FindSpecByAction action = find (\<lambda>s. OwnsAction s (trim action)) registry"

definition commands :: "(Spec \<times> CommandSpec) list" where
  "commands = concat (map (\<lambda>s. map (Pair s) (sp_Commands s)) registry)"

definition FindCommand :: "string \<Rightarrow> (Spec \<times> CommandSpec) option" where
  "FindCommand name0 =
     (let name = trim name0 in find (\<lambda>(s, c). \<exists>n\<in>set (cs_Names c). trim n = name) commands)"

section \<open>Recognition (command\_policy.go)\<close>

definition HandlesCommand :: "string \<Rightarrow> string \<Rightarrow> bool" where
  "HandlesCommand kind raw =
     (case go_fields (trim raw) of
        [] \<Rightarrow> False
      | word # rest \<Rightarrow>
          (case FindCommand word of
             None \<Rightarrow> False
           | Some (feature, command) \<Rightarrow> SupportsBackend feature kind \<and> Matches command kind (word # rest)))"

definition HandlesMessageCommand :: "string \<Rightarrow> string \<Rightarrow> string \<Rightarrow> bool" where
  "HandlesMessageCommand kind chatType raw =
     (case go_fields (trim raw) of
        [] \<Rightarrow> False
      | word # _ \<Rightarrow> \<not> (word = ''/primary'' \<and> trim chatType \<noteq> ''group'') \<and> HandlesCommand kind raw)"

section \<open>Menus (menu\_policy.go)\<close>

definition FindMenuGroup :: "string \<Rightarrow> MenuGroupSpec option" where
  "FindMenuGroup action = find (\<lambda>g. mg_Action g = trim action) MenuGroupSpecs"

definition FindMenuItem :: "string \<Rightarrow> MenuItemSpec option" where
  "FindMenuItem action = find (\<lambda>i. mi_Action i = trim action) MenuItemSpecs"

definition menuItemVisibleWithoutBackend :: "MenuItemSpec \<Rightarrow> bool" where
  "menuItemVisibleWithoutBackend i \<longleftrightarrow>
     mi_Kind i = MenuItemBack \<or> trim (mi_Action i) \<in> {''menu.group.backend'', ''menu.backend.switch'', ''menu.help''}"

definition MenuItemVisible :: "MenuItemSpec \<Rightarrow> string \<Rightarrow> bool" where
  "MenuItemVisible i kind0 =
     (let kind = NormalizeBackend kind0 in
      if kind = [] then menuItemVisibleWithoutBackend i
      else mi_Kind i = MenuItemBack \<or> trim (mi_Slash i) = [] \<or> HandlesCommand kind (mi_Slash i))"

definition menuActionVisibleWithoutBackend :: "string \<Rightarrow> bool" where
  "menuActionVisibleWithoutBackend action \<longleftrightarrow>
     trim action \<in> {[], ''menu.root'', ''menu.group.system'', ''menu.group.backend'', ''menu.backend.switch'', ''menu.help''}"

definition GroupHasVisibleMenuItems :: "string \<Rightarrow> string \<Rightarrow> bool" where
  "GroupHasVisibleMenuItems action kind =
     (if NormalizeBackend kind = [] then menuActionVisibleWithoutBackend action
      else
        let declared = filter (\<lambda>i. mi_GroupAction i = trim action) MenuItemSpecs in
        declared = [] \<or> (\<exists>i\<in>set declared. mi_Kind i \<noteq> MenuItemBack \<and> MenuItemVisible i kind))"

definition MenuActionVisible :: "string \<Rightarrow> string \<Rightarrow> bool" where
  "MenuActionVisible action0 kind0 =
     (let action = trim action0; kind = NormalizeBackend kind0 in
      if action = [] \<or> action = ''menu.root'' then True
      else if FindMenuGroup action \<noteq> None then GroupHasVisibleMenuItems action kind
      else case FindMenuItem action of Some i \<Rightarrow> MenuItemVisible i kind | None \<Rightarrow> True)"

text \<open>The loop looks at 16 menus at most.\<close>

fun nearest_visible :: "nat \<Rightarrow> string \<Rightarrow> string \<Rightarrow> string option" where
  "nearest_visible 0 action kind = None"
| "nearest_visible (Suc n) action kind =
     (if action = [] then None
      else if MenuActionVisible action kind then Some action
      else case map_of MenuNodes action of
        None \<Rightarrow> None
      | Some node \<Rightarrow> nearest_visible n (trim (mn_Parent node)) kind)"

definition NearestVisibleMenuAction :: "string \<Rightarrow> string \<Rightarrow> string" where
  "NearestVisibleMenuAction action0 kind0 =
     (let action = (if trim action0 = [] then ''menu.root'' else trim action0); kind = NormalizeBackend kind0 in
      case nearest_visible 16 action kind of
        Some a \<Rightarrow> a
      | None \<Rightarrow> if MenuActionVisible ''menu.root'' kind then ''menu.root'' else [])"

definition MenuItemsForGroup :: "string \<Rightarrow> string \<Rightarrow> MenuItemSpec list" where
  "MenuItemsForGroup action kind =
     filter (\<lambda>i. mi_GroupAction i = trim action \<and> MenuItemVisible i kind) MenuItemSpecs"

definition RootMenuGroups :: "string \<Rightarrow> MenuGroupSpec list" where
  "RootMenuGroups kind =
     filter (\<lambda>g. mg_ShowInRoot g \<and> mg_Action g \<noteq> ''menu.current_bot'' \<and> GroupHasVisibleMenuItems (mg_Action g) kind)
       MenuGroupSpecs"

definition MenuBackAction :: "string \<Rightarrow> string" where
  "MenuBackAction action =
     (case map_of MenuNodes (trim action) of
        Some node \<Rightarrow> if trim (mn_Parent node) \<noteq> [] then trim (mn_Parent node) else ''menu.root''
      | None \<Rightarrow> ''menu.root'')"

section \<open>An index of the commands\<close>

text \<open>The names, the id and the backends of each command, computed once from the table.\<close>

definition command_index :: "(string list \<times> string \<times> string list) list" where
  "command_index =
     [([''/menu''], ''menu'', []),
      ([''/primary''], ''primary'', []),
      ([''/backend''], ''backend'', []),
      ([''/review''], ''review'', [''codex'']),
      ([''/quiet''], ''quiet'', []),
      ([''/plan''], ''plan'', [''codex'']),
      ([''/goal''], ''goal'', [''codex'']),
      ([''/compact''], ''compact'', []),
      ([''/download''], ''download'', []),
      ([''/history''], ''history'', []),
      ([''/skills''], ''skills'', [''codex'']),
      ([''/usage''], ''usage'', []),
      ([''/interrupt'', ''/stop''], ''interrupt'', []),
      ([''/fork''], ''fork'', []),
      ([''/new''], ''new'', []),
      ([''/thread''], ''thread'', []),
      ([''/session''], ''session'', []),
      ([''/threads''], ''threads'', []),
      ([''/workspace''], ''workspace'', []),
      ([''/model''], ''model'', []),
      ([''/effort''], ''effort'', []),
      ([''/fast''], ''fast'', [''codex'']),
      ([''/debug''], ''debug'', []),
      ([''/status''], ''status'', []),
      ([''/help''], ''help'', []),
      ([''/codex''], ''codex'', []),
      ([''/claude''], ''claude'', []),
      ([''/upgrade''], ''upgrade'', [])]"

lemma commands_index: "map (\<lambda>(s, c). (cs_Names c, cs_ID c, sp_Backends s)) commands = command_index"
  by code_simp

lemma index_names: "list_all (\<lambda>(ns, _). list_all (\<lambda>n. trim n = n) ns) command_index"
  by code_simp

definition supports :: "string list \<Rightarrow> string \<Rightarrow> bool" where
  "supports bs kind \<longleftrightarrow>
     (let backend = NormalizeBackend kind in
      backend = [] \<or> bs = [] \<or> list_ex (\<lambda>c. NormalizeBackend c = backend) bs)"

definition matches_id :: "string \<Rightarrow> string \<Rightarrow> string list \<Rightarrow> bool" where
  "matches_id i kind fs =
     Matches \<lparr>cs_ID = i, cs_Names = [], cs_HelpGroup = [], cs_HelpEntries = [], cs_Backends = []\<rparr> kind fs"

lemma find_map: "find P (map f xs) = map_option f (find (\<lambda>x. P (f x)) xs)"
  by (induction xs) simp_all

lemma FindCommand_index:
  "map_option (\<lambda>(s, c). (cs_Names c, cs_ID c, sp_Backends s)) (FindCommand word) =
     find (\<lambda>(ns, _). list_ex ((=) (trim word)) ns) command_index"
proof -
  have names: "trim n = n" if "(s, c) \<in> set commands" "n \<in> set (cs_Names c)" for s c n
    using index_names that unfolding commands_index [symmetric] by (force simp: list_all_iff)
  have "FindCommand word = find (\<lambda>(s, c). trim word \<in> set (cs_Names c)) commands"
    unfolding FindCommand_def Let_def by (rule find_cong) (auto simp: names)
  then show ?thesis
    unfolding commands_index [symmetric] find_map by (simp add: case_prod_beta' list_ex_iff)
qed

lemma HandlesCommand_index [code]:
  "HandlesCommand kind raw =
     (case go_fields (trim raw) of
        [] \<Rightarrow> False
      | word # rest \<Rightarrow>
          (case find (\<lambda>(ns, _). list_ex ((=) (trim word)) ns) command_index of
             None \<Rightarrow> False
           | Some (ns, i, bs) \<Rightarrow> supports bs kind \<and> matches_id i kind (word # rest)))"
  unfolding HandlesCommand_def FindCommand_index [symmetric]
  by (auto simp: supports_def SupportsBackend_def matches_id_def Matches_def Let_def list_ex_iff
      split: list.split option.split)

lemma distinct_concat_owner:
  "distinct (concat (map f xs)) \<Longrightarrow> x \<in> set xs \<Longrightarrow> y \<in> set xs \<Longrightarrow> n \<in> set (f x) \<Longrightarrow> n \<in> set (f y) \<Longrightarrow> x = y"
  by (induction xs) auto

text \<open>
  C38. A line is a local command exactly when its first word names a command of a capability the
  backend supports and that command accepts the line; the names are distinct, so at most one
  command is responsible and the order of the table does not matter.
\<close>

theorem recognised_by_one_command:
  "(HandlesCommand kind raw \<longleftrightarrow>
     (\<exists>word rest s c. go_fields (trim raw) = word # rest \<and> (s, c) \<in> set commands \<and> trim word \<in> set (cs_Names c) \<and>
        SupportsBackend s kind \<and> Matches c kind (word # rest))) \<and>
   distinct (concat (map (\<lambda>(s, c). cs_Names c) commands))"
proof
  have "concat (map (\<lambda>(s, c). cs_Names c) commands) =
      concat (map fst (map (\<lambda>(s, c). (cs_Names c, cs_ID c, sp_Backends s)) commands))"
    by (simp add: comp_def case_prod_beta')
  also have "\<dots> = concat (map fst command_index)" by (simp only: commands_index)
  finally have d: "concat (map (\<lambda>(s, c). cs_Names c) commands) = concat (map fst command_index)" .
  have "distinct (concat (map fst command_index))" by code_simp
  then show dist: "distinct (concat (map (\<lambda>(s, c). cs_Names c) commands))" by (simp only: d)
  have names: "trim n = n" if "(s, c) \<in> set commands" "n \<in> set (cs_Names c)" for s c n
    using index_names that unfolding commands_index [symmetric] by (force simp: list_all_iff)
  have only: "x = y"
    if "x \<in> set commands" "y \<in> set commands" "n \<in> set (cs_Names (snd x))" "n \<in> set (cs_Names (snd y))" for x y n
    by (rule distinct_concat_owner [OF dist]) (use that in \<open>simp_all add: case_prod_beta'\<close>)
  have f: "FindCommand word = Some x \<longleftrightarrow> x \<in> set commands \<and> trim word \<in> set (cs_Names (snd x))" for word x
  proof
    assume "FindCommand word = Some x"
    then have "x \<in> set commands \<and> (\<exists>n\<in>set (cs_Names (snd x)). trim n = trim word)"
      unfolding FindCommand_def Let_def find_Some_iff by (auto simp: case_prod_beta')
    then show "x \<in> set commands \<and> trim word \<in> set (cs_Names (snd x))"
      using names by (metis prod.collapse)
  next
    assume x: "x \<in> set commands \<and> trim word \<in> set (cs_Names (snd x))"
    then have "FindCommand word \<noteq> None"
      unfolding FindCommand_def Let_def find_None_iff by (metis (mono_tags, lifting) case_prod_beta' trim_trim)
    then obtain y where y: "FindCommand word = Some y" by blast
    then have "y \<in> set commands \<and> (\<exists>n\<in>set (cs_Names (snd y)). trim n = trim word)"
      unfolding FindCommand_def Let_def find_Some_iff by (auto simp: case_prod_beta')
    then have "y = x" using only names x by (metis prod.collapse)
    with y show "FindCommand word = Some x" by simp
  qed
  show "HandlesCommand kind raw \<longleftrightarrow>
     (\<exists>word rest s c. go_fields (trim raw) = word # rest \<and> (s, c) \<in> set commands \<and> trim word \<in> set (cs_Names c) \<and>
        SupportsBackend s kind \<and> Matches c kind (word # rest))"
  proof (cases "go_fields (trim raw)")
    case (Cons word rest)
    show ?thesis
    proof (cases "FindCommand word")
      case None
      then have "trim word \<notin> set (cs_Names c)" if "(s, c) \<in> set commands" for s c
        using f [of word "(s, c)"] that by auto
      with None Cons show ?thesis by (auto simp: HandlesCommand_def)
    next
      case (Some y)
      then have y: "y \<in> set commands" "trim word \<in> set (cs_Names (snd y))" using f by blast+
      have "(s, c) = y" if "(s, c) \<in> set commands" "trim word \<in> set (cs_Names c)" for s c
        using only [of "(s, c)" y "trim word"] that y by simp
      then have "(\<exists>s c. (s, c) \<in> set commands \<and> trim word \<in> set (cs_Names c) \<and>
          SupportsBackend s kind \<and> Matches c kind (word # rest)) \<longleftrightarrow>
        SupportsBackend (fst y) kind \<and> Matches (snd y) kind (word # rest)"
        using y by (metis prod.collapse fst_conv snd_conv)
      then show ?thesis by (simp add: HandlesCommand_def Some Cons case_prod_beta')
    qed
  qed (simp add: HandlesCommand_def)
qed

lemma NormalizeBackend_idem [simp]: "NormalizeBackend (NormalizeBackend k) = NormalizeBackend k"
proof -
  have "trim BackendCodex = BackendCodex" "trim BackendClaude = BackendClaude"
    "to_lower BackendCodex = BackendCodex" "to_lower BackendClaude = BackendClaude" by code_simp+
  then show ?thesis by (auto simp: NormalizeBackend_def Let_def)
qed

lemma MenuActionVisible_normal [simp]:
  "MenuActionVisible (trim a) k = MenuActionVisible a k" "MenuActionVisible a (NormalizeBackend k) = MenuActionVisible a k"
  by (simp_all add: MenuActionVisible_def)

lemma nearest_visible_Some: "nearest_visible n a k = Some b \<Longrightarrow> MenuActionVisible b k"
  by (induction n a k rule: nearest_visible.induct) (auto split: if_splits option.splits)

lemma root_visible: "MenuActionVisible ''menu.root'' k"
proof -
  have "trim ''menu.root'' = ''menu.root''" by code_simp
  then show ?thesis by (simp add: MenuActionVisible_def)
qed

fun leads_to_root :: "nat \<Rightarrow> string \<Rightarrow> bool" where
  "leads_to_root 0 action = False"
| "leads_to_root (Suc n) action =
     (action = ''menu.root'' \<or>
      (case map_of MenuNodes action of None \<Rightarrow> False | Some node \<Rightarrow> leads_to_root n (trim (mn_Parent node))))"

text \<open>The parents of the menus, computed once.\<close>

definition menu_parents :: "(string \<times> string) list" where
  "menu_parents =
     [(''menu.root'', []),
      (''menu.tools'', ''menu.root''),
      (''menu.group.model'', ''menu.root''),
      (''menu.group.backend'', ''menu.group.system''),
      (''menu.backend.switch'', ''menu.group.backend''),
      (''menu.auto_retry'', ''menu.group.backend''),
      (''menu.review'', ''menu.tools''),
      (''menu.quiet'', ''menu.tools''),
      (''menu.goal'', ''menu.tools''),
      (''menu.history'', ''menu.tools''),
      (''history.detail'', ''menu.history''),
      (''menu.skills'', ''menu.tools''),
      (''menu.usage'', ''menu.tools''),
      (''menu.thread'', ''menu.root''),
      (''thread.sandbox.menu'', ''menu.thread''),
      (''thread.policy.menu'', ''menu.thread''),
      (''thread.multiagent.menu'', ''menu.thread''),
      (''thread.permission_mode.menu'', ''menu.thread''),
      (''menu.workspace'', ''menu.root''),
      (''workspace.new'', ''menu.workspace''),
      (''workspace.clone'', ''menu.workspace''),
      (''workspace.worktree'', ''menu.workspace''),
      (''workspace.sandbox.menu'', ''menu.workspace''),
      (''workspace.policy.menu'', ''menu.workspace''),
      (''workspace.multiagent.menu'', ''menu.workspace''),
      (''workspace.permission_mode.menu'', ''menu.workspace''),
      (''workspace.delete.menu'', ''menu.workspace''),
      (''workspace.delete.confirm'', ''workspace.delete.menu''),
      (''menu.group.system'', ''menu.root''),
      (''menu.model'', ''menu.root''),
      (''menu.model_auxiliary'', ''menu.model''),
      (''menu.fast'', ''menu.group.model''),
      (''menu.debug.logs'', ''menu.group.system''),
      (''menu.status'', ''menu.group.system''),
      (''menu.help'', ''menu.group.system''),
      (''menu.codex_upgrade'', ''menu.group.backend''),
      (''menu.claude_upgrade'', ''menu.group.backend''),
      (''menu.upgrade'', ''menu.group.system'')]"

lemma parents_index: "map (\<lambda>(a, n). (a, trim (mn_Parent n))) MenuNodes = menu_parents"
  by code_simp

lemma leads_to_root_index [code]:
  "leads_to_root 0 action = False"
  "leads_to_root (Suc n) action =
     (action = ''menu.root'' \<or>
      (case map_of menu_parents action of None \<Rightarrow> False | Some parent \<Rightarrow> leads_to_root n parent))"
proof -
  have "map_of menu_parents action = map_option (\<lambda>n. trim (mn_Parent n)) (map_of MenuNodes action)"
    unfolding parents_index [symmetric] by (simp add: map_of_map)
  then show "leads_to_root (Suc n) action =
     (action = ''menu.root'' \<or>
      (case map_of menu_parents action of None \<Rightarrow> False | Some parent \<Rightarrow> leads_to_root n parent))"
    by (simp split: option.split)
qed simp

text \<open>
  C37. The table is well formed: action names and ids are used once; every menu leads to the main
  menu, in fewer steps than the 16 the search for a visible menu looks at; every entry of a menu
  that is not a way back opens a group or stands for a command that some backend handles. And
  whatever menu is asked for, the one that is shown is visible.
\<close>

theorem registry_well_formed:
  "distinct (concat (map sp_ActionNames registry)) \<and> distinct (map sp_ID registry) \<and>
   list_all (\<lambda>(action, _). leads_to_root 16 action) MenuNodes \<and>
   list_all (\<lambda>i. mi_Kind i = MenuItemBack \<or> mi_Slash i = [] \<and> FindMenuGroup (mi_Action i) \<noteq> None \<or>
     HandlesCommand ''codex'' (mi_Slash i) \<or> HandlesCommand ''claude'' (mi_Slash i)) MenuItemSpecs \<and>
   MenuActionVisible (NearestVisibleMenuAction action kind) kind"
proof (intro conjI)
  show "distinct (concat (map sp_ActionNames registry))" by code_simp
  show "distinct (map sp_ID registry)" by code_simp
  have "list_all (leads_to_root 16) (map fst menu_parents)" by code_simp
  then show "list_all (\<lambda>(action, _). leads_to_root 16 action) MenuNodes"
    unfolding parents_index [symmetric] by (simp add: list.pred_map comp_def case_prod_beta')
  show "list_all (\<lambda>i. mi_Kind i = MenuItemBack \<or> mi_Slash i = [] \<and> FindMenuGroup (mi_Action i) \<noteq> None \<or>
     HandlesCommand ''codex'' (mi_Slash i) \<or> HandlesCommand ''claude'' (mi_Slash i)) MenuItemSpecs" by code_simp
  show "MenuActionVisible (NearestVisibleMenuAction action kind) kind"
  proof -
    have "MenuActionVisible b kind" if "nearest_visible n a (NormalizeBackend kind) = Some b" for n a b
      using nearest_visible_Some [OF that] by simp
    then show ?thesis
      using root_visible by (auto simp: NearestVisibleMenuAction_def Let_def split: option.split)
  qed
qed

theorem registry_well_formed_witness:
  "MenuActionVisible (NearestVisibleMenuAction ''menu.fast'' ''claude'') ''claude'' \<and>
   \<not> MenuActionVisible ''menu.fast'' ''claude''"
proof
  show "MenuActionVisible (NearestVisibleMenuAction ''menu.fast'' ''claude'') ''claude''"
    using registry_well_formed by blast
  show "\<not> MenuActionVisible ''menu.fast'' ''claude''" by code_simp
qed

end
