(* ===== verification/Go_Path.thy ===== *)
theory Go_Path
  imports Go_Prelude
begin

text \<open>
  Slash-separated paths: the functions of \<open>path/filepath\<close> the code calls, on a system whose only
  separator is the slash. \<open>Clean\<close> is lexical; its result is the normal form of the path.
\<close>

definition IsAbs :: "string \<Rightarrow> bool" where
  "IsAbs p \<longleftrightarrow> (case p of [] \<Rightarrow> False | c # _ \<Rightarrow> c = CHR ''/'')"

abbreviation dot :: string where "dot \<equiv> ''.''"
abbreviation dotdot :: string where "dotdot \<equiv> ''..''"

text \<open>
  The components kept, last first: an empty one and a dot go, two dots take back the last one; at
  the root they go, and above the start of a relative path they stay.
\<close>

definition clean_step :: "bool \<Rightarrow> string \<Rightarrow> string list \<Rightarrow> string list" where
  "clean_step rooted c acc =
     (if c = [] \<or> c = dot then acc
      else if c = dotdot then
        (case acc of
           [] \<Rightarrow> if rooted then [] else [dotdot]
         | a # rest \<Rightarrow> if a = dotdot then dotdot # acc else rest)
      else c # acc)"

definition clean_components :: "bool \<Rightarrow> string list \<Rightarrow> string list" where
  "clean_components rooted cs = rev (fold (clean_step rooted) cs [])"

fun join_slash :: "string list \<Rightarrow> string" where
  "join_slash [] = []"
| "join_slash [c] = c"
| "join_slash (c # cs) = c @ CHR ''/'' # join_slash cs"

definition Clean :: "string \<Rightarrow> string" where
  "Clean p =
     (let rooted = IsAbs p; cs = clean_components rooted (split_on (CHR ''/'') p) in
      if rooted then CHR ''/'' # join_slash cs else if cs = [] then dot else join_slash cs)"

definition Join_path :: "string list \<Rightarrow> string" where
  "Join_path ps =
     (let qs = filter (\<lambda>p. p \<noteq> []) ps in if qs = [] then [] else Clean (join_slash qs))"

text \<open>\<open>filepath.Dir\<close>: all but the last component, cleaned; \<open>filepath.Base\<close>: the last one.\<close>

definition Dir :: "string \<Rightarrow> string" where
  "Dir p = Clean (rev (dropWhile (\<lambda>c. c \<noteq> CHR ''/'') (rev p)))"

definition Base :: "string \<Rightarrow> string" where
  "Base p =
     (let stripped = rev (dropWhile (\<lambda>c. c = CHR ''/'') (rev p)) in
      if p = [] then dot
      else if stripped = [] then ''/''
      else rev (takeWhile (\<lambda>c. c \<noteq> CHR ''/'') (rev stripped)))"

section \<open>Laws\<close>

lemma IsAbs_Cons [simp]: "IsAbs (c # p) \<longleftrightarrow> c = CHR ''/''"
  by (simp add: IsAbs_def)

lemma IsAbs_Nil [simp]: "\<not> IsAbs []"
  by (simp add: IsAbs_def)

lemma IsAbs_append [simp]: "p \<noteq> [] \<Longrightarrow> IsAbs (p @ q) = IsAbs p"
  by (cases p) simp_all

lemma join_slash_Cons: "join_slash (c # cs) = c @ (if cs = [] then [] else CHR ''/'' # join_slash cs)"
  by (cases cs) simp_all

lemma Clean_abs: "IsAbs p \<Longrightarrow> IsAbs (Clean p)"
  by (simp add: Clean_def Let_def)

text \<open>A path joined to an absolute one is absolute.\<close>

lemma Join_path_abs: "IsAbs b \<Longrightarrow> IsAbs (Join_path [b, p])"
  by (cases "p = []") (auto simp: Join_path_def Let_def intro: Clean_abs)

text \<open>Kept components: no empty one, no dot, two dots only in front of a relative path.\<close>

definition kept :: "bool \<Rightarrow> string list \<Rightarrow> bool" where
  "kept rooted acc \<longleftrightarrow>
     (\<forall>c\<in>set acc. c \<noteq> [] \<and> c \<noteq> dot \<and> CHR ''/'' \<notin> set c) \<and>
     (\<exists>ups names. acc = names @ ups \<and> dotdot \<notin> set names \<and> set ups \<subseteq> {dotdot} \<and> (rooted \<longrightarrow> ups = []))"

lemma kept_Nil [simp]: "kept rooted []"
  by (simp add: kept_def)

lemma keptI:
  assumes "\<forall>c\<in>set (names @ ups). c \<noteq> [] \<and> c \<noteq> dot \<and> CHR ''/'' \<notin> set c" "dotdot \<notin> set names"
    and "set ups \<subseteq> {dotdot}" "rooted \<longrightarrow> ups = []"
  shows "kept rooted (names @ ups)"
  unfolding kept_def using assms by blast

lemma kept_step:
  assumes "kept rooted acc" "CHR ''/'' \<notin> set c"
  shows "kept rooted (clean_step rooted c acc)"
proof -
  obtain ups names where a: "acc = names @ ups" "dotdot \<notin> set names" "set ups \<subseteq> {dotdot}" "rooted \<longrightarrow> ups = []"
    and ok: "\<forall>c\<in>set acc. c \<noteq> [] \<and> c \<noteq> dot \<and> CHR ''/'' \<notin> set c"
    using assms(1) by (auto simp: kept_def)
  consider (skip) "c = [] \<or> c = dot" | (up) "c = dotdot" | (name) "c \<noteq> []" "c \<noteq> dot" "c \<noteq> dotdot" by blast
  then show ?thesis
  proof cases
    case skip
    then show ?thesis using assms(1) by (simp add: clean_step_def)
  next
    case name
    have "kept rooted ((c # names) @ ups)"
      by (rule keptI) (use a ok name assms(2) in simp_all)
    then show ?thesis using name a(1) by (simp add: clean_step_def)
  next
    case up
    show ?thesis
    proof (cases names)
      case (Cons n ns)
      have "kept rooted (ns @ ups)"
        by (rule keptI) (use a ok Cons in simp_all)
      moreover have "n \<noteq> dotdot" using a(2) Cons by auto
      ultimately show ?thesis using up a(1) Cons by (simp add: clean_step_def)
    next
      case Nil
      have d: "ups = [] \<or> (\<exists>r. ups = dotdot # r)" using a(3) by (cases ups) auto
      have "kept rooted ([] @ dotdot # ups)" if "\<not> rooted"
        by (rule keptI) (use a ok Nil that in simp_all)
      then show ?thesis using d a Nil up assms(1) by (cases rooted) (auto simp: clean_step_def)
    qed
  qed
qed

lemma kept_fold:
  "kept rooted acc \<Longrightarrow> \<forall>c\<in>set cs. CHR ''/'' \<notin> set c \<Longrightarrow> kept rooted (fold (clean_step rooted) cs acc)"
  by (induction cs arbitrary: acc) (simp_all add: kept_step)

lemma kept_components: "kept rooted (rev (clean_components rooted (split_on (CHR ''/'') p)))"
  unfolding clean_components_def by (simp, rule kept_fold) (auto dest: split_on_parts)

text \<open>Kept components are cleaned already.\<close>

lemma fold_names:
  "\<forall>c\<in>set cs. c \<noteq> [] \<and> c \<noteq> dot \<and> c \<noteq> dotdot \<Longrightarrow> fold (clean_step rooted) cs acc = rev cs @ acc"
  by (induction cs arbitrary: acc) (simp_all add: clean_step_def)

lemma fold_ups:
  "set ups \<subseteq> {dotdot} \<Longrightarrow> set acc \<subseteq> {dotdot} \<Longrightarrow> fold (clean_step False) ups acc = rev ups @ acc"
proof (induction ups arbitrary: acc)
  case (Cons u us)
  have s: "clean_step False u acc = dotdot # acc" using Cons.prems by (cases acc) (auto simp: clean_step_def)
  have "fold (clean_step False) us (dotdot # acc) = rev us @ dotdot # acc"
    using Cons.prems by (intro Cons.IH) auto
  then show ?case using s Cons.prems(1) by simp
qed simp

lemma clean_kept:
  assumes "kept rooted (rev cs)"
  shows "clean_components rooted cs = cs"
proof -
  obtain ups names where a: "rev cs = names @ ups" "dotdot \<notin> set names" "set ups \<subseteq> {dotdot}" "rooted \<longrightarrow> ups = []"
    and ok: "\<forall>c\<in>set (rev cs). c \<noteq> [] \<and> c \<noteq> dot \<and> CHR ''/'' \<notin> set c"
    using assms unfolding kept_def by blast
  have cs: "cs = rev ups @ rev names" using a(1) by (metis rev_append rev_rev_ident)
  have u: "fold (clean_step rooted) (rev ups) [] = ups"
    using a(3,4) by (cases rooted) (simp_all add: fold_ups)
  have "\<forall>c\<in>set (rev names). c \<noteq> [] \<and> c \<noteq> dot \<and> c \<noteq> dotdot" using ok a by auto
  then show ?thesis by (simp add: clean_components_def cs u fold_names)
qed

lemma split_join:
  "\<forall>c\<in>set cs. CHR ''/'' \<notin> set c \<Longrightarrow> cs \<noteq> [] \<Longrightarrow> split_on (CHR ''/'') (join_slash cs) = cs"
  by (induction cs rule: join_slash.induct) (auto simp: split_on_clean split_on_append)

lemma join_slash_relative:
  "kept False (rev cs) \<Longrightarrow> cs \<noteq> [] \<Longrightarrow> join_slash cs \<noteq> [] \<and> \<not> IsAbs (join_slash cs)"
  by (cases cs) (auto simp: kept_def join_slash_Cons IsAbs_def split: list.split)

theorem Clean_idempotent: "Clean (Clean p) = Clean p"
proof (cases "IsAbs p")
  case True
  define cs where "cs = clean_components True (split_on (CHR ''/'') p)"
  have k: "kept True (rev cs)" by (simp add: cs_def kept_components)
  then have n: "\<forall>c\<in>set cs. CHR ''/'' \<notin> set c" by (simp add: kept_def)
  have c: "Clean p = CHR ''/'' # join_slash cs" using True by (simp add: Clean_def cs_def)
  have "clean_components True (split_on (CHR ''/'') (CHR ''/'' # join_slash cs)) = cs"
  proof (cases "cs = []")
    case True
    then show ?thesis by (simp add: clean_components_def clean_step_def)
  next
    case False
    have "clean_components True ([] # cs) = clean_components True cs"
      by (simp add: clean_components_def clean_step_def)
    then show ?thesis using split_join [OF n False] clean_kept [OF k] by simp
  qed
  then show ?thesis by (simp add: c) (simp add: Clean_def)
next
  case False
  define cs where "cs = clean_components False (split_on (CHR ''/'') p)"
  have k: "kept False (rev cs)" by (simp add: cs_def kept_components)
  then have n: "\<forall>c\<in>set cs. CHR ''/'' \<notin> set c" by (simp add: kept_def)
  show ?thesis
  proof (cases "cs = []")
    case True
    have c: "Clean p = dot" using False True by (simp add: Clean_def cs_def)
    show ?thesis by (simp add: c) code_simp
  next
    case ne: False
    have c: "Clean p = join_slash cs" using False ne by (simp add: Clean_def cs_def)
    have "clean_components False (split_on (CHR ''/'') (join_slash cs)) = cs"
      using split_join [OF n ne] clean_kept [OF k] by simp
    then show ?thesis
      using join_slash_relative [OF k ne] ne by (simp add: c) (simp add: Clean_def)
  qed
qed

end
