(* ===== verification/Configuration.thy ===== *)
theory Configuration
  imports Go_Path Conversation_Data
begin

text \<open>
  The configuration file as a value (\<open>internal/config/config.go\<close>, \<open>quiet_mode.go\<close>): its records,
  its normalisation, and the frontends it describes. Decoding and encoding TOML is left to the
  library the program uses; so is writing the file.
\<close>

section \<open>Records\<close>

record LogConfig = lg_Level :: string

record FeishuConfig =
  fc_Backend :: string
  fc_AutoRetry :: bool
  fc_AppID :: string
  fc_AppSecret :: string
  fc_Domain :: string
  fc_AllowFrom :: "string list"
  fc_DebugAllowFrom :: "string list"
  fc_CardEnabled :: bool
  fc_Quiet :: string

record FrontendConfig =
  fe_ID :: string
  fe_Feishu :: FeishuConfig

record ResolvedFrontend =
  rf_ID :: string
  rf_Backend :: string
  rf_Feishu :: FeishuConfig
  rf_ConfigIndex :: int

record CodexConfig =
  cx_Command :: string
  cx_Transport :: string
  cx_WSURL :: string
  cx_WSBearerToken :: string
  cx_ExperimentalAPI :: bool
  cx_ServiceName :: string
  cx_AppServerDir :: string
  cx_Model :: string
  cx_ReasoningEffort :: string
  cx_PlanModel :: string
  cx_PlanReasoningEffort :: string
  cx_ReviewModel :: string
  cx_SubagentModel :: string
  cx_SubagentReasoningEffort :: string
  cx_ModelOptions :: "string list"

record ClaudeConfig =
  cl_Command :: string
  cl_Model :: string
  cl_SmallModel :: string
  cl_SubagentModel :: string
  cl_ModelOptions :: "string list"
  cl_Effort :: string
  cl_PermissionMode :: string
  cl_DangerouslySkipPermissions :: bool
  cl_DisablePlugins :: bool
  cl_SystemPrompt :: string
  cl_PermissionPromptToolStdio :: bool

record Config =
  cg_DataDir :: string
  cg_Log :: LogConfig
  cg_Feishu :: FeishuConfig
  cg_Frontends :: "FrontendConfig list"
  cg_Codex :: CodexConfig
  cg_Claude :: ClaudeConfig
  cg_DaemonServiceName :: string
  cg_Workspaces :: "WorkspaceConfig list"

abbreviation FeishuDomainFeishu :: string where "FeishuDomainFeishu \<equiv> ''feishu''"
abbreviation FeishuDomainLark :: string where "FeishuDomainLark \<equiv> ''lark''"
abbreviation QuietModeProgress :: string where "QuietModeProgress \<equiv> ''progress''"
abbreviation QuietModeNormal :: string where "QuietModeNormal \<equiv> ''normal''"
abbreviation DefaultFrontendID :: string where "DefaultFrontendID \<equiv> ''default''"

definition OpenBaseURL :: "FeishuConfig \<Rightarrow> string" where
  "OpenBaseURL c =
     (if fc_Domain c = FeishuDomainLark then ''https://open.larksuite.com'' else ''https://open.feishu.cn'')"

definition defaultFeishuConfig :: FeishuConfig where
  "defaultFeishuConfig =
     \<lparr>fc_Backend = [], fc_AutoRetry = False, fc_AppID = [], fc_AppSecret = [], fc_Domain = [],
      fc_AllowFrom = [], fc_DebugAllowFrom = [], fc_CardEnabled = True, fc_Quiet = QuietModeProgress\<rparr>"

definition Default_config :: Config where
  "Default_config =
     \<lparr>cg_DataDir = ''.feidex-data'', cg_Log = \<lparr>lg_Level = ''info''\<rparr>, cg_Feishu = defaultFeishuConfig,
      cg_Frontends = [],
      cg_Codex = \<lparr>cx_Command = ''codex'', cx_Transport = ''stdio'', cx_WSURL = [], cx_WSBearerToken = [],
        cx_ExperimentalAPI = True, cx_ServiceName = ''feidex'', cx_AppServerDir = [], cx_Model = [],
        cx_ReasoningEffort = [], cx_PlanModel = [], cx_PlanReasoningEffort = [], cx_ReviewModel = [],
        cx_SubagentModel = [], cx_SubagentReasoningEffort = [], cx_ModelOptions = []\<rparr>,
      cg_Claude = \<lparr>cl_Command = ''claude'', cl_Model = ''sonnet'', cl_SmallModel = [], cl_SubagentModel = [],
        cl_ModelOptions = [], cl_Effort = [], cl_PermissionMode = ''bypassPermissions'',
        cl_DangerouslySkipPermissions = True, cl_DisablePlugins = False, cl_SystemPrompt = [],
        cl_PermissionPromptToolStdio = True\<rparr>,
      cg_DaemonServiceName = ''feidex'',
      cg_Workspaces = [\<lparr>wk_ID = ''default'', wk_Name = ''Default'', wk_Cwd = ''.'', wk_ApprovalPolicy = ''never'',
        wk_SandboxMode = ''danger-full-access'', wk_MultiAgentMode = ''explicitRequestOnly'',
        wk_ClaudePermissionMode = []\<rparr>]\<rparr>"

section \<open>Values\<close>

datatype config_error =
    UnsupportedEffort string | UnsupportedPermission string | UnsupportedLogLevel string
  | WebsocketRemoved | UnsupportedTransport string | UnsupportedFeishuBackend string
  | UnsupportedDomain string | UnsupportedQuiet string | FrontendIDRequired | FrontendIDColon string
  | DuplicateFrontend string | NoWorkspace | WorkspaceIDRequired | CwdRequired string
  | WorkspacePermission string string | DuplicateWorkspace string | SourceUnavailable
  | WorkspaceExists string | WorkspaceNotFound string | LastWorkspace | ConfigNotSaved string
  | WorkspaceIDMissing | QuietRequired | LevelRequired | BackendMissing | ScopeMismatch
  | ConfigurationChanged | StateNotCommitted string

definition ParseQuietMode :: "string \<Rightarrow> config_error + string" where
  "ParseQuietMode value =
     (let v = to_lower (trim value) in
      if v = [] then Inr QuietModeProgress
      else if v \<in> {''verbose'', ''progress'', ''normal'', ''final''} then Inr v
      else Inl (UnsupportedQuiet value))"

definition QuietMode_String :: "string \<Rightarrow> string" where
  "QuietMode_String m = (case ParseQuietMode m of Inl _ \<Rightarrow> QuietModeProgress | Inr v \<Rightarrow> v)"

definition NormalizeLogLevel :: "string \<Rightarrow> config_error + string" where
  "NormalizeLogLevel value0 =
     (let value = to_lower (trim value0) in
      if value = [] then Inr ''info''
      else if value \<in> {''debug'', ''info'', ''warn'', ''error''} then Inr value
      else if value = ''warning'' then Inr ''warn''
      else Inl (UnsupportedLogLevel value))"

definition NormalizeClaudeEffort :: "string \<Rightarrow> config_error + string" where
  "NormalizeClaudeEffort value =
     (let v = to_lower (trim value) in
      if v \<in> {[], ''default'', ''auto''} then Inr []
      else if v \<in> {''low'', ''medium'', ''high'', ''xhigh'', ''max''} then Inr v
      else Inl (UnsupportedEffort (trim value)))"

definition normalizeBackendName :: "string \<Rightarrow> string" where
  "normalizeBackendName value = to_lower (trim value)"

definition normalizeClaudePermissionMode :: "string \<Rightarrow> string" where
  "normalizeClaudePermissionMode value =
     (if trim value \<in> {[], ''default''} then ''bypassPermissions'' else trim value)"

definition isSupportedClaudePermissionMode :: "string \<Rightarrow> bool" where
  "isSupportedClaudePermissionMode value \<longleftrightarrow>
     trim value \<in> {''default'', ''acceptEdits'', ''plan'', ''bypassPermissions''}"

definition normalizeOptionalClaudePermissionMode :: "string \<Rightarrow> string" where
  "normalizeOptionalClaudePermissionMode value = trim value"

fun unseen :: "string list \<Rightarrow> string list \<Rightarrow> string list" where
  "unseen out [] = out"
| "unseen out (v # vs) =
     (if trim v = [] \<or> trim v \<in> set out then unseen out vs else unseen (out @ [trim v]) vs)"

definition normalizeStringList :: "string list \<Rightarrow> string list" where
  "normalizeStringList values = unseen [] values"

definition normalizeFeishuDomain :: "string \<Rightarrow> config_error + string" where
  "normalizeFeishuDomain domain =
     (let v = to_lower (trim domain) in
      if v \<in> {[], FeishuDomainFeishu} then Inr FeishuDomainFeishu
      else if v = FeishuDomainLark then Inr FeishuDomainLark
      else Inl (UnsupportedDomain domain))"

definition normalizeFeishuConfig :: "FeishuConfig \<Rightarrow> config_error + FeishuConfig" where
  "normalizeFeishuConfig cfg =
     (let backend = normalizeBackendName (fc_Backend cfg) in
      if backend \<notin> {[], ''codex'', ''claude''} then Inl (UnsupportedFeishuBackend backend)
      else case normalizeFeishuDomain (fc_Domain cfg) of
        Inl e \<Rightarrow> Inl e
      | Inr domain \<Rightarrow>
          Inr (cfg\<lparr>fc_Backend := backend, fc_Domain := domain,
                   fc_Quiet := (case ParseQuietMode (fc_Quiet cfg) of Inl _ \<Rightarrow> QuietModeNormal | Inr q \<Rightarrow> q)\<rparr>))"

section \<open>Normalisation\<close>

text \<open>A relative path is taken from the directory of the file.\<close>

definition absolute_from :: "string \<Rightarrow> string \<Rightarrow> string" where
  "absolute_from baseDir p = (if IsAbs p then p else Clean (Join_path [baseDir, p]))"

definition normalize_codex :: "string \<Rightarrow> CodexConfig \<Rightarrow> CodexConfig" where
  "normalize_codex baseDir c =
     c\<lparr>cx_Command := (if cx_Command c = [] then ''codex'' else cx_Command c),
       cx_Transport := trim (cx_Transport c), cx_WSURL := trim (cx_WSURL c),
       cx_WSBearerToken := trim (cx_WSBearerToken c),
       cx_ServiceName := (if trim (cx_ServiceName c) = [] then ''feidex'' else trim (cx_ServiceName c)),
       cx_AppServerDir := (if trim (cx_AppServerDir c) = [] then []
                           else absolute_from baseDir (trim (cx_AppServerDir c))),
       cx_Model := trim (cx_Model c), cx_ReasoningEffort := trim (cx_ReasoningEffort c),
       cx_PlanModel := trim (cx_PlanModel c), cx_PlanReasoningEffort := trim (cx_PlanReasoningEffort c),
       cx_ReviewModel := trim (cx_ReviewModel c), cx_SubagentModel := trim (cx_SubagentModel c),
       cx_SubagentReasoningEffort := trim (cx_SubagentReasoningEffort c),
       cx_ModelOptions := normalizeStringList (cx_ModelOptions c)\<rparr>"

definition normalize_transport :: "CodexConfig \<Rightarrow> config_error + CodexConfig" where
  "normalize_transport c =
     (if cx_WSURL c \<noteq> [] \<or> cx_WSBearerToken c \<noteq> [] then Inl WebsocketRemoved
      else if cx_Transport c = [] then Inr (c\<lparr>cx_Transport := ''stdio''\<rparr>)
      else if equal_fold (cx_Transport c) ''ws'' then Inl WebsocketRemoved
      else if equal_fold (cx_Transport c) ''stdio'' then Inr (c\<lparr>cx_Transport := ''stdio''\<rparr>)
      else Inl (UnsupportedTransport (cx_Transport c)))"

text \<open>Permissions are always skipped: there is no terminal to answer a prompt.\<close>

definition normalize_claude :: "ClaudeConfig \<Rightarrow> config_error + ClaudeConfig" where
  "normalize_claude c =
     (case NormalizeClaudeEffort (cl_Effort c) of
        Inl e \<Rightarrow> Inl e
      | Inr effort \<Rightarrow>
          let mode = normalizeClaudePermissionMode (cl_PermissionMode c) in
          if \<not> isSupportedClaudePermissionMode mode then Inl (UnsupportedPermission mode)
          else Inr (c\<lparr>cl_Command := (if trim (cl_Command c) = [] then ''claude'' else trim (cl_Command c)),
                 cl_Model := (if trim (cl_Model c) = [] then ''sonnet'' else trim (cl_Model c)),
                 cl_SmallModel := trim (cl_SmallModel c), cl_SubagentModel := trim (cl_SubagentModel c),
                 cl_ModelOptions := normalizeStringList (cl_ModelOptions c), cl_Effort := effort,
                 cl_DangerouslySkipPermissions := True, cl_PermissionMode := mode,
                 cl_SystemPrompt := trim (cl_SystemPrompt c)\<rparr>))"

definition normalize_frontend :: "FrontendConfig \<Rightarrow> config_error + FrontendConfig" where
  "normalize_frontend f =
     (let i = trim (fe_ID f) in
      if i = [] then Inl FrontendIDRequired
      else if CHR '':'' \<in> set i then Inl (FrontendIDColon i)
      else case normalizeFeishuConfig (fe_Feishu f) of
        Inl e \<Rightarrow> Inl e
      | Inr feishu \<Rightarrow> Inr \<lparr>fe_ID = i, fe_Feishu = feishu\<rparr>)"

text \<open>
  The loop over the frontends. A repeated id is reported before the settings of its frontend.
\<close>

fun normalize_frontends :: "string list \<Rightarrow> FrontendConfig list \<Rightarrow> config_error + FrontendConfig list" where
  "normalize_frontends seen [] = Inr []"
| "normalize_frontends seen (f # fs) =
     (if trim (fe_ID f) \<noteq> [] \<and> CHR '':'' \<notin> set (trim (fe_ID f)) \<and> trim (fe_ID f) \<in> set seen
      then Inl (DuplicateFrontend (trim (fe_ID f)))
      else case normalize_frontend f of
        Inl e \<Rightarrow> Inl e
      | Inr f' \<Rightarrow>
          (case normalize_frontends (fe_ID f' # seen) fs of
             Inl e \<Rightarrow> Inl e
           | Inr fs' \<Rightarrow> Inr (f' # fs')))"

definition normalize_workspace :: "string \<Rightarrow> WorkspaceConfig \<Rightarrow> config_error + WorkspaceConfig" where
  "normalize_workspace baseDir w =
     (let i = trim (wk_ID w); cwd = trim (wk_Cwd w);
          mode = normalizeOptionalClaudePermissionMode (wk_ClaudePermissionMode w) in
      if i = [] then Inl WorkspaceIDRequired
      else if cwd = [] then Inl (CwdRequired i)
      else if mode \<noteq> [] \<and> \<not> isSupportedClaudePermissionMode mode then Inl (WorkspacePermission i mode)
      else Inr (w\<lparr>wk_ID := i, wk_Name := (if trim (wk_Name w) = [] then i else trim (wk_Name w)),
             wk_Cwd := absolute_from baseDir cwd,
             wk_ApprovalPolicy := (if wk_ApprovalPolicy w = [] then ''never'' else wk_ApprovalPolicy w),
             wk_SandboxMode := (if wk_SandboxMode w = [] then ''danger-full-access'' else wk_SandboxMode w),
             wk_MultiAgentMode := (if wk_MultiAgentMode w = [] then ''explicitRequestOnly'' else wk_MultiAgentMode w),
             wk_ClaudePermissionMode := mode\<rparr>))"

fun normalize_workspaces ::
  "string \<Rightarrow> string list \<Rightarrow> WorkspaceConfig list \<Rightarrow> config_error + WorkspaceConfig list" where
  "normalize_workspaces baseDir seen [] = Inr []"
| "normalize_workspaces baseDir seen (w # ws) =
     (case normalize_workspace baseDir w of
        Inl e \<Rightarrow> Inl e
      | Inr w' \<Rightarrow>
          if wk_ID w' \<in> set seen then Inl (DuplicateWorkspace (wk_ID w'))
          else (case normalize_workspaces baseDir (wk_ID w' # seen) ws of
                  Inl e \<Rightarrow> Inl e
                | Inr ws' \<Rightarrow> Inr (w' # ws')))"

definition Normalize_config :: "string \<Rightarrow> Config \<Rightarrow> config_error + Config" where
  "Normalize_config baseDir c =
     (case normalize_claude (cg_Claude c) of
        Inl e \<Rightarrow> Inl e
      | Inr claude \<Rightarrow>
     (case NormalizeLogLevel (lg_Level (cg_Log c)) of
        Inl e \<Rightarrow> Inl e
      | Inr level \<Rightarrow>
     (case normalize_transport (normalize_codex baseDir (cg_Codex c)) of
        Inl e \<Rightarrow> Inl e
      | Inr codex \<Rightarrow>
     (case normalizeFeishuConfig (cg_Feishu c) of
        Inl e \<Rightarrow> Inl e
      | Inr feishu \<Rightarrow>
     (case normalize_frontends [] (cg_Frontends c) of
        Inl e \<Rightarrow> Inl e
      | Inr frontends \<Rightarrow>
     (if cg_Workspaces c = [] then Inl NoWorkspace
      else case normalize_workspaces baseDir [] (cg_Workspaces c) of
        Inl e \<Rightarrow> Inl e
      | Inr workspaces \<Rightarrow>
          Inr (c\<lparr>cg_DataDir := (if cg_DataDir c = [] then [] else absolute_from baseDir (cg_DataDir c)),
                 cg_Log := \<lparr>lg_Level = level\<rparr>, cg_Feishu := feishu, cg_Frontends := frontends,
                 cg_Codex := codex, cg_Claude := claude,
                 cg_DaemonServiceName :=
                   (if trim (cg_DaemonServiceName c) = [] then ''feidex'' else trim (cg_DaemonServiceName c)),
                 cg_Workspaces := workspaces\<rparr>)))))))"

definition ResolvedFrontends :: "Config option \<Rightarrow> ResolvedFrontend list" where
  "ResolvedFrontends config =
     (case config of
        None \<Rightarrow> []
      | Some c \<Rightarrow>
          if cg_Frontends c = [] then
            [\<lparr>rf_ID = DefaultFrontendID, rf_Backend = normalizeBackendName (fc_Backend (cg_Feishu c)),
              rf_Feishu = cg_Feishu c, rf_ConfigIndex = -1\<rparr>]
          else map (\<lambda>(i, f).
                 let feishu = (fe_Feishu f)\<lparr>fc_Backend := normalizeBackendName (fc_Backend (fe_Feishu f))\<rparr> in
                 \<lparr>rf_ID = trim (fe_ID f), rf_Backend = fc_Backend feishu, rf_Feishu = feishu,
                  rf_ConfigIndex = int i\<rparr>)
               (enumerate 0 (cg_Frontends c)))"

definition FindWorkspace :: "Config \<Rightarrow> string \<Rightarrow> WorkspaceConfig option" where
  "FindWorkspace cfg i = find (\<lambda>w. wk_ID w = i) (cg_Workspaces cfg)"

end
