(* ===== verification/Configuration_Store.thy ===== *)
theory Configuration_Store
  imports Configuration Store_Commit Model_Settings
begin

text \<open>
  The repositories on the configuration file: \<open>internal/adapter/config\<close> (\<open>workspaces.go,
  document.go, runtime.go, backend.go, model_options.go, model_defaults.go,
  workspace_settings.go\<close>) and the services over them (\<open>application/workspace/configuration.go,
  settings.go\<close>, \<open>application/runtimeconfig\<close>, \<open>application/backendconfig\<close>).

  Every operation changes a copy, brings it to its normal form, writes the file and only then
  publishes the copy; it holds the lock of the configuration throughout, so it is one step. The
  file is a parameter: its path, and the error of a write.
\<close>

record file_ports =
  fp_Path :: string
  fp_Save :: "Config \<Rightarrow> string option"
  fp_Index :: int

type_synonym 'a saved = "Config \<times> (config_error + 'a)"

text \<open>The last steps of every operation. Some write only when there is a path.\<close>

definition save_config :: "file_ports \<Rightarrow> bool \<Rightarrow> Config \<Rightarrow> config_error option" where
  "save_config p always n =
     (if \<not> always \<and> fp_Path p = [] then None else map_option ConfigNotSaved (fp_Save p n))"

definition publish :: "file_ports \<Rightarrow> bool \<Rightarrow> Config \<Rightarrow> Config \<Rightarrow> (Config \<Rightarrow> 'a) \<Rightarrow> 'a saved" where
  "publish p always cfg candidate result =
     (case Normalize_config (Dir (fp_Path p)) candidate of
        Inl e \<Rightarrow> (cfg, Inl e)
      | Inr n \<Rightarrow> (case save_config p always n of Some e \<Rightarrow> (cfg, Inl e) | None \<Rightarrow> (n, Inr (result n))))"

section \<open>Workspaces (workspaces.go)\<close>

definition List_workspaces :: "Config \<Rightarrow> WorkspaceConfig list" where
  "List_workspaces cfg = cg_Workspaces cfg"

definition Get_workspace :: "string \<Rightarrow> Config \<Rightarrow> WorkspaceConfig option" where
  "Get_workspace i cfg = find (\<lambda>w. trim (wk_ID w) = trim i) (cg_Workspaces cfg)"

definition Create_workspace :: "file_ports \<Rightarrow> WorkspaceConfig \<Rightarrow> Config \<Rightarrow> WorkspaceConfig saved" where
  "Create_workspace p input cfg =
     (if FindWorkspace cfg (wk_ID input) \<noteq> None then (cfg, Inl (WorkspaceExists (wk_ID input)))
      else publish p True cfg (cfg\<lparr>cg_Workspaces := cg_Workspaces cfg @ [input]\<rparr>)
             (\<lambda>n. last (cg_Workspaces n)))"

text \<open>The workspace is changed in its place, and read there after the normal form was taken.\<close>

definition position :: "string \<Rightarrow> Config \<Rightarrow> nat" where
  "position i cfg = length (takeWhile (\<lambda>w. wk_ID w \<noteq> i) (cg_Workspaces cfg))"

definition Update_workspace ::
  "file_ports \<Rightarrow> string \<Rightarrow> (WorkspaceConfig \<Rightarrow> WorkspaceConfig) \<Rightarrow> Config \<Rightarrow> WorkspaceConfig saved" where
  "Update_workspace p i mutate cfg =
     (case FindWorkspace cfg i of
        None \<Rightarrow> (cfg, Inl (config_error.WorkspaceNotFound i))
      | Some w \<Rightarrow>
          publish p True cfg (cfg\<lparr>cg_Workspaces := (cg_Workspaces cfg)[position i cfg := mutate w]\<rparr>)
            (\<lambda>n. cg_Workspaces n ! position i cfg))"

definition Delete_workspace :: "file_ports \<Rightarrow> string \<Rightarrow> Config \<Rightarrow> string saved" where
  "Delete_workspace p id0 cfg =
     (let i = trim id0; rest = filter (\<lambda>w. trim (wk_ID w) \<noteq> i) (cg_Workspaces cfg) in
      if FindWorkspace cfg i = None then (cfg, Inl (config_error.WorkspaceNotFound i))
      else case find (\<lambda>w. wk_ID w \<noteq> []) rest of
        None \<Rightarrow> (cfg, Inl LastWorkspace)
      | Some fallback \<Rightarrow> publish p True cfg (cfg\<lparr>cg_Workspaces := rest\<rparr>) (\<lambda>_. wk_ID fallback))"

text \<open>The service trims the id and requires one (configuration.go).\<close>

definition service_Create :: "file_ports \<Rightarrow> WorkspaceConfig \<Rightarrow> Config \<Rightarrow> WorkspaceConfig saved" where
  "service_Create p input cfg =
     (let i = trim (wk_ID input) in
      if i = [] then (cfg, Inl WorkspaceIDMissing) else Create_workspace p (input\<lparr>wk_ID := i\<rparr>) cfg)"

definition service_Update ::
  "file_ports \<Rightarrow> string \<Rightarrow> (WorkspaceConfig \<Rightarrow> WorkspaceConfig) \<Rightarrow> Config \<Rightarrow> WorkspaceConfig saved" where
  "service_Update p id0 mutate cfg =
     (let i = trim id0 in
      if i = [] then (cfg, Inl WorkspaceIDMissing) else Update_workspace p i mutate cfg)"

definition service_Delete :: "file_ports \<Rightarrow> string \<Rightarrow> Config \<Rightarrow> string saved" where
  "service_Delete p id0 cfg =
     (let i = trim id0 in
      if i = [] then (cfg, Inl WorkspaceIDMissing) else Delete_workspace p i cfg)"

section \<open>Documents, preferences, the backend, the model list\<close>

definition UpdateConfig :: "file_ports \<Rightarrow> (Config \<Rightarrow> config_error + Config) \<Rightarrow> Config \<Rightarrow> unit saved" where
  "UpdateConfig p mutate cfg =
     (case mutate cfg of
        Inl e \<Rightarrow> (cfg, Inl e)
      | Inr candidate \<Rightarrow> publish p False cfg candidate (\<lambda>_. ()))"

text \<open>The settings of the frontend: its own entry, or the shared one without an entry.\<close>

definition on_frontend :: "int \<Rightarrow> (FeishuConfig \<Rightarrow> FeishuConfig) \<Rightarrow> Config \<Rightarrow> Config" where
  "on_frontend idx update cfg =
     (if 0 \<le> idx \<and> idx < int (length (cg_Frontends cfg))
      then cfg\<lparr>cg_Frontends := (cg_Frontends cfg)[nat idx :=
             (let f = cg_Frontends cfg ! nat idx in f\<lparr>fe_Feishu := update (fe_Feishu f)\<rparr>)]\<rparr>
      else cfg\<lparr>cg_Feishu := update (cg_Feishu cfg)\<rparr>)"

definition SetQuietMode :: "file_ports \<Rightarrow> string \<Rightarrow> Config \<Rightarrow> unit saved" where
  "SetQuietMode p mode cfg =
     (if mode = [] then (cfg, Inl QuietRequired)
      else case ParseQuietMode mode of
        Inl e \<Rightarrow> (cfg, Inl e)
      | Inr parsed \<Rightarrow>
          publish p False cfg (on_frontend (fp_Index p) (\<lambda>f. f\<lparr>fc_Quiet := parsed\<rparr>) cfg) (\<lambda>_. ()))"

definition SetAutoRetry :: "file_ports \<Rightarrow> bool \<Rightarrow> Config \<Rightarrow> unit saved" where
  "SetAutoRetry p enabled cfg =
     publish p False cfg (on_frontend (fp_Index p) (\<lambda>f. f\<lparr>fc_AutoRetry := enabled\<rparr>) cfg) (\<lambda>_. ())"

definition SetLogLevel :: "file_ports \<Rightarrow> string \<Rightarrow> Config \<Rightarrow> unit saved" where
  "SetLogLevel p level cfg =
     (if level = [] then (cfg, Inl LevelRequired)
      else publish p False cfg (cfg\<lparr>cg_Log := \<lparr>lg_Level = level\<rparr>\<rparr>) (\<lambda>_. ()))"

definition setBackendLocked :: "file_ports \<Rightarrow> string \<Rightarrow> Config \<Rightarrow> unit saved" where
  "setBackendLocked p target cfg =
     publish p False cfg (on_frontend (fp_Index p) (\<lambda>f. f\<lparr>fc_Backend := target\<rparr>) cfg) (\<lambda>_. ())"

definition service_SetBackend :: "file_ports \<Rightarrow> string \<Rightarrow> Config \<Rightarrow> unit saved" where
  "service_SetBackend p target0 cfg =
     (let target = NormalizeBackend target0 in
      if target = [] then (cfg, Inl BackendMissing) else setBackendLocked p (trim target) cfg)"

definition optionsForBackend :: "string \<Rightarrow> Config \<Rightarrow> string list" where
  "optionsForBackend backend cfg =
     (if backend = BackendCodex then cx_ModelOptions (cg_Codex cfg) else cl_ModelOptions (cg_Claude cfg))"

definition setOptionsForBackend :: "string \<Rightarrow> Config \<Rightarrow> string list \<Rightarrow> Config" where
  "setOptionsForBackend backend cfg options =
     (if backend = BackendCodex then cfg\<lparr>cg_Codex := (cg_Codex cfg)\<lparr>cx_ModelOptions := options\<rparr>\<rparr>
      else cfg\<lparr>cg_Claude := (cg_Claude cfg)\<lparr>cl_ModelOptions := options\<rparr>\<rparr>)"

definition UpdateModelOptions ::
  "file_ports \<Rightarrow> string \<Rightarrow> (string list \<Rightarrow> config_error + string list) \<Rightarrow> Config \<Rightarrow> unit saved" where
  "UpdateModelOptions p backend0 mutate =
     (let backend = trim backend0 in
      UpdateConfig p (\<lambda>cfg. case mutate (optionsForBackend backend cfg) of
        Inl e \<Rightarrow> Inl e
      | Inr options \<Rightarrow> Inr (setOptionsForBackend backend cfg options)))"

section \<open>Settings kept in the file and in the store\<close>

text \<open>
  The store commits first and the file is written by the commit's hook; when the hook fails the
  store is put back. The world of these operations is the store and the configuration.
\<close>

record commit_ports = file_ports +
  cp_now :: int
  cp_io :: "string option"
  cp_io2 :: "string option"

datatype commit_error = ConfigRefused config_error | StoreRefused store_error | DefaultsRefused defaults_error
  | NoProfile | ForeignSession | SettingRefused string | LifecycleRefused string

definition commit_with_file ::
  "('a) commit_ports_scheme \<Rightarrow> bool \<Rightarrow> Config \<Rightarrow> WorkspaceMutation \<Rightarrow> Store \<times> Config
     \<Rightarrow> (Store \<times> Config) \<times> commit_error option" where
  "commit_with_file p always n change = (\<lambda>(s, cfg).
     let err = save_config (file_ports.truncate p) always n in
     case CommitWorkspace (cp_now p) (cp_io p)
            (case err of None \<Rightarrow> None | Some (ConfigNotSaved e) \<Rightarrow> Some (Some e) | Some _ \<Rightarrow> Some (Some []))
            (cp_io2 p) s change of
       (s', Some e) \<Rightarrow> ((s', cfg), Some (StoreRefused e))
     | (s', None) \<Rightarrow> ((s', n), None))"

definition globalModelValues :: "Config \<Rightarrow> GlobalValues" where
  "globalModelValues cfg =
     \<lparr>gv_Model = cx_Model (cg_Codex cfg), gv_Effort = cx_ReasoningEffort (cg_Codex cfg),
      gv_PlanModel = cx_PlanModel (cg_Codex cfg), gv_PlanEffort = cx_PlanReasoningEffort (cg_Codex cfg),
      gv_ReviewModel = cx_ReviewModel (cg_Codex cfg), gv_SubagentModel = cx_SubagentModel (cg_Codex cfg),
      gv_SubagentEffort = cx_SubagentReasoningEffort (cg_Codex cfg),
      gv_ClaudeModel = cl_Model (cg_Claude cfg), gv_ClaudeEffort = cl_Effort (cg_Claude cfg),
      gv_ClaudeSmallModel = cl_SmallModel (cg_Claude cfg), gv_ClaudeSubagent = cl_SubagentModel (cg_Claude cfg),
      gv_SmallModel = []\<rparr>"

definition applyGlobalModelValues :: "Config \<Rightarrow> GlobalValues \<Rightarrow> Config" where
  "applyGlobalModelValues cfg v =
     cfg\<lparr>cg_Codex := (cg_Codex cfg)\<lparr>cx_Model := gv_Model v, cx_ReasoningEffort := gv_Effort v,
           cx_PlanModel := gv_PlanModel v, cx_PlanReasoningEffort := gv_PlanEffort v,
           cx_ReviewModel := gv_ReviewModel v, cx_SubagentModel := gv_SubagentModel v,
           cx_SubagentReasoningEffort := gv_SubagentEffort v\<rparr>,
         cg_Claude := (cg_Claude cfg)\<lparr>cl_Model := gv_ClaudeModel v, cl_Effort := gv_ClaudeEffort v,
           cl_SmallModel := gv_ClaudeSmallModel v, cl_SubagentModel := gv_ClaudeSubagent v\<rparr>\<rparr>"

definition own_profile :: "string \<Rightarrow> Store \<Rightarrow> BotProfile option" where
  "own_profile frontend0 s =
     (let frontend = (if trim frontend0 = [] then ''default'' else trim frontend0) in
      map_option snd (find (\<lambda>(_, p). bp_FrontendID p = frontend) (wst_Profiles (workspaceStateLocked s))))"

definition UpdateDefaults ::
  "('a) commit_ports_scheme \<Rightarrow> string \<Rightarrow> (DefaultsRevision \<Rightarrow> defaults_error + DefaultsRevision)
     \<Rightarrow> Store \<times> Config \<Rightarrow> (Store \<times> Config) \<times> commit_error option" where
  "UpdateDefaults p frontend mutate = (\<lambda>(s, cfg).
     case mutate \<lparr>df_Values = globalModelValues cfg, df_Profile = own_profile frontend s\<rparr> of
       Inl e \<Rightarrow> ((s, cfg), Some (DefaultsRefused e))
     | Inr revision \<Rightarrow>
         (case df_Profile revision of
            None \<Rightarrow> ((s, cfg), Some NoProfile)
          | Some profile \<Rightarrow>
              (case Normalize_config (Dir (fp_Path p)) (applyGlobalModelValues cfg (df_Values revision)) of
                 Inl e \<Rightarrow> ((s, cfg), Some (ConfigRefused e))
               | Inr n \<Rightarrow>
                   commit_with_file p False n
                     \<lparr>wm_Expected = workspaceStateLocked s, wm_Sessions = [], wm_Binding = None,
                      wm_Profiles = [profile]\<rparr> (s, cfg))))"

record SettingsRevision =
  sv_Workspace :: "WorkspaceConfig option"
  sv_Session :: "Session option"
  sv_Profile :: "BotProfile option"
  sv_AllowBypass :: bool

definition UpdateSettings ::
  "('a) commit_ports_scheme \<Rightarrow> string \<Rightarrow> string \<Rightarrow> string
     \<Rightarrow> (SettingsRevision \<Rightarrow> string + SettingsRevision)
     \<Rightarrow> Store \<times> Config \<Rightarrow> (Store \<times> Config) \<times> commit_error option" where
  "UpdateSettings p frontend key i mutate = (\<lambda>(s, cfg).
     if fst (ParseSessionKey key) \<noteq> frontend then ((s, cfg), Some ForeignSession)
     else case mutate \<lparr>sv_Workspace = FindWorkspace cfg i,
                 sv_Session = map_of (wst_Sessions (workspaceStateLocked s)) key,
                 sv_Profile = own_profile frontend s,
                 sv_AllowBypass = cl_DangerouslySkipPermissions (cg_Claude cfg)\<rparr> of
       Inl e \<Rightarrow> ((s, cfg), Some (SettingRefused e))
     | Inr revision \<Rightarrow>
         (let candidate = (case sv_Workspace revision of
                Some w \<Rightarrow> cfg\<lparr>cg_Workspaces := (cg_Workspaces cfg)[position i cfg := w]\<rparr>
              | None \<Rightarrow> cfg) in
          case Normalize_config (Dir (fp_Path p)) candidate of
            Inl e \<Rightarrow> ((s, cfg), Some (ConfigRefused e))
          | Inr n \<Rightarrow>
              commit_with_file p True n
                \<lparr>wm_Expected = workspaceStateLocked s, wm_Sessions = [], wm_Binding = None,
                 wm_Profiles = (case sv_Profile revision of None \<Rightarrow> [] | Some x \<Rightarrow> [x])\<rparr> (s, cfg)))"

text \<open>The setting of a workspace; in a private chat the profile follows (settings.go).\<close>

definition workspace_value :: "bool \<Rightarrow> Setting \<Rightarrow> string \<Rightarrow> string + string" where
  "workspace_value allowBypass setting raw =
     (let value = trim raw;
          choice = (\<lambda>options. if value = [] \<and> setting \<noteq> MultiAgent \<or> value \<in> set options then Inr value
                              else Inl ''unsupported value'') in
      case setting of
        Permissions \<Rightarrow>
          if value \<in> {''inherit'', ''follow'', ''clear'', ''unset''} then Inr []
          else if value \<in> {[], ''default'', ''acceptEdits''} then Inr value
          else if value = ''bypassPermissions'' then (if allowBypass then Inr value else Inl ''bypass not allowed'')
          else Inl ''unsupported permission mode''
      | Sandbox \<Rightarrow> choice SandboxOptions
      | ApprovalPolicy \<Rightarrow> choice ApprovalPolicyOptions
      | MultiAgent \<Rightarrow> choice MultiAgentModeOptions
      | _ \<Rightarrow> Inl ''unsupported workspace setting'')"

definition set_workspace_field :: "Setting \<Rightarrow> string \<Rightarrow> WorkspaceConfig \<Rightarrow> WorkspaceConfig" where
  "set_workspace_field setting value w =
     (case setting of
        Sandbox \<Rightarrow> w\<lparr>wk_SandboxMode := value\<rparr>
      | ApprovalPolicy \<Rightarrow> w\<lparr>wk_ApprovalPolicy := value\<rparr>
      | MultiAgent \<Rightarrow> w\<lparr>wk_MultiAgentMode := value\<rparr>
      | Permissions \<Rightarrow> w\<lparr>wk_ClaudePermissionMode := value\<rparr>
      | _ \<Rightarrow> w)"

definition set_profile_field :: "Setting \<Rightarrow> string \<Rightarrow> BotProfile \<Rightarrow> BotProfile" where
  "set_profile_field setting value p =
     (case setting of
        Sandbox \<Rightarrow> p\<lparr>bp_SandboxMode := value\<rparr>
      | ApprovalPolicy \<Rightarrow> p\<lparr>bp_ApprovalPolicy := value\<rparr>
      | MultiAgent \<Rightarrow> p\<lparr>bp_MultiAgentMode := value\<rparr>
      | Permissions \<Rightarrow> p\<lparr>bp_ClaudePermissionMode := value\<rparr>
      | _ \<Rightarrow> p)"

definition Set_workspace ::
  "('a) commit_ports_scheme \<Rightarrow> string \<Rightarrow> string \<Rightarrow> string \<Rightarrow> string \<Rightarrow> Setting \<Rightarrow> string
     \<Rightarrow> Store \<times> Config \<Rightarrow> (Store \<times> Config) \<times> commit_error option" where
  "Set_workspace p frontend0 scope key i setting raw =
     (let frontend = (if trim frontend0 = [] then ''default'' else frontend0) in
      UpdateSettings p scope key i (\<lambda>revision.
        case workspace_value (sv_AllowBypass revision) setting raw of
          Inl e \<Rightarrow> Inl e
        | Inr value \<Rightarrow>
            (case sv_Workspace revision of
               None \<Rightarrow> Inl ''workspace not found''
             | Some w \<Rightarrow>
                 let profile = (case sv_Profile revision of
                       Some x \<Rightarrow> x
                     | None \<Rightarrow> zero_BotProfile\<lparr>bp_ID := ''bot-profile-'' @ ProfileID frontend,
                                              bp_FrontendID := frontend\<rparr>) in
                 Inr (revision\<lparr>sv_Workspace := Some (set_workspace_field setting value w),
                   sv_Profile :=
                     (if (case sv_Session revision of Some sess \<Rightarrow> ss_ChatType sess = ''p2p'' | None \<Rightarrow> False)
                      then Some (set_profile_field setting value profile) else sv_Profile revision)\<rparr>))))"

end
