(* ===== verification/Workspace_Lifecycle.thy ===== *)
theory Workspace_Lifecycle
  imports Configuration_Store Workspace_Selection Store_Invariants
begin

text \<open>
  Switching, creating and deleting workspaces: \<open>application/workspace/lifecycle.go\<close> and its
  repository \<open>adapter/config/workspace_lifecycle.go\<close>, which commits the store and the
  configuration file together. Workspaces are machine-wide: a deletion looks at the sessions,
  bindings and profiles of every frontend.

  The world is the desk, whose gateway holds the store, and the configuration.
\<close>

section \<open>State and change\<close>

record LifecycleState =
  ls_Sessions :: "Session list"
  ls_Bindings :: "AgentBinding list"
  ls_Profiles :: "BotProfile list"

record LifecycleChange =
  lc_Expected :: LifecycleState
  lc_Sessions :: "Session list"
  lc_Binding :: "AgentBinding option"
  lc_Profiles :: "BotProfile list"
  lc_DeleteWorkspace :: string
  lc_FallbackWorkspace :: string

record LifecycleEffects =
  le_ClearLiveThreads :: "string list"
  le_Session :: "Session option"
  le_Binding :: "AgentBinding option"
  le_Workspace :: "WorkspaceConfig option"

record SwitchRequest =
  sw_Session :: "Session option"
  sw_WorkspaceID :: string
  sw_Binding :: "AgentBinding option"
  sw_Unbind :: bool

datatype blocked_reason = TaskRunning | InputWaiting

datatype lifecycle_error =
    SwitchBlocked blocked_reason | NotBound | NoWorkspaceID | UnknownWorkspace string
  | ForeignSessionKey | ForeignBinding | OnlyWorkspace | CurrentWorkspace | WorkspaceBusy string
  | WorkspaceBound string | StateNotStored store_error | ConfigurationMoved | NotCreated config_error
  | NilStore

type_synonym lifecycle_world = "Desk \<times> Config"

text \<open>The text of an error of the configuration is what the commit reports when its hook fails.\<close>

record lifecycle_ports = commit_ports +
  lw_Selection :: selection
  lw_Frontend :: string
  lw_ErrorText :: "config_error \<Rightarrow> string"

section \<open>The repository (workspace\_lifecycle.go)\<close>

definition lifecycle_state :: "Store \<Rightarrow> LifecycleState" where
  "lifecycle_state st =
     (let s = workspaceStateLocked st in
      \<lparr>ls_Sessions = map snd (wst_Sessions s), ls_Bindings = map snd (wst_Bindings s),
       ls_Profiles = map snd (wst_Profiles s)\<rparr>)"

definition by_key :: "('a \<Rightarrow> string) \<Rightarrow> 'a list \<Rightarrow> 'a table" where
  "by_key f xs = fold (\<lambda>x. AList.update (f x) x) xs []"

definition expected_state :: "LifecycleState \<Rightarrow> WorkspaceState" where
  "expected_state s =
     \<lparr>wst_Sessions = by_key ss_Key (ls_Sessions s), wst_Bindings = by_key ab_ID (ls_Bindings s),
      wst_Profiles = by_key bp_ID (ls_Profiles s)\<rparr>"

definition selection_key :: "string \<Rightarrow> bool" where
  "selection_key key \<longleftrightarrow> Sublist.suffix '':workspace'' key \<or> sublist '':workspace:'' key"

text \<open>A deletion keeps keys and threads as they are: they may belong to another frontend.\<close>

definition committed_session :: "ScopedStore \<Rightarrow> string \<Rightarrow> Session \<Rightarrow> Session" where
  "committed_session scope deleted sess =
     (let cp = (if deleted = [] \<and> \<not> sublist '':workspace'' (ss_Key sess)
                then sess\<lparr>ss_Key := CanonicalSessionKey (sc_frontendID scope) (ss_Key sess)\<rparr> else sess) in
      if deleted = [] \<and> sc_backend scope \<noteq> [] \<and> \<not> selection_key (ss_Key cp)
      then StoreBackendThread cp (sc_backend scope) else cp)"

definition Commit_lifecycle ::
  "('a) lifecycle_ports_scheme \<Rightarrow> LifecycleChange \<Rightarrow> lifecycle_world \<Rightarrow> lifecycle_world \<times> lifecycle_error option" where
  "Commit_lifecycle p change = (\<lambda>(w, cfg).
     case sc_store (dk_app w) of
       None \<Rightarrow> ((w, cfg), Some NilStore)
     | Some st \<Rightarrow>
         let i = lc_DeleteWorkspace change;
             mutation = \<lparr>wm_Expected = expected_state (lc_Expected change),
               wm_Sessions = map (committed_session (dk_app w) i) (lc_Sessions change),
               wm_Binding = lc_Binding change, wm_Profiles = lc_Profiles change\<rparr>;
             put = (\<lambda>st. w\<lparr>dk_app := (dk_app w)\<lparr>sc_store := Some st\<rparr>\<rparr>);
             run = (\<lambda>hook n. case CommitWorkspace (cp_now p) (cp_io p) hook (cp_io2 p) st mutation of
                       (st', Some e) \<Rightarrow> ((put st', cfg), Some (StateNotStored e))
                     | (st', None) \<Rightarrow> ((put st', n), None)) in
         if i = [] then run None cfg
         else if FindWorkspace cfg i = None then ((w, cfg), Some (UnknownWorkspace i))
         else if length (cg_Workspaces cfg) \<le> 1 then ((w, cfg), Some OnlyWorkspace)
         else if FindWorkspace cfg (lc_FallbackWorkspace change) = None then ((w, cfg), Some ConfigurationMoved)
         else
           let candidate = cfg\<lparr>cg_Workspaces := filter (\<lambda>x. wk_ID x \<noteq> i) (cg_Workspaces cfg)\<rparr> in
           (case Normalize_config (Dir (fp_Path p)) candidate of
              Inl e \<Rightarrow> run (Some (Some (lw_ErrorText p e))) cfg
            | Inr n \<Rightarrow> run (Some (fp_Save p n)) n))"

section \<open>Switching (lifecycle.go)\<close>

definition SwitchBlockedReason :: "Session option \<Rightarrow> bool \<Rightarrow> blocked_reason option" where
  "SwitchBlockedReason session hasInFlight =
     (case session of
        None \<Rightarrow> None
      | Some sess \<Rightarrow>
          if hasInFlight \<or> HasActiveWork (Some sess) then Some TaskRunning
          else if ss_Queue sess \<noteq> [] \<or> ss_StagedImages sess \<noteq> [] then Some InputWaiting
          else None)"

text \<open>The session as it is stored now, when it still is.\<close>

definition latest_session :: "LifecycleState \<Rightarrow> Session \<Rightarrow> Session" where
  "latest_session state sess =
     (case find (\<lambda>s. ss_Key s = ss_Key sess) (ls_Sessions state) of Some s \<Rightarrow> s | None \<Rightarrow> sess)"

definition switch_target ::
  "SwitchRequest \<Rightarrow> Config \<Rightarrow> lifecycle_error + (string \<times> WorkspaceConfig option)" where
  "switch_target req cfg =
     (let i = trim (sw_WorkspaceID req) in
      if sw_Unbind req then
        (case sw_Binding req of
           None \<Rightarrow> Inl NotBound
         | Some b \<Rightarrow> if trim (ab_WorkspaceID b) = [] then Inl NotBound else Inr ([], None))
      else if i = [] then Inl NoWorkspaceID
      else case Get_workspace i cfg of None \<Rightarrow> Inl (UnknownWorkspace i) | Some ws \<Rightarrow> Inr (i, Some ws))"

definition switched_session ::
  "('a) lifecycle_ports_scheme \<Rightarrow> bool \<Rightarrow> string \<Rightarrow> Session \<Rightarrow> Desk \<Rightarrow> Session \<times> Session list \<times> BotProfile list" where
  "switched_session p grouped i sess w =
     (let candidate = SwitchSessionWorkspace sess i in
      case (if grouped then None
            else selection_transition (lw_Selection p) (ss_ChatType candidate) (ss_ChatID candidate)
                   (ss_OwnerUserID candidate) i w) of
        None \<Rightarrow> (candidate, [candidate], [])
      | Some (selected, profile) \<Rightarrow>
          (candidate, candidate # (if ss_Key selected \<noteq> ss_Key candidate then [selected] else []),
           case profile of None \<Rightarrow> [] | Some x \<Rightarrow> [x]))"

definition bound_workspace :: "LifecycleState \<Rightarrow> AgentBinding \<Rightarrow> string \<Rightarrow> bool \<Rightarrow> AgentBinding" where
  "bound_workspace state b i unbind =
     (let current_b = (case find (\<lambda>x. ab_ID x = ab_ID b) (ls_Bindings state) of Some x \<Rightarrow> x | None \<Rightarrow> b) in
      current_b\<lparr>ab_WorkspaceID := i, ab_Status := (if unbind then ''pending'' else ''active'')\<rparr>)"

definition Switch_workspace ::
  "('a) lifecycle_ports_scheme \<Rightarrow> SwitchRequest \<Rightarrow> lifecycle_world
     \<Rightarrow> lifecycle_world \<times> (lifecycle_error + LifecycleEffects)" where
  "Switch_workspace p req = (\<lambda>(w, cfg).
     case sc_store (dk_app w) of
       None \<Rightarrow> ((w, cfg), Inl NilStore)
     | Some st \<Rightarrow>
       let state = lifecycle_state st;
           bindingSelection = (sw_Binding req \<noteq> None \<and> \<not> sw_Unbind req);
           foreign = (case sw_Session req of
             None \<Rightarrow> False
           | Some s \<Rightarrow> let f = fst (ParseSessionKey (ss_Key s)) in f \<noteq> [] \<and> f \<noteq> lw_Frontend p);
           session = map_option (latest_session state) (sw_Session req);
           blocked = (if bindingSelection then None else SwitchBlockedReason session False) in
       if foreign then ((w, cfg), Inl ForeignSessionKey)
       else if blocked \<noteq> None then ((w, cfg), Inl (SwitchBlocked (the blocked)))
       else case switch_target req cfg of
         Inl e \<Rightarrow> ((w, cfg), Inl e)
       | Inr (i, ws) \<Rightarrow>
           let (moved, sessions, profiles) = (case session of
                  Some sess \<Rightarrow>
                    if bindingSelection then (None, [], [])
                    else map_prod Some id (switched_session p (sw_Binding req \<noteq> None) i sess w)
                | None \<Rightarrow> (None, [], []));
               binding = map_option (\<lambda>b. bound_workspace state b i (sw_Unbind req)) (sw_Binding req) in
           if (case sw_Binding req of
                 None \<Rightarrow> False
               | Some b \<Rightarrow> ab_FrontendID b \<noteq> [] \<and> ab_FrontendID b \<noteq> lw_Frontend p)
           then ((w, cfg), Inl ForeignBinding)
           else
             (case Commit_lifecycle p \<lparr>lc_Expected = state, lc_Sessions = sessions, lc_Binding = binding,
                     lc_Profiles = profiles, lc_DeleteWorkspace = [], lc_FallbackWorkspace = []\<rparr> (w, cfg) of
                (world, Some e) \<Rightarrow> (world, Inl e)
              | (world, None) \<Rightarrow>
                  (world, Inr \<lparr>le_ClearLiveThreads = (case moved of None \<Rightarrow> [] | Some s \<Rightarrow> [ss_Key s]),
                     le_Session = moved, le_Binding = binding, le_Workspace = ws\<rparr>)))"

text \<open>A workspace that was created stays when the switch to it fails.\<close>

definition CreateAndSwitch ::
  "('a) lifecycle_ports_scheme \<Rightarrow> SwitchRequest \<Rightarrow> WorkspaceConfig \<Rightarrow> lifecycle_world
     \<Rightarrow> lifecycle_world \<times> (lifecycle_error + LifecycleEffects)" where
  "CreateAndSwitch p req input = (\<lambda>(w, cfg).
     case SwitchBlockedReason (sw_Session req) False of
       Some reason \<Rightarrow> ((w, cfg), Inl (SwitchBlocked reason))
     | None \<Rightarrow>
         (case service_Create (file_ports.truncate p) input cfg of
            (cfg', Inl e) \<Rightarrow> ((w, cfg'), Inl (NotCreated e))
          | (cfg', Inr ws) \<Rightarrow> Switch_workspace p (req\<lparr>sw_WorkspaceID := wk_ID ws\<rparr>) (w, cfg')))"

section \<open>Deleting (lifecycle.go)\<close>

definition SessionReferencesWorkspace :: "Session \<Rightarrow> string \<Rightarrow> bool" where
  "SessionReferencesWorkspace sess i \<longleftrightarrow>
     trim (ss_WorkspaceID sess) = trim i \<or> trim (ss_ActiveThreadWorkspaceID sess) = trim i"

definition ReferencesWorkspace :: "Session \<Rightarrow> string \<Rightarrow> bool" where
  "ReferencesWorkspace sess i \<longleftrightarrow>
     SessionReferencesWorkspace sess i \<or>
     (\<exists>(b, thread)\<in>set (ss_BackendThreads sess). trim (bt_WorkspaceID thread) = trim i)"

definition deletion ::
  "('a) lifecycle_ports_scheme \<Rightarrow> string \<Rightarrow> string \<Rightarrow> Store \<Rightarrow> lifecycle_world
     \<Rightarrow> lifecycle_error + (LifecycleState \<times> string)" where
  "deletion p sessionKey id0 st = (\<lambda>(w, cfg).
     let i = trim id0; workspaces = List_workspaces cfg; state = lifecycle_state st in
     if i = [] then Inl NoWorkspaceID
     else if Get_workspace i cfg = None then Inl (UnknownWorkspace i)
     else if length workspaces \<le> 1 then Inl OnlyWorkspace
     else if i = ResolveSession_selection (lw_Selection p)
                   (find (\<lambda>s. ss_Key s = sessionKey) (ls_Sessions state)) w
     then Inl CurrentWorkspace
     else if \<exists>s\<in>set (ls_Sessions state). ReferencesWorkspace s i \<and> SwitchBlockedReason (Some s) False \<noteq> None
     then Inl (WorkspaceBusy i)
     else if \<exists>b\<in>set (ls_Bindings state). trim (ab_WorkspaceID b) = i then Inl (WorkspaceBound i)
     else case find (\<lambda>x. wk_ID x \<noteq> i) workspaces of
       None \<Rightarrow> Inl OnlyWorkspace
     | Some x \<Rightarrow> Inr (state, wk_ID x))"

definition ValidateDeletion ::
  "('a) lifecycle_ports_scheme \<Rightarrow> string \<Rightarrow> string \<Rightarrow> lifecycle_world \<Rightarrow> lifecycle_error option" where
  "ValidateDeletion p sessionKey i world =
     (case sc_store (dk_app (fst world)) of
        None \<Rightarrow> Some NilStore
      | Some st \<Rightarrow> (case deletion p sessionKey i st world of Inl e \<Rightarrow> Some e | Inr _ \<Rightarrow> None))"

text \<open>A session leaves the deleted workspace and forgets the threads it has there.\<close>

definition evicted :: "string \<Rightarrow> string \<Rightarrow> Session \<Rightarrow> Session" where
  "evicted i fallback sess =
     (let c = (if trim (ss_WorkspaceID sess) = i then SwitchSessionWorkspace sess fallback
               else if trim (ss_ActiveThreadWorkspaceID sess) = i then ClearThreadContext sess
               else sess) in
      fold (\<lambda>(backend, thread) c. if trim (bt_WorkspaceID thread) = i then ClearBackendThread c backend else c)
        (ss_BackendThreads c) c)"

definition deletion_change :: "LifecycleState \<Rightarrow> string \<Rightarrow> string \<Rightarrow> LifecycleChange" where
  "deletion_change state i fallback =
     \<lparr>lc_Expected = state,
      lc_Sessions = map (evicted i fallback) (filter (\<lambda>s. ReferencesWorkspace s i) (ls_Sessions state)),
      lc_Binding = None,
      lc_Profiles = map (\<lambda>x. x\<lparr>bp_WorkspaceID := fallback\<rparr>)
                      (filter (\<lambda>x. trim (bp_WorkspaceID x) = i) (ls_Profiles state)),
      lc_DeleteWorkspace = i, lc_FallbackWorkspace = fallback\<rparr>"

definition Delete_lifecycle ::
  "('a) lifecycle_ports_scheme \<Rightarrow> string \<Rightarrow> string \<Rightarrow> lifecycle_world
     \<Rightarrow> lifecycle_world \<times> (lifecycle_error + LifecycleEffects)" where
  "Delete_lifecycle p sessionKey id0 world =
     (case sc_store (dk_app (fst world)) of
        None \<Rightarrow> (world, Inl NilStore)
      | Some st \<Rightarrow>
          (case deletion p sessionKey id0 st world of
             Inl e \<Rightarrow> (world, Inl e)
           | Inr (state, fallback) \<Rightarrow>
               let change = deletion_change state (trim id0) fallback in
               (case Commit_lifecycle p change world of
                  (world', Some e) \<Rightarrow> (world', Inl e)
                | (world', None) \<Rightarrow>
                    (world', Inr \<lparr>le_ClearLiveThreads = map ss_Key (lc_Sessions change), le_Session = None,
                       le_Binding = None, le_Workspace = None\<rparr>))))"

text \<open>A binding that was scheduled is dropped when the session has moved on since.\<close>

definition BindingCandidate ::
  "string \<Rightarrow> string \<Rightarrow> lifecycle_world \<Rightarrow> lifecycle_error + (Session \<times> WorkspaceConfig) option" where
  "BindingCandidate sessionKey workspaceID = (\<lambda>(w, cfg).
     case sc_store (dk_app w) of
       None \<Rightarrow> Inl NilStore
     | Some st \<Rightarrow>
         (case find (\<lambda>s. ss_Key s = sessionKey) (ls_Sessions (lifecycle_state st)) of
            None \<Rightarrow> Inr None
          | Some sess \<Rightarrow>
              if SwitchBlockedReason (Some sess) False \<noteq> None \<or>
                 trim (ss_WorkspaceID sess) \<noteq> trim workspaceID \<or>
                 trim (ss_ActiveThreadID sess) \<noteq> [] \<and> trim (ss_ActiveThreadWorkspaceID sess) = trim workspaceID
              then Inr None
              else Inr (map_option (\<lambda>ws. (sess, ws)) (Get_workspace workspaceID cfg))))"

section \<open>What a deletion leaves\<close>

abbreviation memory_sessions :: "Store \<Rightarrow> Session table" where
  "memory_sessions st \<equiv> rt_Sessions (st_runtime st)"

abbreviation written :: "int \<Rightarrow> Session \<Rightarrow> Session" where
  "written now x \<equiv> (normalizeSessionValues (cloneSession x))\<lparr>ss_UpdatedAt := now\<rparr>"

lemma put_normalized_sessions:
  "memory_sessions (put_normalized now x st) = AList.update (ss_Key x) (written now x) (memory_sessions st)"
  by (simp add: put_normalized_def syncPersistentSessionLocked_def put_session_def Let_def)

lemma put_all_sessions:
  assumes "distinct (map fst (memory_sessions st))"
  shows "distinct (map fst (memory_sessions (fold (put_normalized now) xs st)))"
    "(k, v) \<in> set (memory_sessions (fold (put_normalized now) xs st)) \<Longrightarrow>
     (\<exists>x\<in>set xs. ss_Key x = k \<and> v = written now x) \<or>
     k \<notin> ss_Key ` set xs \<and> (k, v) \<in> set (memory_sessions st)"
proof -
  have "distinct (map fst (memory_sessions (fold (put_normalized now) xs st))) \<and>
    ((k, v) \<in> set (memory_sessions (fold (put_normalized now) xs st)) \<longrightarrow>
     (\<exists>x\<in>set xs. ss_Key x = k \<and> v = written now x) \<or>
     k \<notin> ss_Key ` set xs \<and> (k, v) \<in> set (memory_sessions st))"
    using assms
  proof (induction xs arbitrary: st)
    case (Cons x xs)
    let ?t = "put_normalized now x st"
    have d: "distinct (map fst (memory_sessions ?t))"
      using Cons.prems by (simp only: put_normalized_sessions distinct_update)
    have "(k, v) \<in> set (memory_sessions ?t) \<Longrightarrow>
        ss_Key x = k \<and> v = written now x \<or> k \<noteq> ss_Key x \<and> (k, v) \<in> set (memory_sessions st)"
      unfolding put_normalized_sessions set_update [OF Cons.prems] by (auto split: if_splits)
    with Cons.IH [OF d] show ?case by (simp only: fold_simps list.set) blast
  qed simp
  then show "distinct (map fst (memory_sessions (fold (put_normalized now) xs st)))"
    "(k, v) \<in> set (memory_sessions (fold (put_normalized now) xs st)) \<Longrightarrow>
     (\<exists>x\<in>set xs. ss_Key x = k \<and> v = written now x) \<or>
     k \<notin> ss_Key ` set xs \<and> (k, v) \<in> set (memory_sessions st)" by blast+
qed

text \<open>The store's copies of a session refer to the same workspaces.\<close>

lemma fill_context_workspaces [simp]:
  "ss_WorkspaceID (fill_context x) = ss_WorkspaceID x"
  "ss_ActiveThreadWorkspaceID (fill_context x) = ss_ActiveThreadWorkspaceID x"
  by (simp_all add: fill_context_def split: option.split)

lemma normalized_workspaces [simp]:
  "ss_WorkspaceID (normalizeSessionValues x) = ss_WorkspaceID x"
  "ss_ActiveThreadWorkspaceID (normalizeSessionValues x) = ss_ActiveThreadWorkspaceID x"
  "ss_WorkspaceID (cloneSession x) = ss_WorkspaceID x"
  "ss_ActiveThreadWorkspaceID (cloneSession x) = ss_ActiveThreadWorkspaceID x"
  by (simp_all add: normalizeSessionValues_def cloneSession_def Let_def)

definition thread_workspaces :: "Session \<Rightarrow> string set" where
  "thread_workspaces x = (\<lambda>(b, thread). trim (bt_WorkspaceID thread)) ` set (ss_BackendThreads x)"

lemma ReferencesWorkspace_iff:
  "ReferencesWorkspace x i \<longleftrightarrow>
     trim i \<in> {trim (ss_WorkspaceID x), trim (ss_ActiveThreadWorkspaceID x)} \<union> thread_workspaces x"
  unfolding ReferencesWorkspace_def SessionReferencesWorkspace_def thread_workspaces_def by force

lemma thread_workspaces_clone [simp]: "thread_workspaces (cloneSession x) = thread_workspaces x"
  by (auto simp: thread_workspaces_def cloneSession_def normalizeSessionBackendThread_def image_image
      case_prod_beta)

lemma threads_normalized:
  "thread \<in> snd ` set (normalizeSessionBackendThreads src) \<Longrightarrow>
   \<exists>b t. (b, t) \<in> set src \<and> trim (bt_WorkspaceID thread) = trim (bt_WorkspaceID t)"
proof -
  let ?f = "\<lambda>(key0, value) dst.
             let key = to_lower (trim key0); normalized = normalizeSessionBackendThread value in
             if key = [] then dst
             else if normalized = zero_SessionBackendThread then dst
             else AList.update key normalized dst"
  have up: "b = v \<or> (\<exists>c. (c, b) \<in> set t)" if "(a, b) \<in> set (AList.update k v t)"
    for a k :: string and b v :: SessionBackendThread and t
    using that by (induction t) (auto split: if_splits)
  have "snd ` set (fold ?f src dst) \<subseteq> snd ` set dst \<union> normalizeSessionBackendThread ` snd ` set src" for dst
  proof (induction src arbitrary: dst)
    case (Cons e src)
    have "(\<exists>c. (c, b) \<in> set dst) \<or> b = normalizeSessionBackendThread (snd e)" if "(a, b) \<in> set (?f e dst)"
      for a b using that up [of a b] by (cases e) (auto simp: Let_def split: if_splits)
    then have "snd ` set (?f e dst) \<subseteq> snd ` set dst \<union> {normalizeSessionBackendThread (snd e)}"
      by force
    with Cons.IH [of "?f e dst"] show ?case by (simp only: fold_simps list.set image_insert) blast
  qed simp
  from this [of "[]"] show "thread \<in> snd ` set (normalizeSessionBackendThreads src) \<Longrightarrow>
      \<exists>b t. (b, t) \<in> set src \<and> trim (bt_WorkspaceID thread) = trim (bt_WorkspaceID t)"
    unfolding normalizeSessionBackendThreads_def
    by (force simp: normalizeSessionBackendThread_def)
qed

lemma thread_workspaces_normalized: "thread_workspaces (normalizeSessionValues x) \<subseteq> thread_workspaces x"
proof
  fix i
  assume "i \<in> thread_workspaces (normalizeSessionValues x)"
  moreover have "ss_BackendThreads (fill_context y) = ss_BackendThreads y" for y
    by (simp add: fill_context_def split: option.split)
  ultimately obtain b thread where i: "(b, thread) \<in> set (normalizeSessionBackendThreads (ss_BackendThreads x))"
      "i = trim (bt_WorkspaceID thread)"
    by (auto simp: thread_workspaces_def normalizeSessionValues_def Let_def)
  then obtain b' t where "(b', t) \<in> set (ss_BackendThreads x)"
      "trim (bt_WorkspaceID thread) = trim (bt_WorkspaceID t)"
    using threads_normalized [of thread "ss_BackendThreads x"] by force
  then show "i \<in> thread_workspaces x" unfolding thread_workspaces_def i(2) by force
qed

lemma thread_workspaces_written: "thread_workspaces (written now x) \<subseteq> thread_workspaces x"
proof -
  have "thread_workspaces (written now x) = thread_workspaces (normalizeSessionValues (cloneSession x))"
    by (simp add: thread_workspaces_def)
  then show ?thesis using thread_workspaces_normalized [of "cloneSession x"] by (simp only: thread_workspaces_clone)
qed

lemma written_references: "ReferencesWorkspace (written now x) i \<Longrightarrow> ReferencesWorkspace x i"
  using thread_workspaces_written [of now x] unfolding ReferencesWorkspace_iff
  by (auto simp del: thread_workspaces_clone)

lemma clone_references [simp]: "ReferencesWorkspace (cloneSession x) i = ReferencesWorkspace x i"
  by (simp add: ReferencesWorkspace_iff)

text \<open>Leaving a workspace.\<close>

abbreviation drop_thread :: "string \<Rightarrow> string \<times> SessionBackendThread \<Rightarrow> Session \<Rightarrow> Session" where
  "drop_thread i \<equiv> \<lambda>(backend, thread) c. if trim (bt_WorkspaceID thread) = i then ClearBackendThread c backend else c"

lemma ClearBackendThread_fields [simp]:
  "ss_WorkspaceID (ClearBackendThread c b) = ss_WorkspaceID c"
  "ss_ActiveThreadWorkspaceID (ClearBackendThread c b) = ss_ActiveThreadWorkspaceID c"
  "ss_Key (ClearBackendThread c b) = ss_Key c"
  by (simp_all add: ClearBackendThread_def Let_def)

lemma ClearBackendThread_threads:
  "set (ss_BackendThreads (ClearBackendThread c b)) \<subseteq> set (ss_BackendThreads c)"
  "normalizeBackend b = b \<Longrightarrow> b \<noteq> [] \<Longrightarrow> (b, t) \<notin> set (ss_BackendThreads (ClearBackendThread c b))"
  by (auto simp: ClearBackendThread_def Let_def AList.delete_eq)

lemma drop_thread_fields [simp]:
  "ss_WorkspaceID (drop_thread i e c) = ss_WorkspaceID c"
  "ss_ActiveThreadWorkspaceID (drop_thread i e c) = ss_ActiveThreadWorkspaceID c"
  "ss_Key (drop_thread i e c) = ss_Key c"
  by (simp_all split: prod.split)

lemma drop_threads_fields [simp]:
  "ss_WorkspaceID (fold (drop_thread i) ts c) = ss_WorkspaceID c"
  "ss_ActiveThreadWorkspaceID (fold (drop_thread i) ts c) = ss_ActiveThreadWorkspaceID c"
  "ss_Key (fold (drop_thread i) ts c) = ss_Key c"
  by (induction ts arbitrary: c) (simp_all del: fold_simps add: fold_Cons)

lemma drop_threads_shrink: "set (ss_BackendThreads (fold (drop_thread i) ts c)) \<subseteq> set (ss_BackendThreads c)"
proof (induction ts arbitrary: c)
  case (Cons e ts)
  have "set (ss_BackendThreads (drop_thread i e c)) \<subseteq> set (ss_BackendThreads c)"
    using ClearBackendThread_threads(1) by (cases e) simp
  with Cons.IH [of "drop_thread i e c"] show ?case unfolding fold_simps by blast
qed simp

lemma drop_threads_gone:
  assumes "(b, t) \<in> set ts" "trim (bt_WorkspaceID t) = i" "normalizeBackend b = b" "b \<noteq> []"
  shows "(b, t') \<notin> set (ss_BackendThreads (fold (drop_thread i) ts c))"
  using assms(1)
proof (induction ts arbitrary: c)
  case (Cons e ts)
  show ?case
  proof (cases "e = (b, t)")
    case True
    then have "(b, t') \<notin> set (ss_BackendThreads (drop_thread i e c))"
      using assms(2) ClearBackendThread_threads(2) [OF assms(3,4)] by simp
    with drop_threads_shrink [of i ts "drop_thread i e c"] show ?thesis unfolding fold_simps by blast
  next
    case False
    with Cons.prems have "(b, t) \<in> set ts" by simp
    from Cons.IH [OF this] show ?thesis unfolding fold_simps .
  qed
qed simp

lemma drop_threads_free:
  assumes "\<forall>(b, t)\<in>set (ss_BackendThreads c). normalizeBackend b = b \<and> b \<noteq> []"
  shows "i \<notin> thread_workspaces (fold (drop_thread i) (ss_BackendThreads c) c)"
proof
  assume "i \<in> thread_workspaces (fold (drop_thread i) (ss_BackendThreads c) c)"
  then obtain b t where bt: "(b, t) \<in> set (ss_BackendThreads (fold (drop_thread i) (ss_BackendThreads c) c))"
      "trim (bt_WorkspaceID t) = i"
    by (auto simp: thread_workspaces_def)
  then have "(b, t) \<in> set (ss_BackendThreads c)" using drop_threads_shrink by blast
  with bt drop_threads_gone [OF this bt(2)] assms show False by blast
qed

lemma SwitchSessionWorkspace_idle:
  assumes "\<not> HasActiveWork (Some s)"
  shows "ss_WorkspaceID (SwitchSessionWorkspace s v) = trim v"
    "ss_ActiveThreadWorkspaceID (SwitchSessionWorkspace s v) = []"
    "ss_BackendThreads (SwitchSessionWorkspace s v) = []" "ss_Key (SwitchSessionWorkspace s v) = ss_Key s"
proof -
  let ?t = "trackRecentWorkspace (s\<lparr>ss_WorkspaceID := trim v\<rparr>) (trim v)"
  have "\<not> HasActiveOperations (Some s)" using assms by (auto simp: HasActiveWork_def)
  then have "\<not> HasInFlightSubmission (Some ?t)" by (simp add: HasInFlightSubmission_iff HasActiveOperations_iff)
  then have e: "SwitchSessionWorkspace s v = ClearThreadContext (ClearBackendThreads (EnsureActiveOperations ?t))"
    by (simp add: SwitchSessionWorkspace_def)
  show "ss_WorkspaceID (SwitchSessionWorkspace s v) = trim v"
    "ss_ActiveThreadWorkspaceID (SwitchSessionWorkspace s v) = []"
    "ss_BackendThreads (SwitchSessionWorkspace s v) = []" "ss_Key (SwitchSessionWorkspace s v) = ss_Key s"
    unfolding e by (simp_all add: ClearThreadContext_def ClearBackendThreads_def EnsureActiveOperations_def
        trackRecentWorkspace_def Let_def)
qed

lemma evicted_key [simp]: "\<not> HasActiveWork (Some s) \<Longrightarrow> ss_Key (evicted i v s) = ss_Key s"
  by (simp add: evicted_def Let_def SwitchSessionWorkspace_idle ClearThreadContext_def)

lemma evicted_free:
  assumes "\<not> HasActiveWork (Some s)" "trim i = i" "i \<noteq> []" "trim v \<noteq> i"
    "\<forall>(b, t)\<in>set (ss_BackendThreads s). normalizeBackend b = b \<and> b \<noteq> []"
  shows "\<not> ReferencesWorkspace (evicted i v s) i"
proof -
  define c where "c = (if trim (ss_WorkspaceID s) = i then SwitchSessionWorkspace s v
               else if trim (ss_ActiveThreadWorkspaceID s) = i then ClearThreadContext s else s)"
  note sw = SwitchSessionWorkspace_idle [OF assms(1), of v]
  have fields: "trim (ss_WorkspaceID c) \<noteq> i" "trim (ss_ActiveThreadWorkspaceID c) \<noteq> i"
    using assms(2-4) by (simp_all add: c_def sw ClearThreadContext_def)
  have "ss_BackendThreads c = [] \<or> ss_BackendThreads c = ss_BackendThreads s"
    by (simp add: c_def sw ClearThreadContext_def)
  then have "\<forall>(b, t)\<in>set (ss_BackendThreads c). normalizeBackend b = b \<and> b \<noteq> []"
    using assms(5) by auto
  from drop_threads_free [OF this, of i] fields show ?thesis
    unfolding ReferencesWorkspace_iff assms(2) evicted_def c_def [symmetric] Let_def by simp
qed

text \<open>What the commit writes.\<close>

lemma CommitWorkspace_writes:
  assumes "CommitWorkspace now io hook io2 st m = (st', None)" "current st"
  shows "st_data st' = st_data (workspace_change now m st)"
    "st_runtime st' = st_runtime (workspace_change now m st)" "\<And>e. hook \<noteq> Some (Some e)"
proof -
  have c: "current (workspace_change now m st)" using workspace_change_frame(3) assms(2) by simp
  have "st_data st' = st_data (workspace_change now m st) \<and>
      st_runtime st' = st_runtime (workspace_change now m st) \<and> (\<forall>e. hook \<noteq> Some (Some e))"
    using assms(1) by (cases io; cases hook; cases "the hook"; cases io2)
      (auto simp: CommitWorkspace_def Let_def saveLocked_current [OF c] split: if_splits prod.splits option.splits)
  then show "st_data st' = st_data (workspace_change now m st)"
    "st_runtime st' = st_runtime (workspace_change now m st)" "\<And>e. hook \<noteq> Some (Some e)" by blast+
qed

lemma put_profiles_runtime [simp]: "st_runtime (fold (put_profile now) ps st) = st_runtime st"
  using put_profiles_frame [of now ps st] by auto

lemma put_profiles_bindings [simp]:
  "db_AgentBindings (st_data (fold (put_profile now) ps st)) = db_AgentBindings (st_data st)"
  using put_profiles_frame [of now ps st] by auto

lemma put_all_data [simp]:
  "db_AgentBindings (st_data (fold (put_normalized now) xs st)) = db_AgentBindings (st_data st)"
  "db_BotProfiles (st_data (fold (put_normalized now) xs st)) = db_BotProfiles (st_data st)"
  using put_all_frame [of now xs st] by auto

lemma put_binding_None [simp]: "put_binding now None st = st"
  by (simp add: put_binding_def)

lemma put_profile_table:
  "\<exists>p. db_BotProfiles (st_data (put_profile now x st)) =
       AList.update (trim (bp_ID x)) p (db_BotProfiles (st_data st)) \<and>
     bp_WorkspaceID p = trim (bp_WorkspaceID x)"
proof -
  define c where "c = cloneBotProfile x"
  define p where "p = (if bp_CreatedAt c = 0 then c\<lparr>bp_CreatedAt := now\<rparr> else c)\<lparr>bp_UpdatedAt := now\<rparr>"
  have "bp_ID p = trim (bp_ID x)" "bp_WorkspaceID p = trim (bp_WorkspaceID x)"
    by (simp_all add: p_def c_def cloneBotProfile_def normalizeBotProfileValues_def)
  moreover have "db_BotProfiles (st_data (put_profile now x st)) = AList.update (bp_ID p) p (db_BotProfiles (st_data st))"
    by (simp add: put_profile_def Let_def p_def c_def)
  ultimately show ?thesis by metis
qed

lemma put_profiles_lookup:
  assumes "distinct (map fst (db_BotProfiles (st_data st)))"
    "(k, v) \<in> set (db_BotProfiles (st_data (fold (put_profile now) xs st)))"
  shows "(\<exists>x\<in>set xs. bp_WorkspaceID v = trim (bp_WorkspaceID x)) \<or>
     k \<notin> (\<lambda>x. trim (bp_ID x)) ` set xs \<and> (k, v) \<in> set (db_BotProfiles (st_data st))"
  using assms
proof (induction xs arbitrary: st)
  case (Cons x xs)
  let ?t = "put_profile now x st"
  obtain p where p: "db_BotProfiles (st_data ?t) = AList.update (trim (bp_ID x)) p (db_BotProfiles (st_data st))"
      "bp_WorkspaceID p = trim (bp_WorkspaceID x)"
    using put_profile_table by blast
  have d: "distinct (map fst (db_BotProfiles (st_data ?t)))"
    using Cons.prems(1) by (simp only: p(1) distinct_update)
  have "bp_WorkspaceID v = trim (bp_WorkspaceID x) \<or>
      k \<noteq> trim (bp_ID x) \<and> (k, v) \<in> set (db_BotProfiles (st_data st))" if "(k, v) \<in> set (db_BotProfiles (st_data ?t))"
    using that p(2) unfolding p(1) set_update [OF Cons.prems(1)] by (auto split: if_splits)
  with Cons.IH [OF d] Cons.prems(2) show ?case by (simp only: fold_simps list.set) blast
qed simp

lemma normalize_workspaces_ids:
  "normalize_workspaces baseDir seen ws = Inr ws' \<Longrightarrow> map wk_ID ws' = map (\<lambda>w. trim (wk_ID w)) ws"
proof (induction ws arbitrary: seen ws')
  case (Cons w ws)
  then show ?case
    by (fastforce simp: normalize_workspace_def Let_def split: sum.splits if_splits)
qed simp

lemma Normalize_config_workspaces:
  assumes "Normalize_config baseDir c = Inr n"
  shows "map wk_ID (cg_Workspaces n) = map (\<lambda>w. trim (wk_ID w)) (cg_Workspaces c)" "cg_Workspaces n \<noteq> []"
proof -
  obtain ws where n: "normalize_workspaces baseDir [] (cg_Workspaces c) = Inr ws" "cg_Workspaces n = ws"
      "cg_Workspaces c \<noteq> []"
    using assms by (auto simp: Normalize_config_def split: sum.splits if_splits)
  from normalize_workspaces_ids [OF n(1)] show "map wk_ID (cg_Workspaces n) = map (\<lambda>w. trim (wk_ID w)) (cg_Workspaces c)"
    by (simp add: n(2))
  with n(3) show "cg_Workspaces n \<noteq> []" by auto
qed

lemma Commit_deletion_writes:
  assumes "Commit_lifecycle p change (w, cfg) = ((w', cfg'), None)" "sc_store (dk_app w) = Some st"
    "lc_DeleteWorkspace change \<noteq> []" "lc_Binding change = None" "current st"
  shows "\<exists>st' n. sc_store (dk_app w') = Some st' \<and>
     memory_sessions st' = memory_sessions (fold (put_normalized (cp_now p)) (lc_Sessions change) st) \<and>
     db_AgentBindings (st_data st') = db_AgentBindings (st_data st) \<and>
     db_BotProfiles (st_data st') =
       db_BotProfiles (st_data (fold (put_profile (cp_now p)) (lc_Profiles change)
         (fold (put_normalized (cp_now p)) (lc_Sessions change) st))) \<and>
     Normalize_config (Dir (fp_Path p))
       (cfg\<lparr>cg_Workspaces := filter (\<lambda>x. wk_ID x \<noteq> lc_DeleteWorkspace change) (cg_Workspaces cfg)\<rparr>) = Inr cfg'"
proof -
  let ?m = "\<lparr>wm_Expected = expected_state (lc_Expected change),
      wm_Sessions = map (committed_session (dk_app w) (lc_DeleteWorkspace change)) (lc_Sessions change),
      wm_Binding = lc_Binding change, wm_Profiles = lc_Profiles change\<rparr>"
  have same: "map (committed_session (dk_app w) (lc_DeleteWorkspace change)) (lc_Sessions change) = lc_Sessions change"
    using assms(3) by (simp add: committed_session_def map_idI)
  obtain hook st' where c: "CommitWorkspace (cp_now p) (cp_io p) hook (cp_io2 p) st ?m = (st', None)"
      "sc_store (dk_app w') = Some st'"
      "(\<exists>e. hook = Some (Some e)) \<or>
       Normalize_config (Dir (fp_Path p))
       (cfg\<lparr>cg_Workspaces := filter (\<lambda>x. wk_ID x \<noteq> lc_DeleteWorkspace change) (cg_Workspaces cfg)\<rparr>) = Inr cfg'"
    using assms(1-3) unfolding Commit_lifecycle_def
    by (auto simp: Let_def split: if_splits sum.splits prod.splits option.splits)
  note wr = CommitWorkspace_writes [OF c(1) assms(5)]
  have "wm_Sessions ?m = lc_Sessions change" "wm_Binding ?m = None" "wm_Profiles ?m = lc_Profiles change"
    using same assms(4) by simp_all
  with c(2,3) wr show ?thesis by auto
qed

lemma if_Inl_Inr: "((if c then Inl e else x) = Inr r) \<longleftrightarrow> \<not> c \<and> x = Inr r"
  by simp

lemma deletion_ok_iff:
  "deletion p sessionKey i0 st (w, cfg) = Inr r \<longleftrightarrow>
     trim i0 \<noteq> [] \<and> Get_workspace (trim i0) cfg \<noteq> None \<and> 1 < length (List_workspaces cfg) \<and>
     trim i0 \<noteq> ResolveSession_selection (lw_Selection p)
       (find (\<lambda>s. ss_Key s = sessionKey) (ls_Sessions (lifecycle_state st))) w \<and>
     \<not> (\<exists>s\<in>set (ls_Sessions (lifecycle_state st)).
          ReferencesWorkspace s (trim i0) \<and> SwitchBlockedReason (Some s) False \<noteq> None) \<and>
     \<not> (\<exists>b\<in>set (ls_Bindings (lifecycle_state st)). trim (ab_WorkspaceID b) = trim i0) \<and>
     (\<exists>x. find (\<lambda>x. wk_ID x \<noteq> trim i0) (List_workspaces cfg) = Some x \<and> (lifecycle_state st, wk_ID x) = r)"
proof (cases "find (\<lambda>x. wk_ID x \<noteq> trim i0) (List_workspaces cfg)")
  case None
  then show ?thesis by (simp add: deletion_def Let_def)
next
  case (Some x)
  show ?thesis
    unfolding deletion_def Let_def
    by (simp only: Some prod.case option.case if_Inl_Inr not_le option.inject sum.inject simp_thms)
qed

lemma deletion_checked:
  assumes "deletion p sessionKey id0 st (w, cfg) = Inr (state, fallback)"
  shows "state = lifecycle_state st" "trim id0 \<noteq> []" "fallback \<noteq> trim id0"
    "\<exists>x\<in>set (cg_Workspaces cfg). wk_ID x = fallback"
    "\<And>s. s \<in> set (ls_Sessions state) \<Longrightarrow> ReferencesWorkspace s (trim id0) \<Longrightarrow> \<not> HasActiveWork (Some s)"
    "\<And>b. b \<in> set (ls_Bindings state) \<Longrightarrow> trim (ab_WorkspaceID b) \<noteq> trim id0"
proof -
  note c = assms [unfolded deletion_ok_iff]
  show s: "state = lifecycle_state st" using c by blast
  show "trim id0 \<noteq> []" using c by blast
  obtain x where x: "find (\<lambda>x. wk_ID x \<noteq> trim id0) (cg_Workspaces cfg) = Some x" "wk_ID x = fallback"
    using c unfolding List_workspaces_def by blast
  then have "x \<in> set (cg_Workspaces cfg)" "wk_ID x \<noteq> trim id0"
    unfolding find_Some_iff by (metis nth_mem)+
  with x(2) show "fallback \<noteq> trim id0" "\<exists>x\<in>set (cg_Workspaces cfg). wk_ID x = fallback" by blast+
  show "\<not> HasActiveWork (Some y)" if "y \<in> set (ls_Sessions state)" "ReferencesWorkspace y (trim id0)" for y
  proof -
    have "SwitchBlockedReason (Some y) False = None" using c that unfolding s by blast
    then show ?thesis by (simp add: SwitchBlockedReason_def split: if_splits)
  qed
  show "trim (ab_WorkspaceID b) \<noteq> trim id0" if "b \<in> set (ls_Bindings state)" for b
    using c that unfolding s by blast
qed

lemma backend_names: "b \<in> {''codex'', ''claude''} \<Longrightarrow> normalizeBackend b = b \<and> b \<noteq> []"
proof -
  have "normalizeBackend ''codex'' = ''codex''" "normalizeBackend ''claude'' = ''claude''" by code_simp+
  then show "b \<in> {''codex'', ''claude''} \<Longrightarrow> normalizeBackend b = b \<and> b \<noteq> []" by auto
qed

text \<open>
  C27. After a deletion that succeeds nothing refers to the workspace: no session of any frontend has
  it as its own, as that of its thread or of a thread kept for another backend, no binding and no
  profile names it, and the configuration, which still has a workspace, does not define it. The
  backend threads of a session are kept by the name of a backend, and the ids of a loaded
  configuration are trimmed.
\<close>

theorem deleted_workspace_unreferenced:
  assumes st: "sc_store (dk_app w) = Some st" "store_inv st"
    and threads: "\<forall>s\<in>set (ls_Sessions (lifecycle_state st)). \<forall>(b, t)\<in>set (ss_BackendThreads s).
      b \<in> {''codex'', ''claude''}"
    and ids: "\<forall>x\<in>set (cg_Workspaces cfg). trim (wk_ID x) = wk_ID x"
    and del: "Delete_lifecycle p sessionKey i (w, cfg) = ((w', cfg'), Inr effects)"
  shows "\<exists>st'. sc_store (dk_app w') = Some st' \<and>
    (\<forall>s\<in>set (ls_Sessions (lifecycle_state st')). \<not> ReferencesWorkspace s i) \<and>
    (\<forall>b\<in>set (ls_Bindings (lifecycle_state st')). trim (ab_WorkspaceID b) \<noteq> trim i) \<and>
    (\<forall>x\<in>set (ls_Profiles (lifecycle_state st')). trim (bp_WorkspaceID x) \<noteq> trim i) \<and>
    FindWorkspace cfg' (trim i) = None \<and> cg_Workspaces cfg' \<noteq> []"
proof -
  let ?i = "trim i" and ?state = "lifecycle_state st"
  obtain fallback where d: "deletion p sessionKey i st (w, cfg) = Inr (?state, fallback)"
      "Commit_lifecycle p (deletion_change ?state ?i fallback) (w, cfg) = ((w', cfg'), None)"
    using del st(1) deletion_checked(1)
    by (fastforce simp: Delete_lifecycle_def Let_def split: sum.splits prod.splits option.splits)
  note chk = deletion_checked [OF d(1)]
  have fb: "trim fallback \<noteq> ?i" using chk(3,4) ids by auto
  let ?xs = "lc_Sessions (deletion_change ?state ?i fallback)"
  let ?ps = "lc_Profiles (deletion_change ?state ?i fallback)"
  obtain st' where w: "sc_store (dk_app w') = Some st'"
      "memory_sessions st' = memory_sessions (fold (put_normalized (cp_now p)) ?xs st)"
      "db_AgentBindings (st_data st') = db_AgentBindings (st_data st)"
      "db_BotProfiles (st_data st') = db_BotProfiles (st_data (fold (put_profile (cp_now p)) ?ps
         (fold (put_normalized (cp_now p)) ?xs st)))"
      "Normalize_config (Dir (fp_Path p))
         (cfg\<lparr>cg_Workspaces := filter (\<lambda>x. wk_ID x \<noteq> ?i) (cg_Workspaces cfg)\<rparr>) = Inr cfg'"
    using Commit_deletion_writes [OF d(2) st(1) _ _ store_invD(6) [OF st(2)]] chk(2)
    by (auto simp: deletion_change_def)
  have sessions: "\<not> ReferencesWorkspace s i" if s: "s \<in> set (ls_Sessions (lifecycle_state st'))" for s
  proof -
    obtain k v where v: "(k, v) \<in> set (memory_sessions st')" "s = cloneSession v"
      using s by (auto simp: lifecycle_state_def workspaceStateLocked_def)
    have free: "\<not> ReferencesWorkspace (evicted ?i fallback x) ?i" and key: "ss_Key (evicted ?i fallback x) = ss_Key x"
      if x: "x \<in> set (ls_Sessions ?state)" "ReferencesWorkspace x ?i" for x
    proof -
      have "\<forall>(b, t)\<in>set (ss_BackendThreads x). normalizeBackend b = b \<and> b \<noteq> []"
        using bspec [OF threads x(1)] backend_names by blast
      from evicted_free [OF chk(5) [OF x] trim_trim chk(2) fb this] evicted_key [OF chk(5) [OF x]]
      show "\<not> ReferencesWorkspace (evicted ?i fallback x) ?i" "ss_Key (evicted ?i fallback x) = ss_Key x" .
    qed
    note sok = sessions_ok_parts [OF store_invD(3) [OF st(2)]]
    consider x where "x \<in> set ?xs" "v = written (cp_now p) x"
      | "k \<notin> ss_Key ` set ?xs" "(k, v) \<in> set (memory_sessions st)"
      using put_all_sessions(2) [OF sok(1), of k v] v(1) unfolding w(2) by blast
    then have "\<not> ReferencesWorkspace v ?i"
    proof cases
      case 1
      then show ?thesis using written_references free by (fastforce simp: deletion_change_def)
    next
      case 2
      then have c: "cloneSession v \<in> set (ls_Sessions ?state)"
        by (force simp: lifecycle_state_def workspaceStateLocked_def)
      have k: "ss_Key (cloneSession v) = k" using sok(3) [OF 2(2)] by simp
      show ?thesis
      proof
        assume "ReferencesWorkspace v ?i"
        then have r: "ReferencesWorkspace (cloneSession v) ?i" by simp
        then have "evicted ?i fallback (cloneSession v) \<in> set ?xs"
          using c by (simp add: deletion_change_def)
        with 2(1) key [OF c r] k show False by (metis imageI)
      qed
    qed
    with v(2) show ?thesis by (simp add: ReferencesWorkspace_iff)
  qed
  have bindings: "trim (ab_WorkspaceID b) \<noteq> ?i" if "b \<in> set (ls_Bindings (lifecycle_state st'))" for b
    using that chk(6) w(3) by (simp add: lifecycle_state_def workspaceStateLocked_def)
  have profiles: "trim (bp_WorkspaceID x) \<noteq> ?i" if x: "x \<in> set (ls_Profiles (lifecycle_state st'))" for x
  proof -
    obtain k v where v: "(k, v) \<in> set (db_BotProfiles (st_data st'))" "x = cloneBotProfile v"
      using x by (auto simp: lifecycle_state_def workspaceStateLocked_def)
    have sc: "keyed_table good_profile bp_ID bp_FrontendID (db_BotProfiles (st_data st))"
      using store_invD(5) [OF st(2)] by (simp add: scoped_data_def)
    consider y where "y \<in> set ?ps" "bp_WorkspaceID v = trim (bp_WorkspaceID y)"
      | "k \<notin> (\<lambda>x. trim (bp_ID x)) ` set ?ps" "(k, v) \<in> set (db_BotProfiles (st_data st))"
      using put_profiles_lookup [of "fold (put_normalized (cp_now p)) ?xs st" k v] v(1) keyed_tableD(1) [OF sc]
      unfolding w(4) by auto
    then show ?thesis
    proof cases
      case 1
      then have "bp_WorkspaceID v = trim fallback" by (auto simp: deletion_change_def)
      then show ?thesis using fb by (simp add: v(2) cloneBotProfile_def normalizeBotProfileValues_def)
    next
      case 2
      have c: "x \<in> set (ls_Profiles ?state)"
        using 2(2) unfolding v(2) by (force simp: lifecycle_state_def workspaceStateLocked_def)
      have k: "trim (bp_ID x) = k" using keyed_tableD(2,3) [OF sc 2(2)] by (simp add: v(2))
      show ?thesis
      proof
        assume "trim (bp_WorkspaceID x) = ?i"
        then have "x\<lparr>bp_WorkspaceID := fallback\<rparr> \<in> set ?ps" using c by (simp add: deletion_change_def)
        then have "trim (bp_ID (x\<lparr>bp_WorkspaceID := fallback\<rparr>)) \<in> (\<lambda>x. trim (bp_ID x)) ` set ?ps"
          by (rule imageI)
        with 2(1) k show False by simp
      qed
    qed
  qed
  have kept: "set (map (\<lambda>x. trim (wk_ID x)) (filter (\<lambda>x. wk_ID x \<noteq> ?i) (cg_Workspaces cfg))) = wk_ID ` set (cg_Workspaces cfg')"
    using arg_cong [OF Normalize_config_workspaces(1) [OF w(5)], where f = set] by simp
  have "?i \<notin> wk_ID ` set (cg_Workspaces cfg')"
  proof
    assume "?i \<in> wk_ID ` set (cg_Workspaces cfg')"
    then obtain x where x: "x \<in> set (cg_Workspaces cfg)" "wk_ID x \<noteq> ?i" "?i = trim (wk_ID x)"
      unfolding kept [symmetric] by auto
    with ids show False by metis
  qed
  then have "find (\<lambda>x. wk_ID x = ?i) (cg_Workspaces cfg') = None" unfolding find_None_iff by (metis imageI)
  then have "FindWorkspace cfg' ?i = None" unfolding FindWorkspace_def .
  with w(1) sessions bindings profiles Normalize_config_workspaces(2) [OF w(5)] show ?thesis by blast
qed

text \<open>Two workspaces, of which an idle session is in the second.\<close>

definition demo_desk :: "Store \<Rightarrow> Desk" where
  "demo_desk st =
     \<lparr>dk_app = NewScoped (Some st) ''f'' ''codex'', dk_turns = NewTurnTracker, dk_live = [], dk_starts = [],
      dk_retry = NewTracker, dk_goals = NewGoalTracker, dk_calls = 0, dk_effects = []\<rparr>"

definition demo_member :: Session where
  "demo_member = zero_Session\<lparr>ss_Key := ''k'', ss_WorkspaceID := ''b'',
     ss_ActiveThreadID := ''t'', ss_ActiveThreadWorkspaceID := ''b'',
     ss_BackendThreads := [(''codex'', zero_SessionBackendThread\<lparr>bt_ThreadID := ''t'', bt_WorkspaceID := ''b''\<rparr>)], ss_Status := ''idle'', ss_UpdatedAt := 5\<rparr>"

definition demo_group :: Store where
  "demo_group =
     (let key = ''k'';
          disk = empty_StateSnapshot\<lparr>db_Sessions := [(key, storedSessionFromSession demo_member)]\<rparr> in
      \<lparr>st_data = disk, st_runtime = empty_runtimeState\<lparr>rt_Sessions := [(key, demo_member)]\<rparr>, st_disk = Some disk\<rparr>)"

lemma demo_group_stored:
  "fst (UpsertSession 5 None (fst (Open None None))
     (Some (demo_member\<lparr>ss_Status := [], ss_UpdatedAt := 0\<rparr>))) = demo_group"
  by code_simp

definition demo_workspaces :: Config where
  "demo_workspaces =
     (let x = hd (cg_Workspaces Default_config) in
      Default_config\<lparr>cg_Workspaces := [x\<lparr>wk_ID := ''a'', wk_Cwd := ''/a''\<rparr>, x\<lparr>wk_ID := ''b'', wk_Cwd := ''/b''\<rparr>]\<rparr>)"

definition demo_lifecycle :: lifecycle_ports where
  "demo_lifecycle =
     \<lparr>fp_Path = ''/etc/feidex.toml'', fp_Save = (\<lambda>_. None), fp_Index = -1, cp_now = 7, cp_io = None, cp_io2 = None,
      lw_Selection = \<lparr>sl_Frontend = ''f'', sl_DefaultWorkspaceID = ''a''\<rparr>, lw_Frontend = ''f'',
      lw_ErrorText = (\<lambda>_. [])\<rparr>"

lemma demo_state: "lifecycle_state demo_group = \<lparr>ls_Sessions = [demo_member], ls_Bindings = [], ls_Profiles = []\<rparr>"
  by code_simp

lemma demo_member_simps [simp]: "ss_Key demo_member = ''k''"
    "ss_BackendThreads demo_member = [(''codex'', zero_SessionBackendThread\<lparr>bt_ThreadID := ''t'', bt_WorkspaceID := ''b''\<rparr>)]"
    "ss_WorkspaceID demo_member = ''b''"
  by (simp_all add: demo_member_def)

theorem deleted_workspace_unreferenced_witness:
  "(\<exists>s\<in>set (ls_Sessions (lifecycle_state demo_group)). ReferencesWorkspace s ''b'') \<and>
   (\<exists>w' cfg' st' effects.
     Delete_lifecycle demo_lifecycle [] ''b'' (demo_desk demo_group, demo_workspaces) = ((w', cfg'), Inr effects) \<and>
     sc_store (dk_app w') = Some st' \<and>
     (\<forall>s\<in>set (ls_Sessions (lifecycle_state st')). \<not> ReferencesWorkspace s ''b''))"
proof -
  let ?world = "(demo_desk demo_group, demo_workspaces)"
  let ?change = "deletion_change (lifecycle_state demo_group) ''b'' ''a''"
  have st: "sc_store (dk_app (demo_desk demo_group)) = Some demo_group"
    by (simp add: demo_desk_def NewScoped_def)
  have inv: "store_inv demo_group"
    unfolding demo_group_stored [symmetric]
    by (rule reachable_inv [OF store_reachable.step [OF store_reachable.open_new store_step.upsert_session]])
  have facts: "\<forall>s\<in>set (ls_Sessions (lifecycle_state demo_group)). \<forall>(b, t)\<in>set (ss_BackendThreads s).
      b \<in> {''codex'', ''claude''}" "\<forall>x\<in>set (cg_Workspaces demo_workspaces). trim (wk_ID x) = wk_ID x"
    "\<exists>s\<in>set (ls_Sessions (lifecycle_state demo_group)). ReferencesWorkspace s ''b''"
    unfolding demo_state by (simp, code_simp, simp add: ReferencesWorkspace_iff)
  have checked: "deletion demo_lifecycle [] ''b'' demo_group ?world = Inr (lifecycle_state demo_group, ''a'')"
  proof -
    have "trim ''b'' = ''b''" "Get_workspace ''b'' demo_workspaces \<noteq> None"
      "1 < length (List_workspaces demo_workspaces)"
      "ResolveSession_selection (lw_Selection demo_lifecycle) None (demo_desk demo_group) \<noteq> ''b''"
      "map_option wk_ID (find (\<lambda>x. wk_ID x \<noteq> ''b'') (List_workspaces demo_workspaces)) = Some ''a''"
      by code_simp+
    moreover have "SwitchBlockedReason (Some demo_member) False = None" by code_simp
    ultimately show ?thesis unfolding deletion_ok_iff by (simp add: demo_state)
  qed
  obtain w' cfg' where committed: "Commit_lifecycle demo_lifecycle ?change ?world = ((w', cfg'), None)"
  proof -
    have "snd (Commit_lifecycle demo_lifecycle ?change ?world) = None" by code_simp
    then show ?thesis using that by (metis prod.collapse)
  qed
  have "trim ''b'' = ''b''" by code_simp
  then obtain effects where "Delete_lifecycle demo_lifecycle [] ''b'' ?world = ((w', cfg'), Inr effects)"
    using st checked committed by (simp add: Delete_lifecycle_def Let_def)
  with deleted_workspace_unreferenced [OF st inv facts(1,2) this] facts(3) show ?thesis by blast
qed

end
