(* ===== verification/Workspace_Planning.thy ===== *)
theory Workspace_Planning
  imports Configuration Interaction
begin

text \<open>
  Planning new workspaces: ids and paths (\<open>application/workspace/path_values.go\<close>), forms and
  suggestions (\<open>operations.go\<close>), and the plan of a clone or of a worktree (\<open>planning.go\<close>), which
  says what will be created, or why nothing can be.

  The file system, git, the parser of URLs, the JSON of the payloads of open forms and the Unicode
  tables are ports of the planner: \<open>pn_Stat\<close> and the rest are the answers at the time of the plan.
\<close>

section \<open>Payloads and plans (domain/workspace/operations.go)\<close>

record NewPayload =
  nw_RootPath :: string
  nw_SelectedCWD :: string
  nw_DraftID :: string
  nw_AutoDraftID :: string
  nw_DraftName :: string
  nw_Notice :: string

record ClonePayload =
  cn_RootPath :: string
  cn_SelectedParentDir :: string
  cn_RepoURL :: string
  cn_DraftID :: string
  cn_CloneMode :: string
  cn_WorktreeBranchName :: string
  cn_WorktreeWorkspaceID :: string
  cn_WorktreeDirectoryName :: string
  cn_WorktreeTargetDir :: string
  cn_ErrorMessage :: string

record WorktreePayload =
  wt_BaseWorkspaceID :: string
  wt_BranchName :: string
  wt_WorkspaceID :: string
  wt_DirectoryName :: string
  wt_TargetDir :: string
  wt_ErrorMessage :: string

record WorktreePlan =
  wp_BaseWorkspaceID :: string
  wp_BaseRepoRoot :: string
  wp_BranchName :: string
  wp_WorkspaceID :: string
  wp_DirectoryName :: string
  wp_TargetDir :: string

record CloneWorktreePlan =
  cw_BaseRepoRoot :: string
  cw_BranchName :: string
  cw_WorkspaceID :: string
  cw_DirectoryName :: string
  cw_TargetDir :: string

record ClonePlan =
  cl_RepoName :: string
  cl_WorkspaceID :: string
  cl_TargetDir :: string
  cl_Worktree :: "CloneWorktreePlan option"

abbreviation CloneModeWorkspace :: string where "CloneModeWorkspace \<equiv> ''workspace''"
abbreviation CloneModeWorktree :: string where "CloneModeWorktree \<equiv> ''worktree''"

definition NormalizeCloneMode :: "string \<Rightarrow> string" where
  "NormalizeCloneMode value =
     (if equal_fold (trim value) CloneModeWorktree then CloneModeWorktree else CloneModeWorkspace)"

definition CloneCreatesWorktree :: "ClonePayload \<Rightarrow> bool" where
  "CloneCreatesWorktree payload \<longleftrightarrow> NormalizeCloneMode (cn_CloneMode payload) = CloneModeWorktree"

section \<open>The ports\<close>

datatype stat_result = StatFound | StatMissing | StatFailed string

record planner =
  pn_Workspaces :: "WorkspaceConfig list"
  pn_Pending :: "PendingRequest list"
  pn_ConfigPath :: string
  pn_BotName :: string
  pn_FrontendID :: string
  pn_Stat :: "string \<Rightarrow> stat_result"
  pn_Root :: "string \<Rightarrow> string + string"
  pn_ValidateBranch :: "string \<Rightarrow> string option"
  pn_BranchExists :: "string \<Rightarrow> string \<Rightarrow> string + bool"
  pn_URL :: "string \<Rightarrow> (string \<times> string) option"
  pn_WorktreePayload :: "PendingRequest \<Rightarrow> WorktreePayload"
  pn_ClonePayload :: "PendingRequest \<Rightarrow> ClonePayload"
  pn_Letter :: "string \<Rightarrow> bool"

datatype plan_error =
    NoRepoURL | NoRepoName | NoSuggestedID | NoParentDir | ExistingWorkspace string string
  | ExistingDir string string | StatError string | WorkspaceTaken string | NoBaseWorkspace
  | UnknownBaseWorkspace string | NotGit string | NoBranchName | BranchInvalid string
  | BranchCheckFailed string | BranchTaken string | NoDirectoryName | DirectoryNameInvalid
  | WorktreeIsClone

section \<open>Suggested ids (path\_values.go)\<close>

text \<open>
  Letters and digits stay; every other rune becomes a dash, but not at the start and not after a
  dash. The rune is a string, of one byte when it is ASCII.
\<close>

definition id_rune :: "(string \<Rightarrow> bool) \<Rightarrow> string \<Rightarrow> bool" where
  "id_rune letter r = (case r of [c] \<Rightarrow> if of_char c < (128::nat) then ascii_alnum c else letter r | _ \<Rightarrow> letter r)"

fun suggest_id :: "(string \<Rightarrow> bool) \<Rightarrow> string list \<Rightarrow> string \<Rightarrow> bool \<Rightarrow> string" where
  "suggest_id letter [] out lastDash = out"
| "suggest_id letter (r # rs) out lastDash =
     (if id_rune letter r then suggest_id letter rs (out @ r) False
      else if out \<noteq> [] \<and> \<not> lastDash then suggest_id letter rs (out @ ''-'') True
      else suggest_id letter rs out lastDash)"

definition trim_char :: "char \<Rightarrow> string \<Rightarrow> string" where
  "trim_char c s = rev (dropWhile (\<lambda>d. d = c) (rev (dropWhile (\<lambda>d. d = c) s)))"

definition SuggestedID :: "planner \<Rightarrow> string \<Rightarrow> string" where
  "SuggestedID p raw = trim_char (CHR ''-'') (suggest_id (pn_Letter p) (runes (to_lower (trim raw))) [] False)"

definition usable_base :: "string \<Rightarrow> bool" where
  "usable_base base \<longleftrightarrow> base \<noteq> [] \<and> base \<noteq> dot \<and> base \<noteq> ''/''"

definition SuggestedIDFromDir :: "planner \<Rightarrow> string \<Rightarrow> string" where
  "SuggestedIDFromDir p dir0 =
     (let dir = trim dir0; base = Base (Clean dir) in
      if dir = [] \<or> \<not> usable_base base then [] else SuggestedID p base)"

definition UpdateNewSuggestedID :: "planner \<Rightarrow> NewPayload \<Rightarrow> string \<Rightarrow> NewPayload" where
  "UpdateNewSuggestedID p payload selectedDir =
     (let nextAuto = SuggestedIDFromDir p selectedDir;
          currentDraft = trim (nw_DraftID payload); currentAuto = trim (nw_AutoDraftID payload) in
      payload\<lparr>nw_DraftID := (if nextAuto \<noteq> [] \<and> (currentDraft = [] \<or> currentDraft = currentAuto)
                             then nextAuto else nw_DraftID payload),
              nw_AutoDraftID := nextAuto\<rparr>)"

section \<open>Forms (operations.go)\<close>

definition trim_suffix :: "string \<Rightarrow> string \<Rightarrow> string" where
  "trim_suffix suf s = (if Sublist.suffix suf s then take (length s - length suf) s else s)"

text \<open>The path of an address: \<open>host:path\<close> without a scheme, or that of the URL.\<close>

definition repo_path :: "planner \<Rightarrow> string \<Rightarrow> string" where
  "repo_path p repoURL =
     (if \<not> sublist ''://'' repoURL then
        let before = takeWhile (\<lambda>c. c \<noteq> CHR '':'') repoURL; rest = drop (length before + 1) repoURL in
        if CHR '':'' \<in> set repoURL \<and> before \<noteq> [] \<and> CHR ''/'' \<notin> set before \<and> CHR ''/'' \<in> set rest
        then rest else repoURL
      else case pn_URL p repoURL of
        None \<Rightarrow> repoURL
      | Some (path, opaque) \<Rightarrow> FirstNonEmpty [trim path, trim opaque])"

definition CloneRepoName :: "planner \<Rightarrow> string \<Rightarrow> plan_error + string" where
  "CloneRepoName p repoURL0 =
     (let repoURL = trim repoURL0;
          base = trim (trim_suffix ''.git'' (Base (trim_suffix ''/'' (repo_path p repoURL)))) in
      if repoURL = [] then Inl NoRepoURL else if \<not> usable_base base then Inl NoRepoName else Inr base)"

definition MergeNewFormValues :: "NewPayload \<Rightarrow> (string \<rightharpoonup> string) \<Rightarrow> NewPayload" where
  "MergeNewFormValues payload values =
     (let a = (case values ''workspace_id'' of
                 None \<Rightarrow> payload
               | Some value \<Rightarrow>
                   if value \<noteq> [] then
                     payload\<lparr>nw_DraftID := value,
                       nw_AutoDraftID := (if trim (nw_AutoDraftID payload) \<noteq> value then [] else nw_AutoDraftID payload)\<rparr>
                   else if trim (nw_DraftID payload) = trim (nw_AutoDraftID payload)
                   then payload\<lparr>nw_DraftID := [], nw_AutoDraftID := []\<rparr>
                   else payload) in
      case values ''workspace_name'' of None \<Rightarrow> a | Some value \<Rightarrow> a\<lparr>nw_DraftName := value\<rparr>)"

definition or_value :: "(string \<rightharpoonup> string) \<Rightarrow> string \<Rightarrow> string \<Rightarrow> string" where
  "or_value values key old = (case values key of None \<Rightarrow> old | Some v \<Rightarrow> v)"

definition MergeCloneFormValues :: "ClonePayload \<Rightarrow> (string \<rightharpoonup> string) \<Rightarrow> ClonePayload" where
  "MergeCloneFormValues payload values =
     payload\<lparr>cn_RepoURL := or_value values ''repo_url'' (cn_RepoURL payload),
       cn_DraftID := or_value values ''workspace_id'' (cn_DraftID payload),
       cn_CloneMode := (case values ''clone_mode'' of None \<Rightarrow> cn_CloneMode payload | Some v \<Rightarrow> NormalizeCloneMode v),
       cn_WorktreeBranchName := or_value values ''worktree_branch_name'' (cn_WorktreeBranchName payload),
       cn_WorktreeWorkspaceID := or_value values ''worktree_workspace_id'' (cn_WorktreeWorkspaceID payload),
       cn_WorktreeDirectoryName := or_value values ''worktree_directory_name'' (cn_WorktreeDirectoryName payload)\<rparr>"

definition MergeWorktreeFormValues :: "WorktreePayload \<Rightarrow> (string \<rightharpoonup> string) \<Rightarrow> WorktreePayload" where
  "MergeWorktreeFormValues payload values =
     payload\<lparr>wt_BaseWorkspaceID := or_value values ''base_workspace_id'' (wt_BaseWorkspaceID payload),
       wt_BranchName := or_value values ''branch_name'' (wt_BranchName payload),
       wt_WorkspaceID := or_value values ''workspace_id'' (wt_WorkspaceID payload),
       wt_DirectoryName := or_value values ''directory_name'' (wt_DirectoryName payload)\<rparr>"

definition or_word :: "string \<Rightarrow> string \<Rightarrow> string" where
  "or_word word s = (if s = [] then word else s)"

definition SuggestedWorktreeID :: "planner \<Rightarrow> string \<Rightarrow> string \<Rightarrow> string" where
  "SuggestedWorktreeID p baseProject botName =
     or_word ''workspace'' (SuggestedID p baseProject) @ ''-'' @ or_word ''bot'' (SuggestedID p botName)"

definition SuggestedWorktreeBranch :: "planner \<Rightarrow> string \<Rightarrow> string \<Rightarrow> string \<Rightarrow> string" where
  "SuggestedWorktreeBranch p baseProject botName workspaceID =
     join_slash ([''work'', or_word ''workspace'' (SuggestedID p baseProject), or_word ''bot'' (SuggestedID p botName)] @
       (if SuggestedID p workspaceID = [] then [] else [SuggestedID p workspaceID]))"

definition NewTakeoverPayloadWithNotice :: "planner \<Rightarrow> string \<Rightarrow> string \<Rightarrow> string \<Rightarrow> NewPayload" where
  "NewTakeoverPayloadWithNotice p workspaceID targetDir0 notice =
     (let targetDir = trim targetDir0; i = FirstNonEmpty [trim workspaceID, SuggestedIDFromDir p targetDir] in
      \<lparr>nw_RootPath = ''/'', nw_SelectedCWD = targetDir, nw_DraftID = i, nw_AutoDraftID = i, nw_DraftName = [],
       nw_Notice = trim notice\<rparr>)"

section \<open>Looking up what exists (planning.go)\<close>

definition WorkspaceByID :: "planner \<Rightarrow> string \<Rightarrow> WorkspaceConfig option" where
  "WorkspaceByID p i = find (\<lambda>w. wk_ID w = trim i) (pn_Workspaces p)"

definition WorkspaceByCWD :: "planner \<Rightarrow> string \<Rightarrow> WorkspaceConfig option" where
  "WorkspaceByCWD p targetDir0 =
     (let targetDir = trim targetDir0 in
      if targetDir = [] then None
      else find (\<lambda>w. Clean (trim (wk_Cwd w)) = Clean targetDir) (pn_Workspaces p))"

definition SameWorkspaceCWD :: "string \<Rightarrow> string \<Rightarrow> bool" where
  "SameWorkspaceCWD a b \<longleftrightarrow> trim a \<noteq> [] \<and> trim b \<noteq> [] \<and> Clean (trim a) = Clean (trim b)"

definition WorkspaceByIDAndCWD :: "planner \<Rightarrow> string \<Rightarrow> string \<Rightarrow> WorkspaceConfig option" where
  "WorkspaceByIDAndCWD p workspaceID targetDir =
     (case WorkspaceByID p (trim workspaceID) of
        None \<Rightarrow> None
      | Some w \<Rightarrow> if SameWorkspaceCWD targetDir (wk_Cwd w) then Some w else None)"

definition DefaultWorkspaceCloneParent :: "planner \<Rightarrow> WorkspaceConfig option \<Rightarrow> string" where
  "DefaultWorkspaceCloneParent p ws =
     (let cwd = (case ws of None \<Rightarrow> [] | Some w \<Rightarrow> trim (wk_Cwd w)) in
      if cwd \<noteq> [] then Dir cwd
      else if trim (pn_ConfigPath p) \<noteq> [] then Dir (trim (pn_ConfigPath p))
      else dot)"

definition worktreeBotLabel :: "planner \<Rightarrow> string" where
  "worktreeBotLabel p = FirstNonEmpty [trim (pn_BotName p), trim (pn_FrontendID p), ''bot'']"

definition cleanPathBase :: "string \<Rightarrow> string" where
  "cleanPathBase path0 =
     (let path = trim path0; base = Base (Clean path) in if path = [] \<or> \<not> usable_base base then [] else base)"

definition worktreeBaseProjectLabel :: "planner \<Rightarrow> WorkspaceConfig option \<Rightarrow> string" where
  "worktreeBaseProjectLabel p ws =
     (case ws of
        None \<Rightarrow> ''workspace''
      | Some w \<Rightarrow>
          let of_root = (case pn_Root p (wk_Cwd w) of Inr root \<Rightarrow> cleanPathBase root | Inl _ \<Rightarrow> []) in
          if of_root \<noteq> [] then of_root
          else if cleanPathBase (wk_Cwd w) \<noteq> [] then cleanPathBase (wk_Cwd w)
          else FirstNonEmpty [trim (wk_Name w), trim (wk_ID w), ''workspace''])"

definition validateWorktreeDirectoryName :: "string \<Rightarrow> plan_error option" where
  "validateWorktreeDirectoryName name0 =
     (let name = trim name0 in
      if name = [] then Some NoDirectoryName
      else if name = dot \<or> name = dotdot \<or> Base name \<noteq> name \<or> CHR ''/'' \<in> set name \<or> CHR 0x5C \<in> set name
      then Some DirectoryNameInvalid
      else None)"

section \<open>Defaults that are still free\<close>

definition withNumericSuffix :: "string \<Rightarrow> nat \<Rightarrow> string" where
  "withNumericSuffix value0 index =
     (let value = trim value0 in if index \<le> 1 \<or> value = [] then value else value @ ''-'' @ dec index)"

definition branchWithNumericSuffix :: "string \<Rightarrow> nat \<Rightarrow> string" where
  "branchWithNumericSuffix branchName0 index =
     (let branchName = trim branchName0;
          leaf = rev (takeWhile (\<lambda>c. c \<noteq> CHR ''/'') (rev branchName));
          front = rev (dropWhile (\<lambda>c. c = CHR ''/'') (rev (take (length branchName - length leaf) branchName))) in
      if index \<le> 1 \<or> branchName = [] then branchName
      else if CHR ''/'' \<notin> set branchName then withNumericSuffix branchName index
      else if front = [] then withNumericSuffix leaf index
      else front @ ''/'' @ withNumericSuffix leaf index)"

definition worktreePayloadReserves ::
  "string \<Rightarrow> string \<Rightarrow> string \<Rightarrow> string \<Rightarrow> string \<Rightarrow> string \<Rightarrow> bool" where
  "worktreePayloadReserves payloadID payloadTarget payloadBranch workspaceID targetDir branchName \<longleftrightarrow>
     workspaceID \<noteq> [] \<and> trim payloadID = workspaceID \<or>
     branchName \<noteq> [] \<and> trim payloadBranch = branchName \<or>
     trim payloadTarget \<noteq> [] \<and> Clean (trim payloadTarget) = targetDir"

definition pendingWorktreeDefaultReserved :: "planner \<Rightarrow> string \<Rightarrow> string \<Rightarrow> string \<Rightarrow> bool" where
  "pendingWorktreeDefaultReserved p workspaceID targetDir branchName \<longleftrightarrow>
     (\<exists>req\<in>set (pn_Pending p).
        trim (pr_Status req) \<notin> {''resolved'', ''expired''} \<and>
        (trim (pr_Kind req) = ''workspace_worktree'' \<and>
           (let v = pn_WorktreePayload p req in
            worktreePayloadReserves (wt_WorkspaceID v) (wt_TargetDir v) (wt_BranchName v)
              (trim workspaceID) (Clean (trim targetDir)) (trim branchName)) \<or>
         trim (pr_Kind req) = ''workspace_clone'' \<and>
           (let v = pn_ClonePayload p req in
            CloneCreatesWorktree v \<and>
            worktreePayloadReserves (cn_WorktreeWorkspaceID v) (cn_WorktreeTargetDir v) (cn_WorktreeBranchName v)
              (trim workspaceID) (Clean (trim targetDir)) (trim branchName))))"

definition worktreeDefaultAvailable ::
  "planner \<Rightarrow> string \<Rightarrow> string \<Rightarrow> string \<Rightarrow> string \<Rightarrow> string \<Rightarrow> bool \<Rightarrow> bool" where
  "worktreeDefaultAvailable p baseRepoRoot parentDir branchName workspaceID directoryName checkBranch \<longleftrightarrow>
     trim workspaceID \<noteq> [] \<and> trim directoryName \<noteq> [] \<and> trim branchName \<noteq> [] \<and>
     WorkspaceByID p workspaceID = None \<and>
     WorkspaceByCWD p (Join_path [parentDir, directoryName]) = None \<and>
     pn_Stat p (Join_path [parentDir, directoryName]) = StatMissing \<and>
     \<not> pendingWorktreeDefaultReserved p workspaceID (Join_path [parentDir, directoryName]) branchName \<and>
     (checkBranch \<longrightarrow> pn_BranchExists p baseRepoRoot branchName \<noteq> Inr True)"

text \<open>The first of a hundred numbered candidates that is free; the plain one when none is.\<close>

definition unique_defaults ::
  "planner \<Rightarrow> string \<Rightarrow> string \<Rightarrow> bool \<Rightarrow> string \<Rightarrow> string \<Rightarrow> string \<Rightarrow> string \<times> string \<times> string" where
  "unique_defaults p baseRepoRoot parentDir checkBranch branchName workspaceID directoryName =
     (let candidate = (\<lambda>i. (branchWithNumericSuffix branchName i, withNumericSuffix workspaceID i,
                             withNumericSuffix directoryName i)) in
      case find (\<lambda>i. case candidate i of
                   (b, w, d) \<Rightarrow> worktreeDefaultAvailable p baseRepoRoot parentDir b w d checkBranch) [1..<101] of
        None \<Rightarrow> (branchName, workspaceID, directoryName)
      | Some i \<Rightarrow> candidate i)"

definition uniqueWorktreeDefaults :: "planner \<Rightarrow> string \<Rightarrow> string \<Rightarrow> string \<Rightarrow> string \<Rightarrow> string \<times> string \<times> string" where
  "uniqueWorktreeDefaults p baseRepoRoot = unique_defaults p baseRepoRoot (Dir (trim baseRepoRoot)) True"

definition uniqueCloneWorktreeDefaults :: "planner \<Rightarrow> string \<Rightarrow> string \<Rightarrow> string \<Rightarrow> string \<Rightarrow> string \<times> string \<times> string" where
  "uniqueCloneWorktreeDefaults p parentDir = unique_defaults p [] parentDir False"

section \<open>The plan of a worktree\<close>

text \<open>What is at the place of the new workspace. The two plans check this in the same order.\<close>

definition place_taken :: "planner \<Rightarrow> string \<Rightarrow> string \<Rightarrow> plan_error option" where
  "place_taken p workspaceID targetDir =
     (case WorkspaceByCWD p targetDir of
        Some w \<Rightarrow> Some (ExistingWorkspace (wk_ID w) targetDir)
      | None \<Rightarrow>
          (case pn_Stat p targetDir of
             StatFound \<Rightarrow> Some (ExistingDir workspaceID targetDir)
           | StatFailed e \<Rightarrow> Some (StatError e)
           | StatMissing \<Rightarrow>
               (case WorkspaceByID p workspaceID of
                  None \<Rightarrow> None
                | Some w \<Rightarrow>
                    if SameWorkspaceCWD (wk_Cwd w) targetDir then Some (ExistingWorkspace (wk_ID w) targetDir)
                    else Some (WorkspaceTaken workspaceID))))"

definition branch_refused :: "planner \<Rightarrow> string \<Rightarrow> string \<Rightarrow> plan_error option" where
  "branch_refused p root branchName =
     (if branchName = [] then Some NoBranchName
      else case pn_ValidateBranch p branchName of
        Some e \<Rightarrow> Some (BranchInvalid e)
      | None \<Rightarrow>
          (case pn_BranchExists p root branchName of
             Inl e \<Rightarrow> Some (BranchCheckFailed e)
           | Inr exists \<Rightarrow> if exists then Some (BranchTaken branchName) else None))"

definition PrepareWorkspaceWorktree :: "planner \<Rightarrow> WorktreePayload \<Rightarrow> plan_error + WorktreePlan" where
  "PrepareWorkspaceWorktree p payload =
     (let baseID = trim (wt_BaseWorkspaceID payload); branchName = trim (wt_BranchName payload) in
      if baseID = [] then Inl NoBaseWorkspace
      else case WorkspaceByID p baseID of
        None \<Rightarrow> Inl (UnknownBaseWorkspace baseID)
      | Some baseWS \<Rightarrow>
          (case pn_Root p (trim (wk_Cwd baseWS)) of
             Inl e \<Rightarrow> Inl (NotGit e)
           | Inr root \<Rightarrow>
               (case branch_refused p root branchName of
                  Some e \<Rightarrow> Inl e
                | None \<Rightarrow>
                    let workspaceID = FirstNonEmpty [trim (wt_WorkspaceID payload),
                          SuggestedWorktreeID p (worktreeBaseProjectLabel p (Some baseWS)) (worktreeBotLabel p)];
                        directoryName = FirstNonEmpty [trim (wt_DirectoryName payload), workspaceID];
                        targetDir = Join_path [Dir root, directoryName] in
                    if workspaceID = [] then Inl NoSuggestedID
                    else case validateWorktreeDirectoryName directoryName of
                      Some e \<Rightarrow> Inl e
                    | None \<Rightarrow>
                        (case place_taken p workspaceID targetDir of
                           Some e \<Rightarrow> Inl e
                         | None \<Rightarrow>
                             Inr \<lparr>wp_BaseWorkspaceID = baseID, wp_BaseRepoRoot = root, wp_BranchName = branchName,
                                  wp_WorkspaceID = workspaceID, wp_DirectoryName = directoryName,
                                  wp_TargetDir = targetDir\<rparr>))))"

definition DefaultWorkspaceWorktreePayload ::
  "planner \<Rightarrow> WorkspaceConfig option \<Rightarrow> string \<Rightarrow> string \<Rightarrow> WorktreePayload" where
  "DefaultWorkspaceWorktreePayload p ws branchName0 workspaceID0 =
     (let project = worktreeBaseProjectLabel p ws; bot = worktreeBotLabel p;
          branchName = FirstNonEmpty [trim branchName0, SuggestedWorktreeBranch p project bot []];
          workspaceID = FirstNonEmpty [trim workspaceID0, SuggestedWorktreeID p project bot];
          (b, w, d) = (case pn_Root p (case ws of None \<Rightarrow> [] | Some x \<Rightarrow> wk_Cwd x) of
             Inr root \<Rightarrow> uniqueWorktreeDefaults p root branchName workspaceID workspaceID
           | Inl _ \<Rightarrow> (branchName, workspaceID, workspaceID));
          payload = \<lparr>wt_BaseWorkspaceID = (case ws of None \<Rightarrow> [] | Some x \<Rightarrow> trim (wk_ID x)), wt_BranchName = b,
                     wt_WorkspaceID = w, wt_DirectoryName = d, wt_TargetDir = [], wt_ErrorMessage = []\<rparr> in
      case PrepareWorkspaceWorktree p payload of
        Inl _ \<Rightarrow> payload
      | Inr plan \<Rightarrow> payload\<lparr>wt_TargetDir := wp_TargetDir plan\<rparr>)"

section \<open>The plan of a clone\<close>

text \<open>The id, the branch and the directory of the worktree of a clone, given or suggested.\<close>

definition clone_worktree_names :: "planner \<Rightarrow> ClonePayload \<Rightarrow> string \<Rightarrow> string \<times> string \<times> string" where
  "clone_worktree_names p payload repoName =
     (let project = FirstNonEmpty [trim repoName, ''workspace''];
          workspaceID = FirstNonEmpty [trim (cn_WorktreeWorkspaceID payload), SuggestedWorktreeID p project (worktreeBotLabel p)] in
      (FirstNonEmpty [trim (cn_WorktreeBranchName payload), SuggestedWorktreeBranch p project (worktreeBotLabel p) []],
       workspaceID, FirstNonEmpty [trim (cn_WorktreeDirectoryName payload), workspaceID]))"

definition names_left_open :: "ClonePayload \<Rightarrow> bool" where
  "names_left_open payload \<longleftrightarrow>
     trim (cn_WorktreeWorkspaceID payload) = [] \<and> trim (cn_WorktreeBranchName payload) = [] \<and>
     trim (cn_WorktreeDirectoryName payload) = []"

definition prepareCloneWorktreePlan ::
  "planner \<Rightarrow> ClonePayload \<Rightarrow> string \<Rightarrow> string \<Rightarrow> string \<Rightarrow> plan_error + CloneWorktreePlan" where
  "prepareCloneWorktreePlan p payload repoName parentDir cloneTargetDir =
     (let (branch0, id0, dir0) = clone_worktree_names p payload repoName;
          (branchName, workspaceID, directoryName) =
            (if names_left_open payload then uniqueCloneWorktreeDefaults p parentDir branch0 id0 dir0
             else (branch0, id0, dir0));
          targetDir = Join_path [parentDir, directoryName] in
      if id0 = [] then Inl NoSuggestedID
      else case pn_ValidateBranch p branchName of
        Some e \<Rightarrow> Inl (BranchInvalid e)
      | None \<Rightarrow>
          (case validateWorktreeDirectoryName directoryName of
             Some e \<Rightarrow> Inl e
           | None \<Rightarrow>
               if Clean targetDir = Clean cloneTargetDir then Inl WorktreeIsClone
               else case place_taken p workspaceID targetDir of
                 Some e \<Rightarrow> Inl e
               | None \<Rightarrow>
                   Inr \<lparr>cw_BaseRepoRoot = cloneTargetDir, cw_BranchName = branchName, cw_WorkspaceID = workspaceID,
                        cw_DirectoryName = directoryName, cw_TargetDir = targetDir\<rparr>))"

definition PrepareWorkspaceClonePayload :: "planner \<Rightarrow> ClonePayload \<Rightarrow> string \<Rightarrow> plan_error + ClonePlan" where
  "PrepareWorkspaceClonePayload p payload parentDir0 =
     (let explicitID = trim (cn_DraftID payload); parentDir = trim parentDir0 in
      case CloneRepoName p (trim (cn_RepoURL payload)) of
        Inl e \<Rightarrow> Inl e
      | Inr repoName \<Rightarrow>
          let workspaceID = FirstNonEmpty [explicitID, SuggestedID p repoName];
              targetDir = Join_path [parentDir, if explicitID \<noteq> [] then workspaceID else repoName];
              plan = \<lparr>cl_RepoName = repoName, cl_WorkspaceID = workspaceID, cl_TargetDir = targetDir,
                      cl_Worktree = None\<rparr> in
          if workspaceID = [] then Inl NoSuggestedID
          else if parentDir = [] then Inl NoParentDir
          else case pn_Stat p targetDir of
            StatFound \<Rightarrow>
              (case WorkspaceByCWD p targetDir of
                 Some w \<Rightarrow> Inl (ExistingWorkspace (wk_ID w) targetDir)
               | None \<Rightarrow> Inl (ExistingDir workspaceID targetDir))
          | StatFailed e \<Rightarrow> Inl (StatError e)
          | StatMissing \<Rightarrow>
              if \<not> CloneCreatesWorktree payload then
                (if WorkspaceByID p workspaceID \<noteq> None then Inl (WorkspaceTaken workspaceID) else Inr plan)
              else
                (case prepareCloneWorktreePlan p payload repoName parentDir targetDir of
                   Inl e \<Rightarrow> Inl e
                 | Inr worktree \<Rightarrow> Inr (plan\<lparr>cl_Worktree := Some worktree\<rparr>)))"

definition PrepareWorkspaceClone :: "planner \<Rightarrow> string \<Rightarrow> string \<Rightarrow> string \<Rightarrow> plan_error + ClonePlan" where
  "PrepareWorkspaceClone p repoURL explicitID =
     PrepareWorkspaceClonePayload p
       \<lparr>cn_RootPath = [], cn_SelectedParentDir = [], cn_RepoURL = trim repoURL, cn_DraftID = trim explicitID,
        cn_CloneMode = CloneModeWorkspace, cn_WorktreeBranchName = [], cn_WorktreeWorkspaceID = [],
        cn_WorktreeDirectoryName = [], cn_WorktreeTargetDir = [], cn_ErrorMessage = []\<rparr>"

definition clonePayloadWithPlan :: "ClonePayload \<Rightarrow> ClonePlan option \<Rightarrow> ClonePayload" where
  "clonePayloadWithPlan payload0 plan =
     (let payload = payload0\<lparr>cn_CloneMode := NormalizeCloneMode (cn_CloneMode payload0)\<rparr> in
      case plan of
        None \<Rightarrow> payload
      | Some pl \<Rightarrow>
          let a = (if trim (cn_DraftID payload) = [] then payload\<lparr>cn_DraftID := trim (cl_WorkspaceID pl)\<rparr> else payload) in
          (case cl_Worktree pl of
             None \<Rightarrow> a
           | Some w \<Rightarrow>
               a\<lparr>cn_CloneMode := CloneModeWorktree, cn_WorktreeBranchName := trim (cw_BranchName w),
                 cn_WorktreeWorkspaceID := trim (cw_WorkspaceID w),
                 cn_WorktreeDirectoryName := trim (cw_DirectoryName w), cn_WorktreeTargetDir := trim (cw_TargetDir w)\<rparr>))"

definition DefaultCloneWorktreePayload :: "planner \<Rightarrow> ClonePayload \<Rightarrow> string \<Rightarrow> ClonePayload" where
  "DefaultCloneWorktreePayload p payload0 parentDir0 =
     (let payload = payload0\<lparr>cn_CloneMode := NormalizeCloneMode (cn_CloneMode payload0)\<rparr> in
      if \<not> CloneCreatesWorktree payload then payload
      else case CloneRepoName p (cn_RepoURL payload) of
        Inl _ \<Rightarrow> payload
      | Inr repoName \<Rightarrow>
          let parentDir = FirstNonEmpty [trim parentDir0, trim (cn_SelectedParentDir payload)];
              (branch0, id0, dir0) = clone_worktree_names p payload repoName;
              (branchName, workspaceID, directoryName) =
                (if names_left_open payload \<and> parentDir \<noteq> []
                 then uniqueCloneWorktreeDefaults p parentDir branch0 id0 dir0 else (branch0, id0, dir0)) in
          payload\<lparr>cn_WorktreeWorkspaceID := workspaceID, cn_WorktreeBranchName := branchName,
            cn_WorktreeDirectoryName := directoryName,
            cn_WorktreeTargetDir := (if parentDir \<noteq> [] \<and> directoryName \<noteq> [] then Join_path [parentDir, directoryName]
                                     else cn_WorktreeTargetDir payload)\<rparr>)"

section \<open>Where a plan points\<close>

lemma split_on_append_any: "split_on d (s @ d # t) = split_on d s @ split_on d t"
proof (induction s)
  case (Cons c s)
  obtain q qs where "split_on d s = q # qs" by (cases "split_on d s") auto
  then show ?case using Cons by simp
qed simp

lemma split_rooted: "split_on (CHR ''/'') (CHR ''/'' # s) = [] # split_on (CHR ''/'') s"
  by simp

lemma components_skip_empty [simp]: "clean_components rooted ([] # cs) = clean_components rooted cs"
  by (simp add: clean_components_def clean_step_def)

lemma components_skip_last [simp]: "clean_components rooted (cs @ [[]]) = clean_components rooted cs"
  by (simp add: clean_components_def clean_step_def)

text \<open>The components of a clean path.\<close>

definition path_of :: "bool \<Rightarrow> string list \<Rightarrow> string" where
  "path_of rooted cs = (if rooted then CHR ''/'' # join_slash cs else if cs = [] then dot else join_slash cs)"

lemma Clean_path_of:
  "Clean p = path_of (IsAbs p) (clean_components (IsAbs p) (split_on (CHR ''/'') p))"
  by (simp add: Clean_def path_of_def Let_def)

definition plain :: "bool \<Rightarrow> string list \<Rightarrow> bool" where
  "plain rooted cs \<longleftrightarrow> kept rooted (rev cs)"

lemma plain_parts: "plain rooted cs \<Longrightarrow> \<forall>c\<in>set cs. CHR ''/'' \<notin> set c \<and> c \<noteq> []"
  by (simp add: plain_def kept_def)

lemma plain_snoc:
  assumes "plain rooted cs" "name \<noteq> []" "name \<noteq> dot" "name \<noteq> dotdot" "CHR ''/'' \<notin> set name"
  shows "plain rooted (cs @ [name])"
  using kept_step [OF assms(1) [unfolded plain_def] assms(5)] assms(2-4)
  by (simp add: plain_def clean_step_def)

lemma components_path_of:
  assumes "plain rooted cs"
  shows "clean_components rooted (split_on (CHR ''/'') (path_of rooted cs)) = cs"
    "clean_components rooted (split_on (CHR ''/'') (join_slash cs)) = cs"
    "IsAbs (path_of rooted cs) = rooted"
proof -
  note k = assms [unfolded plain_def]
  show j: "clean_components rooted (split_on (CHR ''/'') (join_slash cs)) = cs"
  proof (cases "cs = []")
    case True
    then show ?thesis by (simp add: clean_components_def clean_step_def)
  next
    case False
    then show ?thesis using split_join [of cs] plain_parts [OF assms] clean_kept [OF k] by simp
  qed
  have "clean_components rooted (split_on (CHR ''/'') dot) = []"
    by (simp add: clean_components_def clean_step_def)
  then show "clean_components rooted (split_on (CHR ''/'') (path_of rooted cs)) = cs"
    using j by (cases rooted) (auto simp: path_of_def clean_components_def clean_step_def)
  show "IsAbs (path_of rooted cs) = rooted"
    using join_slash_relative [of cs] k by (cases rooted) (auto simp: path_of_def)
qed

lemma Clean_plain: "plain rooted cs \<Longrightarrow> Clean (path_of rooted cs) = path_of rooted cs"
  using components_path_of [of rooted cs] by (simp add: Clean_path_of)

lemma Clean_is_plain: "\<exists>rooted cs. plain rooted cs \<and> Clean p = path_of rooted cs"
  using kept_components [of "IsAbs p" p] unfolding Clean_path_of plain_def by blast

lemma path_of_not_Nil: "plain rooted cs \<Longrightarrow> path_of rooted cs \<noteq> []"
  using join_slash_relative [of cs] by (auto simp: path_of_def plain_def)

lemma Join_child:
  assumes "plain rooted cs" "name \<noteq> []" "name \<noteq> dot" "name \<noteq> dotdot" "CHR ''/'' \<notin> set name"
  shows "Join_path [path_of rooted cs, name] = path_of rooted (cs @ [name])"
proof -
  have "Join_path [path_of rooted cs, name] = Clean (path_of rooted cs @ CHR ''/'' # name)"
    using assms(2) path_of_not_Nil [OF assms(1)] by (simp add: Join_path_def)
  also have "\<dots> = path_of rooted (clean_components rooted (split_on (CHR ''/'') (path_of rooted cs) @ [name]))"
    using components_path_of(3) [OF assms(1)] path_of_not_Nil [OF assms(1)] assms(5)
    by (simp add: Clean_path_of split_on_append_any split_on_clean)
  also have "clean_components rooted (split_on (CHR ''/'') (path_of rooted cs) @ [name]) = cs @ [name]"
    using components_path_of(1) [OF assms(1)] assms(2-4) by (simp add: clean_components_def clean_step_def)
  finally show ?thesis .
qed

lemma join_slash_snoc: "join_slash (cs @ [n]) = (if cs = [] then n else join_slash cs @ CHR ''/'' # n)"
  by (induction cs rule: join_slash.induct) auto

lemma Dir_child:
  assumes "plain rooted cs" "CHR ''/'' \<notin> set name" "name \<noteq> []"
  shows "Dir (path_of rooted (cs @ [name])) = path_of rooted cs"
proof -
  have last: "rev (dropWhile (\<lambda>c. c \<noteq> CHR ''/'') (rev (s @ CHR ''/'' # name))) = s @ ''/''" for s
    using assms(2) by (simp add: dropWhile_append)
  have none: "dropWhile (\<lambda>c. c \<noteq> CHR ''/'') (rev name) = []"
    using assms(2) by (auto simp: dropWhile_eq_Nil_conv)
  have "Clean (path_of rooted cs @ ''/'') = path_of rooted cs" if "cs \<noteq> []"
    using components_path_of [OF assms(1)] path_of_not_Nil [OF assms(1)]
    by (simp add: Clean_path_of split_on_append_any)
  note nonempty = this
  show ?thesis
  proof (cases "cs = []")
    case False
    have "path_of rooted (cs @ [name]) = path_of rooted cs @ CHR ''/'' # name"
      using False by (simp add: path_of_def join_slash_snoc)
    then show ?thesis unfolding Dir_def by (simp only: last nonempty [OF False])
  next
    case True
    have "Clean ''/'' = ''/''" "Clean [] = dot" by code_simp+
    then show ?thesis
      using last [of "[]"] True by (cases rooted) (simp_all add: Dir_def path_of_def none del: dropWhile_eq_Nil_conv)
  qed
qed

text \<open>
  C31. A plan for a worktree points at a free place next to the repository: its directory is
  directly in the directory of the repository (no name can climb out of it), nothing is there, no
  workspace has it or the new id, and the branch is valid and new.
\<close>

theorem worktree_plan_safe:
  assumes "PrepareWorkspaceWorktree p payload = Inr plan"
  shows "Dir (wp_TargetDir plan) = Dir (wp_BaseRepoRoot plan) \<and> Base (wp_TargetDir plan) = wp_DirectoryName plan \<and>
    pn_Stat p (wp_TargetDir plan) = StatMissing \<and> WorkspaceByCWD p (wp_TargetDir plan) = None \<and>
    WorkspaceByID p (wp_WorkspaceID plan) = None \<and> wp_WorkspaceID plan \<noteq> [] \<and>
    pn_ValidateBranch p (wp_BranchName plan) = None \<and>
    pn_BranchExists p (wp_BaseRepoRoot plan) (wp_BranchName plan) = Inr False"
proof -
  let ?root = "wp_BaseRepoRoot plan" and ?name = "wp_DirectoryName plan"
  have plan: "wp_TargetDir plan = Join_path [Dir ?root, ?name]" "validateWorktreeDirectoryName ?name = None"
    "place_taken p (wp_WorkspaceID plan) (wp_TargetDir plan) = None"
    "branch_refused p ?root (wp_BranchName plan) = None" "trim ?name = ?name" "wp_WorkspaceID plan \<noteq> []"
    using assms by (auto simp: PrepareWorkspaceWorktree_def Let_def split: if_splits option.splits sum.splits)
  have name: "?name \<noteq> []" "?name \<noteq> dot" "?name \<noteq> dotdot" "CHR ''/'' \<notin> set ?name"
    using plan(2,5) by (auto simp: validateWorktreeDirectoryName_def Let_def split: if_splits)
  obtain rooted cs where d: "plain rooted cs" "Dir ?root = path_of rooted cs"
    using Clean_is_plain unfolding Dir_def by blast
  have target: "wp_TargetDir plan = path_of rooted (cs @ [?name])"
    unfolding plan(1) d(2) by (rule Join_child [OF d(1) name])
  have "Dir (wp_TargetDir plan) = Dir ?root"
    unfolding target d(2) by (rule Dir_child [OF d(1) name(4,1)])
  moreover have "Base (wp_TargetDir plan) = ?name"
  proof -
    have b: "Base (s @ ?name) = ?name" if "s = [] \<or> last s = CHR ''/''" for s
    proof -
      have n: "dropWhile (\<lambda>c. c = CHR ''/'') (rev (s @ ?name)) = rev (s @ ?name)"
        using name(1,4) by (cases "rev ?name") (auto simp: dropWhile_append)
      have "takeWhile (\<lambda>c. c \<noteq> CHR ''/'') (rev ?name @ rev s) = rev ?name"
        using that name(4) by (cases "rev s") (auto simp: takeWhile_tail takeWhile_append hd_rev)
      then show ?thesis using name(1) n by (simp add: Base_def)
    qed
    have "\<exists>s. path_of rooted (cs @ [?name]) = s @ ?name \<and> (s = [] \<or> last s = CHR ''/'')"
      by (cases rooted; cases "cs = []") (auto simp: path_of_def join_slash_snoc intro: exI [of _ "''/''"])
    then show ?thesis unfolding target using b by metis
  qed
  ultimately show ?thesis
    using plan(3,4,6) by (auto simp: place_taken_def branch_refused_def split: option.splits stat_result.splits sum.splits if_splits)
qed

text \<open>One workspace and an empty disk: the plan exists, next to the repository.\<close>

definition sample_planner :: planner where
  "sample_planner = \<lparr>pn_Workspaces = [\<lparr>wk_ID = ''a'', wk_Name = [], wk_Cwd = ''/r/a'', wk_ApprovalPolicy = [],
       wk_SandboxMode = [], wk_MultiAgentMode = [], wk_ClaudePermissionMode = []\<rparr>],
     pn_Pending = [], pn_ConfigPath = [], pn_BotName = [], pn_FrontendID = [], pn_Stat = (\<lambda>_. StatMissing),
     pn_Root = Inr, pn_ValidateBranch = (\<lambda>_. None), pn_BranchExists = (\<lambda>_ _. Inr False),
     pn_URL = (\<lambda>_. None),
     pn_WorktreePayload = (\<lambda>_. \<lparr>wt_BaseWorkspaceID = [], wt_BranchName = [], wt_WorkspaceID = [],
       wt_DirectoryName = [], wt_TargetDir = [], wt_ErrorMessage = []\<rparr>),
     pn_ClonePayload = (\<lambda>_. \<lparr>cn_RootPath = [], cn_SelectedParentDir = [], cn_RepoURL = [], cn_DraftID = [],
       cn_CloneMode = [], cn_WorktreeBranchName = [], cn_WorktreeWorkspaceID = [],
       cn_WorktreeDirectoryName = [], cn_WorktreeTargetDir = [], cn_ErrorMessage = []\<rparr>),
     pn_Letter = (\<lambda>_. True)\<rparr>"

definition sample_worktree :: WorktreePayload where
  "sample_worktree = \<lparr>wt_BaseWorkspaceID = ''a'', wt_BranchName = ''f'', wt_WorkspaceID = ''b'',
     wt_DirectoryName = [], wt_TargetDir = [], wt_ErrorMessage = []\<rparr>"

lemma sample_plan:
  "PrepareWorkspaceWorktree sample_planner sample_worktree =
     Inr \<lparr>wp_BaseWorkspaceID = ''a'', wp_BaseRepoRoot = ''/r/a'', wp_BranchName = ''f'', wp_WorkspaceID = ''b'',
           wp_DirectoryName = ''b'', wp_TargetDir = ''/r/b''\<rparr>"
  by code_simp

theorem worktree_plan_safe_witness:
  "Dir ''/r/b'' = Dir ''/r/a'' \<and> Base ''/r/b'' = ''b'' \<and> WorkspaceByCWD sample_planner ''/r/b'' = None"
  using worktree_plan_safe [OF sample_plan] by simp

end
