(* ===== verification/Maintenance_Service.thy ===== *)
theory Maintenance_Service
  imports Interaction_Service Runtime_State
begin

text \<open>
  The upgrade and the restart of a backend: \<open>application/backendmaintenance\<close> (\<open>state.go\<close>, the
  admission of a frontend; \<open>service.go\<close>, the use case) over the tracker of \<open>Runtime_State\<close> and the
  forms of \<open>Interaction_Service\<close>.

  The world is the store gateway with the forms, the tracker, what was published to the user so
  far, and a clock that counts the steps. The installer (a package manager behind HTTP and
  processes), the refresh of the runtime, the reason why the runtime is busy and the JSON of the
  payload are ports; each call may be answered differently, so they see the clock.
\<close>

section \<open>Admission (state.go)\<close>

definition SessionHasActiveWork :: "Session option \<Rightarrow> bool" where
  "SessionHasActiveWork session =
     (case session of
        None \<Rightarrow> False
      | Some sess \<Rightarrow>
          HasActiveOperations (Some sess) \<or>
          NormalizeSessionStatus (ss_Status sess) \<in> {''compacting'', SessionStatusTurnStarting})"

definition BlockingPendingCount :: "PendingRequest list \<Rightarrow> nat" where
  "BlockingPendingCount requests =
     length (filter (\<lambda>req. IsServerResolvedPendingKind (pr_Kind req) \<and> IsPendingRequestOpen (pr_Status req)) requests)"

text \<open>Running work comes before a question the backend waits for.\<close>

datatype busy_reason = WorkRuns | AnswersOpen

definition RuntimeBusyReason :: "Session list \<Rightarrow> PendingRequest list \<Rightarrow> busy_reason option" where
  "RuntimeBusyReason sessions requests =
     (if \<exists>sess\<in>set sessions. SessionHasActiveWork (Some sess) then Some WorkRuns
      else if 0 < BlockingPendingCount requests then Some AnswersOpen
      else None)"

datatype ready_error = InMaintenance | NotIdle busy_reason

definition EnsureUpgradeReady ::
  "MaintenanceTracker option \<Rightarrow> Session list \<Rightarrow> PendingRequest list \<Rightarrow> ready_error option" where
  "EnsureUpgradeReady tracker sessions requests =
     (case tracker of
        None \<Rightarrow> None
      | Some t \<Rightarrow>
          if Active t then Some InMaintenance else map_option NotIdle (RuntimeBusyReason sessions requests))"

definition AllowsCommand :: "string \<Rightarrow> string \<Rightarrow> bool" where
  "AllowsCommand raw0 commandName =
     (let raw = trim raw0 in
      raw = ''/help'' \<or> raw = ''/status'' \<or> raw = commandName \<or> prefix (commandName @ '' '') raw)"

definition BlocksCommand :: "MaintenanceTracker option \<Rightarrow> string \<Rightarrow> string \<Rightarrow> bool" where
  "BlocksCommand tracker raw commandName =
     (case tracker of None \<Rightarrow> False | Some t \<Rightarrow> Active t \<and> \<not> AllowsCommand raw commandName)"

section \<open>The use case (service.go)\<close>

record InstallProbe =
  ip_Command :: string
  ip_CommandPath :: string
  ip_RealCommandPath :: string
  ip_PackagePath :: string
  ip_CurrentVersion :: string
  ip_UpdateCommand :: string
  ip_Supported :: bool
  ip_Reason :: string

record UpgradePayload =
  ug_CurrentVersion :: string
  ug_TargetVersion :: string
  ug_Command :: string
  ug_CommandPath :: string
  ug_UpdateCommand :: string

definition zero_Payload :: UpgradePayload where
  "zero_Payload = \<lparr>ug_CurrentVersion = [], ug_TargetVersion = [], ug_Command = [], ug_CommandPath = [],
     ug_UpdateCommand = []\<rparr>"

record Operation =
  on_RequestID :: string
  on_MessageID :: string
  on_SessionKey :: string
  on_Payload :: UpgradePayload
  on_Restart :: bool

record Progress =
  pg_Operation :: Operation
  pg_Upgrade :: "UpgradeSnapshot option"
  pg_Restart :: "RestartSnapshot option"

record View =
  vw_Probe :: InstallProbe
  vw_LatestVersion :: string
  vw_LatestError :: string
  vw_BusyReason :: string
  vw_Snapshot :: UpgradeSnapshot
  vw_Restart :: RestartSnapshot

record UpgradeConfirmation =
  cf_RequestID :: string
  cf_Payload :: UpgradePayload

record maintenance_ports =
  mp_Name :: string
  mp_Kind :: string
  mp_now :: "nat \<Rightarrow> int"
  mp_Probe :: "nat \<Rightarrow> string + InstallProbe"
  mp_LatestVersion :: "nat \<Rightarrow> string + string"
  mp_InstallVersion :: "nat \<Rightarrow> string \<Rightarrow> string option"
  mp_Refresh :: "nat \<Rightarrow> string + bool"
  mp_BusyReason :: "nat \<Rightarrow> string"
  mp_Marshal :: "UpgradePayload \<Rightarrow> string + string"
  mp_Unmarshal :: "string \<Rightarrow> string + UpgradePayload"
  mp_stamp :: string
  mp_io :: "string option"

record maintenance_world =
  mw_forms :: ScopedStore
  mw_state :: MaintenanceTracker
  mw_published :: "Progress list"
  mw_clock :: nat

datatype maintenance_error =
    ProbeFailed string | FormRefused form_error | PayloadBroken string
  | NotRestored string form_error | UnderMaintenance | BackendBusy string

definition tick :: "maintenance_world \<Rightarrow> maintenance_world" where
  "tick w = w\<lparr>mw_clock := Suc (mw_clock w)\<rparr>"

definition on_forms :: "(int \<Rightarrow> ScopedStore \<Rightarrow> ScopedStore \<times> 'r) \<Rightarrow> maintenance_ports \<Rightarrow> maintenance_world
    \<Rightarrow> maintenance_world \<times> 'r" where
  "on_forms f p w = (case f (mp_now p (mw_clock w)) (mw_forms w) of (s, r) \<Rightarrow> (tick (w\<lparr>mw_forms := s\<rparr>), r))"

definition on_state :: "(int \<Rightarrow> MaintenanceTracker \<Rightarrow> MaintenanceTracker \<times> 'r) \<Rightarrow> maintenance_ports \<Rightarrow> maintenance_world
    \<Rightarrow> maintenance_world \<times> 'r" where
  "on_state f p w = (case f (mp_now p (mw_clock w)) (mw_state w) of (s, r) \<Rightarrow> (tick (w\<lparr>mw_state := s\<rparr>), r))"

text \<open>The latest version is looked up only when an upgrade could follow.\<close>

definition View_maintenance ::
  "maintenance_ports \<Rightarrow> bool \<Rightarrow> maintenance_world \<Rightarrow> maintenance_world \<times> (maintenance_error + View)" where
  "View_maintenance p latest w =
     (case mp_Probe p (mw_clock w) of
        Inl e \<Rightarrow> (tick w, Inl (ProbeFailed e))
      | Inr probe \<Rightarrow>
          let w1 = tick w;
              view = \<lparr>vw_Probe = probe, vw_LatestVersion = [], vw_LatestError = [],
                      vw_BusyReason = mp_BusyReason p (mw_clock w1),
                      vw_Snapshot = mt_Upgrade (mw_state w1), vw_Restart = mt_Restart (mw_state w1)\<rparr> in
          if latest \<and> ip_Supported probe \<and> \<not> up_Running (vw_Snapshot view) \<and> \<not> rs_Running (vw_Restart view)
          then (tick w1,
                case mp_LatestVersion p (mw_clock w1) of
                  Inl e \<Rightarrow> Inr (view\<lparr>vw_LatestError := e\<rparr>)
                | Inr version \<Rightarrow> Inr (view\<lparr>vw_LatestVersion := trim version\<rparr>))
          else (w1, Inr view))"

definition upgradable :: "View \<Rightarrow> bool" where
  "upgradable view \<longleftrightarrow>
     \<not> (up_Running (vw_Snapshot view) \<or> rs_Running (vw_Restart view) \<or> \<not> ip_Supported (vw_Probe view) \<or>
        vw_BusyReason view \<noteq> [] \<or> vw_LatestError view \<noteq> [] \<or> vw_LatestVersion view = [] \<or>
        vw_LatestVersion view \<noteq> ''latest'' \<and> vw_LatestVersion view = ip_CurrentVersion (vw_Probe view))"

definition form_kind :: "maintenance_ports \<Rightarrow> string" where
  "form_kind p = mp_Kind p @ ''_self_upgrade''"

definition Prepare_upgrade ::
  "maintenance_ports \<Rightarrow> string \<Rightarrow> string \<Rightarrow> View \<Rightarrow> maintenance_world
     \<Rightarrow> maintenance_world \<times> (maintenance_error + UpgradeConfirmation)" where
  "Prepare_upgrade p sessionKey userID view w =
     (if \<not> upgradable view then (w, Inr \<lparr>cf_RequestID = [], cf_Payload = zero_Payload\<rparr>)
      else
        let payload = \<lparr>ug_CurrentVersion = ip_CurrentVersion (vw_Probe view), ug_TargetVersion = vw_LatestVersion view,
              ug_Command = ip_Command (vw_Probe view), ug_CommandPath = ip_CommandPath (vw_Probe view),
              ug_UpdateCommand = ip_UpdateCommand (vw_Probe view)\<rparr>;
            request = zero_PendingRequest\<lparr>pr_Kind := form_kind p, pr_SessionKey := sessionKey,
              pr_OwnerUserID := userID\<rparr> in
        (case on_forms (\<lambda>now. Open_form now (mp_stamp p) (mp_io p) (mp_Kind p @ ''-upgrade'') request
                (mp_Marshal p payload) 900) p w of
           (w1, Inl e) \<Rightarrow> (w1, Inl (FormRefused e))
         | (w1, Inr None) \<Rightarrow> (w1, Inl (FormRefused FormMissing))
         | (w1, Inr (Some req)) \<Rightarrow> (w1, Inr \<lparr>cf_RequestID = pr_ID req, cf_Payload = payload\<rparr>)))"

definition Cancel_upgrade ::
  "maintenance_ports \<Rightarrow> string \<Rightarrow> string \<Rightarrow> maintenance_world
     \<Rightarrow> maintenance_world \<times> (maintenance_error + PendingRequest)" where
  "Cancel_upgrade p i userID w =
     (case on_forms (\<lambda>now. Transition now i (form_kind p) userID ''pending'' ''resolved'' []) p w of
        (w1, Inl e) \<Rightarrow> (w1, Inl (FormRefused e))
      | (w1, Inr req) \<Rightarrow> (w1, Inr req))"

text \<open>A request that cannot be carried out is put back, so that the user can confirm it again.\<close>

definition put_back :: "maintenance_ports \<Rightarrow> string \<Rightarrow> maintenance_world \<Rightarrow> maintenance_world \<times> form_error option" where
  "put_back p i = on_forms (\<lambda>now. SaveDraft now i None ''pending'' 0 []) p"

definition preflight :: "UpgradePayload \<Rightarrow> UpgradeSnapshot" where
  "preflight payload =
     zero_Upgrade\<lparr>up_Phase := ''preflight'',
       up_Message := [CHR 0xE6, CHR 0xAD, CHR 0xA3, CHR 0xE5, CHR 0x9C, CHR 0xA8, CHR 0xE6, CHR 0xA0,
         CHR 0xA1, CHR 0xE9, CHR 0xAA, CHR 0x8C, CHR 0xE5, CHR 0x8D, CHR 0x87, CHR 0xE7, CHR 0xBA,
         CHR 0xA7, CHR 0xE5, CHR 0x89, CHR 0x8D, CHR 0xE7, CHR 0xBD, CHR 0xAE, CHR 0xE6, CHR 0x9D,
         CHR 0xA1, CHR 0xE4, CHR 0xBB, CHR 0xB6],
       up_CurrentVersion := ug_CurrentVersion payload, up_PreviousVersion := ug_CurrentVersion payload,
       up_TargetVersion := ug_TargetVersion payload, up_LatestVersion := ug_TargetVersion payload\<rparr>"

definition Confirm_upgrade ::
  "maintenance_ports \<Rightarrow> (form_error \<Rightarrow> string) \<Rightarrow> string \<Rightarrow> string \<Rightarrow> string \<Rightarrow> maintenance_world
     \<Rightarrow> maintenance_world \<times> (maintenance_error + Operation)" where
  "Confirm_upgrade p text i userID messageID w =
     (case on_forms (\<lambda>now. Transition now i (form_kind p) userID ''pending'' ''processing'' messageID) p w of
        (w1, Inl e) \<Rightarrow> (w1, Inl (FormRefused e))
      | (w1, Inr req) \<Rightarrow>
          (case mp_Unmarshal p (pr_PayloadJSON req) of
             Inl cause \<Rightarrow>
               (case put_back p i w1 of
                  (w2, Some e) \<Rightarrow> (w2, Inl (NotRestored cause e))
                | (w2, None) \<Rightarrow> (w2, Inl (PayloadBroken cause)))
           | Inr payload \<Rightarrow>
               (case on_state (\<lambda>now. BeginUpgrade now (preflight payload)) p w1 of
                  (w2, False) \<Rightarrow>
                    (case put_back p i w2 of
                       (w3, Some e) \<Rightarrow> (w3, Inl (FormRefused e))
                     | (w3, None) \<Rightarrow> (w3, Inl UnderMaintenance))
                | (w2, True) \<Rightarrow>
                    (case on_forms (\<lambda>now. SaveDraft now i None ''resolved'' 0 []) p w2 of
                       (w3, Some e) \<Rightarrow>
                         (fst (on_state (\<lambda>now. FinishUpgrade now ''failed'' (text e)) p w3), Inl (FormRefused e))
                     | (w3, None) \<Rightarrow>
                         (w3, Inr \<lparr>on_RequestID = i, on_MessageID = FirstNonEmpty [messageID, pr_FeishuMsgID req],
                            on_SessionKey = pr_SessionKey req, on_Payload = payload, on_Restart = False\<rparr>)))))"

definition BeginRestart_service ::
  "maintenance_ports \<Rightarrow> maintenance_world \<Rightarrow> maintenance_world \<times> (maintenance_error + RestartSnapshot)" where
  "BeginRestart_service p w =
     (let t = mw_state w; busy = mp_BusyReason p (mw_clock w) in
      if up_Running (mt_Upgrade t) \<or> rs_Running (mt_Restart t) then (w, Inl UnderMaintenance)
      else if busy \<noteq> [] then (tick w, Inl (BackendBusy busy))
      else
        let snapshot = zero_Restart\<lparr>rs_Phase := ''preflight'',
              rs_Message := [CHR 0xE6, CHR 0xAD, CHR 0xA3, CHR 0xE5, CHR 0x9C, CHR 0xA8, CHR 0xE6,
                CHR 0xA0, CHR 0xA1, CHR 0xE9, CHR 0xAA, CHR 0x8C, CHR 0xE9, CHR 0x87, CHR 0x8D, CHR
                0xE5, CHR 0x90, CHR 0xAF, CHR 0xE5, CHR 0x89, CHR 0x8D, CHR 0xE7, CHR 0xBD, CHR 0xAE,
                CHR 0xE6, CHR 0x9D, CHR 0xA1, CHR 0xE4, CHR 0xBB, CHR 0xB6],
              rs_CurrentVersion := FirstNonEmpty [up_CurrentVersion (mt_Upgrade t), rs_CurrentVersion (mt_Restart t)]\<rparr> in
        (case on_state (\<lambda>now. BeginRestart now snapshot) p (tick w) of
           (w1, False) \<Rightarrow> (w1, Inl UnderMaintenance)
         | (w1, True) \<Rightarrow> (w1, Inr (mt_Restart (mw_state w1)))))"

section \<open>Running an operation\<close>

definition Publish :: "Progress \<Rightarrow> maintenance_world \<Rightarrow> maintenance_world" where
  "Publish progress w = tick (w\<lparr>mw_published := mw_published w @ [progress]\<rparr>)"

definition progress_of :: "Operation \<Rightarrow> MaintenanceTracker \<Rightarrow> Progress" where
  "progress_of op t =
     \<lparr>pg_Operation = op, pg_Upgrade = (if on_Restart op then None else Some (mt_Upgrade t)),
      pg_Restart = (if on_Restart op then Some (mt_Restart t) else None)\<rparr>"

definition change_snapshot ::
  "(UpgradeSnapshot \<Rightarrow> UpgradeSnapshot) \<Rightarrow> (RestartSnapshot \<Rightarrow> RestartSnapshot) \<Rightarrow> maintenance_ports \<Rightarrow> Operation
     \<Rightarrow> maintenance_world \<Rightarrow> maintenance_world" where
  "change_snapshot f g p op w =
     (if on_Restart op then fst (on_state (\<lambda>now. UpdateRestart now g) p w)
      else fst (on_state (\<lambda>now. UpdateUpgrade now f) p w))"

definition update_progress ::
  "maintenance_ports \<Rightarrow> Operation \<Rightarrow> string \<Rightarrow> string \<Rightarrow> maintenance_world \<Rightarrow> maintenance_world" where
  "update_progress p op phase message w =
     (let w1 = change_snapshot (\<lambda>u. u\<lparr>up_Phase := phase, up_Message := message\<rparr>)
                 (\<lambda>r. r\<lparr>rs_Phase := phase, rs_Message := message\<rparr>) p op w in
      Publish (progress_of op (mw_state w1)) w1)"

definition finish_operation ::
  "maintenance_ports \<Rightarrow> Operation \<Rightarrow> string \<Rightarrow> string \<Rightarrow> maintenance_world \<Rightarrow> maintenance_world" where
  "finish_operation p op result message w =
     (let w1 = (if on_Restart op then fst (on_state (\<lambda>now. FinishRestart now result message) p w)
                else fst (on_state (\<lambda>now. FinishUpgrade now result message) p w)) in
      Publish (progress_of op (mw_state w1)) w1)"

definition Reject :: "maintenance_ports \<Rightarrow> Operation \<Rightarrow> string \<Rightarrow> maintenance_world \<Rightarrow> maintenance_world" where
  "Reject p op err = finish_operation p op ''failed'' err"

definition operation_label :: "Operation \<Rightarrow> string" where
  "operation_label op = (if on_Restart op then [CHR 0xE9, CHR 0x87, CHR 0x8D, CHR 0xE5, CHR 0x90,
    CHR 0xAF] else [CHR 0xE5, CHR 0x8D, CHR 0x87, CHR 0xE7, CHR 0xBA, CHR 0xA7])"

definition success_message :: "maintenance_ports \<Rightarrow> Operation \<Rightarrow> string \<Rightarrow> string \<Rightarrow> string \<Rightarrow> bool \<Rightarrow> string" where
  "success_message p op previous target installed switched =
     (let name = mp_Name p; same = (installed \<noteq> [] \<and> installed = previous);
          version = FirstNonEmpty [installed, target] in
      if on_Restart op \<and> switched then name @
        ('' runtime '' @ [CHR 0xE5, CHR 0xB7, CHR 0xB2, CHR 0xE5, CHR 0x8E, CHR 0x9F, CHR 0xE5, CHR
          0x9C, CHR 0xB0, CHR 0xE9, CHR 0x87, CHR 0x8D, CHR 0xE5, CHR 0x90, CHR 0xAF, CHR 0xEF, CHR
          0xBC, CHR 0x8C, CHR 0xE5, CHR 0x90, CHR 0x8E, CHR 0xE7, CHR 0xBB, CHR 0xAD, CHR 0xE4, CHR
          0xBB, CHR 0xBB, CHR 0xE5, CHR 0x8A, CHR 0xA1, CHR 0xE4, CHR 0xBC, CHR 0x9A, CHR 0xE4, CHR
          0xBD, CHR 0xBF, CHR 0xE7, CHR 0x94, CHR 0xA8, CHR 0xE6, CHR 0x96, CHR 0xB0, CHR 0xE8, CHR
          0xBF, CHR 0x9B, CHR 0xE7, CHR 0xA8, CHR 0x8B])
      else if on_Restart op then name @
        ('' CLI '' @ [CHR 0xE6, CHR 0xA0, CHR 0xA1, CHR 0xE9, CHR 0xAA, CHR 0x8C, CHR 0xE9, CHR 0x80,
          CHR 0x9A, CHR 0xE8, CHR 0xBF, CHR 0x87, CHR 0xEF, CHR 0xBC, CHR 0x9B, CHR 0xE5, CHR 0xBD,
          CHR 0x93, CHR 0xE5, CHR 0x89, CHR 0x8D] @ '' frontend '' @ [CHR 0xE6, CHR 0x9C, CHR 0xAA,
          CHR 0xE5, CHR 0x90, CHR 0xAF, CHR 0xE7, CHR 0x94, CHR 0xA8] @ '' '') @ name @ '' backend''
      else if same \<and> switched then name @
        ('' '' @ [CHR 0xE5, CHR 0xB7, CHR 0xB2, CHR 0xE6, CHR 0x98, CHR 0xAF, CHR 0xE6, CHR 0x9C,
          CHR 0x80, CHR 0xE6, CHR 0x96, CHR 0xB0, CHR 0xE7, CHR 0x89, CHR 0x88, CHR 0xE6, CHR 0x9C,
          CHR 0xAC] @ '' `'') @ installed @
        (''`'' @ [CHR 0xEF, CHR 0xBC, CHR 0x8C] @ ''runtime '' @ [CHR 0xE5, CHR 0xB7, CHR 0xB2, CHR
          0xE9, CHR 0x87, CHR 0x8D, CHR 0xE6, CHR 0x96, CHR 0xB0, CHR 0xE9, CHR 0xAA, CHR 0x8C, CHR
          0xE8, CHR 0xAF, CHR 0x81])
      else if same then name @
        ('' '' @ [CHR 0xE5, CHR 0xB7, CHR 0xB2, CHR 0xE6, CHR 0x98, CHR 0xAF, CHR 0xE6, CHR 0x9C,
          CHR 0x80, CHR 0xE6, CHR 0x96, CHR 0xB0, CHR 0xE7, CHR 0x89, CHR 0x88, CHR 0xE6, CHR 0x9C,
          CHR 0xAC] @ '' `'') @ installed @
        (''`'' @ [CHR 0xEF, CHR 0xBC, CHR 0x9B, CHR 0xE5, CHR 0xBD, CHR 0x93, CHR 0xE5, CHR 0x89,
          CHR 0x8D] @ '' frontend '' @ [CHR 0xE6, CHR 0x9C, CHR 0xAA, CHR 0xE5, CHR 0x90, CHR 0xAF,
          CHR 0xE7, CHR 0x94, CHR 0xA8] @ '' '') @ name @ '' backend''
      else if switched then name @
        ('' '' @ [CHR 0xE8, CHR 0x87, CHR 0xAA, CHR 0xE5, CHR 0x8D, CHR 0x87, CHR 0xE7, CHR 0xBA,
          CHR 0xA7, CHR 0xE6, CHR 0x88, CHR 0x90, CHR 0xE5, CHR 0x8A, CHR 0x9F, CHR 0xEF, CHR 0xBC,
          CHR 0x8C, CHR 0xE5, CHR 0xB7, CHR 0xB2, CHR 0xE5, CHR 0x88, CHR 0x87, CHR 0xE6, CHR 0x8D,
          CHR 0xA2, CHR 0xE5, CHR 0x88, CHR 0xB0] @ '' `'') @ version @ ''`''
      else name @
        ('' '' @ [CHR 0xE8, CHR 0x87, CHR 0xAA, CHR 0xE5, CHR 0x8D, CHR 0x87, CHR 0xE7, CHR 0xBA,
          CHR 0xA7, CHR 0xE6, CHR 0x88, CHR 0x90, CHR 0xE5, CHR 0x8A, CHR 0x9F, CHR 0xEF, CHR 0xBC,
          CHR 0x8C, CHR 0xE5, CHR 0xB7, CHR 0xB2, CHR 0xE9, CHR 0xAA, CHR 0x8C, CHR 0xE8, CHR 0xAF,
          CHR 0x81] @ '' `'') @ version @
        (''` '' @ [CHR 0xE5, CHR 0x8F, CHR 0xAF, CHR 0xE7, CHR 0x94, CHR 0xA8, CHR 0xEF, CHR 0xBC,
          CHR 0x9B, CHR 0xE5, CHR 0xBD, CHR 0x93, CHR 0xE5, CHR 0x89, CHR 0x8D] @ '' frontend '' @
          [CHR 0xE6, CHR 0x9C, CHR 0xAA, CHR 0xE5, CHR 0x90, CHR 0xAF, CHR 0xE7, CHR 0x94, CHR 0xA8]
          @ '' '') @ name @ '' backend'')"

definition testing_message :: "maintenance_ports \<Rightarrow> string" where
  "testing_message p = ([CHR 0xE6, CHR 0xAD, CHR 0xA3, CHR 0xE5, CHR 0x9C, CHR 0xA8, CHR 0xE9, CHR
    0xAA, CHR 0x8C, CHR 0xE8, CHR 0xAF, CHR 0x81] @ '' '') @ mp_Name p @ '' runtime''"

definition refresh_failed_message :: "maintenance_ports \<Rightarrow> Operation \<Rightarrow> string \<Rightarrow> string" where
  "refresh_failed_message p op e =
     (if on_Restart op then mp_Name p @ ('' runtime '' @ [CHR 0xE9, CHR 0x87, CHR 0x8D, CHR 0xE5,
       CHR 0x90, CHR 0xAF, CHR 0xE5, CHR 0xA4, CHR 0xB1, CHR 0xE8, CHR 0xB4, CHR 0xA5] @ '': '') @
       e
      else mp_Name p @ ('' '' @ [CHR 0xE8, CHR 0x87, CHR 0xAA, CHR 0xE5, CHR 0x8D, CHR 0x87, CHR 0xE7,
        CHR 0xBA, CHR 0xA7, CHR 0xE5, CHR 0x90, CHR 0x8E] @ '' runtime '' @ [CHR 0xE9, CHR 0xAA, CHR
        0x8C, CHR 0xE8, CHR 0xAF, CHR 0x81, CHR 0xE5, CHR 0xA4, CHR 0xB1, CHR 0xE8, CHR 0xB4, CHR
        0xA5, CHR 0xEF, CHR 0xBC, CHR 0x8C, CHR 0xE6, CHR 0x9C, CHR 0xAA, CHR 0xE8, CHR 0x87, CHR
        0xAA, CHR 0xE5, CHR 0x8A, CHR 0xA8, CHR 0xE5, CHR 0x9B, CHR 0x9E, CHR 0xE6, CHR 0xBB, CHR
        0x9A] @ '': '') @ e)"

text \<open>The last part: the new runtime is started and tried.\<close>

definition refresh_runtime ::
  "maintenance_ports \<Rightarrow> Operation \<Rightarrow> string \<Rightarrow> string \<Rightarrow> string \<Rightarrow> maintenance_world \<Rightarrow> maintenance_world" where
  "refresh_runtime p op previous target installed w0 =
     (let w = update_progress p op ''smoke_testing'' (testing_message p) w0 in
      case mp_Refresh p (mw_clock w) of
        Inl e \<Rightarrow>
          finish_operation p op ''failed'' (refresh_failed_message p op e) (tick w)
      | Inr switched \<Rightarrow>
          finish_operation p op ''success'' (success_message p op previous target installed switched) (tick w))"

text \<open>The update command is run, and the version it left is read back.\<close>

definition install_update ::
  "maintenance_ports \<Rightarrow> Operation \<Rightarrow> InstallProbe \<Rightarrow> string \<Rightarrow> maintenance_world
     \<Rightarrow> maintenance_world \<times> (string + string)" where
  "install_update p op probe previous w0 =
     (let update = FirstNonEmpty [ip_UpdateCommand probe, ug_UpdateCommand (on_Payload op), ''update''];
          w = update_progress p op ''installing''
                (([CHR 0xE6, CHR 0xAD, CHR 0xA3, CHR 0xE5, CHR 0x9C, CHR 0xA8, CHR 0xE8, CHR 0xBF,
                  CHR 0x90, CHR 0xE8, CHR 0xA1, CHR 0x8C] @ '' '') @ mp_Name p @
                 ('' '' @ [CHR 0xE8, CHR 0x87, CHR 0xAA, CHR 0xE5, CHR 0x8D, CHR 0x87, CHR 0xE7, CHR
                   0xBA, CHR 0xA7, CHR 0xE5, CHR 0x91, CHR 0xBD, CHR 0xE4, CHR 0xBB, CHR 0xA4] @ '' `'')
                   @
                 FirstNonEmpty [ip_Command probe, mp_Kind p] @ '' '' @ update @ ''`'') w0 in
      case mp_InstallVersion p (mw_clock w) ''latest'' of
        Some e \<Rightarrow> (tick w, Inl (mp_Name p @ ('' '' @ [CHR 0xE8, CHR 0x87, CHR 0xAA, CHR
          0xE5, CHR 0x8D, CHR 0x87, CHR 0xE7, CHR 0xBA, CHR 0xA7, CHR 0xE5, CHR 0xA4, CHR 0xB1, CHR
          0xE8, CHR 0xB4, CHR 0xA5, CHR 0xEF, CHR 0xBC, CHR 0x8C, CHR 0xE6, CHR 0x9C, CHR 0xAA, CHR
          0xE8, CHR 0x87, CHR 0xAA, CHR 0xE5, CHR 0x8A, CHR 0xA8, CHR 0xE5, CHR 0x9B, CHR 0x9E, CHR
          0xE6, CHR 0xBB, CHR 0x9A] @ '': '') @ e))
      | None \<Rightarrow>
          let w1 = tick w in
          (case mp_Probe p (mw_clock w1) of
             Inl e \<Rightarrow> (tick w1, Inl (mp_Name p @ ('' '' @ [CHR 0xE8, CHR 0x87, CHR 0xAA,
               CHR 0xE5, CHR 0x8D, CHR 0x87, CHR 0xE7, CHR 0xBA, CHR 0xA7, CHR 0xE5, CHR 0x90, CHR
               0x8E, CHR 0xE7, CHR 0x89, CHR 0x88, CHR 0xE6, CHR 0x9C, CHR 0xAC, CHR 0xE6, CHR 0xA3,
               CHR 0x80, CHR 0xE6, CHR 0x9F, CHR 0xA5, CHR 0xE5, CHR 0xA4, CHR 0xB1, CHR 0xE8, CHR
               0xB4, CHR 0xA5, CHR 0xEF, CHR 0xBC, CHR 0x8C, CHR 0xE6, CHR 0x9C, CHR 0xAA, CHR 0xE8,
               CHR 0x87, CHR 0xAA, CHR 0xE5, CHR 0x8A, CHR 0xA8, CHR 0xE5, CHR 0x9B, CHR 0x9E, CHR
               0xE6, CHR 0xBB, CHR 0x9A] @ '': '') @ e))
           | Inr after \<Rightarrow>
               let installed = FirstNonEmpty [ip_CurrentVersion after, previous] in
               (fst (on_state (\<lambda>now. UpdateUpgrade now
                   (\<lambda>u. u\<lparr>up_TargetVersion := installed, up_LatestVersion := installed\<rparr>)) p (tick w1)), Inr installed)))"

definition note_versions ::
  "maintenance_ports \<Rightarrow> Operation \<Rightarrow> InstallProbe \<Rightarrow> string \<Rightarrow> string \<Rightarrow> maintenance_world \<Rightarrow> maintenance_world" where
  "note_versions p op probe previous target =
     change_snapshot
       (\<lambda>u. u\<lparr>up_CurrentVersion := previous, up_PreviousVersion := previous, up_TargetVersion := target,
              up_LatestVersion := target\<rparr>)
       (\<lambda>r. r\<lparr>rs_CurrentVersion := FirstNonEmpty [ip_CurrentVersion probe, rs_CurrentVersion r]\<rparr>) p op"

definition Run_operation :: "maintenance_ports \<Rightarrow> Operation \<Rightarrow> maintenance_world \<Rightarrow> maintenance_world" where
  "Run_operation p op w0 =
     (let w = tick w0 in
      case mp_Probe p (mw_clock w0) of
        Inl e \<Rightarrow> finish_operation p op ''failed'' (operation_label op @ ([CHR 0xE5, CHR
          0x89, CHR 0x8D, CHR 0xE6, CHR 0xA3, CHR 0x80, CHR 0xE6, CHR 0x9F, CHR 0xA5, CHR 0xE5, CHR
          0xA4, CHR 0xB1, CHR 0xE8, CHR 0xB4, CHR 0xA5] @ '': '') @ e) w
      | Inr probe \<Rightarrow>
          if \<not> on_Restart op \<and> \<not> ip_Supported probe then
            finish_operation p op ''failed''
              (([CHR 0xE5, CHR 0xBD, CHR 0x93, CHR 0xE5, CHR 0x89, CHR 0x8D, CHR 0xE7, CHR 0x8E, CHR
                0xAF, CHR 0xE5, CHR 0xA2, CHR 0x83, CHR 0xE4, CHR 0xB8, CHR 0x8D, CHR 0xE6, CHR 0x94,
                CHR 0xAF, CHR 0xE6, CHR 0x8C, CHR 0x81] @ '' '') @ mp_Name p @
               ('' '' @ [CHR 0xE8, CHR 0x87, CHR 0xAA, CHR 0xE5, CHR 0x8D, CHR 0x87, CHR 0xE7, CHR
                 0xBA, CHR 0xA7] @ '': '') @ FirstNonEmpty [ip_Reason probe, ''unknown'']) w
          else
            let previous = FirstNonEmpty [ip_CurrentVersion probe, ug_CurrentVersion (on_Payload op)];
                target = FirstNonEmpty [ug_TargetVersion (on_Payload op), ''latest''];
                w1 = note_versions p op probe previous target w;
                reason = mp_BusyReason p (mw_clock w1); w2 = tick w1 in
            if reason \<noteq> [] then
              finish_operation p op ''failed'' (operation_label op @ ([CHR 0xE5, CHR 0x89, CHR 0x8D,
                CHR 0xE6, CHR 0xA3, CHR 0x80, CHR 0xE6, CHR 0x9F, CHR 0xA5, CHR 0xE5, CHR 0xA4, CHR
                0xB1, CHR 0xE8, CHR 0xB4, CHR 0xA5] @ '': '') @ reason) w2
            else if on_Restart op then
              refresh_runtime p op previous target previous
                (update_progress p op ''restarting'' (([CHR 0xE6, CHR 0xAD, CHR 0xA3, CHR 0xE5, CHR
                  0x9C, CHR 0xA8, CHR 0xE5, CHR 0x87, CHR 0x86, CHR 0xE5, CHR 0xA4, CHR 0x87, CHR
                  0xE6, CHR 0x96, CHR 0xB0, CHR 0xE7, CHR 0x9A, CHR 0x84] @ '' '') @ mp_Name p @ '' runtime'')
                  w2)
            else
              (case install_update p op probe previous w2 of
                 (w3, Inl message) \<Rightarrow> finish_operation p op ''failed'' message w3
               | (w3, Inr installed) \<Rightarrow> refresh_runtime p op previous target installed w3))"

section \<open>What an operation does\<close>

text \<open>A part of a run: it keeps the forms and the other kind of maintenance, and only adds to what was published.\<close>

definition part_of_run :: "Operation \<Rightarrow> maintenance_world \<Rightarrow> maintenance_world \<Rightarrow> bool" where
  "part_of_run op w w' \<longleftrightarrow>
     mw_forms w' = mw_forms w \<and> prefix (mw_published w) (mw_published w') \<and>
     (if on_Restart op then mt_Upgrade (mw_state w') = mt_Upgrade (mw_state w)
      else mt_Restart (mw_state w') = mt_Restart (mw_state w))"

lemma part_of_run_trans: "part_of_run op w w1 \<Longrightarrow> part_of_run op w1 w2 \<Longrightarrow> part_of_run op w w2"
  by (auto simp: part_of_run_def split: if_splits intro: prefix_order.trans)

lemma part_of_run_tick [simp]: "part_of_run op w (tick w') = part_of_run op w w'"
  by (simp add: part_of_run_def tick_def)

lemma part_of_run_refl [simp]: "part_of_run op w w"
  by (simp add: part_of_run_def)

lemma part_change: "part_of_run op w (change_snapshot f g p op w)"
  by (simp add: part_of_run_def change_snapshot_def on_state_def tick_def UpdateUpgrade_def UpdateRestart_def Let_def)

lemma part_update: "part_of_run op w (update_progress p op phase message w)"
proof -
  have "part_of_run op v (Publish x v)" for x v
    by (simp add: part_of_run_def Publish_def tick_def)
  then show ?thesis unfolding update_progress_def Let_def using part_change part_of_run_trans by blast
qed

lemma part_install:
  assumes "\<not> on_Restart op"
  shows "part_of_run op w (fst (install_update p op probe previous w))"
proof -
  have u: "part_of_run op v (fst (on_state (\<lambda>now. UpdateUpgrade now f) p v))" for f v
    using part_change [of op v f id p] assms by (simp add: change_snapshot_def)
  have t: "part_of_run op w (fst (on_state (\<lambda>now. UpdateUpgrade now f) p (tick (tick v))))"
    if "part_of_run op w v" for f v
    using part_of_run_trans [OF _ u] that by simp
  show ?thesis
    by (simp add: install_update_def Let_def part_update t split: option.split sum.split)
qed

lemma part_versions: "part_of_run op w (note_versions p op probe previous target w)"
  unfolding note_versions_def by (rule part_change)

text \<open>The end of a run.\<close>

definition ended_with :: "Operation \<Rightarrow> string \<Rightarrow> maintenance_world \<Rightarrow> maintenance_world \<Rightarrow> bool" where
  "ended_with op result w w' \<longleftrightarrow>
     part_of_run op w w' \<and>
     (if on_Restart op then \<not> rs_Running (mt_Restart (mw_state w')) \<and> rs_Result (mt_Restart (mw_state w')) = result
      else \<not> up_Running (mt_Upgrade (mw_state w')) \<and> up_Result (mt_Upgrade (mw_state w')) = result) \<and>
     mw_published w' \<noteq> [] \<and> last (mw_published w') = progress_of op (mw_state w')"

lemma finished_result:
  "trim result \<noteq> [] \<Longrightarrow> up_Result (finished_upgrade result message u) = trim result"
  "trim result \<noteq> [] \<Longrightarrow> rs_Result (finished_restart result message r) = trim result"
  by (simp_all add: finished_upgrade_def finished_restart_def Let_def)

lemma finish_ends:
  assumes "trim result = result" "result \<noteq> []"
  shows "ended_with op result w (finish_operation p op result message w)"
  using assms finished_result [of result message]
  by (simp add: ended_with_def part_of_run_def finish_operation_def Publish_def on_state_def tick_def
      FinishUpgrade_def FinishRestart_def UpdateUpgrade_def UpdateRestart_def progress_of_def Let_def)

lemma ended_after: "part_of_run op w v \<Longrightarrow> ended_with op result v w' \<Longrightarrow> ended_with op result w w'"
  using part_of_run_trans by (auto simp: ended_with_def)

lemma outcome_words [simp]: "trim ''failed'' = ''failed''" "trim ''success'' = ''success''"
  by code_simp+

lemmas fail_ends = finish_ends [OF outcome_words(1)] and success_ends = finish_ends [OF outcome_words(2)]

lemma refresh_ends:
  "\<exists>result. ended_with op result w (refresh_runtime p op previous target installed w) \<and>
     (result = ''failed'' \<or> result = ''success'' \<and> (\<exists>n b. mp_Refresh p n = Inr b))"
proof -
  let ?v = "update_progress p op ''smoke_testing'' (testing_message p) w"
  have part: "part_of_run op w (tick ?v)" by (simp add: part_update)
  show ?thesis
  proof (cases "mp_Refresh p (mw_clock ?v)")
    case (Inl e)
    with ended_after [OF part fail_ends] show ?thesis by (simp only: refresh_runtime_def Let_def sum.case) blast
  next
    case (Inr b)
    with ended_after [OF part success_ends] show ?thesis by (simp only: refresh_runtime_def Let_def sum.case) blast
  qed
qed

text \<open>How a run may end: it failed, or it succeeded with everything it needs done.\<close>

definition ends_well :: "maintenance_ports \<Rightarrow> Operation \<Rightarrow> maintenance_world \<Rightarrow> maintenance_world \<Rightarrow> bool" where
  "ends_well p op w w' \<longleftrightarrow>
     (\<exists>result. ended_with op result w w' \<and>
        (result = ''failed'' \<or>
         result = ''success'' \<and> (\<exists>n b. mp_Refresh p n = Inr b) \<and>
         (on_Restart op \<or> (\<exists>n. mp_InstallVersion p n ''latest'' = None))))"

lemma failing_ends: "part_of_run op w v \<Longrightarrow> ends_well p op w (finish_operation p op ''failed'' message v)"
  unfolding ends_well_def using ended_after [OF _ fail_ends] by blast

lemma refreshing_ends:
  "part_of_run op w v \<Longrightarrow> on_Restart op \<or> (\<exists>n. mp_InstallVersion p n ''latest'' = None)
     \<Longrightarrow> ends_well p op w (refresh_runtime p op previous target installed v)"
  unfolding ends_well_def using refresh_ends [of op v p previous target installed] ended_after by blast

lemma install_cases:
  assumes "install_update p op probe previous v = (v', r)" "part_of_run op w v" "\<not> on_Restart op"
  shows "part_of_run op w v'" "r = Inr i \<Longrightarrow> \<exists>n. mp_InstallVersion p n ''latest'' = None"
proof -
  show "part_of_run op w v'"
    using part_of_run_trans [OF assms(2) part_install [OF assms(3), of v p probe previous]] assms(1) by simp
  show "r = Inr i \<Longrightarrow> \<exists>n. mp_InstallVersion p n ''latest'' = None"
    using assms(1) by (auto simp: install_update_def Let_def split: option.splits sum.splits)
qed

lemma Run_ends: "ends_well p op w (Run_operation p op w)"
proof (cases "mp_Probe p (mw_clock w)")
  case (Inl e)
  have "part_of_run op w (tick w)" by simp
  with Inl show ?thesis by (simp only: Run_operation_def Let_def sum.case failing_ends)
next
  case (Inr probe)
  define previous where "previous = FirstNonEmpty [ip_CurrentVersion probe, ug_CurrentVersion (on_Payload op)]"
  define target where "target = FirstNonEmpty [ug_TargetVersion (on_Payload op), ''latest'']"
  define v where "v = note_versions p op probe previous target (tick w)"
  note run = Run_operation_def Let_def Inr sum.case previous_def [symmetric] target_def [symmetric] v_def [symmetric]
  have now: "part_of_run op w (tick w)" by simp
  have v: "part_of_run op w (tick v)"
    unfolding v_def using part_of_run_trans [OF now part_versions] by simp
  show ?thesis
  proof (cases "\<not> on_Restart op \<and> \<not> ip_Supported probe \<or> mp_BusyReason p (mw_clock v) \<noteq> []")
    case True
    then show ?thesis unfolding run using failing_ends [OF now] failing_ends [OF v] by auto
  next
    case False
    show ?thesis
    proof (cases "on_Restart op")
      case True
      have "part_of_run op w (update_progress p op phase message (tick v))" for phase message
        using part_of_run_trans [OF v part_update] .
      with True False refreshing_ends show ?thesis unfolding run by simp
    next
      case restart: False
      obtain v' r where i: "install_update p op probe previous (tick v) = (v', r)" by force
      note c = install_cases [OF i v restart]
      show ?thesis
        using False restart failing_ends [OF c(1)] refreshing_ends [OF c(1)] c(2)
        unfolding run i by (cases r) simp_all
    qed
  qed
qed

section \<open>One operation at a time\<close>

lemma on_forms_state [simp]: "on_forms f p w = (w', r) \<Longrightarrow> mw_state w' = mw_state w"
  by (auto simp: on_forms_def tick_def split: prod.splits)

lemma Confirm_started:
  assumes "Confirm_upgrade p errtext i u m w = (w1, Inr op)"
  shows "\<not> Active (mw_state w)" "up_Running (mt_Upgrade (mw_state w1))"
    "mt_Restart (mw_state w1) = mt_Restart (mw_state w)" "\<not> on_Restart op" "on_RequestID op = i"
proof -
  obtain wa req where f: "on_forms (\<lambda>now. Transition now i (form_kind p) u ''pending'' ''processing'' m) p w = (wa, Inr req)"
    using assms by (auto simp: Confirm_upgrade_def split: prod.splits sum.splits)
  note s1 = on_forms_state [OF f]
  obtain payload wb where b: "on_state (\<lambda>now. BeginUpgrade now (preflight payload)) p wa = (wb, True)"
    "on_forms (\<lambda>now. SaveDraft now i None ''resolved'' 0 []) p wb = (w1, None)" "\<not> on_Restart op" "on_RequestID op = i"
    using assms f by (auto simp: Confirm_upgrade_def split: prod.splits sum.splits bool.splits option.splits)
  note s2 = on_forms_state [OF b(2)]
  have "\<not> Active (mw_state wa) \<and> up_Running (mt_Upgrade (mw_state wb)) \<and> mt_Restart (mw_state wb) = mt_Restart (mw_state wa)"
    using b(1) by (auto simp: on_state_def BeginUpgrade_def tick_def Let_def split: if_splits prod.splits)
  with s1 s2 b(3,4) show "\<not> Active (mw_state w)" "up_Running (mt_Upgrade (mw_state w1))"
    "mt_Restart (mw_state w1) = mt_Restart (mw_state w)" "\<not> on_Restart op" "on_RequestID op = i" by auto
qed

lemma BeginRestart_started: "BeginRestart_service p w = (w1, Inr r) \<Longrightarrow> \<not> Active (mw_state w)"
  by (auto simp: BeginRestart_service_def Active_def Let_def split: if_splits)

text \<open>
  C28. An upgrade that was confirmed excludes every other upgrade and restart of the backend until
  it ends, and it ends: however the installer, the runtime and the clock answer, its run leaves
  the backend out of maintenance and the last thing it publishes is the outcome. The outcome is
  a success only if the update was installed and the runtime refreshed.
\<close>

theorem confirmed_upgrade_ends:
  assumes confirmed: "Confirm_upgrade p errtext i u m w = (w1, Inr op)"
    and same: "mw_state w2 = mw_state w1"
  shows "\<not> Active (mw_state w) \<and>
    (\<forall>q errtext' j v n op'. snd (Confirm_upgrade q errtext' j v n w2) \<noteq> Inr op') \<and>
    (\<forall>q r. snd (BeginRestart_service q w2) \<noteq> Inr r) \<and>
    (\<exists>w3. Run_operation q op w2 = w3 \<and> \<not> Active (mw_state w3) \<and> mw_published w3 \<noteq> [] \<and>
       last (mw_published w3) = progress_of op (mw_state w3) \<and>
       (up_Result (mt_Upgrade (mw_state w3)) = ''failed'' \<or>
        up_Result (mt_Upgrade (mw_state w3)) = ''success'' \<and>
        (\<exists>n b. mp_Refresh q n = Inr b) \<and> (\<exists>n. mp_InstallVersion q n ''latest'' = None)))"
proof -
  note c = Confirm_started [OF confirmed]
  have busy: "Active (mw_state w2)" using c(2) by (simp add: same Active_def)
  have run: "ends_well q op w2 (Run_operation q op w2)" by (rule Run_ends)
  have rest: "\<not> rs_Running (mt_Restart (mw_state w2))" using c(1,3) by (simp add: same Active_def)
  show ?thesis
  proof (intro conjI allI exI [of _ "Run_operation q op w2"] refl)
    show "snd (Confirm_upgrade q' e j v n w2) \<noteq> Inr op'" for q' e j v n op'
      using Confirm_started(1) [of q' e j v n w2] busy by (metis prod.collapse)
    show "snd (BeginRestart_service q' w2) \<noteq> Inr r" for q' r
      using BeginRestart_started [of q' w2] busy by (metis prod.collapse)
  qed (use run c(1,4) rest in \<open>auto simp: ends_well_def ended_with_def part_of_run_def Active_def\<close>)
qed

definition demo_ports :: maintenance_ports where
  "demo_ports =
     \<lparr>mp_Name = ''Codex'', mp_Kind = ''codex'', mp_now = (\<lambda>n. int n),
      mp_Probe = (\<lambda>_. Inr \<lparr>ip_Command = ''codex'', ip_CommandPath = [], ip_RealCommandPath = [], ip_PackagePath = [],
        ip_CurrentVersion = ''1'', ip_UpdateCommand = ''update'', ip_Supported = True, ip_Reason = []\<rparr>),
      mp_LatestVersion = (\<lambda>_. Inr ''2''), mp_InstallVersion = (\<lambda>_ _. None), mp_Refresh = (\<lambda>_. Inr True),
      mp_BusyReason = (\<lambda>_. []), mp_Marshal = (\<lambda>x. Inr (ug_TargetVersion x)), mp_Unmarshal = (\<lambda>s. Inr (zero_Payload\<lparr>ug_TargetVersion := s\<rparr>)),
      mp_stamp = ''s'', mp_io = None\<rparr>"

definition demo_world :: maintenance_world where
  "demo_world =
     \<lparr>mw_forms = NewScoped (Some (UpsertPending empty_Store (Some (zero_PendingRequest
        \<lparr>pr_ID := ''r'', pr_FrontendID := ''f'', pr_Kind := ''codex_self_upgrade'', pr_OwnerUserID := ''u'',
         pr_Status := ''pending''\<rparr>)))) ''f'' ''codex'',
      mw_state = NewMaintenanceTracker, mw_published = [], mw_clock = 0\<rparr>"

theorem confirmed_upgrade_ends_witness:
  "\<exists>w1 op. Confirm_upgrade demo_ports (\<lambda>_. []) ''r'' ''u'' ''m'' demo_world = (w1, Inr op) \<and>
     \<not> Active (mw_state (Run_operation demo_ports op w1))"
proof -
  have "case Confirm_upgrade demo_ports (\<lambda>_. []) ''r'' ''u'' ''m'' demo_world of
      (w1, Inr op) \<Rightarrow> True | _ \<Rightarrow> False"
    by code_simp
  then obtain w1 op where c: "Confirm_upgrade demo_ports (\<lambda>_. []) ''r'' ''u'' ''m'' demo_world = (w1, Inr op)"
    by (auto split: prod.splits sum.splits)
  from confirmed_upgrade_ends [OF c refl, of demo_ports] c show ?thesis by blast
qed

end
