(* ===== verification/Backend_Selection.thy ===== *)
theory Backend_Selection
  imports Configuration_Store Pending_Queue
begin

text \<open>
  Switching a frontend to the other backend: the admission policy (\<open>application/frontend\<close>), the
  use case (\<open>application/backendselection/service.go\<close>), its repository
  (\<open>adapter/config/backend_selection.go\<close>) and the installation of a runtime
  (\<open>feishuapp/backend_runtime.go\<close>).

  The world is the store gateway of the frontend, the configuration, the switch state, the name of
  the backend whose runtime is installed, and the log of what was done to runtimes. Starting the
  process of a backend is a port.
\<close>

section \<open>When a frontend is idle (application/frontend)\<close>

record SessionActivity =
  act_Session :: Session
  act_Retrying :: bool

record RuntimeFacts =
  fct_SwitchBlocked :: "string option"
  fct_MessageTraffic :: nat
  fct_CodexMaintenance :: bool
  fct_ClaudeMaintenance :: bool

datatype idle_reason =
    SwitchingTo string | Maintaining string | MessagesInProgress | TasksRunning | TasksRetrying
  | MessagesQueued | ImagesStaged | SessionNotIdle | RequestsOpen

record Activity =
  acv_SwitchBlocked :: "idle_reason option"
  acv_MaintenanceBlocked :: "idle_reason option"
  acv_MessageTraffic :: nat
  acv_Sessions :: "SessionActivity list"
  acv_Requests :: "string list"

definition query_Activity ::
  "RuntimeFacts \<Rightarrow> (string \<Rightarrow> bool) \<Rightarrow> Session list \<Rightarrow> PendingRequest list \<Rightarrow> bool \<Rightarrow> Activity" where
  "query_Activity facts retrying sessions requests includeSessions =
     \<lparr>acv_SwitchBlocked = map_option SwitchingTo (fct_SwitchBlocked facts),
      acv_MaintenanceBlocked =
        (if fct_CodexMaintenance facts then Some (Maintaining ''Codex'')
         else if fct_ClaudeMaintenance facts then Some (Maintaining ''Claude'') else None),
      acv_MessageTraffic = fct_MessageTraffic facts,
      acv_Sessions =
        (if includeSessions
         then map (\<lambda>s. \<lparr>act_Session = s, act_Retrying = retrying (ss_Key s)\<rparr>) sessions else []),
      acv_Requests = (if includeSessions then map pr_Status requests else [])\<rparr>"

definition ModelWriteBlockedReason :: "Activity \<Rightarrow> idle_reason option" where
  "ModelWriteBlockedReason a =
     (if acv_SwitchBlocked a \<noteq> None then acv_SwitchBlocked a else acv_MaintenanceBlocked a)"

definition session_blocks :: "SessionActivity \<Rightarrow> idle_reason option" where
  "session_blocks entry =
     (let sess = act_Session entry;
          status = (if trim (ss_Status sess) = [] then SessionStatusIdle else trim (ss_Status sess)) in
      if HasActiveWork (Some sess) then Some TasksRunning
      else if act_Retrying entry then Some TasksRetrying
      else if ss_Queue sess \<noteq> [] then Some MessagesQueued
      else if ss_StagedImages sess \<noteq> [] then Some ImagesStaged
      else if NormalizeSessionStatus status \<noteq> SessionStatusIdle then Some SessionNotIdle
      else None)"

fun first_reason :: "('a \<Rightarrow> 'b option) \<Rightarrow> 'a list \<Rightarrow> 'b option" where
  "first_reason f [] = None"
| "first_reason f (x # xs) = (case f x of None \<Rightarrow> first_reason f xs | Some r \<Rightarrow> Some r)"

definition IdleBlockedReason :: "Activity \<Rightarrow> nat \<Rightarrow> idle_reason option" where
  "IdleBlockedReason a allowedMessageTraffic =
     (case ModelWriteBlockedReason a of
        Some r \<Rightarrow> Some r
      | None \<Rightarrow>
          if allowedMessageTraffic < acv_MessageTraffic a then Some MessagesInProgress
          else case first_reason session_blocks (acv_Sessions a) of
            Some r \<Rightarrow> Some r
          | None \<Rightarrow> if \<exists>status\<in>set (acv_Requests a). IsPendingRequestOpen status then Some RequestsOpen else None)"

section \<open>The world\<close>

datatype runtime_event = Prepared string | ClosedPrepared string | Installed string | Recovered | ClosedOld string

record switch_world =
  sw_scope :: ScopedStore
  sw_config :: Config
  sw_transition :: BackendTransition
  sw_runtime :: string
  sw_traffic :: nat
  sw_maintenance :: "bool \<times> bool"
  sw_retrying :: "string list"
  sw_log :: "runtime_event list"

text \<open>A prepared runtime may come without its functions; the old one may have nothing to close.\<close>

record switch_ports = commit_ports +
  br_Available :: "string list"
  br_Ready :: "string \<Rightarrow> bool"
  br_Prepare :: "string \<Rightarrow> string + bool"
  br_OldCloses :: bool
  br_ErrorText :: "config_error \<Rightarrow> string"

datatype switch_error =
    BackendNotGiven | BackendUnavailable string | NotIdle idle_reason | NotPrepared string
  | PreparedIncomplete | SwitchNotStored store_error | SwitchNotConfigured config_error

section \<open>Configuration and sessions\<close>

definition feishuConfigUnlocked :: "int \<Rightarrow> Config \<Rightarrow> FeishuConfig" where
  "feishuConfigUnlocked idx cfg =
     (if 0 \<le> idx \<and> idx < int (length (cg_Frontends cfg)) then fe_Feishu (cg_Frontends cfg ! nat idx)
      else cg_Feishu cfg)"

definition configuredBackend :: "('a) switch_ports_scheme \<Rightarrow> switch_world \<Rightarrow> string" where
  "configuredBackend p w =
     (if trim (sw_runtime w) \<noteq> [] then NormalizeBackend (sw_runtime w)
      else NormalizeBackend (fc_Backend (feishuConfigUnlocked (fp_Index p) (sw_config w))))"

definition repository_Sessions :: "switch_world \<Rightarrow> Session list" where
  "repository_Sessions w =
     (case sc_store (sw_scope w) of
        None \<Rightarrow> []
      | Some st \<Rightarrow>
          filter (\<lambda>sess. fst (ParseSessionKey (ss_Key sess)) = sc_frontendID (sw_scope w)) (AllSessions st))"

definition CommitBackend ::
  "('a) switch_ports_scheme \<Rightarrow> string \<Rightarrow> Session list \<Rightarrow> Session list \<Rightarrow> switch_world
     \<Rightarrow> switch_world \<times> switch_error option" where
  "CommitBackend p target expected next_sessions w =
     (case setBackendLocked \<lparr>fp_Path = fp_Path p, fp_Save = fp_Save p, fp_Index = fp_Index p\<rparr> target (sw_config w) of
        (cfg', saved) \<Rightarrow>
          (case sc_store (sw_scope w) of
             None \<Rightarrow> (w\<lparr>sw_config := cfg'\<rparr>, (case saved of Inl e \<Rightarrow> Some (SwitchNotConfigured e) | Inr _ \<Rightarrow> None))
           | Some st \<Rightarrow>
               (case CommitBackendSessions (cp_now p) (cp_io p)
                       (case saved of Inl e \<Rightarrow> Some (br_ErrorText p e) | Inr _ \<Rightarrow> None) (cp_io2 p) st
                       (map Some expected) next_sessions of
                  (st', Some e) \<Rightarrow>
                    (w\<lparr>sw_scope := (sw_scope w)\<lparr>sc_store := Some st'\<rparr>\<rparr>, Some (SwitchNotStored e))
                | (st', None) \<Rightarrow>
                    (w\<lparr>sw_scope := (sw_scope w)\<lparr>sc_store := Some st'\<rparr>, sw_config := cfg'\<rparr>, None))))"

section \<open>The use case (backendselection/service.go)\<close>

definition backend_Available :: "('a) switch_ports_scheme \<Rightarrow> string \<Rightarrow> bool" where
  "backend_Available p target0 =
     (let target = NormalizeBackend target0 in target \<noteq> [] \<and> target \<in> set (br_Available p))"

text \<open>Each session puts away the thread of the current backend and takes out that of the target.\<close>

definition session_after_switch :: "string \<Rightarrow> string \<Rightarrow> Session \<Rightarrow> Session" where
  "session_after_switch current_backend target sess =
     (let stored = (if current_backend \<noteq> [] then StoreBackendThread sess current_backend else sess);
          moved = (case RestoreBackendThread stored target of
                     (s, True) \<Rightarrow> s | (s, False) \<Rightarrow> ClearThreadContext s) in
      if trim (ss_Status moved) = [] then moved\<lparr>ss_Status := ''idle''\<rparr> else moved)"

definition SessionsAfterSwitch :: "Session list \<Rightarrow> string \<Rightarrow> string \<Rightarrow> Session list" where
  "SessionsAfterSwitch sessions current_backend target = map (session_after_switch current_backend target) sessions"

definition switch_facts :: "switch_world \<Rightarrow> RuntimeFacts" where
  "switch_facts w =
     \<lparr>fct_SwitchBlocked = BackendSwitchBlockedReasonForTraffic (sw_transition w),
      fct_MessageTraffic = sw_traffic w, fct_CodexMaintenance = fst (sw_maintenance w),
      fct_ClaudeMaintenance = snd (sw_maintenance w)\<rparr>"

definition frontendIdleBlockedReason :: "switch_world \<Rightarrow> nat \<Rightarrow> idle_reason option" where
  "frontendIdleBlockedReason w allowance =
     IdleBlockedReason
       (query_Activity (switch_facts w) (\<lambda>key. key \<in> set (sw_retrying w)) (scoped_Sessions (sw_scope w))
         (scoped_PendingRequests (sw_scope w)) True) allowance"

definition installBackendRuntime :: "string \<Rightarrow> switch_world \<Rightarrow> switch_world" where
  "installBackendRuntime target w =
     w\<lparr>sw_runtime := NormalizeBackend target, sw_scope := SetBackend (NormalizeBackend target) (sw_scope w),
       sw_log := sw_log w @ [Installed target]\<rparr>"

definition noting :: "runtime_event list \<Rightarrow> switch_world \<Rightarrow> switch_world" where
  "noting es w = w\<lparr>sw_log := sw_log w @ es\<rparr>"

text \<open>What runs between the begin and the finish of the switch state.\<close>

definition switch_runtime ::
  "('a) switch_ports_scheme \<Rightarrow> string \<Rightarrow> string \<Rightarrow> switch_world \<Rightarrow> switch_world \<times> switch_error option" where
  "switch_runtime p current_backend target w =
     (let expected = repository_Sessions w;
          next_sessions = SessionsAfterSwitch expected current_backend target in
      case br_Prepare p target of
        Inl e \<Rightarrow> (w, Some (NotPrepared e))
      | Inr False \<Rightarrow> (w, Some PreparedIncomplete)
      | Inr True \<Rightarrow>
          (case CommitBackend p target expected next_sessions (noting [Prepared target] w) of
             (w1, Some e) \<Rightarrow> (noting [ClosedPrepared target] w1, Some e)
           | (w1, None) \<Rightarrow>
               (noting (Recovered # (if br_OldCloses p then [ClosedOld current_backend] else []))
                  (installBackendRuntime target w1), None)))"

definition Switch_backend ::
  "('a) switch_ports_scheme \<Rightarrow> string \<Rightarrow> switch_world \<Rightarrow> switch_world \<times> switch_error option" where
  "Switch_backend p target0 w =
     (let target = NormalizeBackend target0; current_backend = configuredBackend p w in
      if target = [] then (w, Some BackendNotGiven)
      else if \<not> backend_Available p target then (w, Some (BackendUnavailable target))
      else case frontendIdleBlockedReason w 0 of
        Some r \<Rightarrow> (w, Some (NotIdle r))
      | None \<Rightarrow>
          if current_backend = target \<and> br_Ready p target then (w, None)
          else
            (case switch_runtime p current_backend target
                    (w\<lparr>sw_transition := BeginBackendSwitchState target (sw_transition w)\<rparr>) of
               (w1, r) \<Rightarrow> (w1\<lparr>sw_transition := FinishBackendSwitchState (sw_transition w1)\<rparr>, r)))"

section \<open>A switch is all or nothing\<close>

lemma commit_sessions_cases:
  assumes "current st" "CommitBackendSessions now io cfg io2 st expected xs = (st', r)"
  shows "r = None \<Longrightarrow> cfg = None \<and> st_data st' = st_data (fold (put_normalized now) xs st) \<and>
      st_runtime st' = st_runtime (fold (put_normalized now) xs st)"
    "r = Some e \<Longrightarrow> st_data st' = st_data st \<and> st_runtime st' = st_runtime st"
proof -
  let ?s = "fold (put_normalized now) xs st"
  obtain d m where f: "?s =
      st\<lparr>st_data := (st_data st)\<lparr>db_Sessions := d\<rparr>, st_runtime := (st_runtime st)\<lparr>rt_Sessions := m\<rparr>\<rparr>"
    using put_all_frame by blast
  note u = restore_sessions_undoes [OF f]
  have c: "current ?s" using u(3) assms(1) by simp
  have "(r = None \<longrightarrow> cfg = None \<and> st_data st' = st_data ?s \<and> st_runtime st' = st_runtime ?s) \<and>
      (\<forall>e. r = Some e \<longrightarrow> st_data st' = st_data st \<and> st_runtime st' = st_runtime st)"
    using assms
    by (cases io; cases cfg; cases io2)
       (auto simp: CommitBackendSessions_def saveLocked_current [OF c] u saveLocked_current split: if_splits)
  then show "r = None \<Longrightarrow> cfg = None \<and> st_data st' = st_data ?s \<and> st_runtime st' = st_runtime ?s"
    "r = Some e \<Longrightarrow> st_data st' = st_data st \<and> st_runtime st' = st_runtime st" by blast+
qed

lemma setBackendLocked_error: "setBackendLocked fp target cfg = (cfg', Inl e) \<Longrightarrow> cfg' = cfg"
  by (auto simp: setBackendLocked_def publish_def split: sum.splits option.splits)

definition files_of :: "('a) switch_ports_scheme \<Rightarrow> file_ports" where
  "files_of p = \<lparr>fp_Path = fp_Path p, fp_Save = fp_Save p, fp_Index = fp_Index p\<rparr>"

definition memory_same :: "switch_world \<Rightarrow> switch_world \<Rightarrow> bool" where
  "memory_same w w' \<longleftrightarrow>
     sw_config w' = sw_config w \<and> sw_runtime w' = sw_runtime w \<and>
     map_option st_data (sc_store (sw_scope w')) = map_option st_data (sc_store (sw_scope w)) \<and>
     map_option st_runtime (sc_store (sw_scope w')) = map_option st_runtime (sc_store (sw_scope w))"

text \<open>The sessions, the configuration and the runtime after a switch.\<close>

definition switched_to ::
  "('a) switch_ports_scheme \<Rightarrow> string \<Rightarrow> switch_world \<Rightarrow> switch_world \<Rightarrow> bool" where
  "switched_to p target w w' \<longleftrightarrow>
     setBackendLocked (files_of p) target (sw_config w) = (sw_config w', Inr ()) \<and>
     sw_runtime w' = target \<and>
     (\<forall>st. sc_store (sw_scope w) = Some st \<longrightarrow>
        (\<exists>st'. sc_store (sw_scope w') = Some st' \<and>
           st_runtime st' = st_runtime (fold (put_normalized (cp_now p))
             (SessionsAfterSwitch (repository_Sessions w) (configuredBackend p w) target) st)))"

lemma CommitBackend_cases:
  assumes "\<forall>st. sc_store (sw_scope w) = Some st \<longrightarrow> current st"
    and "CommitBackend p target expected xs w = (w', r)"
  shows "sw_transition w' = sw_transition w" "sw_log w' = sw_log w" "sw_runtime w' = sw_runtime w"
    "r = Some e \<Longrightarrow> memory_same w w'"
    "r = None \<Longrightarrow> setBackendLocked (files_of p) target (sw_config w) = (sw_config w', Inr ()) \<and>
       (\<forall>st. sc_store (sw_scope w) = Some st \<longrightarrow>
          (\<exists>st'. sc_store (sw_scope w') = Some st' \<and>
             st_runtime st' = st_runtime (fold (put_normalized (cp_now p)) xs st)))"
proof -
  obtain cfg' saved where s: "setBackendLocked (files_of p) target (sw_config w) = (cfg', saved)" by force
  note d = CommitBackend_def files_of_def [symmetric] s
  show "sw_transition w' = sw_transition w" "sw_log w' = sw_log w" "sw_runtime w' = sw_runtime w"
    using assms(2) unfolding d by (auto split: option.splits prod.splits)
  show "r = Some e \<Longrightarrow> memory_same w w'"
    using assms s setBackendLocked_error [of "files_of p" target "sw_config w" cfg'] commit_sessions_cases(2)
    unfolding d by (fastforce simp: memory_same_def split: option.splits prod.splits sum.splits)
  show "r = None \<Longrightarrow> setBackendLocked (files_of p) target (sw_config w) = (sw_config w', Inr ()) \<and>
       (\<forall>st. sc_store (sw_scope w) = Some st \<longrightarrow>
          (\<exists>st'. sc_store (sw_scope w') = Some st' \<and>
             st_runtime st' = st_runtime (fold (put_normalized (cp_now p)) xs st)))"
    using assms s commit_sessions_cases(1)
    unfolding d by (fastforce split: option.splits prod.splits sum.splits)
qed

lemma world_frames [simp]:
  "repository_Sessions (w\<lparr>sw_transition := x\<rparr>) = repository_Sessions w"
  "repository_Sessions (noting es w) = repository_Sessions w"
  "memory_same w (w'\<lparr>sw_transition := x\<rparr>) = memory_same w w'"
  "memory_same (w\<lparr>sw_transition := x\<rparr>) w' = memory_same w w'"
  "memory_same w (noting es w') = memory_same w w'"
  "memory_same (noting es w) w' = memory_same w w'"
  "memory_same w w" "sw_log (noting es w) = sw_log w @ es" "sw_transition (noting es w) = sw_transition w"
  "sw_config (noting es w) = sw_config w" "sw_scope (noting es w) = sw_scope w"
  "sw_runtime (noting es w) = sw_runtime w"
  by (simp_all add: repository_Sessions_def noting_def memory_same_def split: option.split)

lemma configuredBackend_transition [simp]: "configuredBackend p (w\<lparr>sw_transition := x\<rparr>) = configuredBackend p w"
  by (simp add: configuredBackend_def)

lemma switched_to_transition [simp]:
  "switched_to p b (w\<lparr>sw_transition := x\<rparr>) w' = switched_to p b w w'"
  "switched_to p b w (w'\<lparr>sw_transition := x\<rparr>) = switched_to p b w w'"
  by (simp_all add: switched_to_def)

lemma NormalizeBackend_again: "NormalizeBackend (NormalizeBackend b) = NormalizeBackend b"
proof -
  have "NormalizeBackend ''codex'' = ''codex''" "NormalizeBackend ''claude'' = ''claude''" "NormalizeBackend [] = []"
    by code_simp+
  then show ?thesis by (cases "NormalizeBackend b = ''codex'' \<or> NormalizeBackend b = ''claude''")
    (auto simp: NormalizeBackend_def Let_def split: if_splits)
qed

definition old_closed :: "('a) switch_ports_scheme \<Rightarrow> string \<Rightarrow> runtime_event list" where
  "old_closed p b = (if br_OldCloses p then [ClosedOld b] else [])"

lemma switch_runtime_cases:
  assumes "\<forall>st. sc_store (sw_scope w) = Some st \<longrightarrow> current st" "NormalizeBackend target = target"
    and "switch_runtime p (configuredBackend p w) target w = (w', r)"
  shows "r = Some e \<Longrightarrow> memory_same w w' \<and>
      (sw_log w' = sw_log w \<or> sw_log w' = sw_log w @ [Prepared target, ClosedPrepared target])"
    "r = None \<Longrightarrow> switched_to p target w w' \<and>
      sw_log w' = sw_log w @ [Prepared target, Installed target, Recovered] @ old_closed p (configuredBackend p w)"
proof -
  obtain w1 r1 where c: "CommitBackend p target (repository_Sessions w)
      (SessionsAfterSwitch (repository_Sessions w) (configuredBackend p w) target) (noting [Prepared target] w) = (w1, r1)"
    by force
  have cur: "\<forall>st. sc_store (sw_scope (noting [Prepared target] w)) = Some st \<longrightarrow> current st" using assms(1) by simp
  note cc = CommitBackend_cases [OF cur c]
  show "r = Some e \<Longrightarrow> memory_same w w' \<and>
      (sw_log w' = sw_log w \<or> sw_log w' = sw_log w @ [Prepared target, ClosedPrepared target])"
    using assms(3) c cc(2,4)
    by (auto simp: switch_runtime_def Let_def split: sum.splits bool.splits option.splits)
  show "switched_to p target w w' \<and>
      sw_log w' = sw_log w @ [Prepared target, Installed target, Recovered] @ old_closed p (configuredBackend p w)"
    if "r = None"
  proof -
    have n: "r1 = None" "w' = noting (Recovered # old_closed p (configuredBackend p w)) (installBackendRuntime target w1)"
      using assms(3) c that
      by (auto simp: switch_runtime_def old_closed_def Let_def split: sum.splits bool.splits option.splits)
    have i: "sw_log (installBackendRuntime target w1) = sw_log w1 @ [Installed target]"
      "sw_config (installBackendRuntime target w1) = sw_config w1"
      "sw_runtime (installBackendRuntime target w1) = target"
      "sc_store (sw_scope (installBackendRuntime target w1)) = sc_store (sw_scope w1)"
      using assms(2) by (simp_all add: installBackendRuntime_def SetBackend_def)
    show ?thesis using cc(2) cc(5) [OF n(1)] unfolding switched_to_def n(2) by (simp add: i)
  qed
qed


definition demo_switch_ports :: switch_ports where
  "demo_switch_ports =
     \<lparr>fp_Path = ''/f'', fp_Save = (\<lambda>_. None), fp_Index = -1, cp_now = 7, cp_io = None, cp_io2 = None,
      br_Available = [''codex'', ''claude''], br_Ready = (\<lambda>_. True), br_Prepare = (\<lambda>_. Inr True),
      br_OldCloses = True, br_ErrorText = (\<lambda>_. [])\<rparr>"

definition demo_switch :: switch_world where
  "demo_switch =
     \<lparr>sw_scope = NewScoped (Some empty_Store) [] ''codex'', sw_config = Default_config,
      sw_transition = \<lparr>bt_switching = False, bt_target = []\<rparr>, sw_runtime = ''codex'', sw_traffic = 0,
      sw_maintenance = (False, False), sw_retrying = [], sw_log = []\<rparr>"


end
