(* ===== verification/Backend_Failure.thy ===== *)
theory Backend_Failure
  imports Turn_Lifecycle
begin

text \<open>
  The death of a backend (\<open>internal/application/backendfailure/service.go\<close>): everything that ran on
  it, on all sessions or in one scope, is failed in one commit per submission, with the questions
  its turn had open, and the queue goes on. The world is the desk and the errors recorded for
  turns.
\<close>

type_synonym failing = "Desk \<times> (string \<times> string \<times> string) list"

definition ErrorText :: "string option \<Rightarrow> string" where
  "ErrorText err = (case err of None \<Rightarrow> [] | Some e \<Rightarrow> trim e)"

definition BackendFailureScopeMatches :: "Session option \<Rightarrow> string \<Rightarrow> string \<Rightarrow> bool" where
  "BackendFailureScopeMatches session scopeSessionKey0 scopeThreadID0 =
     (case session of
        None \<Rightarrow> False
      | Some sess \<Rightarrow>
          let scopeSessionKey = trim scopeSessionKey0; scopeThreadID = trim scopeThreadID0 in
          if scopeSessionKey \<noteq> [] \<and> trim (ss_Key sess) \<noteq> scopeSessionKey then False
          else if scopeThreadID \<noteq> [] then
            trim (ss_ActiveThreadID sess) = scopeThreadID \<or>
            (\<exists>op\<in>set (ss_ActiveOperations sess). trim (op_ThreadID op) = scopeThreadID)
          else True)"

section \<open>One submission\<close>

text \<open>The session without the failed operation; its status follows from what is left.\<close>

definition session_after_failure :: "Session \<Rightarrow> Submission \<Rightarrow> string \<Rightarrow> Session" where
  "session_after_failure expected sub turnID =
     (let s = EnsureActiveOperations (fst (RemoveActiveOperation expected (sub_ID sub) turnID)) in
      s\<lparr>ss_Status :=
        (if ss_ActiveOperations s \<noteq> [] then
           (if \<exists>op\<in>set (ss_ActiveOperations s). trim (op_TurnID op) \<noteq> []
            then SessionStatusTurnInProgress else SessionStatusTurnStarting)
         else if ss_Queue s \<noteq> [] \<or> ss_StagedImages s \<noteq> [] then SessionStatusQueued
         else SessionStatusIdle)\<rparr>)"

text \<open>The open questions of the turn, or of the thread when the turn is not known.\<close>

definition closed_by_failure :: "string \<Rightarrow> string \<Rightarrow> PendingRequest \<Rightarrow> bool" where
  "closed_by_failure threadID turnID req \<longleftrightarrow>
     IsPendingRequestOpen (pr_Status req) \<and> (turnID \<noteq> [] \<longrightarrow> pr_TurnID req = turnID) \<and>
     (turnID = [] \<and> threadID \<noteq> [] \<longrightarrow> pr_ThreadID req = threadID)"

definition resolved_request :: "int \<Rightarrow> PendingRequest \<Rightarrow> PendingRequest" where
  "resolved_request now req =
     req\<lparr>pr_Status := ''resolved'', pr_ExpiresAt := (if now < pr_ExpiresAt req then now else pr_ExpiresAt req)\<rparr>"

definition no_stream :: StreamSummary where
  "no_stream =
     \<lparr>fl_SawFinal = False, fl_PlanMarkdown = [], fl_PlanMessageID = [], fl_ShouldUsePlanExitPrompt = False,
      fl_LastError = [], fl_WorkingMessageID = [], fl_FinalText = [], fl_FinalReuseMessageID = []\<rparr>"

text \<open>What follows the commit: the card, unless a retry is planned, the cleanup, the next session.\<close>

definition after_failure ::
  "turn_ports \<Rightarrow> string \<Rightarrow> Submission \<Rightarrow> Session \<Rightarrow> string \<Rightarrow> string \<Rightarrow> string \<Rightarrow> failing \<Rightarrow> failing" where
  "after_failure tn sessionKey sub updated threadID turnID message = (\<lambda>(w0, errs0).
     let p = tn_queue tn;
         errs = (if turnID \<noteq> [] \<and> message \<noteq> [] then errs0 @ [(threadID, turnID, message)] else errs0);
         (w1, flush) = (if turnID \<noteq> [] then (emit (StreamFlushed threadID turnID) w0, tn_Flush tn threadID turnID)
                        else (w0, no_stream));
         w2 = ClearSubmissionProcessingReactions p (Some sub) w1;
         lastError = FirstNonEmpty [trim message, trim (fl_LastError flush)];
         terminal = CompletionTerminalText (sub_Status sub) lastError;
         reuse = trim (fl_WorkingMessageID flush);
         (t, suppress) = ObserveAutoRetryTerminal (qp_Present p) (qp_RetryEnabled p) sessionKey threadID ''failed''
           (Some updated) (Some sub) reuse lastError (dk_retry w2);
         w3 = w2\<lparr>dk_retry := t\<rparr>;
         w4 = (if terminal \<noteq> [] \<and> \<not> suppress then
                 (case turnStopAttentionUserID p sub turnID w3 of
                    (w, attention) \<Rightarrow> emit (TerminalCard (sub_ID sub) terminal attention reuse) w)
               else w3);
         (w5, k) = next_session_key p sessionKey (CleanupSubmissionRuntimeState (Some sub) w4) in
     (if trim k \<noteq> [] then emit (Scheduled (trim k) ''backendFailed'') w5 else w5, errs))"

definition FailSubmissionWithoutTerminalCompletion ::
  "turn_ports \<Rightarrow> string \<Rightarrow> Submission \<Rightarrow> string \<Rightarrow> string \<Rightarrow> string \<Rightarrow> failing \<Rightarrow> failing" where
  "FailSubmissionWithoutTerminalCompletion tn sessionKey sub0 threadID0 turnID0 message = (\<lambda>(w, errs).
     let p = tn_queue tn in
     case app_submission (sub_ID sub0) w of
       None \<Rightarrow> (w, errs)
     | Some sub \<Rightarrow>
         if sub_Finalized sub then (w, errs)
         else
           let threadID = FirstNonEmpty [trim threadID0, trim (sub_ThreadID sub)];
               turnID = FirstNonEmpty [trim turnID0, trim (sub_TurnID sub)] in
           (case get_session p sessionKey w of
              (w1, None) \<Rightarrow> (w1, errs)
            | (w1, Some expected) \<Rightarrow>
                let updated = session_after_failure expected sub turnID;
                    failed = Finalize sub SubmissionStatusFailed;
                    asked = filter (\<lambda>req. pr_SessionKey req = sessionKey) (scoped_PendingRequests (dk_app w1));
                    closed = map (resolved_request (dp_now p (dk_calls w1)))
                               (filter (closed_by_failure threadID turnID) asked) in
                (case on_app (\<lambda>n. scoped_CommitTerminal (dp_now p n) (dp_io p n) (Some expected) (Some updated)
                        (Some sub) (Some failed) (map Some asked) (map Some closed)) w1 of
                   (w2, Some _) \<Rightarrow> (w2, errs)
                 | (w2, None) \<Rightarrow> after_failure tn sessionKey failed updated threadID turnID message (w2, errs))))"

section \<open>All of a scope\<close>

text \<open>
  A submission that several operations carry is failed once. An operation without a submission is a
  compaction of its own; those are ended after the sessions were looked at, each once.
\<close>

definition failing_operation ::
  "turn_ports \<Rightarrow> bool \<Rightarrow> string \<Rightarrow> Session \<Rightarrow> SessionActiveOperation
     \<Rightarrow> failing \<times> string list \<times> (string \<times> string) list \<Rightarrow> failing \<times> string list \<times> (string \<times> string) list" where
  "failing_operation tn failsCompaction message sess op = (\<lambda>(f, seen, comps).
     let i = trim (op_SubmissionID op) in
     if i \<noteq> [] then
       (if i \<in> set seen then (f, seen, comps)
        else case app_submission i (fst f) of
          None \<Rightarrow> (f, seen, comps)
        | Some sub \<Rightarrow>
            (FailSubmissionWithoutTerminalCompletion tn (ss_Key sess) sub (trim (op_ThreadID op)) (trim (op_TurnID op))
               message f, i # seen, comps))
     else if \<not> failsCompaction then (f, seen, comps)
     else
       let threadID = FirstNonEmpty [trim (op_ThreadID op), trim (ss_ActiveThreadID sess)] in
       if threadID = [] then (f, seen, comps)
       else (f, seen, comps @ [(threadID, trim (op_TurnID op))]))"

definition failing_session ::
  "turn_ports \<Rightarrow> bool \<Rightarrow> string \<Rightarrow> string \<Rightarrow> string \<Rightarrow> string \<Rightarrow> Session
     \<Rightarrow> failing \<times> string list \<times> (string \<times> string) list \<Rightarrow> failing \<times> string list \<times> (string \<times> string) list" where
  "failing_session tn failsCompaction frontend scopeSessionKey scopeThreadID message sess0 st =
     (let sess = EnsureActiveOperations sess0;
          compacting = (NormalizeSessionStatus (ss_Status sess) = ''compacting'') in
      if \<not> sessionBelongsToFrontend frontend (ss_Key sess0) \<or>
         \<not> BackendFailureScopeMatches (Some sess0) scopeSessionKey scopeThreadID \<or>
         ss_ActiveOperations sess = [] \<and> \<not> compacting
      then st
      else
        (case fold (failing_operation tn failsCompaction message sess) (ss_ActiveOperations sess) st of
           (f, seen, comps) \<Rightarrow>
             (f, seen, comps @ (if failsCompaction \<and> compacting \<and> trim (ss_ActiveThreadID sess) \<noteq> []
                                   then [(trim (ss_ActiveThreadID sess), [])] else []))))"

text \<open>Two targets are the same when thread and turn, joined by a bar, are.\<close>

definition compact_key :: "string \<times> string \<Rightarrow> string" where
  "compact_key target = fst target @ ''|'' @ snd target"

definition failing_compaction ::
  "turn_ports \<Rightarrow> string \<Rightarrow> string \<times> string \<Rightarrow> Desk \<times> string list \<Rightarrow> Desk \<times> string list" where
  "failing_compaction tn message target = (\<lambda>(w, seen).
     if compact_key target \<in> set seen then (w, seen)
     else (fst (FailStandaloneCompactTurn (tn_queue tn) (fst target) (snd target) message w), compact_key target # seen))"

definition FailBackendActiveWork ::
  "turn_ports \<Rightarrow> string \<Rightarrow> string \<Rightarrow> string \<Rightarrow> string \<Rightarrow> string \<Rightarrow> failing \<Rightarrow> failing" where
  "FailBackendActiveWork tn frontend backend scopeSessionKey scopeThreadID message f =
     (case fold (failing_session tn (NormalizeBackend backend = BackendCodex) frontend scopeSessionKey scopeThreadID message)
             (app_sessions (fst f)) (f, [], []) of
        ((w, errs), _, comps) \<Rightarrow> (fst (fold (failing_compaction tn message) comps (w, [])), errs))"

definition claude_ended :: "string option \<Rightarrow> string" where
  "claude_ended err =
     (if ErrorText err = [] then (''Claude '' @ [CHR 0xE4, CHR 0xBC, CHR 0x9A, CHR 0xE8, CHR 0xAF,
       CHR 0x9D, CHR 0xE5, CHR 0xBC, CHR 0x82, CHR 0xE5, CHR 0xB8, CHR 0xB8, CHR 0xE7, CHR 0xBB, CHR
       0x93, CHR 0xE6, CHR 0x9D, CHR 0x9F, CHR 0xE3, CHR 0x80, CHR 0x82])
      else (''Claude '' @ [CHR 0xE4, CHR 0xBC, CHR 0x9A, CHR 0xE8, CHR 0xAF, CHR 0x9D, CHR 0xE5, CHR
        0xBC, CHR 0x82, CHR 0xE5, CHR 0xB8, CHR 0xB8, CHR 0xE7, CHR 0xBB, CHR 0x93, CHR 0xE6, CHR
        0x9D, CHR 0x9F, CHR 0xEF, CHR 0xBC, CHR 0x9A]) @ ErrorText err)"

definition FailClaudeSessionActiveWork ::
  "turn_ports \<Rightarrow> string \<Rightarrow> string \<Rightarrow> string \<Rightarrow> string option \<Rightarrow> failing \<Rightarrow> failing" where
  "FailClaudeSessionActiveWork tn frontend sessionKey threadID err = (\<lambda>(w, errs).
     if trim sessionKey = [] \<and> trim threadID = [] then (w, errs)
     else
       let w1 = on_gateway (\<lambda>s. fst (Expire frontend ''claude'' sessionKey [] s)) w in
       FailBackendActiveWork tn frontend ''claude'' sessionKey threadID (claude_ended err) (w1, errs))"

end
