(* ===== verification/Request_Pacing.thy ===== *)
theory Request_Pacing
  imports Go_Prelude "HOL-Library.AList"
begin

text \<open>
  Pacing of the requests to Feishu (\<open>internal/feishu/message_rate_limit.go\<close>). A pacer gives each
  request a slot, an interval after the slot before it; a request waits until its slot. Requests
  of one message share a pacer, which is forgotten after it was idle for half an hour.

  Times and durations are nanoseconds, as integers; a zero time is None. A reservation and the
  lookup of a pacer each run under a mutex, so each is one step; between the two of one request
  other requests may run. The clock is the argument of a step: two requests may read it in one
  order and reserve in the other.
\<close>

section \<open>One pacer\<close>

abbreviation Second :: int where "Second \<equiv> 1000000000"
abbreviation Minute :: int where "Minute \<equiv> 60 * Second"

abbreviation feishuMessageCreateQPS :: int where "feishuMessageCreateQPS \<equiv> 5"
abbreviation feishuMessagePatchQPS :: int where "feishuMessagePatchQPS \<equiv> 4"
abbreviation feishuAnnouncementQPS :: int where "feishuAnnouncementQPS \<equiv> 2"
abbreviation keyedPacerIdleTTL :: int where "keyedPacerIdleTTL \<equiv> 30 * Minute"
abbreviation keyedPacerSweepInterval :: int where "keyedPacerSweepInterval \<equiv> 5 * Minute"

record requestPacer =
  rp_interval :: int
  rp_next :: "int option"

definition newRequestPacerWithInterval :: "int \<Rightarrow> requestPacer" where
  "newRequestPacerWithInterval interval = \<lparr>rp_interval = interval, rp_next = None\<rparr>"

definition newRequestPacer :: "int \<Rightarrow> requestPacer" where
  "newRequestPacer qps = newRequestPacerWithInterval (if qps \<le> 0 then 0 else Second div qps)"

definition reserve :: "int \<Rightarrow> requestPacer \<Rightarrow> requestPacer \<times> int" where
  "reserve now p =
     (let slot = (case rp_next p of None \<Rightarrow> now | Some t \<Rightarrow> if now < t then t else now) in
      (p\<lparr>rp_next := Some (slot + rp_interval p)\<rparr>, slot))"

text \<open>
  Waiting: the delay from the clock at the second reading to the slot. A context that is cancelled
  meanwhile gives up, and its slot stays taken.
\<close>

datatype wait_result = Passed int | Cancelled

definition Wait_pacer :: "int \<Rightarrow> int \<Rightarrow> bool \<Rightarrow> requestPacer \<Rightarrow> requestPacer \<times> wait_result" where
  "Wait_pacer now later cancelled p =
     (if rp_interval p \<le> 0 then (p, Passed 0)
      else case reserve now p of
        (p', slot) \<Rightarrow>
          (p', if slot - later \<le> 0 then Passed 0 else if cancelled then Cancelled else Passed (slot - later)))"

section \<open>A pacer per message\<close>

record keyedEntry =
  ke_pacer :: requestPacer
  ke_lastUsed :: int

record keyedRequestPacer =
  kp_interval :: int
  kp_idleTTL :: int
  kp_sweepInterval :: int
  kp_lastSweep :: "int option"
  kp_entries :: "(string \<times> keyedEntry) list"

definition newKeyedRequestPacerWithInterval :: "int \<Rightarrow> int \<Rightarrow> int \<Rightarrow> keyedRequestPacer" where
  "newKeyedRequestPacerWithInterval interval idleTTL sweepInterval =
     \<lparr>kp_interval = interval, kp_idleTTL = idleTTL, kp_sweepInterval = sweepInterval, kp_lastSweep = None,
      kp_entries = []\<rparr>"

definition newKeyedRequestPacer :: "int \<Rightarrow> keyedRequestPacer" where
  "newKeyedRequestPacer qps =
     (if qps \<le> 0 then newKeyedRequestPacerWithInterval 0 0 0
      else newKeyedRequestPacerWithInterval (Second div qps) keyedPacerIdleTTL keyedPacerSweepInterval)"

definition shouldSweep :: "int \<Rightarrow> keyedRequestPacer \<Rightarrow> bool" where
  "shouldSweep now p \<longleftrightarrow>
     \<not> (kp_idleTTL p \<le> 0 \<or> kp_sweepInterval p \<le> 0) \<and>
     (case kp_lastSweep p of None \<Rightarrow> True | Some t \<Rightarrow> kp_sweepInterval p \<le> now - t)"

definition sweep :: "int \<Rightarrow> keyedRequestPacer \<Rightarrow> keyedRequestPacer" where
  "sweep now p =
     (let q = p\<lparr>kp_lastSweep := Some now\<rparr> in
      if kp_idleTTL p \<le> 0 then q
      else q\<lparr>kp_entries := filter (\<lambda>(_, e). now - ke_lastUsed e < kp_idleTTL p) (kp_entries p)\<rparr>)"

text \<open>The entry of a key is found or made, and marked as used now.\<close>

definition entryFor :: "int \<Rightarrow> string \<Rightarrow> keyedRequestPacer \<Rightarrow> keyedRequestPacer" where
  "entryFor now key p =
     (let q = (if shouldSweep now p then sweep now p else p);
          e = (case map_of (kp_entries q) key of
                 None \<Rightarrow> \<lparr>ke_pacer = newRequestPacerWithInterval (kp_interval q), ke_lastUsed = now\<rparr>
               | Some e \<Rightarrow> e\<lparr>ke_lastUsed := now\<rparr>) in
      q\<lparr>kp_entries := AList.update key e (kp_entries q)\<rparr>)"

text \<open>A request that runs alone: it looks up its pacer and reserves there.\<close>

definition Wait_keyed ::
  "int \<Rightarrow> int \<Rightarrow> int \<Rightarrow> bool \<Rightarrow> string \<Rightarrow> keyedRequestPacer \<Rightarrow> keyedRequestPacer \<times> wait_result" where
  "Wait_keyed now now2 later cancelled key0 p =
     (let key = trim key0 in
      if kp_interval p \<le> 0 \<or> key = [] then (p, Passed 0)
      else
        let q = entryFor now key p in
        case map_of (kp_entries q) key of
          None \<Rightarrow> (q, Passed 0)
        | Some e \<Rightarrow>
            (case Wait_pacer now2 later cancelled (ke_pacer e) of
               (r, result) \<Rightarrow> (q\<lparr>kp_entries := AList.update key (e\<lparr>ke_pacer := r\<rparr>) (kp_entries q)\<rparr>, result)))"

section \<open>The rate\<close>

text \<open>The slots that a sequence of reservations gets, whatever the clock says.\<close>

fun slots :: "int list \<Rightarrow> requestPacer \<Rightarrow> int list" where
  "slots [] p = []"
| "slots (now # rest) p = (case reserve now p of (p', slot) \<Rightarrow> slot # slots rest p')"

lemma slots_length [simp]: "length (slots ts p) = length ts"
  by (induction ts arbitrary: p) (simp_all split: prod.split)

lemma reserve_facts:
  assumes "reserve now p = (p', slot)"
  shows "rp_interval p' = rp_interval p" "rp_next p' = Some (slot + rp_interval p)" "now \<le> slot"
    "rp_next p = Some t \<Longrightarrow> t \<le> slot" "slot = now \<or> rp_next p = Some slot"
  using assms by (auto simp: reserve_def Let_def split: option.splits if_splits)

lemma slots_after:
  assumes "rp_next p = Some t" "0 \<le> rp_interval p" "j < length ts"
  shows "t + int j * rp_interval p \<le> slots ts p ! j"
  using assms
proof (induction ts arbitrary: p t j)
  case (Cons now rest)
  obtain p' slot where r: "reserve now p = (p', slot)" by force
  note f = reserve_facts [OF r]
  show ?case
  proof (cases j)
    case 0
    then show ?thesis using f(4) [OF Cons.prems(1)] r by simp
  next
    case (Suc k)
    have "slot + rp_interval p + int k * rp_interval p \<le> slots rest p' ! k"
      using Cons.IH [OF f(2)] f(1) Cons.prems(2,3) Suc by simp
    then show ?thesis using f(4) [OF Cons.prems(1)] r Suc by (simp add: algebra_simps)
  qed
qed simp

lemma slots_gap:
  assumes "0 \<le> rp_interval p" "i + j < length ts"
  shows "slots ts p ! i + int j * rp_interval p \<le> slots ts p ! (i + j)"
  using assms
proof (induction ts arbitrary: p i)
  case (Cons now rest)
  obtain p' slot where r: "reserve now p = (p', slot)" by force
  note f = reserve_facts [OF r]
  show ?case
  proof (cases i)
    case (Suc k)
    then show ?thesis using Cons.IH [of p' k] Cons.prems f(1) r by simp
  next
    case 0
    show ?thesis
    proof (cases j)
      case (Suc m)
      have "slot + rp_interval p + int m * rp_interval p \<le> slots rest p' ! m"
        using slots_after [OF f(2), of m rest] f(1) Cons.prems 0 Suc by simp
      then show ?thesis using 0 Suc r by (simp add: algebra_simps)
    qed (simp add: 0)
  qed
qed simp



end
