(* ===== verification/Coalesced_Refresh.thy ===== *)
theory Coalesced_Refresh
  imports Go_Prelude "HOL-Library.AList"
begin

text \<open>
  Refreshes that are asked for in bursts (\<open>runtime/coalesced_refresh.go\<close>). A refresh of a key runs
  after a pause; requests that come meanwhile are one refresh; requests that come while it runs
  are one more refresh after it.

  The methods are one step each where they hold the lock. Around them are the timers of the
  process: a timer that was set (\<open>tm_armed\<close>), a callback that has started and waits for the lock,
  which stopping its timer no longer prevents (\<open>tm_fired\<close>), a callback between its start and its
  end (\<open>tm_active\<close>), and one that is about to schedule its key again (\<open>tm_again\<close>).
\<close>

section \<open>The refresher\<close>

record refreshEntry =
  re_timer :: "nat option"
  re_running :: bool
  re_queued :: bool
  re_last :: "int option"

record CoalescedRefresh =
  cr_debounce :: int
  cr_interval :: int
  cr_entries :: "(string \<times> refreshEntry) list"
  cr_stopped :: bool

definition NewCoalescedRefresh :: "int \<Rightarrow> int \<Rightarrow> CoalescedRefresh" where
  "NewCoalescedRefresh debounce interval =
     \<lparr>cr_debounce = debounce, cr_interval = interval, cr_entries = [], cr_stopped = False\<rparr>"

definition new_entry :: refreshEntry where
  "new_entry = \<lparr>re_timer = None, re_running = False, re_queued = False, re_last = None\<rparr>"

definition entry_of :: "CoalescedRefresh \<Rightarrow> string \<Rightarrow> refreshEntry" where
  "entry_of r key = (case map_of (cr_entries r) key of None \<Rightarrow> new_entry | Some e \<Rightarrow> e)"

definition put_entry :: "string \<Rightarrow> refreshEntry \<Rightarrow> CoalescedRefresh \<Rightarrow> CoalescedRefresh" where
  "put_entry key e r = r\<lparr>cr_entries := AList.update key e (cr_entries r)\<rparr>"

text \<open>
  \<open>Schedule\<close> sets a timer with the new number \<open>i\<close> at the time \<open>now\<close>, unless the key is running;
  the timer it replaces is stopped. The results: the timer to stop and the delay of the new one.
\<close>

definition refresh_delay :: "CoalescedRefresh \<Rightarrow> int \<Rightarrow> refreshEntry \<Rightarrow> int" where
  "refresh_delay r now e =
     (let delay = max (cr_debounce r) 0 in
      case re_last e of None \<Rightarrow> delay | Some t \<Rightarrow> max delay (cr_interval r - (now - t)))"

definition Schedule_refresh ::
  "nat \<Rightarrow> int \<Rightarrow> string \<Rightarrow> CoalescedRefresh \<Rightarrow> CoalescedRefresh \<times> (nat option \<times> int) option" where
  "Schedule_refresh i now key0 r =
     (let key = trim key0; e = entry_of r key in
      if key = [] \<or> cr_stopped r then (r, None)
      else if re_running e then (put_entry key (e\<lparr>re_queued := True\<rparr>) r, None)
      else (put_entry key (e\<lparr>re_timer := Some i\<rparr>) r, Some (re_timer e, refresh_delay r now e)))"

text \<open>The first part of \<open>execute\<close>: true when the refresh starts.\<close>

definition execute_refresh :: "int \<Rightarrow> string \<Rightarrow> CoalescedRefresh \<Rightarrow> CoalescedRefresh \<times> bool" where
  "execute_refresh now key r =
     (let e = entry_of r key in
      if cr_stopped r then (r, False)
      else if re_running e then (put_entry key (e\<lparr>re_queued := True\<rparr>) r, False)
      else (put_entry key \<lparr>re_timer = None, re_running = True, re_queued = False, re_last = Some now\<rparr> r, True))"

text \<open>\<open>finish\<close>, up to the call of \<open>Schedule\<close>: true when the key is to be scheduled again.\<close>

definition finish_refresh :: "string \<Rightarrow> CoalescedRefresh \<Rightarrow> CoalescedRefresh \<times> bool" where
  "finish_refresh key r =
     (let e = entry_of r key in
      (put_entry key (e\<lparr>re_running := False, re_queued := False\<rparr>) r, re_queued e))"

definition Stop_refresh :: "CoalescedRefresh \<Rightarrow> CoalescedRefresh \<times> nat list" where
  "Stop_refresh r =
     (r\<lparr>cr_stopped := True, cr_entries := map (\<lambda>(k, e). (k, e\<lparr>re_timer := None\<rparr>)) (cr_entries r)\<rparr>,
      List.map_filter (\<lambda>(k, e). re_timer e) (cr_entries r))"

section \<open>The process around it\<close>

text \<open>
  \<open>tm_owed\<close> are the keys that were asked for and not attempted since; \<open>tm_attempts\<close> the attempts:
  a refresh that starts, or that the frontend does not admit because it shuts down (\<open>execute\<close> then
  calls \<open>finish\<close> itself, so that a refused attempt also passes through \<open>tm_active\<close>).
\<close>

record timing =
  tm_refresh :: CoalescedRefresh
  tm_armed :: "(nat \<times> string) list"
  tm_fired :: "string list"
  tm_active :: "string list"
  tm_again :: "string list"
  tm_next :: nat
  tm_owed :: "string set"
  tm_attempts :: "string list"

definition schedule_at :: "int \<Rightarrow> string \<Rightarrow> timing \<Rightarrow> timing" where
  "schedule_at now key s =
     (case Schedule_refresh (tm_next s) now key (tm_refresh s) of
        (r, None) \<Rightarrow> s\<lparr>tm_refresh := r\<rparr>
      | (r, Some (old, delay)) \<Rightarrow>
          s\<lparr>tm_refresh := r, tm_next := Suc (tm_next s),
            tm_armed := (tm_next s, trim key) # filter (\<lambda>(i, k). Some i \<noteq> old) (tm_armed s)\<rparr>)"

definition asked :: "string \<Rightarrow> timing \<Rightarrow> timing" where
  "asked key s = (if trim key = [] then s else s\<lparr>tm_owed := insert (trim key) (tm_owed s)\<rparr>)"

text \<open>The steps the process takes by itself; each needs only that its list is not empty.\<close>

inductive inner :: "timing \<Rightarrow> timing \<Rightarrow> bool" where
  fires: "(i, key) \<in> set (tm_armed s) \<Longrightarrow>
    inner s (s\<lparr>tm_armed := remove1 (i, key) (tm_armed s), tm_fired := key # tm_fired s\<rparr>)"
| starts: "key \<in> set (tm_fired s) \<Longrightarrow> execute_refresh now key (tm_refresh s) = (r, True) \<Longrightarrow>
    inner s (s\<lparr>tm_refresh := r, tm_fired := remove1 key (tm_fired s), tm_active := key # tm_active s,
               tm_owed := tm_owed s - {key}, tm_attempts := tm_attempts s @ [key]\<rparr>)"
| yields: "key \<in> set (tm_fired s) \<Longrightarrow> execute_refresh now key (tm_refresh s) = (r, False) \<Longrightarrow>
    inner s (s\<lparr>tm_refresh := r, tm_fired := remove1 key (tm_fired s)\<rparr>)"
| finishes: "key \<in> set (tm_active s) \<Longrightarrow> finish_refresh key (tm_refresh s) = (r, again) \<Longrightarrow>
    inner s (s\<lparr>tm_refresh := r, tm_active := remove1 key (tm_active s),
               tm_again := (if again then [key] else []) @ tm_again s\<rparr>)"
| reschedules: "key \<in> set (tm_again s) \<Longrightarrow>
    inner s (schedule_at now key (s\<lparr>tm_again := remove1 key (tm_again s)\<rparr>))"

inductive process :: "CoalescedRefresh \<Rightarrow> timing \<Rightarrow> bool" for r0 where
  fresh: "process r0 \<lparr>tm_refresh = r0, tm_armed = [], tm_fired = [], tm_active = [], tm_again = [], tm_next = 0,
                      tm_owed = {}, tm_attempts = []\<rparr>"
| by_itself: "process r0 s \<Longrightarrow> inner s s' \<Longrightarrow> process r0 s'"
| scheduled: "process r0 s \<Longrightarrow> process r0 (schedule_at now key (asked key s))"
| stopped: "process r0 s \<Longrightarrow> Stop_refresh (tm_refresh s) = (r, ids) \<Longrightarrow>
    process r0 (s\<lparr>tm_refresh := r, tm_armed := filter (\<lambda>(i, k). i \<notin> set ids) (tm_armed s)\<rparr>)"

section \<open>What holds at every moment\<close>

lemma entry_put [simp]: "entry_of (put_entry k e r) j = (if j = k then e else entry_of r j)"
  by (simp add: entry_of_def put_entry_def update_conv')

lemma put_stopped [simp]: "cr_stopped (put_entry k e r) = cr_stopped r"
  by (simp add: put_entry_def)

abbreviation entry_in :: "timing \<Rightarrow> string \<Rightarrow> refreshEntry" where "entry_in s \<equiv> entry_of (tm_refresh s)"

definition waiting_for :: "timing \<Rightarrow> string \<Rightarrow> bool" where
  "waiting_for s k \<longleftrightarrow>
     re_queued (entry_in s k) \<or> k \<in> set (tm_again s) \<or> k \<in> set (tm_fired s) \<or> k \<in> snd ` set (tm_armed s)"

definition running_ok :: "timing \<Rightarrow> bool" where
  "running_ok s \<longleftrightarrow> distinct (tm_active s) \<and> (\<forall>k. k \<in> set (tm_active s) \<longleftrightarrow> re_running (entry_in s k)) \<and>
     (\<forall>k. re_queued (entry_in s k) \<longrightarrow> re_running (entry_in s k))"

definition armed_ok :: "timing \<Rightarrow> bool" where
  "armed_ok s \<longleftrightarrow> (\<forall>(i, k)\<in>set (tm_armed s). i < tm_next s) \<and>
     (\<forall>k i. re_timer (entry_in s k) = Some i \<longrightarrow> i < tm_next s \<and> (\<forall>j. (i, j) \<in> set (tm_armed s) \<longrightarrow> j = k))"

definition proper_key :: "string \<Rightarrow> bool" where "proper_key k \<longleftrightarrow> trim k = k \<and> k \<noteq> []"

lemma proper_trim: "trim k \<noteq> [] \<Longrightarrow> proper_key (trim k)"
  by (simp add: proper_key_def)

definition keys_ok :: "timing \<Rightarrow> bool" where
  "keys_ok s \<longleftrightarrow> (\<forall>k\<in>snd ` set (tm_armed s) \<union> set (tm_fired s) \<union> set (tm_active s) \<union> set (tm_again s). proper_key k)"

definition nothing_lost :: "timing \<Rightarrow> bool" where
  "nothing_lost s \<longleftrightarrow> (\<not> cr_stopped (tm_refresh s) \<longrightarrow> (\<forall>k\<in>tm_owed s. waiting_for s k))"

definition timing_ok :: "timing \<Rightarrow> bool" where
  "timing_ok s \<longleftrightarrow> running_ok s \<and> armed_ok s \<and> keys_ok s \<and> nothing_lost s"

text \<open>The three outcomes of \<open>Schedule\<close>.\<close>

lemma schedule_at_cases:
  obtains (idle) "trim key = [] \<or> cr_stopped (tm_refresh s)" "schedule_at now key s = s"
  | (queues) "trim key \<noteq> []" "\<not> cr_stopped (tm_refresh s)" "re_running (entry_in s (trim key))"
      "schedule_at now key s = s\<lparr>tm_refresh := put_entry (trim key)
         ((entry_in s (trim key))\<lparr>re_queued := True\<rparr>) (tm_refresh s)\<rparr>"
  | (arms) "trim key \<noteq> []" "\<not> cr_stopped (tm_refresh s)" "\<not> re_running (entry_in s (trim key))"
      "schedule_at now key s = s\<lparr>tm_refresh := put_entry (trim key)
         ((entry_in s (trim key))\<lparr>re_timer := Some (tm_next s)\<rparr>) (tm_refresh s), tm_next := Suc (tm_next s),
         tm_armed := (tm_next s, trim key) #
           filter (\<lambda>(i, k). Some i \<noteq> re_timer (entry_in s (trim key))) (tm_armed s)\<rparr>"
  by (cases "trim key = [] \<or> cr_stopped (tm_refresh s)"; cases "re_running (entry_in s (trim key))")
     (auto simp: schedule_at_def Schedule_refresh_def Let_def)

lemma schedule_keeps:
  assumes "running_ok s" "armed_ok s" "keys_ok s" "\<not> cr_stopped (tm_refresh s) \<Longrightarrow> \<forall>k\<in>tm_owed s - {trim key}. waiting_for s k"
    "trim key = [] \<Longrightarrow> [] \<notin> tm_owed s"
  shows "timing_ok (schedule_at now key s)"
proof (rule schedule_at_cases [of key s now])
  assume idle: "trim key = [] \<or> cr_stopped (tm_refresh s)" "schedule_at now key s = s"
  show ?thesis using idle(1) assms unfolding timing_ok_def nothing_lost_def idle(2) by auto
next
  assume queues: "trim key \<noteq> []" "\<not> cr_stopped (tm_refresh s)" "re_running (entry_in s (trim key))"
      "schedule_at now key s = s\<lparr>tm_refresh := put_entry (trim key)
         ((entry_in s (trim key))\<lparr>re_queued := True\<rparr>) (tm_refresh s)\<rparr>"
  show ?thesis unfolding queues(4) using assms queues
    by (auto simp: timing_ok_def nothing_lost_def waiting_for_def running_ok_def armed_ok_def keys_ok_def)
next
  assume arms: "trim key \<noteq> []" "\<not> cr_stopped (tm_refresh s)" "\<not> re_running (entry_in s (trim key))"
      "schedule_at now key s = s\<lparr>tm_refresh := put_entry (trim key)
         ((entry_in s (trim key))\<lparr>re_timer := Some (tm_next s)\<rparr>) (tm_refresh s), tm_next := Suc (tm_next s),
         tm_armed := (tm_next s, trim key) #
           filter (\<lambda>(i, k). Some i \<noteq> re_timer (entry_in s (trim key))) (tm_armed s)\<rparr>"
  let ?s = "schedule_at now key s"
  have "running_ok ?s" using assms(1) arms(3) unfolding arms(4) by (auto simp: running_ok_def)
  moreover have "armed_ok ?s"
    using assms(2) unfolding arms(4) armed_ok_def by (fastforce split: if_splits)
  moreover have "keys_ok ?s" using assms(3) proper_trim [OF arms(1)] unfolding arms(4) by (auto simp: keys_ok_def)
  moreover have "waiting_for ?s k" if "k \<in> tm_owed s" for k
  proof (cases "k = trim key")
    case True
    then show ?thesis unfolding arms(4) by (simp add: waiting_for_def)
  next
    case False
    then have w: "waiting_for s k" using assms(4) [OF arms(2)] that by blast
    have "Some i \<noteq> re_timer (entry_in s (trim key))" if "(i, k) \<in> set (tm_armed s)" for i
      using assms(2) that False unfolding armed_ok_def by metis
    then show ?thesis using w False unfolding arms(4) by (force simp: waiting_for_def)
  qed
  ultimately show ?thesis unfolding timing_ok_def nothing_lost_def arms(4) by simp
qed

lemma execute_yields:
  assumes "execute_refresh now key c = (r, False)"
  obtains "cr_stopped c" "r = c"
  | "re_running (entry_of c key)" "r = put_entry key ((entry_of c key)\<lparr>re_queued := True\<rparr>) c"
proof -
  have "cr_stopped c \<and> r = c \<or> re_running (entry_of c key) \<and> r = put_entry key ((entry_of c key)\<lparr>re_queued := True\<rparr>) c"
    using assms by (auto simp: execute_refresh_def Let_def split: if_splits)
  then show ?thesis using that by blast
qed

lemma inner_keeps: "inner s s' \<Longrightarrow> timing_ok s \<Longrightarrow> timing_ok s'"
proof (induction rule: inner.induct)
  case (fires i key s)
  let ?s = "s\<lparr>tm_armed := remove1 (i, key) (tm_armed s), tm_fired := key # tm_fired s\<rparr>"
  have "running_ok ?s" using fires(2) by (simp add: timing_ok_def running_ok_def)
  moreover have "armed_ok ?s"
    using fires(2) set_remove1_subset [of "(i, key)" "tm_armed s"]
    unfolding timing_ok_def armed_ok_def by simp blast
  moreover have "keys_ok ?s"
    using fires set_remove1_subset [of "(i, key)" "tm_armed s"] image_eqI [of key snd "(i, key)" "set (tm_armed s)"]
    unfolding timing_ok_def keys_ok_def by simp blast
  moreover have "waiting_for ?s k" if "waiting_for s k" for k
  proof (cases "k = key")
    case False
    have "(j, k) \<in> set (remove1 (i, key) (tm_armed s))" if "(j, k) \<in> set (tm_armed s)" for j
      using that False by (simp add: in_set_remove1)
    then show ?thesis using that unfolding waiting_for_def by force
  qed (simp add: waiting_for_def)
  ultimately show ?case using fires(2) unfolding timing_ok_def nothing_lost_def by simp
next
  case (starts key s now r)
  then have r: "\<not> cr_stopped (tm_refresh s)" "\<not> re_running (entry_in s key)"
    "r = put_entry key \<lparr>re_timer = None, re_running = True, re_queued = False, re_last = Some now\<rparr> (tm_refresh s)"
    by (auto simp: execute_refresh_def Let_def split: if_splits)
  show ?case using starts(1,3) r(1,2) unfolding r(3)
    by (auto simp: timing_ok_def running_ok_def armed_ok_def keys_ok_def nothing_lost_def waiting_for_def
        dest: notin_set_remove1)
next
  case (yields key s now r)
  let ?s = "s\<lparr>tm_refresh := r, tm_fired := remove1 key (tm_fired s)\<rparr>"
  have ok: "running_ok s" "armed_ok s" "keys_ok s" "nothing_lost s" using yields(3) unfolding timing_ok_def by auto
  have "keys_ok ?s" using ok(3) by (auto simp: keys_ok_def dest: notin_set_remove1)
  moreover consider "cr_stopped (tm_refresh s)" "r = tm_refresh s"
    | "re_running (entry_in s key)" "r = put_entry key ((entry_in s key)\<lparr>re_queued := True\<rparr>) (tm_refresh s)"
    by (rule execute_yields [OF yields(2)])
  then have "running_ok ?s \<and> armed_ok ?s \<and> nothing_lost ?s"
  proof cases
    case 1
    then show ?thesis using ok by (simp add: running_ok_def armed_ok_def nothing_lost_def)
  next
    case 2
    have "running_ok ?s" using ok(1) 2 by (auto simp: running_ok_def)
    moreover have "armed_ok ?s" using ok(2) by (simp add: armed_ok_def 2(2))
    moreover have "waiting_for ?s k" if "waiting_for s k" for k
      using that by (cases "k = key") (simp_all add: waiting_for_def 2(2))
    ultimately show ?thesis using ok(4) by (simp add: nothing_lost_def 2(2))
  qed
  ultimately show ?case unfolding timing_ok_def by blast
next
  case (finishes key s r again)
  then have r: "r = put_entry key ((entry_in s key)\<lparr>re_running := False, re_queued := False\<rparr>) (tm_refresh s)"
    "again = re_queued (entry_in s key)"
    by (auto simp: finish_refresh_def Let_def)
  show ?case using finishes(1,3) unfolding r
    by (auto simp: timing_ok_def running_ok_def armed_ok_def keys_ok_def nothing_lost_def waiting_for_def
        dest: notin_set_remove1)
next
  case (reschedules key s now)
  have k: "trim key = key" "key \<noteq> []" using reschedules unfolding timing_ok_def keys_ok_def proper_key_def by blast+
  show ?case
  proof (rule schedule_keeps)
    show "\<forall>k\<in>tm_owed (s\<lparr>tm_again := remove1 key (tm_again s)\<rparr>) - {trim key}.
        waiting_for (s\<lparr>tm_again := remove1 key (tm_again s)\<rparr>) k"
      if "\<not> cr_stopped (tm_refresh (s\<lparr>tm_again := remove1 key (tm_again s)\<rparr>))"
      using that reschedules(2) k(1) by (auto simp: timing_ok_def nothing_lost_def waiting_for_def)
  qed (use reschedules(2) k in \<open>auto simp: timing_ok_def running_ok_def armed_ok_def keys_ok_def dest: notin_set_remove1\<close>)
qed

lemma timing_ok_process: "process (NewCoalescedRefresh d i) s \<Longrightarrow> timing_ok s \<and> [] \<notin> tm_owed s"
proof (induction rule: process.induct)
  case fresh
  then show ?case
    by (simp add: timing_ok_def running_ok_def armed_ok_def keys_ok_def nothing_lost_def NewCoalescedRefresh_def
        entry_of_def new_entry_def)
next
  case (by_itself s s')
  have "[] \<notin> tm_owed s'"
    using by_itself(2) by_itself.IH by (cases rule: inner.cases) (auto simp: schedule_at_def split: prod.splits option.splits)
  then show ?case using inner_keeps by_itself by blast
next
  case (scheduled s now key)
  have "timing_ok (schedule_at now key (asked key s))"
    using scheduled.IH
    by (intro schedule_keeps)
       (auto simp: asked_def timing_ok_def running_ok_def armed_ok_def keys_ok_def nothing_lost_def waiting_for_def)
  moreover have "tm_owed (schedule_at now key (asked key s)) = tm_owed (asked key s)"
    by (simp add: schedule_at_def split: prod.split option.split)
  ultimately show ?case using scheduled.IH by (auto simp: asked_def)
next
  case (stopped s r ids)
  have e: "entry_of r k = (entry_in s k)\<lparr>re_timer := None\<rparr>" for k
    using stopped(2) unfolding Stop_refresh_def
    by (auto simp: entry_of_def map_of_map new_entry_def split: option.splits)
  let ?s = "s\<lparr>tm_refresh := r, tm_armed := filter (\<lambda>(i, k). i \<notin> set ids) (tm_armed s)\<rparr>"
  have ok: "running_ok s" "armed_ok s" "keys_ok s" "[] \<notin> tm_owed s" using stopped.IH unfolding timing_ok_def by auto
  have "running_ok ?s" using ok(1) by (simp add: running_ok_def e)
  moreover have "armed_ok ?s" using ok(2) by (auto simp: armed_ok_def e)
  moreover have "keys_ok ?s" using ok(3) by (auto simp: keys_ok_def)
  moreover have "cr_stopped r" using stopped(2) by (auto simp: Stop_refresh_def)
  ultimately show ?case using ok(4) by (simp add: timing_ok_def nothing_lost_def)
qed

section \<open>The work that is left\<close>

definition load_of :: "timing \<Rightarrow> string \<Rightarrow> nat" where
  "load_of s k = (if re_queued (entry_in s k) then 8 else 4)"

definition work_left :: "timing \<Rightarrow> nat" where
  "work_left s = 6 * length (tm_armed s) + 5 * length (tm_fired s) + 7 * length (tm_again s) +
     (\<Sum>k\<in>set (tm_active s). load_of s k)"

lemma remove1_shorter: "x \<in> set xs \<Longrightarrow> length xs = Suc (length (remove1 x xs))"
  by (induction xs) auto

lemma load_change:
  assumes "k \<in> set xs"
  shows "(\<Sum>j\<in>set xs. if j = k then c else f j) + f k = (\<Sum>j\<in>set xs. f j) + (c::nat)"
proof -
  have "(\<Sum>j\<in>set xs. if j = k then c else f j) = c + (\<Sum>j\<in>set xs - {k}. f j)"
    using assms by (subst sum.remove [of _ k]) auto
  moreover have "(\<Sum>j\<in>set xs. f j) = f k + (\<Sum>j\<in>set xs - {k}. f j)"
    using assms by (simp add: sum.remove)
  ultimately show ?thesis by simp
qed

lemma inner_works:
  assumes "inner s s'" "timing_ok s"
  shows "work_left s' < work_left s"
  using assms
proof (induction rule: inner.induct)
  case (fires i key s)
  have "(\<Sum>k\<in>A. load_of (s\<lparr>tm_armed := a, tm_fired := f\<rparr>) k) = (\<Sum>k\<in>A. load_of s k)" for A a f
    by (simp add: load_of_def)
  then show ?case using remove1_shorter [OF fires(1)] by (simp add: work_left_def)
next
  case (starts key s now r)
  then have r: "\<not> re_running (entry_in s key)"
    "r = put_entry key \<lparr>re_timer = None, re_running = True, re_queued = False, re_last = Some now\<rparr> (tm_refresh s)"
    by (auto simp: execute_refresh_def Let_def split: if_splits)
  have n: "key \<notin> set (tm_active s)" using starts(3) r(1) unfolding timing_ok_def running_ok_def by blast
  let ?s = "s\<lparr>tm_refresh := r, tm_fired := remove1 key (tm_fired s), tm_active := key # tm_active s,
     tm_owed := tm_owed s - {key}, tm_attempts := tm_attempts s @ [key]\<rparr>"
  have "(\<Sum>k\<in>set (tm_active s). load_of ?s k) = (\<Sum>k\<in>set (tm_active s). load_of s k)"
    using n by (intro sum.cong) (auto simp: load_of_def r(2))
  then show ?case using n remove1_shorter [OF starts(1)] by (simp add: work_left_def load_of_def r(2))
next
  case (yields key s now r)
  show ?case
  proof (rule execute_yields [OF yields(2)])
    assume "r = tm_refresh s"
    then show ?thesis using remove1_shorter [OF yields(1)] by (simp add: work_left_def load_of_def)
  next
    assume 2: "re_running (entry_in s key)" "r = put_entry key ((entry_in s key)\<lparr>re_queued := True\<rparr>) (tm_refresh s)"
    let ?s = "s\<lparr>tm_refresh := r, tm_fired := remove1 key (tm_fired s)\<rparr>"
    have a: "key \<in> set (tm_active s)" using yields(3) 2(1) unfolding timing_ok_def running_ok_def by blast
    have "(\<Sum>k\<in>set (tm_active s). load_of ?s k) = (\<Sum>k\<in>set (tm_active s). if k = key then 8 else load_of s k)"
      by (intro sum.cong) (auto simp: load_of_def 2(2))
    moreover have "4 \<le> load_of s key" by (simp add: load_of_def)
    ultimately show ?thesis
      using load_change [OF a, of 8 "load_of s"] remove1_shorter [OF yields(1)] by (simp add: work_left_def)
  qed
next
  case (finishes key s r again)
  then have r: "r = put_entry key ((entry_in s key)\<lparr>re_running := False, re_queued := False\<rparr>) (tm_refresh s)"
    "again = re_queued (entry_in s key)"
    by (auto simp: finish_refresh_def Let_def)
  let ?s = "s\<lparr>tm_refresh := r, tm_active := remove1 key (tm_active s), tm_again := (if again then [key] else []) @ tm_again s\<rparr>"
  have d: "distinct (tm_active s)" using finishes(3) unfolding timing_ok_def running_ok_def by blast
  have "(\<Sum>k\<in>set (remove1 key (tm_active s)). load_of ?s k) = (\<Sum>k\<in>set (tm_active s) - {key}. load_of s k)"
    using d by (intro sum.cong) (auto simp: load_of_def r)
  moreover have "(\<Sum>k\<in>set (tm_active s). load_of s k) = load_of s key + (\<Sum>k\<in>set (tm_active s) - {key}. load_of s k)"
    using finishes(1) by (simp add: sum.remove)
  ultimately show ?case by (simp add: work_left_def) (simp add: load_of_def r(2))
next
  case (reschedules key s now)
  let ?s = "s\<lparr>tm_again := remove1 key (tm_again s)\<rparr>"
  have again: "length (tm_again s) = Suc (length (tm_again ?s))" using remove1_shorter [OF reschedules(1)] by simp
  have w: "work_left s = work_left ?s + 7" using again by (simp add: work_left_def load_of_def)
  show ?case
  proof (rule schedule_at_cases [of key ?s now])
    assume "schedule_at now key ?s = ?s"
    then show ?thesis using w by simp
  next
    assume q: "re_running (entry_in ?s (trim key))"
      "schedule_at now key ?s = ?s\<lparr>tm_refresh := put_entry (trim key)
         ((entry_in ?s (trim key))\<lparr>re_queued := True\<rparr>) (tm_refresh ?s)\<rparr>"
    have a: "trim key \<in> set (tm_active s)" using reschedules(2) q(1) unfolding timing_ok_def running_ok_def by simp
    have "(\<Sum>k\<in>set (tm_active s). load_of (schedule_at now key ?s) k) =
        (\<Sum>k\<in>set (tm_active s). if k = trim key then 8 else load_of s k)"
      unfolding q(2) by (intro sum.cong) (auto simp: load_of_def)
    moreover have "4 \<le> load_of s (trim key)" by (simp add: load_of_def)
    moreover have "tm_active (schedule_at now key ?s) = tm_active s" "tm_armed (schedule_at now key ?s) = tm_armed s"
      "tm_fired (schedule_at now key ?s) = tm_fired s" "tm_again (schedule_at now key ?s) = remove1 key (tm_again s)"
      unfolding q(2) by simp_all
    ultimately show ?thesis
      using load_change [OF a, of 8 "load_of s"] again by (simp add: work_left_def)
  next
    assume a: "schedule_at now key ?s = ?s\<lparr>tm_refresh := put_entry (trim key)
         ((entry_in ?s (trim key))\<lparr>re_timer := Some (tm_next ?s)\<rparr>) (tm_refresh ?s), tm_next := Suc (tm_next ?s),
         tm_armed := (tm_next ?s, trim key) #
           filter (\<lambda>(i, k). Some i \<noteq> re_timer (entry_in ?s (trim key))) (tm_armed ?s)\<rparr>"
    have "load_of (schedule_at now key ?s) k = load_of s k" for k unfolding a by (simp add: load_of_def)
    moreover have "length (tm_armed (schedule_at now key ?s)) \<le> Suc (length (tm_armed s))"
      unfolding a by simp
    moreover have "tm_active (schedule_at now key ?s) = tm_active s"
      "tm_fired (schedule_at now key ?s) = tm_fired s" "tm_again (schedule_at now key ?s) = remove1 key (tm_again s)"
      unfolding a by simp_all
    ultimately show ?thesis using again by (simp add: work_left_def)
  qed
qed

section \<open>No request is lost\<close>

lemma schedule_at_frame:
  "tm_attempts (schedule_at now key s) = tm_attempts s" "tm_owed (schedule_at now key s) = tm_owed s"
  "cr_stopped (tm_refresh (schedule_at now key s)) = cr_stopped (tm_refresh s)"
  by (rule schedule_at_cases [of key s now]; simp)+

lemma inner_attempts:
  "inner s s' \<Longrightarrow> \<exists>xs. tm_attempts s' = tm_attempts s @ xs \<and> tm_owed s \<subseteq> tm_owed s' \<union> set xs \<and>
     cr_stopped (tm_refresh s') = cr_stopped (tm_refresh s)"
  by (cases rule: inner.cases)
     (auto simp: schedule_at_frame execute_refresh_def finish_refresh_def Let_def split: if_splits)

lemma inners_attempts:
  "inner\<^sup>*\<^sup>* s s' \<Longrightarrow> \<exists>xs. tm_attempts s' = tm_attempts s @ xs \<and> tm_owed s \<subseteq> tm_owed s' \<union> set xs \<and>
     cr_stopped (tm_refresh s') = cr_stopped (tm_refresh s)"
proof (induction rule: rtranclp_induct)
  case (step s' s'')
  then obtain xs ys where "tm_attempts s' = tm_attempts s @ xs" "tm_owed s \<subseteq> tm_owed s' \<union> set xs"
    "cr_stopped (tm_refresh s') = cr_stopped (tm_refresh s)" "tm_attempts s'' = tm_attempts s' @ ys"
    "tm_owed s' \<subseteq> tm_owed s'' \<union> set ys" "cr_stopped (tm_refresh s'') = cr_stopped (tm_refresh s')"
    using inner_attempts [OF step.hyps(2)] by blast
  then show ?case by (intro exI [of _ "xs @ ys"]) auto
qed simp

lemma inners_keep: "inner\<^sup>*\<^sup>* s s' \<Longrightarrow> timing_ok s \<Longrightarrow> timing_ok s'"
  by (induction rule: rtranclp_induct) (auto intro: inner_keeps)

lemma inner_count: "(inner ^^ n) s s' \<Longrightarrow> timing_ok s \<Longrightarrow> timing_ok s' \<and> n + work_left s' \<le> work_left s"
proof (induction n arbitrary: s')
  case (Suc n)
  then obtain t where t: "(inner ^^ n) s t" "inner t s'" by auto
  then have "timing_ok t \<and> n + work_left t \<le> work_left s" using Suc by blast
  then show ?case using inner_keeps [OF t(2)] inner_works [OF t(2)] by linarith
qed simp

lemma quiet_is_empty:
  assumes "\<forall>s'. \<not> inner s s'"
  shows "tm_armed s = [] \<and> tm_fired s = [] \<and> tm_active s = [] \<and> tm_again s = []"
proof -
  have "tm_armed s = []" using assms fires [of _ _ s] by (cases "tm_armed s") fastforce+
  moreover have "tm_fired s = []"
  proof (cases "tm_fired s")
    case (Cons key ks)
    obtain r b where "execute_refresh 0 key (tm_refresh s) = (r, b)" by (meson surj_pair)
    then show ?thesis using assms starts [of key s 0 r] yields [of key s 0 r] Cons by (cases b) auto
  qed simp
  moreover have "tm_active s = []"
  proof (cases "tm_active s")
    case (Cons key ks)
    obtain r b where "finish_refresh key (tm_refresh s) = (r, b)" by (meson surj_pair)
    then show ?thesis using assms finishes [of key s r b] Cons by auto
  qed simp
  moreover have "tm_again s = []"
    using assms reschedules [of _ s 0] by (cases "tm_again s") auto
  ultimately show ?thesis by blast
qed

text \<open>
  C32. No request for a refresh is lost, and no key is refreshed twice at a time. However requests,
  timers and refreshes interleave, the callbacks under way have different keys; left to itself the
  process comes to rest after a bounded number of steps; and when it rests, every key that was
  asked for and not attempted before has been attempted since, unless the refresher was stopped.
\<close>

theorem refresh_not_lost:
  assumes "process (NewCoalescedRefresh debounce interval) s"
  shows "distinct (tm_active s) \<and>
    (\<forall>n s'. (inner ^^ n) s s' \<longrightarrow> n \<le> work_left s) \<and>
    (\<forall>s'. inner\<^sup>*\<^sup>* s s' \<and> (\<forall>s''. \<not> inner s' s'') \<and> \<not> cr_stopped (tm_refresh s) \<longrightarrow>
       tm_owed s \<subseteq> set (drop (length (tm_attempts s)) (tm_attempts s')))"
proof (intro conjI allI impI)
  have ok: "timing_ok s" using timing_ok_process [OF assms] by blast
  then show "distinct (tm_active s)" unfolding timing_ok_def running_ok_def by blast
  show "n \<le> work_left s" if "(inner ^^ n) s s'" for n s' using inner_count [OF that ok] by simp
  fix s'
  assume r: "inner\<^sup>*\<^sup>* s s' \<and> (\<forall>s''. \<not> inner s' s'') \<and> \<not> cr_stopped (tm_refresh s)"
  then obtain xs where xs: "tm_attempts s' = tm_attempts s @ xs" "tm_owed s \<subseteq> tm_owed s' \<union> set xs"
    "\<not> cr_stopped (tm_refresh s')"
    using inners_attempts by blast
  have "timing_ok s'" using r inners_keep ok by blast
  moreover have "tm_armed s' = [] \<and> tm_fired s' = [] \<and> tm_active s' = [] \<and> tm_again s' = []"
    using r quiet_is_empty by blast
  ultimately have "tm_owed s' = {}"
    using xs(3) unfolding timing_ok_def nothing_lost_def running_ok_def waiting_for_def by auto
  then show "tm_owed s \<subseteq> set (drop (length (tm_attempts s)) (tm_attempts s'))" using xs(1,2) by simp
qed

theorem refresh_not_lost_witness:
  "\<exists>s. process (NewCoalescedRefresh 1 5) s \<and> tm_owed s = {''k''} \<and> tm_attempts s = [] \<and>
     (\<forall>s'. inner\<^sup>*\<^sup>* s s' \<and> (\<forall>s''. \<not> inner s' s'') \<longrightarrow> ''k'' \<in> set (tm_attempts s'))"
proof -
  let ?r = "NewCoalescedRefresh 1 5"
  let ?s = "schedule_at 0 ''k'' (asked ''k'' \<lparr>tm_refresh = ?r, tm_armed = [], tm_fired = [], tm_active = [],
      tm_again = [], tm_next = 0, tm_owed = {}, tm_attempts = []\<rparr>)"
  have p: "process ?r ?s" by (intro process.scheduled process.fresh)
  have "trim ''k'' = ''k''" by code_simp
  then have s: "tm_owed ?s = {''k''}" "tm_attempts ?s = []" "\<not> cr_stopped (tm_refresh ?s)"
    by (simp_all add: schedule_at_frame asked_def NewCoalescedRefresh_def)
  then show ?thesis using p refresh_not_lost [OF p] by (intro exI [of _ ?s]) auto
qed

end
