(* ===== verification/Conversation_Service.thy ===== *)
theory Conversation_Service
  imports Workspace_Planning Turn_Lifecycle
begin

text \<open>
  The conversation of a session (\<open>application/conversation\<close>): starting, resuming and forking a thread
  of the backend and binding it to the session (\<open>service.go\<close>), the id a backend tells later
  (\<open>thread_binding.go\<close>), the commands new, resume and stop (\<open>controls.go\<close>), and the state after a
  start of the process (\<open>startup.go, recovery.go\<close>).

  The gateway to the backend is a record of its answers; \<open>n\<close> is the number of store calls before.
  A session the code changes through its pointer is part of the result.
\<close>

section \<open>The service (service.go)\<close>

record BackendThread =
  bk_ID :: string
  bk_Name :: string
  bk_Preview :: string
  bk_Applied :: "Snapshot option"

record conversation_request =
  cq_SessionKey :: string
  cq_Session :: Session
  cq_Workspace :: WorkspaceConfig
  cq_Model :: string
  cq_SelectionExplicit :: bool
  cq_Selection :: ThreadSelection

record conversation_ports =
  cv_queue :: queue_ports
  cv_Ready :: bool
  cv_List :: "nat \<Rightarrow> WorkspaceConfig \<Rightarrow> bool \<Rightarrow> string + ThreadEntry list"
  cv_Start :: "nat \<Rightarrow> conversation_request \<Rightarrow> string + BackendThread"
  cv_Resume :: "nat \<Rightarrow> conversation_request \<Rightarrow> string + BackendThread"
  cv_Fork :: "nat \<Rightarrow> conversation_request \<Rightarrow> string + BackendThread"
  cv_Interrupt :: "nat \<Rightarrow> Session \<Rightarrow> string option"
  cv_Steer :: "nat \<Rightarrow> Session \<Rightarrow> string \<Rightarrow> string option"

datatype conversation_error =
    SessionNotGiven | WorkspaceNotGiven | BackendNotReady | GatewayFailed string | NoThreadID
  | ThreadNotSaved scoped_error | ThreadNotGiven | ThreadElsewhere | NothingToContinue
  | WorkRunning | WorkspaceUnknown string | NothingRuns | NotInterrupted string
  | Panicked | StartNotSaved string scoped_error | NotExpired string store_error | SubmissionNotBound store_error

definition no_selection :: ThreadSelection where
  "no_selection = \<lparr>ts_ThreadID = [], ts_Name = [], ts_Preview = [], ts_Cwd = []\<rparr>"

definition cv_Backend :: "conversation_ports \<Rightarrow> string" where
  "cv_Backend p = qp_Backend (cv_queue p)"

definition defersThreadID :: "conversation_ports \<Rightarrow> bool" where
  "defersThreadID p \<longleftrightarrow> cv_Backend p = BackendClaude"

definition conversation_request_of ::
  "conversation_ports \<Rightarrow> string \<Rightarrow> Session \<Rightarrow> WorkspaceConfig \<Rightarrow> Desk \<Rightarrow> conversation_request" where
  "conversation_request_of p key sess ws w =
     \<lparr>cq_SessionKey = key, cq_Session = sess, cq_Workspace = ws,
      cq_Model = trim (snap_Model (Desired (qp_GlobalValues (cv_queue p)) (cv_Backend p) (Some sess) (dk_app w))),
      cq_SelectionExplicit = False, cq_Selection = no_selection\<rparr>"

definition validate_conversation ::
  "conversation_ports \<Rightarrow> Session option \<Rightarrow> WorkspaceConfig option \<Rightarrow> conversation_error option" where
  "validate_conversation p sess ws =
     (if sess = None then Some SessionNotGiven
      else if ws = None then Some WorkspaceNotGiven
      else if \<not> cv_Ready p then Some BackendNotReady
      else None)"

definition ListWorkspaceThreads ::
  "conversation_ports \<Rightarrow> WorkspaceConfig option \<Rightarrow> bool \<Rightarrow> Desk \<Rightarrow> conversation_error + ThreadEntry list" where
  "ListWorkspaceThreads p ws everything w =
     (case ws of
        None \<Rightarrow> Inl WorkspaceNotGiven
      | Some x \<Rightarrow>
          if \<not> cv_Ready p then Inl BackendNotReady
          else map_sum GatewayFailed id (cv_List p (dk_calls w) x everything))"

text \<open>A thread becomes that of the session: its live mark is set only after the session was saved.\<close>

definition bound_thread :: "bool \<Rightarrow> WorkspaceConfig \<Rightarrow> BackendThread \<Rightarrow> Session \<Rightarrow> Session" where
  "bound_thread clear ws t sess =
     (let s1 = SetThreadContext (if clear then ClearThreadContext sess else sess)
                 (wk_ID ws) (bk_ID t) (bk_Name t) (bk_Preview t);
          s2 = (case bk_Applied t of
                  None \<Rightarrow> s1
                | Some snapshot \<Rightarrow> s1\<lparr>ss_AppliedModelConfig := snapshot, ss_ModelConfigError := []\<rparr>) in
      (ResetActiveOperations s2)\<lparr>ss_Status := SessionStatusIdle\<rparr>)"

definition mark_thread :: "string \<Rightarrow> string \<Rightarrow> Desk \<Rightarrow> Desk" where
  "mark_thread key threadID =
     on_live (if trim threadID \<noteq> [] then MarkLive key threadID else ClearLive key)"

definition bind_thread ::
  "conversation_ports \<Rightarrow> string \<Rightarrow> Session \<Rightarrow> WorkspaceConfig \<Rightarrow> BackendThread \<Rightarrow> bool \<Rightarrow> bool \<Rightarrow> Desk
     \<Rightarrow> Desk \<times> Session \<times> (conversation_error + ThreadBinding)" where
  "bind_thread p key sess ws t resumed clear w =
     (if trim (bk_ID t) = [] \<and> \<not> defersThreadID p then (w, sess, Inl NoThreadID)
      else
        let bound = bound_thread clear ws t sess in
        case save_session (cv_queue p) bound w of
          (w1, Some e) \<Rightarrow> (w1, sess, Inl (ThreadNotSaved e))
        | (w1, None) \<Rightarrow>
            (mark_thread key (bk_ID t) w1, bound,
             Inr \<lparr>tb_ThreadID = bk_ID t, tb_Name = ss_ActiveThreadName bound,
                  tb_Preview = ss_ActiveThreadPreview bound, tb_Resumed = resumed\<rparr>))"

definition start_thread ::
  "conversation_ports \<Rightarrow> string \<Rightarrow> Session \<Rightarrow> WorkspaceConfig \<Rightarrow> Desk
     \<Rightarrow> Desk \<times> Session \<times> (conversation_error + ThreadBinding)" where
  "start_thread p key sess ws w =
     (case cv_Start p (dk_calls w) (conversation_request_of p key sess ws w) of
        Inl e \<Rightarrow> (w, sess, Inl (GatewayFailed e))
      | Inr t \<Rightarrow> bind_thread p key sess ws t False True w)"

type_synonym conversation_result = "Desk \<times> Session option \<times> (conversation_error + ThreadBinding)"

definition validated ::
  "conversation_ports \<Rightarrow> Session option \<Rightarrow> WorkspaceConfig option \<Rightarrow> Desk
     \<Rightarrow> (Session \<Rightarrow> WorkspaceConfig \<Rightarrow> Desk \<times> Session \<times> (conversation_error + 'a))
     \<Rightarrow> Desk \<times> Session option \<times> (conversation_error + 'a)" where
  "validated p sess ws w run =
     (case validate_conversation p sess ws of
        Some e \<Rightarrow> (w, sess, Inl e)
      | None \<Rightarrow> (case run (the sess) (the ws) of (w', s', r) \<Rightarrow> (w', Some s', r)))"

definition StartWorkspaceThread ::
  "conversation_ports \<Rightarrow> string \<Rightarrow> Session option \<Rightarrow> WorkspaceConfig option \<Rightarrow> Desk \<Rightarrow> conversation_result" where
  "StartWorkspaceThread p key sess ws w = validated p sess ws w (\<lambda>s x. start_thread p key s x w)"

text \<open>
  The thread the user picked. On Codex the settings of the old thread end with it; they stay in the
  session when binding fails.
\<close>

definition picked_session :: "conversation_ports \<Rightarrow> Session \<Rightarrow> Session" where
  "picked_session p sess =
     (if cv_Backend p = BackendCodex
      then sess\<lparr>ss_ActiveThreadApprovalPolicy := [], ss_ActiveThreadSandboxMode := [],
                ss_ActiveClaudePermissionMode := [], ss_ActiveThreadCollaborationMode := None\<rparr>
      else sess)"

definition resume_selected ::
  "conversation_ports \<Rightarrow> string \<Rightarrow> ThreadSelection \<Rightarrow> Session \<Rightarrow> WorkspaceConfig \<Rightarrow> Desk
     \<Rightarrow> Desk \<times> Session \<times> (conversation_error + ThreadBinding)" where
  "resume_selected p key sel sess ws w =
     (if trim (ts_ThreadID sel) = [] then (w, sess, Inl ThreadNotGiven)
      else if trim (ts_Cwd sel) \<noteq> [] \<and> \<not> SameWorkspaceCWD (ts_Cwd sel) (wk_Cwd ws) then (w, sess, Inl ThreadElsewhere)
      else case cv_Resume p (dk_calls w)
                  ((conversation_request_of p key sess ws w)\<lparr>cq_Selection := sel, cq_SelectionExplicit := True\<rparr>) of
        Inl e \<Rightarrow> (w, sess, Inl (GatewayFailed e))
      | Inr t \<Rightarrow>
          (case bind_thread p key (picked_session p sess) ws t True (cv_Backend p = BackendClaude) w of
             (w1, _, Inl e) \<Rightarrow> (w1, sess, Inl e)
           | (w1, bound, Inr b) \<Rightarrow> (w1, bound, Inr b)))"

definition ResumeSelectedThread ::
  "conversation_ports \<Rightarrow> string \<Rightarrow> Session option \<Rightarrow> WorkspaceConfig option \<Rightarrow> ThreadSelection \<Rightarrow> Desk
     \<Rightarrow> conversation_result" where
  "ResumeSelectedThread p key sess ws sel w = validated p sess ws w (\<lambda>s x. resume_selected p key sel s x w)"

text \<open>
  The thread to go on with: that of the session (Claude) or the newest of the workspace (Codex),
  and a new one when there is none or it cannot be resumed.
\<close>

definition thread_to_resume ::
  "conversation_ports \<Rightarrow> Session \<Rightarrow> WorkspaceConfig \<Rightarrow> Desk \<Rightarrow> ThreadSelection option" where
  "thread_to_resume p sess ws w =
     (if cv_Backend p = BackendClaude then
        (if trim (ss_ActiveThreadWorkspaceID sess) = trim (wk_ID ws) \<and> trim (ss_ActiveThreadID sess) \<noteq> []
         then Some (no_selection\<lparr>ts_ThreadID := ss_ActiveThreadID sess\<rparr>) else None)
      else
        (case ListWorkspaceThreads p (Some ws) False w of
           Inl _ \<Rightarrow> None
         | Inr items \<Rightarrow>
             (case SortThreadsByUpdated items of
                [] \<Rightarrow> None
              | e # _ \<Rightarrow> Some \<lparr>ts_ThreadID = te_ID e, ts_Name = te_Name e, ts_Preview = te_Preview e, ts_Cwd = te_Cwd e\<rparr>)))"

definition ensure_thread ::
  "conversation_ports \<Rightarrow> string \<Rightarrow> Session \<Rightarrow> WorkspaceConfig \<Rightarrow> Desk
     \<Rightarrow> Desk \<times> Session \<times> (conversation_error + ThreadBinding)" where
  "ensure_thread p key sess ws w =
     (case thread_to_resume p sess ws w of
        None \<Rightarrow> start_thread p key sess ws w
      | Some sel \<Rightarrow>
          (case cv_Resume p (dk_calls w) ((conversation_request_of p key sess ws w)\<lparr>cq_Selection := sel\<rparr>) of
             Inl _ \<Rightarrow> start_thread p key sess ws w
           | Inr t \<Rightarrow>
               if cv_Backend p = BackendClaude then
                 bind_thread p key sess ws
                   (t\<lparr>bk_Name := FirstNonEmpty [ss_ActiveThreadName sess, ''Claude''],
                      bk_Preview := FirstNonEmpty [ss_ActiveThreadPreview sess, wk_Name ws]\<rparr>) True False w
               else bind_thread p key sess ws t True True w))"

definition EnsureWorkspaceThreadBinding ::
  "conversation_ports \<Rightarrow> string \<Rightarrow> Session option \<Rightarrow> WorkspaceConfig option \<Rightarrow> Desk \<Rightarrow> conversation_result" where
  "EnsureWorkspaceThreadBinding p key sess ws w = validated p sess ws w (\<lambda>s x. ensure_thread p key s x w)"

text \<open>A fork changes the session before it is saved, also when the save fails.\<close>

definition forked_session :: "conversation_ports \<Rightarrow> WorkspaceConfig \<Rightarrow> BackendThread \<Rightarrow> Session \<Rightarrow> Session" where
  "forked_session p ws t sess =
     (let s1 = (if cv_Backend p = BackendClaude then ClearThreadContext sess else sess);
          s2 = SetThreadContext s1 (FirstNonEmpty [ss_WorkspaceID s1, wk_ID ws]) (bk_ID t) (bk_Name t) (bk_Preview t) in
      (ResetActiveOperations (s2\<lparr>ss_ActiveThreadCollaborationMode := None\<rparr>))
        \<lparr>ss_Status := SessionStatusIdle, ss_Queue := [], ss_StagedImages := []\<rparr>)"

definition fork_thread ::
  "conversation_ports \<Rightarrow> string \<Rightarrow> Session \<Rightarrow> WorkspaceConfig \<Rightarrow> Desk
     \<Rightarrow> Desk \<times> Session \<times> (conversation_error + string)" where
  "fork_thread p key sess ws w =
     (case cv_Fork p (dk_calls w) (conversation_request_of p key sess ws w) of
        Inl e \<Rightarrow> (w, sess, Inl (GatewayFailed e))
      | Inr t \<Rightarrow>
          if bk_ID t = [] \<and> \<not> defersThreadID p then (w, sess, Inl NoThreadID)
          else
            let forked = forked_session p ws t sess in
            case save_session (cv_queue p) forked w of
              (w1, Some e) \<Rightarrow> (w1, forked, Inl (ThreadNotSaved e))
            | (w1, None) \<Rightarrow>
                (on_live (if bk_ID t \<noteq> [] then MarkLive key (bk_ID t) else ClearLive key) w1, forked, Inr (bk_ID t)))"

definition ForkActiveConversation ::
  "conversation_ports \<Rightarrow> string \<Rightarrow> Session option \<Rightarrow> WorkspaceConfig option \<Rightarrow> Desk
     \<Rightarrow> Desk \<times> Session option \<times> (conversation_error + string)" where
  "ForkActiveConversation p key sess ws w = validated p sess ws w (\<lambda>s x. fork_thread p key s x w)"

definition InterruptActiveTurn :: "conversation_ports \<Rightarrow> Session \<Rightarrow> Desk \<Rightarrow> string option" where
  "InterruptActiveTurn p sess w = cv_Interrupt p (dk_calls w) sess"

definition ContinueActiveTurn ::
  "conversation_ports \<Rightarrow> string \<Rightarrow> string \<Rightarrow> Desk \<Rightarrow> Desk \<times> conversation_error option" where
  "ContinueActiveTurn p key added w0 =
     (case get_session (cv_queue p) key w0 of
        (w, None) \<Rightarrow> (w, Some NothingToContinue)
      | (w, Some sess) \<Rightarrow>
          if trim added = [] \<or> trim (ss_ActiveThreadID sess) = [] \<or> trim (ss_ActiveTurnID sess) = []
          then (w, Some NothingToContinue)
          else (w, map_option GatewayFailed (cv_Steer p (dk_calls w) sess (trim added))))"

section \<open>After an interrupt, and the id a backend tells later\<close>

text \<open>The operations of an interrupted session end here when no event of the backend will end them.\<close>

definition interrupted_submission :: "Submission \<Rightarrow> Submission" where
  "interrupted_submission sub = sub\<lparr>sub_Status := SubmissionStatusInterrupted, sub_Finalized := True\<rparr>"

definition interrupt_operation :: "conversation_ports \<Rightarrow> SessionActiveOperation \<Rightarrow> Desk \<Rightarrow> Desk" where
  "interrupt_operation p op w =
     (let i = trim (op_SubmissionID op) in
      if i = [] then w
      else case app_submission i w of
        None \<Rightarrow> w
      | Some sub \<Rightarrow> if sub_Finalized sub then w else fst (update_submission (cv_queue p) i interrupted_submission w))"

definition ClearInterruptedOperations ::
  "conversation_ports \<Rightarrow> string \<Rightarrow> Session option \<Rightarrow> Desk \<Rightarrow> Desk \<times> Session option" where
  "ClearInterruptedOperations p key session w =
     (case session of
        None \<Rightarrow> (w, None)
      | Some sess0 \<Rightarrow>
          let sess = looked_at sess0 in
          if \<not> HasActiveOperations (Some sess0) then (w, Some sess)
          else
            (case update_session (cv_queue p) key
                    (\<lambda>s. (ResetActiveOperations s)\<lparr>ss_Status := SessionStatusIdle\<rparr>)
                    (fold (interrupt_operation p) (ss_ActiveOperations sess) w) of
               (w1, Inl _) \<Rightarrow> (w1, Some sess)
             | (w1, Inr updated) \<Rightarrow> (w1, updated)))"

text \<open>A submission gets the thread, and its turn when it had none; the workspace is that of the first.\<close>

definition bind_submission ::
  "conversation_ports \<Rightarrow> string \<Rightarrow> string \<Rightarrow> string \<Rightarrow> string \<Rightarrow> Desk \<Rightarrow> Desk \<times> (store_error + string)" where
  "bind_submission p threadID i turnID workspaceID w =
     (case update_submission (cv_queue p) i
             (\<lambda>s. s\<lparr>sub_ThreadID := threadID,
                    sub_TurnID := (if trim (sub_TurnID s) = [] then turnID else sub_TurnID s)\<rparr>) w of
        (w1, Some e) \<Rightarrow> (w1, Inl e)
      | (w1, None) \<Rightarrow>
          let w2 = on_turns (RebindTurnThreadID turnID threadID) w1 in
          (case app_submission i w2 of
             None \<Rightarrow> (w2, Inr workspaceID)
           | Some updated \<Rightarrow>
               (RecordSubmissionSourceLinks updated w2, Inr (FirstNonEmpty [workspaceID, trim (sub_WorkspaceID updated)]))))"

fun bind_operations ::
  "conversation_ports \<Rightarrow> string \<Rightarrow> SessionActiveOperation list \<Rightarrow> string \<Rightarrow> Desk \<Rightarrow> Desk \<times> (store_error + string)" where
  "bind_operations p threadID [] workspaceID w = (w, Inr workspaceID)"
| "bind_operations p threadID (op # ops) workspaceID w =
     (if trim (op_SubmissionID op) = [] then bind_operations p threadID ops workspaceID w
      else case bind_submission p threadID (trim (op_SubmissionID op)) (trim (op_TurnID op)) workspaceID w of
        (w1, Inl e) \<Rightarrow> (w1, Inl e)
      | (w1, Inr i) \<Rightarrow> bind_operations p threadID ops i w1)"

definition rebound_session ::
  "int \<Rightarrow> SessionActiveOperation list \<Rightarrow> string \<Rightarrow> string \<Rightarrow> string \<Rightarrow> Session \<Rightarrow> Session" where
  "rebound_session now ops workspaceID threadID name sess =
     (let s1 = fold (\<lambda>op s. UpsertActiveOperation now s
                 \<lparr>op_Kind = FirstNonEmpty [trim (op_Kind op), OpKindSubmission],
                  op_SubmissionID = trim (op_SubmissionID op), op_ThreadID = threadID,
                  op_TurnID = trim (op_TurnID op), op_StartedAt = 0\<rparr>) ops (EnsureActiveOperations sess);
          s2 = SetThreadContext s1 workspaceID threadID (ss_ActiveThreadName s1) (ss_ActiveThreadPreview s1) in
      if trim (ss_ActiveThreadName s2) = [] then s2\<lparr>ss_ActiveThreadName := name\<rparr> else s2)"

text \<open>The submission of the turn comes first, then the session and the rest of its operations.\<close>

definition bind_turn_first ::
  "conversation_ports \<Rightarrow> string \<Rightarrow> string \<Rightarrow> Desk \<Rightarrow> Desk \<times> (store_error + string)" where
  "bind_turn_first p turnID threadID w =
     (case (if turnID = [] then None else FindSubmissionByTurn [] turnID w) of
        None \<Rightarrow> (w, Inr [])
      | Some (_, sub) \<Rightarrow> bind_submission p threadID (sub_ID sub) turnID (trim (sub_WorkspaceID sub)) w)"

definition bind_session_operations ::
  "conversation_ports \<Rightarrow> string \<Rightarrow> string \<Rightarrow> string \<Rightarrow> string \<Rightarrow> string \<Rightarrow> Session \<Rightarrow> Desk
     \<Rightarrow> Desk \<times> conversation_error option" where
  "bind_session_operations p key turnID threadID name found_workspace sess w =
     (let ops = filter (\<lambda>op. trim (op_TurnID op) \<noteq> [] \<and> (turnID = [] \<or> trim (op_TurnID op) = turnID))
                  (ss_ActiveOperations (EnsureActiveOperations sess)) in
      case bind_operations p threadID ops (FirstNonEmpty [found_workspace, trim (ss_WorkspaceID sess)]) w of
        (w1, Inl e) \<Rightarrow> (w1, Some (SubmissionNotBound e))
      | (w1, Inr workspaceID) \<Rightarrow>
          (case update_session (cv_queue p) key
                  (rebound_session (now_of (cv_queue p) w1) ops workspaceID threadID name) w1 of
             (w2, Inl e) \<Rightarrow> (w2, Some (ThreadNotSaved e))
           | (w2, Inr updated) \<Rightarrow>
               let w3 = on_live (MarkLive key threadID) w2 in
               (case updated of
                  Some s \<Rightarrow>
                    (if trim (ss_RootMessageID s) \<noteq> [] \<and> turnID \<noteq> []
                     then RecordRootTurnBinding (ss_RootMessageID s) key threadID turnID w3 else w3, None)
                | None \<Rightarrow> (w3, None))))"

definition BindBackendSessionThread ::
  "conversation_ports \<Rightarrow> string \<Rightarrow> string \<Rightarrow> string \<Rightarrow> string \<Rightarrow> Desk \<Rightarrow> Desk \<times> conversation_error option" where
  "BindBackendSessionThread p key0 turnID0 threadID0 name w =
     (let key = trim key0; turnID = trim turnID0; threadID = trim threadID0 in
      if key = [] \<or> threadID = [] then (w, None)
      else case bind_turn_first p turnID threadID w of
        (w1, Inl e) \<Rightarrow> (w1, Some (SubmissionNotBound e))
      | (w1, Inr workspaceID) \<Rightarrow>
          (case get_session (cv_queue p) key w1 of
             (w2, None) \<Rightarrow> (w2, None)
           | (w2, Some sess) \<Rightarrow> bind_session_operations p key turnID threadID name workspaceID sess w2))"

section \<open>Commands (controls.go)\<close>

record CommandContext =
  cc_SessionKey :: string
  cc_UserID :: string
  cc_ChatID :: string
  cc_ChatType :: string

record StopResult =
  sr_Discarded :: nat
  sr_CancelledRetry :: bool
  sr_Interrupted :: bool

definition command_session :: "conversation_ports \<Rightarrow> CommandContext \<Rightarrow> Desk \<Rightarrow> Desk \<times> Session" where
  "command_session p input w0 =
     (case get_session (cv_queue p) (cc_SessionKey input) w0 of
        (w, found) \<Rightarrow>
          let sess = (case found of None \<Rightarrow> zero_Session\<lparr>ss_Key := cc_SessionKey input\<rparr> | Some s \<Rightarrow> s) in
          (w, sess\<lparr>ss_WorkspaceID := FirstNonEmpty [ss_WorkspaceID sess, qp_DefaultWorkspaceID (cv_queue p)],
                   ss_OwnerUserID := FirstNonEmpty [ss_OwnerUserID sess, cc_UserID input],
                   ss_ChatID := FirstNonEmpty [ss_ChatID sess, cc_ChatID input],
                   ss_ChatType := FirstNonEmpty [ss_ChatType sess, cc_ChatType input]\<rparr>))"

definition Fresh ::
  "conversation_ports \<Rightarrow> CommandContext \<Rightarrow> Desk \<Rightarrow> Desk \<times> nat \<times> (conversation_error + ThreadBinding)" where
  "Fresh p input w0 =
     (case get_session (cv_queue p) (cc_SessionKey input) w0 of
        (w1, found) \<Rightarrow>
          if HasActiveWork found then (w1, 0, Inl WorkRunning)
          else
            (case DiscardSessionPendingInputs (cv_queue p) (cc_SessionKey input) w1 of
               (w2, discarded) \<Rightarrow>
                 (case command_session p input w2 of
                    (w3, sess) \<Rightarrow>
                      (case qp_Workspace (cv_queue p) (ss_WorkspaceID sess) of
                         None \<Rightarrow> (w3, discarded, Inl (WorkspaceUnknown (ss_WorkspaceID sess)))
                       | Some ws \<Rightarrow>
                           (case StartWorkspaceThread p (cc_SessionKey input) (Some sess) (Some ws) w3 of
                              (w4, _, r) \<Rightarrow> (w4, discarded, r))))))"

definition Resume_conversation ::
  "conversation_ports \<Rightarrow> CommandContext \<Rightarrow> ThreadSelection \<Rightarrow> Desk \<Rightarrow> Desk \<times> conversation_error option" where
  "Resume_conversation p input sel w0 =
     (case command_session p input w0 of
        (w1, sess0) \<Rightarrow>
          let sess = looked_at sess0 in
          if HasInFlightSubmission (Some sess0) then (w1, Some WorkRunning)
          else
            (case qp_Workspace (cv_queue p) (ss_WorkspaceID sess) of
               None \<Rightarrow> (w1, Some (WorkspaceUnknown (ss_WorkspaceID sess)))
             | Some ws \<Rightarrow>
                 (case ResumeSelectedThread p (cc_SessionKey input) (Some sess) (Some ws) sel w1 of
                    (w2, _, Inl e) \<Rightarrow> (w2, Some e)
                  | (w2, _, Inr _) \<Rightarrow> (w2, None))))"

section \<open>Stop\<close>

text \<open>In a group a stop is for all sessions of the group: these are its keys, in the order they are locked.\<close>

definition groupChat :: "string \<Rightarrow> Session option \<Rightarrow> string \<times> string" where
  "groupChat key session =
     (case ParseSessionKey key of
        (_, kind, i, _) \<Rightarrow>
          (case session of
             Some sess \<Rightarrow> if kind = [] then (ss_ChatType sess, ss_ChatID sess) else (kind, i)
           | None \<Rightarrow> (kind, i)))"

definition surfaceKeys :: "conversation_ports \<Rightarrow> string \<Rightarrow> Desk \<Rightarrow> Desk \<times> string list" where
  "surfaceKeys p key w0 =
     (case get_session (cv_queue p) key w0 of
        (w, session) \<Rightarrow>
          let (kind, chat) = groupChat key session;
              others = filter (\<lambda>sess. ss_Key sess \<noteq> key \<and> groupChat (ss_Key sess) (Some sess) = (''group'', chat))
                         (app_sessions w) in
          (w, sort (key # (if kind = ''group'' \<and> trim chat \<noteq> [] then map ss_Key others else []))))"

definition activeInterrupt :: "Session option \<Rightarrow> bool" where
  "activeInterrupt session =
     (case session of
        None \<Rightarrow> False
      | Some sess \<Rightarrow> trim (ss_ActiveThreadID sess) \<noteq> [] \<and> trim (ss_ActiveTurnID sess) \<noteq> [])"

text \<open>The running session that changed last; of two the one with the greater key.\<close>

definition better_target :: "string \<times> Session option \<Rightarrow> string \<Rightarrow> Session \<Rightarrow> bool" where
  "better_target best candidate sess =
     (case best of
        (_, None) \<Rightarrow> True
      | (key, Some b) \<Rightarrow>
          ss_UpdatedAt b < ss_UpdatedAt sess \<or> ss_UpdatedAt sess = ss_UpdatedAt b \<and> key < candidate)"

fun stop_target ::
  "conversation_ports \<Rightarrow> string list \<Rightarrow> string \<times> Session option \<Rightarrow> Desk \<Rightarrow> Desk \<times> string \<times> Session option" where
  "stop_target p [] best w = (w, best)"
| "stop_target p (candidate # keys) best w =
     (case get_session (cv_queue p) candidate w of
        (w1, None) \<Rightarrow> stop_target p keys best w1
      | (w1, Some sess) \<Rightarrow>
          stop_target p keys
            (if activeInterrupt (Some sess) \<and> better_target best candidate sess then (candidate, Some sess) else best) w1)"

definition stop_notice :: string where
  "stop_notice = ([CHR 0xE5, CHR 0xB7, CHR 0xB2, CHR 0xE5, CHR 0x81, CHR 0x9C, CHR 0xE6, CHR 0xAD,
    CHR 0xA2, CHR 0xE5, CHR 0xBD, CHR 0x93, CHR 0xE5, CHR 0x89, CHR 0x8D] @ '' session '' @ [CHR 0xE7,
    CHR 0x9A, CHR 0x84, CHR 0xE8, CHR 0x87, CHR 0xAA, CHR 0xE5, CHR 0x8A, CHR 0xA8, CHR 0xE9, CHR
    0x87, CHR 0x8D, CHR 0xE8, CHR 0xAF, CHR 0x95, CHR 0xE3, CHR 0x80, CHR 0x82])"

definition cancel_retry :: "conversation_ports \<Rightarrow> string \<Rightarrow> bool \<Rightarrow> Desk \<Rightarrow> Desk \<times> bool" where
  "cancel_retry p key keep w =
     (case CancelAutoRetry (qp_Present (cv_queue p)) (qp_RetryEnabled (cv_queue p))
             (\<lambda>k. snd (get_session (cv_queue p) k w)) key keep stop_notice (dk_retry w) of
        (t, cancelled) \<Rightarrow> (w\<lparr>dk_retry := t\<rparr>, cancelled))"

fun cancelRetries ::
  "conversation_ports \<Rightarrow> string list \<Rightarrow> string \<Rightarrow> Session option \<Rightarrow> Desk \<Rightarrow> Desk \<times> bool" where
  "cancelRetries p [] activeKey active w = (w, False)"
| "cancelRetries p (key # keys) activeKey active w =
     (case cancel_retry p key (key = activeKey \<and> activeInterrupt active)
             (if key \<noteq> activeKey then fst (get_session (cv_queue p) key w) else w) of
        (w1, cancelled) \<Rightarrow>
          (case cancelRetries p keys activeKey active w1 of (w2, later) \<Rightarrow> (w2, cancelled \<or> later)))"

fun discard_surface :: "conversation_ports \<Rightarrow> string list \<Rightarrow> nat \<Rightarrow> Desk \<Rightarrow> Desk \<times> nat" where
  "discard_surface p [] n w = (w, n)"
| "discard_surface p (key # keys) n w =
     (case DiscardSessionPendingInputs (cv_queue p) key w of (w1, m) \<Rightarrow> discard_surface p keys (n + m) w1)"

text \<open>
  Codex may refuse to interrupt a turn that has just ended: when reconciling shows that the turn is
  over, the interrupt is done (\<open>feishuapp/conversation\_services.go\<close>). Claude's operations end here.
\<close>

definition interruptConversation ::
  "conversation_ports \<Rightarrow> turn_ports \<Rightarrow> Session \<Rightarrow> Desk \<Rightarrow> Desk \<times> conversation_error option" where
  "interruptConversation p tn sess w =
     (case InterruptActiveTurn p sess w of
        None \<Rightarrow> (w, None)
      | Some e \<Rightarrow>
          if cv_Backend p \<noteq> BackendCodex then (w, Some (NotInterrupted e))
          else
            (case Reconcile_turn tn (ss_Key sess) sess w of
               (w1, _, False) \<Rightarrow> (w1, Some Panicked)
             | (w1, None, True) \<Rightarrow> (w1, None)
             | (w1, Some updated, True) \<Rightarrow>
                 (w1, if ss_ActiveTurnID updated \<noteq> ss_ActiveTurnID sess then None else Some (NotInterrupted e))))"

definition after_interrupt :: "conversation_ports \<Rightarrow> string \<Rightarrow> Session option \<Rightarrow> Desk \<Rightarrow> Desk" where
  "after_interrupt p key session w =
     (if cv_Backend p = BackendClaude then fst (ClearInterruptedOperations p key session w) else w)"

definition reconcile_target ::
  "turn_ports \<Rightarrow> string \<Rightarrow> Session option \<Rightarrow> Desk \<Rightarrow> Desk \<times> bool" where
  "reconcile_target tn key session w =
     (case session of
        None \<Rightarrow> (w, True)
      | Some sess \<Rightarrow> (case ReconcileCompletedTurnFromFinalOutput tn key sess w of (w1, _, ok) \<Rightarrow> (w1, ok)))"

definition finish_stop ::
  "conversation_ports \<Rightarrow> turn_ports \<Rightarrow> string list \<Rightarrow> nat \<Rightarrow> bool \<Rightarrow> Desk
     \<Rightarrow> Desk \<times> StopResult \<times> conversation_error option" where
  "finish_stop p tn keys discarded cancelled w0 =
     (case stop_target p keys ([], None) w0 of
        (w1, activeKey, session) \<Rightarrow>
          (case cancelRetries p keys activeKey session w1 of
             (w2, again) \<Rightarrow>
               let result = \<lparr>sr_Discarded = discarded, sr_CancelledRetry = again \<or> cancelled, sr_Interrupted = False\<rparr> in
               (case session of
                  None \<Rightarrow>
                    (w2, result, if discarded = 0 \<and> \<not> sr_CancelledRetry result then Some NothingRuns else None)
                | Some sess \<Rightarrow>
                    (case interruptConversation p tn sess w2 of
                       (w3, Some e) \<Rightarrow> (w3, result, Some e)
                     | (w3, None) \<Rightarrow>
                         (after_interrupt p activeKey (Some sess) w3, result\<lparr>sr_Interrupted := True\<rparr>, None)))))"

definition Stop_conversation ::
  "conversation_ports \<Rightarrow> turn_ports \<Rightarrow> string \<Rightarrow> Desk \<Rightarrow> Desk \<times> StopResult \<times> conversation_error option" where
  "Stop_conversation p tn key w0 =
     (case surfaceKeys p key w0 of
        (w1, keys) \<Rightarrow>
          (case discard_surface p keys 0 w1 of
             (w2, discarded) \<Rightarrow>
               (case stop_target p keys ([], None) w2 of
                  (w3, activeKey, session) \<Rightarrow>
                    (case cancelRetries p keys activeKey session w3 of
                       (w4, cancelled) \<Rightarrow>
                         (case reconcile_target tn activeKey session w4 of
                            (w5, False) \<Rightarrow>
                              (w5, \<lparr>sr_Discarded = discarded, sr_CancelledRetry = cancelled, sr_Interrupted = False\<rparr>,
                               Some Panicked)
                          | (w5, True) \<Rightarrow> finish_stop p tn keys discarded cancelled w5)))))"

section \<open>The start of the process (startup.go)\<close>

definition reset_session :: "string \<Rightarrow> Session \<Rightarrow> Session" where
  "reset_session default_workspace sess =
     (let s1 = (if trim (ss_WorkspaceID sess) = [] then sess\<lparr>ss_WorkspaceID := default_workspace\<rparr> else sess);
          s2 = (ResetActiveOperations s1)\<lparr>ss_Queue := [], ss_StagedImages := [], ss_Status := SessionStatusIdle\<rparr> in
      if trim (ss_ActiveThreadID s2) \<noteq> [] \<and> trim (ss_ActiveThreadWorkspaceID s2) = []
      then ClearThreadContext s2 else s2)"

fun reset_sessions :: "conversation_ports \<Rightarrow> Session list \<Rightarrow> Desk \<Rightarrow> Desk \<times> conversation_error option" where
  "reset_sessions p [] w = (w, None)"
| "reset_sessions p (sess # rest) w =
     (case save_session (cv_queue p) (reset_session (qp_DefaultWorkspaceID (cv_queue p)) sess) w of
        (w1, Some e) \<Rightarrow> (w1, Some (StartNotSaved (ss_Key sess) e))
      | (w1, None) \<Rightarrow> reset_sessions p rest w1)"

definition needs_expiry :: "PendingRequest \<Rightarrow> bool" where
  "needs_expiry req \<longleftrightarrow> trim (pr_Status req) \<in> {''pending'', ''replied'', ''processing'', ''cancelling''}"

definition expired_request :: "int \<Rightarrow> PendingRequest \<Rightarrow> PendingRequest" where
  "expired_request now req =
     req\<lparr>pr_Status := ''expired'',
         pr_ExpiresAt := (if pr_ExpiresAt req = 0 \<or> now < pr_ExpiresAt req then now else pr_ExpiresAt req)\<rparr>"

fun expire_requests :: "int \<Rightarrow> PendingRequest list \<Rightarrow> ScopedStore \<Rightarrow> ScopedStore \<times> conversation_error option" where
  "expire_requests now [] s = (s, None)"
| "expire_requests now (req # rest) s =
     (if \<not> needs_expiry req then expire_requests now rest s
      else case UpdatePending (pr_ID req) (expired_request now) s of
        (s1, Some e) \<Rightarrow> (s1, Some (NotExpired (pr_ID req) e))
      | (s1, None) \<Rightarrow> expire_requests now rest s1)"

definition ExpireInteractions :: "conversation_ports \<Rightarrow> Desk \<Rightarrow> Desk \<times> conversation_error option" where
  "ExpireInteractions p w =
     on_app (\<lambda>n. expire_requests (dp_now (cv_queue p) n) (scoped_PendingRequests (dk_app w))) w"

definition Reset_startup :: "conversation_ports \<Rightarrow> Desk \<Rightarrow> Desk \<times> conversation_error option" where
  "Reset_startup p w =
     (case reset_sessions p (app_sessions w) w of
        (w1, Some e) \<Rightarrow> (w1, Some e)
      | (w1, None) \<Rightarrow> ExpireInteractions p w1)"

section \<open>Threads after a start (recovery.go)\<close>

text \<open>
  The endpoint that answers: none (the backend is not there), one that resumes only when it is
  needed, or a gateway, which may be replaced while it answers (\<open>rv_Current\<close> of a call is false).
\<close>

record recovery_ports =
  rv_Captured :: "nat \<Rightarrow> bool"
  rv_LazyResume :: bool
  rv_Current :: "nat \<Rightarrow> bool \<Rightarrow> bool"

definition recoverable :: "Session \<Rightarrow> bool" where
  "recoverable sess \<longleftrightarrow> trim (ss_ActiveThreadID sess) \<noteq> [] \<and>
     NormalizeSessionStatus (ss_Status sess) = SessionStatusIdle \<and> \<not> HasInFlightSubmission (Some sess) \<and>
     ss_Queue sess = [] \<and> ss_StagedImages sess = []"

definition clear_lineage :: "conversation_ports \<Rightarrow> Session \<Rightarrow> Desk \<Rightarrow> Desk \<times> conversation_error option" where
  "clear_lineage p sess w =
     (case save_session (cv_queue p) (ClearThreadContext sess) w of
        (w1, Some e) \<Rightarrow> (w1, Some (ThreadNotSaved e))
      | (w1, None) \<Rightarrow> (on_live (ClearLive (ss_Key sess)) w1, None))"

definition bound_result :: "Desk \<times> Session \<times> (conversation_error + ThreadBinding) \<Rightarrow> Desk \<times> conversation_error option" where
  "bound_result r = (case r of (w, _, Inl e) \<Rightarrow> (w, Some e) | (w, _, Inr _) \<Rightarrow> (w, None))"

definition restore_session ::
  "conversation_ports \<Rightarrow> recovery_ports \<Rightarrow> Session \<Rightarrow> WorkspaceConfig \<Rightarrow> Desk \<Rightarrow> Desk \<times> conversation_error option" where
  "restore_session p rv sess ws w =
     (let n = dk_calls w;
          request = (conversation_request_of p (ss_Key sess) sess ws w)
            \<lparr>cq_Selection := \<lparr>ts_ThreadID = ss_ActiveThreadID sess, ts_Name = ss_ActiveThreadName sess,
                             ts_Preview = ss_ActiveThreadPreview sess, ts_Cwd = []\<rparr>\<rparr> in
      if \<not> rv_Captured rv n then (w, None)
      else if rv_LazyResume rv then (on_live (MarkLive (ss_Key sess) (ss_ActiveThreadID sess)) w, None)
      else if \<not> rv_Current rv n False then (w, None)
      else case cv_Resume p n request of
        Inr t \<Rightarrow> bound_result (bind_thread p (ss_Key sess) sess ws t True False w)
      | Inl _ \<Rightarrow>
          if \<not> rv_Current rv n True then (w, None)
          else case cv_Start p n request of
            Inl _ \<Rightarrow> clear_lineage p sess w
          | Inr t \<Rightarrow> bound_result (bind_thread p (ss_Key sess) sess ws t False False w))"

fun restore_threads ::
  "conversation_ports \<Rightarrow> recovery_ports \<Rightarrow> Session list \<Rightarrow> Desk \<Rightarrow> Desk \<times> conversation_error option" where
  "restore_threads p rv [] w = (w, None)"
| "restore_threads p rv (sess0 # rest) w =
     (let sess = looked_at sess0;
          workspaceID = FirstNonEmpty [ss_ActiveThreadWorkspaceID sess, ss_WorkspaceID sess,
                          qp_DefaultWorkspaceID (cv_queue p)] in
      if \<not> recoverable sess0 then restore_threads p rv rest w
      else case (case qp_Workspace (cv_queue p) workspaceID of
                   None \<Rightarrow> clear_lineage p sess w
                 | Some ws \<Rightarrow> restore_session p rv sess ws w) of
        (w1, Some e) \<Rightarrow> (w1, Some e)
      | (w1, None) \<Rightarrow> restore_threads p rv rest w1)"

definition Restore :: "conversation_ports \<Rightarrow> recovery_ports \<Rightarrow> Desk \<Rightarrow> Desk \<times> conversation_error option" where
  "Restore p rv w = restore_threads p rv (app_sessions w) w"

section \<open>Nothing runs after a start\<close>

text \<open>
  The tables as the store keeps them after the keys were migrated: each session is stored under its
  key, which is canonical, and each request of the frontend under its scoped id.
\<close>

definition startup_ready :: "ScopedStore \<Rightarrow> bool" where
  "startup_ready s \<longleftrightarrow>
     (case sc_store s of
        None \<Rightarrow> True
      | Some st \<Rightarrow>
          distinct (map fst (rt_Sessions (st_runtime st))) \<and>
          (\<forall>(k, sess)\<in>set (rt_Sessions (st_runtime st)). ss_Key sess = k \<and> canonicalSessionKey k = k) \<and>
          distinct (map fst (rt_PendingRequests (st_runtime st))) \<and>
          (\<forall>(k, req)\<in>set (rt_PendingRequests (st_runtime st)). matchesFrontend s (pr_FrontendID req) \<longrightarrow>
             k = pendingStoreKey (sc_frontendID s) (trim (pr_ID req)) \<and> trim (pr_ID req) \<noteq> []))"

definition resting :: "Session \<Rightarrow> bool" where
  "resting sess \<longleftrightarrow> ss_Status sess = SessionStatusIdle \<and> ss_ActiveOperations sess = [] \<and>
     ss_ActiveTurnID sess = [] \<and> ss_ActiveSubmissionID sess = [] \<and> ss_Queue sess = [] \<and> ss_StagedImages sess = []"

text \<open>Storing a session does not touch the work it has, nor its key.\<close>

definition work_of ::
  "Session \<Rightarrow> string \<times> SessionActiveOperation list \<times> string \<times> string \<times> string list \<times> SessionStagedImage list" where
  "work_of sess = (ss_Key sess, ss_ActiveOperations sess, ss_ActiveTurnID sess, ss_ActiveSubmissionID sess,
     ss_Queue sess, ss_StagedImages sess)"

lemma fill_context_work: "work_of (fill_context sess) = work_of sess" "ss_Status (fill_context sess) = ss_Status sess"
  by (simp_all add: fill_context_def work_of_def split: option.split)

lemma normalize_work: "work_of (normalizeSessionValues sess) = work_of sess"
    "ss_Status (normalizeSessionValues sess) = NormalizeSessionStatus (ss_Status sess)"
  using fill_context_work [of "sess\<lparr>ss_ActiveThreadServiceTier := NormalizeServiceTier (ss_ActiveThreadServiceTier sess)\<rparr>"]
  by (simp_all add: normalizeSessionValues_def Let_def work_of_def)

lemma clone_work: "work_of (cloneSession sess) = work_of sess"
    "ss_Status (cloneSession sess) = NormalizeSessionStatus (ss_Status sess)"
  using normalize_work [of sess] by (simp_all add: cloneSession_def work_of_def)

lemma clone_key: "ss_Key (cloneSession sess) = ss_Key sess"
  using clone_work(1) [of sess] by (simp add: work_of_def)

lemma backend_thread_work: "work_of (StoreBackendThread sess b) = work_of sess"
    "ss_Status (StoreBackendThread sess b) = ss_Status sess"
  by (simp_all add: StoreBackendThread_def Let_def work_of_def)

lemma scoped_form_work:
  assumes "canonicalSessionKey (ss_Key sess) = ss_Key sess"
  shows "work_of (scoped_form s sess) = work_of sess" "ss_Status (scoped_form s sess) = ss_Status sess"
  using assms backend_thread_work [of "sess\<lparr>ss_Key := ss_Key sess\<rparr>"]
  by (simp_all add: scoped_form_def Let_def)

lemma idle_normal: "NormalizeSessionStatus SessionStatusIdle = SessionStatusIdle"
  by code_simp

lemma resting_work: "resting sess \<longleftrightarrow> ss_Status sess = SessionStatusIdle \<and> work_of sess = (ss_Key sess, [], [], [], [], [])"
  by (auto simp: resting_def work_of_def)

lemma resting_clone: "resting sess \<Longrightarrow> resting (cloneSession sess)"
  using clone_work [of sess] clone_key [of sess] idle_normal by (simp add: resting_work)

lemma resting_idle: "resting sess \<Longrightarrow> \<not> HasActiveWork (Some sess)"
proof -
  assume r: "resting sess"
  have "EnsureActiveOperations sess = sess" using r by (simp add: EnsureActiveOperations_def resting_def)
  moreover have "SessionStatusIdle \<noteq> SessionStatusCompacting" "SessionStatusIdle \<noteq> SessionStatusTurnStarting"
    by code_simp+
  ultimately show ?thesis using r idle_normal by (simp add: HasActiveWork_def HasActiveOperations_def resting_def Let_def)
qed

lemma reset_resting: "resting (reset_session d sess)" "ss_Key (reset_session d sess) = ss_Key sess"
  by (simp_all add: reset_session_def Let_def resting_def ResetActiveOperations_def SyncLegacyActiveFields_def ClearThreadContext_def)

text \<open>One save: the session in memory is replaced by one at rest, and nothing else changes there.\<close>

lemma save_resting:
  assumes "save_session q sess w = (w', None)" "resting sess" "canonicalSessionKey (ss_Key sess) = ss_Key sess"
    "sc_store (dk_app w) = Some st"
  obtains v st' where "dk_app w' = (dk_app w)\<lparr>sc_store := Some st'\<rparr>" "resting v" "ss_Key v = ss_Key sess"
    "st_runtime st' = (st_runtime st)\<lparr>rt_Sessions := AList.update (ss_Key sess) v (rt_Sessions (st_runtime st))\<rparr>"
proof -
  let ?n = "dk_calls w" and ?f = "scoped_form (dk_app w) (cloneSession sess)"
  let ?v = "(normalizeSessionValues (cloneSession ?f))\<lparr>ss_UpdatedAt := dp_now q ?n\<rparr>"
  have k: "ss_Key (cloneSession sess) = ss_Key sess" by (rule clone_key)
  have f: "work_of ?f = work_of sess" "ss_Status ?f = SessionStatusIdle"
    using scoped_form_work [of "cloneSession sess" "dk_app w"] clone_work [of sess] assms(2,3) k idle_normal
    by (simp_all add: resting_def)
  have v: "work_of ?v = work_of sess" "ss_Status ?v = SessionStatusIdle"
    using normalize_work [of "cloneSession ?f"] clone_work [of ?f] f idle_normal by (simp_all add: work_of_def)
  then have "ss_Key ?v = ss_Key sess" "resting ?v" using assms(2) by (simp_all add: work_of_def resting_def)
  moreover obtain st' where "saveLocked (dp_io q ?n)
      (syncPersistentSessionLocked ?v (put_session (ss_Key ?v) ?v st)) = (st', None)"
      "dk_app w' = (dk_app w)\<lparr>sc_store := Some st'\<rparr>"
    using assms(1,4)
    by (auto simp: save_session_def on_app_def SaveSession_def on_store_def UpsertSession_def Let_def
        split: prod.splits if_splits)
  moreover from this(1) have "st_runtime st' =
      (st_runtime st)\<lparr>rt_Sessions := AList.update (ss_Key ?v) ?v (rt_Sessions (st_runtime st))\<rparr>"
    using saveLocked_runtime [of "dp_io q ?n" "syncPersistentSessionLocked ?v (put_session (ss_Key ?v) ?v st)"]
    by (simp add: syncPersistentSessionLocked_def put_session_def)
  ultimately show ?thesis using that by metis
qed

abbreviation held_sessions :: "Store \<Rightarrow> Session table" where
  "held_sessions st \<equiv> rt_Sessions (st_runtime st)"

abbreviation held_requests :: "Store \<Rightarrow> PendingRequest table" where
  "held_requests st \<equiv> rt_PendingRequests (st_runtime st)"

lemma map_fst_update: "k \<in> fst ` set t \<Longrightarrow> map fst (AList.update k v t) = map fst t"
  by (induction t) auto

lemma reset_sessions_resting:
  assumes "reset_sessions p xs w = (w', None)" "sc_store (dk_app w) = Some st"
    "\<forall>x\<in>set xs. canonicalSessionKey (ss_Key x) = ss_Key x \<and> ss_Key x \<in> fst ` set (held_sessions st)"
  shows "\<exists>st'. dk_app w' = (dk_app w)\<lparr>sc_store := Some st'\<rparr> \<and>
    map fst (held_sessions st') = map fst (held_sessions st) \<and> held_requests st' = held_requests st \<and>
    (\<forall>k. if k \<in> ss_Key ` set xs then \<exists>v. map_of (held_sessions st') k = Some v \<and> ss_Key v = k \<and> resting v
         else map_of (held_sessions st') k = map_of (held_sessions st) k)"
  using assms
proof (induction xs arbitrary: w st)
  case Nil
  then show ?case by (intro exI [of _ st]) simp
next
  case (Cons x xs)
  let ?x = "reset_session (qp_DefaultWorkspaceID (cv_queue p)) x"
  obtain w1 where w1: "save_session (cv_queue p) ?x w = (w1, None)" "reset_sessions p xs w1 = (w', None)"
    using Cons.prems(1) by (auto split: prod.splits option.splits)
  obtain v st1 where st1: "dk_app w1 = (dk_app w)\<lparr>sc_store := Some st1\<rparr>" "resting v" "ss_Key v = ss_Key x"
    "st_runtime st1 = (st_runtime st)\<lparr>rt_Sessions := AList.update (ss_Key x) v (held_sessions st)\<rparr>"
    using save_resting [OF w1(1) reset_resting(1)] Cons.prems(2,3) reset_resting(2) by (metis list.set_intros(1))
  have fst1: "map fst (held_sessions st1) = map fst (held_sessions st)"
    using Cons.prems(3) st1(4) by (simp add: map_fst_update)
  then have dom1: "fst ` set (held_sessions st1) = fst ` set (held_sessions st)" by (metis list.set_map)
  have "sc_store (dk_app w1) = Some st1" using st1(1) by simp
  moreover have "\<forall>y\<in>set xs. canonicalSessionKey (ss_Key y) = ss_Key y \<and> ss_Key y \<in> fst ` set (held_sessions st1)"
    using Cons.prems(3) dom1 by simp
  ultimately obtain st' where st': "dk_app w' = (dk_app w1)\<lparr>sc_store := Some st'\<rparr>"
    "map fst (held_sessions st') = map fst (held_sessions st1)" "held_requests st' = held_requests st1"
    "\<forall>k. if k \<in> ss_Key ` set xs then \<exists>v. map_of (held_sessions st') k = Some v \<and> ss_Key v = k \<and> resting v
         else map_of (held_sessions st') k = map_of (held_sessions st1) k"
    using Cons.IH [OF w1(2)] by blast
  have "if k \<in> ss_Key ` set (x # xs) then \<exists>v. map_of (held_sessions st') k = Some v \<and> ss_Key v = k \<and> resting v
      else map_of (held_sessions st') k = map_of (held_sessions st) k" for k
    using st'(4) st1(2-4) by (cases "k \<in> ss_Key ` set xs"; cases "k = ss_Key x") (auto split: if_splits)
  then show ?case
    using st1(1,4) st'(1-3) fst1 by (intro exI [of _ st']) simp
qed

lemma expired_closed: "\<not> needs_expiry (normalizePendingRequestValues (expired_request now r))"
  "pr_FrontendID (normalizePendingRequestValues (expired_request now r)) = pr_FrontendID r"
proof -
  have "NormalizePendingRequestStatus ''expired'' = ''expired''" by code_simp
  moreover have "trim ''expired'' \<notin> {''pending'', ''replied'', ''processing'', ''cancelling''}" by code_simp
  ultimately show "\<not> needs_expiry (normalizePendingRequestValues (expired_request now r))"
    by (simp only: needs_expiry_def normalizePendingRequestValues_def expired_request_def PendingRequest.simps) simp
qed (simp add: normalizePendingRequestValues_def expired_request_def)

definition to_expire :: "ScopedStore \<Rightarrow> PendingRequest list \<Rightarrow> string set" where
  "to_expire s rs = (\<lambda>r. pendingStoreKey (sc_frontendID s) (trim (pr_ID r))) ` {r\<in>set rs. needs_expiry r}"

lemma expire_requests_closed:
  assumes "expire_requests now rs s = (s', None)" "sc_store s = Some st" "\<forall>r\<in>set rs. trim (pr_ID r) \<noteq> []"
  shows "\<exists>st'. s' = s\<lparr>sc_store := Some st'\<rparr> \<and> held_sessions st' = held_sessions st \<and>
    map fst (held_requests st') = map fst (held_requests st) \<and>
    (\<forall>k r'. map_of (held_requests st') k = Some r' \<longrightarrow>
       (\<exists>r. map_of (held_requests st) k = Some r \<and> pr_FrontendID r = pr_FrontendID r' \<and>
            (needs_expiry r' \<longrightarrow> r = r' \<and> k \<notin> to_expire s rs)))"
  using assms
proof (induction rs arbitrary: s st)
  case Nil
  then show ?case by (intro exI [of _ st]) (simp add: to_expire_def)
next
  case (Cons r rs)
  show ?case
  proof (cases "needs_expiry r")
    case False
    then have "to_expire s (r # rs) = to_expire s rs" by (auto simp: to_expire_def)
    then show ?thesis using Cons.IH [of s st] Cons.prems False by simp
  next
    case True
    let ?k = "pendingStoreKey (sc_frontendID s) (trim (pr_ID r))"
    obtain s1 where s1: "UpdatePending (pr_ID r) (expired_request now) s = (s1, None)" "expire_requests now rs s1 = (s', None)"
      using Cons.prems(1) True by (auto split: prod.splits option.splits)
    obtain r0 where r0: "map_of (held_requests st) ?k = Some r0"
      "s1 = s\<lparr>sc_store := Some (st_runtime_update (rt_PendingRequests_update
         (AList.update ?k (normalizePendingRequestValues (expired_request now r0)))) st)\<rparr>"
      using s1(1) Cons.prems(2,3)
      by (auto simp: UpdatePending_def on_store_def UpdateScopedPending_def Let_def split: prod.splits option.splits if_splits)
    let ?st1 = "st_runtime_update (rt_PendingRequests_update
         (AList.update ?k (normalizePendingRequestValues (expired_request now r0)))) st"
    have store: "sc_store s1 = Some ?st1" by (simp add: r0(2))
    have tail: "\<forall>r\<in>set rs. trim (pr_ID r) \<noteq> []" using Cons.prems(3) by simp
    obtain st' where st': "s' = s1\<lparr>sc_store := Some st'\<rparr>" "held_sessions st' = held_sessions ?st1"
      "map fst (held_requests st') = map fst (held_requests ?st1)"
      "\<forall>k r'. map_of (held_requests st') k = Some r' \<longrightarrow>
         (\<exists>r. map_of (held_requests ?st1) k = Some r \<and> pr_FrontendID r = pr_FrontendID r' \<and>
            (needs_expiry r' \<longrightarrow> r = r' \<and> k \<notin> to_expire s1 rs))"
      using Cons.IH [OF s1(2) store tail] by blast
    have e: "to_expire s (r # rs) = insert ?k (to_expire s1 rs)"
      using True by (auto simp: to_expire_def r0(2))
    have "\<exists>q. map_of (held_requests st) k = Some q \<and> pr_FrontendID q = pr_FrontendID r' \<and>
        (needs_expiry r' \<longrightarrow> q = r' \<and> k \<notin> to_expire s (r # rs))" if a: "map_of (held_requests st') k = Some r'" for k r'
    proof -
      obtain q where q: "map_of (held_requests ?st1) k = Some q" "pr_FrontendID q = pr_FrontendID r'"
        "needs_expiry r' \<longrightarrow> q = r' \<and> k \<notin> to_expire s1 rs"
        using st'(4) a by blast
      show ?thesis
      proof (cases "k = ?k")
        case True
        then have "q = normalizePendingRequestValues (expired_request now r0)" using q(1) by simp
        then have "\<not> needs_expiry r'" "pr_FrontendID r0 = pr_FrontendID r'" using expired_closed q(2,3) by metis+
        then show ?thesis using r0(1) True by blast
      next
        case False
        then show ?thesis using q by (simp add: e)
      qed
    qed
    moreover have "?k \<in> fst ` set (held_requests st)" using r0(1) by (metis map_of_eq_None_iff option.distinct(1))
    then have "map fst (held_requests ?st1) = map fst (held_requests st)" by (simp add: map_fst_update)
    ultimately show ?thesis using st'(1-3) by (intro exI [of _ st']) (simp add: r0(2))
  qed
qed

lemma session_keys:
  assumes "\<forall>(k, v)\<in>set (held_sessions st). ss_Key v = k" "sc_store s = Some st"
  shows "map ss_Key (scoped_Sessions s) = filter (ownsSessionKey s) (map fst (held_sessions st))"
proof -
  have "map ss_Key (filter (\<lambda>sess. ownsSessionKey s (ss_Key sess)) (map cloneSession (map snd t))) =
      filter (ownsSessionKey s) (map fst t)" if "\<forall>(k, v)\<in>set t. ss_Key v = k" for t
    using that by (induction t) (auto simp: clone_key)
  then show ?thesis using assms by (simp add: scoped_Sessions_def of_store_def AllSessions_def)
qed

text \<open>
  C33. After a start of the process nothing runs. When the reset reports no error, every session
  of the frontend is still there and at rest (idle, no operation, no turn, nothing queued or staged), and
  no interaction of the frontend is open, being answered or being cancelled.
\<close>

theorem startup_leaves_nothing_running:
  assumes "startup_ready (dk_app w)" "Reset_startup p w = (w', None)"
  shows "map ss_Key (app_sessions w') = map ss_Key (app_sessions w) \<and>
    (\<forall>sess\<in>set (app_sessions w'). resting sess \<and> \<not> HasActiveWork (Some sess)) \<and>
    (\<forall>req\<in>set (scoped_PendingRequests (dk_app w')). \<not> needs_expiry req \<and> \<not> IsPendingRequestOpen (pr_Status req))"
proof (cases "sc_store (dk_app w)")
  case None
  then have "scoped_Sessions (dk_app w) = []" "scoped_PendingRequests (dk_app w) = []"
    by (simp_all add: scoped_Sessions_def scoped_PendingRequests_def of_store_def)
  then have "dk_app w' = dk_app w" using assms(2)
    by (simp add: Reset_startup_def ExpireInteractions_def on_app_def) auto
  then show ?thesis using None by (simp add: scoped_Sessions_def scoped_PendingRequests_def of_store_def)
next
  case (Some st)
  let ?s = "dk_app w"
  have ready: "distinct (map fst (held_sessions st))"
    "\<And>k v. (k, v) \<in> set (held_sessions st) \<Longrightarrow> ss_Key v = k \<and> canonicalSessionKey k = k"
    "\<And>k r. (k, r) \<in> set (held_requests st) \<Longrightarrow> matchesFrontend ?s (pr_FrontendID r) \<Longrightarrow>
       k = pendingStoreKey (sc_frontendID ?s) (trim (pr_ID r)) \<and> trim (pr_ID r) \<noteq> []"
    using assms(1) Some unfolding startup_ready_def by auto
  obtain w1 where w1: "reset_sessions p (app_sessions w) w = (w1, None)" "ExpireInteractions p w1 = (w', None)"
    using assms(2) by (auto simp: Reset_startup_def split: prod.splits option.splits)
  have "\<forall>x\<in>set (app_sessions w). canonicalSessionKey (ss_Key x) = ss_Key x \<and> ss_Key x \<in> fst ` set (held_sessions st)"
    using ready(2) Some by (force simp: scoped_Sessions_def of_store_def AllSessions_def clone_key)
  then obtain st1 where st1: "dk_app w1 = ?s\<lparr>sc_store := Some st1\<rparr>"
    "map fst (held_sessions st1) = map fst (held_sessions st)" "held_requests st1 = held_requests st"
    "\<forall>k. if k \<in> ss_Key ` set (app_sessions w)
         then \<exists>v. map_of (held_sessions st1) k = Some v \<and> ss_Key v = k \<and> resting v
         else map_of (held_sessions st1) k = map_of (held_sessions st) k"
    using reset_sessions_resting [OF w1(1) Some] by blast
  let ?rs = "scoped_PendingRequests (dk_app w1)"
  have rs: "r \<in> set ?rs \<longleftrightarrow> r \<in> snd ` set (held_requests st) \<and> matchesFrontend ?s (pr_FrontendID r)" for r
    by (auto simp: scoped_PendingRequests_def of_store_def AllPendingRequests_def st1(1,3) matchesFrontend_def)
  have "\<forall>r\<in>set ?rs. trim (pr_ID r) \<noteq> []" using rs ready(3) by force
  moreover obtain n where "expire_requests n ?rs (dk_app w1) = (dk_app w', None)"
    using w1(2) by (auto simp: ExpireInteractions_def on_app_def split: prod.splits)
  moreover have "sc_store (dk_app w1) = Some st1" by (simp add: st1(1))
  ultimately obtain st' where st': "dk_app w' = (dk_app w1)\<lparr>sc_store := Some st'\<rparr>"
    "held_sessions st' = held_sessions st1" "map fst (held_requests st') = map fst (held_requests st1)"
    "\<forall>k r'. map_of (held_requests st') k = Some r' \<longrightarrow>
       (\<exists>r. map_of (held_requests st1) k = Some r \<and> pr_FrontendID r = pr_FrontendID r' \<and>
            (needs_expiry r' \<longrightarrow> r = r' \<and> k \<notin> to_expire (dk_app w1) ?rs))"
    using expire_requests_closed by blast
  have front: "sc_frontendID (dk_app w1) = sc_frontendID ?s" "ownsSessionKey (dk_app w') = ownsSessionKey ?s"
    "sc_store (dk_app w') = Some st'" "matchesFrontend (dk_app w') = matchesFrontend ?s"
    by (auto simp: st'(1) st1(1) ownsSessionKey_def matchesFrontend_def fun_eq_iff)
  have dist: "distinct (map fst (held_sessions st'))" using ready(1) st1(2) st'(2) by simp
  have key: "ss_Key v = k" "resting v \<or> k \<notin> ss_Key ` set (app_sessions w) \<and> (k, v) \<in> set (held_sessions st)"
    if "(k, v) \<in> set (held_sessions st')" for k v
  proof -
    have m: "map_of (held_sessions st1) k = Some v" using that dist st'(2) by simp
    have "ss_Key v = k \<and> (resting v \<or> k \<notin> ss_Key ` set (app_sessions w) \<and> (k, v) \<in> set (held_sessions st))"
    proof (cases "k \<in> ss_Key ` set (app_sessions w)")
      case True
      then show ?thesis using st1(4) [rule_format, of k] m by auto
    next
      case False
      then have "(k, v) \<in> set (held_sessions st)" using st1(4) [rule_format, of k] m map_of_SomeD [of "held_sessions st" k v] by simp
      then show ?thesis using False ready(2) by blast
    qed
    then show "ss_Key v = k" "resting v \<or> k \<notin> ss_Key ` set (app_sessions w) \<and> (k, v) \<in> set (held_sessions st)"
      by blast+
  qed
  have names: "map ss_Key (app_sessions w) = filter (ownsSessionKey ?s) (map fst (held_sessions st))"
    "map ss_Key (app_sessions w') = filter (ownsSessionKey ?s) (map fst (held_sessions st))"
    using session_keys [OF _ Some] ready(2) session_keys [OF _ front(3)] key(1) st1(2) st'(2) front(2) by auto
  have rest: "resting sess" if "sess \<in> set (app_sessions w')" for sess
  proof -
    obtain k v where v: "(k, v) \<in> set (held_sessions st')" "sess = cloneSession v" "ownsSessionKey ?s (ss_Key sess)"
      using \<open>sess \<in> set (app_sessions w')\<close>
      by (auto simp: scoped_Sessions_def of_store_def AllSessions_def front)
    then have k: "ss_Key sess = k" using key(1) by (simp add: clone_key)
    have "k \<in> set (map fst (held_sessions st))" using v(1) st'(2) st1(2) by (metis fst_conv image_eqI list.set_map)
    then have "k \<in> set (map ss_Key (app_sessions w))" unfolding names(1) using v(3) k by simp
    then show ?thesis using key(2) [OF v(1)] v(2) resting_clone by auto
  qed
  then have "\<not> HasActiveWork (Some sess)" if "sess \<in> set (app_sessions w')" for sess
    using that resting_idle by blast
  moreover have "\<not> needs_expiry req" if r: "req \<in> set (scoped_PendingRequests (dk_app w'))" for req
  proof
    assume open_req: "needs_expiry req"
    obtain k where k: "(k, req) \<in> set (held_requests st')" "matchesFrontend ?s (pr_FrontendID req)"
      using r by (auto simp: scoped_PendingRequests_def of_store_def AllPendingRequests_def front)
    have "distinct (map fst (held_requests st'))"
      using assms(1) Some st1(3) st'(3) unfolding startup_ready_def by simp
    then have "map_of (held_requests st') k = Some req" using k(1) by simp
    then have q: "map_of (held_requests st) k = Some req" "k \<notin> to_expire (dk_app w1) ?rs"
      using st'(4) open_req st1(3) by force+
    have "(k, req) \<in> set (held_requests st)" using q(1) by (rule map_of_SomeD)
    then have "req \<in> set ?rs" "k = pendingStoreKey (sc_frontendID ?s) (trim (pr_ID req))"
      using rs k(2) ready(3) by (force, blast)
    then show False using q(2) open_req by (auto simp: to_expire_def front(1))
  qed
  then have "\<forall>req\<in>set (scoped_PendingRequests (dk_app w')). \<not> needs_expiry req \<and> \<not> IsPendingRequestOpen (pr_Status req)"
    by (auto simp: needs_expiry_def IsPendingRequestOpen_def)
  ultimately show ?thesis using rest names by simp
qed

text \<open>A session whose turn ran when the process ended, with a submission queued and a question open.\<close>

definition interrupted_chat :: Session where
  "interrupted_chat = zero_Session\<lparr>ss_Key := ''feishu:frontend:f:chat:c'', ss_Status := ''turn_in_progress'',
     ss_WorkspaceID := ''w'', ss_ActiveTurnID := ''t'', ss_ActiveSubmissionID := ''s'', ss_Queue := [''q'']\<rparr>"

definition interrupted_question :: PendingRequest where
  "interrupted_question = zero_PendingRequest\<lparr>pr_ID := ''r'', pr_FrontendID := ''f'', pr_Status := ''pending''\<rparr>"

definition interrupted_app :: ScopedStore where
  "interrupted_app = NewScoped (Some (st_runtime_update
     (\<lambda>r. r\<lparr>rt_Sessions := [(''feishu:frontend:f:chat:c'', interrupted_chat)],
            rt_PendingRequests := [(''frontend:f:pending:r'', interrupted_question)]\<rparr>) empty_Store)) ''f'' ''codex''"

definition interrupted_desk :: Desk where
  "interrupted_desk =
     \<lparr>dk_app = interrupted_app, dk_turns = NewTurnTracker, dk_live = [], dk_starts = [], dk_retry = NewTracker,
      dk_goals = NewGoalTracker, dk_calls = 0, dk_effects = []\<rparr>"

lemma interrupted_keys:
  "fst (ParseSessionKey ''feishu:frontend:f:chat:c'') = ''f''"
  "canonicalSessionKey ''feishu:frontend:f:chat:c'' = ''feishu:frontend:f:chat:c''"
  "pendingStoreKey ''f'' ''r'' = ''frontend:f:pending:r''" "trim ''r'' = ''r''" "trim ''f'' = ''f''" "trim ''pending'' = ''pending''"
  by code_simp+

lemma interrupted_store:
  "sc_store interrupted_app = Some (st_runtime_update
     (\<lambda>r. r\<lparr>rt_Sessions := [(''feishu:frontend:f:chat:c'', interrupted_chat)],
            rt_PendingRequests := [(''frontend:f:pending:r'', interrupted_question)]\<rparr>) empty_Store)"
  "sc_frontendID interrupted_app = ''f''"
  by (simp_all add: interrupted_app_def NewScoped_def interrupted_keys)

lemma interrupted_parts [simp]:
  "ss_Key interrupted_chat = ''feishu:frontend:f:chat:c''" "pr_ID interrupted_question = ''r''"
  "pr_FrontendID interrupted_question = ''f''" "pr_Status interrupted_question = ''pending''"
  "dk_app interrupted_desk = interrupted_app"
  by (simp_all add: interrupted_chat_def interrupted_question_def interrupted_desk_def)

lemma interrupted_sessions: "scoped_Sessions interrupted_app = [cloneSession interrupted_chat]"
  by (simp add: scoped_Sessions_def of_store_def AllSessions_def interrupted_store clone_key ownsSessionKey_def
      matchesFrontend_def interrupted_keys)

lemma interrupted_ready: "startup_ready interrupted_app"
  by (simp add: startup_ready_def interrupted_store interrupted_keys matchesFrontend_def)

lemma save_succeeds:
  assumes "sc_store (dk_app w) = Some st" "ownsSessionKey (dk_app w) (ss_Key x)" "dp_io q (dk_calls w) = None"
  obtains w' where "save_session q x w = (w', None)"
  using assms
  by (auto simp: save_session_def on_app_def SaveSession_def on_store_def UpsertSession_def saveLocked_def Let_def)

lemma interrupted_reset:
  assumes "\<And>n. dp_io (cv_queue p) n = None"
  shows "\<exists>w'. Reset_startup p interrupted_desk = (w', None)"
proof -
  let ?x = "reset_session (qp_DefaultWorkspaceID (cv_queue p)) (cloneSession interrupted_chat)"
  have k: "ss_Key ?x = ''feishu:frontend:f:chat:c''" by (simp add: reset_resting clone_key)
  have "ownsSessionKey (dk_app interrupted_desk) (ss_Key ?x)"
    by (simp add: k ownsSessionKey_def matchesFrontend_def interrupted_store interrupted_keys)
  then obtain w1 where w1: "save_session (cv_queue p) ?x interrupted_desk = (w1, None)"
    using save_succeeds interrupted_store(1) assms by (metis interrupted_parts(5))
  obtain v st1 where st1: "dk_app w1 = interrupted_app\<lparr>sc_store := Some st1\<rparr>"
    "held_requests st1 = [(''frontend:f:pending:r'', interrupted_question)]"
  proof (rule save_resting [OF w1 reset_resting(1)])
    show "canonicalSessionKey (ss_Key ?x) = ss_Key ?x" by (simp only: k interrupted_keys)
    show "sc_store (dk_app interrupted_desk) = Some (st_runtime_update
       (\<lambda>r. r\<lparr>rt_Sessions := [(''feishu:frontend:f:chat:c'', interrupted_chat)],
              rt_PendingRequests := [(''frontend:f:pending:r'', interrupted_question)]\<rparr>) empty_Store)"
      by (simp add: interrupted_store)
  qed (use that in auto)
  have "scoped_PendingRequests (dk_app w1) = [interrupted_question]"
    by (simp add: scoped_PendingRequests_def of_store_def AllPendingRequests_def st1 matchesFrontend_def interrupted_keys
        interrupted_store)
  moreover have "snd (UpdatePending ''r'' f (dk_app w1)) = None" for f
    by (simp add: UpdatePending_def on_store_def UpdateScopedPending_def st1 interrupted_store interrupted_keys)
  then obtain s1 where "UpdatePending ''r'' (expired_request (dp_now (cv_queue p) (dk_calls w1))) (dk_app w1) = (s1, None)"
    by (metis prod.collapse)
  moreover have "needs_expiry interrupted_question" by (simp add: needs_expiry_def interrupted_keys)
  ultimately obtain w2 where "ExpireInteractions p w1 = (w2, None)"
    by (simp add: ExpireInteractions_def on_app_def)
  then show ?thesis using w1 by (simp add: Reset_startup_def interrupted_sessions)
qed

theorem startup_leaves_nothing_running_witness:
  "\<exists>p w w'. startup_ready (dk_app w) \<and> Reset_startup p w = (w', None) \<and> \<not> list_all resting (app_sessions w) \<and>
     map ss_Key (app_sessions w') = [''feishu:frontend:f:chat:c''] \<and> list_all resting (app_sessions w')"
proof -
  obtain p :: conversation_ports where "\<And>n. dp_io (cv_queue p) n = None"
    by (rule that [of "undefined\<lparr>cv_queue := undefined\<lparr>dp_io := \<lambda>_. None\<rparr>\<rparr>"]) simp
  then obtain w' where r: "Reset_startup p interrupted_desk = (w', None)" using interrupted_reset by blast
  have "startup_ready (dk_app interrupted_desk)" by (simp add: interrupted_ready)
  from startup_leaves_nothing_running [OF this r] this r
  have "startup_ready (dk_app interrupted_desk)" "map ss_Key (app_sessions w') = [''feishu:frontend:f:chat:c'']"
    "list_all resting (app_sessions w')"
    by (simp_all add: interrupted_sessions clone_key list_all_iff)
  moreover have "\<not> resting (cloneSession interrupted_chat)"
    using clone_work(1) [of interrupted_chat] by (simp add: resting_def work_of_def interrupted_chat_def)
  ultimately show ?thesis using r interrupted_sessions by (intro exI [of _ p] exI [of _ interrupted_desk] exI [of _ w']) simp
qed

end
