(* ===== verification/Spec2Isabelle.thy ===== *)
theory Spec2Isabelle
  imports Store_Invariants Primary_Storage Inbound_Dedup Submission_Queue Session_Actors
    Binding_Replay Feature_Registry Workspace_Lifecycle Workspace_Planning Maintenance_Service
    Backend_Selection Backend_Failure Request_Pacing
    Coalesced_Refresh Conversation_Service
begin

text \<open>
  feidex connects Feishu chats to coding agents (Codex, Claude). A message of a chat is routed to
  the one bot that may answer it, becomes a submission in the queue of the chat's session, runs
  as a turn of a backend, may ask the user questions (interactions), and ends in a terminal
  commit of the state store. This development models that core: the domain packages
  (\<open>internal/domain/...\<close>), the use cases over them, and the store
  (\<open>internal/state\<close>) that keeps their records in memory and in a JSON snapshot.

  The theories, in the order they build on each other.

  \<^item> \<open>Go_Prelude\<close>: Go strings and the functions of package \<open>strings\<close> the code calls, with their
    laws; \<open>textutil.FirstNonEmpty\<close>; pointers that may be nil as options. Two collections carry
    the component proofs.
  \<^item> \<open>Identity\<close> (\<open>domain/identity\<close>): session keys, their parser and canonical form.
  \<^item> \<open>Model_Config\<close> (\<open>domain/modelconfig/config.go\<close>): the settings of five tiers, resolved with
    the origin of each value.
  \<^item> \<open>Routing_Settings\<close> (\<open>domain/routing/settings.go, binding.go\<close>): the named settings of a
    binding and of a bot profile.
  \<^item> \<open>Messages\<close>, \<open>Group_Primary\<close> (\<open>application/message.go, message_routing.go\<close>;
    \<open>domain/routing/primary.go, group_message.go\<close>; \<open>application/routing/primary.go,
    group_messages.go\<close>; \<open>feishuapp/group_primary.go\<close>): which bot of a group answers. The
    locale \<open>primary_repository\<close> is the port of the use case.
  \<^item> \<open>Conversation_Data\<close>, \<open>Conversation\<close> (\<open>domain/conversation\<close>): the session, its active
    operations, its queue, switching workspace and backend.
  \<^item> \<open>Queue_Contract\<close>: the locale \<open>dedup_queue\<close>, interpreted by the queue of a session in
    \<open>Conversation\<close> and by the queue of the store in \<open>Store_Work\<close>.
  \<^item> \<open>Submission\<close> (\<open>domain/submission\<close>, \<open>domain/turn\<close>, \<open>domain/backend\<close>) and \<open>Interaction\<close>
    (\<open>domain/interaction\<close>): their records, transitions and policies.
  \<^item> \<open>Store_Data\<close>, \<open>Store\<close>, \<open>Store_Sessions\<close> (\<open>state/types.go, store.go\<close>): the normal forms of
    the records, every operation of the store, the stored form of a session.
  \<^item> \<open>Store_Commit\<close> (\<open>state/terminal_transition.go, backend_lifecycle.go,
    workspace_lifecycle.go\<close>) and \<open>Store_Migration\<close> (\<open>CanonicalizeSessionKeys\<close>): the operations
    that replace several records at once.
  \<^item> \<open>Store_Invariants\<close>: the operations as one step relation with a restart of the process, the
    invariant of the reachable states. \<open>Store_Work\<close>: queues, submission ids, notifications.
  \<^item> \<open>Primary_Storage\<close> (\<open>adapter/storage/json/group_primary.go\<close>): the repository of
    \<open>Group_Primary\<close> on the store; it interprets \<open>primary_repository\<close>.
  \<^item> \<open>Scoped_Store\<close> (\<open>adapter/storage/json\<close>): the view of one frontend on the store, which may be
    absent. \<open>Interaction_Service\<close> (\<open>application/interaction\<close>): forms, delivery and replies.
  \<^item> \<open>Auto_Retry\<close> (\<open>application/autoretry\<close>): the retry of failed turns and its timers.
    \<open>Inbound_Dedup\<close> (\<open>runtime/inbound.go\<close>): messages that arrive twice.
  \<^item> \<open>Runtime_State\<close> (\<open>runtime/submission_start.go, live_threads.go, turnbinding,
    maintenance\<close>): what a process remembers between messages. \<open>Goals\<close> (\<open>application/goal\<close>).
  \<^item> \<open>Dispatch\<close> (\<open>application/submission/scheduling\<close>): which session of a group may start.
  \<^item> \<open>Effects\<close> (\<open>application/effect.go, runtime/effect_runner.go, effect_deduper.go\<close>) and
    \<open>Session_Actors\<close> (\<open>runtime/session_actors.go\<close>): the effects of a use case and the order in
    which they run.
  \<^item> \<open>Pending_Queue\<close>: the desk, the state the use cases of a turn share (the scoped store, the
    retries, the turns, the live threads, the goals, and the list of the effects so far), and the
    staged images and discarded inputs. \<open>Routing_Configuration\<close>, \<open>Workspace_Selection\<close>,
    \<open>Model_Settings\<close>, \<open>Plan_Confirmation\<close>, \<open>Compaction\<close>, \<open>Goal_Continuation\<close>,
    \<open>Binding_Replay\<close>: one use case each on the desk.
  \<^item> \<open>Submission_Start\<close>, \<open>Turn_Lifecycle\<close>, \<open>Submission_Queue\<close> (\<open>application/submission,
    application/turn\<close>): the start of a submission on either backend, the end of its turn, and
    the queue that composes them, from the message to the next start.
  \<^item> \<open>Versions\<close> (\<open>release/github.go\<close>), \<open>Commands\<close> and \<open>Feature_Registry\<close>
    (\<open>application/features\<close>): versions, command lines, the table of capabilities and menus.
  \<^item> \<open>Go_Path\<close> (package \<open>filepath\<close>) and \<open>Configuration\<close> (\<open>config\<close>): the configuration file and
    its normal form. \<open>Configuration_Store\<close> (\<open>adapter/config\<close>, \<open>application/runtimeconfig,
    backendconfig, workspace\<close>): its operations, alone and with a commit of the store.
    \<open>Workspace_Lifecycle\<close> (\<open>application/workspace/lifecycle.go\<close>): switching, creating and deleting
    workspaces. \<open>Workspace_Planning\<close> (\<open>planning.go, operations.go, path_values.go\<close> there): what a
    clone or a worktree will create.
  \<^item> \<open>Maintenance_Service\<close> (\<open>application/backendmaintenance\<close>): the upgrade and the restart of a
    backend, from the question to the last message. \<open>Backend_Selection\<close> (\<open>application/frontend,
    backendselection\<close>): when a frontend is idle, and its switch to another backend.
    \<open>Backend_Failure\<close> (\<open>application/backendfailure\<close>): the work that fails with a backend.
    \<open>Request_Pacing\<close> (\<open>feishu/message_rate_limit.go\<close>): the rate limits of the platform.
    \<open>Coalesced_Refresh\<close> (\<open>runtime/coalesced_refresh.go\<close>): refreshes asked for in bursts.
  \<^item> \<open>Conversation_Service\<close> (\<open>application/conversation\<close>): threads started, resumed and forked, the
    commands new, resume and stop, and the state after a start of the process.

  Correspondence. A definition has the name of its Go function; a name that more than one type
  has, or that HOL uses, has a prefix or suffix. Struct fields are record fields with a prefix per
  type. A pointer that may be nil is an option. A method that writes through its receiver returns
  the new value. A function that returns an error returns a sum, the error on the left; an
  operation of the store returns the store as well, because a failed call may keep changes. A Go
  map is an association list with one entry per key (\<open>table\<close>); where the code ranges over a map
  the model uses the order of the list, and the theorems hold for every order. The \<open>Store\<close> is the
  value behind its mutex; every exported operation holds the lock from its first to its last read
  or write, so an operation is one step. Counters and times are unbounded (nat, int): no theorem
  depends on their wrap-around at 64 bits, which the code does not handle.

  Parameters. The file system is an argument \<open>io\<close> of the operations that save: it says whether
  the write fails, and with what error. The clock is an argument (\<open>now\<close>), the
  formatted time of a submission id too (\<open>stamp\<close>). \<open>ToLower\<close> is modelled on ASCII letters, the
  letters of every word the code compares with. \<open>reflect.DeepEqual\<close> is equality of the records,
  with maps compared as maps; the model does not distinguish a nil from an empty slice.

  What is shown. Identity and settings: canonical keys are stable and round trip; a resolved value
  is the value of the tier it is attributed to; the fast resolver agrees with the traced one.
  Group primaries: at most one bot of a chat is primary after any assignments; delivery is decided
  by mentions first. Conversation: the legacy fields mirror the first active operation in every
  reachable session; insertions and removals have the stated effect; switching away and back
  restores a backend; the queue is first in, first out without duplicates. Submissions and
  interactions: no start request is lost; a request is resolved at most once. Store: one primary
  record per chat and one profile per frontend in every reachable state; a failed update changes
  nothing; sessions survive a restart; the three commits are atomic and refuse a changed
  precondition; rewriting keys keeps the work of every session; the store's repository satisfies
  the port's contract; notifications refine a finite map. Runtime: effects of one identity succeed
  once under every interleaving and a failed run resumes where it stopped; one function of a
  session runs at a time; starts are exclusive and no request for one is lost; the retry timers
  start once. Use cases: a proposed objective keeps an unfinished goal; defaults are written to
  both tiers; every menu leads to the main menu and a line has one command; nothing refers to a
  workspace after its deletion; a worktree is planned at a free place beside its repository; a
  confirmed upgrade ends and excludes others until then; a switch of the backend is all or
  nothing; a pacer keeps its rate; no request for a refresh is lost; after a start nothing runs.

  Not modelled. The Feishu SDK adapter and cards, the transports of Codex and Claude, the process
  control of daemon, install and upgrade, and the composition of the program are I/O or glue and
  are listed in the manifest with the reason. The JSON encoding of a snapshot is modelled as the
  snapshot itself: the store's contract with its file is that a load reads what a save wrote.
\<close>

end
